(* ===== verification/Prelude.thy ===== *)
theory Prelude
  imports Complex_Main "HOL-Library.Word" "HOL-Library.Char_ord" "HOL-Library.List_Lexorder"
begin

text \<open>
  Shared vocabulary of the development: the fact collections, the error-or-value type and its
  sequencing, stateful programs that may fail, and the parts of Python's \<open>str\<close> the code
  calls. A Python string is a list of characters; the model covers the code points of the 8-bit
  range, on which \<open>strip\<close>, \<open>lower\<close> and \<open>upper\<close> below agree with Python's.
\<close>

named_theorems py_defs \<open>definitions that evaluate the modelled operations\<close>
named_theorems guard_simps \<open>inversion of guarded, fallible computations\<close>

section \<open>Results\<close>

type_synonym seconds = rat
type_synonym uuid = nat
type_synonym byte = "8 word"
type_synonym bytes = "8 word list"

definition rbind :: "'e + 'a \<Rightarrow> ('a \<Rightarrow> 'e + 'b) \<Rightarrow> 'e + 'b" where
  "rbind r f = (case r of Inl e \<Rightarrow> Inl e | Inr a \<Rightarrow> f a)"

definition guard :: "bool \<Rightarrow> 'e \<Rightarrow> 'e + unit" where
  "guard b e = (if b then Inr () else Inl e)"

definition is_ok :: "'e + 'a \<Rightarrow> bool" where
  "is_ok r = (case r of Inl _ \<Rightarrow> False | Inr _ \<Rightarrow> True)"

lemma rbind_simps [simp]:
  "rbind (Inl e) f = Inl e"
  "rbind (Inr a) f = f a"
  by (simp_all add: rbind_def)

lemma rbind_eq_Inr [guard_simps]: "rbind r f = Inr b \<longleftrightarrow> (\<exists>a. r = Inr a \<and> f a = Inr b)"
  by (cases r) simp_all

lemma rbind_eq_Inl [guard_simps]:
  "rbind r f = Inl e \<longleftrightarrow> r = Inl e \<or> (\<exists>a. r = Inr a \<and> f a = Inl e)"
  by (cases r) simp_all

lemma guard_eq_Inr [simp, guard_simps]: "guard b e = Inr u \<longleftrightarrow> b"
  by (simp add: guard_def)

lemma guard_eq_Inl [simp, guard_simps]: "guard b e = Inl e' \<longleftrightarrow> \<not> b \<and> e' = e"
  by (auto simp: guard_def)

lemma guard_True [simp]: "guard True e = Inr ()"
  by (simp add: guard_def)

lemma guard_False [simp]: "guard False e = Inl e"
  by (simp add: guard_def)

lemma is_ok_simps [simp]: "is_ok (Inr a)" "\<not> is_ok (Inl e)"
  by (simp_all add: is_ok_def)

lemma is_ok_iff: "is_ok r \<longleftrightarrow> (\<exists>a. r = Inr a)"
  by (cases r) simp_all

text \<open>A sequence of \<open>if condition: raise error\<close> statements.\<close>

fun checks :: "(bool \<times> 'e) list \<Rightarrow> 'e + unit" where
  "checks [] = Inr ()"
| "checks ((b, e) # cs) = (if b then Inl e else checks cs)"

lemma checks_ok [simp]: "checks cs = Inr u \<longleftrightarrow> list_all (\<lambda>(b, e). \<not> b) cs"
  by (induction cs rule: checks.induct) auto

lemma checks_is_ok [simp]: "is_ok (checks cs) \<longleftrightarrow> list_all (\<lambda>(b, e). \<not> b) cs"
  by (simp add: is_ok_iff)

lemma checks_err: "checks cs = Inl e \<Longrightarrow> (True, e) \<in> set cs"
  by (induction cs rule: checks.induct) (auto split: if_splits)

lemma checks_error_in: "checks cs = Inl e \<Longrightarrow> list_all (\<lambda>(b, e). P e) cs \<Longrightarrow> P e"
  by (drule checks_err) (auto simp: list_all_iff)

lemma checks_all_pass: "list_all (\<lambda>(b, e). \<not> b) cs \<Longrightarrow> checks cs = Inr ()"
  by simp

text \<open>Checking every element of a tuple in order, stopping at the first error.\<close>

fun rmap :: "('a \<Rightarrow> 'e + 'b) \<Rightarrow> 'a list \<Rightarrow> 'e + 'b list" where
  "rmap f [] = Inr []"
| "rmap f (x # xs) = rbind (f x) (\<lambda>y. rbind (rmap f xs) (\<lambda>ys. Inr (y # ys)))"

lemma rmap_ok_iff: "is_ok (rmap f xs) \<longleftrightarrow> (\<forall>x \<in> set xs. is_ok (f x))"
  by (induction xs) (auto simp: is_ok_iff rbind_def split: sum.splits)

lemma rmap_length: "rmap f xs = Inr ys \<Longrightarrow> length ys = length xs"
  by (induction xs arbitrary: ys) (auto simp: guard_simps)

lemma rmap_id: "(\<And>x y. x \<in> set xs \<Longrightarrow> f x = Inr y \<Longrightarrow> y = x) \<Longrightarrow> rmap f xs = Inr ys \<Longrightarrow> ys = xs"
  by (induction xs arbitrary: ys) (auto simp: guard_simps)

section \<open>Stateful programs that may raise\<close>

text \<open>
  A computation that changes a state and may raise keeps the state reached when the exception
  left it: a database commit made before an exception stays committed.
\<close>

type_synonym ('s, 'e, 'a) prog = "'s \<Rightarrow> ('e + 'a) \<times> 's"

definition preturn :: "'a \<Rightarrow> ('s, 'e, 'a) prog" where
  "preturn a = (\<lambda>s. (Inr a, s))"

definition praise :: "'e \<Rightarrow> ('s, 'e, 'a) prog" where
  "praise e = (\<lambda>s. (Inl e, s))"

definition pbind :: "('s, 'e, 'a) prog \<Rightarrow> ('a \<Rightarrow> ('s, 'e, 'b) prog) \<Rightarrow> ('s, 'e, 'b) prog" where
  "pbind m f = (\<lambda>s. case m s of (Inl e, s') \<Rightarrow> (Inl e, s') | (Inr a, s') \<Rightarrow> f a s')"

definition plift :: "'e + 'a \<Rightarrow> ('s, 'e, 'a) prog" where
  "plift r = (\<lambda>s. (r, s))"

definition pguard :: "bool \<Rightarrow> 'e \<Rightarrow> ('s, 'e, unit) prog" where
  "pguard b e = (if b then preturn () else praise e)"

text \<open>A transaction: on an exception the state is rolled back.\<close>

definition ptxn :: "('s \<Rightarrow> 'e + ('a \<times> 's)) \<Rightarrow> ('s, 'e, 'a) prog" where
  "ptxn f = (\<lambda>s. case f s of Inl e \<Rightarrow> (Inl e, s) | Inr (a, s') \<Rightarrow> (Inr a, s'))"

lemma prog_simps [simp]:
  "preturn a s = (Inr a, s)"
  "praise e s = (Inl e, s)"
  "plift r s = (r, s)"
  by (simp_all add: preturn_def praise_def plift_def)

lemma pguard_simps [simp]:
  "pguard True e s = (Inr (), s)"
  "pguard False e s = (Inl e, s)"
  by (simp_all add: pguard_def)

lemma pbind_eq_ok [guard_simps]:
  "pbind m f s = (Inr b, t) \<longleftrightarrow> (\<exists>a s'. m s = (Inr a, s') \<and> f a s' = (Inr b, t))"
  by (auto simp: pbind_def split: prod.splits sum.splits)

lemma pbind_pguard [simp]:
  "pbind (pguard True e) f = f ()"
  "pbind (pguard False e) f = praise e"
  by (simp_all add: fun_eq_iff pbind_def)

lemma pbind_plift [simp]:
  "pbind (plift (Inr a)) f = f a"
  "pbind (plift (Inl e)) f = praise e"
  by (simp_all add: fun_eq_iff pbind_def)

lemma pbind_apply_ok: "m s = (Inr a, s') \<Longrightarrow> pbind m f s = f a s'"
  by (simp add: pbind_def)

lemma pbind_apply_err: "m s = (Inl e, s') \<Longrightarrow> pbind m f s = (Inl e, s')"
  by (simp add: pbind_def)

lemma ptxn_ok [guard_simps]: "ptxn f s = (Inr a, t) \<longleftrightarrow> f s = Inr (a, t)"
  by (auto simp: ptxn_def split: sum.splits prod.splits)

lemma ptxn_err [guard_simps]: "ptxn f s = (Inl e, t) \<longleftrightarrow> f s = Inl e \<and> t = s"
  by (auto simp: ptxn_def split: sum.splits prod.splits)

text \<open>A property kept by a program, whether it returns or raises.\<close>

definition pkeeps :: "('s \<Rightarrow> bool) \<Rightarrow> ('s, 'e, 'a) prog \<Rightarrow> bool" where
  "pkeeps P m = (\<forall>s. P s \<longrightarrow> P (snd (m s)))"

lemma pkeepsI: "(\<And>s. P s \<Longrightarrow> P (snd (m s))) \<Longrightarrow> pkeeps P m"
  by (simp add: pkeeps_def)

lemma pkeepsD: "pkeeps P m \<Longrightarrow> P s \<Longrightarrow> m s = (r, t) \<Longrightarrow> P t"
  by (metis pkeeps_def snd_conv)

lemma pkeeps_basic [intro, simp]:
  "pkeeps P (preturn a)" "pkeeps P (praise e)" "pkeeps P (plift r)" "pkeeps P (pguard b e)"
  by (simp_all add: pkeeps_def pguard_def)

lemma pkeeps_pbind [intro]:
  "pkeeps P m \<Longrightarrow> (\<And>a. pkeeps P (f a)) \<Longrightarrow> pkeeps P (pbind m f)"
  by (auto simp: pkeeps_def pbind_def split: prod.splits sum.splits)

lemma pkeeps_ptxn [intro]:
  "(\<And>s a t. P s \<Longrightarrow> f s = Inr (a, t) \<Longrightarrow> P t) \<Longrightarrow> pkeeps P (ptxn f)"
  by (auto simp: pkeeps_def ptxn_def split: sum.splits)

section \<open>Python strings\<close>

definition in_range :: "char \<Rightarrow> char \<Rightarrow> char \<Rightarrow> bool" where
  "in_range lo hi c = ((of_char lo :: nat) \<le> of_char c \<and> (of_char c :: nat) \<le> of_char hi)"

definition is_space :: "char \<Rightarrow> bool" where
  "is_space c = ((of_char c :: nat) \<in> set [9, 10, 11, 12, 13, 28, 29, 30, 31, 32, 133, 160])"

definition is_digit :: "char \<Rightarrow> bool" where
  "is_digit c = in_range (CHR ''0'') (CHR ''9'') c"

definition is_lower_hex :: "char \<Rightarrow> bool" where
  "is_lower_hex c = (is_digit c \<or> in_range (CHR ''a'') (CHR ''f'') c)"

definition lower_char :: "char \<Rightarrow> char" where
  "lower_char c = (let n = of_char c :: nat in
     if 65 \<le> n \<and> n \<le> 90 \<or> 192 \<le> n \<and> n \<le> 222 \<and> n \<noteq> 215 then char_of (n + 32) else c)"

definition lower :: "string \<Rightarrow> string" where
  "lower s = map lower_char s"

text \<open>
  \<open>upper\<close>: the sharp s (223) becomes two characters; the upper case of 181 and of 255 lies
  outside the 8-bit range, and both are kept.
\<close>

definition upper_char :: "char \<Rightarrow> string" where
  "upper_char c = (let n = of_char c :: nat in
     if n = 223 then ''SS''
     else if 97 \<le> n \<and> n \<le> 122 \<or> 224 \<le> n \<and> n \<le> 254 \<and> n \<noteq> 247 then [char_of (n - 32)]
     else [c])"

definition upper :: "string \<Rightarrow> string" where
  "upper s = concat (map upper_char s)"

definition lstrip :: "string \<Rightarrow> string" where
  "lstrip s = dropWhile is_space s"

definition rstrip :: "string \<Rightarrow> string" where
  "rstrip s = rev (dropWhile is_space (rev s))"

definition strip :: "string \<Rightarrow> string" where
  "strip s = rstrip (lstrip s)"

definition rstrip_char :: "'a \<Rightarrow> 'a list \<Rightarrow> 'a list" where
  "rstrip_char c s = rev (dropWhile (\<lambda>d. d = c) (rev s))"

fun startswith :: "string \<Rightarrow> string \<Rightarrow> bool" where
  "startswith s [] = True"
| "startswith [] (p # ps) = False"
| "startswith (c # s) (p # ps) = (c = p \<and> startswith s ps)"

definition endswith :: "string \<Rightarrow> string \<Rightarrow> bool" where
  "endswith s p = startswith (rev s) (rev p)"

text \<open>\<open>contains s p\<close> is Python's \<open>p in s\<close>.\<close>

fun contains :: "string \<Rightarrow> string \<Rightarrow> bool" where
  "contains [] p = (p = [])"
| "contains (c # s) p = (startswith (c # s) p \<or> contains s p)"

text \<open>\<open>s.split(c)\<close> on one separator character or byte: never empty.\<close>

fun split_on :: "'a \<Rightarrow> 'a list \<Rightarrow> 'a list list" where
  "split_on c [] = [[]]"
| "split_on c (d # s) =
     (if d = c then [] # split_on c s
      else case split_on c s of [] \<Rightarrow> [[d]] | w # ws \<Rightarrow> (d # w) # ws)"

text \<open>\<open>s.rsplit(c, maxsplit=1)[-1]\<close> and \<open>s.split(c, maxsplit=1)[0]\<close>.\<close>

definition after_last :: "char \<Rightarrow> string \<Rightarrow> string" where
  "after_last c s = rev (takeWhile (\<lambda>d. d \<noteq> c) (rev s))"

definition before_first :: "char \<Rightarrow> string \<Rightarrow> string" where
  "before_first c s = takeWhile (\<lambda>d. d \<noteq> c) s"

fun join :: "'a list \<Rightarrow> 'a list list \<Rightarrow> 'a list" where
  "join sep [] = []"
| "join sep [w] = w"
| "join sep (w # ws) = w @ sep @ join sep ws"

text \<open>\<open>s.split()\<close>: the maximal runs of non-space characters.\<close>

fun words_acc :: "string \<Rightarrow> string \<Rightarrow> string list" where
  "words_acc acc [] = (if acc = [] then [] else [rev acc])"
| "words_acc acc (c # s) =
     (if is_space c then (if acc = [] then words_acc [] s else rev acc # words_acc [] s)
      else words_acc (c # acc) s)"

definition split_ws :: "string \<Rightarrow> string list" where
  "split_ws s = words_acc [] s"

text \<open>\<open>a or b\<close> on strings: the second when the first is empty.\<close>

definition or_str :: "string \<Rightarrow> string \<Rightarrow> string" where
  "or_str a b = (if a = [] then b else a)"

fun digits_rev :: "nat \<Rightarrow> string" where
  "digits_rev n = (if n < 10 then [char_of (48 + n)] else char_of (48 + n mod 10) # digits_rev (n div 10))"

declare digits_rev.simps [simp del]

definition str_nat :: "nat \<Rightarrow> string" where
  "str_nat n = rev (digits_rev n)"

definition str_int :: "int \<Rightarrow> string" where
  "str_int i = (if i < 0 then CHR ''-'' # str_nat (nat (- i)) else str_nat (nat i))"

lemma digits_rev_nonempty [simp]: "digits_rev n \<noteq> []"
  by (subst digits_rev.simps) simp

lemma str_nat_nonempty [simp]: "str_nat n \<noteq> []"
  by (simp add: str_nat_def)

lemma startswith_iff: "startswith s p \<longleftrightarrow> (\<exists>t. s = p @ t)"
  by (induction s p rule: startswith.induct) auto

lemma startswith_append [simp]: "startswith (p @ t) p"
  by (simp add: startswith_iff)

lemma contains_iff: "contains s p \<longleftrightarrow> (\<exists>a b. s = a @ p @ b)"
proof (induction s)
  case Nil
  then show ?case by auto
next
  case (Cons c s)
  show ?case
  proof
    assume "contains (c # s) p"
    then consider (here) t where "c # s = p @ t" | (later) a b where "s = a @ p @ b"
      using Cons by (auto simp: startswith_iff)
    then show "\<exists>a b. c # s = a @ p @ b"
    proof cases
      case here
      then have "c # s = [] @ p @ t" by simp
      then show ?thesis by blast
    next
      case later
      then have "c # s = (c # a) @ p @ b" by simp
      then show ?thesis by blast
    qed
  next
    assume "\<exists>a b. c # s = a @ p @ b"
    then obtain a b where ab: "c # s = a @ p @ b" by blast
    show "contains (c # s) p"
    proof (cases a)
      case Nil
      with ab have "startswith (c # s) p" by (auto simp: startswith_iff)
      then show ?thesis by simp
    next
      case (Cons d a')
      with ab Cons.IH show ?thesis by auto
    qed
  qed
qed

lemma contains_char: "contains s [c] \<longleftrightarrow> c \<in> set s"
  by (auto simp: contains_iff in_set_conv_decomp)

lemma split_on_nonempty [simp]: "split_on c s \<noteq> []"
  by (induction s) (auto split: list.splits)

lemma join_split_on: "join [c] (split_on c s) = s"
proof (induction s)
  case Nil
  then show ?case by simp
next
  case (Cons d s)
  obtain w ws where eq: "split_on c s = w # ws"
    by (cases "split_on c s") auto
  with Cons show ?case by (cases ws) auto
qed

lemma split_on_no_sep: "w \<in> set (split_on c s) \<Longrightarrow> c \<notin> set w"
proof (induction s arbitrary: w)
  case Nil
  then show ?case by simp
next
  case (Cons d s)
  obtain v vs where eq: "split_on c s = v # vs"
    by (cases "split_on c s") auto
  with Cons show ?case by (auto split: if_splits)
qed

lemma split_on_append_sep:
  "c \<notin> set w \<Longrightarrow> split_on c (w @ c # s) = w # split_on c s"
  by (induction w) auto

lemma split_on_id: "c \<notin> set w \<Longrightarrow> split_on c w = [w]"
  by (induction w) auto

lemma split_on_join:
  "ws \<noteq> [] \<Longrightarrow> \<forall>w \<in> set ws. c \<notin> set w \<Longrightarrow> split_on c (join [c] ws) = ws"
  by (induction "[c]" ws rule: join.induct) (auto simp: split_on_id split_on_append_sep)

lemma length_lower [simp]: "length (lower s) = length s"
  by (simp add: lower_def)

lemma lower_char_idem [simp]: "lower_char (lower_char c) = lower_char c"
  by (auto simp: lower_char_def Let_def)

lemma lower_idem [simp]: "lower (lower s) = lower s"
  by (simp add: lower_def)

lemma lower_append [simp]: "lower (s @ t) = lower s @ lower t"
  by (simp add: lower_def)

end
