(* ===== verification/PyRegex.thy ===== *)
theory PyRegex
  imports Prelude
begin

text \<open>
  The fragment of Python's \<open>re\<close> module the code uses: a backtracking matcher that lists its
  matches in the order the engine tries them, so that the first one is the match Python reports.
  A regular expression of the source is written below as a term of \<open>regex\<close>. The second part
  relates the matcher to a declarative language, from which the membership facts about the
  source's patterns follow.
\<close>

datatype regex =
    Eps
  | Cls "char \<Rightarrow> bool"
  | Seq regex regex
  | Alt regex regex
  | Rep regex nat "nat option"
  | Grp string regex
  | NotBehind "char \<Rightarrow> bool"
  | NotAhead "char \<Rightarrow> bool"
  | WordB

text \<open>A position: the characters before it (reversed), those after it, and the groups bound so far.\<close>

type_synonym rstate = "string \<times> string \<times> (string \<times> string) list"

definition is_alnum :: "char \<Rightarrow> bool" where
  "is_alnum c = (in_range (CHR ''0'') (CHR ''9'') c \<or> in_range (CHR ''A'') (CHR ''Z'') c
     \<or> in_range (CHR ''a'') (CHR ''z'') c)"

text \<open>\<open>\\w\<close> on the 8-bit range.\<close>

definition is_word :: "char \<Rightarrow> bool" where
  "is_word c = (let n = of_char c :: nat in
     is_alnum c \<or> c = CHR ''_'' \<or> n \<in> set [170, 178, 179, 181, 185, 186, 188, 189, 190]
     \<or> 192 \<le> n \<and> n \<noteq> 215 \<and> n \<noteq> 247)"

fun word_at :: "string \<Rightarrow> bool" where
  "word_at [] = False"
| "word_at (c # _) = is_word c"

text \<open>Greedy repetition; every iteration consumes at least one character.\<close>

fun rep_m :: "(rstate \<Rightarrow> rstate list) \<Rightarrow> nat \<Rightarrow> nat \<Rightarrow> nat option \<Rightarrow> rstate \<Rightarrow> rstate list" where
  "rep_m f 0 m mx st = (if m = 0 then [st] else [])"
| "rep_m f (Suc k) m mx st =
     (if mx = Some 0 then (if m = 0 then [st] else [])
      else concat (map (\<lambda>st'. if length (fst (snd st')) < length (fst (snd st))
                              then rep_m f k (m - 1) (map_option (\<lambda>n. n - 1) mx) st' else [])
                       (f st))
           @ (if m = 0 then [st] else []))"

primrec matches :: "regex \<Rightarrow> rstate \<Rightarrow> rstate list" where
  "matches Eps st = [st]"
| "matches (Cls P) st = (case st of (p, c # w, g) \<Rightarrow> (if P c then [(c # p, w, g)] else []) | _ \<Rightarrow> [])"
| "matches (Seq a b) st = concat (map (matches b) (matches a st))"
| "matches (Alt a b) st = matches a st @ matches b st"
| "matches (Rep a m mx) st = rep_m (matches a) (Suc (length (fst (snd st)))) m mx st"
| "matches (Grp n a) st =
     map (\<lambda>(p', w', g'). (p', w', (n, rev (take (length p' - length (fst st)) p')) # g')) (matches a st)"
| "matches (NotBehind P) st = (case st of (c # p, w, g) \<Rightarrow> (if P c then [] else [st]) | _ \<Rightarrow> [st])"
| "matches (NotAhead P) st = (case st of (p, c # w, g) \<Rightarrow> (if P c then [] else [st]) | _ \<Rightarrow> [st])"
| "matches WordB st = (case st of (p, w, g) \<Rightarrow> (if word_at p = word_at w then [] else [st]))"

text \<open>\<open>re.fullmatch\<close>, \<open>re.match\<close> and \<open>re.search\<close>: the groups of the first match.\<close>

definition fullmatch :: "regex \<Rightarrow> string \<Rightarrow> (string \<times> string) list option" where
  "fullmatch r s = (case filter (\<lambda>(p, w, g). w = []) (matches r ([], s, [])) of
     [] \<Rightarrow> None | (p, w, g) # _ \<Rightarrow> Some g)"

definition is_fullmatch :: "regex \<Rightarrow> string \<Rightarrow> bool" where
  "is_fullmatch r s = (fullmatch r s \<noteq> None)"

definition match_start :: "regex \<Rightarrow> string \<Rightarrow> (string \<times> string) list option" where
  "match_start r s = (case matches r ([], s, []) of [] \<Rightarrow> None | (p, w, g) # _ \<Rightarrow> Some g)"

fun search_from :: "regex \<Rightarrow> string \<Rightarrow> string \<Rightarrow> bool" where
  "search_from r p [] = (matches r (p, [], []) \<noteq> [])"
| "search_from r p (c # w) = (matches r (p, c # w, []) \<noteq> [] \<or> search_from r (c # p) w)"

definition search :: "regex \<Rightarrow> string \<Rightarrow> bool" where
  "search r s = search_from r [] s"

text \<open>
  \<open>re.sub\<close> with a constant replacement, for patterns that never match the empty string. The
  fuel is the number of characters left.
\<close>

fun sub_from :: "nat \<Rightarrow> regex \<Rightarrow> string \<Rightarrow> string \<Rightarrow> string \<Rightarrow> string" where
  "sub_from 0 r rp p w = w"
| "sub_from (Suc k) r rp p [] = []"
| "sub_from (Suc k) r rp p (c # w) =
     (case matches r (p, c # w, []) of
        [] \<Rightarrow> c # sub_from k r rp (c # p) w
      | (p', w', g) # _ \<Rightarrow>
          (if length w' < length (c # w) then rp @ sub_from k r rp p' w'
           else c # sub_from k r rp (c # p) w))"

definition re_sub :: "regex \<Rightarrow> string \<Rightarrow> string \<Rightarrow> string" where
  "re_sub r rp s = sub_from (length s) r rp [] s"

text \<open>Building blocks for the patterns of the source.\<close>

fun lit :: "string \<Rightarrow> regex" where
  "lit [] = Eps"
| "lit (c # s) = Seq (Cls (\<lambda>d. d = c)) (lit s)"

text \<open>A literal under \<open>(?i)\<close>.\<close>

fun lit_ci :: "string \<Rightarrow> regex" where
  "lit_ci [] = Eps"
| "lit_ci (c # s) = Seq (Cls (\<lambda>d. lower_char d = lower_char c)) (lit_ci s)"

abbreviation opt :: "regex \<Rightarrow> regex" where
  "opt r \<equiv> Rep r 0 (Some 1)"

abbreviation star :: "regex \<Rightarrow> regex" where
  "star r \<equiv> Rep r 0 None"

abbreviation plus_re :: "regex \<Rightarrow> regex" where
  "plus_re r \<equiv> Rep r 1 None"

abbreviation times_re :: "regex \<Rightarrow> nat \<Rightarrow> regex" where
  "times_re r n \<equiv> Rep r n (Some n)"

fun alts :: "regex list \<Rightarrow> regex" where
  "alts [] = Cls (\<lambda>_. False)"
| "alts [r] = r"
| "alts (r # rs) = Alt r (alts rs)"

fun seqs :: "regex list \<Rightarrow> regex" where
  "seqs [] = Eps"
| "seqs [r] = r"
| "seqs (r # rs) = Seq r (seqs rs)"

section \<open>The language of a pattern\<close>

text \<open>
  The language ignores what a look-around checks, so the matcher is sound for every pattern and
  complete for the plain ones.
\<close>

primrec plain :: "regex \<Rightarrow> bool" where
  "plain Eps = True"
| "plain (Cls P) = True"
| "plain (Seq a b) = (plain a \<and> plain b)"
| "plain (Alt a b) = (plain a \<and> plain b)"
| "plain (Rep a m mx) = plain a"
| "plain (Grp n a) = plain a"
| "plain (NotBehind P) = False"
| "plain (NotAhead P) = False"
| "plain WordB = False"

definition at_most :: "nat \<Rightarrow> nat option \<Rightarrow> bool" where
  "at_most n mx = (case mx of None \<Rightarrow> True | Some k \<Rightarrow> n \<le> k)"

primrec lang :: "regex \<Rightarrow> string \<Rightarrow> bool" where
  "lang Eps u = (u = [])"
| "lang (Cls P) u = (\<exists>c. u = [c] \<and> P c)"
| "lang (Seq a b) u = (\<exists>x y. u = x @ y \<and> lang a x \<and> lang b y)"
| "lang (Alt a b) u = (lang a u \<or> lang b u)"
| "lang (Rep a m mx) u =
     (\<exists>us. u = concat us \<and> m \<le> length us \<and> at_most (length us) mx \<and> (\<forall>x \<in> set us. x \<noteq> [] \<and> lang a x))"
| "lang (Grp n a) u = lang a u"
| "lang (NotBehind P) u = (u = [])"
| "lang (NotAhead P) u = (u = [])"
| "lang WordB u = (u = [])"

lemma at_most_Suc: "mx \<noteq> Some 0 \<Longrightarrow> at_most n (map_option (\<lambda>k. k - 1) mx) \<longleftrightarrow> at_most (Suc n) mx"
  by (cases mx) (auto simp: at_most_def)

text \<open>Every match consumes a word of the language.\<close>

definition sound_for :: "(string \<Rightarrow> bool) \<Rightarrow> (rstate \<Rightarrow> rstate list) \<Rightarrow> bool" where
  "sound_for L f = (\<forall>p w g p' w' g'. (p', w', g') \<in> set (f (p, w, g)) \<longrightarrow>
     (\<exists>u. w = u @ w' \<and> p' = rev u @ p \<and> L u))"

definition complete_for :: "(string \<Rightarrow> bool) \<Rightarrow> (rstate \<Rightarrow> rstate list) \<Rightarrow> bool" where
  "complete_for L f = (\<forall>u w p g. L u \<longrightarrow> (\<exists>g'. (rev u @ p, w, g') \<in> set (f (p, u @ w, g))))"

lemma rep_m_sound:
  assumes f: "sound_for L f"
  shows "(p', w', g') \<in> set (rep_m f k m mx (p, w, g)) \<Longrightarrow>
     \<exists>us. w = concat us @ w' \<and> p' = rev (concat us) @ p \<and> m \<le> length us \<and> at_most (length us) mx
       \<and> (\<forall>x \<in> set us. x \<noteq> [] \<and> L x)"
proof (induction k arbitrary: m mx p w g)
  case 0
  then show ?case by (intro exI[of _ "[]"]) (auto simp: at_most_def split: if_splits option.splits)
next
  case (Suc k)
  show ?case
  proof (cases "m = 0 \<and> (p', w', g') = (p, w, g)")
    case True
    then show ?thesis by (intro exI[of _ "[]"]) (auto simp: at_most_def split: option.splits)
  next
    case False
    with Suc.prems have mx: "mx \<noteq> Some 0" by (auto split: if_splits)
    with False Suc.prems obtain p1 w1 g1 where
      step: "(p1, w1, g1) \<in> set (f (p, w, g))" and shorter: "length w1 < length w"
      and rest: "(p', w', g') \<in> set (rep_m f k (m - 1) (map_option (\<lambda>n. n - 1) mx) (p1, w1, g1))"
      by (auto split: if_splits)
    from f step obtain u where u: "w = u @ w1" "p1 = rev u @ p" "L u"
      unfolding sound_for_def by blast
    from Suc.IH[OF rest] obtain us where us: "w1 = concat us @ w'" "p' = rev (concat us) @ p1"
      "m - 1 \<le> length us" "at_most (length us) (map_option (\<lambda>n. n - 1) mx)"
      "\<forall>x \<in> set us. x \<noteq> [] \<and> L x" by blast
    from shorter u(1) have "u \<noteq> []" by auto
    with u us at_most_Suc[OF mx, of "length us"] show ?thesis
      by (intro exI[of _ "u # us"]) auto
  qed
qed

lemma rep_m_complete:
  assumes f: "complete_for L f"
  shows "\<forall>x \<in> set us. x \<noteq> [] \<and> L x \<Longrightarrow> m \<le> length us \<Longrightarrow> at_most (length us) mx \<Longrightarrow> length us < k
    \<Longrightarrow> \<exists>g'. (rev (concat us) @ p, w, g') \<in> set (rep_m f k m mx (p, concat us @ w, g))"
proof (induction us arbitrary: k m mx p g)
  case Nil
  then show ?case by (cases k) auto
next
  case (Cons u us)
  then obtain k' where k: "k = Suc k'" "length us < k'" by (cases k) auto
  from Cons.prems(3) have mx: "mx \<noteq> Some 0" by (auto simp: at_most_def)
  from f Cons.prems(1) obtain g1 where
    step: "(rev u @ p, concat us @ w, g1) \<in> set (f (p, u @ concat us @ w, g))"
    unfolding complete_for_def by (metis list.set_intros(1))
  have "\<exists>g'. (rev (concat us) @ rev u @ p, w, g')
      \<in> set (rep_m f k' (m - 1) (map_option (\<lambda>n. n - 1) mx) (rev u @ p, concat us @ w, g1))"
    using Cons.prems k at_most_Suc[OF mx, of "length us"] by (intro Cons.IH) auto
  then obtain g' where g': "(rev (concat us) @ rev u @ p, w, g')
      \<in> set (rep_m f k' (m - 1) (map_option (\<lambda>n. n - 1) mx) (rev u @ p, concat us @ w, g1))" by blast
  from Cons.prems(1) have "u \<noteq> []" by simp
  then have "length (concat us @ w) < length (u @ concat us @ w)" by simp
  with step g' mx show ?case unfolding k(1) by (auto intro!: exI[of _ g'] bexI[OF _ step])
qed

lemma matches_sound: "sound_for (lang r) (matches r)"
proof (induction r)
  case (Cls P)
  then show ?case by (auto simp: sound_for_def split: list.splits)
next
  case (Seq a b)
  show ?case unfolding sound_for_def
  proof (intro allI impI)
    fix p w g p' w' g'
    assume "(p', w', g') \<in> set (matches (Seq a b) (p, w, g))"
    then obtain p1 w1 g1 where 1: "(p1, w1, g1) \<in> set (matches a (p, w, g))"
      and 2: "(p', w', g') \<in> set (matches b (p1, w1, g1))" by auto
    from Seq(1) 1 obtain u where u: "w = u @ w1" "p1 = rev u @ p" "lang a u"
      unfolding sound_for_def by blast
    from Seq(2) 2 obtain v where v: "w1 = v @ w'" "p' = rev v @ p1" "lang b v"
      unfolding sound_for_def by blast
    from u v show "\<exists>u. w = u @ w' \<and> p' = rev u @ p \<and> lang (Seq a b) u"
      by (intro exI[of _ "u @ v"]) auto
  qed
next
  case (Rep a m mx)
  show ?case unfolding sound_for_def
    using rep_m_sound[OF Rep] by (fastforce simp del: rep_m.simps)
next
  case (Alt a b)
  then show ?case unfolding sound_for_def by simp blast
next
  case (Grp n a)
  then show ?case by (fastforce simp: sound_for_def)
qed (auto simp: sound_for_def split: list.splits if_splits)

lemma matches_complete: "plain r \<Longrightarrow> complete_for (lang r) (matches r)"
proof (induction r)
  case (Cls P)
  then show ?case by (auto simp: complete_for_def)
next
  case (Seq a b)
  show ?case unfolding complete_for_def
  proof (intro allI impI)
    fix u w p g assume "lang (Seq a b) u"
    then obtain x y where u: "u = x @ y" and x: "lang a x" and y: "lang b y" by auto
    from Seq x obtain g1 where 1: "(rev x @ p, y @ w, g1) \<in> set (matches a (p, x @ y @ w, g))"
      unfolding complete_for_def by (metis plain.simps(3))
    from Seq y obtain g2 where 2: "(rev y @ rev x @ p, w, g2) \<in> set (matches b (rev x @ p, y @ w, g1))"
      unfolding complete_for_def by (metis plain.simps(3))
    from 1 2 u show "\<exists>g'. (rev u @ p, w, g') \<in> set (matches (Seq a b) (p, u @ w, g))"
      by (auto intro!: exI[of _ g2] bexI[OF _ 1])
  qed
next
  case (Alt a b)
  then show ?case unfolding complete_for_def by simp blast
next
  case (Rep a m mx)
  then have IH: "complete_for (lang a) (matches a)" by simp
  show ?case unfolding complete_for_def
  proof (intro allI impI)
    fix u w p g assume "lang (Rep a m mx) u"
    then obtain us where us: "u = concat us" "m \<le> length us" "at_most (length us) mx"
      "\<forall>x \<in> set us. x \<noteq> [] \<and> lang a x" by auto
    have "length us \<le> length (concat us)" using us(4)
      by (induction us) (auto simp: Suc_le_eq add_less_le_mono neq_Nil_conv)
    then have "length us < Suc (length (u @ w))" using us(1) by simp
    from rep_m_complete[OF IH us(4,2,3) this] us(1)
    show "\<exists>g'. (rev u @ p, w, g') \<in> set (matches (Rep a m mx) (p, u @ w, g))"
      by (simp del: rep_m.simps)
  qed
next
  case (Grp n a)
  then have IH: "complete_for (lang a) (matches a)" by simp
  show ?case unfolding complete_for_def
  proof (intro allI impI)
    fix u w p g assume "lang (Grp n a) u"
    then have "lang a u" by simp
    with IH obtain g' where "(rev u @ p, w, g') \<in> set (matches a (p, u @ w, g))"
      unfolding complete_for_def by blast
    then show "\<exists>g'. (rev u @ p, w, g') \<in> set (matches (Grp n a) (p, u @ w, g))"
      by (force intro: rev_image_eqI)
  qed
qed (auto simp: complete_for_def)

lemma fullmatch_in_matches:
  assumes "fullmatch r s = Some g"
  shows "\<exists>p. (p, [], g) \<in> set (matches r ([], s, []))"
proof -
  from assms obtain p w rest where "filter (\<lambda>(p, w, g). w = []) (matches r ([], s, [])) = (p, w, g) # rest"
    unfolding fullmatch_def by (auto split: list.splits)
  then have "(p, w, g) \<in> set (filter (\<lambda>(p, w, g). w = []) (matches r ([], s, [])))" by simp
  then show ?thesis by auto
qed

theorem fullmatch_lang: "plain r \<Longrightarrow> is_fullmatch r s \<longleftrightarrow> lang r s"
proof
  assume "is_fullmatch r s"
  then obtain p g where "(p, [], g) \<in> set (matches r ([], s, []))"
    using fullmatch_in_matches unfolding is_fullmatch_def by blast
  with matches_sound[of r] show "lang r s" unfolding sound_for_def by fastforce
next
  assume "plain r" "lang r s"
  with matches_complete obtain g' where "(rev s, [], g') \<in> set (matches r ([], s, []))"
    unfolding complete_for_def by (metis append_Nil2)
  then have "\<exists>x \<in> set (matches r ([], s, [])). (\<lambda>(p, w, g). w = []) x" by force
  then have "filter (\<lambda>(p, w, g). w = []) (matches r ([], s, [])) \<noteq> []"
    unfolding filter_empty_conv by blast
  then show "is_fullmatch r s"
    by (auto simp: is_fullmatch_def fullmatch_def split: list.splits)
qed

lemma fullmatch_sound: "fullmatch r s = Some g \<Longrightarrow> lang r s"
proof -
  assume "fullmatch r s = Some g"
  then obtain p where "(p, [], g) \<in> set (matches r ([], s, []))"
    using fullmatch_in_matches by blast
  with matches_sound[of r] show ?thesis unfolding sound_for_def by fastforce
qed

text \<open>A bounded run of one character class, the shape of most of the source's patterns.\<close>

lemma concat_singletons: "(\<forall>x \<in> set us. \<exists>c. x = [c] \<and> P c) \<Longrightarrow>
    length (concat us) = length us \<and> (\<forall>c \<in> set (concat us). P c)"
  by (induction us) auto

lemma lang_Rep_Cls [simp]:
  "lang (Rep (Cls P) m mx) u \<longleftrightarrow> m \<le> length u \<and> at_most (length u) mx \<and> (\<forall>c \<in> set u. P c)"
  (is "?L = ?R")
proof
  assume ?L
  then obtain us where us: "u = concat us" "m \<le> length us" "at_most (length us) mx"
    "\<forall>x \<in> set us. x \<noteq> [] \<and> (\<exists>c. x = [c] \<and> P c)" by auto
  with concat_singletons[of us P] show ?R by auto
next
  assume R: ?R
  have "u = concat (map (\<lambda>c. [c]) u)" by (induction u) auto
  with R show ?L by (simp only: lang.simps) (intro exI[of _ "map (\<lambda>c. [c]) u"], auto)
qed

lemma at_most_simps [simp]: "at_most n None" "at_most n (Some k) \<longleftrightarrow> n \<le> k"
  by (simp_all add: at_most_def)

declare lang.simps(5) [simp del]

lemma lang_lit [simp]: "lang (lit s) u \<longleftrightarrow> u = s"
  by (induction s arbitrary: u) auto

lemma plain_lit [simp]: "plain (lit s)"
  by (induction s) auto

lemma lang_Seq_Cls [simp]: "lang (Seq (Cls P) r) u \<longleftrightarrow> (\<exists>c t. u = c # t \<and> P c \<and> lang r t)"
proof
  assume "\<exists>c t. u = c # t \<and> P c \<and> lang r t"
  then obtain c t where "u = [c] @ t" "P c" "lang r t" by auto
  then show "lang (Seq (Cls P) r) u" unfolding lang.simps by blast
qed auto

lemma lang_Seq_lit [simp]: "lang (Seq (lit s) r) u \<longleftrightarrow> (\<exists>t. u = s @ t \<and> lang r t)"
  by auto

lemma lang_Seq_others [simp]:
  "lang (Seq Eps r) u \<longleftrightarrow> lang r u"
  "lang (Seq (Seq a b) r) u \<longleftrightarrow> lang (Seq a (Seq b r)) u"
  "lang (Seq (Alt a b) r) u \<longleftrightarrow> lang (Seq a r) u \<or> lang (Seq b r) u"
  "lang (Seq (Grp n a) r) u \<longleftrightarrow> lang (Seq a r) u"
  "lang (Seq (Rep a m mx) r) u \<longleftrightarrow> (\<exists>x y. u = x @ y \<and> lang (Rep a m mx) x \<and> lang r y)"
  unfolding lang.simps(1,3,4,6) by (simp, metis append.assoc, blast+)

declare lit.simps [simp del] lang.simps(3) [simp del]

end
