(* ===== verification/PyPath.thy ===== *)
theory PyPath
  imports PyRegex
begin

text \<open>
  Python's \<open>PurePosixPath\<close> as the code uses it: parsing into an optional root and the
  components that are neither empty nor a single dot, and the accessors \<open>parts\<close>,
  \<open>as_posix\<close>, \<open>is_absolute\<close>, \<open>name\<close>, \<open>suffix\<close> and \<open>stem\<close>. The last lemmas
  characterise the guard every path validator of the source repeats.
\<close>

definition splitroot :: "string \<Rightarrow> string \<times> string" where
  "splitroot p =
     (if \<not> startswith p ''/'' then ([], p)
      else if \<not> startswith p ''//'' \<or> startswith p ''///'' then (''/'', drop 1 p)
      else (take 2 p, drop 2 p))"

definition path_root :: "string \<Rightarrow> string" where
  "path_root p = fst (splitroot p)"

definition path_tail :: "string \<Rightarrow> string list" where
  "path_tail p = filter (\<lambda>x. x \<noteq> [] \<and> x \<noteq> ''.'') (split_on (CHR ''/'') (snd (splitroot p)))"

definition as_posix :: "string \<Rightarrow> string" where
  "as_posix p =
     (if path_root p \<noteq> [] then path_root p @ join ''/'' (path_tail p)
      else if path_tail p = [] then ''.'' else join ''/'' (path_tail p))"

definition path_parts :: "string \<Rightarrow> string list" where
  "path_parts p = (if path_root p \<noteq> [] then path_root p # path_tail p else path_tail p)"

definition is_absolute :: "string \<Rightarrow> bool" where
  "is_absolute p = startswith p ''/''"

definition path_name :: "string \<Rightarrow> string" where
  "path_name p = (if path_tail p = [] then [] else last (path_tail p))"

text \<open>The position of the last dot of the name, when it splits off a suffix.\<close>

definition suffix_index :: "string \<Rightarrow> nat option" where
  "suffix_index name =
     (let ext = after_last (CHR ''.'') name in
      if CHR ''.'' \<in> set name \<and> ext \<noteq> [] \<and> Suc (length ext) < length name
      then Some (length name - Suc (length ext)) else None)"

definition path_suffix :: "string \<Rightarrow> string" where
  "path_suffix p = (case suffix_index (path_name p) of None \<Rightarrow> [] | Some i \<Rightarrow> drop i (path_name p))"

definition path_stem :: "string \<Rightarrow> string" where
  "path_stem p = (case suffix_index (path_name p) of None \<Rightarrow> path_name p | Some i \<Rightarrow> take i (path_name p))"

definition bad_part :: "string \<Rightarrow> bool" where
  "bad_part x = (x = [] \<or> x = ''.'' \<or> x = ''..'')"

text \<open>The shared guard: a non-empty relative path that is its own normal form.\<close>

definition normal_relative :: "string \<Rightarrow> bool" where
  "normal_relative v =
     (v \<noteq> [] \<and> \<not> is_absolute v \<and> as_posix v = v \<and> \<not> list_ex bad_part (path_parts v))"

lemma not_absolute_root: "\<not> is_absolute v \<Longrightarrow> splitroot v = ([], v)"
  by (simp add: is_absolute_def splitroot_def)

lemma not_absolute_tail:
  "\<not> is_absolute v \<Longrightarrow> path_tail v = filter (\<lambda>x. x \<noteq> [] \<and> x \<noteq> ''.'') (split_on (CHR ''/'') v)"
  "\<not> is_absolute v \<Longrightarrow> path_root v = []"
  by (simp_all add: path_tail_def path_root_def not_absolute_root)

definition good_components :: "string \<Rightarrow> bool" where
  "good_components v = list_all (\<lambda>x. \<not> bad_part x) (split_on (CHR ''/'') v)"

lemma good_components_relative: "good_components v \<Longrightarrow> v \<noteq> [] \<and> \<not> is_absolute v"
proof -
  assume g: "good_components v"
  then have "v \<noteq> []" by (auto simp: good_components_def bad_part_def)
  moreover have "\<not> is_absolute v"
  proof
    assume "is_absolute v"
    then obtain t where "v = CHR ''/'' # t" by (auto simp: is_absolute_def startswith_iff)
    with g show False by (simp add: good_components_def bad_part_def)
  qed
  ultimately show ?thesis by simp
qed

lemma good_components_tail: "good_components v \<Longrightarrow> path_tail v = split_on (CHR ''/'') v"
  using good_components_relative[of v]
  by (auto simp: not_absolute_tail good_components_def bad_part_def list_all_iff)

lemma good_components_parts: "good_components v \<Longrightarrow> path_parts v = split_on (CHR ''/'') v"
  using good_components_relative[of v] good_components_tail[of v]
  by (simp add: path_parts_def not_absolute_tail)

lemma good_components_normal: "good_components v \<Longrightarrow> normal_relative v"
  using good_components_relative[of v] good_components_tail[of v] good_components_parts[of v]
    join_split_on[of "CHR ''/''" v]
  by (auto simp: normal_relative_def as_posix_def not_absolute_tail good_components_def
      list_all_iff list_ex_iff)

text \<open>The guard accepts exactly the slash-separated proper components, and the single dot.\<close>

lemma normal_relative_iff: "normal_relative v \<longleftrightarrow> v = ''.'' \<or> good_components v"
proof
  assume n: "normal_relative v"
  then have rel: "\<not> is_absolute v" and pos: "as_posix v = v"
    and parts: "\<not> list_ex bad_part (path_tail v)"
    by (auto simp: normal_relative_def path_parts_def not_absolute_tail)
  show "v = ''.'' \<or> good_components v"
  proof (cases "path_tail v = []")
    case True
    with rel pos show ?thesis by (simp add: as_posix_def not_absolute_tail)
  next
    case False
    with rel pos have j: "join ''/'' (path_tail v) = v"
      by (simp add: as_posix_def not_absolute_tail(2))
    have "\<forall>w \<in> set (path_tail v). CHR ''/'' \<notin> set w"
      using rel by (auto simp: not_absolute_tail split_on_no_sep)
    from split_on_join[OF False this] j have "split_on (CHR ''/'') v = path_tail v" by simp
    with parts show ?thesis by (simp add: good_components_def list_all_iff list_ex_iff)
  qed
next
  assume "v = ''.'' \<or> good_components v"
  moreover have "normal_relative ''.''"
    by (simp add: normal_relative_def is_absolute_def as_posix_def path_root_def path_tail_def
        path_parts_def splitroot_def)
  ultimately show "normal_relative v" using good_components_normal by blast
qed

lemma good_components_append:
  "good_components (a @ CHR ''/'' # b) \<longleftrightarrow> good_components a \<and> good_components b"
proof -
  have "split_on (CHR ''/'') (a @ CHR ''/'' # b) = split_on (CHR ''/'') a @ split_on (CHR ''/'') b"
    by (induction a) (auto split: list.splits)
  then show ?thesis by (auto simp: good_components_def)
qed

text \<open>A name of the form \<open>stem.ext\<close>.\<close>

lemma takeWhile_all_neq: "x \<notin> set e \<Longrightarrow> takeWhile (\<lambda>d. d \<noteq> x) (e @ x # n) = e"
  by (induction e) auto

lemma after_last_dot: "CHR ''.'' \<notin> set e \<Longrightarrow> after_last (CHR ''.'') (n @ CHR ''.'' # e) = e"
  using takeWhile_all_neq[of "CHR ''.''" "rev e" "rev n"] by (simp add: after_last_def)

lemma suffix_index_ext:
  "CHR ''.'' \<notin> set e \<Longrightarrow> e \<noteq> [] \<Longrightarrow> n \<noteq> [] \<Longrightarrow> suffix_index (n @ CHR ''.'' # e) = Some (length n)"
  by (simp add: suffix_index_def after_last_dot)

lemma path_name_good:
  "good_components v \<Longrightarrow> path_name v = last (split_on (CHR ''/'') v)"
  by (simp add: path_name_def good_components_tail)

end
