(* ===== verification/Sha256.thy ===== *)
theory Sha256
  imports Prelude
begin

text \<open>
  \<open>hashlib.sha256(...).hexdigest()\<close> of the standard library: SHA-256 on bytes, with the
  hexadecimal digest the code stores and compares, and \<open>str.encode("utf-8")\<close> on the 8-bit
  range of code points.
\<close>

unbundle bit_operations_syntax

type_synonym w32 = "32 word"

definition sha_K :: "w32 list" where
  "sha_K = [
  1116352408, 1899447441, 3049323471, 3921009573, 961987163, 1508970993, 2453635748, 2870763221,
  3624381080, 310598401, 607225278, 1426881987, 1925078388, 2162078206, 2614888103, 3248222580,
  3835390401, 4022224774, 264347078, 604807628, 770255983, 1249150122, 1555081692, 1996064986,
  2554220882, 2821834349, 2952996808, 3210313671, 3336571891, 3584528711, 113926993, 338241895,
  666307205, 773529912, 1294757372, 1396182291, 1695183700, 1986661051, 2177026350, 2456956037,
  2730485921, 2820302411, 3259730800, 3345764771, 3516065817, 3600352804, 4094571909, 275423344,
  430227734, 506948616, 659060556, 883997877, 958139571, 1322822218, 1537002063, 1747873779,
  1955562222, 2024104815, 2227730452, 2361852424, 2428436474, 2756734187, 3204031479, 3329325298]"

definition rotr :: "nat \<Rightarrow> w32 \<Rightarrow> w32" where
  "rotr n x = drop_bit n x OR push_bit (32 - n) x"

definition bsig0 :: "w32 \<Rightarrow> w32" where
  "bsig0 x = rotr 2 x XOR rotr 13 x XOR rotr 22 x"

definition bsig1 :: "w32 \<Rightarrow> w32" where
  "bsig1 x = rotr 6 x XOR rotr 11 x XOR rotr 25 x"

definition ssig0 :: "w32 \<Rightarrow> w32" where
  "ssig0 x = rotr 7 x XOR rotr 18 x XOR drop_bit 3 x"

definition ssig1 :: "w32 \<Rightarrow> w32" where
  "ssig1 x = rotr 17 x XOR rotr 19 x XOR drop_bit 10 x"

definition sha_ch :: "w32 \<Rightarrow> w32 \<Rightarrow> w32 \<Rightarrow> w32" where
  "sha_ch x y z = (x AND y) XOR (NOT x AND z)"

definition sha_maj :: "w32 \<Rightarrow> w32 \<Rightarrow> w32 \<Rightarrow> w32" where
  "sha_maj x y z = (x AND y) XOR (x AND z) XOR (y AND z)"

text \<open>Big-endian words of a byte list, and bytes of a length in bits.\<close>

fun be_words :: "bytes \<Rightarrow> w32 list" where
  "be_words (a # b # c # d # r) =
     (push_bit 24 (ucast a) OR push_bit 16 (ucast b) OR push_bit 8 (ucast c) OR ucast d) # be_words r"
| "be_words _ = []"

fun be_bytes :: "nat \<Rightarrow> nat \<Rightarrow> bytes" where
  "be_bytes 0 n = []"
| "be_bytes (Suc k) n = be_bytes k (n div 256) @ [of_nat n]"

definition sha_pad :: "bytes \<Rightarrow> bytes" where
  "sha_pad m = (let n = length m in
     m @ [0x80] @ replicate ((119 - n mod 64) mod 64) 0 @ be_bytes 8 (8 * n))"

text \<open>The message schedule, newest word first.\<close>

fun schedule_rev :: "nat \<Rightarrow> w32 list \<Rightarrow> w32 list" where
  "schedule_rev 0 ws = ws"
| "schedule_rev (Suc k) ws =
     schedule_rev k ((ssig1 (ws ! 1) + ws ! 6 + ssig0 (ws ! 14) + ws ! 15) # ws)"

definition schedule :: "w32 list \<Rightarrow> w32 list" where
  "schedule blk = rev (schedule_rev 48 (rev blk))"

type_synonym sha_state = "w32 \<times> w32 \<times> w32 \<times> w32 \<times> w32 \<times> w32 \<times> w32 \<times> w32"

fun sha_round :: "sha_state \<Rightarrow> w32 \<times> w32 \<Rightarrow> sha_state" where
  "sha_round (a, b, c, d, e, f, g, h) (k, w) =
     (let t1 = h + bsig1 e + sha_ch e f g + k + w;
          t2 = bsig0 a + sha_maj a b c
      in (t1 + t2, a, b, c, d + t1, e, f, g))"

fun sha_add :: "sha_state \<Rightarrow> sha_state \<Rightarrow> sha_state" where
  "sha_add (a, b, c, d, e, f, g, h) (a', b', c', d', e', f', g', h') =
     (a + a', b + b', c + c', d + d', e + e', f + f', g + g', h + h')"

definition sha_block :: "sha_state \<Rightarrow> w32 list \<Rightarrow> sha_state" where
  "sha_block st blk = sha_add st (foldl sha_round st (zip sha_K (schedule blk)))"

fun sha_blocks :: "nat \<Rightarrow> sha_state \<Rightarrow> w32 list \<Rightarrow> sha_state" where
  "sha_blocks 0 st ws = st"
| "sha_blocks (Suc n) st ws = sha_blocks n (sha_block st (take 16 ws)) (drop 16 ws)"

definition hex_digit :: "nat \<Rightarrow> char" where
  "hex_digit n = (if n < 10 then char_of (48 + n) else char_of (87 + n))"

fun hex_digits :: "nat \<Rightarrow> int \<Rightarrow> string" where
  "hex_digits 0 n = []"
| "hex_digits (Suc k) n = hex_digits k (n div 16) @ [hex_digit (nat (n mod 16))]"

definition hex_word :: "w32 \<Rightarrow> string" where
  "hex_word w = hex_digits 8 (uint w)"

fun hex_state :: "sha_state \<Rightarrow> string" where
  "hex_state (a, b, c, d, e, f, g, h) =
     hex_word a @ hex_word b @ hex_word c @ hex_word d @ hex_word e @ hex_word f @ hex_word g @ hex_word h"

definition sha_init :: sha_state where
  "sha_init = (1779033703, 3144134277, 1013904242, 2773480762,
               1359893119, 2600822924, 528734635, 1541459225)"

definition sha256 :: "bytes \<Rightarrow> string" where
  "sha256 m = (let ws = be_words (sha_pad m) in hex_state (sha_blocks (length ws div 16) sha_init ws))"

definition utf8_char :: "char \<Rightarrow> bytes" where
  "utf8_char c = (let n = of_char c :: nat in
     if n < 128 then [of_nat n] else [of_nat (192 + n div 64), of_nat (128 + n mod 64)])"

definition utf8 :: "string \<Rightarrow> bytes" where
  "utf8 s = concat (map utf8_char s)"

text \<open>Every digest is 64 lower-case hexadecimal digits.\<close>

definition is_sha256_hex :: "string \<Rightarrow> bool" where
  "is_sha256_hex s = (length s = 64 \<and> list_all is_lower_hex s)"

lemma hex_digit_lower_hex: "n < 16 \<Longrightarrow> is_lower_hex (hex_digit n)"
  by (auto simp: is_lower_hex_def is_digit_def in_range_def hex_digit_def)

lemma hex_digits_hex: "list_all is_lower_hex (hex_digits k n) \<and> length (hex_digits k n) = k"
  by (induction k n rule: hex_digits.induct) (auto simp: hex_digit_lower_hex)

lemma sha256_hex [simp]: "is_sha256_hex (sha256 m)"
proof -
  have "is_sha256_hex (hex_state st)" for st
    by (cases st rule: hex_state.cases) (simp add: is_sha256_hex_def hex_word_def hex_digits_hex)
  then show ?thesis by (simp add: sha256_def Let_def)
qed

lemma utf8_char_nonempty [simp]: "utf8_char c \<noteq> []"
  by (simp add: utf8_char_def Let_def)

lemma utf8_Nil_iff [simp]: "utf8 s = [] \<longleftrightarrow> s = []"
  by (cases s) (simp_all add: utf8_def)

end
