(* ===== verification/PyExn.thy ===== *)
theory PyExn
  imports Prelude
begin

text \<open>
  The exceptions of the program, one constructor per class the code raises or catches, with the
  data a handler reads. \<open>is_value_error\<close> says which of them an \<open>except ValueError\<close> clause catches. The accounting record of a
  model call is here because one of the exceptions carries it.
\<close>

record model_usage =
  mu_model_name :: string
  mu_model_version :: "string option"
  mu_prompt_tokens :: "int option"
  mu_output_tokens :: "int option"
  mu_total_tokens :: "int option"
  mu_cached_tokens :: "int option"
  mu_reasoning_tokens :: "int option"
  mu_duration_seconds :: seconds
  mu_provider_attempts :: int

datatype exn =
    ValueError string
  | ValidationError string
  | TypeError string
  | RuntimeError string
  | PermissionError string
  | AssertionError
  | IntegrityError string
  | InvalidRunTransition string
  | RunNotFoundError string
  | ConcurrentRunUpdateError string
  | StoredEvidenceConflictError string
  | ExecutionContractError string
  | ContractSynthesisError string
  | UnsupportedExecutionPlanError string
  | ContextRetrievalError string
  | GitWorkspaceError string
  | ModelInvocationFailure string bool
  | InvalidClaimAgentOutput string "model_usage option" "string option"
  | CandidateBudgetExceeded string
  | CandidateGenerationStateError string
  | GitHubCheckRetryableError string
  | GitHubCheckTerminalError string
  | PullRequestUrlError string
  | PullRequestResolutionError string
  | PullRequestUpstreamError string
  | RepositoryIndexError string
  | InvestigationQueryError string
  | OSError string
  | TimeoutExpired

fun is_value_error :: "exn \<Rightarrow> bool" where
  "is_value_error (ValueError _) = True"
| "is_value_error (ValidationError _) = True"
| "is_value_error (InvalidRunTransition _) = True"
| "is_value_error (ExecutionContractError _) = True"
| "is_value_error (InvalidClaimAgentOutput _ _ _) = True"
| "is_value_error (PullRequestUrlError _) = True"
| "is_value_error (InvestigationQueryError _) = True"
| "is_value_error _ = False"

definition nonneg_opt :: "int option \<Rightarrow> bool" where
  "nonneg_opt x = (case x of None \<Rightarrow> True | Some n \<Rightarrow> 0 \<le> n)"

definition max_len_opt :: "nat \<Rightarrow> string option \<Rightarrow> bool" where
  "max_len_opt n x = (case x of None \<Rightarrow> True | Some s \<Rightarrow> length s \<le> n)"

definition len_between :: "nat \<Rightarrow> nat \<Rightarrow> 'a list \<Rightarrow> bool" where
  "len_between lo hi s = (lo \<le> length s \<and> length s \<le> hi)"

text \<open>The field constraints of the pydantic model.\<close>

definition model_usage_ok :: "model_usage \<Rightarrow> bool" where
  "model_usage_ok u =
     (len_between 1 128 (mu_model_name u) \<and> max_len_opt 128 (mu_model_version u)
      \<and> nonneg_opt (mu_prompt_tokens u) \<and> nonneg_opt (mu_output_tokens u)
      \<and> nonneg_opt (mu_total_tokens u) \<and> nonneg_opt (mu_cached_tokens u)
      \<and> nonneg_opt (mu_reasoning_tokens u) \<and> 0 \<le> mu_duration_seconds u
      \<and> 1 \<le> mu_provider_attempts u \<and> mu_provider_attempts u \<le> 2)"

text \<open>
  Timestamps. A Python \<open>datetime\<close> is naive or carries an offset; \<open>astimezone(UTC)\<close>
  turns an aware one into the microseconds since the epoch the model stores.
\<close>

datatype datetime = Naive int | Aware int int

type_synonym utc = int

fun to_utc :: "exn \<Rightarrow> datetime \<Rightarrow> exn + utc" where
  "to_utc e (Naive _) = Inl e"
| "to_utc e (Aware t off) = Inr (t - off)"

end
