(* ===== verification/Models.thy ===== *)
theory Models
  imports PyPath Sha256 PyExn
begin

text \<open>
  \<open>src/patchproof/models.py\<close>: the domain values of the execution pipeline, their
  constructors with the checks of \<open>__post_init__\<close>, and the properties the other parts read.
  A \<open>mk_\<close> function is the class's constructor: it returns the value or the exception.
\<close>

section \<open>Revisions and artifacts\<close>

datatype RevisionRole = BASE | HEAD

definition git_sha_pattern :: regex where
  "git_sha_pattern = Alt (times_re (Cls is_lower_hex) 40) (times_re (Cls is_lower_hex) 64)"

definition sha256_pattern :: regex where
  "sha256_pattern = times_re (Cls is_lower_hex) 64"

record Revision =
  rev_role :: RevisionRole
  rev_sha :: string

definition mk_Revision :: "RevisionRole \<Rightarrow> string \<Rightarrow> exn + Revision" where
  "mk_Revision role sha =
     (let normalized_sha = lower sha in
      if \<not> is_fullmatch git_sha_pattern normalized_sha
      then Inl (ValueError ''revision SHA must be a full 40- or 64-character hexadecimal hash'')
      else Inr \<lparr>rev_role = role, rev_sha = normalized_sha\<rparr>)"

record TestArtifact =
  ta_relative_path :: string
  ta_node_id :: string
  ta_content :: bytes

definition mk_TestArtifact :: "string \<Rightarrow> string \<Rightarrow> bytes \<Rightarrow> exn + TestArtifact" where
  "mk_TestArtifact relative_path node_id content =
     (let expected_prefix = relative_path @ ''::'' in
      rbind (checks
        [(content = [], ValueError ''test artifact content must not be empty''),
         (CHR 0x5C \<in> set relative_path \<or> CHR 0x00 \<in> set relative_path,
          ValueError ''test artifact path must be a safe POSIX-style relative path''),
         (relative_path = [] \<or> is_absolute relative_path \<or> as_posix relative_path \<noteq> relative_path
            \<or> list_ex bad_part (path_parts relative_path) \<or> path_suffix relative_path \<noteq> ''.py'',
          ValueError ''test artifact path must be a normalized relative Python path''),
         (\<not> startswith node_id expected_prefix \<or> node_id = expected_prefix,
          ValueError ''pytest node ID must select a test inside the artifact path''),
         (CHR 0x00 \<in> set node_id \<or> CHR 0x0A \<in> set node_id \<or> CHR 0x0D \<in> set node_id,
          ValueError ''pytest node ID contains an invalid control character'')])
      (\<lambda>_. Inr \<lparr>ta_relative_path = relative_path, ta_node_id = node_id, ta_content = content\<rparr>))"

definition from_text :: "string \<Rightarrow> string \<Rightarrow> string \<Rightarrow> exn + TestArtifact" where
  "from_text relative_path node_id content = mk_TestArtifact relative_path node_id (utf8 content)"

definition ta_sha256 :: "TestArtifact \<Rightarrow> string" where
  "ta_sha256 a = sha256 (ta_content a)"

section \<open>Statuses\<close>

datatype TestExecutionStatus =
    PASSED | ASSERTION_FAILED | TEST_ERROR | COLLECTION_ERROR | NOT_COLLECTED
  | MULTIPLE_TESTS_COLLECTED | SKIPPED | XFAILED | XPASSED | INVALID_ARTIFACT | TIMED_OUT
  | ENVIRONMENT_SETUP_FAILED | PROCESS_ERROR

datatype EnvironmentReadinessStatus = READY | BASE_SETUP_FAILED | HEAD_SETUP_FAILED

datatype MechanicalEvidenceStatus =
    DISCRIMINATING | NON_DISCRIMINATING | INVALID_TEST | ENVIRONMENTAL
  | UNCAUGHT_EXCEPTION_ON_ONE_REVISION | COUNTERFACTUAL_NOT_APPLICABLE

datatype DifferentialPattern =
    BASE_ASSERTION_FAILED_HEAD_PASSED | BASE_PASSED_HEAD_ASSERTION_FAILED
  | BOTH_PASSED | BOTH_ASSERTION_FAILED | NOT_COMPARABLE

datatype ClaimOutcome =
    CLAIM_SUPPORTED_FOR_SCENARIO | CLAIM_NOT_SUPPORTED_FOR_SCENARIO
  | POTENTIAL_REGRESSION | INSUFFICIENT_EVIDENCE

text \<open>The text of an enumeration member, which an f-string prints.\<close>

fun str_role :: "RevisionRole \<Rightarrow> string" where
  "str_role BASE = ''BASE''"
| "str_role HEAD = ''HEAD''"

fun str_status :: "TestExecutionStatus \<Rightarrow> string" where
  "str_status PASSED = ''PASSED''"
| "str_status ASSERTION_FAILED = ''ASSERTION_FAILED''"
| "str_status TEST_ERROR = ''TEST_ERROR''"
| "str_status COLLECTION_ERROR = ''COLLECTION_ERROR''"
| "str_status NOT_COLLECTED = ''NOT_COLLECTED''"
| "str_status MULTIPLE_TESTS_COLLECTED = ''MULTIPLE_TESTS_COLLECTED''"
| "str_status SKIPPED = ''SKIPPED''"
| "str_status XFAILED = ''XFAILED''"
| "str_status XPASSED = ''XPASSED''"
| "str_status INVALID_ARTIFACT = ''INVALID_ARTIFACT''"
| "str_status TIMED_OUT = ''TIMED_OUT''"
| "str_status ENVIRONMENT_SETUP_FAILED = ''ENVIRONMENT_SETUP_FAILED''"
| "str_status PROCESS_ERROR = ''PROCESS_ERROR''"

fun str_mechanical :: "MechanicalEvidenceStatus \<Rightarrow> string" where
  "str_mechanical DISCRIMINATING = ''DISCRIMINATING''"
| "str_mechanical NON_DISCRIMINATING = ''NON_DISCRIMINATING''"
| "str_mechanical INVALID_TEST = ''INVALID_TEST''"
| "str_mechanical ENVIRONMENTAL = ''ENVIRONMENTAL''"
| "str_mechanical UNCAUGHT_EXCEPTION_ON_ONE_REVISION = ''UNCAUGHT_EXCEPTION_ON_ONE_REVISION''"
| "str_mechanical COUNTERFACTUAL_NOT_APPLICABLE = ''COUNTERFACTUAL_NOT_APPLICABLE''"

fun str_pattern :: "DifferentialPattern \<Rightarrow> string" where
  "str_pattern BASE_ASSERTION_FAILED_HEAD_PASSED = ''BASE_ASSERTION_FAILED_HEAD_PASSED''"
| "str_pattern BASE_PASSED_HEAD_ASSERTION_FAILED = ''BASE_PASSED_HEAD_ASSERTION_FAILED''"
| "str_pattern BOTH_PASSED = ''BOTH_PASSED''"
| "str_pattern BOTH_ASSERTION_FAILED = ''BOTH_ASSERTION_FAILED''"
| "str_pattern NOT_COMPARABLE = ''NOT_COMPARABLE''"

section \<open>Environment readiness\<close>

record EnvironmentSetupDiagnostic =
  sd_reason :: string
  sd_argv :: "string list"
  sd_cwd :: string
  sd_exit_code :: "int option"
  sd_duration_seconds :: seconds
  sd_stdout :: string
  sd_stderr :: string
  sd_timed_out :: bool
  sd_start_error :: "string option"
  sd_environment :: "(string \<times> string) list"

definition mk_EnvironmentSetupDiagnostic ::
    "EnvironmentSetupDiagnostic \<Rightarrow> exn + EnvironmentSetupDiagnostic" where
  "mk_EnvironmentSetupDiagnostic d =
     rbind (checks
       [(sd_reason d = [] \<or> length (sd_reason d) > 2000,
         ValueError ''setup diagnostic reason must be bounded and non-empty''),
        (sd_argv d = [] \<or> length (sd_argv d) > 8,
         ValueError ''setup diagnostic argv must contain 1-8 tokens''),
        (length (sd_cwd d) > 2000 \<or> sd_duration_seconds d < 0,
         ValueError ''setup diagnostic cwd or duration is invalid''),
        (length (sd_stdout d) > 4000 \<or> length (sd_stderr d) > 4000,
         ValueError ''setup diagnostic output exceeds its bounded limit'')])
     (\<lambda>_. Inr d)"

record EnvironmentReadiness =
  rd_status :: EnvironmentReadinessStatus
  rd_reason :: string
  rd_setup_diagnostic :: "EnvironmentSetupDiagnostic option"

definition rd_ready :: "EnvironmentReadiness \<Rightarrow> bool" where
  "rd_ready r = (rd_status r = READY)"

section \<open>Execution results and challenges\<close>

record ExecutionResult =
  er_revision :: Revision
  er_test_node_id :: string
  er_expected_sha256 :: string
  er_sha256_before :: "string option"
  er_sha256_after :: "string option"
  er_status :: TestExecutionStatus
  er_collected_count :: int
  er_exit_code :: "int option"
  er_duration_seconds :: seconds
  er_stdout :: string
  er_stderr :: string
  er_detail :: "string option"

definition observed_hash_ok :: "string option \<Rightarrow> bool" where
  "observed_hash_ok h = (case h of None \<Rightarrow> True | Some s \<Rightarrow> is_fullmatch sha256_pattern s)"

definition mk_ExecutionResult :: "ExecutionResult \<Rightarrow> exn + ExecutionResult" where
  "mk_ExecutionResult r =
     rbind (checks
       [(\<not> is_fullmatch sha256_pattern (er_expected_sha256 r),
         ValueError ''expected artifact hash must be a lowercase SHA-256 value''),
        (\<not> observed_hash_ok (er_sha256_before r) \<or> \<not> observed_hash_ok (er_sha256_after r),
         ValueError ''observed artifact hash must be a lowercase SHA-256 value''),
        (er_collected_count r < 0, ValueError ''collected test count cannot be negative''),
        (er_duration_seconds r < 0, ValueError ''execution duration cannot be negative'')])
     (\<lambda>_. Inr r)"

definition artifact_was_unchanged :: "ExecutionResult \<Rightarrow> bool" where
  "artifact_was_unchanged r =
     (er_sha256_before r = Some (er_expected_sha256 r) \<and> er_sha256_after r = Some (er_expected_sha256 r))"

record EvidenceAssessment =
  ea_mechanical_status :: MechanicalEvidenceStatus
  ea_pattern :: DifferentialPattern
  ea_reason :: string
  ea_claim_outcome :: "ClaimOutcome option"

record ChallengeResult =
  cr_artifact :: TestArtifact
  cr_base :: ExecutionResult
  cr_head :: ExecutionResult
  cr_assessment :: EvidenceAssessment

definition mk_ChallengeResult :: "ChallengeResult \<Rightarrow> exn + ChallengeResult" where
  "mk_ChallengeResult c =
     rbind (checks
       [(rev_role (er_revision (cr_base c)) \<noteq> BASE, ValueError ''base execution must use the BASE revision role''),
        (rev_role (er_revision (cr_head c)) \<noteq> HEAD, ValueError ''head execution must use the HEAD revision role'')])
     (\<lambda>_. Inr c)"

section \<open>Facts about the constructors\<close>

lemma git_sha_iff [simp]:
  "is_fullmatch git_sha_pattern s \<longleftrightarrow>
     (length s = 40 \<or> length s = 64) \<and> list_all is_lower_hex s"
  by (auto simp: fullmatch_lang git_sha_pattern_def list_all_iff)

lemma sha256_iff [simp]: "is_fullmatch sha256_pattern s \<longleftrightarrow> is_sha256_hex s"
  by (auto simp: fullmatch_lang sha256_pattern_def is_sha256_hex_def list_all_iff)

definition revision_ok :: "Revision \<Rightarrow> bool" where
  "revision_ok r = ((length (rev_sha r) = 40 \<or> length (rev_sha r) = 64) \<and> list_all is_lower_hex (rev_sha r))"

lemma mk_Revision_ok: "mk_Revision role sha = Inr r \<Longrightarrow> revision_ok r \<and> rev_role r = role"
  by (auto simp: mk_Revision_def Let_def revision_ok_def split: if_splits)

lemma lower_hex_fixed: "list_all is_lower_hex s \<Longrightarrow> lower s = s"
proof (induction s)
  case (Cons c s)
  then have "lower_char c = c"
    by (auto simp: lower_char_def is_lower_hex_def is_digit_def in_range_def Let_def)
  with Cons show ?case by (simp add: lower_def)
qed (simp add: lower_def)

text \<open>Normalising a stored revision again changes nothing.\<close>

lemma mk_Revision_idem:
  "mk_Revision role sha = Inr r \<Longrightarrow> mk_Revision role' (rev_sha r) = Inr (r\<lparr>rev_role := role'\<rparr>)"
  by (auto simp: mk_Revision_def Let_def split: if_splits)

definition artifact_ok :: "TestArtifact \<Rightarrow> bool" where
  "artifact_ok a =
     (ta_content a \<noteq> [] \<and> good_components (ta_relative_path a)
      \<and> CHR 0x5C \<notin> set (ta_relative_path a) \<and> CHR 0x00 \<notin> set (ta_relative_path a)
      \<and> path_suffix (ta_relative_path a) = ''.py''
      \<and> (\<exists>t. t \<noteq> [] \<and> ta_node_id a = ta_relative_path a @ ''::'' @ t)
      \<and> CHR 0x00 \<notin> set (ta_node_id a) \<and> CHR 0x0A \<notin> set (ta_node_id a) \<and> CHR 0x0D \<notin> set (ta_node_id a))"

lemma dot_has_no_suffix: "path_suffix ''.'' \<noteq> ''.py''"
  by (simp add: path_suffix_def path_name_def path_tail_def splitroot_def suffix_index_def after_last_def Let_def)

lemma mk_TestArtifact_iff:
  "mk_TestArtifact p n c = Inr a \<longleftrightarrow>
     a = \<lparr>ta_relative_path = p, ta_node_id = n, ta_content = c\<rparr> \<and> artifact_ok a"
proof -
  have "normal_relative p \<and> path_suffix p = ''.py'' \<longleftrightarrow> good_components p \<and> path_suffix p = ''.py''"
    using normal_relative_iff dot_has_no_suffix by metis
  then show ?thesis
    by (auto simp: mk_TestArtifact_def Let_def guard_simps artifact_ok_def normal_relative_def startswith_iff)
qed

lemma mk_ExecutionResult_eq: "mk_ExecutionResult r = Inr r' \<Longrightarrow> r' = r"
  by (auto simp: mk_ExecutionResult_def guard_simps)

definition execution_ok :: "ExecutionResult \<Rightarrow> bool" where
  "execution_ok r = is_ok (mk_ExecutionResult r)"

lemma ta_sha256_hex [simp]: "is_sha256_hex (ta_sha256 a)"
  by (simp add: ta_sha256_def)

end
