(* ===== verification/Evidence.thy ===== *)
theory Evidence
  imports Models
begin

text \<open>
  \<open>src/patchproof/evidence.py\<close>: the mechanical classification of one paired execution. The
  branches are in the order of the code: roles, declared identity, invalid statuses, a one-sided
  escaping exception, environmental statuses, byte integrity, and the four comparable patterns.
\<close>

definition INVALID_TEST_STATUSES :: "TestExecutionStatus list" where
  "INVALID_TEST_STATUSES =
     [INVALID_ARTIFACT, NOT_COLLECTED, MULTIPLE_TESTS_COLLECTED, SKIPPED, XFAILED, XPASSED]"

definition ENVIRONMENTAL_STATUSES :: "TestExecutionStatus list" where
  "ENVIRONMENTAL_STATUSES =
     [COLLECTION_ERROR, TEST_ERROR, TIMED_OUT, ENVIRONMENT_SETUP_FAILED, PROCESS_ERROR]"

definition ordinary_status :: "TestExecutionStatus \<Rightarrow> bool" where
  "ordinary_status s = (s = PASSED \<or> s = ASSERTION_FAILED)"

definition is_one_sided_uncaught_exception :: "ExecutionResult \<Rightarrow> ExecutionResult \<Rightarrow> bool" where
  "is_one_sided_uncaught_exception base head =
     (er_status base = TEST_ERROR \<and> ordinary_status (er_status head)
      \<or> er_status head = TEST_ERROR \<and> ordinary_status (er_status base))"

definition declared_identity_problem ::
    "TestArtifact \<Rightarrow> ExecutionResult \<Rightarrow> ExecutionResult \<Rightarrow> string option" where
  "declared_identity_problem artifact base head =
     (if er_test_node_id base \<noteq> ta_node_id artifact \<or> er_test_node_id head \<noteq> ta_node_id artifact
      then Some (''BASE and HEAD did not use the artifact'' @ [CHR 0x27] @ ''s identical pytest node ID'')
      else if er_expected_sha256 base \<noteq> ta_sha256 artifact \<or> er_expected_sha256 head \<noteq> ta_sha256 artifact
      then Some ''BASE and HEAD did not declare the same expected artifact hash''
      else None)"

definition artifact_integrity_problem :: "ExecutionResult \<Rightarrow> ExecutionResult \<Rightarrow> string option" where
  "artifact_integrity_problem base head =
     (if \<not> artifact_was_unchanged base \<or> \<not> artifact_was_unchanged head
      then Some ''candidate bytes were missing, mismatched, or changed during execution''
      else None)"

definition assess :: "MechanicalEvidenceStatus \<Rightarrow> DifferentialPattern \<Rightarrow> string \<Rightarrow> EvidenceAssessment" where
  "assess m p r = \<lparr>ea_mechanical_status = m, ea_pattern = p, ea_reason = r, ea_claim_outcome = None\<rparr>"

text \<open>\<open>BASE={base.status}, HEAD={head.status}\<close>, and the text of a sorted set of statuses.\<close>

definition status_pair_text :: "ExecutionResult \<Rightarrow> ExecutionResult \<Rightarrow> string" where
  "status_pair_text base head =
     ''BASE='' @ str_status (er_status base) @ '', HEAD='' @ str_status (er_status head)"

definition status_set_text :: "TestExecutionStatus \<Rightarrow> TestExecutionStatus \<Rightarrow> string" where
  "status_set_text a b =
     ''['' @ join '', '' (map (\<lambda>n. ''<TestExecutionStatus.'' @ n @ '': '' @ [CHR 0x27] @ n @ [CHR 0x27] @ ''>'')
                            (sort (remdups [str_status a, str_status b]))) @ '']''"

definition classify ::
    "TestArtifact \<Rightarrow> ExecutionResult \<Rightarrow> ExecutionResult \<Rightarrow> exn + EvidenceAssessment" where
  "classify artifact base head =
     (if rev_role (er_revision base) \<noteq> BASE \<or> rev_role (er_revision head) \<noteq> HEAD
      then Inl (ValueError ''evidence classification requires BASE and HEAD execution roles'')
      else case declared_identity_problem artifact base head of
        Some problem \<Rightarrow> Inr (assess INVALID_TEST NOT_COMPARABLE problem)
      | None \<Rightarrow>
        (let statuses = {er_status base, er_status head} in
         if statuses \<inter> set INVALID_TEST_STATUSES \<noteq> {} then
           Inr (assess INVALID_TEST NOT_COMPARABLE
             (''candidate did not execute as one ordinary collected test on both revisions: ''
              @ status_pair_text base head))
         else if is_one_sided_uncaught_exception base head then
           Inr (assess UNCAUGHT_EXCEPTION_ON_ONE_REVISION NOT_COMPARABLE
             (''exactly one revision let an exception escape the generated test while ''
              @ ''the other produced an ordinary outcome: '' @ status_pair_text base head
              @ ''; an escaping exception is not assertion evidence''))
         else if statuses \<inter> set ENVIRONMENTAL_STATUSES \<noteq> {} then
           Inr (assess ENVIRONMENTAL NOT_COMPARABLE
             (''execution environments did not produce comparable assertion outcomes: ''
              @ status_pair_text base head))
         else case artifact_integrity_problem base head of
           Some problem \<Rightarrow> Inr (assess INVALID_TEST NOT_COMPARABLE problem)
         | None \<Rightarrow>
           if \<not> statuses \<subseteq> {PASSED, ASSERTION_FAILED} then
             Inr (assess ENVIRONMENTAL NOT_COMPARABLE
               (''unhandled non-comparable execution statuses: ''
                @ status_set_text (er_status base) (er_status head)))
           else if er_status base = PASSED \<and> er_status head = PASSED then
             Inr (assess NON_DISCRIMINATING BOTH_PASSED
               ''the identical selected test passed on both BASE and HEAD'')
           else if er_status base = ASSERTION_FAILED \<and> er_status head = ASSERTION_FAILED then
             Inr (assess NON_DISCRIMINATING BOTH_ASSERTION_FAILED
               ''the identical selected test asserted unsuccessfully on both revisions'')
           else if er_status base = ASSERTION_FAILED \<and> er_status head = PASSED then
             Inr (assess DISCRIMINATING BASE_ASSERTION_FAILED_HEAD_PASSED
               (''the identical selected test assertion failed on BASE and passed on HEAD; ''
                @ ''semantic claim support has not been assessed''))
           else
             Inr (assess DISCRIMINATING BASE_PASSED_HEAD_ASSERTION_FAILED
               (''the identical selected test passed on BASE and asserted unsuccessfully on HEAD; ''
                @ ''semantic regression relevance has not been assessed''))))"

section \<open>What a classification says\<close>

definition right_roles :: "ExecutionResult \<Rightarrow> ExecutionResult \<Rightarrow> bool" where
  "right_roles base head =
     (rev_role (er_revision base) = BASE \<and> rev_role (er_revision head) = HEAD)"

text \<open>Both executions ran the artifact's node and its bytes, unchanged.\<close>

definition same_artifact :: "TestArtifact \<Rightarrow> ExecutionResult \<Rightarrow> bool" where
  "same_artifact artifact r =
     (er_test_node_id r = ta_node_id artifact \<and> er_expected_sha256 r = ta_sha256 artifact
      \<and> artifact_was_unchanged r)"

lemma assess_eq [simp]: "assess m p r = assess m' p' r' \<longleftrightarrow> m = m' \<and> p = p' \<and> r = r'"
  by (auto simp: assess_def)

lemma assess_sel [simp]:
  "ea_mechanical_status (assess m p r) = m" "ea_pattern (assess m p r) = p"
  "ea_reason (assess m p r) = r" "ea_claim_outcome (assess m p r) = None"
  by (simp_all add: assess_def)

lemma status_sets [simp]:
  "set INVALID_TEST_STATUSES =
     {INVALID_ARTIFACT, NOT_COLLECTED, MULTIPLE_TESTS_COLLECTED, SKIPPED, XFAILED, XPASSED}"
  "set ENVIRONMENTAL_STATUSES =
     {COLLECTION_ERROR, TEST_ERROR, TIMED_OUT, ENVIRONMENT_SETUP_FAILED, PROCESS_ERROR}"
  by (simp_all add: INVALID_TEST_STATUSES_def ENVIRONMENTAL_STATUSES_def)

lemma ordinary_iff:
  "ordinary_status s \<longleftrightarrow> s \<notin> set INVALID_TEST_STATUSES \<and> s \<notin> set ENVIRONMENTAL_STATUSES"
  by (cases s) (simp_all add: ordinary_status_def)

lemma same_artifact_iff:
  "same_artifact a b \<and> same_artifact a h \<longleftrightarrow>
     declared_identity_problem a b h = None \<and> artifact_integrity_problem b h = None"
  by (auto simp: same_artifact_def declared_identity_problem_def artifact_integrity_problem_def)

lemma pair_meets: "{x, y} \<inter> set zs \<noteq> {} \<longleftrightarrow> x \<in> set zs \<or> y \<in> set zs"
  by auto

lemma pair_ordinary: "{x, y} \<subseteq> {PASSED, ASSERTION_FAILED} \<longleftrightarrow> ordinary_status x \<and> ordinary_status y"
  by (auto simp: ordinary_status_def)

lemma one_sided_not_ordinary:
  "is_one_sided_uncaught_exception b h \<Longrightarrow> \<not> (ordinary_status (er_status b) \<and> ordinary_status (er_status h))"
  by (auto simp: is_one_sided_uncaught_exception_def ordinary_status_def)

text \<open>An ordinary pair reaches the four comparable branches, any other pair does not.\<close>

definition ordinary_pattern :: "TestExecutionStatus \<Rightarrow> TestExecutionStatus \<Rightarrow> DifferentialPattern" where
  "ordinary_pattern sb sh =
     (if sb = PASSED
      then (if sh = PASSED then BOTH_PASSED else BASE_PASSED_HEAD_ASSERTION_FAILED)
      else (if sh = PASSED then BASE_ASSERTION_FAILED_HEAD_PASSED else BOTH_ASSERTION_FAILED))"

definition comparable :: "TestArtifact \<Rightarrow> ExecutionResult \<Rightarrow> ExecutionResult \<Rightarrow> bool" where
  "comparable a b h =
     (same_artifact a b \<and> same_artifact a h \<and> ordinary_status (er_status b) \<and> ordinary_status (er_status h))"

lemma classify_comparable:
  assumes "right_roles b h" and "comparable a b h"
  shows "\<exists>reason. classify a b h = Inr (assess
       (if er_status b = er_status h then NON_DISCRIMINATING else DISCRIMINATING)
       (ordinary_pattern (er_status b) (er_status h)) reason) \<and> \<not> startswith reason ''unhandled''"
proof -
  have roles: "rev_role (er_revision b) = BASE" "rev_role (er_revision h) = HEAD"
    using assms(1) by (simp_all add: right_roles_def)
  have problems: "declared_identity_problem a b h = None" "artifact_integrity_problem b h = None"
    using assms(2) same_artifact_iff [of a b h] by (simp_all add: comparable_def)
  have ord: "ordinary_status (er_status b)" "ordinary_status (er_status h)"
    using assms(2) by (simp_all add: comparable_def)
  then have no_inv: "\<not> ({er_status b, er_status h} \<inter> set INVALID_TEST_STATUSES \<noteq> {})"
    and no_env: "\<not> ({er_status b, er_status h} \<inter> set ENVIRONMENTAL_STATUSES \<noteq> {})"
    unfolding pair_meets ordinary_iff by blast+
  have no_one: "\<not> is_one_sided_uncaught_exception b h" using one_sided_not_ordinary ord by blast
  show ?thesis
    unfolding classify_def Let_def roles problems option.case if_not_P [OF no_inv] if_not_P [OF no_env]
      if_not_P [OF no_one] pair_ordinary
    using ord by (auto simp: ordinary_status_def ordinary_pattern_def)
qed

lemma classify_not_comparable:
  assumes "right_roles b h" and "\<not> comparable a b h"
  shows "\<exists>m reason. classify a b h = Inr (assess m NOT_COMPARABLE reason) \<and>
       m \<in> {INVALID_TEST, ENVIRONMENTAL, UNCAUGHT_EXCEPTION_ON_ONE_REVISION} \<and>
       \<not> startswith reason ''unhandled''"
proof -
  have roles: "rev_role (er_revision b) = BASE" "rev_role (er_revision h) = HEAD"
    using assms(1) by (simp_all add: right_roles_def)
  show ?thesis
  proof (cases "declared_identity_problem a b h")
    case (Some p)
    then show ?thesis
      by (auto simp: classify_def roles declared_identity_problem_def split: if_splits)
  next
    case None
    note decl = this
    consider (inv) "{er_status b, er_status h} \<inter> set INVALID_TEST_STATUSES \<noteq> {}"
      | (one) "\<not> ({er_status b, er_status h} \<inter> set INVALID_TEST_STATUSES \<noteq> {})"
          "is_one_sided_uncaught_exception b h"
      | (env) "\<not> ({er_status b, er_status h} \<inter> set INVALID_TEST_STATUSES \<noteq> {})"
          "\<not> is_one_sided_uncaught_exception b h"
          "{er_status b, er_status h} \<inter> set ENVIRONMENTAL_STATUSES \<noteq> {}"
      | (integ) "\<not> ({er_status b, er_status h} \<inter> set INVALID_TEST_STATUSES \<noteq> {})"
          "\<not> is_one_sided_uncaught_exception b h"
          "\<not> ({er_status b, er_status h} \<inter> set ENVIRONMENTAL_STATUSES \<noteq> {})"
          "artifact_integrity_problem b h \<noteq> None"
      using assms(2) None same_artifact_iff [of a b h]
      unfolding comparable_def pair_meets ordinary_iff by (metis (mono_tags, opaque_lifting))
    then show ?thesis
    proof cases
      case inv
      show ?thesis unfolding classify_def Let_def roles decl option.case if_P [OF inv] by simp
    next
      case one
      show ?thesis unfolding classify_def Let_def roles decl option.case if_not_P [OF one(1)] if_P [OF one(2)]
        by simp
    next
      case env
      show ?thesis unfolding classify_def Let_def roles decl option.case if_not_P [OF env(1)]
          if_not_P [OF env(2)] if_P [OF env(3)] by simp
    next
      case integ
      then obtain p where p: "artifact_integrity_problem b h = Some p" by blast
      then have "\<not> startswith p ''unhandled''"
        by (auto simp: artifact_integrity_problem_def split: if_splits)
      then show ?thesis unfolding classify_def Let_def roles decl option.case if_not_P [OF integ(1)]
          if_not_P [OF integ(2)] if_not_P [OF integ(3)] p by simp
    qed
  qed
qed

lemma classify_ok_iff: "is_ok (classify a b h) \<longleftrightarrow> right_roles b h"
proof (cases "right_roles b h")
  case True
  then show ?thesis
    using classify_comparable [OF True] classify_not_comparable [OF True] by (metis is_ok_simps(1))
next
  case False
  then have wrong: "rev_role (er_revision b) \<noteq> BASE \<or> rev_role (er_revision h) \<noteq> HEAD"
    by (simp add: right_roles_def)
  show ?thesis unfolding classify_def if_P [OF wrong] by (simp add: False)
qed

text \<open>
  C8: The one pattern the program treats as support is produced exactly when the assertion failed
  on BASE and passed on HEAD, both executions have their role, and both ran the artifact's node
  with its bytes, observed unchanged before and after the run.
\<close>

theorem support_pattern_iff:
  "(\<exists>r. classify a base head = Inr r \<and> ea_pattern r = BASE_ASSERTION_FAILED_HEAD_PASSED)
     \<longleftrightarrow> right_roles base head \<and> same_artifact a base \<and> same_artifact a head
       \<and> er_status base = ASSERTION_FAILED \<and> er_status head = PASSED"
  (is "?L \<longleftrightarrow> ?R")
proof
  assume ?L
  then obtain r where r: "classify a base head = Inr r" "ea_pattern r = BASE_ASSERTION_FAILED_HEAD_PASSED"
    by blast
  then have roles: "right_roles base head" using classify_ok_iff is_ok_simps(1) by metis
  have c: "comparable a base head"
    using classify_not_comparable [OF roles] r by (force simp: assess_def)
  show ?R
    using classify_comparable [OF roles c] r c roles
    by (auto simp: assess_def ordinary_pattern_def comparable_def ordinary_status_def split: if_splits)
next
  assume ?R
  then show ?L
    using classify_comparable [of base head a]
    by (auto simp: assess_def ordinary_pattern_def comparable_def ordinary_status_def)
qed

text \<open>
  C29: With the roles right, classification never raises, never reaches its last-resort branch for
  unhandled statuses, leaves the claim outcome unset, and calls a pair comparable exactly when its
  mechanical status is DISCRIMINATING or NON\_DISCRIMINATING.
\<close>

theorem classification_total:
  assumes "right_roles base head"
  shows "\<exists>r. classify a base head = Inr r \<and> \<not> startswith (ea_reason r) ''unhandled''
           \<and> ea_claim_outcome r = None
           \<and> (ea_pattern r \<noteq> NOT_COMPARABLE) = (ea_mechanical_status r \<in> {DISCRIMINATING, NON_DISCRIMINATING})"
proof (cases "comparable a base head")
  case True
  then show ?thesis
    using classify_comparable [OF assms True] by (auto simp: assess_def ordinary_pattern_def split: if_splits)
next
  case False
  then show ?thesis using classify_not_comparable [OF assms False] by (auto simp: assess_def)
qed

definition sample_execution :: "RevisionRole \<Rightarrow> ExecutionResult" where
  "sample_execution role = \<lparr>er_revision = \<lparr>rev_role = role, rev_sha = replicate 40 (CHR ''a'')\<rparr>,
     er_test_node_id = ''t.py::t'', er_expected_sha256 = replicate 64 (CHR ''0''),
     er_sha256_before = None, er_sha256_after = None, er_status = PASSED, er_collected_count = 1,
     er_exit_code = Some 0, er_duration_seconds = 1, er_stdout = [], er_stderr = [], er_detail = None\<rparr>"

theorem classification_total_witness:
  "\<exists>r. classify \<lparr>ta_relative_path = ''t.py'', ta_node_id = ''t.py::t'', ta_content = [1]\<rparr>
         (sample_execution BASE) (sample_execution HEAD) = Inr r \<and> \<not> startswith (ea_reason r) ''unhandled''
       \<and> ea_claim_outcome r = None
       \<and> (ea_pattern r \<noteq> NOT_COMPARABLE) = (ea_mechanical_status r \<in> {DISCRIMINATING, NON_DISCRIMINATING})"
  by (rule classification_total) (simp add: right_roles_def sample_execution_def)

end
