(* ===== verification/Workflow.thy ===== *)
theory Workflow
  imports Models
begin

text \<open>
  \<open>src/patchproof/workflow.py\<close>: the durable run record with its separate state dimensions, and
  the transition rules. A \<open>mk_\<close> function is a pydantic constructor (\<open>model_validate\<close>).
  The facts after the definitions describe one accepted transition and then any sequence of them.
\<close>

section \<open>Values\<close>

definition repository_char :: "char \<Rightarrow> bool" where
  "repository_char c =
     (in_range (CHR ''a'') (CHR ''z'') c \<or> is_digit c \<or> c \<in> set ''_.-'')"

definition repository_pattern :: regex where
  "repository_pattern = seqs [plus_re (Cls repository_char), lit ''/'', plus_re (Cls repository_char)]"

definition normalize_repository_name :: "string \<Rightarrow> exn + string" where
  "normalize_repository_name value =
     (let normalized = lower (strip value) in
      if \<not> is_fullmatch repository_pattern normalized
      then Inl (ValueError ''repository must use the owner/name form'')
      else Inr normalized)"

datatype RunLifecycle = ACCEPTED | QUEUED | RUNNING | TERMINAL

datatype RunPhase =
    CONTEXT | CLAIM | TEST_GENERATION | BASE_EXECUTION | HEAD_EXECUTION | ASSESSMENT | PUBLICATION

datatype TerminalReason = COMPLETED | FAILED | SUPERSEDED | CANCELLED

datatype PublicationState =
    NOT_STARTED | PENDING | PUBLISHED | RETRYABLE_FAILURE | TERMINAL_FAILURE | NOT_APPLICABLE

datatype RevisionState = CURRENT | SUPERSEDED

record PullRequestEvent =
  pe_delivery_id :: string
  pe_action :: string
  pe_repository :: string
  pe_pr_number :: int
  pe_base_sha :: string
  pe_head_sha :: string
  pe_head_updated_at :: utc
  pe_title :: string
  pe_body :: string
  pe_installation_id :: "int option"

definition pos_opt :: "int option \<Rightarrow> bool" where
  "pos_opt x = (case x of None \<Rightarrow> True | Some n \<Rightarrow> 0 < n)"

definition mk_PullRequestEvent ::
    "string \<Rightarrow> string \<Rightarrow> string \<Rightarrow> int \<Rightarrow> string \<Rightarrow> string \<Rightarrow> datetime \<Rightarrow> string \<Rightarrow> string \<Rightarrow> int option
     \<Rightarrow> exn + PullRequestEvent" where
  "mk_PullRequestEvent delivery_id action repository pr_number base_sha head_sha head_updated_at
       title body installation_id =
     rbind (normalize_repository_name repository) (\<lambda>repo.
     rbind (checks
       [(\<not> len_between 1 128 delivery_id, ValidationError ''delivery_id''),
        (\<not> len_between 1 64 action, ValidationError ''action''),
        (pr_number \<le> 0, ValidationError ''pr_number''),
        (\<not> is_fullmatch git_sha_pattern (lower base_sha), ValidationError ''base_sha''),
        (\<not> is_fullmatch git_sha_pattern (lower head_sha), ValidationError ''head_sha''),
        (\<not> len_between 1 300 title, ValidationError ''title''),
        (8000 < length body, ValidationError ''body''),
        (\<not> pos_opt installation_id, ValidationError ''installation_id'')]) (\<lambda>_.
     rbind (to_utc (ValidationError ''head update timestamp must include a timezone'') head_updated_at) (\<lambda>ts.
     Inr \<lparr>pe_delivery_id = delivery_id, pe_action = action, pe_repository = repo, pe_pr_number = pr_number,
          pe_base_sha = lower base_sha, pe_head_sha = lower head_sha, pe_head_updated_at = ts,
          pe_title = title, pe_body = body, pe_installation_id = installation_id\<rparr>)))"

record VerificationRun =
  vr_run_id :: uuid
  vr_delivery_id :: string
  vr_event_action :: string
  vr_repository :: string
  vr_pr_number :: int
  vr_base_sha :: string
  vr_head_sha :: string
  vr_head_updated_at :: utc
  vr_title :: string
  vr_body :: string
  vr_installation_id :: "int option"
  vr_lifecycle :: RunLifecycle
  vr_phase :: RunPhase
  vr_terminal_reason :: "TerminalReason option"
  vr_mechanical_evidence_status :: "MechanicalEvidenceStatus option"
  vr_claim_outcome :: "ClaimOutcome option"
  vr_publication_state :: PublicationState
  vr_revision_state :: RevisionState
  vr_superseded_by_run_id :: "uuid option"
  vr_created_at :: utc
  vr_updated_at :: utc
  vr_version :: int

definition mk_VerificationRun :: "VerificationRun \<Rightarrow> exn + VerificationRun" where
  "mk_VerificationRun r =
     rbind (checks
       [(vr_pr_number r \<le> 0, ValidationError ''pr_number''),
        (\<not> len_between 1 300 (vr_title r), ValidationError ''title''),
        (8000 < length (vr_body r), ValidationError ''body''),
        (\<not> pos_opt (vr_installation_id r), ValidationError ''installation_id''),
        (vr_version r < 1, ValidationError ''version''),
        (\<not> is_fullmatch repository_pattern (vr_repository r) \<or> vr_repository r \<noteq> lower (vr_repository r),
         ValidationError ''stored repository must be a canonical owner/name''),
        (\<not> is_fullmatch git_sha_pattern (vr_base_sha r) \<or> \<not> is_fullmatch git_sha_pattern (vr_head_sha r),
         ValidationError ''stored revision must be a full lowercase Git SHA''),
        (vr_lifecycle r = TERMINAL \<and> vr_terminal_reason r = None,
         ValidationError ''terminal lifecycle requires a terminal reason''),
        (vr_lifecycle r \<noteq> TERMINAL \<and> vr_terminal_reason r \<noteq> None,
         ValidationError ''non-terminal lifecycle cannot have a terminal reason''),
        (vr_revision_state r = RevisionState.CURRENT \<and> vr_superseded_by_run_id r \<noteq> None,
         ValidationError ''current revision cannot reference a superseding run''),
        (vr_revision_state r = RevisionState.SUPERSEDED \<and> vr_superseded_by_run_id r = None,
         ValidationError ''superseded revision must reference its replacement run''),
        (vr_updated_at r < vr_created_at r, ValidationError ''updated timestamp cannot precede creation'')])
     (\<lambda>_. Inr r)"

record RunTransition =
  rt_lifecycle :: "RunLifecycle option"
  rt_phase :: "RunPhase option"
  rt_terminal_reason :: "TerminalReason option"
  rt_mechanical_evidence_status :: "MechanicalEvidenceStatus option"
  rt_claim_outcome :: "ClaimOutcome option"
  rt_publication_state :: "PublicationState option"

definition no_transition :: RunTransition where
  "no_transition = \<lparr>rt_lifecycle = None, rt_phase = None, rt_terminal_reason = None,
     rt_mechanical_evidence_status = None, rt_claim_outcome = None, rt_publication_state = None\<rparr>"

definition mk_RunTransition :: "RunTransition \<Rightarrow> exn + RunTransition" where
  "mk_RunTransition t =
     (if rt_lifecycle t = None \<and> rt_phase t = None \<and> rt_terminal_reason t = None
         \<and> rt_mechanical_evidence_status t = None \<and> rt_claim_outcome t = None \<and> rt_publication_state t = None
      then Inl (ValidationError ''transition must request at least one state change'') else Inr t)"

text \<open>A repository name is two non-empty parts of permitted characters around one slash.\<close>

lemma repository_iff:
  "is_fullmatch repository_pattern s \<longleftrightarrow>
     (\<exists>owner name. s = owner @ CHR ''/'' # name \<and> owner \<noteq> [] \<and> name \<noteq> []
        \<and> list_all repository_char owner \<and> list_all repository_char name)"
  by (auto simp: fullmatch_lang repository_pattern_def list_all_iff Suc_le_eq)

section \<open>Transitions\<close>

fun LIFECYCLE_TRANSITIONS :: "RunLifecycle \<Rightarrow> RunLifecycle list" where
  "LIFECYCLE_TRANSITIONS ACCEPTED = [ACCEPTED, QUEUED, TERMINAL]"
| "LIFECYCLE_TRANSITIONS QUEUED = [QUEUED, RUNNING, TERMINAL]"
| "LIFECYCLE_TRANSITIONS RUNNING = [RUNNING, TERMINAL]"
| "LIFECYCLE_TRANSITIONS TERMINAL = [TERMINAL]"

fun PHASE_ORDER :: "RunPhase \<Rightarrow> nat" where
  "PHASE_ORDER CONTEXT = 0"
| "PHASE_ORDER CLAIM = 1"
| "PHASE_ORDER TEST_GENERATION = 2"
| "PHASE_ORDER BASE_EXECUTION = 3"
| "PHASE_ORDER HEAD_EXECUTION = 4"
| "PHASE_ORDER ASSESSMENT = 5"
| "PHASE_ORDER PUBLICATION = 6"

fun PUBLICATION_TRANSITIONS :: "PublicationState \<Rightarrow> PublicationState list" where
  "PUBLICATION_TRANSITIONS NOT_STARTED = [NOT_STARTED, PENDING]"
| "PUBLICATION_TRANSITIONS PENDING =
     [PENDING, PUBLISHED, RETRYABLE_FAILURE, TERMINAL_FAILURE, NOT_APPLICABLE]"
| "PUBLICATION_TRANSITIONS RETRYABLE_FAILURE = [RETRYABLE_FAILURE, PENDING, PUBLISHED, TERMINAL_FAILURE]"
| "PUBLICATION_TRANSITIONS PUBLISHED = [PUBLISHED]"
| "PUBLICATION_TRANSITIONS TERMINAL_FAILURE = [TERMINAL_FAILURE]"
| "PUBLICATION_TRANSITIONS NOT_APPLICABLE = [NOT_APPLICABLE]"

text \<open>\<open>requested or current\<close>, for a required and for an optional field.\<close>

definition or_current :: "'a option \<Rightarrow> 'a \<Rightarrow> 'a" where
  "or_current requested current = (case requested of None \<Rightarrow> current | Some x \<Rightarrow> x)"

definition or_else :: "'a option \<Rightarrow> 'a option \<Rightarrow> 'a option" where
  "or_else requested current = (case requested of None \<Rightarrow> current | Some x \<Rightarrow> Some x)"

text \<open>The record the six changes produce, before the timestamp and the version.\<close>

definition with_changes :: "VerificationRun \<Rightarrow> RunTransition \<Rightarrow> VerificationRun" where
  "with_changes c t = c\<lparr>
     vr_lifecycle := or_current (rt_lifecycle t) (vr_lifecycle c),
     vr_phase := or_current (rt_phase t) (vr_phase c),
     vr_terminal_reason := or_else (rt_terminal_reason t) (vr_terminal_reason c),
     vr_mechanical_evidence_status := or_else (rt_mechanical_evidence_status t) (vr_mechanical_evidence_status c),
     vr_claim_outcome := or_else (rt_claim_outcome t) (vr_claim_outcome c),
     vr_publication_state := or_current (rt_publication_state t) (vr_publication_state c)\<rparr>"

definition transition_guards :: "VerificationRun \<Rightarrow> VerificationRun \<Rightarrow> utc \<Rightarrow> (bool \<times> exn) list" where
  "transition_guards current next_run normalized_updated_at =
         [(normalized_updated_at < vr_updated_at current,
           InvalidRunTransition ''transition timestamp cannot move backward''),
          (vr_revision_state current = RevisionState.SUPERSEDED,
           InvalidRunTransition ''superseded runs cannot resume or publish''),
          (vr_lifecycle next_run \<notin> set (LIFECYCLE_TRANSITIONS (vr_lifecycle current)),
           InvalidRunTransition ''lifecycle cannot move''),
          (PHASE_ORDER (vr_phase next_run) < PHASE_ORDER (vr_phase current),
           InvalidRunTransition ''phase cannot move backward''),
          (vr_publication_state next_run \<notin> set (PUBLICATION_TRANSITIONS (vr_publication_state current)),
           InvalidRunTransition ''publication cannot move''),
          (vr_lifecycle next_run = TERMINAL \<and> vr_terminal_reason next_run = None,
           InvalidRunTransition ''terminal lifecycle requires a terminal reason''),
          (vr_lifecycle next_run \<noteq> TERMINAL \<and> vr_terminal_reason next_run \<noteq> None,
           InvalidRunTransition ''terminal reason requires terminal lifecycle''),
          (vr_terminal_reason current \<noteq> None \<and> vr_terminal_reason next_run \<noteq> vr_terminal_reason current,
           InvalidRunTransition ''terminal reason is immutable once recorded''),
          (vr_mechanical_evidence_status current \<noteq> None
             \<and> vr_mechanical_evidence_status next_run \<noteq> vr_mechanical_evidence_status current,
           InvalidRunTransition ''mechanical evidence status cannot be overwritten''),
          (vr_claim_outcome current \<noteq> None \<and> vr_claim_outcome next_run \<noteq> vr_claim_outcome current,
           InvalidRunTransition ''claim outcome cannot be overwritten''),
          (next_run = current, InvalidRunTransition ''transition does not change persisted state'')]"

definition apply_run_transition :: "VerificationRun \<Rightarrow> RunTransition \<Rightarrow> datetime \<Rightarrow> exn + VerificationRun" where
  "apply_run_transition current transition updated_at =
     rbind (to_utc (InvalidRunTransition ''transition timestamp must include a timezone'') updated_at)
     (\<lambda>normalized_updated_at.
       let next_run = with_changes current transition in
       rbind (checks (transition_guards current next_run normalized_updated_at))
       (\<lambda>_. mk_VerificationRun
              (next_run\<lparr>vr_updated_at := normalized_updated_at, vr_version := vr_version current + 1\<rparr>)))"

section \<open>Valid runs\<close>

definition run_ok :: "VerificationRun \<Rightarrow> bool" where
  "run_ok r = (mk_VerificationRun r = Inr r)"

definition run_static_ok :: "VerificationRun \<Rightarrow> bool" where
  "run_static_ok r =
     (0 < vr_pr_number r \<and> len_between 1 300 (vr_title r) \<and> length (vr_body r) \<le> 8000
      \<and> pos_opt (vr_installation_id r)
      \<and> is_fullmatch repository_pattern (vr_repository r) \<and> vr_repository r = lower (vr_repository r)
      \<and> is_fullmatch git_sha_pattern (vr_base_sha r) \<and> is_fullmatch git_sha_pattern (vr_head_sha r))"

definition dimensions_ok :: "VerificationRun \<Rightarrow> bool" where
  "dimensions_ok r =
     (1 \<le> vr_version r
      \<and> (vr_lifecycle r = TERMINAL) = (vr_terminal_reason r \<noteq> None)
      \<and> (vr_revision_state r = RevisionState.SUPERSEDED) = (vr_superseded_by_run_id r \<noteq> None)
      \<and> vr_created_at r \<le> vr_updated_at r)"

lemma rev_current_iff: "s = RevisionState.CURRENT \<longleftrightarrow> s \<noteq> RevisionState.SUPERSEDED"
  by (cases s) simp_all

lemma rev_state_cases: "s \<noteq> RevisionState.SUPERSEDED \<longleftrightarrow> s = RevisionState.CURRENT"
  by (cases s) simp_all

lemma run_ok_iff: "run_ok r \<longleftrightarrow> run_static_ok r \<and> dimensions_ok r"
  unfolding run_ok_def mk_VerificationRun_def rbind_eq_Inr checks_ok run_static_ok_def dimensions_ok_def
  by (simp add: not_less not_le rev_current_iff del: not_None_eq cong: conj_cong) argo

lemma mk_VerificationRun_iff: "mk_VerificationRun r = Inr r' \<longleftrightarrow> r' = r \<and> run_ok r"
  unfolding run_ok_def mk_VerificationRun_def rbind_eq_Inr by auto

lemma or_simps [simp]:
  "or_current None c = c" "or_current (Some x) c = x"
  "or_else None o' = o'" "or_else (Some x) o' = Some x"
  by (simp_all add: or_current_def or_else_def)

text \<open>The fields a transition cannot touch, and the guards of an accepted one.\<close>

definition same_identity :: "VerificationRun \<Rightarrow> VerificationRun \<Rightarrow> bool" where
  "same_identity r s =
     (s = r\<lparr>vr_lifecycle := vr_lifecycle s, vr_phase := vr_phase s, vr_terminal_reason := vr_terminal_reason s,
           vr_mechanical_evidence_status := vr_mechanical_evidence_status s,
           vr_claim_outcome := vr_claim_outcome s, vr_publication_state := vr_publication_state s,
           vr_updated_at := vr_updated_at s, vr_version := vr_version s\<rparr>)"

definition keeps_some :: "'a option \<Rightarrow> 'a option \<Rightarrow> bool" where
  "keeps_some x y = (x = None \<or> y = x)"

definition permitted_change :: "VerificationRun \<Rightarrow> VerificationRun \<Rightarrow> bool" where
  "permitted_change r s =
     (vr_updated_at r \<le> vr_updated_at s
      \<and> vr_revision_state r = RevisionState.CURRENT
      \<and> vr_lifecycle s \<in> set (LIFECYCLE_TRANSITIONS (vr_lifecycle r))
      \<and> PHASE_ORDER (vr_phase r) \<le> PHASE_ORDER (vr_phase s)
      \<and> vr_publication_state s \<in> set (PUBLICATION_TRANSITIONS (vr_publication_state r))
      \<and> (vr_lifecycle s = TERMINAL) = (vr_terminal_reason s \<noteq> None)
      \<and> keeps_some (vr_terminal_reason r) (vr_terminal_reason s)
      \<and> keeps_some (vr_mechanical_evidence_status r) (vr_mechanical_evidence_status s)
      \<and> keeps_some (vr_claim_outcome r) (vr_claim_outcome s))"

definition unstamped :: "VerificationRun \<Rightarrow> VerificationRun" where
  "unstamped r = r\<lparr>vr_updated_at := 0, vr_version := 0\<rparr>"

lemma with_changes_static [simp]:
  "vr_run_id (with_changes r t) = vr_run_id r" "vr_repository (with_changes r t) = vr_repository r"
  "vr_revision_state (with_changes r t) = vr_revision_state r"
  "vr_superseded_by_run_id (with_changes r t) = vr_superseded_by_run_id r"
  "vr_created_at (with_changes r t) = vr_created_at r" "vr_updated_at (with_changes r t) = vr_updated_at r"
  "vr_version (with_changes r t) = vr_version r"
  by (simp_all add: with_changes_def)

lemma with_changes_static_ok: "run_static_ok (with_changes r t) = run_static_ok r"
  by (simp add: run_static_ok_def with_changes_def)

lemma transition_guards_ok:
  "checks (transition_guards r (with_changes r t) ts) = Inr u \<longleftrightarrow>
     permitted_change r ((with_changes r t)\<lparr>vr_updated_at := ts, vr_version := vr_version r + 1\<rparr>)
     \<and> with_changes r t \<noteq> r"
  unfolding transition_guards_def checks_ok permitted_change_def keeps_some_def rev_state_cases
  by (simp add: not_less not_le rev_state_cases del: not_None_eq cong: conj_cong) argo

lemma transition_guards_err:
  "checks (transition_guards r s ts) = Inl e \<Longrightarrow> \<exists>m. e = InvalidRunTransition m"
  unfolding transition_guards_def by (drule checks_err) auto

lemma apply_ok_iff:
  "apply_run_transition r t (Aware now off) = Inr s \<longleftrightarrow>
     s = (with_changes r t)\<lparr>vr_updated_at := now - off, vr_version := vr_version r + 1\<rparr>
     \<and> permitted_change r s \<and> with_changes r t \<noteq> r \<and> run_ok s"
  unfolding apply_run_transition_def to_utc.simps rbind_simps Let_def rbind_eq_Inr
    mk_VerificationRun_iff transition_guards_ok by auto

text \<open>On a valid run the final re-validation of the record never fails.\<close>

lemma permitted_run_ok:
  assumes "run_ok r"
    and "s = (with_changes r t)\<lparr>vr_updated_at := ts, vr_version := vr_version r + 1\<rparr>"
    and "permitted_change r s"
  shows "run_ok s"
proof -
  have "run_static_ok s" using assms(1) unfolding assms(2) run_ok_iff
    by (simp add: run_static_ok_def with_changes_def)
  moreover have "dimensions_ok s"
    using assms(1,3) unfolding run_ok_iff dimensions_ok_def assms(2) permitted_change_def by simp
  ultimately show ?thesis by (simp add: run_ok_iff)
qed

lemma transition_error_kind:
  assumes "run_ok r" and "apply_run_transition r t (Aware now off) = Inl e"
  shows "\<exists>m. e = InvalidRunTransition m"
  using assms(2) permitted_run_ok [OF assms(1) refl]
  unfolding apply_run_transition_def to_utc.simps rbind_simps Let_def rbind_eq_Inl transition_guards_ok
  by (auto dest: transition_guards_err simp: run_ok_def)

section \<open>Sequences of accepted transitions\<close>

inductive run_step :: "VerificationRun \<Rightarrow> VerificationRun \<Rightarrow> bool" where
  run_step: "mk_RunTransition t = Inr t \<Longrightarrow> apply_run_transition r t (Aware now off) = Inr s \<Longrightarrow> run_step r s"

inductive_cases run_stepE: "run_step r s"

text \<open>\<open>run_path n p r s\<close>: n accepted transitions, p of which changed the publication state.\<close>

inductive run_path :: "nat \<Rightarrow> nat \<Rightarrow> VerificationRun \<Rightarrow> VerificationRun \<Rightarrow> bool" where
  path_nil: "run_path 0 0 r r"
| path_step: "run_path n p r s \<Longrightarrow> run_step s u \<Longrightarrow>
     run_path (Suc n) (if vr_publication_state u = vr_publication_state s then p else Suc p) r u"

lemma run_step_facts:
  assumes "run_step r s"
  shows "permitted_change r s" "same_identity r s" "unstamped s \<noteq> unstamped r"
    "vr_version s = vr_version r + 1" "run_ok s"
proof -
  from assms obtain t now off where a: "apply_run_transition r t (Aware now off) = Inr s"
    by (cases) blast
  then have s: "s = (with_changes r t)\<lparr>vr_updated_at := now - off, vr_version := vr_version r + 1\<rparr>"
    and p: "permitted_change r s" and n: "with_changes r t \<noteq> r" and ok: "run_ok s"
    unfolding apply_ok_iff by blast+
  show "permitted_change r s" "run_ok s" by (rule p ok)+
  show "same_identity r s" unfolding same_identity_def s with_changes_def by simp
  show "vr_version s = vr_version r + 1" unfolding s by simp
  show "unstamped s \<noteq> unstamped r"
  proof
    assume "unstamped s = unstamped r"
    then have "unstamped (with_changes r t) = unstamped r" unfolding s by (simp add: unstamped_def)
    then have "(unstamped (with_changes r t))\<lparr>vr_updated_at := vr_updated_at r, vr_version := vr_version r\<rparr>
             = (unstamped r)\<lparr>vr_updated_at := vr_updated_at r, vr_version := vr_version r\<rparr>" by simp
    then have "with_changes r t = r" unfolding unstamped_def with_changes_def by simp
    with n show False ..
  qed
qed

lemma keeps_some_trans: "keeps_some x y \<Longrightarrow> keeps_some y z \<Longrightarrow> keeps_some x z"
  by (auto simp: keeps_some_def)

lemma keeps_some_refl [simp]: "keeps_some x x"
  by (simp add: keeps_some_def)

fun lifecycle_rank :: "RunLifecycle \<Rightarrow> nat" where
  "lifecycle_rank ACCEPTED = 0" | "lifecycle_rank QUEUED = 1"
| "lifecycle_rank RUNNING = 2" | "lifecycle_rank TERMINAL = 3"

lemma lifecycle_rank_mono: "b \<in> set (LIFECYCLE_TRANSITIONS a) \<Longrightarrow> lifecycle_rank a \<le> lifecycle_rank b"
  by (cases a) auto

lemma lifecycle_rank_inj: "lifecycle_rank a = lifecycle_rank b \<longleftrightarrow> a = b"
  by (cases a; cases b) auto

lemma PHASE_ORDER_inj: "PHASE_ORDER a = PHASE_ORDER b \<longleftrightarrow> a = b"
  by (cases a; cases b) simp_all

definition run_progress :: "VerificationRun \<Rightarrow> nat" where
  "run_progress r = lifecycle_rank (vr_lifecycle r) + PHASE_ORDER (vr_phase r)
     + (if vr_mechanical_evidence_status r = None then 0 else 1)
     + (if vr_claim_outcome r = None then 0 else 1)"

lemma run_progress_bound: "run_progress r \<le> 11"
proof -
  have "lifecycle_rank (vr_lifecycle r) \<le> 3" by (cases "vr_lifecycle r") simp_all
  moreover have "PHASE_ORDER (vr_phase r) \<le> 6" by (cases "vr_phase r") simp_all
  ultimately show ?thesis by (simp add: run_progress_def)
qed

lemma run_progress_mono: "permitted_change r s \<Longrightarrow> run_progress r \<le> run_progress s"
  using lifecycle_rank_mono [of "vr_lifecycle s" "vr_lifecycle r"]
  by (auto simp: permitted_change_def run_progress_def keeps_some_def)

text \<open>Equal progress and publication state leave only the timestamp and the version to differ.\<close>

lemma run_progress_strict:
  assumes "run_step r s" "run_ok r" "vr_publication_state s = vr_publication_state r"
  shows "run_progress r < run_progress s"
proof (rule ccontr)
  assume "\<not> run_progress r < run_progress s"
  note p = run_step_facts(1) [OF assms(1)]
  with run_progress_mono [OF p] have eq: "run_progress s = run_progress r"
    using \<open>\<not> run_progress r < run_progress s\<close> by simp
  have ranks: "lifecycle_rank (vr_lifecycle r) \<le> lifecycle_rank (vr_lifecycle s)"
    "PHASE_ORDER (vr_phase r) \<le> PHASE_ORDER (vr_phase s)"
    using p lifecycle_rank_mono unfolding permitted_change_def by blast+
  have keeps: "keeps_some (vr_mechanical_evidence_status r) (vr_mechanical_evidence_status s)"
    "keeps_some (vr_claim_outcome r) (vr_claim_outcome s)"
    "keeps_some (vr_terminal_reason r) (vr_terminal_reason s)"
    using p unfolding permitted_change_def by blast+
  have "lifecycle_rank (vr_lifecycle s) = lifecycle_rank (vr_lifecycle r)"
    "PHASE_ORDER (vr_phase s) = PHASE_ORDER (vr_phase r)"
    "vr_mechanical_evidence_status s = vr_mechanical_evidence_status r"
    "vr_claim_outcome s = vr_claim_outcome r"
    using eq ranks keeps unfolding run_progress_def keeps_some_def by (auto split: if_splits)
  then have same: "vr_lifecycle s = vr_lifecycle r" "vr_phase s = vr_phase r"
    "vr_mechanical_evidence_status s = vr_mechanical_evidence_status r"
    "vr_claim_outcome s = vr_claim_outcome r" by (simp_all add: lifecycle_rank_inj PHASE_ORDER_inj)
  have "vr_terminal_reason s = vr_terminal_reason r"
    using run_step_facts(5) [OF assms(1)] assms(2) same(1) keeps(3)
    unfolding run_ok_iff dimensions_ok_def keeps_some_def by metis
  then have "s = r\<lparr>vr_updated_at := vr_updated_at s, vr_version := vr_version s\<rparr>"
    using run_step_facts(2) [OF assms(1)] same assms(3) unfolding same_identity_def by simp
  then have "unstamped s = unstamped (r\<lparr>vr_updated_at := vr_updated_at s, vr_version := vr_version s\<rparr>)"
    by (rule arg_cong)
  then have "unstamped s = unstamped r" by (simp add: unstamped_def)
  with run_step_facts(3) [OF assms(1)] show False ..
qed

lemma run_path_ok: "run_path n p r s \<Longrightarrow> run_ok r \<Longrightarrow> run_ok s"
  by (induction rule: run_path.induct) (auto dest: run_step_facts(5))

lemma run_path_progress: "run_path n p r s \<Longrightarrow> run_ok r \<Longrightarrow> n + run_progress r \<le> run_progress s + p"
proof (induction rule: run_path.induct)
  case (path_step n p r s u)
  then have ok: "run_ok s" using run_path_ok by blast
  have ih: "n + run_progress r \<le> run_progress s + p" using path_step by blast
  show ?case
  proof (cases "vr_publication_state u = vr_publication_state s")
    case True
    then show ?thesis using run_progress_strict [OF path_step(2) ok] ih by simp
  next
    case False
    then show ?thesis using run_progress_mono run_step_facts(1) [OF path_step(2)] ih by fastforce
  qed
qed simp

text \<open>What a sequence of accepted transitions preserves.\<close>

definition run_after :: "nat \<Rightarrow> VerificationRun \<Rightarrow> VerificationRun \<Rightarrow> bool" where
  "run_after n r s =
     (same_identity r s \<and> vr_version s = vr_version r + int n \<and> vr_updated_at r \<le> vr_updated_at s
      \<and> lifecycle_rank (vr_lifecycle r) \<le> lifecycle_rank (vr_lifecycle s)
      \<and> PHASE_ORDER (vr_phase r) \<le> PHASE_ORDER (vr_phase s)
      \<and> keeps_some (vr_terminal_reason r) (vr_terminal_reason s)
      \<and> keeps_some (vr_mechanical_evidence_status r) (vr_mechanical_evidence_status s)
      \<and> keeps_some (vr_claim_outcome r) (vr_claim_outcome s)
      \<and> (vr_publication_state r \<in> {PUBLISHED, TERMINAL_FAILURE, NOT_APPLICABLE} \<longrightarrow>
           vr_publication_state s = vr_publication_state r))"

lemma same_identity_refl: "same_identity r r"
  by (simp add: same_identity_def)

lemma same_identity_trans: "same_identity r s \<Longrightarrow> same_identity s u \<Longrightarrow> same_identity r u"
  unfolding same_identity_def by (cases r; cases s; cases u) simp

lemma same_identity_fields:
  "same_identity r s \<Longrightarrow>
     vr_run_id s = vr_run_id r \<and> vr_delivery_id s = vr_delivery_id r \<and> vr_repository s = vr_repository r
     \<and> vr_pr_number s = vr_pr_number r \<and> vr_base_sha s = vr_base_sha r \<and> vr_head_sha s = vr_head_sha r
     \<and> vr_head_updated_at s = vr_head_updated_at r \<and> vr_revision_state s = vr_revision_state r
     \<and> vr_superseded_by_run_id s = vr_superseded_by_run_id r \<and> vr_created_at s = vr_created_at r"
  unfolding same_identity_def by (cases r; cases s) simp

lemma run_after_step: "run_step r s \<Longrightarrow> run_after 1 r s"
  using run_step_facts [of r s] lifecycle_rank_mono [of "vr_lifecycle s" "vr_lifecycle r"]
  unfolding run_after_def permitted_change_def by auto

lemma run_after_trans: "run_after m r s \<Longrightarrow> run_after n s u \<Longrightarrow> run_after (m + n) r u"
  unfolding run_after_def using same_identity_trans keeps_some_trans
  by (smt (verit) le_trans of_nat_add)

lemma run_after_path: "run_path n p r s \<Longrightarrow> run_after n r s"
proof (induction rule: run_path.induct)
  case (path_nil r)
  then show ?case by (simp add: run_after_def same_identity_refl)
next
  case (path_step n p r s u)
  then show ?case using run_after_trans [of n r s 1 u] run_after_step by simp
qed

section \<open>Properties\<close>

text \<open>A valid run used by the witnesses.\<close>

definition sample_run :: VerificationRun where
  "sample_run = \<lparr>vr_run_id = 7, vr_delivery_id = ''d'', vr_event_action = ''opened'', vr_repository = ''o/r'',
     vr_pr_number = 1, vr_base_sha = replicate 40 (CHR ''a''), vr_head_sha = replicate 40 (CHR ''b''),
     vr_head_updated_at = 0, vr_title = ''t'', vr_body = [], vr_installation_id = None,
     vr_lifecycle = ACCEPTED, vr_phase = CONTEXT, vr_terminal_reason = None,
     vr_mechanical_evidence_status = None, vr_claim_outcome = None, vr_publication_state = NOT_STARTED,
     vr_revision_state = RevisionState.CURRENT, vr_superseded_by_run_id = None,
     vr_created_at = 0, vr_updated_at = 0, vr_version = 1\<rparr>"

lemma sample_repository: "is_fullmatch repository_pattern ''o/r''"
  unfolding repository_iff
  by (rule exI [of _ "''o''"], rule exI [of _ "''r''"]) (simp add: repository_char_def in_range_def)

lemma sample_run_ok: "run_ok sample_run"
  unfolding run_ok_iff run_static_ok_def dimensions_ok_def
  by (simp add: sample_run_def sample_repository len_between_def pos_opt_def is_lower_hex_def in_range_def
      lower_def lower_char_def Let_def list_all_iff)

definition sample_queued :: VerificationRun where
  "sample_queued = sample_run\<lparr>vr_lifecycle := QUEUED, vr_updated_at := 5, vr_version := 2\<rparr>"

definition sample_pending :: VerificationRun where
  "sample_pending = sample_queued\<lparr>vr_publication_state := PENDING, vr_updated_at := 6, vr_version := 3\<rparr>"

lemma sample_queue_transition:
  "apply_run_transition sample_run (no_transition\<lparr>rt_lifecycle := Some QUEUED\<rparr>) (Aware 5 0) = Inr sample_queued"
proof -
  let ?t = "no_transition\<lparr>rt_lifecycle := Some QUEUED\<rparr>"
  have s: "sample_queued
      = (with_changes sample_run ?t)\<lparr>vr_updated_at := 5 - 0, vr_version := vr_version sample_run + 1\<rparr>"
    by (simp add: sample_queued_def sample_run_def with_changes_def no_transition_def)
  have p: "permitted_change sample_run sample_queued"
    by (simp add: permitted_change_def sample_queued_def sample_run_def)
  have "with_changes sample_run ?t \<noteq> sample_run"
    by (simp add: sample_run_def with_changes_def no_transition_def)
  then show ?thesis
    unfolding apply_ok_iff using s p permitted_run_ok [OF sample_run_ok s p] by blast
qed

lemma sample_path: "run_path 2 1 sample_run sample_pending"
proof -
  have queued: "run_step sample_run sample_queued"
  proof (rule run_step)
    let ?t = "no_transition\<lparr>rt_lifecycle := Some QUEUED\<rparr>"
    show "mk_RunTransition ?t = Inr ?t" by (simp add: mk_RunTransition_def)
    show "apply_run_transition sample_run ?t (Aware 5 0) = Inr sample_queued" by (rule sample_queue_transition)
  qed
  note ok = run_step_facts(5) [OF queued]
  have pending: "run_step sample_queued sample_pending"
  proof (rule run_step)
    let ?t = "no_transition\<lparr>rt_publication_state := Some PENDING\<rparr>"
    show "mk_RunTransition ?t = Inr ?t" by (simp add: mk_RunTransition_def)
    have s: "sample_pending
        = (with_changes sample_queued ?t)\<lparr>vr_updated_at := 6 - 0, vr_version := vr_version sample_queued + 1\<rparr>"
      by (simp add: sample_pending_def sample_queued_def sample_run_def with_changes_def no_transition_def)
    have p: "permitted_change sample_queued sample_pending"
      by (simp add: permitted_change_def sample_pending_def sample_queued_def sample_run_def)
    have "with_changes sample_queued ?t \<noteq> sample_queued"
      by (simp add: sample_queued_def sample_run_def with_changes_def no_transition_def)
    then show "apply_run_transition sample_queued ?t (Aware 6 0) = Inr sample_pending"
      unfolding apply_ok_iff using s p permitted_run_ok [OF ok s p] by blast
  qed
  have "vr_publication_state sample_queued = vr_publication_state sample_run"
    "vr_publication_state sample_pending \<noteq> vr_publication_state sample_queued"
    by (simp_all add: sample_pending_def sample_queued_def sample_run_def)
  then show ?thesis
    using path_step [OF path_step [OF path_nil queued] pending] by (simp add: numeral_2_eq_2)
qed

text \<open>
  C30: On a valid run, a requested transition either raises InvalidRunTransition or returns a valid
  run whose version is one higher and whose identity fields are the same: the re-validation of the
  record at the end never raises an error of its own.
\<close>

theorem transition_total:
  assumes "run_ok r"
  shows "(\<exists>m. apply_run_transition r t now = Inl (InvalidRunTransition m))
       \<or> (\<exists>s. apply_run_transition r t now = Inr s \<and> run_ok s \<and> vr_version s = vr_version r + 1
              \<and> same_identity r s)"
proof (cases now)
  case (Naive x)
  then show ?thesis by (simp add: apply_run_transition_def)
next
  case (Aware ts off)
  show ?thesis
  proof (cases "apply_run_transition r t now")
    case (Inr s)
    then have "s = (with_changes r t)\<lparr>vr_updated_at := ts - off, vr_version := vr_version r + 1\<rparr> \<and> run_ok s"
      unfolding Aware apply_ok_iff by blast
    then show ?thesis using Inr by (auto simp: same_identity_def with_changes_def)
  next
    case (Inl e)
    then show ?thesis using transition_error_kind [OF assms] Aware by blast
  qed
qed

theorem transition_total_witness:
  "(\<exists>m. apply_run_transition sample_run no_transition (Aware 5 0) = Inl (InvalidRunTransition m))
   \<or> (\<exists>s. apply_run_transition sample_run no_transition (Aware 5 0) = Inr s \<and> run_ok s
        \<and> vr_version s = vr_version sample_run + 1 \<and> same_identity sample_run s)"
  by (rule transition_total [OF sample_run_ok])

text \<open>
  C15: Along any sequence of accepted transitions a valid run stays valid, its identity never
  changes, its version counts the transitions, its clock, lifecycle and phase never move back, a
  recorded terminal reason, mechanical status and claim outcome never change, and a final
  publication state is never left.
\<close>

theorem run_history:
  assumes "run_ok r" and "run_path n p r s"
  shows "run_ok s \<and> run_after n r s"
  using assms run_path_ok run_after_path by blast

theorem run_history_witness: "run_ok sample_pending \<and> run_after 2 sample_run sample_pending"
  by (rule run_history [OF sample_run_ok sample_path])

text \<open>
  C31: A run accepts at most eleven transitions besides those that change its publication state:
  no sequence of scheduling, phase and verdict updates goes on for ever.
\<close>

theorem run_transitions_bounded:
  assumes "run_ok r" and "run_path n p r s"
  shows "n \<le> 11 + p"
  using run_path_progress [OF assms(2,1)] run_progress_bound [of s] by simp

theorem run_transitions_bounded_witness: "(2::nat) \<le> 11 + 1"
  by (rule run_transitions_bounded [OF sample_run_ok sample_path])

end
