(* ===== verification/RunStore.thy ===== *)
theory RunStore
  imports Workflow
begin

text \<open>
  \<open>src/patchproof/storage.py\<close>, the part both stores share: the values a store returns and the
  argument checks and updates written the same way in \<open>storage.py\<close> and \<open>firestore_store.py\<close>.
  The \<open>VerificationRunStore\<close> protocol itself is in \<open>StoreOps\<close>.
\<close>

section \<open>Values\<close>

datatype AcceptanceKind = CREATED | DUPLICATE_DELIVERY | DUPLICATE_REVISION | STALE_CREATED

record AcceptanceResult =
  ar_kind :: AcceptanceKind
  ar_run :: VerificationRun

record StoredEvidence =
  se_run_id :: uuid
  se_document_json :: string
  se_sha256 :: string
  se_created_at :: utc

record CheckPublication =
  cp_run_id :: uuid
  cp_payload_sha256 :: string
  cp_check_run_id :: "int option"
  cp_attempt_count :: int
  cp_last_error :: "string option"
  cp_updated_at :: utc

record RunFailureRecord =
  rf_run_id :: uuid
  rf_phase :: RunPhase
  rf_error_code :: string
  rf_summary :: string
  rf_retryable :: bool
  rf_created_at :: utc
  rf_model_usage :: "model_usage option"
  rf_raw_response_sha256 :: "string option"

section \<open>Checks and values both stores build\<close>

definition store_now :: "datetime \<Rightarrow> exn + utc" where
  "store_now clock = to_utc (ValueError ''store clock must return a timezone-aware timestamp'') clock"

definition upper_letter :: "char \<Rightarrow> bool" where
  "upper_letter c = in_range (CHR ''A'') (CHR ''Z'') c"

definition error_code_pattern :: regex where
  "error_code_pattern =
     Seq (Cls upper_letter) (Rep (Cls (\<lambda>c. upper_letter c \<or> is_digit c \<or> c = CHR ''_'')) 2 (Some 63))"

definition bounded_error :: "string \<Rightarrow> string" where
  "bounded_error error = or_str (take 1000 (strip error)) ''GitHub Check publication failed''"

text \<open>The argument checks of \<open>fail_run\<close>: the bounded summary, or the error.\<close>

definition failure_summary :: "string \<Rightarrow> string \<Rightarrow> string option \<Rightarrow> exn + string" where
  "failure_summary error_code summary raw_response_sha256 =
     (let bounded_summary = take 500 (strip summary) in
      rbind (checks
        [(\<not> is_fullmatch error_code_pattern error_code,
          ValueError ''worker failure code must be a bounded uppercase identifier''),
         (bounded_summary = [], ValueError ''worker failure summary must not be empty''),
         (\<not> observed_hash_ok raw_response_sha256,
          ValueError ''worker failure response hash must be lowercase SHA-256'')])
      (\<lambda>_. Inr bounded_summary))"

definition failed_transition :: RunTransition where
  "failed_transition = no_transition\<lparr>rt_lifecycle := Some TERMINAL, rt_terminal_reason := Some FAILED\<rparr>"

definition event_run :: "PullRequestEvent \<Rightarrow> uuid \<Rightarrow> utc \<Rightarrow> VerificationRun option \<Rightarrow> bool \<Rightarrow> VerificationRun" where
  "event_run event run_id now current_run is_stale =
     \<lparr>vr_run_id = run_id, vr_delivery_id = pe_delivery_id event, vr_event_action = pe_action event,
      vr_repository = pe_repository event, vr_pr_number = pe_pr_number event,
      vr_base_sha = pe_base_sha event, vr_head_sha = pe_head_sha event,
      vr_head_updated_at = pe_head_updated_at event, vr_title = pe_title event, vr_body = pe_body event,
      vr_installation_id = pe_installation_id event,
      vr_lifecycle = (if is_stale then TERMINAL else ACCEPTED), vr_phase = CONTEXT,
      vr_terminal_reason = (if is_stale then Some TerminalReason.SUPERSEDED else None),
      vr_mechanical_evidence_status = None, vr_claim_outcome = None, vr_publication_state = NOT_STARTED,
      vr_revision_state = (if is_stale then RevisionState.SUPERSEDED else RevisionState.CURRENT),
      vr_superseded_by_run_id = (if is_stale then map_option vr_run_id current_run else None),
      vr_created_at = now, vr_updated_at = now, vr_version = 1\<rparr>"

text \<open>The two updates of an existing run that accepting an event can make.\<close>

definition refresh_run :: "PullRequestEvent \<Rightarrow> utc \<Rightarrow> VerificationRun \<Rightarrow> VerificationRun" where
  "refresh_run event now r = r\<lparr>
     vr_head_updated_at := pe_head_updated_at event, vr_event_action := pe_action event,
     vr_title := pe_title event, vr_body := pe_body event, vr_installation_id := pe_installation_id event,
     vr_updated_at := now, vr_version := vr_version r + 1\<rparr>"

definition supersede_run :: "uuid \<Rightarrow> utc \<Rightarrow> VerificationRun \<Rightarrow> VerificationRun" where
  "supersede_run replacement now r = r\<lparr>
     vr_revision_state := RevisionState.SUPERSEDED, vr_superseded_by_run_id := Some replacement,
     vr_lifecycle := (if vr_lifecycle r = TERMINAL then vr_lifecycle r else TERMINAL),
     vr_terminal_reason := (if vr_lifecycle r = TERMINAL then vr_terminal_reason r
                            else Some TerminalReason.SUPERSEDED),
     vr_updated_at := now, vr_version := vr_version r + 1\<rparr>"

definition same_pull :: "string \<Rightarrow> int \<Rightarrow> VerificationRun \<Rightarrow> bool" where
  "same_pull repository pr_number r = (vr_repository r = repository \<and> vr_pr_number r = pr_number)"

definition same_revision :: "PullRequestEvent \<Rightarrow> VerificationRun \<Rightarrow> bool" where
  "same_revision event r =
     (same_pull (pe_repository event) (pe_pr_number event) r
      \<and> vr_base_sha r = pe_base_sha event \<and> vr_head_sha r = pe_head_sha event)"

definition ts_not_newer :: "PullRequestEvent \<Rightarrow> VerificationRun option \<Rightarrow> bool" where
  "ts_not_newer event current_run =
     (case current_run of None \<Rightarrow> False | Some c \<Rightarrow> pe_head_updated_at event \<le> vr_head_updated_at c)"

text \<open>A duplicate resolves to the known run unless the event is newer than another current run.\<close>

definition reuse_duplicate :: "PullRequestEvent \<Rightarrow> VerificationRun option \<Rightarrow> VerificationRun \<Rightarrow> bool" where
  "reuse_duplicate event current_run run =
     (case current_run of None \<Rightarrow> True
      | Some c \<Rightarrow> vr_run_id run = vr_run_id c \<or> pe_head_updated_at event \<le> vr_head_updated_at c)"

end
