(* ===== verification/SqliteStore.thy ===== *)
theory SqliteStore
  imports RunStore
begin

text \<open>
  \<open>src/patchproof/storage.py\<close>, \<open>SqliteVerificationRunStore\<close>: the tables, and every operation as
  a program on them. A table with a primary key is a map from the key (the runs table is the list
  of its rows in insertion order, because queries order it); a transaction that raises leaves the
  tables as they were. The clock's value and the identity \<open>uuid4\<close> returns are arguments.
\<close>

section \<open>Tables\<close>

record database =
  db_runs :: "VerificationRun list"
  db_deliveries :: "string \<Rightarrow> (uuid \<times> utc) option"
  db_evidence :: "uuid \<Rightarrow> StoredEvidence option"
  db_publications :: "uuid \<Rightarrow> CheckPublication option"
  db_failures :: "uuid \<Rightarrow> RunFailureRecord option"

definition empty_database :: database where
  "empty_database = \<lparr>db_runs = [], db_deliveries = Map.empty, db_evidence = Map.empty,
     db_publications = Map.empty, db_failures = Map.empty\<rparr>"

text \<open>Reading a row validates it again (\<open>_row_to_run\<close>).\<close>

definition row_to_run :: "VerificationRun \<Rightarrow> exn + VerificationRun" where
  "row_to_run row = mk_VerificationRun row"

definition opt_row_to_run :: "VerificationRun option \<Rightarrow> exn + VerificationRun option" where
  "opt_row_to_run row = (case row of None \<Rightarrow> Inr None | Some r \<Rightarrow> rbind (row_to_run r) (\<lambda>v. Inr (Some v)))"

definition row_of :: "VerificationRun list \<Rightarrow> uuid \<Rightarrow> VerificationRun option" where
  "row_of rows run_id = List.find (\<lambda>r. vr_run_id r = run_id) rows"

definition require_run :: "database \<Rightarrow> uuid \<Rightarrow> exn + VerificationRun" where
  "require_run db run_id =
     (case row_of (db_runs db) run_id of
        None \<Rightarrow> Inl (RunNotFoundError ''verification run not found'') | Some row \<Rightarrow> row_to_run row)"

text \<open>\<open>UPDATE runs SET ... WHERE run_id = ?\<close>\<close>

definition update_where ::
    "(VerificationRun \<Rightarrow> bool) \<Rightarrow> (VerificationRun \<Rightarrow> VerificationRun) \<Rightarrow> VerificationRun list \<Rightarrow> VerificationRun list" where
  "update_where p f rows = map (\<lambda>r. if p r then f r else r) rows"

definition update_run :: "uuid \<Rightarrow> (VerificationRun \<Rightarrow> VerificationRun) \<Rightarrow> VerificationRun list \<Rightarrow> VerificationRun list" where
  "update_run run_id f rows = update_where (\<lambda>r. vr_run_id r = run_id) f rows"

text \<open>The primary key and the partial unique index \<open>one_current_run_per_pull_request\<close>.\<close>

definition insert_run :: "VerificationRun \<Rightarrow> VerificationRun list \<Rightarrow> exn + VerificationRun list" where
  "insert_run run rows =
     (if row_of rows (vr_run_id run) \<noteq> None then Inl (IntegrityError ''runs.run_id'')
      else if vr_revision_state run = RevisionState.CURRENT
         \<and> list_ex (\<lambda>r. same_pull (vr_repository run) (vr_pr_number run) r
                         \<and> vr_revision_state r = RevisionState.CURRENT) rows
      then Inl (IntegrityError ''one_current_run_per_pull_request'')
      else Inr (rows @ [run]))"

definition insert_delivery :: "string \<Rightarrow> uuid \<Rightarrow> utc \<Rightarrow> database \<Rightarrow> exn + database" where
  "insert_delivery delivery_id run_id received_at db =
     (case db_deliveries db delivery_id of
        Some _ \<Rightarrow> Inl (IntegrityError ''deliveries.delivery_id'')
      | None \<Rightarrow> Inr (db\<lparr>db_deliveries := (db_deliveries db)(delivery_id \<mapsto> (run_id, received_at))\<rparr>))"

text \<open>\<open>ORDER BY head_updated_at DESC, created_at DESC LIMIT 1\<close> (of equal rows, the last stored).\<close>

fun newest :: "VerificationRun list \<Rightarrow> VerificationRun option" where
  "newest [] = None"
| "newest (r # rs) = (case newest rs of None \<Rightarrow> Some r
     | Some s \<Rightarrow> if vr_head_updated_at s < vr_head_updated_at r
           \<or> vr_head_updated_at s = vr_head_updated_at r \<and> vr_created_at s < vr_created_at r
         then Some r else Some s)"

section \<open>Accepting a pull request\<close>

definition accept_duplicate ::
    "PullRequestEvent \<Rightarrow> utc \<Rightarrow> VerificationRun \<Rightarrow> database \<Rightarrow> exn + (AcceptanceResult \<times> database)" where
  "accept_duplicate event now run db =
     (let newer = vr_head_updated_at run < pe_head_updated_at event;
          db1 = (if newer
                 then db\<lparr>db_runs := update_run (vr_run_id run) (refresh_run event now) (db_runs db)\<rparr> else db) in
      rbind (if newer then require_run db1 (vr_run_id run) else Inr run) (\<lambda>run1.
      rbind (insert_delivery (pe_delivery_id event) (vr_run_id run1) now db1) (\<lambda>db2.
      Inr (\<lparr>ar_kind = DUPLICATE_REVISION, ar_run = run1\<rparr>, db2))))"

definition accept_new ::
    "PullRequestEvent \<Rightarrow> uuid \<Rightarrow> utc \<Rightarrow> VerificationRun option \<Rightarrow> database \<Rightarrow> exn + (AcceptanceResult \<times> database)" where
  "accept_new event run_id now current_run db =
     (let is_stale = ts_not_newer event current_run;
          rows1 = (case current_run of None \<Rightarrow> db_runs db
            | Some c \<Rightarrow> if is_stale then db_runs db
                        else update_run (vr_run_id c) (supersede_run run_id now) (db_runs db)) in
      rbind (mk_VerificationRun (event_run event run_id now current_run is_stale)) (\<lambda>run.
      rbind (insert_run run rows1) (\<lambda>rows2.
      rbind (insert_delivery (pe_delivery_id event) run_id now (db\<lparr>db_runs := rows2\<rparr>)) (\<lambda>db2.
      Inr (\<lparr>ar_kind = (if is_stale then STALE_CREATED else CREATED), ar_run = run\<rparr>, db2)))))"

definition accept_body :: "PullRequestEvent \<Rightarrow> uuid \<Rightarrow> utc \<Rightarrow> database \<Rightarrow> exn + (AcceptanceResult \<times> database)" where
  "accept_body event run_id now db =
     (case Option.bind (db_deliveries db (pe_delivery_id event)) (\<lambda>(rid, _). row_of (db_runs db) rid) of
        Some row \<Rightarrow> rbind (row_to_run row) (\<lambda>run. Inr (\<lparr>ar_kind = DUPLICATE_DELIVERY, ar_run = run\<rparr>, db))
      | None \<Rightarrow>
        rbind (opt_row_to_run (List.find
            (\<lambda>r. same_pull (pe_repository event) (pe_pr_number event) r
                 \<and> vr_revision_state r = RevisionState.CURRENT) (db_runs db))) (\<lambda>current_run.
        rbind (opt_row_to_run (newest (filter (same_revision event) (db_runs db)))) (\<lambda>duplicate.
        case duplicate of
          Some run \<Rightarrow> if reuse_duplicate event current_run run then accept_duplicate event now run db
                      else accept_new event run_id now current_run db
        | None \<Rightarrow> accept_new event run_id now current_run db)))"

definition accept_pull_request ::
    "PullRequestEvent \<Rightarrow> uuid \<Rightarrow> datetime \<Rightarrow> (database, exn, AcceptanceResult) prog" where
  "accept_pull_request event run_id clock =
     pbind (plift (store_now clock)) (\<lambda>now. ptxn (accept_body event run_id now))"

section \<open>Reading and transitions\<close>

definition get_run :: "uuid \<Rightarrow> database \<Rightarrow> exn + VerificationRun" where
  "get_run run_id db = require_run db run_id"

definition list_runs :: "string \<Rightarrow> int \<Rightarrow> database \<Rightarrow> exn + VerificationRun list" where
  "list_runs repository pr_number db =
     rmap row_to_run (sort_key vr_created_at (sort_key vr_run_id
       (filter (same_pull (lower repository) pr_number) (db_runs db))))"

definition list_recent_runs :: "int \<Rightarrow> database \<Rightarrow> exn + VerificationRun list" where
  "list_recent_runs limit db =
     (if \<not> (1 \<le> limit \<and> limit \<le> 8) then Inl (ValueError ''recent run limit must be between one and eight'')
      else rmap row_to_run (take (nat limit)
        (rev (sort_key vr_created_at (sort_key vr_run_id (db_runs db))))))"

definition transition_run ::
    "uuid \<Rightarrow> int \<Rightarrow> RunTransition \<Rightarrow> datetime \<Rightarrow> (database, exn, VerificationRun) prog" where
  "transition_run run_id expected_version transition clock =
     pbind (plift (store_now clock)) (\<lambda>now. ptxn (\<lambda>db.
       rbind (require_run db run_id) (\<lambda>current.
       rbind (guard (vr_version current = expected_version) (ConcurrentRunUpdateError ''run version'')) (\<lambda>_.
       rbind (apply_run_transition current transition (Aware now 0)) (\<lambda>updated.
       let target = (\<lambda>r. vr_run_id r = run_id \<and> vr_version r = expected_version) in
       rbind (guard (length (filter target (db_runs db)) = 1)
                (ConcurrentRunUpdateError ''run changed during transition'')) (\<lambda>_.
       Inr (updated, db\<lparr>db_runs := update_where target (\<lambda>_. updated) (db_runs db)\<rparr>)))))))"

section \<open>Evidence, publication and failure records\<close>

definition save_evidence ::
    "uuid \<Rightarrow> string \<Rightarrow> string \<Rightarrow> datetime \<Rightarrow> (database, exn, StoredEvidence) prog" where
  "save_evidence run_id document_json sha clock =
     pbind (pguard (sha256 (utf8 document_json) = sha)
              (ValueError ''evidence SHA-256 does not match serialized evidence'')) (\<lambda>_.
     pbind (plift (store_now clock)) (\<lambda>now. ptxn (\<lambda>db.
       rbind (require_run db run_id) (\<lambda>_.
       case db_evidence db run_id of
         None \<Rightarrow>
           (let row = \<lparr>se_run_id = run_id, se_document_json = document_json, se_sha256 = sha,
                        se_created_at = now\<rparr> in
            Inr (row, db\<lparr>db_evidence := (db_evidence db)(run_id \<mapsto> row)\<rparr>))
       | Some row \<Rightarrow>
           if se_sha256 row \<noteq> sha \<or> se_document_json row \<noteq> document_json
           then Inl (StoredEvidenceConflictError ''stored evidence cannot be overwritten'')
           else Inr (row, db)))))"

definition get_evidence :: "uuid \<Rightarrow> database \<Rightarrow> StoredEvidence option" where
  "get_evidence run_id db = db_evidence db run_id"

definition put_publication :: "uuid \<Rightarrow> CheckPublication \<Rightarrow> database \<Rightarrow> CheckPublication \<times> database" where
  "put_publication run_id row db = (row, db\<lparr>db_publications := (db_publications db)(run_id \<mapsto> row)\<rparr>)"

definition begin_publication ::
    "uuid \<Rightarrow> string \<Rightarrow> datetime \<Rightarrow> (database, exn, CheckPublication) prog" where
  "begin_publication run_id payload_sha256 clock =
     pbind (pguard (is_fullmatch sha256_pattern payload_sha256)
              (ValueError ''publication payload hash must be a lowercase SHA-256 value'')) (\<lambda>_.
     pbind (plift (store_now clock)) (\<lambda>now. ptxn (\<lambda>db.
       rbind (require_run db run_id) (\<lambda>_.
       case db_publications db run_id of
         None \<Rightarrow>
           Inr (put_publication run_id
             \<lparr>cp_run_id = run_id, cp_payload_sha256 = payload_sha256, cp_check_run_id = None,
              cp_attempt_count = 1, cp_last_error = None, cp_updated_at = now\<rparr> db)
       | Some row \<Rightarrow>
           if cp_payload_sha256 row \<noteq> payload_sha256
           then Inl (StoredEvidenceConflictError ''publication payload cannot be replaced'')
           else Inr (put_publication run_id
             (row\<lparr>cp_attempt_count := cp_attempt_count row + 1, cp_last_error := None, cp_updated_at := now\<rparr>) db)))))"

definition get_publication :: "uuid \<Rightarrow> database \<Rightarrow> CheckPublication option" where
  "get_publication run_id db = db_publications db run_id"

definition set_check_run_id ::
    "uuid \<Rightarrow> int \<Rightarrow> datetime \<Rightarrow> (database, exn, CheckPublication) prog" where
  "set_check_run_id run_id check_run_id clock =
     pbind (pguard (0 < check_run_id) (ValueError ''GitHub Check run ID must be positive'')) (\<lambda>_.
     pbind (plift (store_now clock)) (\<lambda>now. ptxn (\<lambda>db.
       case db_publications db run_id of
         None \<Rightarrow> Inl (RunNotFoundError ''publication attempt has not started'')
       | Some row \<Rightarrow>
           if cp_check_run_id row \<noteq> None \<and> cp_check_run_id row \<noteq> Some check_run_id
           then Inl (StoredEvidenceConflictError ''GitHub Check identity cannot be replaced'')
           else Inr (put_publication run_id
             (row\<lparr>cp_check_run_id := Some check_run_id, cp_updated_at := now\<rparr>) db))))"

definition record_publication_error ::
    "uuid \<Rightarrow> string \<Rightarrow> datetime \<Rightarrow> (database, exn, CheckPublication) prog" where
  "record_publication_error run_id error clock =
     pbind (plift (store_now clock)) (\<lambda>now. ptxn (\<lambda>db.
       case db_publications db run_id of
         None \<Rightarrow> Inl (RunNotFoundError ''publication attempt has not started'')
       | Some row \<Rightarrow> Inr (put_publication run_id
             (row\<lparr>cp_last_error := Some (bounded_error error), cp_updated_at := now\<rparr>) db)))"

definition failure_record ::
    "uuid \<Rightarrow> VerificationRun \<Rightarrow> string \<Rightarrow> string \<Rightarrow> bool \<Rightarrow> model_usage option \<Rightarrow> string option \<Rightarrow> utc
     \<Rightarrow> RunFailureRecord" where
  "failure_record run_id current error_code bounded_summary retryable model_usage raw_response_sha256 now =
     \<lparr>rf_run_id = run_id, rf_phase = vr_phase current, rf_error_code = error_code,
      rf_summary = bounded_summary, rf_retryable = retryable, rf_created_at = now,
      rf_model_usage = model_usage, rf_raw_response_sha256 = raw_response_sha256\<rparr>"

definition fail_body ::
    "uuid \<Rightarrow> string \<Rightarrow> string \<Rightarrow> bool \<Rightarrow> model_usage option \<Rightarrow> string option \<Rightarrow> utc
     \<Rightarrow> database \<Rightarrow> exn + (RunFailureRecord \<times> database)" where
  "fail_body run_id error_code bounded_summary retryable model_usage raw_response_sha256 now db =
     rbind (require_run db run_id) (\<lambda>current.
       case db_failures db run_id of
         Some prior \<Rightarrow> Inr (prior, db)
       | None \<Rightarrow>
         rbind (apply_run_transition current failed_transition (Aware now 0)) (\<lambda>updated.
         let record = failure_record run_id current error_code bounded_summary retryable model_usage
                        raw_response_sha256 now in
         Inr (record, db\<lparr>db_runs := update_run run_id (\<lambda>_. updated) (db_runs db),
                        db_failures := (db_failures db)(run_id \<mapsto> record)\<rparr>)))"

definition fail_run ::
    "uuid \<Rightarrow> string \<Rightarrow> string \<Rightarrow> bool \<Rightarrow> model_usage option \<Rightarrow> string option \<Rightarrow> datetime
     \<Rightarrow> (database, exn, RunFailureRecord) prog" where
  "fail_run run_id error_code summary retryable model_usage raw_response_sha256 clock =
     pbind (plift (failure_summary error_code summary raw_response_sha256)) (\<lambda>bounded_summary.
     pbind (plift (store_now clock)) (\<lambda>now.
       ptxn (fail_body run_id error_code bounded_summary retryable model_usage raw_response_sha256 now)))"

definition get_failure :: "uuid \<Rightarrow> database \<Rightarrow> RunFailureRecord option" where
  "get_failure run_id db = db_failures db run_id"

end
