(* ===== verification/SqliteIndex.thy ===== *)
theory SqliteIndex
  imports SqliteStore
begin

text \<open>
  The invariant of the runs table that accepting pull requests keeps: one CURRENT run for each pull
  request with runs, which has the newest HEAD timestamp, and strictly increasing timestamps within
  one revision.
\<close>

section \<open>The index invariant of the runs table\<close>

text \<open>
  Every pull request that has rows has one CURRENT row, no row of it has a newer HEAD timestamp,
  and rows of one revision are stored in the order of strictly increasing timestamps.
\<close>

definition is_current :: "VerificationRun \<Rightarrow> bool" where
  "is_current r = (vr_revision_state r = RevisionState.CURRENT)"

definition same_pr :: "VerificationRun \<Rightarrow> VerificationRun \<Rightarrow> bool" where
  "same_pr r s = same_pull (vr_repository r) (vr_pr_number r) s"

definition same_rev :: "VerificationRun \<Rightarrow> VerificationRun \<Rightarrow> bool" where
  "same_rev r s = (same_pr r s \<and> vr_base_sha r = vr_base_sha s \<and> vr_head_sha r = vr_head_sha s)"

definition led_by_current :: "VerificationRun list \<Rightarrow> bool" where
  "led_by_current rows =
     (\<forall>r \<in> set rows. \<exists>c \<in> set rows. same_pr r c \<and> is_current c \<and> vr_head_updated_at r \<le> vr_head_updated_at c)"

definition one_current :: "VerificationRun list \<Rightarrow> bool" where
  "one_current rows =
     (\<forall>c \<in> set rows. \<forall>d \<in> set rows. is_current c \<and> is_current d \<and> same_pr c d \<longrightarrow> c = d)"

definition revisions_increase :: "VerificationRun list \<Rightarrow> bool" where
  "revisions_increase rows =
     sorted_wrt (\<lambda>r s. same_rev r s \<longrightarrow> vr_head_updated_at r < vr_head_updated_at s) rows"

definition index_ok :: "VerificationRun list \<Rightarrow> bool" where
  "index_ok rows =
     (distinct (map vr_run_id rows) \<and> led_by_current rows \<and> one_current rows \<and> revisions_increase rows)"

lemma index_ok_Nil [simp]: "index_ok []"
  by (simp add: index_ok_def led_by_current_def one_current_def revisions_increase_def)

text \<open>What the invariant reads of a row; an update that keeps it keeps the invariant.\<close>

definition row_key where
  "row_key r = (vr_run_id r, vr_repository r, vr_pr_number r, vr_base_sha r, vr_head_sha r,
                vr_head_updated_at r, is_current r)"

lemma row_key_rel:
  "row_key r = row_key r' \<Longrightarrow> row_key s = row_key s' \<Longrightarrow>
     same_pr r s = same_pr r' s' \<and> same_rev r s = same_rev r' s' \<and> is_current r = is_current r'
     \<and> vr_head_updated_at r = vr_head_updated_at r' \<and> vr_run_id r = vr_run_id r'"
  by (simp add: row_key_def same_pr_def same_rev_def same_pull_def)

lemma distinct_id_eq:
  "distinct (map vr_run_id rows) \<Longrightarrow> r \<in> set rows \<Longrightarrow> s \<in> set rows \<Longrightarrow> vr_run_id r = vr_run_id s \<Longrightarrow> r = s"
  by (metis distinct_map inj_onD)

lemma index_ok_map:
  assumes ok: "index_ok rows" and key: "\<And>r. r \<in> set rows \<Longrightarrow> row_key (f r) = row_key r"
  shows "index_ok (map f rows)"
proof -
  have ids: "map vr_run_id (map f rows) = map vr_run_id rows"
    using key by (auto simp: row_key_def)
  have rel: "same_pr (f r) (f s) = same_pr r s \<and> same_rev (f r) (f s) = same_rev r s
      \<and> is_current (f r) = is_current r \<and> vr_head_updated_at (f r) = vr_head_updated_at r"
    if "r \<in> set rows" "s \<in> set rows" for r s using row_key_rel key that by blast
  have led: "led_by_current rows" and one: "one_current rows"
    using ok by (simp_all add: index_ok_def)
  have "led_by_current (map f rows)"
    unfolding led_by_current_def set_map ball_simps bex_simps
  proof
    fix r assume r: "r \<in> set rows"
    then obtain c where "c \<in> set rows" "same_pr r c" "is_current c" "vr_head_updated_at r \<le> vr_head_updated_at c"
      using led unfolding led_by_current_def by blast
    with rel r show "\<exists>c \<in> set rows. same_pr (f r) (f c) \<and> is_current (f c)
        \<and> vr_head_updated_at (f r) \<le> vr_head_updated_at (f c)"
      by (intro bexI [of _ c]) simp_all
  qed
  moreover have "one_current (map f rows)"
    unfolding one_current_def set_map ball_simps using one rel unfolding one_current_def by simp blast
  moreover have "revisions_increase (map f rows)"
    using ok rel unfolding index_ok_def revisions_increase_def sorted_wrt_map
    by (auto elim!: sorted_wrt_mono_rel [rotated])
  ultimately show ?thesis using ok ids by (simp add: index_ok_def del: map_map)
qed

lemma newest_mem: "newest rows = Some r \<Longrightarrow> r \<in> set rows"
  by (induction rows arbitrary: r) (auto split: option.splits if_splits)

lemma newest_None [simp]: "newest rows = None \<longleftrightarrow> rows = []"
  by (cases rows) (auto split: option.splits)

lemma newest_last:
  "sorted_wrt (\<lambda>r s. vr_head_updated_at r < vr_head_updated_at s) rows \<Longrightarrow> rows \<noteq> [] \<Longrightarrow>
     newest rows = Some (last rows)"
proof (induction rows)
  case (Cons r rows)
  show ?case
  proof (cases "rows = []")
    case False
    then have "newest rows = Some (last rows)" "last rows \<in> set rows" using Cons by simp_all
    moreover have "vr_head_updated_at r < vr_head_updated_at (last rows)" using Cons.prems(1) calculation(2) by simp
    ultimately show ?thesis using False by simp
  qed simp
qed simp

lemma same_revision_same_rev: "same_revision event r \<Longrightarrow> same_revision event s \<Longrightarrow> same_rev r s"
  by (simp add: same_revision_def same_rev_def same_pr_def same_pull_def)

lemma filter_revision_sorted:
  assumes "index_ok rows"
  shows "sorted_wrt (\<lambda>r s. vr_head_updated_at r < vr_head_updated_at s) (filter (same_revision event) rows)"
proof -
  have "sorted_wrt (\<lambda>r s. same_rev r s \<longrightarrow> vr_head_updated_at r < vr_head_updated_at s)
          (filter (same_revision event) rows)"
    using assms unfolding index_ok_def revisions_increase_def by (intro sorted_wrt_filter) blast
  then show ?thesis
    by (rule sorted_wrt_mono_rel [rotated]) (auto dest: same_revision_same_rev)
qed

text \<open>The selected duplicate is the last stored row of its revision and has its newest timestamp.\<close>

lemma newest_revision:
  assumes "index_ok rows"
  shows "newest (filter (same_revision event) rows) =
     (if filter (same_revision event) rows = [] then None else Some (last (filter (same_revision event) rows)))"
  using newest_last [OF filter_revision_sorted [OF assms]] by simp

lemma newest_revision_max:
  assumes "index_ok rows" "newest (filter (same_revision event) rows) = Some r" "s \<in> set rows" "same_revision event s"
  shows "s = r \<or> vr_head_updated_at s < vr_head_updated_at r"
proof -
  let ?fs = "filter (same_revision event) rows"
  have ne: "?fs \<noteq> []" and r: "r = last ?fs"
    using assms(2) newest_revision [OF assms(1), of event] by (auto split: if_splits)
  have "?fs = butlast ?fs @ [r]" using ne r by simp
  then have "sorted_wrt (\<lambda>r s. vr_head_updated_at r < vr_head_updated_at s) (butlast ?fs @ [r])"
    using filter_revision_sorted [OF assms(1), of event] by simp
  then have older: "\<forall>s \<in> set (butlast ?fs). vr_head_updated_at s < vr_head_updated_at r"
    by (simp add: sorted_wrt_append)
  have "s \<in> set ?fs" using assms(3,4) by simp
  then have "s \<in> set (butlast ?fs @ [r])" using \<open>?fs = butlast ?fs @ [r]\<close> by simp
  with older show ?thesis by auto
qed

lemma find_current:
  assumes "index_ok rows"
  shows "List.find (\<lambda>r. same_pull repo n r \<and> vr_revision_state r = RevisionState.CURRENT) rows = Some c \<longleftrightarrow>
           c \<in> set rows \<and> same_pull repo n c \<and> is_current c"
proof
  assume "List.find (\<lambda>r. same_pull repo n r \<and> vr_revision_state r = RevisionState.CURRENT) rows = Some c"
  then show "c \<in> set rows \<and> same_pull repo n c \<and> is_current c"
    by (auto simp: find_Some_iff is_current_def)
next
  assume c: "c \<in> set rows \<and> same_pull repo n c \<and> is_current c"
  then obtain d where d: "List.find (\<lambda>r. same_pull repo n r \<and> vr_revision_state r = RevisionState.CURRENT) rows = Some d"
    by (metis (mono_tags, lifting) find_None_iff is_current_def not_None_eq)
  then have "d \<in> set rows \<and> same_pull repo n d \<and> is_current d"
    by (auto simp: find_Some_iff is_current_def)
  with c assms have "d = c" unfolding index_ok_def one_current_def by (auto simp: same_pr_def same_pull_def)
  with d show "List.find (\<lambda>r. same_pull repo n r \<and> vr_revision_state r = RevisionState.CURRENT) rows = Some c" by simp
qed

lemma current_exists:
  assumes "index_ok rows" "r \<in> set rows" "same_pull repo n r"
  shows "\<exists>c \<in> set rows. same_pull repo n c \<and> is_current c \<and> vr_head_updated_at r \<le> vr_head_updated_at c"
  using assms unfolding index_ok_def led_by_current_def by (fastforce simp: same_pr_def same_pull_def)

section \<open>Accepting keeps the invariant\<close>

lemma row_to_run_iff [simp]: "row_to_run r = Inr v \<longleftrightarrow> v = r \<and> run_ok r"
  by (auto simp: row_to_run_def mk_VerificationRun_iff)

lemma opt_row_to_run_ok: "opt_row_to_run x = Inr y \<Longrightarrow> y = x"
  by (auto simp: opt_row_to_run_def guard_simps split: option.splits)

lemma row_of_Some: "row_of rows i = Some r \<Longrightarrow> r \<in> set rows \<and> vr_run_id r = i"
  by (auto simp: row_of_def find_Some_iff)

lemma row_of_None: "row_of rows i = None \<longleftrightarrow> i \<notin> vr_run_id ` set rows"
  by (auto simp: row_of_def find_None_iff)

lemma row_of_mem: "distinct (map vr_run_id rows) \<Longrightarrow> r \<in> set rows \<Longrightarrow> row_of rows (vr_run_id r) = Some r"
  by (metis row_of_None row_of_Some distinct_id_eq image_eqI not_None_eq)

lemma insert_run_ok:
  "insert_run run rows = Inr rows' \<Longrightarrow>
     rows' = rows @ [run] \<and> vr_run_id run \<notin> vr_run_id ` set rows
     \<and> (is_current run \<longrightarrow> (\<forall>r \<in> set rows. same_pr run r \<longrightarrow> \<not> is_current r))"
  by (auto simp: insert_run_def row_of_None is_current_def same_pr_def list_ex_iff split: if_splits)

lemma insert_delivery_ok:
  "insert_delivery d i now db = Inr db' \<Longrightarrow>
     db_deliveries db d = None \<and> db' = db\<lparr>db_deliveries := (db_deliveries db)(d \<mapsto> (i, now))\<rparr>"
  by (auto simp: insert_delivery_def split: option.splits)

lemma accept_duplicate_ok:
  assumes "accept_duplicate event now run db = Inr (res, db')"
  shows "ar_kind res = DUPLICATE_REVISION \<and> db_deliveries db (pe_delivery_id event) = None \<and>
    (if vr_head_updated_at run < pe_head_updated_at event
     then let rows = update_run (vr_run_id run) (refresh_run event now) (db_runs db) in
       row_of rows (vr_run_id run) = Some (ar_run res) \<and> run_ok (ar_run res) \<and>
       db' = db\<lparr>db_runs := rows,
                db_deliveries := (db_deliveries db)(pe_delivery_id event \<mapsto> (vr_run_id (ar_run res), now))\<rparr>
     else ar_run res = run \<and>
       db' = db\<lparr>db_deliveries := (db_deliveries db)(pe_delivery_id event \<mapsto> (vr_run_id run, now))\<rparr>)"
  using assms
  by (auto simp: accept_duplicate_def Let_def guard_simps require_run_def dest!: insert_delivery_ok
      split: if_splits option.splits)

definition rows_superseded :: "uuid \<Rightarrow> utc \<Rightarrow> VerificationRun option \<Rightarrow> bool \<Rightarrow> VerificationRun list \<Rightarrow> VerificationRun list" where
  "rows_superseded i now current stale rows =
     (case current of None \<Rightarrow> rows
      | Some c \<Rightarrow> if stale then rows else update_run (vr_run_id c) (supersede_run i now) rows)"

lemma accept_new_ok:
  assumes "accept_new event i now current db = Inr (res, db')"
  shows "let stale = ts_not_newer event current;
             rows = rows_superseded i now current stale (db_runs db) in
    ar_kind res = (if stale then STALE_CREATED else CREATED)
    \<and> ar_run res = event_run event i now current stale \<and> run_ok (ar_run res)
    \<and> insert_run (ar_run res) rows = Inr (rows @ [ar_run res])
    \<and> db_deliveries db (pe_delivery_id event) = None
    \<and> db' = db\<lparr>db_runs := rows @ [ar_run res],
               db_deliveries := (db_deliveries db)(pe_delivery_id event \<mapsto> (i, now))\<rparr>"
  using assms unfolding accept_new_def Let_def rows_superseded_def [symmetric] rbind_eq_Inr mk_VerificationRun_iff
  by (auto dest!: insert_delivery_ok dest: insert_run_ok)

text \<open>An accepted event found its delivery, or reused a known revision, or created a run.\<close>

definition current_of :: "PullRequestEvent \<Rightarrow> VerificationRun list \<Rightarrow> VerificationRun option" where
  "current_of event rows = List.find (\<lambda>r. same_pull (pe_repository event) (pe_pr_number event) r
     \<and> vr_revision_state r = RevisionState.CURRENT) rows"

definition known_revision :: "PullRequestEvent \<Rightarrow> VerificationRun list \<Rightarrow> VerificationRun option" where
  "known_revision event rows = newest (filter (same_revision event) rows)"

lemma accept_body_cases:
  assumes "accept_body event i now db = Inr (res, db')"
  obtains (delivery) "db' = db" "ar_kind res = DUPLICATE_DELIVERY" "ar_run res \<in> set (db_runs db)"
      "\<exists>ts. db_deliveries db (pe_delivery_id event) = Some (vr_run_id (ar_run res), ts)" "run_ok (ar_run res)"
  | (known) run where "known_revision event (db_runs db) = Some run" "run_ok run"
      "reuse_duplicate event (current_of event (db_runs db)) run"
      "accept_duplicate event now run db = Inr (res, db')"
  | (new) "\<And>c. current_of event (db_runs db) = Some c \<Longrightarrow> run_ok c"
      "\<And>run. known_revision event (db_runs db) = Some run \<Longrightarrow>
              \<not> reuse_duplicate event (current_of event (db_runs db)) run"
      "accept_new event i now (current_of event (db_runs db)) db = Inr (res, db')"
proof (cases "Option.bind (db_deliveries db (pe_delivery_id event)) (\<lambda>(rid, _). row_of (db_runs db) rid)")
  case (Some row)
  then obtain rid ts where d: "db_deliveries db (pe_delivery_id event) = Some (rid, ts)" "row_of (db_runs db) rid = Some row"
    by (auto simp: bind_eq_Some_conv)
  have "res = \<lparr>ar_kind = DUPLICATE_DELIVERY, ar_run = row\<rparr>" "db' = db" "run_ok row"
    using assms Some by (auto simp: accept_body_def guard_simps)
  then show ?thesis using delivery d row_of_Some [OF d(2)] by simp
next
  case None
  with assms have "(case known_revision event (db_runs db) of
      Some run \<Rightarrow> if reuse_duplicate event (current_of event (db_runs db)) run then accept_duplicate event now run db
                  else accept_new event i now (current_of event (db_runs db)) db
    | None \<Rightarrow> accept_new event i now (current_of event (db_runs db)) db) = Inr (res, db')
    \<and> (\<forall>run. known_revision event (db_runs db) = Some run \<longrightarrow> run_ok run)
    \<and> (\<forall>c. current_of event (db_runs db) = Some c \<longrightarrow> run_ok c)"
    unfolding accept_body_def current_of_def [symmetric] known_revision_def [symmetric] rbind_eq_Inr
    by (auto dest: opt_row_to_run_ok simp: opt_row_to_run_def guard_simps split: option.splits)
  then show ?thesis using known new by (auto split: option.splits if_splits)
qed

lemma same_pr_pull: "same_pull repo n r \<Longrightarrow> same_pull repo n s \<Longrightarrow> same_pr r s"
  by (simp add: same_pr_def same_pull_def)

lemma same_pr_sym: "same_pr r s \<Longrightarrow> same_pr s r"
  by (simp add: same_pr_def same_pull_def)

lemma same_pr_trans: "same_pr r s \<Longrightarrow> same_pr s t \<Longrightarrow> same_pr r t"
  by (simp add: same_pr_def same_pull_def)

lemma known_revision_mem:
  "known_revision event rows = Some run \<Longrightarrow> run \<in> set rows \<and> same_revision event run"
  by (drule newest_mem [of "filter (same_revision event) rows", folded known_revision_def]) simp

lemma current_of_iff:
  "index_ok rows \<Longrightarrow> current_of event rows = Some c \<longleftrightarrow>
     c \<in> set rows \<and> same_pull (pe_repository event) (pe_pr_number event) c \<and> is_current c"
  unfolding current_of_def by (rule find_current)

lemma current_of_leads:
  assumes "index_ok rows" "r \<in> set rows" "same_pull (pe_repository event) (pe_pr_number event) r"
  obtains c where "current_of event rows = Some c" "vr_head_updated_at r \<le> vr_head_updated_at c"
  using current_exists [OF assms] current_of_iff [OF assms(1)] by blast

lemma refresh_run_rel [simp]:
  "same_pr (refresh_run e now r) s = same_pr r s" "same_pr s (refresh_run e now r) = same_pr s r"
  "same_rev (refresh_run e now r) s = same_rev r s" "same_rev s (refresh_run e now r) = same_rev s r"
  "is_current (refresh_run e now r) = is_current r" "vr_run_id (refresh_run e now r) = vr_run_id r"
  "vr_head_updated_at (refresh_run e now r) = pe_head_updated_at e"
  by (simp_all add: refresh_run_def same_pr_def same_rev_def same_pull_def is_current_def)

lemma supersede_run_rel [simp]:
  "same_pr (supersede_run i now r) s = same_pr r s" "same_pr s (supersede_run i now r) = same_pr s r"
  "same_rev (supersede_run i now r) s = same_rev r s" "same_rev s (supersede_run i now r) = same_rev s r"
  "\<not> is_current (supersede_run i now r)" "vr_run_id (supersede_run i now r) = vr_run_id r"
  "vr_head_updated_at (supersede_run i now r) = vr_head_updated_at r"
  by (simp_all add: supersede_run_def same_pr_def same_rev_def same_pull_def is_current_def)

lemma update_run_ids [simp]:
  "(\<And>r. vr_run_id (f r) = vr_run_id r) \<Longrightarrow> map vr_run_id (update_run i f rows) = map vr_run_id rows"
  by (auto simp: update_run_def update_where_def)

lemma set_update_run: "set (update_run i f rows) = (\<lambda>r. if vr_run_id r = i then f r else r) ` set rows"
  by (simp add: update_run_def update_where_def)

lemma index_ok_refresh:
  assumes ok: "index_ok rows" and known: "known_revision event rows = Some run"
    and reuse: "reuse_duplicate event (current_of event rows) run"
    and newer: "vr_head_updated_at run < pe_head_updated_at event"
  shows "index_ok (update_run (vr_run_id run) (refresh_run event now) rows)" (is "index_ok ?rows")
proof -
  let ?f = "\<lambda>r. if vr_run_id r = vr_run_id run then refresh_run event now r else r"
  have mem: "run \<in> set rows" and rev: "same_revision event run"
    using known_revision_mem [OF known] by blast+
  have dist: "distinct (map vr_run_id rows)" and led: "led_by_current rows" and one: "one_current rows"
    and inc: "revisions_increase rows" using ok by (simp_all add: index_ok_def)
  have rel: "same_pr (?f r) (?f s) = same_pr r s" "same_rev (?f r) (?f s) = same_rev r s"
    "is_current (?f r) = is_current r" for r s by auto
  have grows: "vr_head_updated_at r \<le> vr_head_updated_at (?f r)" if "r \<in> set rows" for r
    using distinct_id_eq [OF dist that mem] newer by auto
  obtain c where c: "c \<in> set rows" "same_pull (pe_repository event) (pe_pr_number event) c" "is_current c"
      "current_of event rows = Some c"
    using current_of_leads [OF ok mem] rev current_of_iff [OF ok] unfolding same_revision_def by metis
  have "same_pr run c" using c(2) rev unfolding same_revision_def by (blast intro: same_pr_pull)
  have top: "pe_head_updated_at event \<le> vr_head_updated_at (?f c)"
    using reuse c(4) unfolding reuse_duplicate_def by auto
  have "led_by_current ?rows"
    unfolding led_by_current_def set_update_run ball_simps bex_simps
  proof
    fix r assume r: "r \<in> set rows"
    show "\<exists>d \<in> set rows. same_pr (?f r) (?f d) \<and> is_current (?f d) \<and> vr_head_updated_at (?f r) \<le> vr_head_updated_at (?f d)"
    proof (cases "r = run")
      case True
      then show ?thesis using c(1,3) \<open>same_pr run c\<close> top rel by (intro bexI [of _ c]) simp_all
    next
      case False
      then have id: "?f r = r" using distinct_id_eq [OF dist r mem] by auto
      obtain d where d: "d \<in> set rows" "same_pr r d" "is_current d" "vr_head_updated_at r \<le> vr_head_updated_at d"
        using led r unfolding led_by_current_def by blast
      have "vr_head_updated_at (?f r) \<le> vr_head_updated_at (?f d)"
        unfolding id by (rule order_trans [OF d(4) grows [OF d(1)]])
      then show ?thesis using d(1,2,3) rel(1) [of r d] rel(3) [of d] by (intro bexI [of _ d] conjI) simp_all
    qed
  qed
  moreover have "one_current ?rows"
    using one unfolding one_current_def set_update_run ball_simps rel by metis
  moreover have "revisions_increase ?rows"
    unfolding revisions_increase_def update_run_def update_where_def sorted_wrt_map rel
  proof (rule sorted_wrt_mono_rel [OF _ inc [unfolded revisions_increase_def]], rule impI)
    fix r s assume rs: "r \<in> set rows" "s \<in> set rows" "same_rev r s"
      and lt: "same_rev r s \<longrightarrow> vr_head_updated_at r < vr_head_updated_at s"
    then have less: "vr_head_updated_at r < vr_head_updated_at s" by blast
    have "r \<noteq> run"
    proof
      assume "r = run"
      then have "same_revision event s" using rev rs(3) by (simp add: same_revision_def same_rev_def same_pr_def same_pull_def)
      then show False
        using newest_revision_max [OF ok known [unfolded known_revision_def] rs(2)] \<open>r = run\<close> less by auto
    qed
    then have "?f r = r" using distinct_id_eq [OF dist rs(1) mem] by auto
    then show "vr_head_updated_at (?f r) < vr_head_updated_at (?f s)" using less grows [OF rs(2)] by simp
  qed
  ultimately show ?thesis using dist by (simp add: index_ok_def)
qed

lemma event_run_rel [simp]:
  "same_pr (event_run e i now c stale) s = same_pull (pe_repository e) (pe_pr_number e) s"
  "same_pr s (event_run e i now c stale) = same_pull (pe_repository e) (pe_pr_number e) s"
  "same_rev (event_run e i now c stale) s = same_revision e s"
  "same_rev s (event_run e i now c stale) = same_revision e s"
  "is_current (event_run e i now c stale) = (\<not> stale)" "vr_run_id (event_run e i now c stale) = i"
  "vr_head_updated_at (event_run e i now c stale) = pe_head_updated_at e"
  by (auto simp: event_run_def same_pr_def same_rev_def same_revision_def same_pull_def is_current_def)

text \<open>Appending a run of a new revision, or one newer than every row of its pull request.\<close>

lemma index_ok_append:
  assumes dist: "distinct (map vr_run_id rows)" and fresh: "vr_run_id run \<notin> vr_run_id ` set rows"
    and led: "\<forall>r \<in> set rows. \<exists>c \<in> set (rows @ [run]). same_pr r c \<and> is_current c \<and> vr_head_updated_at r \<le> vr_head_updated_at c"
    and led_run: "is_current run \<or> (\<exists>c \<in> set rows. same_pr run c \<and> is_current c \<and> vr_head_updated_at run \<le> vr_head_updated_at c)"
    and one: "one_current rows" and one_run: "is_current run \<longrightarrow> (\<forall>r \<in> set rows. same_pr run r \<longrightarrow> \<not> is_current r)"
    and inc: "revisions_increase rows"
    and inc_run: "\<forall>r \<in> set rows. same_rev r run \<longrightarrow> vr_head_updated_at r < vr_head_updated_at run"
  shows "index_ok (rows @ [run])"
proof -
  have "led_by_current (rows @ [run])"
    using led led_run unfolding led_by_current_def
    by (auto simp: same_pr_def same_pull_def)
  moreover have "one_current (rows @ [run])"
    using one one_run same_pr_sym unfolding one_current_def by (auto; blast)
  moreover have "revisions_increase (rows @ [run])"
    using inc inc_run unfolding revisions_increase_def by (simp add: sorted_wrt_append)
  ultimately show ?thesis using dist fresh by (simp add: index_ok_def)
qed

lemma index_ok_supersede:
  assumes ok: "index_ok rows" and c: "current_of event rows = Some c"
  shows "distinct (map vr_run_id (update_run (vr_run_id c) (supersede_run i now) rows))"
    and "one_current (update_run (vr_run_id c) (supersede_run i now) rows)"
    and "revisions_increase (update_run (vr_run_id c) (supersede_run i now) rows)"
proof -
  let ?f = "\<lambda>r. if vr_run_id r = vr_run_id c then supersede_run i now r else r"
  have dist: "distinct (map vr_run_id rows)" and one: "one_current rows" and inc: "revisions_increase rows"
    using ok by (simp_all add: index_ok_def)
  have rel: "same_pr (?f r) (?f s) = same_pr r s" "same_rev (?f r) (?f s) = same_rev r s"
    "vr_head_updated_at (?f r) = vr_head_updated_at r" for r s by auto
  have cur: "is_current (?f r) \<Longrightarrow> is_current r \<and> ?f r = r" for r by (auto split: if_splits)
  show "distinct (map vr_run_id (update_run (vr_run_id c) (supersede_run i now) rows))" using dist by simp
  show "one_current (update_run (vr_run_id c) (supersede_run i now) rows)"
    unfolding one_current_def set_update_run ball_simps rel
    using one cur unfolding one_current_def by metis
  show "revisions_increase (update_run (vr_run_id c) (supersede_run i now) rows)"
    using inc unfolding revisions_increase_def update_run_def update_where_def sorted_wrt_map rel .
qed

lemma index_ok_new:
  assumes ok: "index_ok rows"
    and fresh_rev: "\<And>run. known_revision event rows = Some run \<Longrightarrow> \<not> reuse_duplicate event (current_of event rows) run"
    and stale: "stale = ts_not_newer event (current_of event rows)"
    and ins: "insert_run (event_run event i now (current_of event rows) stale)
               (rows_superseded i now (current_of event rows) stale rows) = Inr rows'"
  shows "index_ok rows'"
proof -
  let ?run = "event_run event i now (current_of event rows) stale"
  let ?rows = "rows_superseded i now (current_of event rows) stale rows"
  have rows': "rows' = ?rows @ [?run]" and id: "vr_run_id ?run \<notin> vr_run_id ` set ?rows"
    and uniq: "is_current ?run \<longrightarrow> (\<forall>r \<in> set ?rows. same_pr ?run r \<longrightarrow> \<not> is_current r)"
    using insert_run_ok [OF ins] by blast+
  have dist: "distinct (map vr_run_id rows)" and led: "led_by_current rows" and one: "one_current rows"
    and inc: "revisions_increase rows" using ok by (simp_all add: index_ok_def)
  have known: "\<exists>c. current_of event rows = Some c \<and> vr_head_updated_at c < pe_head_updated_at event"
    if "r \<in> set rows" "same_revision event r" for r
  proof -
    have "filter (same_revision event) rows \<noteq> []" using that by (auto simp: filter_empty_conv)
    then obtain run where "known_revision event rows = Some run"
      unfolding known_revision_def by (metis newest_None not_None_eq)
    from fresh_rev [OF this] show ?thesis unfolding reuse_duplicate_def by (auto split: option.splits)
  qed
  have later: "vr_head_updated_at r < pe_head_updated_at event" if r: "r \<in> set rows" "same_revision event r" for r
  proof -
    from r(2) have "same_pull (pe_repository event) (pe_pr_number event) r" by (simp add: same_revision_def)
    from current_of_leads [OF ok r(1) this] known [OF r] show ?thesis by force
  qed
  show ?thesis
  proof (cases "\<exists>c. current_of event rows = Some c \<and> \<not> stale")
    case False
    then have same: "?rows = rows" by (auto simp: rows_superseded_def split: option.splits)
    have c: "\<exists>c \<in> set rows. same_pr ?run c \<and> is_current c \<and> vr_head_updated_at ?run \<le> vr_head_updated_at c" if stale
      using that stale current_of_iff [OF ok, of event] by (force simp: ts_not_newer_def split: option.splits)
    show ?thesis unfolding rows' same
    proof (rule index_ok_append [OF dist _ _ _ one _ inc])
      show "vr_run_id ?run \<notin> vr_run_id ` set rows" using id unfolding same .
      show "is_current ?run \<longrightarrow> (\<forall>r \<in> set rows. same_pr ?run r \<longrightarrow> \<not> is_current r)" using uniq unfolding same .
    qed (use led c later in \<open>auto simp: led_by_current_def\<close>)
  next
    case True
    then obtain c where c: "current_of event rows = Some c" and ns: "\<not> stale" by blast
    then have rows: "?rows = update_run (vr_run_id c) (supersede_run i now) rows" by (simp add: rows_superseded_def)
    have newer: "vr_head_updated_at c < pe_head_updated_at event" using ns c stale by (simp add: ts_not_newer_def)
    note super = index_ok_supersede [OF ok c, of i now, folded rows]
    have leads: "\<exists>d \<in> set (?rows @ [?run]). same_pr r d \<and> is_current d \<and> vr_head_updated_at r \<le> vr_head_updated_at d"
      if "r \<in> set ?rows" for r
    proof -
      from that obtain q where q: "q \<in> set rows" "r = (if vr_run_id q = vr_run_id c then supersede_run i now q else q)"
        unfolding rows set_update_run by blast
      obtain d where d: "d \<in> set rows" "same_pr q d" "is_current d" "vr_head_updated_at q \<le> vr_head_updated_at d"
        using led q(1) unfolding led_by_current_def by blast
      have rq: "same_pr r = same_pr q" "vr_head_updated_at r = vr_head_updated_at q" using q(2) by auto
      show ?thesis
      proof (cases "vr_run_id d = vr_run_id c")
        case True
        then have "d = c" using distinct_id_eq [OF dist d(1)] current_of_iff [OF ok] c by blast
        then have "same_pull (pe_repository event) (pe_pr_number event) q"
          using d(2) current_of_iff [OF ok] c by (auto simp: same_pr_def same_pull_def)
        then have "same_pr q ?run" by simp
        moreover have "vr_head_updated_at q \<le> vr_head_updated_at ?run" using d(4) newer \<open>d = c\<close> by simp
        ultimately show ?thesis using ns rq by (intro bexI [of _ ?run]) simp_all
      next
        case False
        then have "d \<in> set ?rows" unfolding rows set_update_run using d(1) by force
        then show ?thesis using d rq by (intro bexI [of _ d]) simp_all
      qed
    qed
    have inc_run: "\<forall>r \<in> set ?rows. same_rev r ?run \<longrightarrow> vr_head_updated_at r < vr_head_updated_at ?run"
    proof (intro ballI impI)
      fix r assume "r \<in> set ?rows" and rev: "same_rev r ?run"
      then obtain q where q: "q \<in> set rows" "r = (if vr_run_id q = vr_run_id c then supersede_run i now q else q)"
        unfolding rows set_update_run by blast
      have "same_rev q ?run" using rev q(2) by (auto split: if_splits simp: same_rev_def same_pr_def same_pull_def supersede_run_def)
      then have "vr_head_updated_at q < pe_head_updated_at event" using later [OF q(1)] by simp
      then show "vr_head_updated_at r < vr_head_updated_at ?run" using q(2) by simp
    qed
    show ?thesis unfolding rows'
      by (rule index_ok_append [OF super(1) id _ _ super(2) uniq super(3) inc_run]) (use leads ns in auto)
  qed
qed

lemma accept_keeps_index:
  assumes "index_ok (db_runs db)" "accept_body event i now db = Inr (res, db')"
  shows "index_ok (db_runs db')"
  using assms(2)
proof (cases rule: accept_body_cases)
  case delivery
  then show ?thesis using assms(1) by simp
next
  case (known run)
  then show ?thesis
    using accept_duplicate_ok [OF known(4)] index_ok_refresh [OF assms(1) known(1,3)] assms(1)
    by (auto simp: Let_def split: if_splits)
next
  case new
  from accept_new_ok [OF new(3)] have
    ins: "insert_run (event_run event i now (current_of event (db_runs db)) (ts_not_newer event (current_of event (db_runs db))))
            (rows_superseded i now (current_of event (db_runs db)) (ts_not_newer event (current_of event (db_runs db))) (db_runs db))
          = Inr (db_runs db')"
    unfolding Let_def by auto
  show ?thesis by (rule index_ok_new [OF assms(1) new(2) refl ins])
qed

end
