(* ===== verification/SqliteHistory.thy ===== *)
theory SqliteHistory
  imports SqliteIndex
begin

text \<open>
  Sequences of store operations: the order in which rows and records evolve, that every operation
  respects it, and that every record of a reachable store belongs to a stored run.
\<close>

section \<open>Histories of the store\<close>

text \<open>One operation, returning or raising.\<close>

inductive sqlite_step :: "database \<Rightarrow> database \<Rightarrow> bool" where
  step_accept: "accept_pull_request event i clock db = (res, db') \<Longrightarrow> sqlite_step db db'"
| step_transition: "transition_run i v t clock db = (res, db') \<Longrightarrow> sqlite_step db db'"
| step_evidence: "save_evidence i doc sha clock db = (res, db') \<Longrightarrow> sqlite_step db db'"
| step_begin: "begin_publication i sha clock db = (res, db') \<Longrightarrow> sqlite_step db db'"
| step_check: "set_check_run_id i n clock db = (res, db') \<Longrightarrow> sqlite_step db db'"
| step_error: "record_publication_error i error clock db = (res, db') \<Longrightarrow> sqlite_step db db'"
| step_fail: "fail_run i code summary retryable usage raw clock db = (res, db') \<Longrightarrow> sqlite_step db db'"

inductive sqlite_steps :: "database \<Rightarrow> database \<Rightarrow> bool" where
  steps_nil: "sqlite_steps db db"
| steps_step: "sqlite_steps db db' \<Longrightarrow> sqlite_step db' db'' \<Longrightarrow> sqlite_steps db db''"

text \<open>The order in which one row, and the whole store, may evolve.\<close>

definition row_le :: "VerificationRun \<Rightarrow> VerificationRun \<Rightarrow> bool" where
  "row_le r s =
     (vr_run_id s = vr_run_id r \<and> vr_delivery_id s = vr_delivery_id r \<and> vr_repository s = vr_repository r
      \<and> vr_pr_number s = vr_pr_number r \<and> vr_base_sha s = vr_base_sha r \<and> vr_head_sha s = vr_head_sha r
      \<and> vr_created_at s = vr_created_at r
      \<and> vr_version r \<le> vr_version s \<and> vr_head_updated_at r \<le> vr_head_updated_at s
      \<and> lifecycle_rank (vr_lifecycle r) \<le> lifecycle_rank (vr_lifecycle s)
      \<and> PHASE_ORDER (vr_phase r) \<le> PHASE_ORDER (vr_phase s)
      \<and> keeps_some (vr_terminal_reason r) (vr_terminal_reason s)
      \<and> keeps_some (vr_mechanical_evidence_status r) (vr_mechanical_evidence_status s)
      \<and> keeps_some (vr_claim_outcome r) (vr_claim_outcome s)
      \<and> (vr_revision_state r = RevisionState.SUPERSEDED \<longrightarrow> vr_revision_state s = RevisionState.SUPERSEDED))"

definition publication_le :: "CheckPublication \<Rightarrow> CheckPublication \<Rightarrow> bool" where
  "publication_le p q =
     (cp_run_id q = cp_run_id p \<and> cp_payload_sha256 q = cp_payload_sha256 p
      \<and> keeps_some (cp_check_run_id p) (cp_check_run_id q) \<and> cp_attempt_count p \<le> cp_attempt_count q)"

definition lookup_le :: "('v \<Rightarrow> 'v \<Rightarrow> bool) \<Rightarrow> ('k \<Rightarrow> 'v option) \<Rightarrow> ('k \<Rightarrow> 'v option) \<Rightarrow> bool" where
  "lookup_le le m m' = (\<forall>k v. m k = Some v \<longrightarrow> (\<exists>w. m' k = Some w \<and> le v w))"

definition store_le :: "database \<Rightarrow> database \<Rightarrow> bool" where
  "store_le db db' =
     (lookup_le row_le (row_of (db_runs db)) (row_of (db_runs db'))
      \<and> lookup_le (=) (db_deliveries db) (db_deliveries db')
      \<and> lookup_le (=) (db_evidence db) (db_evidence db')
      \<and> lookup_le publication_le (db_publications db) (db_publications db')
      \<and> lookup_le (=) (db_failures db) (db_failures db'))"

lemma lookup_le_refl: "(\<And>v. le v v) \<Longrightarrow> lookup_le le m m"
  by (simp add: lookup_le_def)

lemma lookup_le_trans:
  "(\<And>u v w. le u v \<Longrightarrow> le v w \<Longrightarrow> le u w) \<Longrightarrow> lookup_le le m m' \<Longrightarrow> lookup_le le m' m'' \<Longrightarrow> lookup_le le m m''"
  unfolding lookup_le_def by metis

lemma lookup_le_upd:
  "(\<And>v. le v v) \<Longrightarrow> (\<And>v. m k = Some v \<Longrightarrow> le v w) \<Longrightarrow> lookup_le le m (m(k \<mapsto> w))"
  by (simp add: lookup_le_def)

lemma row_le_refl: "row_le r r"
  by (simp add: row_le_def)

lemma row_le_trans: "row_le r s \<Longrightarrow> row_le s t \<Longrightarrow> row_le r t"
  unfolding row_le_def using keeps_some_trans by (smt (verit) le_trans)

lemma rows_le_trans: "lookup_le row_le a b \<Longrightarrow> lookup_le row_le b c \<Longrightarrow> lookup_le row_le a c"
  by (rule lookup_le_trans [of row_le, OF row_le_trans])

lemma publication_le_refl: "publication_le p p"
  by (simp add: publication_le_def)

lemma publication_le_trans: "publication_le p q \<Longrightarrow> publication_le q r \<Longrightarrow> publication_le p r"
  unfolding publication_le_def using keeps_some_trans by (smt (verit))

lemma store_le_refl: "store_le db db"
  by (simp add: store_le_def lookup_le_refl row_le_refl publication_le_refl)

lemma store_le_trans:
  assumes "store_le a b" "store_le b c" shows "store_le a c"
proof -
  have rows: "lookup_le row_le (row_of (db_runs a)) (row_of (db_runs c))"
    by (rule lookup_le_trans [of row_le, OF row_le_trans]) (use assms in \<open>auto simp: store_le_def\<close>)
  have pubs: "lookup_le publication_le (db_publications a) (db_publications c)"
    by (rule lookup_le_trans [of publication_le, OF publication_le_trans]) (use assms in \<open>auto simp: store_le_def\<close>)
  show ?thesis using assms rows pubs unfolding store_le_def lookup_le_def by simp
qed

text \<open>Row updates by key, and appends, in the lookup order.\<close>

lemma row_of_update_where:
  "(\<And>r. vr_run_id (f r) = vr_run_id r) \<Longrightarrow>
     row_of (update_where p f rows) i = map_option (\<lambda>r. if p r then f r else r) (row_of rows i)"
  by (induction rows) (auto simp: row_of_def update_where_def)

lemma rows_le_update:
  assumes "\<And>r. r \<in> set rows \<Longrightarrow> p r \<Longrightarrow> row_le r (f r)"
  shows "lookup_le row_le (row_of rows) (row_of (update_where p f rows))"
proof -
  have "lookup_le row_le (row_of rows) (row_of (map g rows))"
    if "\<And>r. r \<in> set rows \<Longrightarrow> row_le r (g r)" for g
    unfolding lookup_le_def
  proof (intro allI impI)
    fix i r assume "row_of rows i = Some r"
    then show "\<exists>w. row_of (map g rows) i = Some w \<and> row_le r w"
      using that
    proof (induction rows)
      case (Cons s rows)
      then have "vr_run_id (g s) = vr_run_id s" by (simp add: row_le_def)
      with Cons show ?case by (auto simp: row_of_def split: if_splits)
    qed (simp add: row_of_def)
  qed
  then show ?thesis using assms unfolding update_where_def by (simp add: row_le_refl)
qed

lemma rows_le_append: "lookup_le row_le (row_of rows) (row_of (rows @ [r]))"
proof -
  have "row_of rows i = Some s \<Longrightarrow> row_of (rows @ [r]) i = Some s" for i s
    by (induction rows) (auto simp: row_of_def split: if_splits)
  then show ?thesis using row_le_refl by (auto simp: lookup_le_def)
qed

lemma permitted_row_le:
  "permitted_change r s \<Longrightarrow> same_identity r s \<Longrightarrow> vr_version s = vr_version r + 1 \<Longrightarrow> row_le r s"
  using lifecycle_rank_mono [of "vr_lifecycle s" "vr_lifecycle r"] same_identity_fields [of r s]
  unfolding permitted_change_def row_le_def by simp

text \<open>An accepted transition of a stored row, as both stores write it.\<close>

lemma apply_row_le:
  "apply_run_transition r t (Aware now 0) = Inr s \<Longrightarrow> row_le r s \<and> row_key s = row_key r \<and> run_ok s"
proof -
  assume "apply_run_transition r t (Aware now 0) = Inr s"
  then have s: "s = (with_changes r t)\<lparr>vr_updated_at := now - 0, vr_version := vr_version r + 1\<rparr>"
    and p: "permitted_change r s" and ok: "run_ok s" unfolding apply_ok_iff by blast+
  have id: "same_identity r s" unfolding s same_identity_def with_changes_def by simp
  have "vr_version s = vr_version r + 1" unfolding s by simp
  from permitted_row_le [OF p id this] same_identity_fields [OF id] ok show ?thesis
    by (simp add: row_key_def is_current_def)
qed

lemma refresh_row_le: "vr_head_updated_at r \<le> pe_head_updated_at e \<Longrightarrow> row_le r (refresh_run e now r)"
  by (simp add: refresh_run_def row_le_def)

lemma supersede_row_le: "run_ok r \<Longrightarrow> row_le r (supersede_run i now r)"
proof -
  assume "run_ok r"
  then have reason: "(vr_lifecycle r = TERMINAL) = (vr_terminal_reason r \<noteq> None)"
    by (simp add: run_ok_iff dimensions_ok_def)
  have "lifecycle_rank (vr_lifecycle r) \<le> 3" by (cases "vr_lifecycle r") simp_all
  with reason show ?thesis by (auto simp: supersede_run_def row_le_def keeps_some_def)
qed

section \<open>Every operation respects the order\<close>

lemma txn_snd:
  assumes "pbind (plift r) (\<lambda>now. ptxn (f now)) db = (res, db')"
  shows "db' = db \<or> (\<exists>now a. r = Inr now \<and> res = Inr a \<and> f now db = Inr (a, db'))"
  using assms by (auto simp: pbind_def ptxn_def split: sum.splits prod.splits)

lemma guard_snd: "pbind (pguard b e) (\<lambda>_. m) db = (res, db') \<Longrightarrow> db' = db \<or> m db = (res, db')"
  by (cases b) (auto simp: pbind_def)

lemma deliveries_le: "m k = None \<Longrightarrow> lookup_le (=) m (m(k \<mapsto> v))"
  by (simp add: lookup_le_def)

lemma current_of_Some:
  "current_of event rows = Some c \<Longrightarrow> c \<in> set rows \<and> same_pull (pe_repository event) (pe_pr_number event) c \<and> is_current c"
  by (auto simp: current_of_def find_Some_iff is_current_def)

text \<open>
  The operations assume that run identities are unique, which every reachable store satisfies.
\<close>

lemma accept_store_le:
  assumes ids: "distinct (map vr_run_id (db_runs db))" and ok: "accept_body event i now db = Inr (res, db')"
  shows "store_le db db'"
  using ok
proof (cases rule: accept_body_cases)
  case delivery
  then show ?thesis by (simp add: store_le_refl)
next
  case (known run)
  have run: "run \<in> set (db_runs db)" using known_revision_mem [OF known(1)] by blast
  show ?thesis
  proof (cases "vr_head_updated_at run < pe_head_updated_at event")
    case True
    have "lookup_le row_le (row_of (db_runs db))
            (row_of (update_run (vr_run_id run) (refresh_run event now) (db_runs db)))"
      unfolding update_run_def
      by (rule rows_le_update) (use True distinct_id_eq [OF ids _ run] in \<open>fastforce intro: refresh_row_le\<close>)
    then show ?thesis using accept_duplicate_ok [OF known(4)] True
      by (auto simp: Let_def store_le_def deliveries_le lookup_le_refl publication_le_refl)
  next
    case False
    then show ?thesis using accept_duplicate_ok [OF known(4)]
      by (auto simp: store_le_def deliveries_le lookup_le_refl publication_le_refl row_le_refl)
  qed
next
  case new
  let ?c = "current_of event (db_runs db)" let ?s = "ts_not_newer event ?c"
  have "lookup_le row_le (row_of (db_runs db)) (row_of (rows_superseded i now ?c ?s (db_runs db)))"
  proof (cases ?c)
    case (Some c)
    have "lookup_le row_le (row_of (db_runs db)) (row_of (update_run (vr_run_id c) (supersede_run i now) (db_runs db)))"
      unfolding update_run_def
      by (rule rows_le_update)
        (use new(1) [OF Some] current_of_Some [OF Some] distinct_id_eq [OF ids] in \<open>blast intro: supersede_row_le\<close>)
    then show ?thesis by (simp add: Some rows_superseded_def lookup_le_refl row_le_refl)
  qed (simp add: rows_superseded_def lookup_le_refl row_le_refl)
  then have rows: "lookup_le row_le (row_of (db_runs db)) (row_of (rows_superseded i now ?c ?s (db_runs db) @ [ar_run res]))"
    by (rule rows_le_trans [OF _ rows_le_append])
  show ?thesis using accept_new_ok [OF new(3)] rows
    by (auto simp: Let_def store_le_def deliveries_le lookup_le_refl publication_le_refl)
qed

lemma require_run_ok:
  "require_run db i = Inr r \<Longrightarrow> row_of (db_runs db) i = Some r \<and> run_ok r"
  by (auto simp: require_run_def split: option.splits)

lemma transition_rows:
  assumes ids: "distinct (map vr_run_id rows)" and r: "row_of rows i = Some r"
    and s: "apply_run_transition r t (Aware now 0) = Inr s" and p: "\<And>q. p q \<Longrightarrow> vr_run_id q = i"
  shows "lookup_le row_le (row_of rows) (row_of (update_where p (\<lambda>_. s) rows))"
    and "index_ok rows \<Longrightarrow> index_ok (update_where p (\<lambda>_. s) rows)"
proof -
  have only: "q = r" if "q \<in> set rows" "p q" for q
    using row_of_Some [OF r] p [OF that(2)] distinct_id_eq [OF ids that(1)] by blast
  show "lookup_le row_le (row_of rows) (row_of (update_where p (\<lambda>_. s) rows))"
    by (rule rows_le_update) (use only apply_row_le [OF s] in blast)
  assume "index_ok rows"
  then show "index_ok (update_where p (\<lambda>_. s) rows)"
    unfolding update_where_def
    by (rule index_ok_map) (use only apply_row_le [OF s] in auto)
qed

lemma step_le:
  assumes "sqlite_step db db'" "index_ok (db_runs db)"
  shows "store_le db db' \<and> index_ok (db_runs db')"
proof -
  have ids: "distinct (map vr_run_id (db_runs db))" using assms(2) by (simp add: index_ok_def)
  note keep = store_le_refl assms(2)
  note fields = store_le_def lookup_le_refl publication_le_refl row_le_refl
  from assms(1) show ?thesis
  proof cases
    case (step_accept event i clock res)
    from txn_snd [OF step_accept [unfolded accept_pull_request_def]] show ?thesis
      using accept_store_le [OF ids] accept_keeps_index [OF assms(2)] keep by blast
  next
    case (step_transition i v t clock res)
    from txn_snd [OF step_transition [unfolded transition_run_def]] show ?thesis
    proof (elim disjE exE conjE)
      fix now a
      assume "rbind (require_run db i) (\<lambda>current. rbind (guard (vr_version current = v) (ConcurrentRunUpdateError ''run version''))
         (\<lambda>_. rbind (apply_run_transition current t (Aware now 0)) (\<lambda>updated. 
           let target = \<lambda>r. vr_run_id r = i \<and> vr_version r = v in
           rbind (guard (length (filter target (db_runs db)) = 1) (ConcurrentRunUpdateError ''run changed during transition''))
             (\<lambda>_. Inr (updated, db\<lparr>db_runs := update_where target (\<lambda>_. updated) (db_runs db)\<rparr>)))))
         = Inr (a, db')"
      then obtain r s where r: "row_of (db_runs db) i = Some r" and s: "apply_run_transition r t (Aware now 0) = Inr s"
        and db': "db' = db\<lparr>db_runs := update_where (\<lambda>r. vr_run_id r = i \<and> vr_version r = v) (\<lambda>_. s) (db_runs db)\<rparr>"
        unfolding Let_def rbind_eq_Inr by (auto dest: require_run_ok)
      show ?thesis using transition_rows [OF ids r s, of "\<lambda>r. vr_run_id r = i \<and> vr_version r = v"] assms(2)
        unfolding db' by (simp add: fields)
    qed (use keep in simp)
  next
    case (step_evidence i doc sha clock res)
    from guard_snd [OF step_evidence [unfolded save_evidence_def]] show ?thesis
      using keep by (auto dest!: txn_snd simp: guard_simps fields Let_def deliveries_le split: option.splits if_splits)
  next
    case (step_begin i sha clock res)
    from guard_snd [OF step_begin [unfolded begin_publication_def]] show ?thesis
      using keep by (auto dest!: txn_snd simp: guard_simps fields put_publication_def intro!: lookup_le_upd
          simp: publication_le_def split: option.splits if_splits)
  next
    case (step_check i n clock res)
    from guard_snd [OF step_check [unfolded set_check_run_id_def]] show ?thesis
      using keep by (auto dest!: txn_snd simp: guard_simps fields put_publication_def intro!: lookup_le_upd
          simp: publication_le_def keeps_some_def split: option.splits if_splits)
  next
    case (step_error i error clock res)
    from txn_snd [OF step_error [unfolded record_publication_error_def]] show ?thesis
      using keep by (auto simp: guard_simps fields put_publication_def intro!: lookup_le_upd
          simp: publication_le_def split: option.splits if_splits)
  next
    case (step_fail i code summary retryable usage raw clock res)
    then obtain summary' now a where "fail_body i code summary' retryable usage raw now db = Inr (a, db') \<or> db' = db"
      by (auto simp: fail_run_def pbind_def ptxn_def split: sum.splits prod.splits)
    then show ?thesis
    proof (elim disjE)
      assume "fail_body i code summary' retryable usage raw now db = Inr (a, db')"
      then show ?thesis unfolding fail_body_def rbind_eq_Inr Let_def
      proof (elim exE conjE)
        fix r assume r: "require_run db i = Inr r" and rest: "(case db_failures db i of
            Some prior \<Rightarrow> Inr (prior, db) | None \<Rightarrow> rbind (apply_run_transition r failed_transition (Aware now 0))
              (\<lambda>updated. Inr (failure_record i r code summary' retryable usage raw now,
                db\<lparr>db_runs := update_run i (\<lambda>_. updated) (db_runs db),
                   db_failures := (db_failures db)(i \<mapsto> failure_record i r code summary' retryable usage raw now)\<rparr>)))
          = Inr (a, db')"
        show ?thesis
        proof (cases "db_failures db i")
          case None
          with rest obtain s where s: "apply_run_transition r failed_transition (Aware now 0) = Inr s"
            and db': "db' = db\<lparr>db_runs := update_where (\<lambda>q. vr_run_id q = i) (\<lambda>_. s) (db_runs db),
                db_failures := (db_failures db)(i \<mapsto> failure_record i r code summary' retryable usage raw now)\<rparr>"
            by (auto simp: guard_simps update_run_def)
          show ?thesis
            using transition_rows [OF ids _ s, of i "\<lambda>q. vr_run_id q = i"] require_run_ok [OF r] assms(2) None
            unfolding db' by (simp add: fields deliveries_le)
        qed (use rest keep in auto)
      qed
    qed (use keep in simp)
  qed
qed

section \<open>The records of a reachable store\<close>

definition records_ok :: "database \<Rightarrow> bool" where
  "records_ok db =
     ((\<forall>d rid ts. db_deliveries db d = Some (rid, ts) \<longrightarrow> row_of (db_runs db) rid \<noteq> None)
      \<and> (\<forall>i e. db_evidence db i = Some e \<longrightarrow>
           row_of (db_runs db) i \<noteq> None \<and> se_run_id e = i \<and> se_sha256 e = sha256 (utf8 (se_document_json e)))
      \<and> (\<forall>i p. db_publications db i = Some p \<longrightarrow>
           row_of (db_runs db) i \<noteq> None \<and> cp_run_id p = i \<and> is_sha256_hex (cp_payload_sha256 p)
           \<and> 1 \<le> cp_attempt_count p)
      \<and> (\<forall>i f. db_failures db i = Some f \<longrightarrow> rf_run_id f = i \<and>
           (\<exists>r. row_of (db_runs db) i = Some r \<and> vr_lifecycle r = TERMINAL \<and> vr_terminal_reason r = Some FAILED)))"

definition new_ok :: "('v \<Rightarrow> bool) \<Rightarrow> ('k \<Rightarrow> 'v option) \<Rightarrow> ('k \<Rightarrow> 'v option) \<Rightarrow> ('k \<Rightarrow> bool) \<Rightarrow> bool" where
  "new_ok P m m' Q = (\<forall>k v. m' k = Some v \<longrightarrow> m k = Some v \<or> P v \<and> Q k)"

lemma rows_keep: "lookup_le row_le (row_of rows) (row_of rows') \<Longrightarrow> row_of rows i \<noteq> None \<Longrightarrow> row_of rows' i \<noteq> None"
  unfolding lookup_le_def by (metis option.exhaust option.distinct(1))

lemma terminal_rank: "lifecycle_rank l = 3 \<longleftrightarrow> l = TERMINAL"
  by (cases l) simp_all

lemma failed_keeps:
  assumes "row_le r s" "vr_lifecycle r = TERMINAL" "vr_terminal_reason r = Some FAILED"
  shows "vr_lifecycle s = TERMINAL \<and> vr_terminal_reason s = Some FAILED"
proof -
  have "lifecycle_rank (vr_lifecycle s) \<le> 3" by (cases "vr_lifecycle s") simp_all
  with assms have "lifecycle_rank (vr_lifecycle s) = 3" by (simp add: row_le_def)
  then have "vr_lifecycle s = TERMINAL" by (simp only: terminal_rank)
  with assms show ?thesis by (simp add: row_le_def keeps_some_def)
qed

text \<open>Old records stay good; the step's new record is checked where it is written.\<close>

lemma records_ok_step:
  assumes ok: "records_ok db" and le: "store_le db db'"
    and dels: "\<And>d rid ts. db_deliveries db' d = Some (rid, ts) \<Longrightarrow>
        db_deliveries db d = Some (rid, ts) \<or> row_of (db_runs db') rid \<noteq> None"
    and evid: "\<And>i e. db_evidence db' i = Some e \<Longrightarrow> db_evidence db i = Some e
        \<or> (row_of (db_runs db) i \<noteq> None \<and> se_run_id e = i \<and> se_sha256 e = sha256 (utf8 (se_document_json e)))"
    and pubs: "\<And>i p. db_publications db' i = Some p \<Longrightarrow> db_publications db i = Some p
        \<or> (row_of (db_runs db) i \<noteq> None \<and> cp_run_id p = i \<and> is_sha256_hex (cp_payload_sha256 p)
           \<and> 1 \<le> cp_attempt_count p)"
    and fails: "\<And>i f. db_failures db' i = Some f \<Longrightarrow> db_failures db i = Some f
        \<or> (rf_run_id f = i \<and> (\<exists>r. row_of (db_runs db') i = Some r \<and> vr_lifecycle r = TERMINAL
             \<and> vr_terminal_reason r = Some FAILED))"
  shows "records_ok db'"
proof -
  have rows: "lookup_le row_le (row_of (db_runs db)) (row_of (db_runs db'))" using le by (simp add: store_le_def)
  note keep = rows_keep [OF rows]
  have failed: "\<exists>s. row_of (db_runs db') i = Some s \<and> vr_lifecycle s = TERMINAL \<and> vr_terminal_reason s = Some FAILED"
    if "row_of (db_runs db) i = Some r" "vr_lifecycle r = TERMINAL" "vr_terminal_reason r = Some FAILED" for i r
    using rows that failed_keeps unfolding lookup_le_def by metis
  show ?thesis
    unfolding records_ok_def
  proof (intro conjI allI impI)
    fix d rid ts assume "db_deliveries db' d = Some (rid, ts)"
    then show "row_of (db_runs db') rid \<noteq> None" using dels ok keep unfolding records_ok_def by blast
  next
    fix i e assume e: "db_evidence db' i = Some e"
    show "row_of (db_runs db') i \<noteq> None" "se_run_id e = i" "se_sha256 e = sha256 (utf8 (se_document_json e))"
      using evid [OF e] ok keep unfolding records_ok_def by blast+
  next
    fix i p assume p: "db_publications db' i = Some p"
    show "row_of (db_runs db') i \<noteq> None" "cp_run_id p = i" "is_sha256_hex (cp_payload_sha256 p)"
      "1 \<le> cp_attempt_count p"
      using pubs [OF p] ok keep unfolding records_ok_def by blast+
  next
    fix i f assume f: "db_failures db' i = Some f"
    show "rf_run_id f = i" using fails [OF f] ok unfolding records_ok_def by blast
    show "\<exists>r. row_of (db_runs db') i = Some r \<and> vr_lifecycle r = TERMINAL \<and> vr_terminal_reason r = Some FAILED"
      using fails [OF f] ok failed unfolding records_ok_def by blast
  qed
qed

lemma row_of_append: "row_of (rows @ [r]) i = (case row_of rows i of None \<Rightarrow> if vr_run_id r = i then Some r else None | Some s \<Rightarrow> Some s)"
  by (induction rows) (auto simp: row_of_def)

lemma accept_effect:
  assumes acc: "accept_body event i now db = Inr (res, db')"
  shows "db_evidence db' = db_evidence db \<and> db_publications db' = db_publications db
    \<and> db_failures db' = db_failures db \<and> row_of (db_runs db') (vr_run_id (ar_run res)) \<noteq> None
    \<and> (db_deliveries db' = db_deliveries db \<or>
       db_deliveries db' = (db_deliveries db)(pe_delivery_id event \<mapsto> (vr_run_id (ar_run res), now)))
    \<and> (\<exists>ts. db_deliveries db' (pe_delivery_id event) = Some (vr_run_id (ar_run res), ts))"
  using acc
proof (cases rule: accept_body_cases)
  case delivery
  then show ?thesis by (auto simp: row_of_None)
next
  case (known run)
  have "run \<in> set (db_runs db)" using known_revision_mem [OF known(1)] by blast
  then have "row_of (db_runs db) (vr_run_id run) \<noteq> None" by (auto simp: row_of_None)
  then show ?thesis
    using accept_duplicate_ok [OF known(4)] row_of_Some by (force simp: Let_def split: if_splits)
next
  case new
  show ?thesis
    using accept_new_ok [OF new(3)] by (auto simp: Let_def row_of_append split: option.splits)
qed

lemma accept_records_ok:
  assumes ok: "records_ok db" and le: "store_le db db'" and acc: "accept_body event i now db = Inr (res, db')"
  shows "records_ok db'"
  using accept_effect [OF acc] by (intro records_ok_step [OF ok le]) (auto split: if_splits)

lemma put_publication_ok:
  assumes "records_ok db" "store_le db db'" "put_publication i p db = (a, db')"
    and "row_of (db_runs db) i \<noteq> None" "cp_run_id p = i" "is_sha256_hex (cp_payload_sha256 p)" "1 \<le> cp_attempt_count p"
  shows "records_ok db'"
  using assms(3-) by (intro records_ok_step [OF assms(1,2)]) (auto simp: put_publication_def split: if_splits)

lemma put_evidence_ok:
  assumes "records_ok db" "store_le db (db\<lparr>db_evidence := (db_evidence db)(i \<mapsto> e)\<rparr>)"
    and "row_of (db_runs db) i \<noteq> None" "se_run_id e = i" "se_sha256 e = sha256 (utf8 (se_document_json e))"
  shows "records_ok (db\<lparr>db_evidence := (db_evidence db)(i \<mapsto> e)\<rparr>)"
  using assms(3-) by (intro records_ok_step [OF assms(1,2)]) (auto split: if_splits)

lemma publication_row:
  assumes "records_ok db" "db_publications db i = Some p"
  shows "\<exists>r. row_of (db_runs db) i = Some r" "cp_run_id p = i" "is_sha256_hex (cp_payload_sha256 p)"
    "1 \<le> cp_attempt_count p" "0 \<le> cp_attempt_count p"
  using assms unfolding records_ok_def by fastforce+

lemma failed_transition_terminal:
  "apply_run_transition r failed_transition (Aware now 0) = Inr s \<Longrightarrow>
     vr_lifecycle s = TERMINAL \<and> vr_terminal_reason s = Some FAILED"
  unfolding apply_ok_iff by (simp add: with_changes_def failed_transition_def no_transition_def)

lemma row_of_update_id:
  "(\<And>r. vr_run_id (f r) = vr_run_id r) \<Longrightarrow> row_of (update_run i f rows) i = map_option f (row_of rows i)"
  unfolding update_run_def by (cases "row_of rows i") (simp_all add: row_of_update_where row_of_Some)

lemma row_of_replace:
  assumes "row_of rows i = Some r" "vr_run_id s = i" "\<And>q. p q \<Longrightarrow> vr_run_id q = i" "p r"
  shows "row_of (update_where p (\<lambda>_. s) rows) i = Some s"
  using assms by (induction rows) (auto simp: row_of_def update_where_def split: if_splits)

lemma transition_run_ok:
  "transition_run i v t clock db = (Inr s, db') \<longleftrightarrow>
     (\<exists>now r. store_now clock = Inr now \<and> require_run db i = Inr r \<and> vr_version r = v
        \<and> apply_run_transition r t (Aware now 0) = Inr s
        \<and> length (filter (\<lambda>r. vr_run_id r = i \<and> vr_version r = v) (db_runs db)) = 1
        \<and> db' = db\<lparr>db_runs := update_where (\<lambda>r. vr_run_id r = i \<and> vr_version r = v) (\<lambda>_. s) (db_runs db)\<rparr>)"
  unfolding transition_run_def by (auto simp: guard_simps Let_def)

lemma fail_body_ok:
  assumes "fail_body i code summary retryable usage raw now db = Inr (f, db')"
  shows "(\<exists>r. require_run db i = Inr r) \<and> (db_failures db i = Some f \<and> db' = db
     \<or> db_failures db i = None \<and> (\<exists>r s. require_run db i = Inr r
        \<and> apply_run_transition r failed_transition (Aware now 0) = Inr s
        \<and> f = failure_record i r code summary retryable usage raw now
        \<and> db' = db\<lparr>db_runs := update_run i (\<lambda>_. s) (db_runs db), db_failures := (db_failures db)(i \<mapsto> f)\<rparr>))"
  using assms unfolding fail_body_def rbind_eq_Inr Let_def
  by (auto simp: guard_simps split: option.splits)

lemma failure_record_id [simp]: "rf_run_id (failure_record i r c s t u w n) = i"
  by (simp add: failure_record_def)

lemma step_records_ok:
  assumes step: "sqlite_step db db'" and idx: "index_ok (db_runs db)" and ok: "records_ok db"
  shows "records_ok db'"
proof -
  have le: "store_le db db'" using step_le [OF step idx] by blast
  then have rows: "row_of (db_runs db) i \<noteq> None \<Longrightarrow> row_of (db_runs db') i \<noteq> None" for i
    using rows_keep unfolding store_le_def by blast
  from step show ?thesis
  proof cases
    case (step_accept event i clock res)
    from txn_snd [OF step_accept [unfolded accept_pull_request_def]] show ?thesis
      using accept_records_ok [OF ok le] ok by blast
  next
    case (step_transition i v t clock res)
    then have "db' = db \<or> (\<exists>rows. db' = db\<lparr>db_runs := rows\<rparr>)"
      unfolding transition_run_def by (auto dest!: txn_snd simp: guard_simps Let_def)
    then show ?thesis
      by (elim disjE exE) (use ok in simp, rule records_ok_step [OF ok le], use ok in \<open>auto simp: records_ok_def dest: rows\<close>)
  next
    case (step_evidence i doc sha clock res)
    then have "db' = db \<or> (\<exists>ts. row_of (db_runs db) i \<noteq> None \<and> sha = sha256 (utf8 doc) \<and> db' = db\<lparr>db_evidence := (db_evidence db)(i \<mapsto>
        \<lparr>se_run_id = i, se_document_json = doc, se_sha256 = sha, se_created_at = ts\<rparr>)\<rparr>)"
      unfolding save_evidence_def
      by (cases "sha256 (utf8 doc) = sha")
        (auto dest!: txn_snd require_run_ok simp: guard_simps Let_def split: option.splits if_splits)
    then show ?thesis using ok le put_evidence_ok [OF ok] by (elim disjE exE) auto
  next
    case (step_begin i sha clock res)
    then show ?thesis
      unfolding begin_publication_def sha256_iff using ok
      by (cases "is_sha256_hex sha")
        (auto dest!: txn_snd require_run_ok simp: guard_simps publication_row [OF ok]
          elim!: put_publication_ok [OF ok le] split: option.splits if_splits)
  next
    case (step_check i n clock res)
    then show ?thesis
      unfolding set_check_run_id_def using ok
      by (cases "0 < n")
        (auto dest!: txn_snd simp: guard_simps publication_row [OF ok]
          elim!: put_publication_ok [OF ok le] split: option.splits if_splits)
  next
    case (step_error i error clock res)
    then show ?thesis
      unfolding record_publication_error_def using ok
      by (auto dest!: txn_snd simp: guard_simps publication_row [OF ok]
          elim!: put_publication_ok [OF ok le] split: option.splits if_splits)
  next
    case (step_fail i code summary retryable usage raw clock res)
    then obtain summary' now a where "fail_body i code summary' retryable usage raw now db = Inr (a, db') \<or> db' = db"
      by (auto simp: fail_run_def pbind_def ptxn_def split: sum.splits prod.splits)
    then show ?thesis
    proof (elim disjE)
      assume "fail_body i code summary' retryable usage raw now db = Inr (a, db')"
      from fail_body_ok [OF this] have "db' = db \<or> (\<exists>r s f. row_of (db_runs db) i = Some r
         \<and> apply_run_transition r failed_transition (Aware now 0) = Inr s
         \<and> rf_run_id f = i \<and> db' = db\<lparr>db_runs := update_where (\<lambda>q. vr_run_id q = i) (\<lambda>_. s) (db_runs db),
                        db_failures := (db_failures db)(i \<mapsto> f)\<rparr>)"
        unfolding update_run_def using require_run_ok failure_record_id by metis
      then show ?thesis
      proof (elim disjE exE conjE)
        fix r s f assume r: "row_of (db_runs db) i = Some r" and s: "apply_run_transition r failed_transition (Aware now 0) = Inr s"
          and f: "rf_run_id f = i" and db': "db' = db\<lparr>db_runs := update_where (\<lambda>q. vr_run_id q = i) (\<lambda>_. s) (db_runs db),
                        db_failures := (db_failures db)(i \<mapsto> f)\<rparr>"
        have "vr_run_id s = i" using apply_row_le [OF s] row_of_Some [OF r] by (simp add: row_le_def)
        then have "row_of (db_runs db') i = Some s" unfolding db'
          using row_of_replace [OF r, of s "\<lambda>q. vr_run_id q = i"] row_of_Some [OF r] by simp
        then show ?thesis using f failed_transition_terminal [OF s]
          by (intro records_ok_step [OF ok le]) (auto simp: db' split: if_splits)
      qed (use ok in simp)
    qed (use ok in simp)
  qed
qed

lemma steps_ok:
  "sqlite_steps db db' \<Longrightarrow> index_ok (db_runs db) \<Longrightarrow> records_ok db \<Longrightarrow>
     store_le db db' \<and> index_ok (db_runs db') \<and> records_ok db'"
proof (induction rule: sqlite_steps.induct)
  case (steps_step db db' db'')
  then show ?case using step_le step_records_ok store_le_trans by blast
qed (simp add: store_le_refl)

lemma empty_ok [simp]: "index_ok (db_runs empty_database)" "records_ok empty_database"
  by (simp_all add: empty_database_def records_ok_def)

end
