(* ===== verification/SqliteProperties.thy ===== *)
theory SqliteProperties
  imports SqliteHistory
begin

text \<open>
  What the SQLite store promises its callers: one current run per pull request, monotone histories,
  accepting without integrity violations, idempotent redelivery, optimistic versions, immutable
  evidence and a single failure record.
\<close>

section \<open>Properties\<close>

lemma reachable_ok:
  "sqlite_steps empty_database db \<Longrightarrow> index_ok (db_runs db) \<and> records_ok db"
  using steps_ok empty_ok by blast

lemma row_to_run_ok [simp]: "run_ok r \<Longrightarrow> row_to_run r = Inr r"
  by simp

text \<open>A store used by the witnesses: one event accepted into the empty store.\<close>

definition sample_event :: PullRequestEvent where
  "sample_event = \<lparr>pe_delivery_id = ''d'', pe_action = ''opened'', pe_repository = ''o/r'', pe_pr_number = 1,
     pe_base_sha = replicate 40 (CHR ''a''), pe_head_sha = replicate 40 (CHR ''b''), pe_head_updated_at = 0,
     pe_title = ''t'', pe_body = [], pe_installation_id = None\<rparr>"

definition sample_db :: database where
  "sample_db = empty_database\<lparr>db_runs := [sample_run], db_deliveries := [''d'' \<mapsto> (7, 0)]\<rparr>"

lemma sample_accept:
  "accept_pull_request sample_event 7 (Aware 0 0) empty_database
     = (Inr \<lparr>ar_kind = CREATED, ar_run = sample_run\<rparr>, sample_db)"
proof -
  have run: "event_run sample_event 7 0 None False = sample_run"
    by (simp add: event_run_def sample_event_def sample_run_def)
  have mk: "mk_VerificationRun sample_run = Inr sample_run" using sample_run_ok by (simp add: run_ok_def)
  have "accept_body sample_event 7 0 empty_database = Inr (\<lparr>ar_kind = CREATED, ar_run = sample_run\<rparr>, sample_db)"
    unfolding accept_body_def accept_new_def
    by (simp add: empty_database_def opt_row_to_run_def ts_not_newer_def run mk insert_run_def row_of_def
        insert_delivery_def sample_db_def Let_def)
      (simp add: sample_event_def sample_run_def)
  then show ?thesis by (simp add: accept_pull_request_def store_now_def pbind_def ptxn_def)
qed

lemma sample_steps: "sqlite_steps empty_database sample_db"
  by (rule steps_step [OF steps_nil step_accept [OF sample_accept]])

lemma sample_require: "require_run sample_db 7 = Inr sample_run"
proof -
  have "row_of (db_runs sample_db) 7 = Some sample_run" by (simp add: sample_db_def row_of_def sample_run_def)
  then show ?thesis using sample_run_ok by (simp add: require_run_def)
qed

text \<open>
  C24: In every store reached from the empty one by any sequence of operations, successful or not,
  each pull request that has runs has exactly one CURRENT run, and no run of it has a newer HEAD
  timestamp.
\<close>

theorem sqlite_current_run:
  assumes "sqlite_steps empty_database db" and "r \<in> set (db_runs db)"
  shows "\<exists>c \<in> set (db_runs db). same_pr r c \<and> is_current c \<and>
           (\<forall>d \<in> set (db_runs db). same_pr r d \<longrightarrow>
              vr_head_updated_at d \<le> vr_head_updated_at c \<and> (is_current d \<longrightarrow> d = c))"
proof -
  have led: "led_by_current (db_runs db)" and one: "one_current (db_runs db)"
    using reachable_ok [OF assms(1)] by (simp_all add: index_ok_def)
  obtain c where c: "c \<in> set (db_runs db)" "same_pr r c" "is_current c"
    using led assms(2) unfolding led_by_current_def by blast
  have "vr_head_updated_at d \<le> vr_head_updated_at c \<and> (is_current d \<longrightarrow> d = c)"
    if d: "d \<in> set (db_runs db)" "same_pr r d" for d
  proof -
    obtain e where e: "e \<in> set (db_runs db)" "same_pr d e" "is_current e" "vr_head_updated_at d \<le> vr_head_updated_at e"
      using led d(1) unfolding led_by_current_def by blast
    have "same_pr e c" "same_pr d c" using c(2) d(2) e(2) same_pr_sym same_pr_trans by blast+
    then show ?thesis using one c e d unfolding one_current_def by metis
  qed
  with c show ?thesis by blast
qed

theorem sqlite_current_run_witness:
  "\<exists>c \<in> set (db_runs sample_db). same_pr sample_run c \<and> is_current c \<and>
     (\<forall>d \<in> set (db_runs sample_db). same_pr sample_run d \<longrightarrow>
        vr_head_updated_at d \<le> vr_head_updated_at c \<and> (is_current d \<longrightarrow> d = c))"
  by (rule sqlite_current_run [OF sample_steps]) (simp add: sample_db_def)

text \<open>
  C23: No operation of the SQLite store ever undoes what an earlier one recorded: along any history
  runs keep their identity and move forward only, deliveries, evidence and failure records never
  change, a publication keeps its payload and its Check identity, and every record belongs to a
  stored run, evidence to its hash and a failure to a run that ended FAILED.
\<close>

theorem sqlite_history:
  assumes "sqlite_steps empty_database db" and "sqlite_steps db db'"
  shows "store_le db db' \<and> records_ok db'"
  using steps_ok [OF assms(2)] reachable_ok [OF assms(1)] by blast

theorem sqlite_history_witness: "store_le empty_database sample_db \<and> records_ok sample_db"
  by (rule sqlite_history [OF steps_nil sample_steps])

lemma mk_run_error: "mk_VerificationRun r = Inl e \<Longrightarrow> \<exists>m. e = ValidationError m"
  unfolding mk_VerificationRun_def rbind_eq_Inl by (elim disjE exE conjE) (drule checks_err, auto)

lemma row_to_run_error: "row_to_run r = Inl e \<Longrightarrow> \<exists>m. e = ValidationError m"
  by (simp add: row_to_run_def mk_run_error)

lemma opt_row_error: "opt_row_to_run x = Inl e \<Longrightarrow> \<exists>m. e = ValidationError m"
  by (auto simp: opt_row_to_run_def guard_simps dest: row_to_run_error split: option.splits)

lemma update_run_id_set: "(\<And>r. vr_run_id (f r) = vr_run_id r) \<Longrightarrow> vr_run_id ` set (update_run i f rows) = vr_run_id ` set rows"
  by (metis list.set_map update_run_ids)

lemma accept_duplicate_error:
  assumes idx: "index_ok (db_runs db)" and run: "run \<in> set (db_runs db)"
    and none: "db_deliveries db (pe_delivery_id event) = None"
    and err: "accept_duplicate event now run db = Inl e"
  shows "\<exists>m. e = ValidationError m"
proof -
  have "\<exists>r. row_of (update_run (vr_run_id run) (refresh_run event now) (db_runs db)) (vr_run_id run) = Some r"
    using run row_of_mem [OF _ run] idx by (simp add: row_of_update_id index_ok_def)
  then show ?thesis
    using err none unfolding accept_duplicate_def Let_def rbind_eq_Inl
    by (auto simp: require_run_def insert_delivery_def guard_simps dest: row_to_run_error split: if_splits option.splits)
qed

text \<open>A new run under a new identity never violates the primary key or the unique index.\<close>

lemma new_run_inserts:
  assumes idx: "index_ok (db_runs db)" and fresh: "i \<notin> vr_run_id ` set (db_runs db)"
  shows "insert_run (event_run event i now (current_of event (db_runs db)) (ts_not_newer event (current_of event (db_runs db))))
       (rows_superseded i now (current_of event (db_runs db)) (ts_not_newer event (current_of event (db_runs db))) (db_runs db))
     = Inr (rows_superseded i now (current_of event (db_runs db)) (ts_not_newer event (current_of event (db_runs db))) (db_runs db)
        @ [event_run event i now (current_of event (db_runs db)) (ts_not_newer event (current_of event (db_runs db)))])"
proof -
  let ?c = "current_of event (db_runs db)" let ?stale = "ts_not_newer event ?c"
  let ?rows = "rows_superseded i now ?c ?stale (db_runs db)"
  have ids: "vr_run_id ` set ?rows = vr_run_id ` set (db_runs db)"
    by (simp add: rows_superseded_def update_run_id_set split: option.split)
  have "\<not> (\<exists>r \<in> set ?rows. same_pull (pe_repository event) (pe_pr_number event) r \<and> is_current r)" if ns: "\<not> ?stale"
  proof (cases ?c)
    case None
    have "\<not> (r \<in> set (db_runs db) \<and> same_pull (pe_repository event) (pe_pr_number event) r \<and> is_current r)" for r
      using None current_of_iff [OF idx, of event r] by simp
    then show ?thesis unfolding None rows_superseded_def by auto
  next
    case (Some c)
    have "r = c" if "r \<in> set (db_runs db)" "same_pull (pe_repository event) (pe_pr_number event) r" "is_current r" for r
      using that Some current_of_iff [OF idx] by (metis option.inject)
    then show ?thesis using ns Some
      by (auto simp: rows_superseded_def set_update_run supersede_run_def same_pull_def is_current_def)
  qed
  then show ?thesis
    using ids fresh
    by (auto simp: insert_run_def row_of_None list_ex_iff event_run_def is_current_def same_pull_def)
qed

lemma accept_new_error:
  assumes idx: "index_ok (db_runs db)" and fresh: "i \<notin> vr_run_id ` set (db_runs db)"
    and none: "db_deliveries db (pe_delivery_id event) = None"
    and err: "accept_new event i now (current_of event (db_runs db)) db = Inl e"
  shows "\<exists>m. e = ValidationError m"
  using err none new_run_inserts [OF idx fresh, of event now]
  unfolding accept_new_def Let_def rows_superseded_def [symmetric] rbind_eq_Inl
  by (auto simp: guard_simps insert_delivery_def mk_VerificationRun_iff dest: mk_run_error split: option.splits)

lemma delivery_row_exists:
  assumes "records_ok db" "Option.bind (db_deliveries db d) (\<lambda>(rid, _). row_of (db_runs db) rid) = None"
  shows "db_deliveries db d = None"
proof (rule ccontr)
  assume "db_deliveries db d \<noteq> None"
  then obtain rid ts where d: "db_deliveries db d = Some (rid, ts)" by auto
  then have "row_of (db_runs db) rid \<noteq> None" using assms(1) unfolding records_ok_def by blast
  with d assms(2) show False by simp
qed

lemma accept_error_kind:
  assumes "sqlite_steps empty_database db" and "i \<notin> vr_run_id ` set (db_runs db)"
    and body: "accept_body event i now db = Inl e"
  shows "\<exists>m. e = ValidationError m"
proof -
  have idx: "index_ok (db_runs db)" and rec: "records_ok db" using reachable_ok [OF assms(1)] by blast+
  show ?thesis
  proof (cases "Option.bind (db_deliveries db (pe_delivery_id event)) (\<lambda>(rid, _). row_of (db_runs db) rid)")
    case (Some row)
    with body show ?thesis by (auto simp: accept_body_def guard_simps dest: row_to_run_error)
  next
    case None
    note none = delivery_row_exists [OF rec None]
    let ?rest = "\<lambda>current_run duplicate. case duplicate of
        Some run \<Rightarrow> if reuse_duplicate event current_run run then accept_duplicate event now run db
                    else accept_new event i now current_run db
      | None \<Rightarrow> accept_new event i now current_run db"
    from body None consider
        "opt_row_to_run (current_of event (db_runs db)) = Inl e"
      | "opt_row_to_run (known_revision event (db_runs db)) = Inl e"
      | c k where "opt_row_to_run (current_of event (db_runs db)) = Inr c"
          "opt_row_to_run (known_revision event (db_runs db)) = Inr k" "?rest c k = Inl e"
      unfolding accept_body_def current_of_def [symmetric] known_revision_def [symmetric]
      by (simp add: rbind_eq_Inl) blast
    then have "\<exists>m. e = ValidationError m"
    proof cases
      case 3
      then have eq: "c = current_of event (db_runs db)" "k = known_revision event (db_runs db)"
        using opt_row_to_run_ok by blast+
      have new: "accept_new event i now c db = Inl e \<Longrightarrow> ?thesis"
        unfolding eq by (rule accept_new_error [OF idx assms(2) none])
      show ?thesis
      proof (cases "known_revision event (db_runs db)")
        case None
        then show ?thesis using 3(3) new eq(2) by simp
      next
        case (Some run)
        have "run \<in> set (db_runs db)" using known_revision_mem [OF Some] by blast
        from accept_duplicate_error [OF idx this none] show ?thesis
          using 3(3) new eq(2) Some by (simp split: if_splits)
      qed
    qed (rule opt_row_error, assumption)+
    then show ?thesis .
  qed
qed

lemma accept_stored:
  assumes idx: "index_ok (db_runs db)" and acc: "accept_body event i now db = Inr (res, db')"
  shows "ar_run res \<in> set (db_runs db') \<and> run_ok (ar_run res)"
  using acc
proof (cases rule: accept_body_cases)
  case (known run)
  have "run \<in> set (db_runs db)" using known_revision_mem [OF known(1)] by blast
  then show ?thesis using accept_duplicate_ok [OF known(4)] known(2) row_of_Some
    by (auto simp: Let_def split: if_splits)
next
  case new
  then show ?thesis using accept_new_ok [OF new(3)] by (auto simp: Let_def)
qed simp

text \<open>
  On a reachable store, accepting an event under a new run identity never violates a primary
  key or the unique index of CURRENT runs: it returns a valid stored run, or it raises the
  ValidationError of a row that does not validate and changes nothing.
\<close>

theorem sqlite_accept_total:
  assumes "sqlite_steps empty_database db" and "i \<notin> vr_run_id ` set (db_runs db)"
  shows "\<exists>r db'. accept_pull_request event i (Aware now off) db = (r, db') \<and>
           ((\<exists>m. r = Inl (ValidationError m) \<and> db' = db)
            \<or> (\<exists>res. r = Inr res \<and> ar_run res \<in> set (db_runs db') \<and> run_ok (ar_run res)))"
proof (cases "accept_body event i (now - off) db")
  case (Inl e)
  with accept_error_kind [OF assms Inl] show ?thesis
    by (simp add: accept_pull_request_def store_now_def pbind_def ptxn_def)
next
  case (Inr p)
  then obtain res db' where "accept_body event i (now - off) db = Inr (res, db')" by (cases p) auto
  with accept_stored [OF _ this] reachable_ok [OF assms(1)] show ?thesis
    by (simp add: accept_pull_request_def store_now_def pbind_def ptxn_def)
qed

theorem sqlite_accept_total_witness:
  "\<exists>r db'. accept_pull_request sample_event 7 (Aware 0 0) empty_database = (r, db') \<and>
     ((\<exists>m. r = Inl (ValidationError m) \<and> db' = empty_database)
      \<or> (\<exists>res. r = Inr res \<and> ar_run res \<in> set (db_runs db') \<and> run_ok (ar_run res)))"
  by (rule sqlite_accept_total [OF steps_nil]) (simp add: empty_database_def)



text \<open>
  Optimistic concurrency: a successful transition stores its result under the next version,
  and no later transition that expects the old version can succeed or change anything.
\<close>

theorem sqlite_optimistic:
  assumes "sqlite_steps empty_database db" and "transition_run i v t clock db = (Inr s, db')"
    and "sqlite_steps db' db''"
  shows "vr_version s = v + 1 \<and> get_run i db' = Inr s \<and>
           (\<exists>e. transition_run i v t' clock' db'' = (Inl e, db''))"
proof -
  have ok: "index_ok (db_runs db')" "records_ok db'"
    using reachable_ok [OF steps_step [OF assms(1) step_transition [OF assms(2)]]] by blast+
  obtain now r where r: "require_run db i = Inr r" "vr_version r = v"
    and s: "apply_run_transition r t (Aware now 0) = Inr s"
    and db': "db' = db\<lparr>db_runs := update_where (\<lambda>r. vr_run_id r = i \<and> vr_version r = v) (\<lambda>_. s) (db_runs db)\<rparr>"
    using assms(2) unfolding transition_run_ok by blast
  have row: "row_of (db_runs db) i = Some r" using require_run_ok [OF r(1)] by blast
  have vs: "vr_version s = v + 1" using s r(2) unfolding apply_ok_iff by simp
  have ids: "vr_run_id s = i" using apply_row_le [OF s] row_of_Some [OF row] by (simp add: row_le_def)
  have row': "row_of (db_runs db') i = Some s"
    unfolding db' using row_of_replace [OF row ids, of "\<lambda>r. vr_run_id r = i \<and> vr_version r = v"]
      row_of_Some [OF row] r(2) by simp
  have "run_ok s" using apply_row_le [OF s] by blast
  then have "get_run i db' = Inr s" by (simp add: get_run_def require_run_def row')
  moreover have "\<exists>e. transition_run i v t' clock' db'' = (Inl e, db'')"
  proof -
    obtain q where q: "row_of (db_runs db'') i = Some q" "vr_version s \<le> vr_version q"
      using steps_ok [OF assms(3) ok] row' unfolding store_le_def lookup_le_def row_le_def by blast
    then have "transition_run i v t' clock' db'' \<noteq> (Inr u, w)" for u w
      unfolding transition_run_ok using vs by (auto dest: require_run_ok)
    moreover have "snd (transition_run i v t' clock' db'') = db'' \<or> (\<exists>u. fst (transition_run i v t' clock' db'') = Inr u)"
      unfolding transition_run_def by (auto simp: pbind_def ptxn_def split: sum.splits prod.splits)
    ultimately show ?thesis by (metis prod.collapse sum.exhaust)
  qed
  ultimately show ?thesis using vs by blast
qed

definition sample_db_queued :: database where
  "sample_db_queued = sample_db\<lparr>db_runs := [sample_queued]\<rparr>"

lemma sample_transition:
  "transition_run 7 1 (no_transition\<lparr>rt_lifecycle := Some QUEUED\<rparr>) (Aware 5 0) sample_db
     = (Inr sample_queued, sample_db_queued)"
  unfolding transition_run_ok
proof (intro exI conjI)
  show "store_now (Aware 5 0) = Inr 5" by (simp add: store_now_def)
  show "require_run sample_db 7 = Inr sample_run" by (rule sample_require)
  show "apply_run_transition sample_run (no_transition\<lparr>rt_lifecycle := Some QUEUED\<rparr>) (Aware 5 0) = Inr sample_queued"
    by (rule sample_queue_transition)
  have runs: "db_runs sample_db = [sample_run]" by (simp add: sample_db_def)
  have id: "vr_run_id sample_run = 7" "vr_version sample_run = 1" by (simp_all add: sample_run_def)
  then show "vr_version sample_run = 1"
    "length (filter (\<lambda>r. vr_run_id r = 7 \<and> vr_version r = 1) (db_runs sample_db)) = 1"
    "sample_db_queued = sample_db\<lparr>db_runs := update_where (\<lambda>r. vr_run_id r = 7 \<and> vr_version r = 1)
       (\<lambda>_. sample_queued) (db_runs sample_db)\<rparr>"
    by (simp_all add: runs update_where_def sample_db_queued_def)
qed

theorem sqlite_optimistic_witness:
  "vr_version sample_queued = 1 + 1 \<and> get_run 7 sample_db_queued = Inr sample_queued \<and>
     (\<exists>e. transition_run 7 1 no_transition (Aware 9 0) sample_db_queued = (Inl e, sample_db_queued))"
  by (rule sqlite_optimistic [OF sample_steps sample_transition steps_nil])

lemma save_evidence_ok:
  assumes "save_evidence i doc sha clock db = (Inr e, db')"
  shows "sha256 (utf8 doc) = sha" "se_document_json e = doc" "se_sha256 e = sha"
    "db_evidence db' i = Some e" "db_evidence db i = None \<or> db_evidence db i = Some e"
proof -
  show hash: "sha256 (utf8 doc) = sha"
  proof (rule ccontr)
    assume "sha256 (utf8 doc) \<noteq> sha"
    then show False using assms by (simp add: save_evidence_def)
  qed
  show "se_document_json e = doc" "se_sha256 e = sha" "db_evidence db' i = Some e"
    "db_evidence db i = None \<or> db_evidence db i = Some e"
    using assms by (cases "db_evidence db i"; auto simp: save_evidence_def hash guard_simps Let_def split: if_splits)+
qed

text \<open>
  C33: Stored evidence is immutable: what was saved is returned after any later operations, with
  the hash of its text, and saving a different document for the run raises and changes nothing.
\<close>

theorem sqlite_evidence_immutable:
  assumes "sqlite_steps empty_database db" and "save_evidence i doc sha clock db = (Inr e, db')"
    and "sqlite_steps db' db''"
  shows "get_evidence i db'' = Some e \<and> se_document_json e = doc \<and> se_sha256 e = sha256 (utf8 doc)
    \<and> (doc' = doc \<or> (\<exists>x. save_evidence i doc' sha' clock' db'' = (Inl x, db'')))"
proof -
  have ok: "index_ok (db_runs db')" "records_ok db'"
    using reachable_ok [OF steps_step [OF assms(1) step_evidence [OF assms(2)]]] by blast+
  note saved = save_evidence_ok [OF assms(2)]
  have e: "db_evidence db'' i = Some e"
    using steps_ok [OF assms(3) ok] saved unfolding store_le_def lookup_le_def by auto
  have "\<exists>x. save_evidence i doc' sha' clock' db'' = (Inl x, db'')" if "doc' \<noteq> doc"
  proof -
    have "save_evidence i doc' sha' clock' db'' \<noteq> (Inr u, w)" for u w
      using save_evidence_ok [of i doc' sha' clock' db'' u w] e that saved by auto
    moreover have "snd (save_evidence i doc' sha' clock' db'') = db'' \<or> (\<exists>u. fst (save_evidence i doc' sha' clock' db'') = Inr u)"
      unfolding save_evidence_def by (auto simp: pbind_def ptxn_def pguard_def split: sum.splits prod.splits)
    ultimately show ?thesis by (metis prod.collapse sum.exhaust)
  qed
  then show ?thesis using e saved by (simp add: get_evidence_def) blast
qed

definition sample_evidence :: StoredEvidence where
  "sample_evidence = \<lparr>se_run_id = 7, se_document_json = ''x'', se_sha256 = sha256 (utf8 ''x''), se_created_at = 1\<rparr>"

lemma sample_save:
  "save_evidence 7 ''x'' (sha256 (utf8 ''x'')) (Aware 1 0) sample_db
     = (Inr sample_evidence, sample_db\<lparr>db_evidence := [7 \<mapsto> sample_evidence]\<rparr>)"
proof -
  have "db_evidence sample_db = Map.empty" by (simp add: sample_db_def empty_database_def)
  then show ?thesis
    by (simp add: save_evidence_def store_now_def sample_require pbind_def ptxn_def sample_evidence_def Let_def)
qed

theorem sqlite_evidence_immutable_witness:
  "get_evidence 7 (sample_db\<lparr>db_evidence := [7 \<mapsto> sample_evidence]\<rparr>) = Some sample_evidence
   \<and> se_document_json sample_evidence = ''x'' \<and> se_sha256 sample_evidence = sha256 (utf8 ''x'')
   \<and> (''y'' = ''x'' \<or> (\<exists>x. save_evidence 7 ''y'' (sha256 (utf8 ''y'')) (Aware 3 0)
          (sample_db\<lparr>db_evidence := [7 \<mapsto> sample_evidence]\<rparr>) = (Inl x, sample_db\<lparr>db_evidence := [7 \<mapsto> sample_evidence]\<rparr>)))"
  by (rule sqlite_evidence_immutable [OF sample_steps sample_save steps_nil])

lemma fail_run_ok:
  "fail_run i code summary retryable usage raw clock db = (Inr f, db') \<Longrightarrow>
     \<exists>summary' now. failure_summary code summary raw = Inr summary'
       \<and> fail_body i code summary' retryable usage raw now db = Inr (f, db')"
  by (auto simp: fail_run_def guard_simps)

text \<open>
  Failing a run is atomic and happens once: when it returns, the failure record is stored and
  the run has ended; for an active run the record names the phase it failed in and the run ended
  FAILED; and every later failure of the run that returns gives the same record and changes nothing.
\<close>

theorem sqlite_fail_once:
  assumes "sqlite_steps empty_database db"
    and "fail_run i code summary retryable usage raw clock db = (Inr f, db')" and "sqlite_steps db' db''"
  shows "get_failure i db' = Some f
    \<and> (\<exists>r. row_of (db_runs db'') i = Some r \<and> vr_lifecycle r = TERMINAL \<and> vr_terminal_reason r = Some FAILED)
    \<and> (fail_run i code2 summary2 retryable2 usage2 raw2 clock2 db'' = (Inr f, db'')
         \<or> (\<exists>x. fail_run i code2 summary2 retryable2 usage2 raw2 clock2 db'' = (Inl x, db'')))"
proof -
  have reach: "sqlite_steps empty_database db'" using steps_step [OF assms(1) step_fail [OF assms(2)]] .
  have ok: "index_ok (db_runs db')" "records_ok db'" using reachable_ok [OF reach] by blast+
  obtain summary' now where body: "fail_body i code summary' retryable usage raw now db = Inr (f, db')"
    using fail_run_ok [OF assms(2)] by blast
  have f: "db_failures db' i = Some f" using fail_body_ok [OF body] by auto
  have later: "store_le db' db''" "records_ok db''" using steps_ok [OF assms(3) ok] by blast+
  have f'': "db_failures db'' i = Some f" using later(1) f unfolding store_le_def lookup_le_def by auto
  then have "\<exists>r. row_of (db_runs db'') i = Some r \<and> vr_lifecycle r = TERMINAL \<and> vr_terminal_reason r = Some FAILED"
    using later(2) unfolding records_ok_def by blast
  moreover have "fail_run i code2 summary2 retryable2 usage2 raw2 clock2 db'' = (Inr f, db'')
         \<or> (\<exists>x. fail_run i code2 summary2 retryable2 usage2 raw2 clock2 db'' = (Inl x, db''))"
    using f'' by (auto simp: fail_run_def fail_body_def pbind_def ptxn_def rbind_def split: sum.splits)
  ultimately show ?thesis using f by (simp add: get_failure_def)
qed

definition sample_failure :: RunFailureRecord where
  "sample_failure = failure_record 7 sample_run ''MODEL_FAILED'' ''s'' False None None 2"

definition sample_db_failed :: database where
  "sample_db_failed = sample_db\<lparr>
     db_runs := update_run 7 (\<lambda>_. (with_changes sample_run failed_transition)\<lparr>vr_updated_at := 2, vr_version := 2\<rparr>)
                  (db_runs sample_db),
     db_failures := [7 \<mapsto> sample_failure]\<rparr>"

lemma error_code_iff:
  "is_fullmatch error_code_pattern (c # s) \<longleftrightarrow>
     upper_letter c \<and> 2 \<le> length s \<and> length s \<le> 63
     \<and> (\<forall>d \<in> set s. upper_letter d \<or> is_digit d \<or> d = CHR ''_'')"
proof -
  have split: "(\<exists>u v. c # s = u @ v \<and> (\<exists>d. u = [d] \<and> P d) \<and> Q v) \<longleftrightarrow> P c \<and> Q s" for P Q
  proof
    assume "P c \<and> Q s"
    then show "\<exists>u v. c # s = u @ v \<and> (\<exists>d. u = [d] \<and> P d) \<and> Q v"
      by (intro exI [of _ "[c]"] exI [of _ s]) simp
  qed (auto simp: Cons_eq_append_conv)
  show ?thesis
    unfolding error_code_pattern_def using split [of upper_letter
      "\<lambda>v. 2 \<le> length v \<and> length v \<le> 63 \<and> (\<forall>d \<in> set v. upper_letter d \<or> is_digit d \<or> d = CHR ''_'')"]
    by (simp add: fullmatch_lang)
qed

lemma sample_failure_summary: "failure_summary ''MODEL_FAILED'' ''s'' None = Inr ''s''"
proof -
  have "is_fullmatch error_code_pattern ''MODEL_FAILED''"
    by (simp add: error_code_iff upper_letter_def is_digit_def in_range_def)
  moreover have "strip ''s'' = ''s''" by (simp add: strip_def rstrip_def lstrip_def is_space_def)
  ultimately show ?thesis by (simp add: failure_summary_def observed_hash_ok_def)
qed

lemma sample_fail:
  "fail_run 7 ''MODEL_FAILED'' ''s'' False None None (Aware 2 0) sample_db = (Inr sample_failure, sample_db_failed)"
proof -
  let ?s = "(with_changes sample_run failed_transition)\<lparr>vr_updated_at := 2 - 0, vr_version := vr_version sample_run + 1\<rparr>"
  have p: "permitted_change sample_run ?s"
    by (simp add: permitted_change_def keeps_some_def sample_run_def with_changes_def failed_transition_def no_transition_def)
  have ne: "with_changes sample_run failed_transition \<noteq> sample_run"
    by (simp add: sample_run_def with_changes_def failed_transition_def no_transition_def)
  have "apply_run_transition sample_run failed_transition (Aware 2 0) = Inr ?s"
    unfolding apply_ok_iff using p ne permitted_run_ok [OF sample_run_ok refl p] by blast
  moreover have "vr_version sample_run = 1" by (simp add: sample_run_def)
  moreover have "db_failures sample_db = Map.empty" by (simp add: sample_db_def empty_database_def)
  ultimately have "fail_body 7 ''MODEL_FAILED'' ''s'' False None None 2 sample_db = Inr (sample_failure, sample_db_failed)"
    by (simp add: fail_body_def sample_require sample_failure_def sample_db_failed_def Let_def)
  then show ?thesis
    by (simp add: fail_run_def sample_failure_summary store_now_def pbind_def ptxn_def)
qed

theorem sqlite_fail_once_witness:
  "get_failure 7 sample_db_failed = Some sample_failure
    \<and> (\<exists>r. row_of (db_runs sample_db_failed) 7 = Some r \<and> vr_lifecycle r = TERMINAL \<and> vr_terminal_reason r = Some FAILED)
    \<and> (fail_run 7 ''OTHER'' ''u'' True None None (Aware 4 0) sample_db_failed = (Inr sample_failure, sample_db_failed)
         \<or> (\<exists>x. fail_run 7 ''OTHER'' ''u'' True None None (Aware 4 0) sample_db_failed = (Inl x, sample_db_failed)))"
  by (rule sqlite_fail_once [OF sample_steps sample_fail steps_nil])

end
