(* ===== verification/FirestoreStore.thy ===== *)
theory FirestoreStore
  imports SqliteProperties
begin

text \<open>
  \<open>src/patchproof/firestore_store.py\<close>, \<open>FirestoreVerificationRunStore\<close>: the collections of
  documents, and every operation as a transaction on them. A transaction that raises writes
  nothing. The runs collection is the list of its documents in creation order, because queries
  stream it; the other collections are maps from document identities. Retrying a contended
  transaction is the client library's: the model runs each transaction once.
\<close>

section \<open>Collections\<close>

record collections =
  fs_runs :: "VerificationRun list"
  fs_deliveries :: "string \<Rightarrow> (uuid \<times> utc) option"
  fs_current :: "string \<Rightarrow> (uuid \<times> utc) option"
  fs_revisions :: "string \<Rightarrow> (uuid \<times> utc) option"
  fs_evidence :: "uuid \<Rightarrow> StoredEvidence option"
  fs_publications :: "uuid \<Rightarrow> CheckPublication option"
  fs_failures :: "uuid \<Rightarrow> RunFailureRecord option"

definition empty_collections :: collections where
  "empty_collections = \<lparr>fs_runs = [], fs_deliveries = Map.empty, fs_current = Map.empty,
     fs_revisions = Map.empty, fs_evidence = Map.empty, fs_publications = Map.empty, fs_failures = Map.empty\<rparr>"

definition pull_key :: "string \<Rightarrow> int \<Rightarrow> string" where
  "pull_key repository pr_number = sha256 (utf8 (lower repository @ ''#'' @ str_int pr_number))"

definition revision_key :: "string \<Rightarrow> int \<Rightarrow> string \<Rightarrow> string \<Rightarrow> string" where
  "revision_key repository pr_number base_sha head_sha =
     sha256 (utf8 (lower repository @ ''#'' @ str_int pr_number @ ''#'' @ base_sha @ ''#'' @ head_sha))"

text \<open>\<open>transaction.set\<close> replaces or creates a document; \<open>transaction.create\<close> refuses to replace.\<close>

definition set_run_document :: "VerificationRun \<Rightarrow> VerificationRun list \<Rightarrow> VerificationRun list" where
  "set_run_document run documents =
     (if row_of documents (vr_run_id run) = None then documents @ [run]
      else update_run (vr_run_id run) (\<lambda>_. run) documents)"

definition create_run_document :: "VerificationRun \<Rightarrow> VerificationRun list \<Rightarrow> exn + VerificationRun list" where
  "create_run_document run documents =
     (if row_of documents (vr_run_id run) \<noteq> None then Inl (IntegrityError ''document already exists'')
      else Inr (documents @ [run]))"

definition create_document :: "'k \<Rightarrow> 'v \<Rightarrow> ('k \<Rightarrow> 'v option) \<Rightarrow> exn + ('k \<Rightarrow> 'v option)" where
  "create_document key document collection =
     (case collection key of Some _ \<Rightarrow> Inl (IntegrityError ''document already exists'')
      | None \<Rightarrow> Inr (collection(key \<mapsto> document)))"

definition get_run_in_transaction :: "collections \<Rightarrow> uuid \<Rightarrow> exn + VerificationRun" where
  "get_run_in_transaction fs run_id =
     (case row_of (fs_runs fs) run_id of
        None \<Rightarrow> Inl (RunNotFoundError ''verification run not found'')
      | Some document \<Rightarrow> mk_VerificationRun document)"

definition get_pointed_run :: "collections \<Rightarrow> (uuid \<times> utc) option \<Rightarrow> exn + VerificationRun option" where
  "get_pointed_run fs pointer =
     (case pointer of None \<Rightarrow> Inr None
      | Some (run_id, _) \<Rightarrow> rbind (get_run_in_transaction fs run_id) (\<lambda>run. Inr (Some run)))"

section \<open>Accepting a pull request\<close>

definition fs_accept_duplicate ::
    "PullRequestEvent \<Rightarrow> utc \<Rightarrow> VerificationRun \<Rightarrow> collections \<Rightarrow> exn + (AcceptanceResult \<times> collections)" where
  "fs_accept_duplicate event now duplicate fs =
     (let newer = vr_head_updated_at duplicate < pe_head_updated_at event;
          run = (if newer then refresh_run event now duplicate else duplicate);
          runs1 = (if newer then set_run_document run (fs_runs fs) else fs_runs fs) in
      rbind (create_document (pe_delivery_id event) (vr_run_id run, now) (fs_deliveries fs)) (\<lambda>deliveries.
      Inr (\<lparr>ar_kind = DUPLICATE_REVISION, ar_run = run\<rparr>, fs\<lparr>fs_runs := runs1, fs_deliveries := deliveries\<rparr>)))"

definition fs_accept_new ::
    "PullRequestEvent \<Rightarrow> uuid \<Rightarrow> utc \<Rightarrow> VerificationRun option \<Rightarrow> collections
     \<Rightarrow> exn + (AcceptanceResult \<times> collections)" where
  "fs_accept_new event run_id now current fs =
     (let is_stale = ts_not_newer event current;
          runs1 = (case current of None \<Rightarrow> fs_runs fs
            | Some c \<Rightarrow> if is_stale then fs_runs fs
                        else set_run_document (supersede_run run_id now c) (fs_runs fs)) in
      rbind (mk_VerificationRun (event_run event run_id now current is_stale)) (\<lambda>run.
      rbind (create_run_document run runs1) (\<lambda>runs2.
      rbind (create_document (pe_delivery_id event) (run_id, now) (fs_deliveries fs)) (\<lambda>deliveries.
      Inr (\<lparr>ar_kind = (if is_stale then STALE_CREATED else CREATED), ar_run = run\<rparr>,
           fs\<lparr>fs_runs := runs2, fs_deliveries := deliveries,
              fs_revisions := (fs_revisions fs)
                (revision_key (pe_repository event) (pe_pr_number event) (pe_base_sha event) (pe_head_sha event)
                   \<mapsto> (run_id, pe_head_updated_at event)),
              fs_current := (if is_stale then fs_current fs
                else (fs_current fs)(pull_key (pe_repository event) (pe_pr_number event) \<mapsto> (run_id, now)))\<rparr>)))))"

definition fs_accept_body ::
    "PullRequestEvent \<Rightarrow> uuid \<Rightarrow> utc \<Rightarrow> collections \<Rightarrow> exn + (AcceptanceResult \<times> collections)" where
  "fs_accept_body event run_id now fs =
     (case fs_deliveries fs (pe_delivery_id event) of
        Some (rid, _) \<Rightarrow> rbind (get_run_in_transaction fs rid)
          (\<lambda>run. Inr (\<lparr>ar_kind = DUPLICATE_DELIVERY, ar_run = run\<rparr>, fs))
      | None \<Rightarrow>
        rbind (get_pointed_run fs (fs_current fs (pull_key (pe_repository event) (pe_pr_number event)))) (\<lambda>current.
        rbind (get_pointed_run fs (fs_revisions fs
            (revision_key (pe_repository event) (pe_pr_number event) (pe_base_sha event) (pe_head_sha event)))) (\<lambda>duplicate.
        case duplicate of
          Some run \<Rightarrow> if reuse_duplicate event current run then fs_accept_duplicate event now run fs
                      else fs_accept_new event run_id now current fs
        | None \<Rightarrow> fs_accept_new event run_id now current fs)))"

definition fs_accept_pull_request ::
    "PullRequestEvent \<Rightarrow> uuid \<Rightarrow> datetime \<Rightarrow> (collections, exn, AcceptanceResult) prog" where
  "fs_accept_pull_request event run_id clock =
     pbind (plift (store_now clock)) (\<lambda>now. ptxn (fs_accept_body event run_id now))"

section \<open>Reading and transitions\<close>

definition fs_get_run :: "uuid \<Rightarrow> collections \<Rightarrow> exn + VerificationRun" where
  "fs_get_run run_id fs = get_run_in_transaction fs run_id"

definition fs_list_runs :: "string \<Rightarrow> int \<Rightarrow> collections \<Rightarrow> exn + VerificationRun list" where
  "fs_list_runs repository pr_number fs =
     rbind (rmap mk_VerificationRun
       (filter (\<lambda>r. pull_key (vr_repository r) (vr_pr_number r) = pull_key (lower repository) pr_number) (fs_runs fs)))
     (\<lambda>runs. Inr (sort_key vr_created_at (sort_key vr_run_id runs)))"

definition fs_list_recent_runs :: "int \<Rightarrow> collections \<Rightarrow> exn + VerificationRun list" where
  "fs_list_recent_runs limit fs =
     (if \<not> (1 \<le> limit \<and> limit \<le> 8) then Inl (ValueError ''recent run limit must be between one and eight'')
      else rmap mk_VerificationRun (take (nat limit)
        (rev (sort_key vr_created_at (sort_key vr_run_id (fs_runs fs))))))"

definition fs_transition_run ::
    "uuid \<Rightarrow> int \<Rightarrow> RunTransition \<Rightarrow> datetime \<Rightarrow> (collections, exn, VerificationRun) prog" where
  "fs_transition_run run_id expected_version transition clock =
     pbind (plift (store_now clock)) (\<lambda>now. ptxn (\<lambda>fs.
       rbind (get_run_in_transaction fs run_id) (\<lambda>current.
       rbind (guard (vr_version current = expected_version) (ConcurrentRunUpdateError ''run version'')) (\<lambda>_.
       rbind (apply_run_transition current transition (Aware now 0)) (\<lambda>updated.
       Inr (updated, fs\<lparr>fs_runs := set_run_document updated (fs_runs fs)\<rparr>))))))"

section \<open>Evidence, publication and failure records\<close>

definition fs_save_evidence ::
    "uuid \<Rightarrow> string \<Rightarrow> string \<Rightarrow> datetime \<Rightarrow> (collections, exn, StoredEvidence) prog" where
  "fs_save_evidence run_id document_json sha clock =
     pbind (pguard (sha256 (utf8 document_json) = sha)
              (ValueError ''evidence SHA-256 does not match serialized evidence'')) (\<lambda>_.
     pbind (plift (store_now clock)) (\<lambda>now. ptxn (\<lambda>fs.
       rbind (get_run_in_transaction fs run_id) (\<lambda>_.
       case fs_evidence fs run_id of
         Some stored \<Rightarrow>
           if se_sha256 stored \<noteq> sha \<or> se_document_json stored \<noteq> document_json
           then Inl (StoredEvidenceConflictError ''stored evidence cannot be overwritten'')
           else Inr (stored, fs)
       | None \<Rightarrow>
           (let stored = \<lparr>se_run_id = run_id, se_document_json = document_json, se_sha256 = sha,
                          se_created_at = now\<rparr> in
            Inr (stored, fs\<lparr>fs_evidence := (fs_evidence fs)(run_id \<mapsto> stored)\<rparr>))))))"

definition fs_get_evidence :: "uuid \<Rightarrow> collections \<Rightarrow> StoredEvidence option" where
  "fs_get_evidence run_id fs = fs_evidence fs run_id"

definition fs_put_publication :: "uuid \<Rightarrow> CheckPublication \<Rightarrow> collections \<Rightarrow> CheckPublication \<times> collections" where
  "fs_put_publication run_id p fs = (p, fs\<lparr>fs_publications := (fs_publications fs)(run_id \<mapsto> p)\<rparr>)"

definition fs_begin_publication ::
    "uuid \<Rightarrow> string \<Rightarrow> datetime \<Rightarrow> (collections, exn, CheckPublication) prog" where
  "fs_begin_publication run_id payload_sha256 clock =
     pbind (pguard (is_fullmatch sha256_pattern payload_sha256)
              (ValueError ''publication payload hash must be a lowercase SHA-256 value'')) (\<lambda>_.
     pbind (plift (store_now clock)) (\<lambda>now. ptxn (\<lambda>fs.
       rbind (get_run_in_transaction fs run_id) (\<lambda>_.
       case fs_publications fs run_id of
         Some current \<Rightarrow>
           if cp_payload_sha256 current \<noteq> payload_sha256
           then Inl (StoredEvidenceConflictError ''publication payload cannot be replaced'')
           else Inr (fs_put_publication run_id
             \<lparr>cp_run_id = run_id, cp_payload_sha256 = payload_sha256, cp_check_run_id = cp_check_run_id current,
              cp_attempt_count = cp_attempt_count current + 1, cp_last_error = None, cp_updated_at = now\<rparr> fs)
       | None \<Rightarrow>
           Inr (fs_put_publication run_id
             \<lparr>cp_run_id = run_id, cp_payload_sha256 = payload_sha256, cp_check_run_id = None,
              cp_attempt_count = 1, cp_last_error = None, cp_updated_at = now\<rparr> fs)))))"

definition fs_get_publication :: "uuid \<Rightarrow> collections \<Rightarrow> CheckPublication option" where
  "fs_get_publication run_id fs = fs_publications fs run_id"

definition update_publication ::
    "uuid \<Rightarrow> int option \<Rightarrow> string option \<Rightarrow> datetime \<Rightarrow> (collections, exn, CheckPublication) prog" where
  "update_publication run_id check_run_id last_error clock =
     pbind (plift (store_now clock)) (\<lambda>now. ptxn (\<lambda>fs.
       case fs_publications fs run_id of
         None \<Rightarrow> Inl (RunNotFoundError ''publication attempt has not started'')
       | Some current \<Rightarrow>
           if check_run_id \<noteq> None \<and> cp_check_run_id current \<noteq> None \<and> cp_check_run_id current \<noteq> check_run_id
           then Inl (StoredEvidenceConflictError ''GitHub Check identity cannot be replaced'')
           else Inr (fs_put_publication run_id
             \<lparr>cp_run_id = run_id, cp_payload_sha256 = cp_payload_sha256 current,
              cp_check_run_id = or_else check_run_id (cp_check_run_id current),
              cp_attempt_count = cp_attempt_count current,
              cp_last_error = or_else last_error (cp_last_error current), cp_updated_at = now\<rparr> fs)))"

definition fs_set_check_run_id ::
    "uuid \<Rightarrow> int \<Rightarrow> datetime \<Rightarrow> (collections, exn, CheckPublication) prog" where
  "fs_set_check_run_id run_id check_run_id clock =
     pbind (pguard (0 < check_run_id) (ValueError ''GitHub Check run ID must be positive''))
       (\<lambda>_. update_publication run_id (Some check_run_id) None clock)"

definition fs_record_publication_error ::
    "uuid \<Rightarrow> string \<Rightarrow> datetime \<Rightarrow> (collections, exn, CheckPublication) prog" where
  "fs_record_publication_error run_id error clock =
     update_publication run_id None (Some (bounded_error error)) clock"

definition fs_fail_body ::
    "uuid \<Rightarrow> string \<Rightarrow> string \<Rightarrow> bool \<Rightarrow> model_usage option \<Rightarrow> string option \<Rightarrow> utc
     \<Rightarrow> collections \<Rightarrow> exn + (RunFailureRecord \<times> collections)" where
  "fs_fail_body run_id error_code bounded retryable model_usage raw_response_sha256 now fs =
     (case fs_failures fs run_id of
        Some prior \<Rightarrow> Inr (prior, fs)
      | None \<Rightarrow>
        rbind (get_run_in_transaction fs run_id) (\<lambda>current.
        rbind (apply_run_transition current failed_transition (Aware now 0)) (\<lambda>updated.
        let failure = failure_record run_id current error_code bounded retryable model_usage
                        raw_response_sha256 now in
        Inr (failure, fs\<lparr>fs_runs := set_run_document updated (fs_runs fs),
                         fs_failures := (fs_failures fs)(run_id \<mapsto> failure)\<rparr>))))"

definition fs_fail_run ::
    "uuid \<Rightarrow> string \<Rightarrow> string \<Rightarrow> bool \<Rightarrow> model_usage option \<Rightarrow> string option \<Rightarrow> datetime
     \<Rightarrow> (collections, exn, RunFailureRecord) prog" where
  "fs_fail_run run_id error_code summary retryable model_usage raw_response_sha256 clock =
     pbind (plift (failure_summary error_code summary raw_response_sha256)) (\<lambda>bounded.
     pbind (plift (store_now clock)) (\<lambda>now.
       ptxn (fs_fail_body run_id error_code bounded retryable model_usage raw_response_sha256 now)))"

definition fs_get_failure :: "uuid \<Rightarrow> collections \<Rightarrow> RunFailureRecord option" where
  "fs_get_failure run_id fs = fs_failures fs run_id"

end
