(* ===== verification/FirestoreRefinement.thy ===== *)
theory FirestoreRefinement
  imports FirestoreStore
begin

text \<open>
  The Firestore store refines the SQLite store: started empty, both return the same results for
  every sequence of operations, as long as the SHA-256 document keys of the events in use do not
  collide and an accepted event is well formed and not older than the run it refreshes.
\<close>

section \<open>One type of operations for both stores\<close>

datatype store_op =
    OpAccept PullRequestEvent uuid datetime
  | OpTransition uuid int RunTransition datetime
  | OpEvidence uuid string string datetime
  | OpBegin uuid string datetime
  | OpCheck uuid int datetime
  | OpError uuid string datetime
  | OpFail uuid string string bool "model_usage option" "string option" datetime

datatype store_value =
    VAccept AcceptanceResult | VRun VerificationRun | VEvidence StoredEvidence
  | VPublication CheckPublication | VFailure RunFailureRecord

definition pmap :: "('a \<Rightarrow> 'b) \<Rightarrow> ('s, 'e, 'a) prog \<Rightarrow> ('s, 'e, 'b) prog" where
  "pmap f m = (\<lambda>s. case m s of (Inl e, s') \<Rightarrow> (Inl e, s') | (Inr a, s') \<Rightarrow> (Inr (f a), s'))"

fun sqlite_do :: "store_op \<Rightarrow> (database, exn, store_value) prog" where
  "sqlite_do (OpAccept e i c) = pmap VAccept (accept_pull_request e i c)"
| "sqlite_do (OpTransition i v t c) = pmap VRun (transition_run i v t c)"
| "sqlite_do (OpEvidence i d s c) = pmap VEvidence (save_evidence i d s c)"
| "sqlite_do (OpBegin i s c) = pmap VPublication (begin_publication i s c)"
| "sqlite_do (OpCheck i n c) = pmap VPublication (set_check_run_id i n c)"
| "sqlite_do (OpError i s c) = pmap VPublication (record_publication_error i s c)"
| "sqlite_do (OpFail i code s b u w c) = pmap VFailure (fail_run i code s b u w c)"

fun firestore_do :: "store_op \<Rightarrow> (collections, exn, store_value) prog" where
  "firestore_do (OpAccept e i c) = pmap VAccept (fs_accept_pull_request e i c)"
| "firestore_do (OpTransition i v t c) = pmap VRun (fs_transition_run i v t c)"
| "firestore_do (OpEvidence i d s c) = pmap VEvidence (fs_save_evidence i d s c)"
| "firestore_do (OpBegin i s c) = pmap VPublication (fs_begin_publication i s c)"
| "firestore_do (OpCheck i n c) = pmap VPublication (fs_set_check_run_id i n c)"
| "firestore_do (OpError i s c) = pmap VPublication (fs_record_publication_error i s c)"
| "firestore_do (OpFail i code s b u w c) = pmap VFailure (fs_fail_run i code s b u w c)"

fun run_ops :: "('op \<Rightarrow> ('s, 'e, 'v) prog) \<Rightarrow> 'op list \<Rightarrow> 's \<Rightarrow> ('e + 'v) list \<times> 's" where
  "run_ops exec [] s = ([], s)"
| "run_ops exec (op # ops) s =
     (let (r, s') = exec op s; (rs, s'') = run_ops exec ops s' in (r # rs, s''))"

section \<open>The relation\<close>

definition event_pull_key :: "PullRequestEvent \<Rightarrow> string" where
  "event_pull_key e = pull_key (pe_repository e) (pe_pr_number e)"

definition event_revision_key :: "PullRequestEvent \<Rightarrow> string" where
  "event_revision_key e = revision_key (pe_repository e) (pe_pr_number e) (pe_base_sha e) (pe_head_sha e)"

definition same_event_pull :: "PullRequestEvent \<Rightarrow> PullRequestEvent \<Rightarrow> bool" where
  "same_event_pull e f = (pe_repository e = pe_repository f \<and> pe_pr_number e = pe_pr_number f)"

definition same_event_revision :: "PullRequestEvent \<Rightarrow> PullRequestEvent \<Rightarrow> bool" where
  "same_event_revision e f =
     (same_event_pull e f \<and> pe_base_sha e = pe_base_sha f \<and> pe_head_sha e = pe_head_sha f)"

definition collision_free :: "PullRequestEvent set \<Rightarrow> bool" where
  "collision_free U =
     (\<forall>e \<in> U. \<forall>f \<in> U. (event_pull_key e = event_pull_key f \<longrightarrow> same_event_pull e f)
        \<and> (event_revision_key e = event_revision_key f \<longrightarrow> same_event_revision e f))"

text \<open>The pointers the relation compares, and their part of it.\<close>

definition pointers_ok :: "PullRequestEvent set \<Rightarrow> VerificationRun list \<Rightarrow> collections \<Rightarrow> bool" where
  "pointers_ok U rows fs =
     (\<forall>e \<in> U. map_option fst (fs_current fs (event_pull_key e)) = map_option vr_run_id (current_of e rows)
            \<and> map_option fst (fs_revisions fs (event_revision_key e)) = map_option vr_run_id (known_revision e rows))"

definition related :: "PullRequestEvent set \<Rightarrow> database \<Rightarrow> collections \<Rightarrow> bool" where
  "related U db fs =
     (fs_runs fs = db_runs db \<and> fs_deliveries fs = db_deliveries db \<and> fs_evidence fs = db_evidence db
      \<and> fs_publications fs = db_publications db \<and> fs_failures fs = db_failures db
      \<and> pointers_ok U (db_runs db) fs)"

text \<open>What makes a refreshed run valid: a well-formed event and a clock not before the run.\<close>

definition event_ok :: "PullRequestEvent \<Rightarrow> bool" where
  "event_ok e = (\<exists>i now c s. run_static_ok (event_run e i now c s))"

fun op_ok :: "PullRequestEvent set \<Rightarrow> store_op \<Rightarrow> database \<Rightarrow> bool" where
  "op_ok U (OpAccept e i c) db =
     (e \<in> U \<and> event_ok e \<and> i \<notin> vr_run_id ` set (db_runs db)
      \<and> (\<forall>now r. store_now c = Inr now \<longrightarrow> r \<in> set (db_runs db) \<longrightarrow> vr_created_at r \<le> now))"
| "op_ok U _ db = True"

fun ops_ok :: "PullRequestEvent set \<Rightarrow> store_op list \<Rightarrow> database \<Rightarrow> bool" where
  "ops_ok U [] db = True"
| "ops_ok U (op # ops) db = (op_ok U op db \<and> ops_ok U ops (snd (sqlite_do op db)))"

section \<open>Pointers and rows\<close>

lemma find_map_pres: "(\<And>r. r \<in> set rows \<Longrightarrow> P (f r) = P r) \<Longrightarrow> List.find P (map f rows) = map_option f (List.find P rows)"
  by (induction rows) auto

lemma filter_map_pres: "(\<And>r. r \<in> set rows \<Longrightarrow> P (f r) = P r) \<Longrightarrow> filter P (map f rows) = map f (filter P rows)"
  by (induction rows) auto

lemma known_revision_last:
  "index_ok rows \<Longrightarrow> known_revision e rows =
     (if filter (same_revision e) rows = [] then None else Some (last (filter (same_revision e) rows)))"
  unfolding known_revision_def by (rule newest_revision)

text \<open>Rewriting rows without moving them keeps what the pointers of every event point at.\<close>

definition keeps_place :: "(VerificationRun \<Rightarrow> VerificationRun) \<Rightarrow> VerificationRun list \<Rightarrow> bool" where
  "keeps_place f rows = (\<forall>r \<in> set rows. vr_run_id (f r) = vr_run_id r \<and> vr_repository (f r) = vr_repository r
     \<and> vr_pr_number (f r) = vr_pr_number r \<and> vr_base_sha (f r) = vr_base_sha r
     \<and> vr_head_sha (f r) = vr_head_sha r)"

lemma known_revision_map:
  assumes "keeps_place f rows" "index_ok rows" "index_ok (map f rows)"
  shows "map_option vr_run_id (known_revision e (map f rows)) = map_option vr_run_id (known_revision e rows)"
proof -
  have "same_revision e (f r) = same_revision e r" if "r \<in> set rows" for r
    using assms(1) that by (simp add: keeps_place_def same_revision_def same_pull_def)
  then have fs: "filter (same_revision e) (map f rows) = map f (filter (same_revision e) rows)"
    by (rule filter_map_pres)
  have "vr_run_id (f (last (filter (same_revision e) rows))) = vr_run_id (last (filter (same_revision e) rows))"
    if "filter (same_revision e) rows \<noteq> []"
    using last_in_set [OF that] assms(1) by (simp add: keeps_place_def)
  then show ?thesis
    unfolding known_revision_last [OF assms(2)] known_revision_last [OF assms(3)] fs
    by (simp add: last_map)
qed

lemma current_of_map:
  assumes "keeps_place f rows" "\<And>r. r \<in> set rows \<Longrightarrow> is_current (f r) = is_current r"
  shows "map_option vr_run_id (current_of e (map f rows)) = map_option vr_run_id (current_of e rows)"
proof -
  have "current_of e (map f rows) = map_option f (current_of e rows)"
    unfolding current_of_def using assms
    by (intro find_map_pres) (simp add: keeps_place_def same_pull_def is_current_def)
  then show ?thesis using assms(1) current_of_Some [of e rows]
    by (cases "current_of e rows") (simp_all add: keeps_place_def)
qed

lemma pointers_map:
  assumes "pointers_ok U rows fs" "keeps_place f rows" "index_ok rows" "index_ok (map f rows)"
    "\<And>r. r \<in> set rows \<Longrightarrow> is_current (f r) = is_current r"
    "fs_current fs' = fs_current fs" "fs_revisions fs' = fs_revisions fs"
  shows "pointers_ok U (map f rows) fs'"
  using assms(1) unfolding pointers_ok_def assms(6,7)
  by (simp add: known_revision_map [OF assms(2-4)] current_of_map [OF assms(2,5)])

lemma set_run_document_update:
  assumes "distinct (map vr_run_id rows)" "r \<in> set rows" "vr_run_id (f r) = vr_run_id r"
  shows "set_run_document (f r) rows = update_run (vr_run_id r) f rows"
proof -
  have "row_of rows (vr_run_id r) = Some r" by (rule row_of_mem [OF assms(1,2)])
  moreover have "update_run (vr_run_id r) (\<lambda>_. f r) rows = update_run (vr_run_id r) f rows"
    unfolding update_run_def update_where_def using distinct_id_eq [OF assms(1) _ assms(2)] by auto
  ultimately show ?thesis by (simp add: set_run_document_def assms(3))
qed

lemma pointed_run:
  assumes runs: "fs_runs fs = rows" and dist: "distinct (map vr_run_id rows)"
    and pointer: "map_option fst p = map_option vr_run_id x" and mem: "\<And>r. x = Some r \<Longrightarrow> r \<in> set rows"
  shows "get_pointed_run fs p = opt_row_to_run x"
proof (cases x)
  case (Some r)
  then obtain t where p: "p = Some (vr_run_id r, t)" using pointer by (cases p) auto
  have "row_of (fs_runs fs) (vr_run_id r) = Some r" using row_of_mem [OF dist mem [OF Some]] runs by simp
  then show ?thesis unfolding p Some
    by (simp add: get_pointed_run_def get_run_in_transaction_def opt_row_to_run_def row_to_run_def)
qed (use pointer in \<open>simp add: get_pointed_run_def opt_row_to_run_def\<close>)

section \<open>Accepting\<close>

lemma row_of_update_same:
  "(\<And>r. vr_run_id (f r) = vr_run_id r) \<Longrightarrow> row_of (update_run i f rows) j \<noteq> None \<longleftrightarrow> row_of rows j \<noteq> None"
  unfolding update_run_def by (simp add: row_of_update_where)

lemma event_run_revision:
  "same_revision e (event_run f i now c s) \<longleftrightarrow> same_event_revision e f"
  "same_pull (pe_repository e) (pe_pr_number e) (event_run f i now c s) \<longleftrightarrow> same_event_pull e f"
  by (auto simp: same_revision_def same_event_revision_def same_pull_def same_event_pull_def event_run_def)

lemma event_ok_run: "event_ok e \<Longrightarrow> run_static_ok (event_run e i now c s)"
  by (auto simp: event_ok_def run_static_ok_def event_run_def)

lemma event_run_ok:
  assumes "event_ok e" "s = ts_not_newer e c"
  shows "run_ok (event_run e i now c s)"
  using event_ok_run [OF assms(1)] assms(2)
  by (auto simp: run_ok_iff dimensions_ok_def event_run_def ts_not_newer_def split: option.splits)

lemma refresh_run_ok:
  assumes "run_ok r" "event_ok e" "vr_created_at r \<le> now"
  shows "run_ok (refresh_run e now r)"
proof -
  have "run_static_ok (refresh_run e now r)"
    using event_ok_run [OF assms(2), of 0 0 None False] assms(1)
    unfolding run_ok_iff by (simp add: run_static_ok_def refresh_run_def event_run_def)
  then show ?thesis using assms(1,3) unfolding run_ok_iff dimensions_ok_def by (simp add: refresh_run_def)
qed

lemma refresh_keeps_place:
  "keeps_place (\<lambda>r. if vr_run_id r = i then refresh_run e now r else r) rows"
  "keeps_place (\<lambda>r. if vr_run_id r = i then supersede_run j now r else r) rows"
  by (simp_all add: keeps_place_def refresh_run_def supersede_run_def)

lemma simulate_duplicate:
  assumes rel: "related U db fs" and idx: "index_ok (db_runs db)"
    and known: "known_revision event (db_runs db) = Some run" and ok: "run_ok run"
    and reuse: "reuse_duplicate event (current_of event (db_runs db)) run"
    and ev: "event_ok event" and clock: "vr_created_at run \<le> now"
    and none: "db_deliveries db (pe_delivery_id event) = None"
  shows "rel_sum (=) (rel_prod (=) (related U)) (accept_duplicate event now run db) (fs_accept_duplicate event now run fs)"
proof -
  have mem: "run \<in> set (db_runs db)" and rev: "same_revision event run" using known_revision_mem [OF known] by blast+
  have dist: "distinct (map vr_run_id (db_runs db))" using idx by (simp add: index_ok_def)
  let ?rows = "update_run (vr_run_id run) (refresh_run event now) (db_runs db)"
  have same: "fs_runs fs = db_runs db" "fs_deliveries fs = db_deliveries db" "fs_evidence fs = db_evidence db"
    "fs_publications fs = db_publications db" "fs_failures fs = db_failures db" "pointers_ok U (db_runs db) fs"
    using rel by (simp_all add: related_def)
  show ?thesis
  proof (cases "vr_head_updated_at run < pe_head_updated_at event")
    case True
    have set: "set_run_document (refresh_run event now run) (fs_runs fs) = ?rows"
      unfolding same by (rule set_run_document_update [OF dist mem]) simp
    have row: "row_of ?rows (vr_run_id run) = Some (refresh_run event now run)"
      using row_of_mem [OF dist mem] by (simp add: row_of_update_id)
    then have req: "require_run (db\<lparr>db_runs := ?rows\<rparr>) (vr_run_id run) = Inr (refresh_run event now run)"
      using refresh_run_ok [OF ok ev clock] by (simp add: require_run_def)
    have "pointers_ok U ?rows fs'" if "fs_current fs' = fs_current fs" "fs_revisions fs' = fs_revisions fs" for fs'
      unfolding update_run_def update_where_def
      by (rule pointers_map [OF same(6) refresh_keeps_place(1) idx _ _ that])
        (use index_ok_refresh [OF idx known reuse True] in \<open>auto simp: update_run_def update_where_def\<close>)
    then show ?thesis
      using True set req same none
      by (auto simp: accept_duplicate_def fs_accept_duplicate_def Let_def insert_delivery_def create_document_def
          related_def split: option.splits)
  next
    case False
    have "pointers_ok U (db_runs db) fs'" if "fs_current fs' = fs_current fs" "fs_revisions fs' = fs_revisions fs" for fs'
      using same(6) that by (simp add: pointers_ok_def)
    then show ?thesis
      using False same none
      by (auto simp: accept_duplicate_def fs_accept_duplicate_def Let_def insert_delivery_def create_document_def
          related_def split: option.splits)
  qed
qed

lemma rows_superseded_set:
  assumes "index_ok rows" "current = current_of event rows"
  shows "rows_superseded i now current stale rows =
    (case current of None \<Rightarrow> rows | Some c \<Rightarrow> if stale then rows else set_run_document (supersede_run i now c) rows)"
proof (cases current)
  case (Some c)
  then have c: "c \<in> set rows" using current_of_Some assms(2) by metis
  have "set_run_document (supersede_run i now c) rows = update_run (vr_run_id c) (supersede_run i now) rows"
    by (rule set_run_document_update [OF _ c]) (use assms(1) in \<open>simp_all add: index_ok_def\<close>)
  then show ?thesis by (simp add: rows_superseded_def Some)
qed (simp add: rows_superseded_def)

text \<open>After a new run was stored, the pointers of its event name it and the others are as before.\<close>

lemma pointers_new:
  assumes ptr: "pointers_ok U rows fs" and U: "event \<in> U" "collision_free U"
    and idx: "index_ok rows" and current: "current = current_of event rows" and stale: "stale = ts_not_newer event current"
    and new: "run = event_run event i now current stale" "super = rows_superseded i now current stale rows"
    and idx': "index_ok (super @ [run])"
    and fs': "fs_revisions fs' = (fs_revisions fs)(event_revision_key event \<mapsto> (i, ts))"
      "fs_current fs' = (if stale then fs_current fs else (fs_current fs)(event_pull_key event \<mapsto> (i, ts')))"
  shows "pointers_ok U (super @ [run]) fs'"
  unfolding pointers_ok_def
proof (intro ballI conjI)
  fix e assume e: "e \<in> U"
  have keys: "event_pull_key e = event_pull_key event \<longleftrightarrow> same_event_pull e event"
    "event_revision_key e = event_revision_key event \<longleftrightarrow> same_event_revision e event"
    using U e unfolding collision_free_def
    by (auto simp: same_event_pull_def same_event_revision_def event_pull_key_def event_revision_key_def)
  have old: "map_option fst (fs_current fs (event_pull_key e)) = map_option vr_run_id (current_of e rows)"
    "map_option fst (fs_revisions fs (event_revision_key e)) = map_option vr_run_id (known_revision e rows)"
    using ptr e by (auto simp: pointers_ok_def)
  have id: "vr_run_id run = i" unfolding new by simp
  define f where "f = (\<lambda>r. if current = Some r \<and> \<not> stale then supersede_run i now r else r)"
  have place: "keeps_place f rows" by (simp add: f_def keeps_place_def supersede_run_def)
  have super: "super = map f rows"
  proof (cases current)
    case (Some c)
    have "c \<in> set rows" using current_of_Some current Some by metis
    then have "vr_run_id r = vr_run_id c \<longleftrightarrow> r = c" if "r \<in> set rows" for r
      using distinct_id_eq [OF _ that] idx unfolding index_ok_def by blast
    then show ?thesis unfolding new(2) rows_superseded_def f_def Some update_run_def update_where_def by auto
  qed (simp add: new(2) rows_superseded_def f_def)
  show "map_option fst (fs_revisions fs' (event_revision_key e)) = map_option vr_run_id (known_revision e (super @ [run]))"
  proof (cases "same_event_revision e event")
    case True
    then have "known_revision e (super @ [run]) = Some run"
      unfolding known_revision_last [OF idx'] by (simp add: new(1) event_run_revision)
    then show ?thesis using True keys by (simp add: fs' id)
  next
    case False
    then have no: "\<not> same_revision e run" by (simp add: new(1) event_run_revision)
    have "same_revision e (f r) = same_revision e r" if "r \<in> set rows" for r
      using place that by (simp add: keeps_place_def same_revision_def same_pull_def)
    then have fs: "filter (same_revision e) (super @ [run]) = map f (filter (same_revision e) rows)"
      using no unfolding super by (simp add: filter_map_pres)
    have "vr_run_id (f (last (filter (same_revision e) rows))) = vr_run_id (last (filter (same_revision e) rows))"
      by (simp add: f_def)
    then have "map_option vr_run_id (known_revision e (super @ [run])) = map_option vr_run_id (known_revision e rows)"
      unfolding known_revision_last [OF idx'] known_revision_last [OF idx] fs by (simp add: last_map)
    then show ?thesis using False keys old by (simp add: fs')
  qed
  show "map_option fst (fs_current fs' (event_pull_key e)) = map_option vr_run_id (current_of e (super @ [run]))"
  proof (cases "same_event_pull e event \<and> \<not> stale")
    case True
    then have "current_of e (super @ [run]) = Some run"
      unfolding current_of_iff [OF idx'] by (simp add: new(1) event_run_revision)
    then show ?thesis using True keys by (simp add: fs' id)
  next
    case False
    have no: "\<not> (same_pull (pe_repository e) (pe_pr_number e) run \<and> is_current run)"
      using False by (auto simp: new(1) event_run_revision)
    have "(c \<in> set (super @ [run]) \<and> same_pull (pe_repository e) (pe_pr_number e) c \<and> is_current c)
        \<longleftrightarrow> (c \<in> set rows \<and> same_pull (pe_repository e) (pe_pr_number e) c \<and> is_current c)" for c
    proof
      assume "c \<in> set (super @ [run]) \<and> same_pull (pe_repository e) (pe_pr_number e) c \<and> is_current c"
      then show "c \<in> set rows \<and> same_pull (pe_repository e) (pe_pr_number e) c \<and> is_current c"
        using no unfolding super f_def by (auto split: if_splits)
    next
      assume c: "c \<in> set rows \<and> same_pull (pe_repository e) (pe_pr_number e) c \<and> is_current c"
      have "f c = c"
      proof (cases "current = Some c")
        case True
        then have "same_pull (pe_repository event) (pe_pr_number event) c" using current_of_Some current by metis
        then have "same_event_pull e event" using c by (auto simp: same_pull_def same_event_pull_def)
        then show ?thesis using False by (simp add: f_def)
      qed (simp add: f_def)
      then show "c \<in> set (super @ [run]) \<and> same_pull (pe_repository e) (pe_pr_number e) c \<and> is_current c"
        using c unfolding super by force
    qed
    then have "current_of e (super @ [run]) = Some c \<longleftrightarrow> current_of e rows = Some c" for c
      unfolding current_of_iff [OF idx'] current_of_iff [OF idx] .
    then have "current_of e (super @ [run]) = current_of e rows" by (metis option.exhaust)
    then show ?thesis using False keys old by (auto simp: fs')
  qed
qed

lemma simulate_new:
  assumes rel: "related U db fs" and U: "event \<in> U" "collision_free U" and idx: "index_ok (db_runs db)"
    and fresh_rev: "\<And>run. known_revision event (db_runs db) = Some run \<Longrightarrow>
        \<not> reuse_duplicate event (current_of event (db_runs db)) run"
    and fresh: "i \<notin> vr_run_id ` set (db_runs db)"
    and none: "db_deliveries db (pe_delivery_id event) = None"
  shows "rel_sum (=) (rel_prod (=) (related U)) (accept_new event i now (current_of event (db_runs db)) db)
           (fs_accept_new event i now (current_of event (db_runs db)) fs)"
proof -
  let ?c = "current_of event (db_runs db)" let ?stale = "ts_not_newer event ?c"
  let ?run = "event_run event i now ?c ?stale" let ?super = "rows_superseded i now ?c ?stale (db_runs db)"
  have same: "fs_runs fs = db_runs db" "fs_deliveries fs = db_deliveries db" "fs_evidence fs = db_evidence db"
    "fs_publications fs = db_publications db" "fs_failures fs = db_failures db" "pointers_ok U (db_runs db) fs"
    using rel by (simp_all add: related_def)
  have ids: "vr_run_id ` set ?super = vr_run_id ` set (db_runs db)"
    by (simp add: rows_superseded_def update_run_id_set split: option.split)
  then have create: "create_run_document ?run ?super = Inr (?super @ [?run])"
    using fresh by (simp add: create_run_document_def row_of_None)
  have ins: "insert_run ?run ?super = Inr (?super @ [?run])"
    using new_run_inserts [OF idx fresh, of event now] .
  have idx': "index_ok (?super @ [?run])" by (rule index_ok_new [OF idx fresh_rev refl ins])
  have ptr: "pointers_ok U (?super @ [?run]) fs'"
    if "fs_revisions fs' = (fs_revisions fs)(event_revision_key event \<mapsto> (i, ts))"
      "fs_current fs' = (if ?stale then fs_current fs else (fs_current fs)(event_pull_key event \<mapsto> (i, ts')))" for fs' ts ts'
    by (rule pointers_new [OF same(6) U idx refl refl refl refl idx' that])
  show ?thesis
  proof (cases "mk_VerificationRun ?run")
    case (Inl e)
    then show ?thesis unfolding accept_new_def fs_accept_new_def Let_def by simp
  next
    case (Inr r)
    then have r: "r = ?run" by (simp add: mk_VerificationRun_iff)
    define fs' where "fs' = fs\<lparr>fs_runs := ?super @ [?run], fs_deliveries := (db_deliveries db)(pe_delivery_id event \<mapsto> (i, now)),
         fs_revisions := (fs_revisions fs)(event_revision_key event \<mapsto> (i, pe_head_updated_at event)),
         fs_current := (if ?stale then fs_current fs else (fs_current fs)(event_pull_key event \<mapsto> (i, now)))\<rparr>"
    define res where "res = \<lparr>ar_kind = (if ?stale then STALE_CREATED else CREATED), ar_run = ?run\<rparr>"
    have fire: "fs_accept_new event i now ?c fs = Inr (res, fs')"
      unfolding fs_accept_new_def Let_def same rows_superseded_set [OF idx refl, symmetric] Inr r rbind_simps create
      by (simp add: create_document_def none fs'_def res_def event_revision_key_def event_pull_key_def)
    have lite: "accept_new event i now ?c db = Inr (res, db\<lparr>db_runs := ?super @ [?run],
        db_deliveries := (db_deliveries db)(pe_delivery_id event \<mapsto> (i, now))\<rparr>)"
      unfolding accept_new_def Let_def rows_superseded_def [symmetric] Inr r rbind_simps ins
      by (simp add: insert_delivery_def none res_def)
    have "pointers_ok U (?super @ [?run]) fs'"
      by (rule ptr [of _ "pe_head_updated_at event" now]) (simp_all add: fs'_def)
    then have "related U (db\<lparr>db_runs := ?super @ [?run],
        db_deliveries := (db_deliveries db)(pe_delivery_id event \<mapsto> (i, now))\<rparr>) fs'"
      using same by (simp add: related_def fs'_def)
    then show ?thesis unfolding fire lite by simp
  qed
qed

lemma simulate_accept_body:
  assumes rel: "related U db fs" and U: "event \<in> U" "collision_free U" and idx: "index_ok (db_runs db)" and rec: "records_ok db"
    and ev: "event_ok event" and clock: "\<And>r. r \<in> set (db_runs db) \<Longrightarrow> vr_created_at r \<le> now"
    and fresh: "i \<notin> vr_run_id ` set (db_runs db)"
  shows "rel_sum (=) (rel_prod (=) (related U)) (accept_body event i now db) (fs_accept_body event i now fs)"
proof -
  have same: "fs_runs fs = db_runs db" "fs_deliveries fs = db_deliveries db" "pointers_ok U (db_runs db) fs"
    using rel by (simp_all add: related_def)
  have dist: "distinct (map vr_run_id (db_runs db))" using idx by (simp add: index_ok_def)
  show ?thesis
  proof (cases "Option.bind (db_deliveries db (pe_delivery_id event)) (\<lambda>(rid, _). row_of (db_runs db) rid)")
    case (Some row)
    then obtain rid ts where d: "db_deliveries db (pe_delivery_id event) = Some (rid, ts)" "row_of (db_runs db) rid = Some row"
      by (auto simp: bind_eq_Some_conv)
    have "get_run_in_transaction fs rid = row_to_run row"
      by (simp add: get_run_in_transaction_def same d row_to_run_def)
    then have fire: "fs_accept_body event i now fs = rbind (row_to_run row)
        (\<lambda>run. Inr (\<lparr>ar_kind = DUPLICATE_DELIVERY, ar_run = run\<rparr>, fs))"
      by (simp add: fs_accept_body_def same d(1))
    have lite: "accept_body event i now db = rbind (row_to_run row)
        (\<lambda>run. Inr (\<lparr>ar_kind = DUPLICATE_DELIVERY, ar_run = run\<rparr>, db))"
      unfolding accept_body_def Some by simp
    show ?thesis unfolding fire lite using rel by (cases "row_to_run row") simp_all
  next
    case None
    note none = delivery_row_exists [OF rec None]
    let ?c = "current_of event (db_runs db)" let ?k = "known_revision event (db_runs db)"
    have cur: "get_pointed_run fs (fs_current fs (pull_key (pe_repository event) (pe_pr_number event))) = opt_row_to_run ?c"
      by (rule pointed_run [OF same(1) dist])
        (use same(3) U(1) current_of_Some in \<open>auto simp: pointers_ok_def event_pull_key_def\<close>)
    have rev: "get_pointed_run fs (fs_revisions fs
        (revision_key (pe_repository event) (pe_pr_number event) (pe_base_sha event) (pe_head_sha event))) = opt_row_to_run ?k"
      by (rule pointed_run [OF same(1) dist])
        (use same(3) U(1) known_revision_mem in \<open>auto simp: pointers_ok_def event_revision_key_def\<close>)
    show ?thesis
    proof (cases "opt_row_to_run ?c")
      case (Inl e)
      then show ?thesis
        unfolding accept_body_def fs_accept_body_def None same none cur rev
          current_of_def [symmetric] known_revision_def [symmetric] by simp
    next
      case (Inr c)
      note c = Inr opt_row_to_run_ok [OF Inr]
      show ?thesis
      proof (cases "opt_row_to_run ?k")
        case (Inl e)
        then show ?thesis
          unfolding accept_body_def fs_accept_body_def None same none cur rev c(1)
            current_of_def [symmetric] known_revision_def [symmetric] by simp
      next
        case (Inr k)
        note k = Inr opt_row_to_run_ok [OF Inr]
        have bodies: "accept_body event i now db = (case ?k of
              Some run \<Rightarrow> if reuse_duplicate event ?c run then accept_duplicate event now run db
                          else accept_new event i now ?c db
            | None \<Rightarrow> accept_new event i now ?c db)"
          "fs_accept_body event i now fs = (case ?k of
              Some run \<Rightarrow> if reuse_duplicate event ?c run then fs_accept_duplicate event now run fs
                          else fs_accept_new event i now ?c fs
            | None \<Rightarrow> fs_accept_new event i now ?c fs)"
          using c k unfolding accept_body_def fs_accept_body_def None same none cur rev
            current_of_def [symmetric] known_revision_def [symmetric] by simp_all
        show ?thesis
        proof (cases "\<exists>run. ?k = Some run \<and> reuse_duplicate event ?c run")
          case True
          then obtain run where run: "?k = Some run" "reuse_duplicate event ?c run" by blast
          have ok: "run_ok run" using k run(1) by (auto simp: opt_row_to_run_def guard_simps)
          have "run \<in> set (db_runs db)" using known_revision_mem [OF run(1)] by blast
          from simulate_duplicate [OF rel idx run(1) ok run(2) ev clock [OF this] none] run show ?thesis
            unfolding bodies by simp
        next
          case False
          then have "\<And>run. ?k = Some run \<Longrightarrow> \<not> reuse_duplicate event ?c run" by blast
          from simulate_new [OF rel U idx this fresh none] False show ?thesis
            unfolding bodies by (auto split: option.split)
        qed
      qed
    qed
  qed
qed

section \<open>Valid rows\<close>

definition rows_valid :: "database \<Rightarrow> bool" where
  "rows_valid db = (\<forall>r \<in> set (db_runs db). run_ok r)"

lemma supersede_run_ok: "run_ok r \<Longrightarrow> vr_created_at r \<le> now \<Longrightarrow> run_ok (supersede_run i now r)"
  unfolding run_ok_iff by (auto simp: run_static_ok_def dimensions_ok_def supersede_run_def)

lemma accept_keeps_valid:
  assumes valid: "rows_valid db" and acc: "accept_body event i now db = Inr (res, db')"
    and clock: "\<And>r. r \<in> set (db_runs db) \<Longrightarrow> vr_created_at r \<le> now" and ev: "event_ok event"
  shows "rows_valid db'"
  using acc
proof (cases rule: accept_body_cases)
  case (known run)
  have mem: "run \<in> set (db_runs db)" using known_revision_mem [OF known(1)] by blast
  have "run_ok (refresh_run event now r)" if "r \<in> set (db_runs db)" for r
    using refresh_run_ok [OF _ ev] that valid clock by (simp add: rows_valid_def)
  then show ?thesis using accept_duplicate_ok [OF known(4)] valid
    by (auto simp: rows_valid_def Let_def set_update_run split: if_splits)
next
  case new
  let ?super = "rows_superseded i now (current_of event (db_runs db)) (ts_not_newer event (current_of event (db_runs db))) (db_runs db)"
  have "\<forall>r \<in> set ?super. run_ok r"
    using valid clock supersede_run_ok
    by (auto simp: rows_superseded_def rows_valid_def set_update_run split: option.splits)
  then show ?thesis using accept_new_ok [OF new(3)] by (auto simp: rows_valid_def Let_def)
qed (use valid in simp)

lemma replaced_valid:
  "rows_valid db \<Longrightarrow> run_ok s \<Longrightarrow> rows_valid (db\<lparr>db_runs := update_where p (\<lambda>_. s) (db_runs db)\<rparr>)"
  by (auto simp: rows_valid_def update_where_def)

section \<open>The other operations\<close>

lemma same_lookup: "fs_runs fs = db_runs db \<Longrightarrow> get_run_in_transaction fs i = require_run db i"
  by (simp add: get_run_in_transaction_def require_run_def row_to_run_def split: option.split)

lemma set_run_where:
  assumes "distinct (map vr_run_id rows)" "row_of rows i = Some r" "vr_run_id s = i" "p r"
    "\<And>q. p q \<Longrightarrow> vr_run_id q = i"
  shows "set_run_document s rows = update_where p (\<lambda>_. s) rows"
proof -
  have r: "r \<in> set rows" "vr_run_id r = i" using row_of_Some [OF assms(2)] by blast+
  have "vr_run_id q = i \<longleftrightarrow> p q" if "q \<in> set rows" for q
  proof
    assume "vr_run_id q = i"
    then have "q = r" using distinct_id_eq [OF assms(1) that r(1)] r(2) by simp
    then show "p q" using assms(4) by simp
  qed (rule assms(5))
  then have "update_run i (\<lambda>_. s) rows = update_where p (\<lambda>_. s) rows"
    unfolding update_run_def update_where_def by (intro map_cong) simp_all
  then show ?thesis using assms(2,3) by (simp add: set_run_document_def)
qed

lemma replaced_related:
  assumes rel: "related U db fs" and idx: "index_ok (db_runs db)" and r: "row_of (db_runs db) i = Some r"
    and s: "apply_run_transition r t (Aware now 0) = Inr s" and p: "p r" "\<And>q. p q \<Longrightarrow> vr_run_id q = i"
  shows "related U (db\<lparr>db_runs := update_where p (\<lambda>_. s) (db_runs db)\<rparr>)
            (fs\<lparr>fs_runs := set_run_document s (fs_runs fs)\<rparr>)"
proof -
  have dist: "distinct (map vr_run_id (db_runs db))" using idx by (simp add: index_ok_def)
  have key: "row_key s = row_key r" using apply_row_le [OF s] by blast
  have id: "vr_run_id s = i" using key row_of_Some [OF r] by (simp add: row_key_def)
  have only: "q = r" if "q \<in> set (db_runs db)" "p q" for q
    using row_of_Some [OF r] p(2) [OF that(2)] distinct_id_eq [OF dist that(1)] by blast
  let ?f = "\<lambda>q. if p q then s else q"
  have place: "keeps_place ?f (db_runs db)"
    using only key by (auto simp: keeps_place_def row_key_def)
  have cur: "\<And>q. q \<in> set (db_runs db) \<Longrightarrow> is_current (?f q) = is_current q"
    using only key by (auto simp: row_key_def)
  have idx': "index_ok (map ?f (db_runs db))"
    using transition_rows(2) [OF dist r s p(2) idx] by (simp add: update_where_def)
  have "pointers_ok U (map ?f (db_runs db)) (fs\<lparr>fs_runs := set_run_document s (fs_runs fs)\<rparr>)"
    by (rule pointers_map [OF _ place idx idx' cur]) (use rel in \<open>simp_all add: related_def\<close>)
  then show ?thesis
    using rel set_run_where [where p = p, OF dist r id p] by (simp add: related_def update_where_def)
qed

lemma simulate_txn:
  assumes "rel_sum (=) (rel_prod (=) (related U)) (f db) (g fs)" "related U db fs"
  shows "rel_prod (=) (related U) (ptxn f db) (ptxn g fs)"
  using assms unfolding ptxn_def by (cases "f db"; cases "g fs"; auto)

lemma simulate_now:
  assumes "related U db fs"
    and "\<And>now. r = Inr now \<Longrightarrow> rel_sum (=) (rel_prod (=) (related U)) (f now db) (g now fs)"
  shows "rel_prod (=) (related U) (pbind (plift r) (\<lambda>now. ptxn (f now)) db) (pbind (plift r) (\<lambda>now. ptxn (g now)) fs)"
  using assms simulate_txn [of U "f _" db "g _" fs] by (cases r) (auto simp: pbind_def)

lemma simulate_guard:
  assumes "related U db fs" "b \<Longrightarrow> rel_prod (=) (related U) (m db) (n fs)"
  shows "rel_prod (=) (related U) (pbind (pguard b e) (\<lambda>_. m) db) (pbind (pguard b e) (\<lambda>_. n) fs)"
  using assms by (cases b) auto

lemma simulate_pmap:
  "rel_prod (=) (related U) (m db) (n fs) \<Longrightarrow> rel_prod (=) (related U) (pmap f m db) (pmap f n fs)"
  by (auto simp: pmap_def rel_prod_sel split: sum.splits prod.splits)

lemma simulate_transition:
  assumes rel: "related U db fs" and idx: "index_ok (db_runs db)"
  shows "rel_prod (=) (related U) (transition_run i v t c db) (fs_transition_run i v t c fs)"
  unfolding transition_run_def fs_transition_run_def
proof (rule simulate_now [OF rel])
  fix now
  have runs: "fs_runs fs = db_runs db" using rel by (simp add: related_def)
  have dist: "distinct (map vr_run_id (db_runs db))" using idx by (simp add: index_ok_def)
  show "rel_sum (=) (rel_prod (=) (related U))
     (rbind (require_run db i) (\<lambda>current. rbind (guard (vr_version current = v) (ConcurrentRunUpdateError ''run version''))
       (\<lambda>_. rbind (apply_run_transition current t (Aware now 0)) (\<lambda>updated.
         let target = \<lambda>r. vr_run_id r = i \<and> vr_version r = v in
         rbind (guard (length (filter target (db_runs db)) = 1) (ConcurrentRunUpdateError ''run changed during transition''))
           (\<lambda>_. Inr (updated, db\<lparr>db_runs := update_where target (\<lambda>_. updated) (db_runs db)\<rparr>))))))
     (rbind (get_run_in_transaction fs i) (\<lambda>current. rbind (guard (vr_version current = v) (ConcurrentRunUpdateError ''run version''))
       (\<lambda>_. rbind (apply_run_transition current t (Aware now 0)) (\<lambda>updated.
         Inr (updated, fs\<lparr>fs_runs := set_run_document updated (fs_runs fs)\<rparr>)))))"
  proof (cases "require_run db i")
    case (Inl e)
    then show ?thesis by (simp add: same_lookup [OF runs])
  next
    case (Inr r)
    have row: "row_of (db_runs db) i = Some r" using require_run_ok [OF Inr] by blast
    have one: "length (filter (\<lambda>q. vr_run_id q = i \<and> vr_version q = v) (db_runs db)) = 1" if "vr_version r = v"
    proof -
      have "filter (\<lambda>q. vr_run_id q = i \<and> vr_version q = v) (db_runs db) = filter (\<lambda>q. vr_run_id q = i) (db_runs db)"
        using row_of_Some [OF row] distinct_id_eq [OF dist] that by (intro filter_cong) auto
      moreover have "length (filter (\<lambda>q. vr_run_id q = i) rows) = 1"
        if "distinct (map vr_run_id rows)" "row_of rows i = Some r" for rows
        using that by (induction rows) (auto simp: row_of_def filter_empty_conv image_iff split: if_splits)
      ultimately show ?thesis using dist row by simp
    qed
    show ?thesis
    proof (cases "vr_version r = v")
      case False
      then show ?thesis by (simp add: same_lookup [OF runs] Inr)
    next
      case True
      show ?thesis
      proof (cases "apply_run_transition r t (Aware now 0)")
        case (Inl e)
        then show ?thesis by (simp add: same_lookup [OF runs] \<open>require_run db i = Inr r\<close> True)
      next
        case (Inr s)
        have "related U (db\<lparr>db_runs := update_where (\<lambda>r. vr_run_id r = i \<and> vr_version r = v) (\<lambda>_. s) (db_runs db)\<rparr>)
            (fs\<lparr>fs_runs := set_run_document s (fs_runs fs)\<rparr>)"
          by (rule replaced_related [OF rel idx row Inr]) (use row_of_Some [OF row] True in auto)
        then show ?thesis
          using one [OF True] by (simp add: same_lookup [OF runs] \<open>require_run db i = Inr r\<close> True Inr Let_def)
      qed
    qed
  qed
qed

lemma related_simps:
  assumes "related U db fs"
  shows "fs_runs fs = db_runs db" "fs_deliveries fs = db_deliveries db" "fs_evidence fs = db_evidence db"
    "fs_publications fs = db_publications db" "fs_failures fs = db_failures db"
  using assms by (simp_all add: related_def)

lemma related_evidence:
  "related U db fs \<Longrightarrow> related U (db\<lparr>db_evidence := m\<rparr>) (fs\<lparr>fs_evidence := m\<rparr>)"
  by (simp add: related_def pointers_ok_def)

lemma related_publications:
  "related U db fs \<Longrightarrow> related U (db\<lparr>db_publications := m\<rparr>) (fs\<lparr>fs_publications := m\<rparr>)"
  by (simp add: related_def pointers_ok_def)

lemma simulate_evidence:
  assumes rel: "related U db fs"
  shows "rel_prod (=) (related U) (save_evidence i d s c db) (fs_save_evidence i d s c fs)"
  unfolding save_evidence_def fs_save_evidence_def
proof (rule simulate_guard [OF rel], rule simulate_now [OF rel])
  fix now
  show "rel_sum (=) (rel_prod (=) (related U))
     (rbind (require_run db i) (\<lambda>_. case db_evidence db i of
         None \<Rightarrow> let row = \<lparr>se_run_id = i, se_document_json = d, se_sha256 = s, se_created_at = now\<rparr>
                in Inr (row, db\<lparr>db_evidence := (db_evidence db)(i \<mapsto> row)\<rparr>)
       | Some row \<Rightarrow> if se_sha256 row \<noteq> s \<or> se_document_json row \<noteq> d
           then Inl (StoredEvidenceConflictError ''stored evidence cannot be overwritten'') else Inr (row, db)))
     (rbind (get_run_in_transaction fs i) (\<lambda>_. case fs_evidence fs i of
         None \<Rightarrow> let stored = \<lparr>se_run_id = i, se_document_json = d, se_sha256 = s, se_created_at = now\<rparr>
                in Inr (stored, fs\<lparr>fs_evidence := (fs_evidence fs)(i \<mapsto> stored)\<rparr>)
       | Some stored \<Rightarrow> if se_sha256 stored \<noteq> s \<or> se_document_json stored \<noteq> d
           then Inl (StoredEvidenceConflictError ''stored evidence cannot be overwritten'') else Inr (stored, fs)))"
    using rel related_evidence [OF rel]
    by (cases "require_run db i"; cases "db_evidence db i")
      (simp_all add: same_lookup [OF related_simps(1) [OF rel]] related_simps(3) [OF rel] Let_def)
qed

lemma simulate_begin:
  assumes rel: "related U db fs" and rec: "records_ok db"
  shows "rel_prod (=) (related U) (begin_publication i s c db) (fs_begin_publication i s c fs)"
  unfolding begin_publication_def fs_begin_publication_def
proof (rule simulate_guard [OF rel], rule simulate_now [OF rel])
  fix now
  have upd: "p\<lparr>cp_attempt_count := cp_attempt_count p + 1, cp_last_error := None, cp_updated_at := now\<rparr> =
      \<lparr>cp_run_id = i, cp_payload_sha256 = cp_payload_sha256 p, cp_check_run_id = cp_check_run_id p,
       cp_attempt_count = cp_attempt_count p + 1, cp_last_error = None, cp_updated_at = now\<rparr>"
    if "db_publications db i = Some p" for p
    using publication_row(2) [OF rec that] by (cases p) simp
  have "related U (snd (put_publication i p db)) (snd (fs_put_publication i p fs))" for p
    using related_publications [OF rel] by (simp add: put_publication_def fs_put_publication_def related_simps [OF rel])
  then show "rel_sum (=) (rel_prod (=) (related U))
     (rbind (require_run db i) (\<lambda>_. case db_publications db i of
         None \<Rightarrow> Inr (put_publication i \<lparr>cp_run_id = i, cp_payload_sha256 = s, cp_check_run_id = None,
              cp_attempt_count = 1, cp_last_error = None, cp_updated_at = now\<rparr> db)
       | Some row \<Rightarrow> if cp_payload_sha256 row \<noteq> s
           then Inl (StoredEvidenceConflictError ''publication payload cannot be replaced'')
           else Inr (put_publication i
             (row\<lparr>cp_attempt_count := cp_attempt_count row + 1, cp_last_error := None, cp_updated_at := now\<rparr>) db)))
     (rbind (get_run_in_transaction fs i) (\<lambda>_. case fs_publications fs i of
         Some current \<Rightarrow> if cp_payload_sha256 current \<noteq> s
           then Inl (StoredEvidenceConflictError ''publication payload cannot be replaced'')
           else Inr (fs_put_publication i \<lparr>cp_run_id = i, cp_payload_sha256 = s, cp_check_run_id = cp_check_run_id current,
              cp_attempt_count = cp_attempt_count current + 1, cp_last_error = None, cp_updated_at = now\<rparr> fs)
       | None \<Rightarrow> Inr (fs_put_publication i \<lparr>cp_run_id = i, cp_payload_sha256 = s, cp_check_run_id = None,
              cp_attempt_count = 1, cp_last_error = None, cp_updated_at = now\<rparr> fs)))"
    using upd
    by (cases "require_run db i"; cases "db_publications db i")
      (auto simp: same_lookup [OF related_simps(1) [OF rel]] related_simps(4) [OF rel] put_publication_def
        fs_put_publication_def)
qed

lemma related_put:
  "related U db fs \<Longrightarrow> rel_prod (=) (related U) (put_publication i p db) (fs_put_publication i p fs)"
  using related_publications by (simp add: put_publication_def fs_put_publication_def related_simps)

lemma simulate_check:
  assumes rel: "related U db fs" and rec: "records_ok db"
  shows "rel_prod (=) (related U) (set_check_run_id i n c db) (fs_set_check_run_id i n c fs)"
  unfolding set_check_run_id_def fs_set_check_run_id_def update_publication_def
proof (rule simulate_guard [OF rel], rule simulate_now [OF rel])
  fix now
  have upd: "p\<lparr>cp_check_run_id := Some n, cp_updated_at := now\<rparr> =
      \<lparr>cp_run_id = i, cp_payload_sha256 = cp_payload_sha256 p, cp_check_run_id = Some n,
       cp_attempt_count = cp_attempt_count p, cp_last_error = cp_last_error p, cp_updated_at = now\<rparr>"
    if "db_publications db i = Some p" for p
    using publication_row(2) [OF rec that] by (cases p) simp
  show "rel_sum (=) (rel_prod (=) (related U))
     (case db_publications db i of None \<Rightarrow> Inl (RunNotFoundError ''publication attempt has not started'')
       | Some row \<Rightarrow> if cp_check_run_id row \<noteq> None \<and> cp_check_run_id row \<noteq> Some n
           then Inl (StoredEvidenceConflictError ''GitHub Check identity cannot be replaced'')
           else Inr (put_publication i (row\<lparr>cp_check_run_id := Some n, cp_updated_at := now\<rparr>) db))
     (case fs_publications fs i of None \<Rightarrow> Inl (RunNotFoundError ''publication attempt has not started'')
       | Some current \<Rightarrow> if Some n \<noteq> None \<and> cp_check_run_id current \<noteq> None \<and> cp_check_run_id current \<noteq> Some n
           then Inl (StoredEvidenceConflictError ''GitHub Check identity cannot be replaced'')
           else Inr (fs_put_publication i
             \<lparr>cp_run_id = i, cp_payload_sha256 = cp_payload_sha256 current,
              cp_check_run_id = or_else (Some n) (cp_check_run_id current),
              cp_attempt_count = cp_attempt_count current,
              cp_last_error = or_else None (cp_last_error current), cp_updated_at = now\<rparr> fs))"
    using upd related_put [OF rel]
    by (cases "db_publications db i") (auto simp: related_simps(4) [OF rel])
qed

lemma simulate_error:
  assumes rel: "related U db fs" and rec: "records_ok db"
  shows "rel_prod (=) (related U) (record_publication_error i e c db) (fs_record_publication_error i e c fs)"
  unfolding record_publication_error_def fs_record_publication_error_def update_publication_def
proof (rule simulate_now [OF rel])
  fix now
  have upd: "p\<lparr>cp_last_error := Some (bounded_error e), cp_updated_at := now\<rparr> =
      \<lparr>cp_run_id = i, cp_payload_sha256 = cp_payload_sha256 p, cp_check_run_id = cp_check_run_id p,
       cp_attempt_count = cp_attempt_count p, cp_last_error = Some (bounded_error e), cp_updated_at = now\<rparr>"
    if "db_publications db i = Some p" for p
    using publication_row(2) [OF rec that] by (cases p) simp
  show "rel_sum (=) (rel_prod (=) (related U))
     (case db_publications db i of None \<Rightarrow> Inl (RunNotFoundError ''publication attempt has not started'')
       | Some row \<Rightarrow> Inr (put_publication i (row\<lparr>cp_last_error := Some (bounded_error e), cp_updated_at := now\<rparr>) db))
     (case fs_publications fs i of None \<Rightarrow> Inl (RunNotFoundError ''publication attempt has not started'')
       | Some current \<Rightarrow> if None \<noteq> None \<and> cp_check_run_id current \<noteq> None \<and> cp_check_run_id current \<noteq> None
           then Inl (StoredEvidenceConflictError ''GitHub Check identity cannot be replaced'')
           else Inr (fs_put_publication i
             \<lparr>cp_run_id = i, cp_payload_sha256 = cp_payload_sha256 current,
              cp_check_run_id = or_else None (cp_check_run_id current),
              cp_attempt_count = cp_attempt_count current,
              cp_last_error = or_else (Some (bounded_error e)) (cp_last_error current), cp_updated_at = now\<rparr> fs))"
    using upd related_put [OF rel]
    by (cases "db_publications db i") (auto simp: related_simps(4) [OF rel])
qed

lemma simulate_fail:
  assumes rel: "related U db fs" and idx: "index_ok (db_runs db)" and rec: "records_ok db" and valid: "rows_valid db"
  shows "rel_prod (=) (related U) (fail_run i code s b u w c db) (fs_fail_run i code s b u w c fs)"
proof (cases "failure_summary code s w")
  case (Inr summary)
  have runs: "fs_runs fs = db_runs db" using rel by (simp add: related_def)
  have body: "rel_sum (=) (rel_prod (=) (related U)) (fail_body i code summary b u w now db) (fs_fail_body i code summary b u w now fs)" for now
  proof (cases "db_failures db i")
    case (Some prior)
    then obtain r where "row_of (db_runs db) i = Some r" using rec unfolding records_ok_def by blast
    moreover from this have "run_ok r" using valid row_of_Some unfolding rows_valid_def by blast
    ultimately have "require_run db i = Inr r" by (simp add: require_run_def)
    then show ?thesis using rel Some by (simp add: fail_body_def fs_fail_body_def related_simps(5) [OF rel])
  next
    case None
    show ?thesis
    proof (cases "require_run db i")
      case (Inl e)
      then show ?thesis using None by (simp add: fail_body_def fs_fail_body_def related_simps(5) [OF rel] same_lookup [OF runs])
    next
      case (Inr r)
      have row: "row_of (db_runs db) i = Some r" using require_run_ok [OF Inr] by blast
      show ?thesis
      proof (cases "apply_run_transition r failed_transition (Aware now 0)")
        case (Inl e)
        then show ?thesis using None \<open>require_run db i = Inr r\<close>
          by (simp add: fail_body_def fs_fail_body_def related_simps(5) [OF rel] same_lookup [OF runs])
      next
        case (Inr t)
        have "related U (db\<lparr>db_runs := update_run i (\<lambda>_. t) (db_runs db)\<rparr>) (fs\<lparr>fs_runs := set_run_document t (fs_runs fs)\<rparr>)"
          unfolding update_run_def by (rule replaced_related [OF rel idx row Inr]) (use row_of_Some [OF row] in auto)
        then have "related U (db\<lparr>db_runs := update_run i (\<lambda>_. t) (db_runs db), db_failures := m\<rparr>)
            (fs\<lparr>fs_runs := set_run_document t (fs_runs fs), fs_failures := m\<rparr>)" for m
          by (simp add: related_def pointers_ok_def)
        then show ?thesis using None \<open>require_run db i = Inr r\<close> Inr
          by (simp add: fail_body_def fs_fail_body_def related_simps(5) [OF rel] same_lookup [OF runs] Let_def)
      qed
    qed
  qed
  show ?thesis
    unfolding fail_run_def fs_fail_run_def Inr pbind_plift
    using simulate_now [OF rel, of "store_now c" "fail_body i code summary b u w" "fs_fail_body i code summary b u w"] body
    by simp
qed (use rel in \<open>simp add: fail_run_def fs_fail_run_def pbind_def\<close>)

section \<open>Whole histories\<close>

definition store_ok :: "database \<Rightarrow> bool" where
  "store_ok db = (index_ok (db_runs db) \<and> records_ok db \<and> rows_valid db)"

lemma sqlite_do_step: "sqlite_do op db = (r, db') \<Longrightarrow> sqlite_step db db'"
proof (cases op)
  case (OpAccept e i c)
  moreover assume "sqlite_do op db = (r, db')"
  ultimately show ?thesis
    by (cases "accept_pull_request e i c db") (auto simp: pmap_def intro: step_accept split: sum.splits)
next
  case (OpTransition i v t c)
  moreover assume "sqlite_do op db = (r, db')"
  ultimately show ?thesis
    by (cases "transition_run i v t c db") (auto simp: pmap_def intro: step_transition split: sum.splits)
next
  case (OpEvidence i d s c)
  moreover assume "sqlite_do op db = (r, db')"
  ultimately show ?thesis
    by (cases "save_evidence i d s c db") (auto simp: pmap_def intro: step_evidence split: sum.splits)
next
  case (OpBegin i s c)
  moreover assume "sqlite_do op db = (r, db')"
  ultimately show ?thesis
    by (cases "begin_publication i s c db") (auto simp: pmap_def intro: step_begin split: sum.splits)
next
  case (OpCheck i n c)
  moreover assume "sqlite_do op db = (r, db')"
  ultimately show ?thesis
    by (cases "set_check_run_id i n c db") (auto simp: pmap_def intro: step_check split: sum.splits)
next
  case (OpError i e c)
  moreover assume "sqlite_do op db = (r, db')"
  ultimately show ?thesis
    by (cases "record_publication_error i e c db") (auto simp: pmap_def intro: step_error split: sum.splits)
next
  case (OpFail i code s b u w c)
  moreover assume "sqlite_do op db = (r, db')"
  ultimately show ?thesis
    by (cases "fail_run i code s b u w c db") (auto simp: pmap_def intro: step_fail split: sum.splits)
qed

lemma same_rows_valid: "rows_valid db \<Longrightarrow> db_runs db' = db_runs db \<Longrightarrow> rows_valid db'"
  by (simp add: rows_valid_def)

lemma do_keeps_valid:
  assumes valid: "rows_valid db" and op: "op_ok U op db" and exec: "sqlite_do op db = (r, db')"
  shows "rows_valid db'"
proof -
  have cases: "rows_valid (snd (sqlite_do op db))"
  proof (cases op)
    case (OpAccept e i c)
    show ?thesis
    proof (cases "store_now c")
      case (Inr now)
      have ev: "event_ok e" and clock: "\<And>r. r \<in> set (db_runs db) \<Longrightarrow> vr_created_at r \<le> now"
        using op Inr unfolding OpAccept by auto
      show ?thesis using valid accept_keeps_valid [OF valid _ clock ev]
        by (cases "accept_body e i now db")
          (auto simp: OpAccept Inr pmap_def accept_pull_request_def ptxn_def split: prod.splits)
    qed (use valid in \<open>simp add: OpAccept pmap_def accept_pull_request_def\<close>)
  next
    case (OpTransition i v t c)
    have "rows_valid db'" if "transition_run i v t c db = (x, db')" for x db'
      using that valid unfolding transition_run_def
      by (auto dest!: txn_snd simp: guard_simps Let_def intro!: replaced_valid dest: apply_row_le)
    then show ?thesis unfolding OpTransition
      by (cases "transition_run i v t c db") (auto simp: pmap_def split: sum.splits)
  next
    case (OpFail i code s b u w c)
    have replaced: "rows_valid (db\<lparr>db_runs := update_run i (\<lambda>_. s) (db_runs db), db_failures := m\<rparr>)"
      if "apply_run_transition r t (Aware now 0) = Inr s" for r t now s m
      using replaced_valid [OF valid, of s "\<lambda>r. vr_run_id r = i"] apply_row_le [OF that]
      by (simp add: rows_valid_def update_run_def)
    have "rows_valid db'" if "fail_run i code s b u w c db = (x, db')" for x db'
      using that valid replaced
      by (auto simp: fail_run_def pbind_def ptxn_def split: sum.splits prod.splits dest!: fail_body_ok)
    then show ?thesis unfolding OpFail
      by (cases "fail_run i code s b u w c db") (auto simp: pmap_def split: sum.splits)
  qed (auto intro!: same_rows_valid [OF valid] simp: pmap_def save_evidence_def begin_publication_def
      set_check_run_id_def record_publication_error_def put_publication_def pbind_def ptxn_def pguard_def Let_def
      rbind_def split: sum.splits prod.splits option.splits)
  then show ?thesis using exec by simp
qed

lemma do_keeps_ok:
  assumes "store_ok db" "op_ok U op db" "sqlite_do op db = (r, db')"
  shows "store_ok db'"
  using assms step_le step_records_ok sqlite_do_step do_keeps_valid unfolding store_ok_def by blast

text \<open>One operation on both stores.\<close>

lemma simulate_op:
  assumes rel: "related U db fs" and ok: "store_ok db" and op: "op_ok U op db" and U: "collision_free U"
  shows "rel_prod (=) (related U) (sqlite_do op db) (firestore_do op fs)"
proof (cases op)
  case (OpAccept e i c)
  have "rel_prod (=) (related U) (accept_pull_request e i c db) (fs_accept_pull_request e i c fs)"
    unfolding accept_pull_request_def fs_accept_pull_request_def
  proof (rule simulate_now [OF rel])
    fix now assume "store_now c = Inr now"
    then show "rel_sum (=) (rel_prod (=) (related U)) (accept_body e i now db) (fs_accept_body e i now fs)"
      using op ok U unfolding OpAccept store_ok_def by (intro simulate_accept_body [OF rel]) auto
  qed
  then show ?thesis unfolding OpAccept by (simp add: simulate_pmap)
qed (use ok in \<open>auto simp: store_ok_def intro!: simulate_pmap simulate_transition [OF rel] simulate_evidence [OF rel]
      simulate_begin [OF rel] simulate_check [OF rel] simulate_error [OF rel] simulate_fail [OF rel]\<close>)

lemma simulate_ops:
  assumes "collision_free U"
  shows "related U db fs \<Longrightarrow> store_ok db \<Longrightarrow> ops_ok U ops db \<Longrightarrow>
     rel_prod (=) (related U) (run_ops sqlite_do ops db) (run_ops firestore_do ops fs)"
proof (induction ops arbitrary: db fs)
  case (Cons op ops)
  have one: "rel_prod (=) (related U) (sqlite_do op db) (firestore_do op fs)"
    using simulate_op [OF Cons.prems(1,2) _ assms, of op] Cons.prems(3) by simp
  obtain r db' where lite: "sqlite_do op db = (r, db')" by fastforce
  from one obtain fs' where fire: "firestore_do op fs = (r, fs')" and rel: "related U db' fs'"
    unfolding lite by (cases "firestore_do op fs") auto
  have "op_ok U op db" using Cons.prems(3) by simp
  then have "store_ok db'" using do_keeps_ok [OF Cons.prems(2) _ lite] by blast
  from Cons.IH [OF rel this] Cons.prems(3) lite
  have "rel_prod (=) (related U) (run_ops sqlite_do ops db') (run_ops firestore_do ops fs')" by simp
  then show ?case by (auto simp: lite fire rel_prod_sel Let_def split: prod.splits)
qed simp

text \<open>
  C14: Started empty, the Firestore store returns exactly what the SQLite store returns, result by
  result, for every sequence of operations whose accepted events are well formed, arrive under new
  run identities and at a clock not before the stored runs, when the SHA-256 keys of the events in
  use do not collide; and it then holds the same runs and records.
\<close>

theorem firestore_refines_sqlite:
  assumes "collision_free U" and "ops_ok U ops empty_database"
  shows "fst (run_ops firestore_do ops empty_collections) = fst (run_ops sqlite_do ops empty_database)
    \<and> related U (snd (run_ops sqlite_do ops empty_database)) (snd (run_ops firestore_do ops empty_collections))"
proof -
  have "related U empty_database empty_collections"
    by (simp add: related_def pointers_ok_def empty_database_def empty_collections_def current_of_def known_revision_def)
  moreover have "store_ok empty_database" by (simp add: store_ok_def rows_valid_def empty_database_def records_ok_def)
  ultimately have "rel_prod (=) (related U) (run_ops sqlite_do ops empty_database) (run_ops firestore_do ops empty_collections)"
    by (rule simulate_ops [OF assms(1) _ _ assms(2)])
  then show ?thesis by (simp add: rel_prod_sel)
qed

lemma sample_event_ok: "event_ok sample_event"
proof -
  have "event_run sample_event 7 0 None False = sample_run"
    by (simp add: event_run_def sample_event_def sample_run_def)
  then show ?thesis using sample_run_ok unfolding event_ok_def run_ok_iff by metis
qed

theorem firestore_refines_sqlite_witness:
  "fst (run_ops firestore_do [OpAccept sample_event 7 (Aware 0 0), OpBegin 7 ''x'' (Naive 0)] empty_collections)
     = fst (run_ops sqlite_do [OpAccept sample_event 7 (Aware 0 0), OpBegin 7 ''x'' (Naive 0)] empty_database)
   \<and> related {sample_event}
       (snd (run_ops sqlite_do [OpAccept sample_event 7 (Aware 0 0), OpBegin 7 ''x'' (Naive 0)] empty_database))
       (snd (run_ops firestore_do [OpAccept sample_event 7 (Aware 0 0), OpBegin 7 ''x'' (Naive 0)] empty_collections))"
  by (rule firestore_refines_sqlite)
    (simp_all add: collision_free_def same_event_pull_def same_event_revision_def sample_event_ok empty_database_def)

lemma opt_row_valid:
  "rows_valid db \<Longrightarrow> (\<And>r. x = Some r \<Longrightarrow> r \<in> set (db_runs db)) \<Longrightarrow> opt_row_to_run x = Inr x"
  by (cases x) (simp_all add: opt_row_to_run_def rows_valid_def)

lemma accept_body_returns:
  assumes ok: "store_ok db" and ev: "event_ok event" and fresh: "i \<notin> vr_run_id ` set (db_runs db)"
    and clock: "\<And>r. r \<in> set (db_runs db) \<Longrightarrow> vr_created_at r \<le> now"
  shows "\<exists>p. accept_body event i now db = Inr p"
proof -
  have idx: "index_ok (db_runs db)" and rec: "records_ok db" and valid: "rows_valid db"
    using ok by (simp_all add: store_ok_def)
  let ?c = "current_of event (db_runs db)" let ?k = "known_revision event (db_runs db)"
  show ?thesis
  proof (cases "Option.bind (db_deliveries db (pe_delivery_id event)) (\<lambda>(rid, _). row_of (db_runs db) rid)")
    case (Some row)
    then have "row \<in> set (db_runs db)" using row_of_Some by (auto simp: bind_eq_Some_conv)
    then have "run_ok row" using valid by (simp add: rows_valid_def)
    then show ?thesis unfolding accept_body_def Some by simp
  next
    case None
    note none = delivery_row_exists [OF rec None]
    have new: "\<exists>p. accept_new event i now ?c db = Inr p"
    proof -
      have "mk_VerificationRun (event_run event i now ?c (ts_not_newer event ?c))
          = Inr (event_run event i now ?c (ts_not_newer event ?c))"
        using event_run_ok [OF ev refl] by (simp add: run_ok_def)
      then show ?thesis
        using new_run_inserts [OF idx fresh, of event now] none
        unfolding accept_new_def Let_def rows_superseded_def [symmetric] by (simp add: insert_delivery_def)
    qed
    have dup: "\<exists>p. accept_duplicate event now run db = Inr p" if "?k = Some run" for run
    proof -
      have mem: "run \<in> set (db_runs db)" using known_revision_mem [OF that] by blast
      then have "run_ok (refresh_run event now run)"
        using refresh_run_ok [OF _ ev clock [OF mem]] valid by (simp add: rows_valid_def)
      moreover have "row_of (db_runs db) (vr_run_id run) = Some run"
        using row_of_mem [OF _ mem] idx by (simp add: index_ok_def)
      ultimately show ?thesis
        using none by (simp add: accept_duplicate_def Let_def require_run_def row_of_update_id insert_delivery_def)
    qed
    have "opt_row_to_run ?c = Inr ?c" "opt_row_to_run ?k = Inr ?k"
      using current_of_Some known_revision_mem by (blast intro: opt_row_valid [OF valid])+
    then show ?thesis
      using new dup unfolding accept_body_def None current_of_def [symmetric] known_revision_def [symmetric]
      by (auto split: option.split)
  qed
qed

lemma run_ops_ok:
  "store_ok db \<Longrightarrow> ops_ok U ops db \<Longrightarrow> store_ok (snd (run_ops sqlite_do ops db))"
proof (induction ops arbitrary: db)
  case (Cons op ops)
  obtain r db' where lite: "sqlite_do op db = (r, db')" by fastforce
  have "op_ok U op db" using Cons.prems(2) by simp
  then have "store_ok db'" using do_keeps_ok [OF Cons.prems(1) _ lite] by blast
  from Cons.IH [OF this] Cons.prems(2) lite show ?case by (auto simp: Let_def split: prod.splits)
qed simp

text \<open>
  C34: After any history of such operations, an accepted event that is well formed, arrives under
  a new run identity and at a clock not before the stored runs always resolves to a run: acceptance
  raises nothing.
\<close>

theorem sqlite_accept_returns:
  assumes "ops_ok U ops empty_database"
    and "op_ok U (OpAccept event i (Aware now off)) (snd (run_ops sqlite_do ops empty_database))"
  shows "\<exists>res db'. accept_pull_request event i (Aware now off) (snd (run_ops sqlite_do ops empty_database)) = (Inr res, db')"
proof -
  have "store_ok empty_database" by (simp add: store_ok_def rows_valid_def empty_database_def records_ok_def)
  from run_ops_ok [OF this assms(1)] have ok: "store_ok (snd (run_ops sqlite_do ops empty_database))" .
  have "event_ok event" "i \<notin> vr_run_id ` set (db_runs (snd (run_ops sqlite_do ops empty_database)))"
    "\<And>r. r \<in> set (db_runs (snd (run_ops sqlite_do ops empty_database))) \<Longrightarrow> vr_created_at r \<le> now - off"
    using assms(2) by (auto simp: store_now_def)
  from accept_body_returns [OF ok this] show ?thesis
    by (auto simp: accept_pull_request_def store_now_def ptxn_def)
qed

theorem sqlite_accept_returns_witness:
  "\<exists>res db'. accept_pull_request (sample_event\<lparr>pe_delivery_id := ''e''\<rparr>) 8 (Aware 5 0)
     (snd (run_ops sqlite_do [OpAccept sample_event 7 (Aware 0 0)] empty_database)) = (Inr res, db')"
proof (rule sqlite_accept_returns [of UNIV])
  show "ops_ok UNIV [OpAccept sample_event 7 (Aware 0 0)] empty_database"
    by (simp add: sample_event_ok empty_database_def)
  have "snd (run_ops sqlite_do [OpAccept sample_event 7 (Aware 0 0)] empty_database) = sample_db"
    by (simp add: sample_accept pmap_def)
  moreover have "event_ok (sample_event\<lparr>pe_delivery_id := ''e''\<rparr>)"
    using sample_event_ok by (auto simp: event_ok_def run_static_ok_def event_run_def)
  ultimately show "op_ok UNIV (OpAccept (sample_event\<lparr>pe_delivery_id := ''e''\<rparr>) 8 (Aware 5 0))
      (snd (run_ops sqlite_do [OpAccept sample_event 7 (Aware 0 0)] empty_database))"
    by (simp add: sample_db_def sample_run_def store_now_def)
qed

section \<open>Where the stores differ\<close>

definition late_event :: PullRequestEvent where
  "late_event = sample_event\<lparr>pe_delivery_id := ''e'', pe_head_updated_at := 5\<rparr>"

definition sample_collections :: collections where
  "sample_collections = empty_collections\<lparr>fs_runs := [sample_run], fs_deliveries := [''d'' \<mapsto> (7, 0)],
     fs_revisions := [event_revision_key sample_event \<mapsto> (7, 0)], fs_current := [event_pull_key sample_event \<mapsto> (7, 0)]\<rparr>"

lemma fs_sample_accept:
  "fs_accept_pull_request sample_event 7 (Aware 0 0) empty_collections
     = (Inr \<lparr>ar_kind = CREATED, ar_run = sample_run\<rparr>, sample_collections)"
proof -
  have run: "event_run sample_event 7 0 None False = sample_run"
    by (simp add: event_run_def sample_event_def sample_run_def)
  have mk: "mk_VerificationRun sample_run = Inr sample_run" using sample_run_ok by (simp add: run_ok_def)
  have "pe_delivery_id sample_event = ''d''" "pe_head_updated_at sample_event = 0" by (simp_all add: sample_event_def)
  then have "fs_accept_body sample_event 7 0 empty_collections
      = Inr (\<lparr>ar_kind = CREATED, ar_run = sample_run\<rparr>, sample_collections)"
    unfolding fs_accept_body_def fs_accept_new_def
    by (simp add: empty_collections_def get_pointed_run_def ts_not_newer_def run mk create_run_document_def row_of_def
        create_document_def sample_collections_def Let_def event_revision_key_def event_pull_key_def)
  then show ?thesis by (simp add: fs_accept_pull_request_def store_now_def ptxn_def)
qed

lemma late_not_ok: "\<not> run_ok (refresh_run late_event (-1) sample_run)"
  by (simp add: run_ok_iff dimensions_ok_def refresh_run_def sample_run_def)

lemma late_facts:
  "pe_delivery_id late_event = ''e''" "pe_repository late_event = pe_repository sample_event"
  "pe_pr_number late_event = pe_pr_number sample_event" "pe_base_sha late_event = pe_base_sha sample_event"
  "pe_head_sha late_event = pe_head_sha sample_event" "same_revision late_event sample_run"
  "vr_head_updated_at sample_run < pe_head_updated_at late_event" "vr_run_id sample_run = 7"
  "same_pull (pe_repository sample_event) (pe_pr_number sample_event) sample_run"
  "vr_revision_state sample_run = RevisionState.CURRENT"
  by (simp_all add: late_event_def sample_event_def sample_run_def same_revision_def same_pull_def)

lemma sqlite_late: "\<exists>m. accept_pull_request late_event 8 (Aware (-1) 0) sample_db = (Inl (ValidationError m), sample_db)"
proof -
  have "\<exists>m. row_to_run (refresh_run late_event (-1) sample_run) = Inl (ValidationError m)"
    using late_not_ok row_to_run_error by (metis row_to_run_iff sum.exhaust)
  then obtain m where bad: "row_to_run (refresh_run late_event (-1) sample_run) = Inl (ValidationError m)" ..
  have "row_of [refresh_run late_event (-1) sample_run] 7 = Some (refresh_run late_event (-1) sample_run)"
    by (simp add: row_of_def late_facts)
  then have "accept_body late_event 8 (-1) sample_db = Inl (ValidationError m)"
    using bad sample_run_ok
    by (simp add: accept_body_def accept_duplicate_def Let_def sample_db_def empty_database_def late_facts
        opt_row_to_run_def reuse_duplicate_def require_run_def update_run_def update_where_def)
  then show ?thesis by (simp add: accept_pull_request_def store_now_def ptxn_def)
qed

lemma fs_late: "\<exists>fs. fs_accept_pull_request late_event 8 (Aware (-1) 0) sample_collections
    = (Inr \<lparr>ar_kind = DUPLICATE_REVISION, ar_run = refresh_run late_event (-1) sample_run\<rparr>, fs)"
proof -
  have look: "get_run_in_transaction sample_collections 7 = Inr sample_run"
    using sample_run_ok
    by (simp add: get_run_in_transaction_def sample_collections_def row_of_def late_facts run_ok_def)
  have ptrs: "fs_current sample_collections (pull_key (pe_repository sample_event) (pe_pr_number sample_event)) = Some (7, 0)"
    "fs_revisions sample_collections (revision_key (pe_repository sample_event) (pe_pr_number sample_event)
       (pe_base_sha sample_event) (pe_head_sha sample_event)) = Some (7, 0)"
    "fs_deliveries sample_collections ''e'' = None"
    by (simp_all add: sample_collections_def event_revision_key_def event_pull_key_def)
  show ?thesis
    by (simp add: fs_accept_pull_request_def store_now_def ptxn_def fs_accept_body_def fs_accept_duplicate_def
        get_pointed_run_def look ptrs late_facts reuse_duplicate_def create_document_def Let_def)
qed

text \<open>
  The stores do not have the same semantics when the clock moves back: refreshing a known
  revision at a clock before the run was created, SQLite raises ValidationError and rolls back,
  while Firestore stores and returns a run that does not validate.
\<close>

theorem stores_differ_on_clock_regression:
  "(\<exists>m db. run_ops sqlite_do [OpAccept sample_event 7 (Aware 0 0), OpAccept late_event 8 (Aware (-1) 0)] empty_database
       = ([Inr (VAccept \<lparr>ar_kind = CREATED, ar_run = sample_run\<rparr>), Inl (ValidationError m)], db))
   \<and> (\<exists>res fs. run_ops firestore_do [OpAccept sample_event 7 (Aware 0 0), OpAccept late_event 8 (Aware (-1) 0)] empty_collections
       = ([Inr (VAccept \<lparr>ar_kind = CREATED, ar_run = sample_run\<rparr>), Inr (VAccept res)], fs)
       \<and> run_ok (ar_run res) = False)"
proof -
  obtain m where "accept_pull_request late_event 8 (Aware (-1) 0) sample_db = (Inl (ValidationError m), sample_db)"
    using sqlite_late by blast
  moreover obtain fs where "fs_accept_pull_request late_event 8 (Aware (-1) 0) sample_collections
    = (Inr \<lparr>ar_kind = DUPLICATE_REVISION, ar_run = refresh_run late_event (-1) sample_run\<rparr>, fs)"
    using fs_late by blast
  ultimately show ?thesis using late_not_ok by (simp add: sample_accept fs_sample_accept pmap_def Let_def)
qed

end
