(* ===== verification/InstallStrategy.thy ===== *)
theory InstallStrategy
  imports Models
begin

text \<open>
  \<open>src/patchproof/install_strategy.py\<close>: the install plan of one revision, chosen from its
  committed files. The revision's paths, what reading its \<open>pyproject.toml\<close> gives or raises, and
  the TOML parser (None when the bytes are not UTF-8 TOML) are arguments. The facts say that the
  prober's plans always pass the command allowlist, and which commands that allowlist admits.
\<close>

definition word_char :: "char \<Rightarrow> bool" where
  "word_char c = (is_word c \<or> c = CHR ''.'' \<or> c = CHR ''-'')"

definition requirements_pattern :: regex where
  "requirements_pattern = seqs [lit ''requirements'', star (Cls word_char), lit ''.txt'']"

definition requirements_dir_pattern :: regex where
  "requirements_dir_pattern = seqs [lit ''requirements/'', plus_re (Cls word_char), lit ''.txt'']"

definition name_head :: "char \<Rightarrow> bool" where
  "name_head c = (in_range (CHR ''a'') (CHR ''z'') c \<or> is_digit c)"

definition name_char :: "char \<Rightarrow> bool" where
  "name_char c = (name_head c \<or> c \<in> set ''._-'')"

definition extra_name_pattern :: regex where
  "extra_name_pattern = Seq (Cls name_head) (Rep (Cls name_char) 0 (Some 30))"

definition editable_with_extra_pattern :: regex where
  "editable_with_extra_pattern = seqs [lit ''.['', Cls name_head, Rep (Cls name_char) 0 (Some 30), lit '']'']"

definition TEST_EXTRA_PREFERENCE :: "string list" where
  "TEST_EXTRA_PREFERENCE = [''test'', ''tests'', ''testing'', ''dev'', ''develop'', ''development'']"

definition TEST_GROUP_PREFERENCE :: "string list" where
  "TEST_GROUP_PREFERENCE = [''test'', ''tests'', ''dev'', ''testing'']"

definition ALLOWED_FIXED_TOKENS :: "string list" where
  "ALLOWED_FIXED_TOKENS = [''uv'', ''sync'', ''venv'', ''pip'', ''install'', ''--frozen'', ''--all-groups'',
     ''--group'', ''-e'', ''-r'', ''.'', ''pytest'']"

section \<open>The command allowlist\<close>

text \<open>A normalized relative path of a committed requirements file.\<close>

definition is_requirements_path :: "string \<Rightarrow> bool" where
  "is_requirements_path value =
     (if CHR 0x5C \<in> set value \<or> CHR 0x00 \<in> set value \<or> CHR 0x0A \<in> set value \<or> CHR 0x0D \<in> set value then False
      else if is_absolute value \<or> as_posix value \<noteq> value then False
      else if list_ex bad_part (path_parts value) then False
      else is_fullmatch requirements_pattern value \<or> is_fullmatch requirements_dir_pattern value)"

definition token_ok :: "string \<Rightarrow> string \<Rightarrow> bool" where
  "token_ok previous token =
     (token \<in> set ALLOWED_FIXED_TOKENS
      \<or> previous = ''-r'' \<and> is_requirements_path token
      \<or> previous = ''-e'' \<and> is_fullmatch editable_with_extra_pattern token
      \<or> previous = ''--group'' \<and> is_fullmatch extra_name_pattern token)"

fun tokens_ok :: "string \<Rightarrow> string list \<Rightarrow> bool" where
  "tokens_ok previous [] = True"
| "tokens_ok previous (token # rest) = (token_ok previous token \<and> tokens_ok token rest)"

definition validate_probed_install_command :: "string list \<Rightarrow> exn + unit" where
  "validate_probed_install_command command =
     (if command = [] \<or> 6 < length command \<or> hd command \<noteq> ''uv''
      then Inl (ValueError ''install command must be a bounded uv argument vector'')
      else if \<not> tokens_ok [] command
      then Inl (ValueError ''install command contains a non-allowlisted token'')
      else Inr ())"

section \<open>Plans\<close>

datatype InstallStrategy =
    UV_SYNC_LOCKED | UV_PIP_EDITABLE_WITH_TEST_EXTRA | UV_PIP_EDITABLE_WITH_REQUIREMENTS
  | UV_PIP_EDITABLE | UNSUPPORTED

record InstallPlan =
  ip_strategy :: InstallStrategy
  ip_commands :: "string list list"
  ip_rationale :: string

definition mk_InstallPlan :: "InstallStrategy \<Rightarrow> string list list \<Rightarrow> string \<Rightarrow> exn + InstallPlan" where
  "mk_InstallPlan strategy commands rationale =
     (let plan = \<lparr>ip_strategy = strategy, ip_commands = commands, ip_rationale = rationale\<rparr> in
      if strategy = UNSUPPORTED then
        (if commands \<noteq> [] then Inl (ValueError ''an unsupported install plan cannot carry commands'')
         else Inr plan)
      else if commands = [] \<or> 4 < length commands then
        Inl (ValueError ''an install plan must contain between one and four commands'')
      else rbind (rmap validate_probed_install_command commands) (\<lambda>_. Inr plan))"

definition ip_supported :: "InstallPlan \<Rightarrow> bool" where
  "ip_supported p = (ip_strategy p \<noteq> UNSUPPORTED)"

section \<open>Packaging metadata\<close>

text \<open>The part of a TOML document the prober looks at: tables, and everything else.\<close>

datatype toml = Table "(string \<times> toml) list" | Other

record ProjectMetadata =
  pm_installable :: bool
  pm_extras :: "string list"
  pm_dependency_groups :: "string list"

definition declared_names :: "toml option \<Rightarrow> string list" where
  "declared_names section =
     (case section of
        Some (Table entries) \<Rightarrow>
          sort (remdups (filter (is_fullmatch extra_name_pattern) (map (\<lambda>(key, _). lower (strip key)) entries)))
      | _ \<Rightarrow> [])"

definition first_match :: "string list \<Rightarrow> string list \<Rightarrow> string option" where
  "first_match preference declared = List.find (\<lambda>name. name \<in> set declared) preference"

text \<open>
  \<open>_read_pyproject\<close>: a \<open>ValueError\<close> of the reader and a text that does not parse count
  as no manifest; any other exception of the reader leaves the prober.
\<close>

definition read_pyproject :: "exn + bytes \<Rightarrow> (bytes \<Rightarrow> toml option) \<Rightarrow> exn + toml option" where
  "read_pyproject content loads =
     (case content of
        Inl e \<Rightarrow> if is_value_error e then Inr None else Inl e
      | Inr raw \<Rightarrow> Inr (loads raw))"

definition project_metadata :: "toml option \<Rightarrow> string list \<Rightarrow> ProjectMetadata" where
  "project_metadata pyproject paths =
     (let legacy = ''setup.py'' \<in> set paths \<or> ''setup.cfg'' \<in> set paths in
      case (if ''pyproject.toml'' \<in> set paths then pyproject else None) of
        Some (Table document) \<Rightarrow>
          (let project = map_of document ''project'' in
           \<lparr>pm_installable = (case project of Some (Table _) \<Rightarrow> True
                              | _ \<Rightarrow> map_of document ''build-system'' \<noteq> None \<or> legacy),
            pm_extras = (case project of Some (Table p) \<Rightarrow> declared_names (map_of p ''optional-dependencies'')
                         | _ \<Rightarrow> []),
            pm_dependency_groups = declared_names (map_of document ''dependency-groups'')\<rparr>)
      | _ \<Rightarrow> \<lparr>pm_installable = legacy, pm_extras = [], pm_dependency_groups = []\<rparr>)"

section \<open>Requirements files\<close>

definition development_markers :: "string list" where
  "development_markers = [''dev'', ''test'', ''testing'', ''docs'', ''lint'', ''typing'']"

text \<open>\<open>min(runtime, key=lambda path: (len(path), path))\<close>: the first of the shortest in path order.\<close>

fun shortest_path :: "string \<Rightarrow> string list \<Rightarrow> string" where
  "shortest_path best [] = best"
| "shortest_path best (p # ps) =
     shortest_path (if length p < length best \<or> length p = length best \<and> p < best then p else best) ps"

definition select_requirements_path :: "string list \<Rightarrow> string option" where
  "select_requirements_path paths =
     (let runtime = filter (\<lambda>path. \<not> list_ex (contains (lower (path_name path))) development_markers)
                      (sort (filter is_requirements_path paths)) in
      case runtime of [] \<Rightarrow> None
      | p # ps \<Rightarrow> if ''requirements.txt'' \<in> set runtime then Some ''requirements.txt''
                  else Some (shortest_path p ps))"

section \<open>The prober\<close>

text \<open>\<open>{text!r}\<close> of a text without quotes or backslashes.\<close>

definition quoted :: "string \<Rightarrow> string" where
  "quoted s = [CHR 0x27] @ s @ [CHR 0x27]"

definition install_pytest :: "string list" where
  "install_pytest = [''uv'', ''pip'', ''install'', ''pytest'']"

text \<open>The plan of a revision without a committed lockfile and manifest.\<close>

definition plan_from_metadata :: "string list \<Rightarrow> ProjectMetadata \<Rightarrow> exn + InstallPlan" where
  "plan_from_metadata paths metadata =
     (if \<not> pm_installable metadata then
        mk_InstallPlan UNSUPPORTED []
          (''no committed pyproject.toml, setup.py, or setup.cfg declares an ''
           @ ''installable project at this revision'')
      else case first_match TEST_GROUP_PREFERENCE (pm_dependency_groups metadata) of
        Some test_group \<Rightarrow>
          mk_InstallPlan UV_PIP_EDITABLE_WITH_TEST_EXTRA
            [[''uv'', ''venv''], [''uv'', ''pip'', ''install'', ''-e'', ''.''],
             [''uv'', ''pip'', ''install'', ''--group'', test_group], install_pytest]
            (''project declares PEP 735 dependency group '' @ quoted test_group)
      | None \<Rightarrow>
        (case first_match TEST_EXTRA_PREFERENCE (pm_extras metadata) of
           Some extra \<Rightarrow>
             mk_InstallPlan UV_PIP_EDITABLE_WITH_TEST_EXTRA
               [[''uv'', ''venv''], [''uv'', ''pip'', ''install'', ''-e'', ''.['' @ extra @ '']''], install_pytest]
               (''project declares optional-dependency extra '' @ quoted extra)
         | None \<Rightarrow>
           (case select_requirements_path paths of
              Some requirements \<Rightarrow>
                mk_InstallPlan UV_PIP_EDITABLE_WITH_REQUIREMENTS
                  [[''uv'', ''venv''], [''uv'', ''pip'', ''install'', ''-r'', requirements],
                   [''uv'', ''pip'', ''install'', ''-e'', ''.''], install_pytest]
                  (''committed requirements file '' @ quoted requirements @ '' declares dependencies'')
            | None \<Rightarrow>
                mk_InstallPlan UV_PIP_EDITABLE
                  [[''uv'', ''venv''], [''uv'', ''pip'', ''install'', ''-e'', ''.''], install_pytest]
                  ''installable project with no separately declared test requirements'')))"

definition probe :: "string list \<Rightarrow> exn + bytes \<Rightarrow> (bytes \<Rightarrow> toml option) \<Rightarrow> exn + InstallPlan" where
  "probe paths content loads =
     (if ''uv.lock'' \<in> set paths \<and> ''pyproject.toml'' \<in> set paths then
        mk_InstallPlan UV_SYNC_LOCKED [[''uv'', ''sync'', ''--frozen''], install_pytest]
          (''committed uv.lock and pyproject.toml reproduce the frozen default ''
           @ ''environment without unrelated dependency groups'')
      else rbind (if ''pyproject.toml'' \<in> set paths then read_pyproject content loads else Inr None)
             (\<lambda>pyproject. plan_from_metadata paths (project_metadata pyproject paths)))"

section \<open>Every plan of the prober is valid\<close>

definition plan_ok :: "InstallPlan \<Rightarrow> bool" where
  "plan_ok p =
     (if ip_strategy p = UNSUPPORTED then ip_commands p = []
      else len_between 1 4 (ip_commands p)
        \<and> list_all (\<lambda>c. validate_probed_install_command c = Inr ()) (ip_commands p))"

lemma rmap_unit_ok: "(\<exists>ys. rmap f xs = Inr ys) \<longleftrightarrow> list_all (\<lambda>x. f x = Inr ()) xs"
proof (induction xs)
  case (Cons x xs)
  then show ?case by (cases "f x") (auto simp: guard_simps)
qed simp

lemma mk_InstallPlan_iff:
  "mk_InstallPlan s c r = Inr p \<longleftrightarrow> p = \<lparr>ip_strategy = s, ip_commands = c, ip_rationale = r\<rparr> \<and> plan_ok p"
proof -
  have "rmap validate_probed_install_command c = Inr ys \<Longrightarrow>
      list_all (\<lambda>c. validate_probed_install_command c = Inr ()) c" for ys
    using rmap_unit_ok by blast
  moreover have "list_all (\<lambda>c. validate_probed_install_command c = Inr ()) c \<Longrightarrow>
      \<exists>ys. rmap validate_probed_install_command c = Inr ys" using rmap_unit_ok by blast
  ultimately show ?thesis
    by (auto simp: mk_InstallPlan_def Let_def plan_ok_def len_between_def guard_simps Suc_le_eq)
qed

lemma name_head_char [simp]: "name_head c \<Longrightarrow> name_char c"
  by (simp add: name_char_def)

lemma extra_name_iff:
  "is_fullmatch extra_name_pattern s \<longleftrightarrow>
     (\<exists>c t. s = c # t \<and> name_head c \<and> length t \<le> 30 \<and> list_all name_char t)"
  by (auto simp: fullmatch_lang extra_name_pattern_def list_all_iff)

lemma editable_iff:
  "is_fullmatch editable_with_extra_pattern s \<longleftrightarrow>
     (\<exists>e. s = ''.['' @ e @ '']'' \<and> is_fullmatch extra_name_pattern e)"
  unfolding extra_name_iff by (auto simp: fullmatch_lang editable_with_extra_pattern_def list_all_iff)

lemma lower_name_ok: "list_all name_head (c # t) \<Longrightarrow> length t \<le> 30 \<Longrightarrow> is_fullmatch extra_name_pattern (c # t)"
  by (auto simp: extra_name_iff list_all_iff)

lemma preferred_names_ok:
  "list_all (is_fullmatch extra_name_pattern) TEST_EXTRA_PREFERENCE"
  "list_all (is_fullmatch extra_name_pattern) TEST_GROUP_PREFERENCE"
  by (simp_all add: TEST_EXTRA_PREFERENCE_def TEST_GROUP_PREFERENCE_def lower_name_ok name_head_def in_range_def)

lemma preferred_name_ok:
  "name \<in> set TEST_EXTRA_PREFERENCE \<or> name \<in> set TEST_GROUP_PREFERENCE \<Longrightarrow> is_fullmatch extra_name_pattern name"
  using preferred_names_ok by (auto simp: list_all_iff)

lemma first_match_mem: "first_match pref declared = Some n \<Longrightarrow> n \<in> set pref \<and> n \<in> set declared"
  by (auto simp: first_match_def find_Some_iff)

lemma shortest_path_mem: "shortest_path best ps \<in> insert best (set ps)"
  by (induction best ps rule: shortest_path.induct) auto

lemma select_requirements_ok: "select_requirements_path paths = Some r \<Longrightarrow> is_requirements_path r \<and> r \<in> set paths"
proof -
  let ?runtime = "filter (\<lambda>path. \<not> list_ex (contains (lower (path_name path))) development_markers)
                      (sort (filter is_requirements_path paths))"
  assume r: "select_requirements_path paths = Some r"
  then obtain p ps where run: "?runtime = p # ps"
    by (auto simp: select_requirements_path_def Let_def split: list.splits)
  have "r \<in> set ?runtime"
    using r shortest_path_mem [of p ps] unfolding select_requirements_path_def Let_def run
    by (auto split: if_splits)
  then show ?thesis by auto
qed

lemma command_ok:
  "validate_probed_install_command c = Inr () \<longleftrightarrow>
     c \<noteq> [] \<and> length c \<le> 6 \<and> hd c = ''uv'' \<and> tokens_ok [] c"
  by (auto simp: validate_probed_install_command_def)

lemma fixed_commands_ok [simp]:
  "validate_probed_install_command install_pytest = Inr ()"
  "validate_probed_install_command [''uv'', ''venv''] = Inr ()"
  "validate_probed_install_command [''uv'', ''sync'', ''--frozen''] = Inr ()"
  "validate_probed_install_command [''uv'', ''pip'', ''install'', ''-e'', ''.''] = Inr ()"
  by (simp_all add: command_ok install_pytest_def token_ok_def ALLOWED_FIXED_TOKENS_def)

lemma probed_command_ok:
  "is_fullmatch extra_name_pattern n \<Longrightarrow>
     validate_probed_install_command [''uv'', ''pip'', ''install'', ''--group'', n] = Inr ()"
  "is_fullmatch extra_name_pattern n \<Longrightarrow>
     validate_probed_install_command [''uv'', ''pip'', ''install'', ''-e'', ''.['' @ n @ '']''] = Inr ()"
  "is_requirements_path r \<Longrightarrow>
     validate_probed_install_command [''uv'', ''pip'', ''install'', ''-r'', r] = Inr ()"
  using editable_iff [of "''.['' @ n @ '']''"]
  by (auto simp: command_ok token_ok_def ALLOWED_FIXED_TOKENS_def)

lemma mk_InstallPlan_total:
  "plan_ok \<lparr>ip_strategy = s, ip_commands = c, ip_rationale = r\<rparr> \<Longrightarrow>
     \<exists>plan. mk_InstallPlan s c r = Inr plan \<and> plan_ok plan"
  using mk_InstallPlan_iff by blast

lemma plan_ok_simps:
  "plan_ok \<lparr>ip_strategy = UNSUPPORTED, ip_commands = [], ip_rationale = r\<rparr>"
  "s \<noteq> UNSUPPORTED \<Longrightarrow> plan_ok \<lparr>ip_strategy = s, ip_commands = c, ip_rationale = r\<rparr> \<longleftrightarrow>
     c \<noteq> [] \<and> length c \<le> 4 \<and> list_all (\<lambda>c. validate_probed_install_command c = Inr ()) c"
  by (auto simp: plan_ok_def len_between_def Suc_le_eq)

lemma plan_from_metadata_total: "\<exists>plan. plan_from_metadata paths m = Inr plan \<and> plan_ok plan"
proof (cases "pm_installable m")
  case False
  then show ?thesis unfolding plan_from_metadata_def
    by (simp only: not_False_eq_True if_True) (intro mk_InstallPlan_total, simp add: plan_ok_simps)
next
  case True
  then have "\<not> \<not> pm_installable m" by simp
  note branch = if_not_P [OF this]
  show ?thesis
  proof (cases "first_match TEST_GROUP_PREFERENCE (pm_dependency_groups m)")
    case (Some g)
    then have "is_fullmatch extra_name_pattern g" using first_match_mem preferred_name_ok by blast
    then show ?thesis unfolding plan_from_metadata_def branch Some option.case
      by (intro mk_InstallPlan_total) (simp add: plan_ok_simps probed_command_ok)
  next
    case None
    note no_group = None
    show ?thesis
    proof (cases "first_match TEST_EXTRA_PREFERENCE (pm_extras m)")
      case (Some e)
      then have "is_fullmatch extra_name_pattern e" using first_match_mem preferred_name_ok by blast
      from probed_command_ok(2) [OF this] show ?thesis
        unfolding plan_from_metadata_def branch no_group Some option.case
        by (intro mk_InstallPlan_total) (simp add: plan_ok_simps)
    next
      case None
      note no_extra = None
      show ?thesis
      proof (cases "select_requirements_path paths")
        case (Some r)
        then have "is_requirements_path r" using select_requirements_ok by blast
        then show ?thesis unfolding plan_from_metadata_def branch no_group no_extra Some option.case
          by (intro mk_InstallPlan_total) (simp add: plan_ok_simps probed_command_ok)
      next
        case None
        then show ?thesis unfolding plan_from_metadata_def branch no_group no_extra None option.case
          by (intro mk_InstallPlan_total) (simp add: plan_ok_simps)
      qed
    qed
  qed
qed

lemma probe_plan_ok:
  assumes "probe paths content loads = Inr plan"
  shows "plan_ok plan"
proof (cases "''uv.lock'' \<in> set paths \<and> ''pyproject.toml'' \<in> set paths")
  case True
  then show ?thesis using assms unfolding probe_def if_P [OF True] mk_InstallPlan_iff by blast
next
  case False
  then obtain p where "plan_from_metadata paths (project_metadata p paths) = Inr plan"
    using assms unfolding probe_def if_not_P [OF False] rbind_eq_Inr by blast
  then show ?thesis using plan_from_metadata_total by (metis sum.inject(2))
qed


section \<open>What an accepted command can contain\<close>

definition argument_char :: "char \<Rightarrow> bool" where
  "argument_char c = (word_char c \<or> c \<in> set ''/[]'')"

text \<open>A fixed word, or an argument of harmless characters that cannot be read as an option.\<close>

definition harmless_token :: "string \<Rightarrow> bool" where
  "harmless_token t = (t \<in> set ALLOWED_FIXED_TOKENS
     \<or> list_all argument_char t \<and> t \<noteq> [] \<and> hd t \<noteq> CHR ''-'')"

lemma name_head_argument: "name_head c \<Longrightarrow> argument_char c \<and> c \<noteq> CHR ''-''"
  by (auto simp: name_head_def argument_char_def word_char_def is_word_def is_alnum_def is_digit_def in_range_def Let_def)

lemma name_char_argument: "name_char c \<Longrightarrow> argument_char c"
  using name_head_argument [of c]
  by (auto simp: name_char_def argument_char_def word_char_def is_word_def Let_def)

lemma word_char_argument: "word_char c \<Longrightarrow> argument_char c"
  by (simp add: argument_char_def)

lemma literal_argument: "list_all argument_char ''requirements/.txt''"
  by (simp add: argument_char_def word_char_def is_word_def is_alnum_def in_range_def Let_def)

lemma requirements_harmless: "is_requirements_path t \<Longrightarrow> list_all argument_char t \<and> t \<noteq> [] \<and> hd t \<noteq> CHR ''-''"
proof -
  assume "is_requirements_path t"
  then have "is_fullmatch requirements_pattern t \<or> is_fullmatch requirements_dir_pattern t"
    by (simp add: is_requirements_path_def split: if_splits)
  then obtain m where "t = ''requirements'' @ m @ ''.txt'' \<or> t = ''requirements/'' @ m @ ''.txt''" "\<forall>c \<in> set m. word_char c"
    by (auto simp: fullmatch_lang requirements_pattern_def requirements_dir_pattern_def)
  then show ?thesis using literal_argument by (auto simp: list_all_iff word_char_argument)
qed

lemma extra_harmless: "is_fullmatch extra_name_pattern t \<Longrightarrow> list_all argument_char t \<and> t \<noteq> [] \<and> hd t \<noteq> CHR ''-''"
  using name_head_argument name_char_argument by (auto simp: extra_name_iff list_all_iff)

lemma editable_harmless: "is_fullmatch editable_with_extra_pattern t \<Longrightarrow> list_all argument_char t \<and> t \<noteq> [] \<and> hd t \<noteq> CHR ''-''"
proof -
  assume "is_fullmatch editable_with_extra_pattern t"
  then obtain e where t: "t = ''.['' @ e @ '']''" and e: "is_fullmatch extra_name_pattern e" unfolding editable_iff by blast
  have "argument_char (CHR ''.'')" "argument_char (CHR ''['')" "argument_char (CHR '']'')"
    by (simp_all add: argument_char_def word_char_def)
  then show ?thesis using extra_harmless [OF e] unfolding t by simp
qed

lemma tokens_ok_harmless: "tokens_ok prev c \<Longrightarrow> list_all harmless_token c"
  using requirements_harmless extra_harmless editable_harmless
  by (induction prev c rule: tokens_ok.induct) (auto simp: token_ok_def harmless_token_def)

text \<open>
  C36: Every command the allowlist accepts is a \<open>uv\<close> call of at most six tokens, each of them a
  fixed word or a non-empty text of letters, digits, \<open>_ . - / [ ]\<close> that does not begin with
  a dash: no repository name can become an option, a separator or a shell metacharacter.
\<close>

theorem accepted_command_harmless:
  assumes "validate_probed_install_command c = Inr ()"
  shows "c \<noteq> [] \<and> hd c = ''uv'' \<and> length c \<le> 6 \<and> list_all harmless_token c"
  using assms tokens_ok_harmless unfolding command_ok by blast

theorem accepted_command_harmless_witness:
  "[''uv'', ''pip'', ''install'', ''--group'', ''dev''] \<noteq> []
   \<and> hd [''uv'', ''pip'', ''install'', ''--group'', ''dev''] = ''uv''
   \<and> length [''uv'', ''pip'', ''install'', ''--group'', ''dev''] \<le> 6
   \<and> list_all harmless_token [''uv'', ''pip'', ''install'', ''--group'', ''dev'']"
  by (rule accepted_command_harmless, rule probed_command_ok, rule preferred_name_ok)
    (simp add: TEST_GROUP_PREFERENCE_def)

end
