(* ===== verification/ExecContract.thy ===== *)
theory ExecContract
  imports InstallStrategy
begin

text \<open>
  \<open>src/patchproof/execution_contract.py\<close> and the contract half of
  \<open>src/patchproof/install_strategy.py\<close>: the validated execution contract, its loader, and the
  contract synthesized for two revisions whose probed plans agree. The YAML parser is a parameter:
  it gives the typed fields of the document, or says how the document fails to have them. The
  facts characterise the accepted directories and what a permitted test path looks like.
\<close>

section \<open>Validated fields\<close>

definition safe_token_pattern :: regex where
  "safe_token_pattern = Rep (Cls (\<lambda>c. 31 < (of_char c :: nat) \<and> (of_char c :: nat) \<noteq> 127)) 1 (Some 300)"

definition ALLOWED_INSTALL_COMMANDS :: "string list list" where
  "ALLOWED_INSTALL_COMMANDS =
     [[''uv'', ''sync'', ''--frozen''], [''uv'', ''sync'', ''--frozen'', ''--all-groups'']]"

definition ALLOWED_TEST_COMMANDS :: "string list list" where
  "ALLOWED_TEST_COMMANDS = [[''python'', ''-m'', ''pytest''], [''uv'', ''run'', ''pytest'']]"

definition bounded_argv :: "string list \<Rightarrow> bool" where
  "bounded_argv value = (len_between 1 8 value \<and> list_all (is_fullmatch safe_token_pattern) value)"

definition validate_argv :: "string list \<Rightarrow> string list list \<Rightarrow> exn + string list" where
  "validate_argv value allowed =
     rbind (checks
       [(\<not> bounded_argv value, ValueError ''command must contain 1-8 bounded argument tokens''),
        (value \<notin> set allowed, ValueError ''command is not an allowed PatchProof execution template'')])
     (\<lambda>_. Inr value)"

definition validate_directory_prefix :: "string \<Rightarrow> exn + string" where
  "validate_directory_prefix value =
     (let stem = rstrip_char (CHR ''/'') value in
      rbind (checks
        [(CHR 0x5C \<in> set value \<or> CHR 0x00 \<in> set value \<or> CHR 0x0A \<in> set value \<or> CHR 0x0D \<in> set value,
          ValueError ''allowed test path contains an unsupported character''),
         (\<not> endswith value ''/'', ValueError ''allowed test path must end with a slash''),
         (stem = [] \<or> is_absolute stem \<or> as_posix stem \<noteq> stem \<or> list_ex bad_part (path_parts stem),
          ValueError ''allowed test path must be a normalized relative POSIX directory'')])
      (\<lambda>_. Inr value))"

definition validate_allowed_test_paths :: "string list \<Rightarrow> exn + string list" where
  "validate_allowed_test_paths value =
     rbind (rmap validate_directory_prefix value) (\<lambda>normalized.
       if \<not> distinct normalized then Inl (ValueError ''allowed test paths must be unique'')
       else Inr normalized)"

section \<open>The contract\<close>

record ExecutionContract =
  ec_version :: int
  ec_python :: string
  ec_install :: "string list list"
  ec_test_command :: "string list"
  ec_allowed_test_paths :: "string list"
  ec_timeout_seconds :: seconds
  ec_install_timeout_seconds :: seconds
  ec_synthesized :: bool

definition validate_install_command :: "bool \<Rightarrow> string list \<Rightarrow> exn + unit" where
  "validate_install_command synthesized command =
     rbind (guard (bounded_argv command) (ValueError ''command must contain 1-8 bounded argument tokens'')) (\<lambda>_.
       if synthesized then validate_probed_install_command command
       else guard (command \<in> set ALLOWED_INSTALL_COMMANDS)
              (ValueError ''command is not an allowed PatchProof execution template''))"

definition validate_install_commands :: "ExecutionContract \<Rightarrow> exn + unit" where
  "validate_install_commands c =
     rbind (guard (ec_synthesized c \<or> length (ec_install c) \<le> 2)
              (ValueError ''a repository-declared contract may declare at most two installs'')) (\<lambda>_.
     rbind (rmap (validate_install_command (ec_synthesized c)) (ec_install c)) (\<lambda>_. Inr ()))"

text \<open>
  Construction with every validator; pydantic turns a failing one into a \<open>ValidationError\<close>.
\<close>

definition contract_fields_ok :: "ExecutionContract \<Rightarrow> bool" where
  "contract_fields_ok c =
     (ec_version c = 1 \<and> ec_python c = ''3.12'' \<and> len_between 1 4 (ec_install c)
      \<and> is_ok (validate_argv (ec_test_command c) ALLOWED_TEST_COMMANDS)
      \<and> len_between 1 4 (ec_allowed_test_paths c)
      \<and> is_ok (validate_allowed_test_paths (ec_allowed_test_paths c))
      \<and> 1 / 20 \<le> ec_timeout_seconds c \<and> ec_timeout_seconds c \<le> 300
      \<and> 1 \<le> ec_install_timeout_seconds c \<and> ec_install_timeout_seconds c \<le> 1800)"

definition mk_ExecutionContract :: "ExecutionContract \<Rightarrow> exn + ExecutionContract" where
  "mk_ExecutionContract c =
     (if contract_fields_ok c \<and> is_ok (validate_install_commands c) then Inr c
      else Inl (ValidationError ''ExecutionContract''))"

text \<open>The interpreter path, resolved, stands in for the token \<open>python\<close>.\<close>

definition resolved_test_command :: "ExecutionContract \<Rightarrow> string \<Rightarrow> string list" where
  "resolved_test_command c python_executable =
     (if hd (ec_test_command c) = ''python'' then python_executable # tl (ec_test_command c)
      else ec_test_command c)"

definition permits_test_path :: "ExecutionContract \<Rightarrow> string \<Rightarrow> bool" where
  "permits_test_path c relative_path = list_ex (startswith relative_path) (ec_allowed_test_paths c)"

section \<open>The loader\<close>

datatype contract_document = NotUtf8Yaml | NotMapping | BadFields | Fields ExecutionContract

definition contract_filename :: string where
  "contract_filename = ''.patchproof.yaml''"

definition contract_max_bytes :: nat where
  "contract_max_bytes = 8192"

definition load_bytes :: "(bytes \<Rightarrow> contract_document) \<Rightarrow> bytes \<Rightarrow> exn + ExecutionContract" where
  "load_bytes yaml raw =
     (if raw = [] \<or> contract_max_bytes < length raw
      then Inl (ExecutionContractError ''repository execution contract is empty or oversized'')
      else case yaml raw of
        NotUtf8Yaml \<Rightarrow> Inl (ExecutionContractError ''repository execution contract is not valid UTF-8 YAML'')
      | NotMapping \<Rightarrow> Inl (ExecutionContractError ''repository execution contract must be a YAML mapping'')
      | BadFields \<Rightarrow> Inl (ExecutionContractError ''repository execution contract failed validation'')
      | Fields c \<Rightarrow>
          (case mk_ExecutionContract c of
             Inl _ \<Rightarrow> Inl (ExecutionContractError ''repository execution contract failed validation'')
           | Inr c \<Rightarrow> Inr c))"

text \<open>\<open>load\<close>: None when the file cannot be read.\<close>

definition load :: "(bytes \<Rightarrow> contract_document) \<Rightarrow> bytes option \<Rightarrow> exn + ExecutionContract" where
  "load yaml file =
     (case file of
        None \<Rightarrow> Inl (ExecutionContractError ''repository execution contract could not be read'')
      | Some raw \<Rightarrow> load_bytes yaml raw)"

section \<open>Synthesized contracts\<close>

definition SYNTHESIZED_TEST_PATH :: string where
  "SYNTHESIZED_TEST_PATH = ''patchproof_generated_tests/''"

definition synthesize_contract :: "InstallPlan \<Rightarrow> exn + ExecutionContract" where
  "synthesize_contract plan =
     (if \<not> ip_supported plan then
        Inl (ContractSynthesisError (''no install strategy is available for this revision: '' @ ip_rationale plan))
      else mk_ExecutionContract
        \<lparr>ec_version = 1, ec_python = ''3.12'', ec_install = ip_commands plan,
         ec_test_command = [''python'', ''-m'', ''pytest''],
         ec_allowed_test_paths = [SYNTHESIZED_TEST_PATH], ec_timeout_seconds = 300,
         ec_install_timeout_seconds = 900, ec_synthesized = True\<rparr>)"

definition unsupported_message :: "InstallPlan \<Rightarrow> InstallPlan \<Rightarrow> string" where
  "unsupported_message base_plan head_plan =
     (let unsupported = if \<not> ip_supported base_plan then base_plan else head_plan in
      ''dependency installation is unsupported for this repository: '' @ ip_rationale unsupported)"

text \<open>\<open>resolve_contract_for_pair\<close>, on what the prober returned for each revision in order.\<close>

definition resolve_contract_for_pair ::
    "exn + InstallPlan \<Rightarrow> exn + InstallPlan \<Rightarrow> exn + (ExecutionContract \<times> InstallPlan \<times> InstallPlan)" where
  "resolve_contract_for_pair base_probe head_probe =
     rbind base_probe (\<lambda>base_plan. rbind head_probe (\<lambda>head_plan.
       if \<not> ip_supported base_plan \<or> \<not> ip_supported head_plan then
         Inl (ContractSynthesisError (unsupported_message base_plan head_plan))
       else if ip_commands base_plan \<noteq> ip_commands head_plan then
         Inl (ContractSynthesisError ''BASE and HEAD imply different install strategies; comparison is unsafe'')
       else rbind (synthesize_contract head_plan) (\<lambda>contract. Inr (contract, base_plan, head_plan))))"

section \<open>Permitted test paths\<close>

lemma rstrip_char_split: "\<exists>n. v = rstrip_char c v @ replicate n c"
proof (induction v rule: rev_induct)
  case (snoc d v)
  then obtain n where n: "v = rstrip_char c v @ replicate n c" by blast
  show ?case
  proof (cases "d = c")
    case True
    have "v @ [c] = rstrip_char c v @ replicate n c @ [c]" using n by (metis append.assoc)
    moreover have "rstrip_char c (v @ [c]) = rstrip_char c v" by (simp add: rstrip_char_def)
    ultimately have "v @ [d] = rstrip_char c (v @ [d]) @ replicate (Suc n) c"
      unfolding True by (simp only: replicate_Suc replicate_append_same)
    then show ?thesis by blast
  next
    case False
    then show ?thesis by (intro exI [of _ 0]) (simp add: rstrip_char_def)
  qed
qed (simp add: rstrip_char_def)

lemma endswith_iff: "endswith s p \<longleftrightarrow> (\<exists>t. s = t @ p)"
proof -
  have "endswith s p \<longleftrightarrow> (\<exists>t. rev s = rev p @ t)" by (simp add: endswith_def startswith_iff)
  also have "\<dots> \<longleftrightarrow> (\<exists>t. s = t @ p)" by (metis rev_append rev_rev_ident)
  finally show ?thesis .
qed

lemma directory_prefix_guards:
  "validate_directory_prefix v = Inr w \<Longrightarrow>
     w = v \<and> endswith v ''/'' \<and> normal_relative (rstrip_char (CHR ''/'') v)"
  unfolding validate_directory_prefix_def Let_def rbind_eq_Inr checks_ok list.pred_inject prod.case
    sum.inject normal_relative_def
  by (elim exE conjE) (simp only: simp_thms de_Morgan_disj)

lemma validate_directory_prefix_ok:
  assumes "validate_directory_prefix v = Inr w"
  shows "w = v \<and> (\<exists>d n. v = d @ replicate (Suc n) (CHR ''/'') \<and> (d = ''.'' \<or> good_components d))"
proof -
  let ?d = "rstrip_char (CHR ''/'') v"
  obtain n where n: "v = ?d @ replicate n (CHR ''/'')" using rstrip_char_split [of v "CHR ''/''"] by (elim exE)
  from assms have "w = v \<and> endswith v ''/'' \<and> normal_relative ?d" by (rule directory_prefix_guards)
  then have w: "w = v" and e: "endswith v ''/''" and norm: "normal_relative ?d" by blast+
  have "n \<noteq> 0"
  proof
    assume "n = 0"
    with n have same: "?d = v" by simp
    from e obtain u where u: "v = u @ ''/''" by (auto simp: endswith_iff)
    then have "?d = rstrip_char (CHR ''/'') u" by (simp add: rstrip_char_def)
    also have "length \<dots> \<le> length u"
      using length_dropWhile_le [of "\<lambda>d. d = CHR ''/''" "rev u"] by (simp add: rstrip_char_def)
    finally show False using same u by simp
  qed
  then obtain m where m: "n = Suc m" by (cases n) auto
  show ?thesis
    using w n norm unfolding m normal_relative_iff by (intro conjI exI [of _ ?d] exI [of _ m])
qed

lemma dot_not_good: "\<not> good_components (''.'' @ CHR ''/'' # t)"
  unfolding good_components_append by (simp add: good_components_def bad_part_def)

lemma allowed_prefix_inside:
  assumes "validate_directory_prefix v = Inr w" "good_components (v @ t)"
  shows "\<exists>d. v = d @ ''/'' \<and> good_components d \<and> good_components t"
proof -
  from validate_directory_prefix_ok [OF assms(1)] obtain d n
    where v: "v = d @ replicate (Suc n) (CHR ''/'')" and d: "d = ''.'' \<or> good_components d" by blast
  have split: "v @ t = d @ CHR ''/'' # (replicate n (CHR ''/'') @ t)" by (simp add: v)
  with assms(2) have parts: "good_components d" "good_components (replicate n (CHR ''/'') @ t)"
    by (simp_all add: good_components_append)
  have "n = 0"
  proof (cases n)
    case (Suc m)
    with parts(2) good_components_relative show ?thesis by (fastforce simp: is_absolute_def)
  qed
  with v parts show ?thesis by simp
qed

lemma mk_ExecutionContract_ok:
  "mk_ExecutionContract c = Inr c' \<longleftrightarrow>
     c' = c \<and> contract_fields_ok c \<and> is_ok (validate_install_commands c)"
  by (auto simp: mk_ExecutionContract_def)

text \<open>
  A normalized path an accepted contract permits lies properly inside one of its directories:
  the directory is itself normalized and relative, what follows it is a normalized relative path,
  so no permitted candidate escapes. Prefixes such as \<open>./\<close> or \<open>tests//\<close>, which the
  validator also accepts, permit no normalized path at all.
\<close>

theorem permitted_path_inside:
  assumes "mk_ExecutionContract c = Inr c'" "permits_test_path c' p" "good_components p"
  shows "\<exists>d t. d @ ''/'' \<in> set (ec_allowed_test_paths c') \<and> good_components d \<and> good_components t
           \<and> p = d @ ''/'' @ t"
proof -
  from assms(2) obtain v t where v: "v \<in> set (ec_allowed_test_paths c')" "p = v @ t"
    by (auto simp: permits_test_path_def list_ex_iff startswith_iff)
  from assms(1) have "is_ok (validate_allowed_test_paths (ec_allowed_test_paths c'))"
    by (auto simp: mk_ExecutionContract_ok contract_fields_ok_def)
  then have "is_ok (rmap validate_directory_prefix (ec_allowed_test_paths c'))"
    by (auto simp: validate_allowed_test_paths_def is_ok_iff guard_simps)
  with v(1) obtain w where "validate_directory_prefix v = Inr w" by (metis rmap_ok_iff is_ok_iff)
  from allowed_prefix_inside [OF this, of t] v assms(3) show ?thesis by auto
qed

section \<open>Commands of an accepted contract\<close>

lemma literal_commands_harmless:
  "c \<in> set ALLOWED_INSTALL_COMMANDS \<Longrightarrow> c \<noteq> [] \<and> hd c = ''uv'' \<and> length c \<le> 6 \<and> list_all harmless_token c"
  by (auto simp: ALLOWED_INSTALL_COMMANDS_def harmless_token_def ALLOWED_FIXED_TOKENS_def)

lemma probed_commands_harmless:
  "validate_probed_install_command c = Inr () \<Longrightarrow> c \<noteq> [] \<and> hd c = ''uv'' \<and> length c \<le> 6 \<and> list_all harmless_token c"
  using tokens_ok_harmless unfolding command_ok by blast

lemma install_command_harmless:
  "validate_install_command s c = Inr u \<Longrightarrow> c \<noteq> [] \<and> hd c = ''uv'' \<and> length c \<le> 6 \<and> list_all harmless_token c"
  using literal_commands_harmless probed_commands_harmless
  by (auto simp: validate_install_command_def guard_simps split: if_splits)

text \<open>
  However a contract was obtained, from the repository's file or by probing, it installs with
  one to four commands that are \<open>uv\<close> calls of at most six harmless tokens, and tests with one of
  the two fixed \<open>pytest\<close> commands, within 300 and 1800 seconds.
\<close>

theorem contract_commands_harmless:
  assumes "mk_ExecutionContract c = Inr c'"
  shows "len_between 1 4 (ec_install c')
    \<and> list_all (\<lambda>cmd. cmd \<noteq> [] \<and> hd cmd = ''uv'' \<and> length cmd \<le> 6 \<and> list_all harmless_token cmd) (ec_install c')
    \<and> ec_test_command c' \<in> set ALLOWED_TEST_COMMANDS
    \<and> 0 < ec_timeout_seconds c' \<and> ec_timeout_seconds c' \<le> 300
    \<and> 0 < ec_install_timeout_seconds c' \<and> ec_install_timeout_seconds c' \<le> 1800"
proof -
  from assms have c: "contract_fields_ok c'" "is_ok (validate_install_commands c')"
    by (simp_all add: mk_ExecutionContract_ok)
  from c(2) have "is_ok (rmap (validate_install_command (ec_synthesized c')) (ec_install c'))"
    unfolding validate_install_commands_def is_ok_iff rbind_eq_Inr by blast
  then have "list_all (\<lambda>cmd. cmd \<noteq> [] \<and> hd cmd = ''uv'' \<and> length cmd \<le> 6 \<and> list_all harmless_token cmd) (ec_install c')"
    unfolding rmap_ok_iff using install_command_harmless unfolding list_all_iff is_ok_iff by blast
  moreover have "ec_test_command c' \<in> set ALLOWED_TEST_COMMANDS"
    using c(1) by (auto simp: contract_fields_ok_def validate_argv_def is_ok_iff guard_simps split: if_splits)
  ultimately show ?thesis using c(1) by (simp add: contract_fields_ok_def)
qed

section \<open>Contracts synthesized from plans\<close>

lemma argument_char_safe: "argument_char c \<Longrightarrow> 31 < (of_char c :: nat) \<and> (of_char c :: nat) \<noteq> 127"
proof -
  assume "argument_char c"
  then consider "is_word c" | "c \<in> set ''.-/[]''" by (auto simp: argument_char_def word_char_def)
  then show ?thesis
    by cases (auto simp: is_word_def is_alnum_def in_range_def Let_def)
qed

lemma safe_token_iff: "is_fullmatch safe_token_pattern t \<longleftrightarrow>
    t \<noteq> [] \<and> length t \<le> 300 \<and> (\<forall>c \<in> set t. 31 < (of_char c :: nat) \<and> (of_char c :: nat) \<noteq> 127)"
  by (auto simp: fullmatch_lang safe_token_pattern_def Suc_le_eq)

lemma fixed_tokens_safe: "list_all (is_fullmatch safe_token_pattern) ALLOWED_FIXED_TOKENS"
  by (simp add: safe_token_iff ALLOWED_FIXED_TOKENS_def)

lemma harmless_token_safe: "harmless_token t \<Longrightarrow> length t \<le> 300 \<Longrightarrow> is_fullmatch safe_token_pattern t"
  using fixed_tokens_safe argument_char_safe
  by (auto simp: harmless_token_def list_all_iff safe_token_iff)

definition short_tokens :: "InstallPlan \<Rightarrow> bool" where
  "short_tokens p = list_all (list_all (\<lambda>t. length t \<le> 300)) (ip_commands p)"

lemma probed_install_ok:
  assumes "validate_probed_install_command c = Inr ()" "list_all (\<lambda>t. length t \<le> 300) c"
  shows "validate_install_command True c = Inr ()"
proof -
  from probed_commands_harmless [OF assms(1)] assms(2) harmless_token_safe have "bounded_argv c"
    by (cases c) (auto simp: bounded_argv_def len_between_def list_all_iff)
  with assms(1) show ?thesis by (simp add: validate_install_command_def)
qed

definition synthesized_contract :: "InstallPlan \<Rightarrow> ExecutionContract" where
  "synthesized_contract plan =
     \<lparr>ec_version = 1, ec_python = ''3.12'', ec_install = ip_commands plan,
      ec_test_command = [''python'', ''-m'', ''pytest''],
      ec_allowed_test_paths = [SYNTHESIZED_TEST_PATH], ec_timeout_seconds = 300,
      ec_install_timeout_seconds = 900, ec_synthesized = True\<rparr>"

lemma synthesized_path_ok: "validate_allowed_test_paths [SYNTHESIZED_TEST_PATH] = Inr [SYNTHESIZED_TEST_PATH]"
  by (simp add: validate_allowed_test_paths_def validate_directory_prefix_def SYNTHESIZED_TEST_PATH_def
      rstrip_char_def endswith_def is_absolute_def as_posix_def path_root_def path_tail_def path_parts_def
      splitroot_def bad_part_def Let_def)

lemma synthesized_test_command_ok:
  "validate_argv [''python'', ''-m'', ''pytest''] ALLOWED_TEST_COMMANDS = Inr [''python'', ''-m'', ''pytest'']"
  by (simp add: validate_argv_def bounded_argv_def len_between_def safe_token_iff ALLOWED_TEST_COMMANDS_def)

lemma synthesize_contract_ok:
  assumes "plan_ok plan" "ip_supported plan" "short_tokens plan"
  shows "synthesize_contract plan = Inr (synthesized_contract plan)"
proof -
  from assms(1,2) have len: "len_between 1 4 (ip_commands plan)"
    and cmds: "list_all (\<lambda>c. validate_probed_install_command c = Inr ()) (ip_commands plan)"
    by (simp_all add: plan_ok_def ip_supported_def)
  then have "is_ok (rmap (validate_install_command True) (ip_commands plan))"
    using probed_install_ok assms(3) unfolding rmap_ok_iff short_tokens_def list_all_iff
    by (metis is_ok_simps(1))
  then have "is_ok (validate_install_commands (synthesized_contract plan))"
    by (auto simp: validate_install_commands_def synthesized_contract_def is_ok_iff guard_simps)
  moreover have "contract_fields_ok (synthesized_contract plan)"
    unfolding contract_fields_ok_def synthesized_contract_def
    using len by (simp add: synthesized_path_ok synthesized_test_command_ok) (simp add: len_between_def)
  ultimately show ?thesis
    using assms(2) by (simp add: synthesize_contract_def mk_ExecutionContract_def flip: synthesized_contract_def)
qed

section \<open>One contract for a pair of revisions\<close>

definition token_from :: "string list \<Rightarrow> string \<Rightarrow> bool" where
  "token_from paths t = (t \<in> set ALLOWED_FIXED_TOKENS \<or> is_fullmatch extra_name_pattern t
     \<or> is_fullmatch editable_with_extra_pattern t \<or> t \<in> set paths)"

definition plan_from :: "string list \<Rightarrow> InstallPlan \<Rightarrow> bool" where
  "plan_from paths p = list_all (list_all (token_from paths)) (ip_commands p)"

lemma token_from_basic [simp]:
  "t \<in> set ALLOWED_FIXED_TOKENS \<Longrightarrow> token_from paths t"
  "is_fullmatch extra_name_pattern t \<Longrightarrow> token_from paths t"
  "is_fullmatch extra_name_pattern t \<Longrightarrow> token_from paths (''.['' @ t @ '']'')"
  "t \<in> set paths \<Longrightarrow> token_from paths t"
  using editable_iff [of "''.['' @ t @ '']''"] by (auto simp: token_from_def)

lemma fixed_tokens_from [simp]:
  "token_from paths ''uv''" "token_from paths ''sync''" "token_from paths ''venv''" "token_from paths ''pip''"
  "token_from paths ''install''" "token_from paths ''--frozen''" "token_from paths ''--group''"
  "token_from paths ''-e''" "token_from paths ''-r''" "token_from paths ''.''" "token_from paths ''pytest''"
  by (simp_all add: ALLOWED_FIXED_TOKENS_def)

lemma mk_InstallPlan_from:
  "mk_InstallPlan s cmds r = Inr p \<Longrightarrow> list_all (list_all (token_from paths)) cmds \<Longrightarrow> plan_from paths p"
  by (auto simp: mk_InstallPlan_iff plan_from_def)

lemma plan_from_metadata_from:
  assumes "plan_from_metadata paths m = Inr p"
  shows "plan_from paths p"
proof -
  note plan = assms [unfolded plan_from_metadata_def]
  show ?thesis
  proof (cases "pm_installable m")
    case False
    with plan show ?thesis by (auto intro: mk_InstallPlan_from)
  next
    case True
    then have "\<not> \<not> pm_installable m" by simp
    note plan = plan [unfolded if_not_P [OF this]]
    show ?thesis
    proof (cases "first_match TEST_GROUP_PREFERENCE (pm_dependency_groups m)")
      case (Some g)
      then have "is_fullmatch extra_name_pattern g" using first_match_mem preferred_name_ok by blast
      with plan [unfolded Some option.case] show ?thesis
        by (elim mk_InstallPlan_from) (simp add: install_pytest_def)
    next
      case None
      note plan = plan [unfolded None option.case]
      show ?thesis
      proof (cases "first_match TEST_EXTRA_PREFERENCE (pm_extras m)")
        case (Some e)
        then have "is_fullmatch extra_name_pattern e" using first_match_mem preferred_name_ok by blast
        then have "token_from paths (''.['' @ e @ '']'')" by (rule token_from_basic(3))
        with plan [unfolded Some option.case] show ?thesis
          by (elim mk_InstallPlan_from) (simp add: install_pytest_def)
      next
        case None
        note plan = plan [unfolded None option.case]
        show ?thesis
        proof (cases "select_requirements_path paths")
          case (Some r)
          then have "token_from paths r" using select_requirements_ok token_from_basic(4) by blast
          with plan [unfolded Some option.case] show ?thesis
            by (elim mk_InstallPlan_from) (simp add: install_pytest_def)
        next
          case None
          with plan [unfolded None option.case] show ?thesis
            by (elim mk_InstallPlan_from) (simp add: install_pytest_def)
        qed
      qed
    qed
  qed
qed

lemma probe_from: "probe paths content loads = Inr p \<Longrightarrow> plan_from paths p"
proof (cases "''uv.lock'' \<in> set paths \<and> ''pyproject.toml'' \<in> set paths")
  case True
  assume "probe paths content loads = Inr p"
  from this [unfolded probe_def if_P [OF True]] show ?thesis
    by (rule mk_InstallPlan_from) (simp add: install_pytest_def)
next
  case False
  assume "probe paths content loads = Inr p"
  from this [unfolded probe_def if_not_P [OF False] rbind_eq_Inr] show ?thesis
    using plan_from_metadata_from by blast
qed

lemma token_from_short: "token_from paths t \<Longrightarrow> list_all (\<lambda>q. length q \<le> 300) paths \<Longrightarrow> length t \<le> 300"
proof -
  have "list_all (\<lambda>t. length t \<le> 300) ALLOWED_FIXED_TOKENS" by (simp add: ALLOWED_FIXED_TOKENS_def)
  then show "token_from paths t \<Longrightarrow> list_all (\<lambda>q. length q \<le> 300) paths \<Longrightarrow> length t \<le> 300"
    unfolding token_from_def editable_iff extra_name_iff by (auto simp: list_all_iff)
qed

lemma probe_short:
  "probe paths content loads = Inr p \<Longrightarrow> list_all (\<lambda>q. length q \<le> 300) paths \<Longrightarrow> short_tokens p"
  using probe_from [of paths content loads p] token_from_short [of paths]
  unfolding short_tokens_def plan_from_def list_all_iff by blast


section \<open>A small repository\<close>

definition sample_plan :: InstallPlan where
  "sample_plan =
     \<lparr>ip_strategy = UV_PIP_EDITABLE,
      ip_commands = [[''uv'', ''venv''], [''uv'', ''pip'', ''install'', ''-e'', ''.''], install_pytest],
      ip_rationale = ''installable project with no separately declared test requirements''\<rparr>"

lemma sample_plan_ok: "plan_ok sample_plan" "ip_supported sample_plan" "short_tokens sample_plan"
  by (simp_all add: sample_plan_def plan_ok_simps ip_supported_def short_tokens_def)
    (simp add: install_pytest_def)

lemma sample_contract_ok: "mk_ExecutionContract (synthesized_contract sample_plan) = Inr (synthesized_contract sample_plan)"
  using synthesize_contract_ok [OF sample_plan_ok] sample_plan_ok(2)
  by (simp add: synthesize_contract_def synthesized_contract_def)

lemma setup_is_not_requirements: "\<not> is_requirements_path ''setup.py''"
  by (auto simp: is_requirements_path_def fullmatch_lang requirements_pattern_def requirements_dir_pattern_def)

lemma sample_probe: "probe [''setup.py''] (Inr []) (\<lambda>_. None) = Inr sample_plan"
proof -
  have "select_requirements_path [''setup.py''] = None"
    by (simp add: select_requirements_path_def setup_is_not_requirements)
  then have "probe [''setup.py''] (Inr []) (\<lambda>_. None)
      = mk_InstallPlan UV_PIP_EDITABLE (ip_commands sample_plan) (ip_rationale sample_plan)"
    by (simp add: probe_def plan_from_metadata_def project_metadata_def first_match_def
        TEST_GROUP_PREFERENCE_def TEST_EXTRA_PREFERENCE_def sample_plan_def)
  also have "\<dots> = Inr sample_plan"
    using sample_plan_ok(1) by (simp add: mk_InstallPlan_iff) (simp add: sample_plan_def)
  finally show ?thesis .
qed

theorem permitted_path_inside_witness:
  "\<exists>d t. d @ ''/'' \<in> set (ec_allowed_test_paths (synthesized_contract sample_plan)) \<and> good_components d
     \<and> good_components t \<and> SYNTHESIZED_TEST_PATH @ ''test_a.py'' = d @ ''/'' @ t"
  by (rule permitted_path_inside [OF sample_contract_ok])
    (simp_all add: permits_test_path_def synthesized_contract_def SYNTHESIZED_TEST_PATH_def good_components_def bad_part_def)

theorem contract_commands_harmless_witness:
  "len_between 1 4 (ec_install (synthesized_contract sample_plan))
    \<and> list_all (\<lambda>cmd. cmd \<noteq> [] \<and> hd cmd = ''uv'' \<and> length cmd \<le> 6 \<and> list_all harmless_token cmd)
        (ec_install (synthesized_contract sample_plan))
    \<and> ec_test_command (synthesized_contract sample_plan) \<in> set ALLOWED_TEST_COMMANDS
    \<and> 0 < ec_timeout_seconds (synthesized_contract sample_plan)
    \<and> ec_timeout_seconds (synthesized_contract sample_plan) \<le> 300
    \<and> 0 < ec_install_timeout_seconds (synthesized_contract sample_plan)
    \<and> ec_install_timeout_seconds (synthesized_contract sample_plan) \<le> 1800"
  by (rule contract_commands_harmless [OF sample_contract_ok])


end
