(* ===== verification/GitReader.thy ===== *)
theory GitReader
  imports Models
begin

text \<open>
  The operations of \<open>src/patchproof/context_retrieval.py\<close> the pipeline's decisions rest on:
  reading the committed paths and files of an immutable revision, and the changed files of a pull
  request from the output of \<open>git diff --name-status -z\<close>. The \<open>git\<close> program is a parameter: the
  exit code and the standard output of a command, None when it could not run. The facts say which
  paths are accepted and that parsing recovers every change a well-formed output lists.
\<close>

section \<open>Bytes and text\<close>

text \<open>\<open>bytes.decode\<close> for UTF-8, on the two-byte sequences the 8-bit range needs, and for ASCII.\<close>

fun utf8_decode :: "bytes \<Rightarrow> string option" where
  "utf8_decode [] = Some []"
| "utf8_decode (b # bs) =
     (if unat b < 128 then map_option (Cons (char_of (unat b))) (utf8_decode bs)
      else case bs of
        c # cs \<Rightarrow>
          (if (unat b = 194 \<or> unat b = 195) \<and> 128 \<le> unat c \<and> unat c < 192
           then map_option (Cons (char_of ((unat b - 192) * 64 + (unat c - 128)))) (utf8_decode cs)
           else None)
      | [] \<Rightarrow> None)"

definition ascii_decode :: "bytes \<Rightarrow> string option" where
  "ascii_decode bs = (if list_all (\<lambda>b. unat b < 128) bs then Some (map (\<lambda>b. char_of (unat b)) bs) else None)"

definition unicode_error :: exn where
  "unicode_error = ValueError ''UnicodeDecodeError''"

definition ok_or :: "'e \<Rightarrow> 'a option \<Rightarrow> 'e + 'a" where
  "ok_or e x = (case x of None \<Rightarrow> Inl e | Some a \<Rightarrow> Inr a)"

section \<open>Paths\<close>

definition validate_repository_path :: "string \<Rightarrow> exn + string" where
  "validate_repository_path value =
     rbind (checks
       [(CHR 0x5C \<in> set value \<or> CHR 0x00 \<in> set value \<or> CHR 0x0A \<in> set value \<or> CHR 0x0D \<in> set value,
         ValueError ''repository path contains an unsupported character''),
        (value = [] \<or> is_absolute value \<or> as_posix value \<noteq> value \<or> list_ex bad_part (path_parts value),
         ValueError ''repository path must be a normalized relative POSIX path'')])
     (\<lambda>_. Inr value)"

fun error_message :: "exn \<Rightarrow> string" where
  "error_message (ValueError s) = s"
| "error_message _ = []"

definition decode_path :: "bytes \<Rightarrow> exn + string" where
  "decode_path value =
     (case utf8_decode value of
        None \<Rightarrow> Inl (ContextRetrievalError ''Git path is not valid UTF-8'')
      | Some path \<Rightarrow>
          (case validate_repository_path path of
             Inl e \<Rightarrow> Inl (ContextRetrievalError (error_message e))
           | Inr p \<Rightarrow> Inr p))"

definition is_test_path :: "string \<Rightarrow> bool" where
  "is_test_path path =
     (''tests'' \<in> set (path_parts path) \<or> startswith (path_name path) ''test_''
      \<or> endswith (path_name path) ''_test.py'')"

section \<open>Reading a revision\<close>

type_synonym git_program = "string list \<Rightarrow> (int \<times> bytes) option"

definition run_git :: "git_program \<Rightarrow> bool \<Rightarrow> string list \<Rightarrow> exn + int \<times> bytes" where
  "run_git git check arguments =
     (case git arguments of
        None \<Rightarrow> Inl (ContextRetrievalError ''Git command could not complete'')
      | Some (code, out) \<Rightarrow>
          (if check \<and> code \<noteq> 0 then Inl (ContextRetrievalError ''Git command failed with exit code'')
           else Inr (code, out)))"

definition resolve_sha :: "git_program \<Rightarrow> string \<Rightarrow> RevisionRole \<Rightarrow> exn + Revision" where
  "resolve_sha git value role =
     rbind (mk_Revision role value) (\<lambda>requested.
     rbind (run_git git True [''rev-parse'', ''--verify'', rev_sha requested @ ''^{commit}'']) (\<lambda>(_, out).
     rbind (ok_or unicode_error (ascii_decode out)) (\<lambda>text.
     rbind (mk_Revision role (strip text)) (\<lambda>actual.
       if rev_sha actual \<noteq> rev_sha requested
       then Inl (ContextRetrievalError ''revision did not resolve to the requested immutable SHA'')
       else Inr actual))))"

definition nul_tokens :: "bytes \<Rightarrow> bytes list" where
  "nul_tokens output = (if output = [] then [] else split_on 0 (rstrip_char 0 output))"

definition committed_paths :: "git_program \<Rightarrow> string \<Rightarrow> nat \<Rightarrow> exn + string list" where
  "committed_paths git revision_sha max_paths =
     rbind (guard (0 < max_paths) (ValueError ''committed path budget must be positive'')) (\<lambda>_.
     rbind (resolve_sha git revision_sha HEAD) (\<lambda>revision.
     rbind (run_git git True [''ls-tree'', ''-r'', ''-z'', ''--name-only'', rev_sha revision]) (\<lambda>(_, output).
       let raw_paths = nul_tokens output in
       if max_paths < length raw_paths
       then Inl (ContextRetrievalError ''immutable repository path count exceeds the safe overwrite-check budget'')
       else rbind (rmap decode_path raw_paths) (\<lambda>paths. Inr (remdups paths)))))"

definition read_committed_file :: "git_program \<Rightarrow> string \<Rightarrow> string \<Rightarrow> nat \<Rightarrow> exn + bytes" where
  "read_committed_file git revision_sha path max_bytes =
     rbind (guard (0 < max_bytes) (ValueError ''committed file byte budget must be positive'')) (\<lambda>_.
     rbind (resolve_sha git revision_sha HEAD) (\<lambda>revision.
     rbind (decode_path (utf8 path)) (\<lambda>normalized_path.
     rbind (run_git git False [''show'', rev_sha revision @ '':'' @ normalized_path]) (\<lambda>(code, out).
       if code \<noteq> 0 then
         Inl (ContextRetrievalError (''required committed file is unavailable: '' @ normalized_path))
       else if max_bytes < length out then
         Inl (ContextRetrievalError (''required committed file exceeds its byte budget: '' @ normalized_path))
       else Inr out))))"

section \<open>Changed files\<close>

datatype ChangeStatus =
    ADDED | MODIFIED | DELETED | RENAMED | COPIED | TYPE_CHANGED | UNMERGED | UNKNOWN

definition normalize_status :: "string \<Rightarrow> ChangeStatus" where
  "normalize_status value =
     (case map_of [(''A'', ADDED), (''M'', MODIFIED), (''D'', DELETED), (''R'', RENAMED), (''C'', COPIED),
                   (''T'', TYPE_CHANGED), (''U'', UNMERGED)] (take 1 value) of
        Some status \<Rightarrow> status | None \<Rightarrow> UNKNOWN)"

record ChangedFile =
  cf_path :: string
  cf_status :: ChangeStatus
  cf_previous_path :: "string option"
  cf_is_python :: bool
  cf_is_test :: bool

definition has_source :: "ChangeStatus \<Rightarrow> bool" where
  "has_source status = (status = RENAMED \<or> status = COPIED)"

definition mk_ChangedFile :: "ChangedFile \<Rightarrow> exn + ChangedFile" where
  "mk_ChangedFile f =
     rbind (validate_repository_path (cf_path f)) (\<lambda>_.
     rbind (case cf_previous_path f of None \<Rightarrow> Inr [] | Some p \<Rightarrow> validate_repository_path p) (\<lambda>_.
       if has_source (cf_status f) \<noteq> (cf_previous_path f \<noteq> None)
       then Inl (ValidationError ''renamed or copied files must identify exactly one previous path'')
       else Inr f))"

definition changed_file :: "ChangeStatus \<Rightarrow> string option \<Rightarrow> string \<Rightarrow> exn + ChangedFile" where
  "changed_file status previous_path path =
     mk_ChangedFile \<lparr>cf_path = path, cf_status = status, cf_previous_path = previous_path,
       cf_is_python = endswith path ''.py'', cf_is_test = is_test_path path\<rparr>"

fun parse_changes :: "bytes list \<Rightarrow> exn + ChangedFile list" where
  "parse_changes [] = Inr []"
| "parse_changes (token # rest) =
     rbind (ok_or unicode_error (ascii_decode token)) (\<lambda>status_token.
       let status = normalize_status status_token in
       if has_source status then
         (case rest of
            previous # path # rest' \<Rightarrow>
              rbind (decode_path previous) (\<lambda>previous_path.
              rbind (decode_path path) (\<lambda>path.
              rbind (changed_file status (Some previous_path) path) (\<lambda>file.
              rbind (parse_changes rest') (\<lambda>files. Inr (file # files)))))
          | _ \<Rightarrow> Inl (ContextRetrievalError ''Git returned an incomplete rename/copy record''))
       else
         (case rest of
            path # rest' \<Rightarrow>
              rbind (decode_path path) (\<lambda>path.
              rbind (changed_file status None path) (\<lambda>file.
              rbind (parse_changes rest') (\<lambda>files. Inr (file # files))))
          | [] \<Rightarrow> Inl (ContextRetrievalError ''Git returned an incomplete name-status record'')))"

definition changed_files :: "git_program \<Rightarrow> string \<Rightarrow> string \<Rightarrow> exn + ChangedFile list" where
  "changed_files git base_sha head_sha =
     rbind (run_git git True [''diff'', ''--name-status'', ''-z'', ''--find-renames=50%'', base_sha, head_sha, ''--''])
       (\<lambda>(_, output). parse_changes (nul_tokens output))"

section \<open>Decoding inverts encoding\<close>

lemma unat_byte: "n < 256 \<Longrightarrow> unat (of_nat n :: byte) = n"
  by (simp add: unat_of_nat take_bit_nat_eq_self)

lemma utf8_char_cases:
  "(of_char c :: nat) < 128 \<and> (\<exists>b. utf8_char c = [b] \<and> unat b = of_char c)
   \<or> (\<exists>b d. utf8_char c = [b, d] \<and> (unat b = 194 \<or> unat b = 195) \<and> 128 \<le> unat d \<and> unat d < 192
        \<and> (unat b - 192) * 64 + (unat d - 128) = (of_char c :: nat))"
proof (cases "(of_char c :: nat) < 128")
  case True
  then have "utf8_char c = [of_nat (of_char c)]" "unat (of_nat (of_char c) :: byte) = of_char c"
    by (simp_all add: utf8_char_def Let_def unat_of_nat take_bit_nat_eq_self)
  with True show ?thesis by blast
next
  case False
  let ?n = "of_char c :: nat"
  have range: "?n < 256" by simp
  have "128 div 64 \<le> ?n div 64" "?n div 64 \<le> 255 div 64"
    using range False by (intro div_le_mono; linarith)+
  then have d: "?n div 64 = 2 \<or> ?n div 64 = 3" by auto
  define b d where "b = (of_nat (192 + ?n div 64) :: byte)" and "d = (of_nat (128 + ?n mod 64) :: byte)"
  have "?n mod 64 < 64" by simp
  then have "unat b = 192 + ?n div 64" "unat d = 128 + ?n mod 64" "?n mod 64 < 64"
    unfolding b_def d_def using d unat_byte [of "192 + ?n div 64"] unat_byte [of "128 + ?n mod 64"] by linarith+
  moreover have "utf8_char c = [b, d]" using False by (simp add: utf8_char_def Let_def b_def d_def)
  moreover have "?n div 64 * 64 + ?n mod 64 = ?n" by simp
  ultimately show ?thesis using d by (intro disjI2 exI [of _ b] exI [of _ d]) auto
qed

lemma utf8_decode_char: "utf8_decode (utf8_char c @ bs) = map_option (Cons c) (utf8_decode bs)"
  using utf8_char_cases [of c]
proof
  assume "(of_char c :: nat) < 128 \<and> (\<exists>b. utf8_char c = [b] \<and> unat b = of_char c)"
  then show ?thesis by auto
next
  assume "\<exists>b d. utf8_char c = [b, d] \<and> (unat b = 194 \<or> unat b = 195) \<and> 128 \<le> unat d \<and> unat d < 192
        \<and> (unat b - 192) * 64 + (unat d - 128) = (of_char c :: nat)"
  then obtain b d where bd: "utf8_char c = [b, d]" "unat b = 194 \<or> unat b = 195"
    "128 \<le> unat d" "unat d < 192" "(unat b - 192) * 64 + (unat d - 128) = (of_char c :: nat)" by blast
  from bd(2) have "\<not> unat b < 128" by auto
  with bd show ?thesis by (simp only: append.simps utf8_decode.simps list.case if_False simp_thms if_True char_of_char)
qed

lemma utf8_decode_utf8 [simp]: "utf8_decode (utf8 s) = Some s"
  by (induction s) (simp_all add: utf8_decode_char utf8_def)

lemma of_char_0: "(of_char c :: nat) = 0 \<Longrightarrow> c = CHR 0x00"
proof -
  assume "(of_char c :: nat) = 0"
  then have "c = char_of (0 :: nat)" by (metis char_of_char)
  then show ?thesis by (simp add: char_of_def)
qed

lemma utf8_char_no_nul: "c \<noteq> CHR 0x00 \<Longrightarrow> 0 \<notin> set (utf8_char c)"
  using utf8_char_cases [of c] of_char_0 [of c] by (auto simp: unat_eq_0)

lemma utf8_no_nul: "CHR 0x00 \<notin> set s \<Longrightarrow> 0 \<notin> set (utf8 s)"
proof (induction s)
  case (Cons c s)
  then have "c \<noteq> CHR 0x00" by auto
  with Cons utf8_char_no_nul [of c] show ?case by (simp add: utf8_def)
qed (simp add: utf8_def)

text \<open>Output of \<open>git -z\<close>: tokens that are not empty and hold no NUL, each followed by one.\<close>

definition nul_terminated :: "bytes list \<Rightarrow> bytes" where
  "nul_terminated ts = concat (map (\<lambda>t. t @ [0]) ts)"

lemma nul_terminated_join: "ts \<noteq> [] \<Longrightarrow> nul_terminated ts = join [0] ts @ [0]"
  by (induction "[0 :: byte]" ts rule: join.induct) (simp_all add: nul_terminated_def)

lemma last_join: "ts \<noteq> [] \<Longrightarrow> last ts \<noteq> [] \<Longrightarrow> join sep ts \<noteq> [] \<and> last (join sep ts) = last (last ts)"
  by (induction sep ts rule: join.induct) auto

lemma rstrip_char_snoc: "w \<noteq> [] \<Longrightarrow> last w \<noteq> c \<Longrightarrow> rstrip_char c (w @ [c]) = w"
  by (cases w rule: rev_cases) (simp_all add: rstrip_char_def)

lemma nul_tokens_terminated:
  assumes "\<forall>t \<in> set ts. t \<noteq> [] \<and> 0 \<notin> set t"
  shows "nul_tokens (nul_terminated ts) = ts"
proof (cases "ts = []")
  case False
  then have "last ts \<in> set ts" by simp
  with assms have l: "last ts \<noteq> []" "0 \<notin> set (last ts)" by auto
  with last_join [OF False l(1), of "[0]"] have "join [0] ts \<noteq> []" "last (join [0] ts) \<noteq> 0"
    by (auto dest: last_in_set)
  then have "rstrip_char 0 (nul_terminated ts) = join [0] ts"
    by (simp add: nul_terminated_join [OF False] rstrip_char_snoc)
  moreover have "nul_terminated ts \<noteq> []" using False by (cases ts) (simp_all add: nul_terminated_def)
  ultimately show ?thesis using assms by (simp add: nul_tokens_def split_on_join [OF False])
qed (simp add: nul_terminated_def nul_tokens_def)

section \<open>Reading back a list of changes\<close>

definition repository_path :: "string \<Rightarrow> bool" where
  "repository_path p =
     ((p = ''.'' \<or> good_components p)
      \<and> CHR 0x5C \<notin> set p \<and> CHR 0x00 \<notin> set p \<and> CHR 0x0A \<notin> set p \<and> CHR 0x0D \<notin> set p)"

lemma validate_repository_path_iff: "validate_repository_path p = Inr q \<longleftrightarrow> q = p \<and> repository_path p"
  using normal_relative_iff [of p]
  by (auto simp: validate_repository_path_def repository_path_def guard_simps normal_relative_def)

lemma repository_path_nonempty: "repository_path p \<Longrightarrow> p \<noteq> []"
  using good_components_relative [of p] by (auto simp: repository_path_def)

lemma decode_path_utf8: "repository_path p \<Longrightarrow> decode_path (utf8 p) = Inr p"
  using validate_repository_path_iff [of p p] by (simp add: decode_path_def)

lemma repository_path_token: "repository_path p \<Longrightarrow> utf8 p \<noteq> [] \<and> 0 \<notin> set (utf8 p)"
  using repository_path_nonempty [of p] utf8_no_nul [of p] by (simp add: repository_path_def)

text \<open>An entry of the diff: the similarity score \<open>git\<close> appends to the status, and the change.\<close>

fun status_letter :: "ChangeStatus \<Rightarrow> char" where
  "status_letter ADDED = CHR ''A''"
| "status_letter MODIFIED = CHR ''M''"
| "status_letter DELETED = CHR ''D''"
| "status_letter RENAMED = CHR ''R''"
| "status_letter COPIED = CHR ''C''"
| "status_letter TYPE_CHANGED = CHR ''T''"
| "status_letter UNMERGED = CHR ''U''"
| "status_letter UNKNOWN = CHR ''X''"

definition change_tokens :: "string \<times> ChangedFile \<Rightarrow> bytes list" where
  "change_tokens = (\<lambda>(score, f).
     utf8 (status_letter (cf_status f) # score)
     # (case cf_previous_path f of None \<Rightarrow> [] | Some p \<Rightarrow> [utf8 p]) @ [utf8 (cf_path f)])"

definition change_ok :: "string \<times> ChangedFile \<Rightarrow> bool" where
  "change_ok = (\<lambda>(score, f).
     list_all is_digit score \<and> repository_path (cf_path f)
     \<and> (case cf_previous_path f of None \<Rightarrow> \<not> has_source (cf_status f)
        | Some p \<Rightarrow> has_source (cf_status f) \<and> repository_path p)
     \<and> cf_is_python f = endswith (cf_path f) ''.py'' \<and> cf_is_test f = is_test_path (cf_path f))"

definition name_status_output :: "(string \<times> ChangedFile) list \<Rightarrow> bytes" where
  "name_status_output entries = nul_terminated (concat (map change_tokens entries))"

lemma ascii_decode_utf8: "\<forall>c \<in> set s. (of_char c :: nat) < 128 \<Longrightarrow> ascii_decode (utf8 s) = Some s"
proof (induction s)
  case (Cons c s)
  then have "(of_char c :: nat) < 128" by simp
  with utf8_char_cases [of c] obtain b where b: "utf8_char c = [b]" "unat b = of_char c"
    by (auto simp: utf8_char_def Let_def)
  from Cons have "ascii_decode (utf8 s) = Some s" by simp
  then have s: "list_all (\<lambda>b. unat b < 128) (utf8 s)" "map (\<lambda>b. char_of (unat b)) (utf8 s) = s"
    by (auto simp: ascii_decode_def split: if_splits)
  have "utf8 (c # s) = b # utf8 s" using b by (simp add: utf8_def)
  with s b Cons.prems show ?case by (simp add: ascii_decode_def)
qed (simp add: ascii_decode_def utf8_def)

lemma status_token_ascii:
  "list_all is_digit score \<Longrightarrow> \<forall>c \<in> set (status_letter st # score). (of_char c :: nat) < 128"
  by (cases st) (auto simp: list_all_iff is_digit_def in_range_def dest!: bspec)

lemma normalize_letter: "normalize_status (status_letter st # score) = st"
  by (cases st) (simp_all add: normalize_status_def)

lemma changed_file_ok:
  "change_ok (score, f) \<Longrightarrow> changed_file (cf_status f) (cf_previous_path f) (cf_path f) = Inr f"
  using validate_repository_path_iff
  by (auto simp: change_ok_def changed_file_def mk_ChangedFile_def guard_simps split: option.splits)

lemma parse_changes_tokens:
  "change_ok e \<Longrightarrow> parse_changes (change_tokens e @ ts)
     = rbind (parse_changes ts) (\<lambda>files. Inr (snd e # files))"
proof -
  assume ok: "change_ok e"
  obtain score f where e: "e = (score, f)" by (cases e)
  note f = ok [unfolded e]
  from f have asc: "ascii_decode (utf8 (status_letter (cf_status f) # score)) = Some (status_letter (cf_status f) # score)"
    by (intro ascii_decode_utf8 status_token_ascii) (simp add: change_ok_def)
  from f have p: "decode_path (utf8 (cf_path f)) = Inr (cf_path f)"
    by (simp add: change_ok_def decode_path_utf8)
  note cf = changed_file_ok [OF f]
  show ?thesis
  proof (cases "cf_previous_path f")
    case None
    with f have "\<not> has_source (cf_status f)" by (simp add: change_ok_def)
    with asc p cf None show ?thesis
      by (simp add: e change_tokens_def ok_or_def normalize_letter)
  next
    case (Some q)
    with f have "has_source (cf_status f)" "decode_path (utf8 q) = Inr q"
      by (auto simp: change_ok_def decode_path_utf8)
    with asc p cf Some show ?thesis
      by (simp add: e change_tokens_def ok_or_def normalize_letter)
  qed
qed

lemma parse_all_changes:
  "list_all change_ok es \<Longrightarrow> parse_changes (concat (map change_tokens es)) = Inr (map snd es)"
  by (induction es) (simp_all add: parse_changes_tokens)

lemma change_tokens_clean: "change_ok e \<Longrightarrow> t \<in> set (change_tokens e) \<Longrightarrow> t \<noteq> [] \<and> 0 \<notin> set t"
proof -
  assume ok: "change_ok e" and t: "t \<in> set (change_tokens e)"
  obtain score f where e: "e = (score, f)" by (cases e)
  have "CHR 0x00 \<notin> set (status_letter (cf_status f) # score)"
    using ok by (cases "cf_status f") (auto simp: e change_ok_def list_all_iff is_digit_def in_range_def)
  then have "0 \<notin> set (utf8 (status_letter (cf_status f) # score))" by (rule utf8_no_nul)
  with ok t repository_path_token show ?thesis
    by (auto simp: e change_ok_def change_tokens_def split: option.splits)
qed

text \<open>
  C37: The changed files are read back exactly: when \<open>git diff --name-status -z\<close> prints a list of
  changes with repository paths, where the renames and copies (and only they) carry a source and
  a status may carry a similarity score, the parser returns those changes in order, whatever
  characters other than NUL, backslash and line breaks their names contain.
\<close>

theorem changed_files_roundtrip:
  assumes "git [''diff'', ''--name-status'', ''-z'', ''--find-renames=50%'', base_sha, head_sha, ''--'']
           = Some (0, name_status_output entries)"
    and "list_all change_ok entries"
  shows "changed_files git base_sha head_sha = Inr (map snd entries)"
proof -
  have "\<forall>t \<in> set (concat (map change_tokens entries)). t \<noteq> [] \<and> 0 \<notin> set t"
    using assms(2) change_tokens_clean by (auto simp: list_all_iff)
  then have "nul_tokens (name_status_output entries) = concat (map change_tokens entries)"
    unfolding name_status_output_def by (rule nul_tokens_terminated)
  with parse_all_changes [OF assms(2)] show ?thesis
    by (simp add: changed_files_def run_git_def assms(1))
qed

definition sample_changes :: "(string \<times> ChangedFile) list" where
  "sample_changes =
     [(''100'', \<lparr>cf_path = ''b'', cf_status = RENAMED, cf_previous_path = Some ''a'',
                 cf_is_python = False, cf_is_test = False\<rparr>)]"

definition sample_git :: git_program where
  "sample_git arguments = Some (0, name_status_output sample_changes)"

theorem changed_files_roundtrip_witness:
  "changed_files sample_git [] [] = Inr (map snd sample_changes)"
proof (rule changed_files_roundtrip)
  have "repository_path [c]" if "c \<in> set ''ab''" for c
    using that by (auto simp: repository_path_def good_components_def bad_part_def)
  moreover have "endswith ''b'' ''.py'' = False" by (simp add: endswith_def)
  moreover have "is_test_path ''b'' = False"
    by (simp add: is_test_path_def path_parts_def path_root_def splitroot_def path_tail_def path_name_def endswith_def)
  ultimately show "list_all change_ok sample_changes"
    by (simp add: sample_changes_def change_ok_def has_source_def is_digit_def in_range_def)
qed (simp add: sample_git_def)

end
