(* ===== verification/PyGroups.thy ===== *)
theory PyGroups
  imports PyRegex
begin

text \<open>
  What the groups of a match hold. \<open>glang r u h\<close> says that reading \<open>u\<close> with \<open>r\<close> can bind the
  groups \<open>h\<close> (the latest first); every match the engine reports is one of these readings. With
  them come Python's \<open>int()\<close> on decimal text and its inverse \<open>str()\<close>.
\<close>

type_synonym groups = "(string \<times> string) list"

primrec glang :: "regex \<Rightarrow> string \<Rightarrow> groups \<Rightarrow> bool" where
  "glang Eps u h = (u = [] \<and> h = [])"
| "glang (Cls P) u h = ((\<exists>c. u = [c] \<and> P c) \<and> h = [])"
| "glang (Seq a b) u h = (\<exists>x y i j. u = x @ y \<and> h = j @ i \<and> glang a x i \<and> glang b y j)"
| "glang (Alt a b) u h = (glang a u h \<or> glang b u h)"
| "glang (Rep a m mx) u h =
     (\<exists>us. u = concat (map fst us) \<and> h = concat (rev (map snd us)) \<and> m \<le> length us
        \<and> at_most (length us) mx \<and> (\<forall>x \<in> set us. fst x \<noteq> [] \<and> glang a (fst x) (snd x)))"
| "glang (Grp n a) u h = (\<exists>i. h = (n, u) # i \<and> glang a u i)"
| "glang (NotBehind P) u h = (u = [] \<and> h = [])"
| "glang (NotAhead P) u h = (u = [] \<and> h = [])"
| "glang WordB u h = (u = [] \<and> h = [])"

definition gsound_for :: "(string \<Rightarrow> groups \<Rightarrow> bool) \<Rightarrow> (rstate \<Rightarrow> rstate list) \<Rightarrow> bool" where
  "gsound_for L f = (\<forall>p w g p' w' g'. (p', w', g') \<in> set (f (p, w, g)) \<longrightarrow>
     (\<exists>u h. w = u @ w' \<and> p' = rev u @ p \<and> g' = h @ g \<and> L u h))"

lemma gsound_forD:
  "gsound_for L f \<Longrightarrow> (p', w', g') \<in> set (f (p, w, g)) \<Longrightarrow>
     \<exists>u h. w = u @ w' \<and> p' = rev u @ p \<and> g' = h @ g \<and> L u h"
  unfolding gsound_for_def by blast

lemma rep_m_gsound:
  assumes f: "gsound_for L f"
  shows "(p', w', g') \<in> set (rep_m f k m mx (p, w, g)) \<Longrightarrow>
     \<exists>us. w = concat (map fst us) @ w' \<and> p' = rev (concat (map fst us)) @ p
       \<and> g' = concat (rev (map snd us)) @ g \<and> m \<le> length us \<and> at_most (length us) mx
       \<and> (\<forall>x \<in> set us. fst x \<noteq> [] \<and> L (fst x) (snd x))"
proof (induction k arbitrary: m mx p g w)
  case 0
  then show ?case by (intro exI [of _ "[]"]) (auto simp: at_most_def split: if_splits option.splits)
next
  case (Suc k)
  show ?case
  proof (cases "m = 0 \<and> (p', w', g') = (p, w, g)")
    case True
    then show ?thesis by (intro exI [of _ "[]"]) (auto simp: at_most_def split: option.splits)
  next
    case False
    with Suc.prems have mx: "mx \<noteq> Some 0" by (auto split: if_splits)
    with False Suc.prems obtain p1 w1 g1 where
      step: "(p1, w1, g1) \<in> set (f (p, w, g))" and shorter: "length w1 < length w"
      and rest: "(p', w', g') \<in> set (rep_m f k (m - 1) (map_option (\<lambda>n. n - 1) mx) (p1, w1, g1))"
      by (auto split: if_splits)
    from gsound_forD [OF f step] obtain u h
      where u: "w = u @ w1" "p1 = rev u @ p" "g1 = h @ g" "L u h" by blast
    from Suc.IH [OF rest] obtain us where us: "w1 = concat (map fst us) @ w'"
      "p' = rev (concat (map fst us)) @ p1" "g' = concat (rev (map snd us)) @ g1"
      "m - 1 \<le> length us" "at_most (length us) (map_option (\<lambda>n. n - 1) mx)"
      "\<forall>x \<in> set us. fst x \<noteq> [] \<and> L (fst x) (snd x)" by blast
    from shorter u(1) have "u \<noteq> []" by auto
    with u us at_most_Suc [OF mx, of "length us"] show ?thesis
      by (intro exI [of _ "(u, h) # us"]) auto
  qed
qed

lemma matches_gsound: "gsound_for (glang r) (matches r)"
proof (induction r)
  case (Cls P)
  then show ?case by (auto simp: gsound_for_def split: list.splits)
next
  case (Seq a b)
  show ?case unfolding gsound_for_def
  proof (intro allI impI)
    fix p w g p' w' g'
    assume "(p', w', g') \<in> set (matches (Seq a b) (p, w, g))"
    then obtain p1 w1 g1 where 1: "(p1, w1, g1) \<in> set (matches a (p, w, g))"
      and 2: "(p', w', g') \<in> set (matches b (p1, w1, g1))" by auto
    from gsound_forD [OF Seq(1) 1] obtain u h where u: "w = u @ w1" "p1 = rev u @ p" "g1 = h @ g" "glang a u h" by blast
    from gsound_forD [OF Seq(2) 2] obtain v i where v: "w1 = v @ w'" "p' = rev v @ p1" "g' = i @ g1" "glang b v i" by blast
    from u v show "\<exists>u h. w = u @ w' \<and> p' = rev u @ p \<and> g' = h @ g \<and> glang (Seq a b) u h"
      by (intro exI [of _ "u @ v"] exI [of _ "i @ h"]) auto
  qed
next
  case (Rep a m mx)
  show ?case unfolding gsound_for_def
  proof (intro allI impI)
    fix p w g p' w' g'
    assume "(p', w', g') \<in> set (matches (Rep a m mx) (p, w, g))"
    then have "(p', w', g') \<in> set (rep_m (matches a) (Suc (length w)) m mx (p, w, g))" by (simp del: rep_m.simps)
    from rep_m_gsound [OF Rep this]
    show "\<exists>u h. w = u @ w' \<and> p' = rev u @ p \<and> g' = h @ g \<and> glang (Rep a m mx) u h"
      unfolding glang.simps by blast
  qed
next
  case (Alt a b)
  show ?case unfolding gsound_for_def using gsound_forD [OF Alt(1)] gsound_forD [OF Alt(2)] by simp blast
next
  case (Grp n a)
  show ?case unfolding gsound_for_def
  proof (intro allI impI)
    fix p w g p' w' g'
    assume "(p', w', g') \<in> set (matches (Grp n a) (p, w, g))"
    then obtain g1 where 1: "(p', w', g1) \<in> set (matches a (p, w, g))"
      and g': "g' = (n, rev (take (length p' - length p) p')) # g1" by auto
    from gsound_forD [OF Grp 1] obtain u h where u: "w = u @ w'" "p' = rev u @ p" "g1 = h @ g" "glang a u h" by blast
    with g' show "\<exists>u h. w = u @ w' \<and> p' = rev u @ p \<and> g' = h @ g \<and> glang (Grp n a) u h"
      by (intro exI [of _ u] exI [of _ "(n, u) # h"]) simp
  qed
qed (auto simp: gsound_for_def split: list.splits if_splits)

lemma fullmatch_groups: "fullmatch r s = Some g \<Longrightarrow> glang r s g"
proof -
  assume "fullmatch r s = Some g"
  then obtain p where "(p, [], g) \<in> set (matches r ([], s, []))" using fullmatch_in_matches by blast
  from gsound_forD [OF matches_gsound this] show ?thesis by auto
qed

text \<open>The shapes the source's patterns with groups have.\<close>

lemma glang_lit [simp]: "glang (lit s) u h \<longleftrightarrow> u = s \<and> h = []"
  by (induction s arbitrary: u h) (auto simp: lit.simps)

lemma glang_Rep_Cls [simp]:
  "glang (Rep (Cls P) m mx) u h \<longleftrightarrow>
     h = [] \<and> m \<le> length u \<and> at_most (length u) mx \<and> (\<forall>c \<in> set u. P c)"
  (is "?L \<longleftrightarrow> ?R")
proof
  assume ?L
  then obtain us where us: "u = concat (map fst us)" "h = concat (rev (map snd us))" "m \<le> length us"
    "at_most (length us) mx" "\<forall>x \<in> set us. (\<exists>c. fst x = [c] \<and> P c) \<and> snd x = []" by auto
  have "(\<forall>x \<in> set us. (\<exists>c. fst x = [c] \<and> P c) \<and> snd x = []) \<Longrightarrow>
      length (concat (map fst us)) = length us \<and> (\<forall>c \<in> set (concat (map fst us)). P c)
      \<and> concat (rev (map snd us)) = []" by (induction us) auto
  with us show ?R by simp
next
  assume R: ?R
  have "u = concat (map fst (map (\<lambda>c. ([c], [])) u))" by (induction u) auto
  moreover have "concat (rev (map snd (map (\<lambda>c. ([c], [])) u))) = []" by (induction u) auto
  ultimately show ?L using R
    by (simp only: glang.simps) (intro exI [of _ "map (\<lambda>c. ([c], [])) u"], auto)
qed

lemma glang_opt_lit: "glang (opt (lit (c # s))) u h \<Longrightarrow> (u = [] \<or> u = c # s) \<and> h = []"
proof -
  assume "glang (opt (lit (c # s))) u h"
  then obtain us where us: "u = concat (map fst us)" "h = concat (rev (map snd us))" "length us \<le> 1"
    "\<forall>x \<in> set us. fst x = c # s \<and> snd x = []" by (auto simp del: glang.simps simp: glang.simps(5))
  then show ?thesis by (cases us) auto
qed

declare glang.simps(5) [simp del]

section \<open>Decimal integers\<close>

text \<open>\<open>int(text)\<close>: surrounding white space, a sign, digits with single underscores between them.\<close>

fun int_body :: "bool \<Rightarrow> nat \<Rightarrow> string \<Rightarrow> nat option" where
  "int_body after_digit acc [] = (if after_digit then Some acc else None)"
| "int_body after_digit acc (c # s) =
     (if is_digit c then int_body True (acc * 10 + (of_char c - 48)) s
      else if c = CHR ''_'' \<and> after_digit then int_body False acc s else None)"

definition py_int :: "string \<Rightarrow> int option" where
  "py_int text = (case strip text of
     c # s \<Rightarrow> if c = CHR ''-'' then map_option (\<lambda>n. - int n) (int_body False 0 s)
             else if c = CHR ''+'' then map_option int (int_body False 0 s)
             else map_option int (int_body False 0 (c # s))
   | [] \<Rightarrow> None)"

definition digit_value :: "char \<Rightarrow> nat" where
  "digit_value c = of_char c - 48"

lemma digit_char: "n < 10 \<Longrightarrow> is_digit (char_of (48 + n :: nat)) \<and> digit_value (char_of (48 + n :: nat)) = n"
  by (simp add: is_digit_def in_range_def digit_value_def)

lemma digits_rev_digits: "\<forall>c \<in> set (digits_rev n). is_digit c"
proof (induction n rule: digits_rev.induct)
  case (1 n)
  then show ?case by (subst digits_rev.simps) (auto simp: digit_char)
qed

fun value_rev :: "string \<Rightarrow> nat" where
  "value_rev [] = 0"
| "value_rev (c # s) = digit_value c + 10 * value_rev s"

lemma value_digits_rev: "value_rev (digits_rev n) = n"
proof (induction n rule: digits_rev.induct)
  case (1 n)
  then show ?case by (subst digits_rev.simps) (auto simp: digit_char)
qed

lemma int_body_digits:
  "\<forall>c \<in> set s. is_digit c \<Longrightarrow> b \<or> s \<noteq> [] \<Longrightarrow>
     int_body b acc s = Some (foldl (\<lambda>a c. a * 10 + digit_value c) acc s)"
  by (induction s arbitrary: b acc) (auto simp: digit_value_def)

lemma foldl_value: "foldl (\<lambda>a c. a * 10 + digit_value c) 0 (rev s) = value_rev s"
  by (induction s) simp_all

lemma int_body_str_nat: "int_body False 0 (str_nat n) = Some n"
  using digits_rev_digits [of n]
  by (simp add: str_nat_def int_body_digits foldl_value value_digits_rev)

end
