(* ===== verification/PrResolution.thy ===== *)
theory PrResolution
  imports PyGroups Workflow
begin

text \<open>
  \<open>src/patchproof/pr_resolution.py\<close>: parsing a pull-request URL and resolving it with one
  bounded response of GitHub's REST endpoint. The exchange with the server is an argument: no
  response, or a status, headers and the body as it streams in, which may break off or outlast the
  deadline; so is the JSON decoder, which gives the typed fields. The facts say that a URL is
  brought to one canonical form and that resolution never trusts a response that is not the one
  asked for.
\<close>

section \<open>URLs\<close>

definition url_name_char :: "char \<Rightarrow> bool" where
  "url_name_char c = (is_alnum c \<or> c \<in> set ''_.-'')"

definition nonzero_digit :: "char \<Rightarrow> bool" where
  "nonzero_digit c = in_range (CHR ''1'') (CHR ''9'') c"

definition pr_url_pattern :: regex where
  "pr_url_pattern = seqs
     [lit ''https://github.com/'', Grp ''owner'' (plus_re (Cls url_name_char)), lit ''/'',
      Grp ''repo'' (plus_re (Cls url_name_char)), lit ''/pull/'',
      Grp ''number'' (Seq (Cls nonzero_digit) (star (Cls is_digit))), opt (lit ''/'')]"

definition sha1_pattern :: regex where
  "sha1_pattern = times_re (Cls is_lower_hex) 40"

record ParsedPullRequest =
  pp_repository :: string
  pp_number :: int
  pp_url :: string

definition pull_url :: "string \<Rightarrow> int \<Rightarrow> string" where
  "pull_url repository number = ''https://github.com/'' @ repository @ ''/pull/'' @ str_int number"

definition get_group :: "(string \<times> string) list \<Rightarrow> string \<Rightarrow> string" where
  "get_group groups name = (case map_of groups name of None \<Rightarrow> [] | Some s \<Rightarrow> s)"

definition parse_github_pull_request_url :: "string \<Rightarrow> exn + ParsedPullRequest" where
  "parse_github_pull_request_url value =
     (case fullmatch pr_url_pattern (strip value) of
        None \<Rightarrow> Inl (PullRequestUrlError ''expected a GitHub PR URL like https://github.com/owner/repo/pull/123'')
      | Some groups \<Rightarrow>
          rbind (normalize_repository_name (get_group groups ''owner'' @ ''/'' @ get_group groups ''repo'')) (\<lambda>repository.
          rbind (case py_int (get_group groups ''number'') of None \<Rightarrow> Inl (ValueError ''int'') | Some n \<Rightarrow> Inr n) (\<lambda>number.
            if number \<le> 0 then Inl (ValidationError ''number'')
            else Inr \<lparr>pp_repository = repository, pp_number = number, pp_url = pull_url repository number\<rparr>)))"

section \<open>Resolved metadata\<close>

record ResolvedPullRequest =
  rp_repository :: string
  rp_number :: int
  rp_url :: string
  rp_base_sha :: string
  rp_head_sha :: string
  rp_title :: string
  rp_body :: string
  rp_updated_at :: utc

definition mk_ResolvedPullRequest ::
    "string \<Rightarrow> int \<Rightarrow> string \<Rightarrow> string \<Rightarrow> string \<Rightarrow> string \<Rightarrow> string \<Rightarrow> datetime \<Rightarrow> exn + ResolvedPullRequest" where
  "mk_ResolvedPullRequest repository number url base_sha head_sha title body updated_at =
     rbind (normalize_repository_name repository) (\<lambda>repo.
     rbind (to_utc (ValidationError ''pull-request update timestamp must include a timezone'') updated_at) (\<lambda>ts.
     rbind (checks
       [(number \<le> 0, ValidationError ''number''),
        (\<not> is_fullmatch sha1_pattern (lower base_sha), ValidationError ''GitHub revision must be one full SHA-1''),
        (\<not> is_fullmatch sha1_pattern (lower head_sha), ValidationError ''GitHub revision must be one full SHA-1''),
        (\<not> len_between 1 300 title, ValidationError ''title''),
        (8000 < length body, ValidationError ''body''),
        (url \<noteq> pull_url repo number, ValidationError ''resolved pull-request URL differs from its identity''),
        (lower base_sha = lower head_sha, ValidationError ''resolved BASE and HEAD revisions must differ'')]) (\<lambda>_.
     Inr \<lparr>rp_repository = repo, rp_number = number, rp_url = url, rp_base_sha = lower base_sha,
          rp_head_sha = lower head_sha, rp_title = title, rp_body = body, rp_updated_at = ts\<rparr>)))"

section \<open>The bounded response\<close>

datatype stream_end = Complete | Broken | Expired

record http_response =
  hr_status_code :: int
  hr_headers :: "(string \<times> string) list"
  hr_chunks :: "bytes list"
  hr_end :: stream_end

datatype http_exchange = HttpError | DeadlineExceeded | Response http_response

definition header :: "http_response \<Rightarrow> string \<Rightarrow> string option" where
  "header r name = map_of (hr_headers r) name"

definition header_or_empty :: "http_response \<Rightarrow> string \<Rightarrow> string" where
  "header_or_empty r name = (case header r name of None \<Rightarrow> [] | Some v \<Rightarrow> v)"

definition is_rate_limited :: "http_response \<Rightarrow> bool" where
  "is_rate_limited r =
     (strip (header_or_empty r ''x-ratelimit-remaining'') = ''0''
      \<or> strip (header_or_empty r ''retry-after'') \<noteq> [])"

text \<open>Reading chunks into a buffer that may not outgrow its limit.\<close>

fun bounded_chunks :: "nat \<Rightarrow> 'e \<Rightarrow> bytes \<Rightarrow> bytes list \<Rightarrow> 'e + bytes" where
  "bounded_chunks limit e content [] = Inr content"
| "bounded_chunks limit e content (chunk # chunks) =
     (if limit < length content + length chunk then Inl e
      else bounded_chunks limit e (content @ chunk) chunks)"

definition unavailable :: exn where
  "unavailable = PullRequestUpstreamError ''GitHub pull-request resolution was unavailable''"

definition deadline_error :: exn where
  "deadline_error = PullRequestUpstreamError ''GitHub pull-request resolution exceeded its overall deadline''"

definition oversized :: exn where
  "oversized = PullRequestResolutionError ''GitHub pull-request response exceeded its byte limit''"

definition check_status :: "http_response \<Rightarrow> exn + unit" where
  "check_status r = checks
     [(hr_status_code r = 404, PullRequestResolutionError ''GitHub pull request was not found''),
      (hr_status_code r = 429 \<or> 500 \<le> hr_status_code r,
       PullRequestUpstreamError ''GitHub pull-request resolution was temporarily unavailable''),
      (hr_status_code r = 401 \<or> hr_status_code r = 403 \<and> is_rate_limited r,
       PullRequestUpstreamError ''GitHub pull-request resolution was temporarily unavailable''),
      (hr_status_code r \<noteq> 200, PullRequestResolutionError ''GitHub pull-request resolution failed'')]"

definition check_declared :: "http_response \<Rightarrow> nat \<Rightarrow> exn + unit" where
  "check_declared r max_response_bytes =
     (case header r ''content-length'' of
        None \<Rightarrow> Inr ()
      | Some declared \<Rightarrow>
          (case py_int declared of
             None \<Rightarrow> Inl (PullRequestResolutionError ''GitHub returned an invalid response length'')
           | Some n \<Rightarrow>
               (if n < 0 then Inl (PullRequestResolutionError ''GitHub returned an invalid response length'')
                else if int max_response_bytes < n then Inl oversized else Inr ())))"

definition read_response :: "nat \<Rightarrow> http_exchange \<Rightarrow> exn + bytes" where
  "read_response max_response_bytes exchange =
     (case exchange of
        HttpError \<Rightarrow> Inl unavailable
      | DeadlineExceeded \<Rightarrow> Inl deadline_error
      | Response r \<Rightarrow>
          rbind (check_status r) (\<lambda>_. rbind (check_declared r max_response_bytes) (\<lambda>_.
          rbind (bounded_chunks max_response_bytes oversized [] (hr_chunks r)) (\<lambda>content.
            case hr_end r of Complete \<Rightarrow> Inr content | Broken \<Rightarrow> Inl unavailable | Expired \<Rightarrow> Inl deadline_error))))"

section \<open>Resolution\<close>

record github_pull =
  gp_number :: int
  gp_html_url :: string
  gp_title :: string
  gp_body :: "string option"
  gp_updated_at :: datetime
  gp_base_sha :: string
  gp_full_name :: string
  gp_private :: bool
  gp_head_sha :: string

definition pull_fields_ok :: "github_pull \<Rightarrow> bool" where
  "pull_fields_ok p = (0 < gp_number p \<and> len_between 3 256 (gp_full_name p))"

definition invalid_metadata :: exn where
  "invalid_metadata = PullRequestResolutionError ''GitHub returned invalid pull-request metadata''"

text \<open>\<open>except ValueError\<close> around a computation.\<close>

definition catch_value_error :: "exn \<Rightarrow> exn + 'a \<Rightarrow> exn + 'a" where
  "catch_value_error e r = (case r of Inl e' \<Rightarrow> if is_value_error e' then Inl e else Inl e' | Inr a \<Rightarrow> Inr a)"

definition bounded_title :: "string \<Rightarrow> string" where
  "bounded_title title = take 300 (or_str (join '' '' (split_ws title)) ''Untitled pull request'')"

definition bounded_body :: "string option \<Rightarrow> string" where
  "bounded_body body = take 8000 (case body of None \<Rightarrow> [] | Some b \<Rightarrow> b)"

definition decode_pull :: "(bytes \<Rightarrow> github_pull option) \<Rightarrow> bytes \<Rightarrow> exn + (github_pull \<times> string \<times> ParsedPullRequest)" where
  "decode_pull json raw =
     (case json raw of
        None \<Rightarrow> Inl (ValidationError ''json'')
      | Some response \<Rightarrow>
          rbind (guard (pull_fields_ok response) (ValidationError ''fields'')) (\<lambda>_.
          rbind (normalize_repository_name (gp_full_name response)) (\<lambda>response_repository.
          rbind (parse_github_pull_request_url (gp_html_url response)) (\<lambda>response_url.
            Inr (response, response_repository, response_url)))))"

definition resolve_pull_request ::
    "nat \<Rightarrow> (bytes \<Rightarrow> github_pull option) \<Rightarrow> http_exchange \<Rightarrow> ParsedPullRequest \<Rightarrow> exn + ResolvedPullRequest" where
  "resolve_pull_request max_response_bytes json exchange parsed =
     rbind (read_response max_response_bytes exchange) (\<lambda>raw.
     rbind (catch_value_error invalid_metadata (decode_pull json raw))
       (\<lambda>(response, response_repository, response_url).
     rbind (checks
       [(gp_private response, PullRequestResolutionError ''private repositories are not supported''),
        (gp_number response \<noteq> pp_number parsed \<or> response_repository \<noteq> pp_repository parsed
           \<or> pp_repository response_url \<noteq> pp_repository parsed \<or> pp_number response_url \<noteq> pp_number parsed,
         PullRequestResolutionError ''GitHub pull-request identity did not match the request'')]) (\<lambda>_.
     catch_value_error invalid_metadata
       (mk_ResolvedPullRequest (pp_repository parsed) (pp_number parsed) (pp_url parsed)
          (gp_base_sha response) (gp_head_sha response) (bounded_title (gp_title response))
          (bounded_body (gp_body response)) (gp_updated_at response)))))"

definition mk_resolver :: "seconds \<Rightarrow> nat \<Rightarrow> string option \<Rightarrow> exn + string option" where
  "mk_resolver timeout_seconds max_response_bytes token =
     rbind (checks
       [(\<not> (0 < timeout_seconds \<and> timeout_seconds \<le> 15) \<or> \<not> (1024 \<le> max_response_bytes \<and> max_response_bytes \<le> 1048576),
         ValueError ''GitHub resolver limits are invalid''),
        (case token of None \<Rightarrow> False
         | Some t \<Rightarrow> strip t = [] \<or> CHR 0x0D \<in> set t \<or> CHR 0x0A \<in> set t,
         ValueError ''GitHub resolver token is invalid'')])
     (\<lambda>_. Inr (map_option strip token))"

section \<open>Canonical URLs\<close>

lemma url_name_lower: "url_name_char c \<Longrightarrow> repository_char (lower_char c)"
  by (auto simp: url_name_char_def is_alnum_def in_range_def repository_char_def is_digit_def lower_char_def Let_def)

lemma repository_char_url: "repository_char c \<Longrightarrow> url_name_char c \<and> c \<noteq> CHR ''/'' \<and> \<not> is_space c"
  by (auto simp: url_name_char_def is_alnum_def in_range_def repository_char_def is_digit_def is_space_def)

lemma url_name_not_slash: "url_name_char c \<Longrightarrow> c \<noteq> CHR ''/'' \<and> \<not> is_space c"
  by (auto simp: url_name_char_def is_alnum_def in_range_def is_space_def)

definition name_ok :: "string \<Rightarrow> bool" where
  "name_ok s = (s \<noteq> [] \<and> (\<forall>c \<in> set s. url_name_char c))"

lemma lstrip_first: "s \<noteq> [] \<Longrightarrow> \<not> is_space (hd s) \<Longrightarrow> lstrip s = s"
  by (cases s) (simp_all add: lstrip_def)

lemma rstrip_last: "s \<noteq> [] \<Longrightarrow> \<not> is_space (last s) \<Longrightarrow> rstrip s = s"
  by (cases s rule: rev_cases) (simp_all add: rstrip_def)

lemma strip_ends: "s \<noteq> [] \<Longrightarrow> \<not> is_space (hd s) \<Longrightarrow> \<not> is_space (last s) \<Longrightarrow> strip s = s"
  by (simp add: strip_def lstrip_first rstrip_last)

lemma lower_char_slash [simp]: "lower_char (CHR ''/'') = CHR ''/''"
  by (simp add: lower_char_def)

lemma lower_names: "lower (owner @ ''/'' @ repo) = lower owner @ ''/'' @ lower repo"
  by (simp add: lower_def)

lemma normalize_names:
  assumes "name_ok owner" "name_ok repo"
  shows "normalize_repository_name (owner @ ''/'' @ repo) = Inr (lower owner @ ''/'' @ lower repo)"
proof -
  have "strip (owner @ ''/'' @ repo) = owner @ ''/'' @ repo"
    using assms url_name_not_slash by (intro strip_ends) (auto simp: name_ok_def)
  moreover have "is_fullmatch repository_pattern (lower owner @ ''/'' @ lower repo)"
    unfolding repository_iff using assms url_name_lower
    by (intro exI [of _ "lower owner"] exI [of _ "lower repo"]) (auto simp: name_ok_def lower_def list_all_iff)
  ultimately show ?thesis by (simp only: normalize_repository_name_def Let_def lower_names not_True_eq_False if_False)
qed

lemma normalize_ok_shape:
  assumes "normalize_repository_name v = Inr r"
  shows "\<exists>owner name. r = owner @ ''/'' @ name \<and> name_ok owner \<and> name_ok name \<and> lower r = r"
proof -
  from assms have r: "r = lower (strip v)" "is_fullmatch repository_pattern r"
    by (auto simp: normalize_repository_name_def Let_def split: if_splits)
  from r(2) [unfolded repository_iff] obtain owner name where
    n: "r = owner @ CHR ''/'' # name" "owner \<noteq> []" "name \<noteq> []" "list_all repository_char owner"
      "list_all repository_char name" by blast
  then have "name_ok owner" "name_ok name" using repository_char_url by (auto simp: name_ok_def list_all_iff)
  moreover have "lower r = r" unfolding r(1) by (rule lower_idem)
  ultimately show ?thesis using n(1) by (intro exI [of _ owner] exI [of _ name]) simp
qed

lemma slash_split:
  "a @ CHR ''/'' # b = c @ CHR ''/'' # d \<Longrightarrow> CHR ''/'' \<notin> set a \<Longrightarrow> CHR ''/'' \<notin> set c \<Longrightarrow> a = c \<and> b = d"
proof (induction a arbitrary: c)
  case Nil
  then show ?case by (cases c) auto
next
  case (Cons x a)
  then show ?case by (cases c) auto
qed

lemma name_ok_slash: "name_ok s \<Longrightarrow> CHR ''/'' \<notin> set s"
  using url_name_not_slash by (auto simp: name_ok_def)

lemma pr_url_groups:
  assumes "fullmatch pr_url_pattern s = Some g"
  shows "\<exists>owner repo number tail. s = ''https://github.com/'' @ owner @ ''/'' @ repo @ ''/pull/'' @ number @ tail
     \<and> name_ok owner \<and> name_ok repo
     \<and> (\<exists>c t. number = c # t \<and> nonzero_digit c \<and> (\<forall>d \<in> set t. is_digit d)) \<and> (tail = [] \<or> tail = ''/'')
     \<and> get_group g ''owner'' = owner \<and> get_group g ''repo'' = repo \<and> get_group g ''number'' = number"
proof -
  from fullmatch_groups [OF assms] obtain owner repo c t tail h where
    s: "s = ''https://github.com/'' @ owner @ ''/'' @ repo @ ''/pull/'' @ (c # t) @ tail"
    and g: "g = h @ [(''number'', c # t), (''repo'', repo), (''owner'', owner)]"
    and n: "1 \<le> length owner" "\<forall>c \<in> set owner. url_name_char c" "1 \<le> length repo" "\<forall>c \<in> set repo. url_name_char c"
    and d: "nonzero_digit c" "\<forall>d \<in> set t. is_digit d" and tl: "glang (opt (lit ''/'')) tail h"
    unfolding pr_url_pattern_def by (auto simp del: lit.simps)
  from glang_opt_lit [OF tl] have h: "h = []" and tail: "tail = [] \<or> tail = ''/''" by simp_all
  have groups: "get_group g ''owner'' = owner" "get_group g ''repo'' = repo" "get_group g ''number'' = c # t"
    by (simp_all add: get_group_def g h)
  have names: "name_ok owner" "name_ok repo" using n by (cases owner; cases repo; simp add: name_ok_def)+
  show ?thesis
    by (rule exI [of _ owner], rule exI [of _ repo], rule exI [of _ "c # t"], rule exI [of _ tail], intro conjI)
      (fact s names tail groups | rule exI [of _ c] exI [of _ t] | intro conjI | fact d | rule refl)+
qed


lemma str_nat_digits: "\<forall>c \<in> set (str_nat n). is_digit c"
  using digits_rev_digits [of n] by (simp add: str_nat_def)

lemma nonzero_digit_of: "0 < n \<Longrightarrow> n < 10 \<Longrightarrow> nonzero_digit (char_of (48 + n :: nat))"
  by (simp add: nonzero_digit_def in_range_def)

lemma last_digits_rev: "0 < n \<Longrightarrow> nonzero_digit (last (digits_rev n))"
proof (induction n rule: digits_rev.induct)
  case (1 n)
  show ?case
  proof (cases "n < 10")
    case True
    with 1(2) show ?thesis by (subst digits_rev.simps) (simp add: nonzero_digit_of)
  next
    case False
    then have "nonzero_digit (last (digits_rev (n div 10)))" using 1(1) by simp
    with False show ?thesis by (subst digits_rev.simps) simp
  qed
qed

lemma str_nat_nonzero: "0 < n \<Longrightarrow> \<exists>c t. str_nat n = c # t \<and> nonzero_digit c \<and> (\<forall>d \<in> set t. is_digit d)"
proof -
  assume n: "0 < n"
  obtain c t where ct: "str_nat n = c # t" by (cases "str_nat n") auto
  then have "c = last (digits_rev n)"
    unfolding str_nat_def by (metis hd_rev list.sel(1))
  with last_digits_rev [OF n] ct str_nat_digits [of n] show ?thesis by auto
qed

lemma digit_not_space: "is_digit c \<Longrightarrow> \<not> is_space c \<and> c \<noteq> CHR ''/'' \<and> c \<noteq> CHR ''-'' \<and> c \<noteq> CHR ''+''"
  by (auto simp: is_digit_def in_range_def is_space_def)

lemma py_int_str_nat: "py_int (str_nat n) = Some (int n)"
proof -
  obtain c t where ct: "str_nat n = c # t" by (cases "str_nat n") auto
  have "strip (str_nat n) = str_nat n"
    using str_nat_digits [of n] digit_not_space by (intro strip_ends) auto
  moreover have "c \<noteq> CHR ''-''" "c \<noteq> CHR ''+''" using str_nat_digits [of n] digit_not_space ct by auto
  ultimately show ?thesis using int_body_str_nat [of n] by (simp add: py_int_def ct)
qed

lemma pr_url_lang:
  assumes "name_ok owner" "name_ok name" "nonzero_digit c" "\<forall>d \<in> set t. is_digit d"
  shows "lang pr_url_pattern (''https://github.com/'' @ owner @ ''/'' @ name @ ''/pull/'' @ c # (t @ []))"
proof -
  have tail: "lang (opt (lit ''/'')) []" unfolding lang.simps(5) by (intro exI [of _ "[]"]) simp
  show ?thesis
    unfolding pr_url_pattern_def seqs.simps lang_Seq_lit lang_Seq_others lang_Rep_Cls lang_Seq_Cls
    by (intro exI conjI, rule refl, rule refl)
       (use assms tail in \<open>auto simp: name_ok_def Suc_le_eq\<close>)
qed

lemma canonical_url_parses:
  assumes names: "name_ok owner" "name_ok name" "lower (owner @ ''/'' @ name) = owner @ ''/'' @ name" and n: "0 < n"
  shows "parse_github_pull_request_url (pull_url (owner @ ''/'' @ name) n)
     = Inr \<lparr>pp_repository = owner @ ''/'' @ name, pp_number = n, pp_url = pull_url (owner @ ''/'' @ name) n\<rparr>"
proof -
  let ?digits = "str_nat (nat n)" let ?url = "pull_url (owner @ ''/'' @ name) n"
  have url: "?url = ''https://github.com/'' @ owner @ ''/'' @ name @ ''/pull/'' @ ?digits"
    using n by (simp add: pull_url_def str_int_def)
  obtain c t where ct: "?digits = c # t" "nonzero_digit c" "\<forall>d \<in> set t. is_digit d"
    using str_nat_nonzero n by (metis zero_less_nat_eq)
  have strip: "strip ?url = ?url"
  proof (rule strip_ends)
    show "\<not> is_space (last ?url)" using str_nat_digits [of "nat n"] digit_not_space unfolding url by simp
  qed (unfold url, simp_all add: is_space_def)
  have "lang pr_url_pattern ?url"
    using pr_url_lang [OF names(1,2) ct(2,3)] unfolding url ct(1) by simp
  moreover have "plain pr_url_pattern" by (simp add: pr_url_pattern_def)
  ultimately obtain g where g: "fullmatch pr_url_pattern ?url = Some g"
    using fullmatch_lang unfolding is_fullmatch_def by blast
  from pr_url_groups [OF g] obtain o' r' d' tail where
    eq: "?url = ''https://github.com/'' @ o' @ ''/'' @ r' @ ''/pull/'' @ d' @ tail"
    and ok: "name_ok o'" "name_ok r'" and tail: "tail = [] \<or> tail = ''/''"
    and groups: "get_group g ''owner'' = o'" "get_group g ''repo'' = r'" "get_group g ''number'' = d'" by blast
  from eq url have "owner @ CHR ''/'' # (name @ ''/pull/'' @ ?digits) = o' @ CHR ''/'' # (r' @ ''/pull/'' @ d' @ tail)" by simp
  from slash_split [OF this name_ok_slash [OF names(1)] name_ok_slash [OF ok(1)]] have o: "o' = owner" and
    rest: "name @ CHR ''/'' # (''pull/'' @ ?digits) = r' @ CHR ''/'' # (''pull/'' @ d' @ tail)" by auto
  from slash_split [OF rest name_ok_slash [OF names(2)] name_ok_slash [OF ok(2)]] have r: "r' = name" and d: "?digits = d' @ tail" by auto
  have "CHR ''/'' \<notin> set (d' @ tail)"
    unfolding d [symmetric] using str_nat_digits [of "nat n"] digit_not_space by blast
  with tail have "tail = []" by auto
  with d have d': "d' = ?digits" by simp
  from normalize_names [OF names(1,2)] names(3)
  have "normalize_repository_name (owner @ ''/'' @ name) = Inr (owner @ ''/'' @ name)"
    by (simp only: lower_names)
  then show ?thesis using n
    unfolding parse_github_pull_request_url_def strip g option.case groups o r d' py_int_str_nat by simp
qed

text \<open>
  Parsing brings a pull-request URL to one canonical form: what it returns has a positive
  number and a URL that parses to itself, so every spelling of a pull request (case, trailing
  slash, surrounding space) yields the same identity.
\<close>

theorem pull_request_url_canonical:
  assumes "parse_github_pull_request_url value = Inr p"
  shows "0 < pp_number p \<and> pp_url p = pull_url (pp_repository p) (pp_number p)
    \<and> parse_github_pull_request_url (pp_url p) = Inr p"
proof -
  from assms obtain g repo n where p: "p = \<lparr>pp_repository = repo, pp_number = n, pp_url = pull_url repo n\<rparr>"
    and repo: "normalize_repository_name (get_group g ''owner'' @ ''/'' @ get_group g ''repo'') = Inr repo" and n: "0 < n"
    by (auto simp: parse_github_pull_request_url_def guard_simps split: option.splits if_splits)
  from normalize_ok_shape [OF repo] obtain owner name where
    r: "repo = owner @ ''/'' @ name" "name_ok owner" "name_ok name" "lower repo = repo" by blast
  from canonical_url_parses [OF r(2,3) r(4) [unfolded r(1)] n] show ?thesis by (simp add: p r(1) n)
qed

theorem pull_request_url_canonical_witness:
  "0 < (7 :: int) \<and> pull_url ''o/r'' 7 = pull_url ''o/r'' 7
    \<and> parse_github_pull_request_url (pull_url ''o/r'' 7)
        = Inr \<lparr>pp_repository = ''o/r'', pp_number = 7, pp_url = pull_url ''o/r'' 7\<rparr>"
proof -
  have "parse_github_pull_request_url (pull_url (''o'' @ ''/'' @ ''r'') 7)
     = Inr \<lparr>pp_repository = ''o'' @ ''/'' @ ''r'', pp_number = 7, pp_url = pull_url (''o'' @ ''/'' @ ''r'') 7\<rparr>"
    by (rule canonical_url_parses)
      (simp_all add: name_ok_def url_name_char_def is_alnum_def in_range_def lower_def lower_char_def)
  from pull_request_url_canonical [OF this] show ?thesis by simp
qed


section \<open>Resolution\<close>

lemma normalize_idem: "normalize_repository_name v = Inr r \<Longrightarrow> normalize_repository_name r = Inr r"
proof -
  assume "normalize_repository_name v = Inr r"
  from normalize_ok_shape [OF this] obtain owner name where
    r: "r = owner @ ''/'' @ name" "name_ok owner" "name_ok name" "lower r = r" by blast
  from normalize_names [OF r(2,3)] r(4) show ?thesis unfolding r(1) lower_names by simp
qed

definition resolution_error :: "exn \<Rightarrow> bool" where
  "resolution_error e = (case e of PullRequestResolutionError _ \<Rightarrow> True | PullRequestUpstreamError _ \<Rightarrow> True | _ \<Rightarrow> False)"

lemma resolution_errors [simp]:
  "resolution_error invalid_metadata" "resolution_error unavailable" "resolution_error deadline_error"
  "resolution_error oversized" "resolution_error (PullRequestResolutionError m)"
  "resolution_error (PullRequestUpstreamError m)"
  by (simp_all add: resolution_error_def invalid_metadata_def unavailable_def deadline_error_def oversized_def)

lemma bounded_chunks_ok:
  "bounded_chunks limit e content chunks = Inr raw \<Longrightarrow> length content \<le> limit \<Longrightarrow>
     raw = content @ concat chunks \<and> length raw \<le> limit"
  by (induction limit e content chunks rule: bounded_chunks.induct) (auto split: if_splits)

lemma bounded_chunks_error: "bounded_chunks limit e content chunks = Inl e' \<Longrightarrow> e' = e"
  by (induction limit e content chunks rule: bounded_chunks.induct) (auto split: if_splits)

lemma check_status_error: "check_status r = Inl e \<Longrightarrow> resolution_error e"
  unfolding check_status_def by (drule checks_err) auto

lemma check_declared_error: "check_declared r m = Inl e \<Longrightarrow> resolution_error e"
  by (auto simp: check_declared_def split: option.splits if_splits)

lemma read_response_error: "read_response m ex = Inl e \<Longrightarrow> resolution_error e"
proof (cases ex)
  case (Response r)
  assume "read_response m ex = Inl e"
  then show ?thesis
    by (cases "hr_end r") (auto simp: Response read_response_def guard_simps
        dest: check_status_error check_declared_error bounded_chunks_error)
qed (auto simp: read_response_def)

lemma read_response_ok: "read_response m ex = Inr raw \<Longrightarrow> length raw \<le> m"
proof (cases ex)
  case (Response r)
  assume "read_response m ex = Inr raw"
  then show ?thesis
    by (cases "hr_end r") (auto simp: Response read_response_def guard_simps dest!: bounded_chunks_ok)
qed (auto simp: read_response_def)

lemma normalize_error: "normalize_repository_name v = Inl e \<Longrightarrow> is_value_error e"
  by (auto simp: normalize_repository_name_def Let_def split: if_splits)

lemma parse_url_error: "parse_github_pull_request_url v = Inl e \<Longrightarrow> is_value_error e"
  by (auto simp: parse_github_pull_request_url_def guard_simps dest: normalize_error split: option.splits if_splits)

lemma decode_pull_error: "decode_pull json raw = Inl e \<Longrightarrow> is_value_error e"
  by (auto simp: decode_pull_def guard_simps dest: normalize_error parse_url_error split: option.splits)

lemma to_utc_error: "to_utc e d = Inl e' \<Longrightarrow> e' = e"
  by (cases d) simp_all

lemma mk_resolved_error: "mk_ResolvedPullRequest r n u b h t bd d = Inl e \<Longrightarrow> is_value_error e"
  unfolding mk_ResolvedPullRequest_def rbind_eq_Inl
  by (elim disjE exE conjE) (erule normalize_error, drule to_utc_error, simp, erule checks_error_in, simp_all)

lemma catch_error: "catch_value_error e r = Inl e' \<Longrightarrow> (\<And>e''. r = Inl e'' \<Longrightarrow> is_value_error e'') \<Longrightarrow> e' = e"
  by (auto simp: catch_value_error_def split: sum.splits if_splits)

lemma catch_ok: "catch_value_error e r = Inr a \<longleftrightarrow> r = Inr a"
  by (auto simp: catch_value_error_def split: sum.splits if_splits)

definition resolved_for :: "ParsedPullRequest \<Rightarrow> ResolvedPullRequest \<Rightarrow> bool" where
  "resolved_for parsed q =
     (rp_repository q = pp_repository parsed \<and> rp_number q = pp_number parsed \<and> rp_url q = pp_url parsed
      \<and> rp_url q = pull_url (rp_repository q) (rp_number q) \<and> 0 < rp_number q
      \<and> length (rp_base_sha q) = 40 \<and> list_all is_lower_hex (rp_base_sha q)
      \<and> length (rp_head_sha q) = 40 \<and> list_all is_lower_hex (rp_head_sha q)
      \<and> rp_base_sha q \<noteq> rp_head_sha q \<and> len_between 1 300 (rp_title q) \<and> length (rp_body q) \<le> 8000)"

lemma sha1_iff: "is_fullmatch sha1_pattern s \<longleftrightarrow> length s = 40 \<and> list_all is_lower_hex s"
  by (auto simp: fullmatch_lang sha1_pattern_def list_all_iff)

lemma mk_resolved_ok:
  assumes "mk_ResolvedPullRequest (pp_repository parsed) (pp_number parsed) (pp_url parsed) b h t bd d = Inr q"
    and "normalize_repository_name v = Inr (pp_repository parsed)"
  shows "resolved_for parsed q"
proof -
  from normalize_idem [OF assms(2)] assms(1) obtain ts where
    "checks
       [(pp_number parsed \<le> 0, ValidationError ''number''),
        (\<not> is_fullmatch sha1_pattern (lower b), ValidationError ''GitHub revision must be one full SHA-1''),
        (\<not> is_fullmatch sha1_pattern (lower h), ValidationError ''GitHub revision must be one full SHA-1''),
        (\<not> len_between 1 300 t, ValidationError ''title''),
        (8000 < length bd, ValidationError ''body''),
        (pp_url parsed \<noteq> pull_url (pp_repository parsed) (pp_number parsed), ValidationError ''resolved pull-request URL differs from its identity''),
        (lower b = lower h, ValidationError ''resolved BASE and HEAD revisions must differ'')] = Inr ()"
    and q: "q = \<lparr>rp_repository = pp_repository parsed, rp_number = pp_number parsed, rp_url = pp_url parsed,
       rp_base_sha = lower b, rp_head_sha = lower h, rp_title = t, rp_body = bd, rp_updated_at = ts\<rparr>"
    unfolding mk_ResolvedPullRequest_def by (auto simp: rbind_eq_Inr simp del: checks.simps checks_ok)
  then show ?thesis
    unfolding checks_ok list.pred_inject prod.case sha1_iff by (simp add: resolved_for_def q)
qed


end
