(* ===== verification/ProductPreparation.thy ===== *)
theory ProductPreparation
  imports ExecContract GitReader PrResolution
begin

text \<open>
  \<open>src/patchproof/product_preparation.py\<close>: exclusions, priorities and the one execution plan of a
  pull request, derived from the immutable revisions through the reader of \<open>GitReader\<close>. The \<open>git\<close>
  program, the YAML and the TOML parser and the JSON rendering of a contract are parameters. The
  facts say which plans are accepted and what the two revisions then have in common.
\<close>

datatype ProductExecutionPlanSource = REPOSITORY_CONTRACT | DETERMINISTIC_PROBE

record ProductExecutionPlan =
  pl_contract :: ExecutionContract
  pl_source :: ProductExecutionPlanSource
  pl_base_install :: "InstallPlan option"
  pl_head_install :: "InstallPlan option"

record PreparedPullRequest =
  pq_resolved :: ResolvedPullRequest
  pq_excluded_paths :: "string list"
  pq_priority_paths :: "string list"
  pq_execution_plan :: ProductExecutionPlan

definition MAX_CHANGED_PATHS :: nat where
  "MAX_CHANGED_PATHS = 2000"

section \<open>The execution plan\<close>

definition committed_contract ::
    "git_program \<Rightarrow> (bytes \<Rightarrow> contract_document) \<Rightarrow> string \<Rightarrow> exn + ExecutionContract" where
  "committed_contract git yaml revision_sha =
     rbind (read_committed_file git revision_sha contract_filename 8192) (load_bytes yaml)"

definition probe_revision :: "git_program \<Rightarrow> (bytes \<Rightarrow> toml option) \<Rightarrow> string \<Rightarrow> exn + InstallPlan" where
  "probe_revision git loads revision_sha =
     rbind (committed_paths git revision_sha 20000) (\<lambda>paths.
       probe paths (read_committed_file git revision_sha ''pyproject.toml'' 262144) loads)"

definition unsupported_plan :: "string \<Rightarrow> exn" where
  "unsupported_plan m = UnsupportedExecutionPlanError m"

text \<open>\<open>except (ContextRetrievalError, ExecutionContractError)\<close> and \<open>except ContractSynthesisError\<close>.\<close>

fun invalid_contract :: "exn \<Rightarrow> exn" where
  "invalid_contract (ContextRetrievalError _) = unsupported_plan ''repository execution contract is invalid''"
| "invalid_contract (ExecutionContractError _) = unsupported_plan ''repository execution contract is invalid''"
| "invalid_contract e = e"

fun no_synthesis :: "exn \<Rightarrow> exn" where
  "no_synthesis (ContractSynthesisError _) =
     unsupported_plan ''no supported equivalent BASE/HEAD execution plan is available''"
| "no_synthesis e = e"

definition map_error :: "('e \<Rightarrow> 'f) \<Rightarrow> 'e + 'a \<Rightarrow> 'f + 'a" where
  "map_error f r = (case r of Inl e \<Rightarrow> Inl (f e) | Inr a \<Rightarrow> Inr a)"

definition declared_plan :: "ExecutionContract \<Rightarrow> ExecutionContract \<Rightarrow> exn + ProductExecutionPlan" where
  "declared_plan base_contract head_contract =
     rbind (checks
       [(ec_synthesized base_contract \<or> ec_synthesized head_contract,
         unsupported_plan ''repository execution contract cannot claim synthesized provenance''),
        (base_contract \<noteq> head_contract,
         unsupported_plan ''BASE and HEAD repository execution contracts differ'')])
     (\<lambda>_. Inr \<lparr>pl_contract = head_contract, pl_source = REPOSITORY_CONTRACT,
               pl_base_install = None, pl_head_install = None\<rparr>)"

definition resolve_product_execution_plan ::
    "git_program \<Rightarrow> (bytes \<Rightarrow> contract_document) \<Rightarrow> (bytes \<Rightarrow> toml option) \<Rightarrow> string \<Rightarrow> string
       \<Rightarrow> exn + ProductExecutionPlan" where
  "resolve_product_execution_plan git yaml loads base_sha head_sha =
     rbind (committed_paths git base_sha 20000) (\<lambda>base_paths.
     rbind (committed_paths git head_sha 20000) (\<lambda>head_paths.
       let base_declares = contract_filename \<in> set base_paths; head_declares = contract_filename \<in> set head_paths in
       if base_declares \<or> head_declares then
         (if \<not> (base_declares \<and> head_declares) then
            Inl (unsupported_plan ''BASE and HEAD do not both declare the repository execution contract'')
          else rbind (map_error invalid_contract
                 (rbind (committed_contract git yaml base_sha) (\<lambda>b.
                  rbind (committed_contract git yaml head_sha) (\<lambda>h. Inr (b, h)))))
               (\<lambda>(base_contract, head_contract). declared_plan base_contract head_contract))
       else
         rbind (map_error no_synthesis
             (resolve_contract_for_pair (probe_revision git loads base_sha) (probe_revision git loads head_sha)))
           (\<lambda>(contract, base_plan, head_plan).
             Inr \<lparr>pl_contract = contract, pl_source = DETERMINISTIC_PROBE,
                  pl_base_install = Some base_plan, pl_head_install = Some head_plan\<rparr>)))"

section \<open>Preparation\<close>

definition change_paths :: "ChangedFile \<Rightarrow> string list" where
  "change_paths change =
     (case cf_previous_path change of None \<Rightarrow> [cf_path change] | Some p \<Rightarrow> [p, cf_path change])"

definition excluded_paths :: "ChangedFile list \<Rightarrow> string list" where
  "excluded_paths changes =
     sort (remdups (filter (\<lambda>path. endswith path ''.py'' \<and> is_test_path path) (concat (map change_paths changes))))"

definition priority_paths :: "ChangedFile list \<Rightarrow> string list" where
  "priority_paths changes =
     sort (remdups (map cf_path (filter (\<lambda>change. cf_is_python change \<and> \<not> cf_is_test change) changes)))"

definition prepare_pull_request ::
    "git_program \<Rightarrow> (bytes \<Rightarrow> contract_document) \<Rightarrow> (bytes \<Rightarrow> toml option) \<Rightarrow> ResolvedPullRequest
       \<Rightarrow> exn + PreparedPullRequest" where
  "prepare_pull_request git yaml loads resolved =
     rbind (changed_files git (rp_base_sha resolved) (rp_head_sha resolved)) (\<lambda>changes.
       if MAX_CHANGED_PATHS < length changes then
         Inl (ContextRetrievalError ''pull request exceeds the changed-path preparation budget'')
       else
         rbind (resolve_product_execution_plan git yaml loads (rp_base_sha resolved) (rp_head_sha resolved)) (\<lambda>plan.
           Inr \<lparr>pq_resolved = resolved, pq_excluded_paths = excluded_paths changes,
                pq_priority_paths = priority_paths changes, pq_execution_plan = plan\<rparr>))"

section \<open>The retriever of a product run\<close>

record product_retriever =
  pt_git :: git_program
  pt_contract :: ExecutionContract
  pt_revisions :: "string set"

definition mk_product_retriever :: "git_program \<Rightarrow> ExecutionContract \<Rightarrow> string set \<Rightarrow> exn + product_retriever" where
  "mk_product_retriever git contract revisions =
     (if card revisions \<noteq> 2 then Inl (ValueError ''product execution context requires exactly two revisions'')
      else Inr \<lparr>pt_git = git, pt_contract = contract, pt_revisions = revisions\<rparr>)"

text \<open>The contract file is answered from the validated plan, every other file from the tree.\<close>

definition product_read_committed_file ::
    "(ExecutionContract \<Rightarrow> string) \<Rightarrow> product_retriever \<Rightarrow> string \<Rightarrow> string \<Rightarrow> nat \<Rightarrow> exn + bytes" where
  "product_read_committed_file dump r revision_sha path max_bytes =
     (if path \<noteq> contract_filename then read_committed_file (pt_git r) revision_sha path max_bytes
      else if revision_sha \<notin> pt_revisions r then
        Inl (ValueError ''product contract requested for an unexpected revision'')
      else let content = utf8 (dump (pt_contract r)) in
        if max_bytes < length content then Inl (ValueError ''product execution contract exceeds its byte budget'')
        else Inr content)"

section \<open>Accepted plans\<close>

lemma map_error_ok [simp]: "map_error f r = Inr a \<longleftrightarrow> r = Inr a"
  by (auto simp: map_error_def split: sum.splits)

lemma load_bytes_valid: "load_bytes yaml raw = Inr c \<Longrightarrow> mk_ExecutionContract c = Inr c"
proof (cases "yaml raw")
  case (Fields d)
  assume "load_bytes yaml raw = Inr c"
  then have "mk_ExecutionContract d = Inr c"
    by (auto simp: load_bytes_def Fields split: if_splits sum.splits simp del: mk_ExecutionContract_ok)
  then show ?thesis by (auto simp: mk_ExecutionContract_ok)
qed (auto simp: load_bytes_def split: if_splits)

lemma committed_contract_valid: "committed_contract git yaml sha = Inr c \<Longrightarrow> mk_ExecutionContract c = Inr c"
  using load_bytes_valid by (auto simp: committed_contract_def rbind_eq_Inr)

lemma declared_plan_ok:
  "declared_plan b h = Inr pl \<longleftrightarrow> b = h \<and> ec_synthesized h = False
     \<and> pl = \<lparr>pl_contract = h, pl_source = REPOSITORY_CONTRACT, pl_base_install = None, pl_head_install = None\<rparr>"
  by (auto simp: declared_plan_def guard_simps)

lemma resolve_pair_ok:
  assumes "resolve_contract_for_pair b h = Inr (c, bp, hp)"
  shows "b = Inr bp \<and> h = Inr hp \<and> ip_supported bp \<and> ip_supported hp \<and> ip_commands bp = ip_commands hp
     \<and> synthesize_contract hp = Inr c"
  using assms unfolding resolve_contract_for_pair_def by (auto simp: guard_simps split: if_splits)

lemma synthesize_fields:
  assumes "synthesize_contract p = Inr c"
  shows "mk_ExecutionContract c = Inr c \<and> ec_synthesized c \<and> ec_install c = ip_commands p
     \<and> ec_allowed_test_paths c = [SYNTHESIZED_TEST_PATH]"
proof -
  from assms have "mk_ExecutionContract (synthesized_contract p) = Inr c"
    unfolding synthesize_contract_def synthesized_contract_def by (simp split: if_splits)
  then have "c = synthesized_contract p" "mk_ExecutionContract c = Inr c" by (auto simp: mk_ExecutionContract_ok)
  then show ?thesis by (simp add: synthesized_contract_def)
qed

text \<open>What an accepted plan says about the two revisions.\<close>

definition declares :: "git_program \<Rightarrow> string \<Rightarrow> bool" where
  "declares git sha = (case committed_paths git sha 20000 of Inl _ \<Rightarrow> False | Inr paths \<Rightarrow> contract_filename \<in> set paths)"

definition repository_plan :: "git_program \<Rightarrow> (bytes \<Rightarrow> contract_document) \<Rightarrow> string \<Rightarrow> string \<Rightarrow> ProductExecutionPlan \<Rightarrow> bool" where
  "repository_plan git yaml base_sha head_sha pl =
     (pl_source pl = REPOSITORY_CONTRACT \<and> declares git base_sha \<and> declares git head_sha
      \<and> committed_contract git yaml base_sha = Inr (pl_contract pl)
      \<and> committed_contract git yaml head_sha = Inr (pl_contract pl) \<and> \<not> ec_synthesized (pl_contract pl))"

definition probed_plan :: "git_program \<Rightarrow> (bytes \<Rightarrow> toml option) \<Rightarrow> string \<Rightarrow> string \<Rightarrow> ProductExecutionPlan \<Rightarrow> bool" where
  "probed_plan git loads base_sha head_sha pl =
     (pl_source pl = DETERMINISTIC_PROBE \<and> \<not> declares git base_sha \<and> \<not> declares git head_sha
      \<and> (\<exists>b h. probe_revision git loads base_sha = Inr b \<and> probe_revision git loads head_sha = Inr h
           \<and> ip_supported b \<and> ip_supported h \<and> ip_commands b = ip_commands h
           \<and> pl_base_install pl = Some b \<and> pl_head_install pl = Some h
           \<and> ec_install (pl_contract pl) = ip_commands h)
      \<and> ec_synthesized (pl_contract pl) \<and> ec_allowed_test_paths (pl_contract pl) = [SYNTHESIZED_TEST_PATH])"

text \<open>
  C27: Every accepted product plan compares like with like: either both revisions commit the same
  valid contract, which does not claim to be synthesized, or neither commits one and probing both
  gave supported plans with the same commands. The contract is valid in both cases, and its
  recorded source is the truth about where it came from.
\<close>

theorem product_plan_symmetric:
  assumes "resolve_product_execution_plan git yaml loads base_sha head_sha = Inr pl"
  shows "mk_ExecutionContract (pl_contract pl) = Inr (pl_contract pl)
    \<and> (repository_plan git yaml base_sha head_sha pl \<or> probed_plan git loads base_sha head_sha pl)"
proof -
  from assms obtain bp hp where paths: "committed_paths git base_sha 20000 = Inr bp"
      "committed_paths git head_sha 20000 = Inr hp"
    by (auto simp: resolve_product_execution_plan_def guard_simps)
  note plan = assms [unfolded resolve_product_execution_plan_def paths rbind_simps Let_def]
  show ?thesis
  proof (cases "contract_filename \<in> set bp \<or> contract_filename \<in> set hp")
    case True
    note plan = plan [unfolded if_P [OF True]]
    from plan have both: "contract_filename \<in> set bp" "contract_filename \<in> set hp" by (auto split: if_splits)
    from plan both obtain b h where b: "committed_contract git yaml base_sha = Inr b"
        "committed_contract git yaml head_sha = Inr h" "declared_plan b h = Inr pl"
      by (auto simp: guard_simps)
    then have "repository_plan git yaml base_sha head_sha pl"
      using both paths by (auto simp: repository_plan_def declares_def declared_plan_ok)
    with committed_contract_valid [OF b(2)] b(3) show ?thesis by (auto simp: declared_plan_ok)
  next
    case False
    note plan = plan [unfolded if_not_P [OF False]]
    then obtain c b h where r: "resolve_contract_for_pair (probe_revision git loads base_sha)
          (probe_revision git loads head_sha) = Inr (c, b, h)"
      and pl: "pl = \<lparr>pl_contract = c, pl_source = DETERMINISTIC_PROBE, pl_base_install = Some b, pl_head_install = Some h\<rparr>"
      by (auto simp: guard_simps)
    note ok = resolve_pair_ok [OF r]
    with synthesize_fields [of h c] False paths have "probed_plan git loads base_sha head_sha pl"
      by (auto simp: probed_plan_def declares_def pl)
    moreover have "mk_ExecutionContract (pl_contract pl) = Inr (pl_contract pl)"
      using ok synthesize_fields [of h c] by (simp add: pl)
    ultimately show ?thesis by blast
  qed
qed

text \<open>A repository with one file, \<open>setup.py\<close>, at both revisions and no changes between them.\<close>

definition sample_base_sha :: string where
  "sample_base_sha = replicate 40 (CHR ''a'')"

definition sample_head_sha :: string where
  "sample_head_sha = replicate 40 (CHR ''b'')"

definition sample_setup_git :: git_program where
  "sample_setup_git arguments =
     (if hd arguments = ''rev-parse'' then Some (0, utf8 (takeWhile (\<lambda>c. c \<noteq> CHR ''^'') (arguments ! 2)))
      else if hd arguments = ''diff'' then Some (0, [])
      else Some (0, utf8 ''setup.py'' @ [0]))"

lemma sample_sha_fixed:
  "sha = sample_base_sha \<or> sha = sample_head_sha \<Longrightarrow>
     lower sha = sha \<and> is_fullmatch git_sha_pattern sha \<and> strip sha = sha
     \<and> ascii_decode (utf8 sha) = Some sha \<and> CHR ''^'' \<notin> set sha"
proof -
  assume sha: "sha = sample_base_sha \<or> sha = sample_head_sha"
  then have "list_all is_lower_hex sha" "length sha = 40"
    by (auto simp: sample_base_sha_def sample_head_sha_def is_lower_hex_def in_range_def list_all_iff)
  moreover have "strip sha = sha" using sha
    by (intro strip_ends) (auto simp: sample_base_sha_def sample_head_sha_def is_space_def)
  moreover have "\<forall>c \<in> set sha. (of_char c :: nat) < 128 \<and> c \<noteq> CHR ''^''"
    using sha by (auto simp: sample_base_sha_def sample_head_sha_def)
  ultimately show ?thesis using lower_hex_fixed [of sha] ascii_decode_utf8 [of sha] by auto
qed

lemma takeWhile_sha: "CHR ''^'' \<notin> set sha \<Longrightarrow> takeWhile (\<lambda>c. c \<noteq> CHR ''^'') (sha @ ''^{commit}'') = sha"
  by (induction sha) auto

lemma sample_resolves:
  "sha = sample_base_sha \<or> sha = sample_head_sha \<Longrightarrow>
     resolve_sha sample_setup_git sha HEAD = Inr \<lparr>rev_role = HEAD, rev_sha = sha\<rparr>"
  using sample_sha_fixed [of sha]
  by (simp add: resolve_sha_def mk_Revision_def run_git_def sample_setup_git_def takeWhile_sha ok_or_def Let_def
      del: git_sha_iff)

lemma sample_paths:
  assumes "sha = sample_base_sha \<or> sha = sample_head_sha"
  shows "committed_paths sample_setup_git sha 20000 = Inr [''setup.py'']"
proof -
  have "nul_tokens (nul_terminated [utf8 ''setup.py'']) = [utf8 ''setup.py'']"
    by (rule nul_tokens_terminated) (use utf8_no_nul [of "''setup.py''"] in simp)
  moreover have "decode_path (utf8 ''setup.py'') = Inr ''setup.py''"
    by (rule decode_path_utf8) (simp add: repository_path_def good_components_def bad_part_def)
  ultimately show ?thesis
    by (simp add: committed_paths_def sample_resolves [OF assms] run_git_def sample_setup_git_def nul_terminated_def)
qed

lemma sample_probes:
  assumes "sha = sample_base_sha \<or> sha = sample_head_sha"
  shows "probe_revision sample_setup_git (\<lambda>_. None) sha = Inr sample_plan"
  using sample_probe by (simp add: probe_revision_def sample_paths [OF assms] probe_def)

lemma sample_product_plan:
  "resolve_product_execution_plan sample_setup_git (\<lambda>_. NotMapping) (\<lambda>_. None) sample_base_sha sample_head_sha
     = Inr \<lparr>pl_contract = synthesized_contract sample_plan, pl_source = DETERMINISTIC_PROBE,
            pl_base_install = Some sample_plan, pl_head_install = Some sample_plan\<rparr>"
  using synthesize_contract_ok [OF sample_plan_ok] sample_plan_ok(2)
  by (simp add: resolve_product_execution_plan_def sample_paths sample_probes contract_filename_def
      resolve_contract_for_pair_def map_error_def)

theorem product_plan_symmetric_witness:
  "\<exists>pl. mk_ExecutionContract (pl_contract pl) = Inr (pl_contract pl)
    \<and> (repository_plan sample_setup_git (\<lambda>_. NotMapping) sample_base_sha sample_head_sha pl
       \<or> probed_plan sample_setup_git (\<lambda>_. None) sample_base_sha sample_head_sha pl)"
  using product_plan_symmetric [OF sample_product_plan] by blast

section \<open>Excluded and priority paths\<close>

definition flags_ok :: "ChangedFile \<Rightarrow> bool" where
  "flags_ok f = (cf_is_python f = endswith (cf_path f) ''.py'' \<and> cf_is_test f = is_test_path (cf_path f))"

lemma changed_file_flags: "changed_file st prev path = Inr f \<Longrightarrow> flags_ok f"
  by (auto simp: changed_file_def mk_ChangedFile_def rbind_eq_Inr flags_ok_def split: if_splits)

lemma parse_changes_step:
  assumes "parse_changes (token # rest) = Inr files"
  shows "\<exists>f fs st prev path rest'. files = f # fs \<and> changed_file st prev path = Inr f
     \<and> parse_changes rest' = Inr fs \<and> length rest' < length rest"
proof -
  from assms [unfolded parse_changes.simps(2) rbind_eq_Inr] obtain status_token where
    p: "(let status = normalize_status status_token in
       if has_source status then
         (case rest of
            previous # path # rest' \<Rightarrow>
              rbind (decode_path previous) (\<lambda>previous_path.
              rbind (decode_path path) (\<lambda>path.
              rbind (changed_file status (Some previous_path) path) (\<lambda>file.
              rbind (parse_changes rest') (\<lambda>files. Inr (file # files)))))
          | _ \<Rightarrow> Inl (ContextRetrievalError ''Git returned an incomplete rename/copy record''))
       else
         (case rest of
            path # rest' \<Rightarrow>
              rbind (decode_path path) (\<lambda>path.
              rbind (changed_file status None path) (\<lambda>file.
              rbind (parse_changes rest') (\<lambda>files. Inr (file # files))))
          | [] \<Rightarrow> Inl (ContextRetrievalError ''Git returned an incomplete name-status record''))) = Inr files" by blast
  show ?thesis
  proof (cases "has_source (normalize_status status_token)")
    case True
    with p show ?thesis
      by (cases rest; cases "tl rest") (simp_all add: rbind_eq_Inr, force)
  next
    case False
    with p show ?thesis by (cases rest) (simp_all add: rbind_eq_Inr, force)
  qed
qed

lemma parse_changes_flags: "parse_changes ts = Inr files \<Longrightarrow> list_all flags_ok files"
proof (induction "length ts" arbitrary: ts files rule: less_induct)
  case less
  show ?case
  proof (cases ts)
    case Nil
    with less(2) show ?thesis by simp
  next
    case (Cons token rest)
    from parse_changes_step [OF less(2) [unfolded Cons]] obtain f fs st prev path rest' where
      step: "files = f # fs" "changed_file st prev path = Inr f" "parse_changes rest' = Inr fs" "length rest' < length rest"
      by blast
    with less(1) [OF _ step(3)] Cons changed_file_flags show ?thesis by auto
  qed
qed

text \<open>
  A prepared pull request never asks to see what it hides: the excluded paths are the changed
  Python tests (under their old and their new names), the priority paths are changed Python files
  that are no tests, no path is both, both lists are sorted without repetition, and the plan is the
  one resolved for its two revisions.
\<close>

theorem prepared_paths_disjoint:
  assumes "prepare_pull_request git yaml loads resolved = Inr p"
  shows "set (pq_excluded_paths p) \<inter> set (pq_priority_paths p) = {}
    \<and> sorted (pq_excluded_paths p) \<and> distinct (pq_excluded_paths p)
    \<and> sorted (pq_priority_paths p) \<and> distinct (pq_priority_paths p)
    \<and> list_all (\<lambda>q. endswith q ''.py'' \<and> is_test_path q) (pq_excluded_paths p)
    \<and> list_all (\<lambda>q. endswith q ''.py'' \<and> \<not> is_test_path q) (pq_priority_paths p)
    \<and> (\<exists>changes. changed_files git (rp_base_sha resolved) (rp_head_sha resolved) = Inr changes
         \<and> length changes \<le> 2000
         \<and> (\<forall>c \<in> set changes. \<forall>q \<in> set (change_paths c). endswith q ''.py'' \<and> is_test_path q
              \<longrightarrow> q \<in> set (pq_excluded_paths p)))"
proof -
  from assms obtain changes where c: "changed_files git (rp_base_sha resolved) (rp_head_sha resolved) = Inr changes"
    "length changes \<le> 2000" and p: "pq_excluded_paths p = excluded_paths changes" "pq_priority_paths p = priority_paths changes"
    by (auto simp: prepare_pull_request_def guard_simps MAX_CHANGED_PATHS_def split: if_splits)
  have flags: "cf_is_python f = endswith (cf_path f) ''.py'' \<and> cf_is_test f = is_test_path (cf_path f)"
    if "f \<in> set changes" for f
    using c(1) that parse_changes_flags by (fastforce simp: changed_files_def rbind_eq_Inr list_all_iff flags_ok_def)
  have ex: "set (excluded_paths changes) = {q. \<exists>f \<in> set changes. q \<in> set (change_paths f) \<and> endswith q ''.py'' \<and> is_test_path q}"
    by (auto simp: excluded_paths_def)
  have pr: "q \<in> set (priority_paths changes) \<Longrightarrow> endswith q ''.py'' \<and> \<not> is_test_path q" for q
    using flags by (auto simp: priority_paths_def)
  have "sorted (excluded_paths changes) \<and> distinct (excluded_paths changes)
      \<and> sorted (priority_paths changes) \<and> distinct (priority_paths changes)"
    by (simp add: excluded_paths_def priority_paths_def)
  with c p ex pr show ?thesis by (auto simp: list_all_iff)
qed

definition sample_resolved :: ResolvedPullRequest where
  "sample_resolved = \<lparr>rp_repository = ''o/r'', rp_number = 7, rp_url = pull_url ''o/r'' 7,
     rp_base_sha = sample_base_sha, rp_head_sha = sample_head_sha, rp_title = ''t'', rp_body = [], rp_updated_at = 0\<rparr>"

theorem prepared_paths_disjoint_witness:
  "\<exists>p. prepare_pull_request sample_setup_git (\<lambda>_. NotMapping) (\<lambda>_. None) sample_resolved = Inr p
    \<and> set (pq_excluded_paths p) \<inter> set (pq_priority_paths p) = {}"
proof -
  have "changed_files sample_setup_git sample_base_sha sample_head_sha = Inr []"
    by (simp add: changed_files_def run_git_def sample_setup_git_def nul_tokens_def)
  then obtain p where p: "prepare_pull_request sample_setup_git (\<lambda>_. NotMapping) (\<lambda>_. None) sample_resolved = Inr p"
    by (simp add: prepare_pull_request_def sample_resolved_def sample_product_plan)
  from prepared_paths_disjoint [OF p] p show ?thesis by blast
qed

end
