(* ===== verification/StoreOps.thy ===== *)
theory StoreOps
  imports SqliteHistory FirestoreStore
begin

text \<open>
  The \<open>VerificationRunStore\<close> protocol of \<open>src/patchproof/storage.py\<close> as the workers and the
  publisher use it: a record of its operations, the two stores as such records, the laws a client
  relies on as the locale \<open>run_store\<close>, and the proofs that both stores obey them. A store calls
  its clock and its UUID source itself, so its state carries a counter of those calls beside the
  tables.
\<close>

record 's store_ops =
  so_accept :: "PullRequestEvent \<Rightarrow> ('s, exn, AcceptanceResult) prog"
  so_get_run :: "uuid \<Rightarrow> ('s, exn, VerificationRun) prog"
  so_transition :: "uuid \<Rightarrow> int \<Rightarrow> RunTransition \<Rightarrow> ('s, exn, VerificationRun) prog"
  so_save_evidence :: "uuid \<Rightarrow> string \<Rightarrow> string \<Rightarrow> ('s, exn, StoredEvidence) prog"
  so_get_evidence :: "uuid \<Rightarrow> ('s, exn, StoredEvidence option) prog"
  so_begin_publication :: "uuid \<Rightarrow> string \<Rightarrow> ('s, exn, CheckPublication) prog"
  so_get_publication :: "uuid \<Rightarrow> ('s, exn, CheckPublication option) prog"
  so_set_check_run_id :: "uuid \<Rightarrow> int \<Rightarrow> ('s, exn, CheckPublication) prog"
  so_record_error :: "uuid \<Rightarrow> string \<Rightarrow> ('s, exn, CheckPublication) prog"
  so_fail_run :: "uuid \<Rightarrow> string \<Rightarrow> string \<Rightarrow> bool \<Rightarrow> model_usage option \<Rightarrow> string option
     \<Rightarrow> ('s, exn, RunFailureRecord) prog"
  so_get_failure :: "uuid \<Rightarrow> ('s, exn, RunFailureRecord option) prog"

text \<open>Reading the clock once; reading without any effect.\<close>

definition ticking :: "(nat \<Rightarrow> 'c) \<Rightarrow> ('c \<Rightarrow> ('d, 'e, 'a) prog) \<Rightarrow> ('d \<times> nat, 'e, 'a) prog" where
  "ticking clock m = (\<lambda>(d, k). case m (clock k) d of (r, d') \<Rightarrow> (r, (d', Suc k)))"

definition observing :: "('d \<Rightarrow> 'e + 'a) \<Rightarrow> ('d \<times> nat, 'e, 'a) prog" where
  "observing f = (\<lambda>(d, k). (f d, (d, k)))"

definition sqlite_ops :: "(nat \<Rightarrow> datetime) \<Rightarrow> (nat \<Rightarrow> uuid) \<Rightarrow> (database \<times> nat) store_ops" where
  "sqlite_ops clock ids =
     \<lparr>so_accept = (\<lambda>event. ticking (\<lambda>k. (ids k, clock k)) (\<lambda>(i, now). accept_pull_request event i now)),
      so_get_run = (\<lambda>i. observing (get_run i)),
      so_transition = (\<lambda>i v t. ticking clock (transition_run i v t)),
      so_save_evidence = (\<lambda>i document sha. ticking clock (save_evidence i document sha)),
      so_get_evidence = (\<lambda>i. observing (\<lambda>db. Inr (get_evidence i db))),
      so_begin_publication = (\<lambda>i sha. ticking clock (begin_publication i sha)),
      so_get_publication = (\<lambda>i. observing (\<lambda>db. Inr (get_publication i db))),
      so_set_check_run_id = (\<lambda>i c. ticking clock (set_check_run_id i c)),
      so_record_error = (\<lambda>i error. ticking clock (record_publication_error i error)),
      so_fail_run = (\<lambda>i code summary retryable usage raw. ticking clock (fail_run i code summary retryable usage raw)),
      so_get_failure = (\<lambda>i. observing (\<lambda>db. Inr (get_failure i db)))\<rparr>"

definition firestore_ops :: "(nat \<Rightarrow> datetime) \<Rightarrow> (nat \<Rightarrow> uuid) \<Rightarrow> (collections \<times> nat) store_ops" where
  "firestore_ops clock ids =
     \<lparr>so_accept = (\<lambda>event. ticking (\<lambda>k. (ids k, clock k)) (\<lambda>(i, now). fs_accept_pull_request event i now)),
      so_get_run = (\<lambda>i. observing (fs_get_run i)),
      so_transition = (\<lambda>i v t. ticking clock (fs_transition_run i v t)),
      so_save_evidence = (\<lambda>i document sha. ticking clock (fs_save_evidence i document sha)),
      so_get_evidence = (\<lambda>i. observing (\<lambda>fs. Inr (fs_get_evidence i fs))),
      so_begin_publication = (\<lambda>i sha. ticking clock (fs_begin_publication i sha)),
      so_get_publication = (\<lambda>i. observing (\<lambda>fs. Inr (fs_get_publication i fs))),
      so_set_check_run_id = (\<lambda>i c. ticking clock (fs_set_check_run_id i c)),
      so_record_error = (\<lambda>i error. ticking clock (fs_record_publication_error i error)),
      so_fail_run = (\<lambda>i code summary retryable usage raw. ticking clock (fs_fail_run i code summary retryable usage raw)),
      so_get_failure = (\<lambda>i. observing (\<lambda>fs. Inr (fs_get_failure i fs)))\<rparr>"

section \<open>The laws\<close>

text \<open>
  What each operation may do to the four tables a client can read, by the result it returned: an
  operation that raises leaves all of them as they were.
\<close>

record store_view =
  sv_runs :: "uuid \<Rightarrow> exn + VerificationRun"
  sv_evidence :: "uuid \<Rightarrow> StoredEvidence option"
  sv_publications :: "uuid \<Rightarrow> CheckPublication option"
  sv_failures :: "uuid \<Rightarrow> RunFailureRecord option"

definition transition_law where
  "transition_law i v t r V V' =
     (\<exists>r0 now. sv_runs V i = Inr r0 \<and> vr_version r0 = v \<and> apply_run_transition r0 t (Aware now 0) = Inr r
        \<and> V' = V\<lparr>sv_runs := (sv_runs V)(i := Inr r)\<rparr>)"

definition evidence_law where
  "evidence_law i doc sha e V V' =
     (sha256 (utf8 doc) = sha \<and> se_document_json e = doc \<and> se_sha256 e = sha
      \<and> (sv_evidence V i = None \<or> sv_evidence V i = Some e)
      \<and> V' = V\<lparr>sv_evidence := (sv_evidence V)(i \<mapsto> e)\<rparr>)"

definition publication_law where
  "publication_law i p V V' =
     ((\<forall>old. sv_publications V i = Some old \<longrightarrow> cp_payload_sha256 p = cp_payload_sha256 old
         \<and> (cp_check_run_id old \<noteq> None \<longrightarrow> cp_check_run_id p = cp_check_run_id old))
      \<and> V' = V\<lparr>sv_publications := (sv_publications V)(i \<mapsto> p)\<rparr>)"

definition fail_law where
  "fail_law i code summary retryable usage raw f V V' =
     (sv_failures V i = Some f \<and> V' = V
      \<or> sv_failures V i = None
        \<and> (\<exists>r0 r now. sv_runs V i = Inr r0
             \<and> f = failure_record i r0 code (take 500 (strip summary)) retryable usage raw now \<and> apply_run_transition r0 failed_transition (Aware now 0) = Inr r
             \<and> V' = V\<lparr>sv_runs := (sv_runs V)(i := Inr r), sv_failures := (sv_failures V)(i \<mapsto> f)\<rparr>))"

locale run_store =
  fixes ops :: "'s store_ops" and view :: "'s \<Rightarrow> store_view"
  assumes get_run: "so_get_run ops i s = (sv_runs (view s) i, s)"
    and get_evidence: "so_get_evidence ops i s = (Inr (sv_evidence (view s) i), s)"
    and get_publication: "so_get_publication ops i s = (Inr (sv_publications (view s) i), s)"
    and run_valid: "sv_runs (view s) i = Inr r \<Longrightarrow> vr_run_id r = i \<and> run_ok r"
    and transition_raises: "so_transition ops i v t s = (Inl e, s') \<Longrightarrow> view s' = view s"
    and transition: "so_transition ops i v t s = (Inr r, s') \<Longrightarrow> transition_law i v t r (view s) (view s')"
    and save_raises: "so_save_evidence ops i doc sha s = (Inl e, s') \<Longrightarrow> view s' = view s"
    and save: "so_save_evidence ops i doc sha s = (Inr ev, s') \<Longrightarrow> evidence_law i doc sha ev (view s) (view s')"
    and begin_raises: "so_begin_publication ops i sha s = (Inl e, s') \<Longrightarrow> view s' = view s"
    and begin_ok: "so_begin_publication ops i sha s = (Inr p, s') \<Longrightarrow>
           publication_law i p (view s) (view s') \<and> cp_payload_sha256 p = sha"
    and check_raises: "so_set_check_run_id ops i c s = (Inl e, s') \<Longrightarrow> view s' = view s"
    and check: "so_set_check_run_id ops i c s = (Inr p, s') \<Longrightarrow>
           publication_law i p (view s) (view s') \<and> cp_check_run_id p = Some c \<and> 0 < c
           \<and> (\<exists>old. sv_publications (view s) i = Some old)"
    and error_raises: "so_record_error ops i m s = (Inl e, s') \<Longrightarrow> view s' = view s"
    and error: "so_record_error ops i m s = (Inr p, s') \<Longrightarrow>
           publication_law i p (view s) (view s') \<and> (\<exists>old. sv_publications (view s) i = Some old)"
    and fail_raises: "so_fail_run ops i code summary retryable usage raw s = (Inl e, s') \<Longrightarrow> view s' = view s"
    and fail: "so_fail_run ops i code summary retryable usage raw s = (Inr f, s') \<Longrightarrow> fail_law i code summary retryable usage raw f (view s) (view s')"

section \<open>Both stores obey them\<close>

definition sqlite_view :: "database \<times> nat \<Rightarrow> store_view" where
  "sqlite_view = (\<lambda>(db, k). \<lparr>sv_runs = require_run db, sv_evidence = db_evidence db,
     sv_publications = db_publications db, sv_failures = db_failures db\<rparr>)"

definition firestore_view :: "collections \<times> nat \<Rightarrow> store_view" where
  "firestore_view = (\<lambda>(fs, k). \<lparr>sv_runs = get_run_in_transaction fs, sv_evidence = fs_evidence fs,
     sv_publications = fs_publications fs, sv_failures = fs_failures fs\<rparr>)"

definition atomic :: "('d, 'e, 'a) prog \<Rightarrow> bool" where
  "atomic m = (\<forall>d e d'. m d = (Inl e, d') \<longrightarrow> d' = d)"

lemma atomic_txn [simp]: "atomic (ptxn f)"
  by (auto simp: atomic_def ptxn_err)

lemma atomic_lift [simp]: "(\<And>a. atomic (f a)) \<Longrightarrow> atomic (pbind (plift r) f)"
  by (cases r) (auto simp: atomic_def)

lemma atomic_guard [simp]: "atomic (f ()) \<Longrightarrow> atomic (pbind (pguard b e) f)"
  by (cases b) (auto simp: atomic_def)

lemma ticking_raises:
  "ticking clock m s = (Inl e, s') \<Longrightarrow> (\<And>c. atomic (m c)) \<Longrightarrow> fst s' = fst s"
  by (cases s) (auto simp: ticking_def atomic_def split: prod.splits)

lemma ticking_returns:
  "ticking clock m s = (Inr a, s') \<longleftrightarrow> (\<exists>d k d'. s = (d, k) \<and> m (clock k) d = (Inr a, d') \<and> s' = (d', Suc k))"
  by (cases s) (auto simp: ticking_def split: prod.splits)

lemma sqlite_ops_atomic:
  "atomic (transition_run i v t c)" "atomic (save_evidence i doc sha c)" "atomic (begin_publication i sha c)"
  "atomic (set_check_run_id i n c)" "atomic (record_publication_error i m c)"
  "atomic (fail_run i code summary retryable usage raw c)"
  by (simp_all add: transition_run_def save_evidence_def begin_publication_def set_check_run_id_def
      record_publication_error_def fail_run_def)

lemma firestore_ops_atomic:
  "atomic (fs_transition_run i v t c)" "atomic (fs_save_evidence i doc sha c)" "atomic (fs_begin_publication i sha c)"
  "atomic (fs_set_check_run_id i n c)" "atomic (fs_record_publication_error i m c)"
  "atomic (fs_fail_run i code summary retryable usage raw c)"
  by (simp_all add: fs_transition_run_def fs_save_evidence_def fs_begin_publication_def fs_set_check_run_id_def
      fs_record_publication_error_def update_publication_def fs_fail_run_def)

lemma view_of_tables:
  "fst s' = fst s \<Longrightarrow> sqlite_view s' = sqlite_view s"
  "fst u' = fst u \<Longrightarrow> firestore_view u' = firestore_view u"
  by (cases s; cases s'; simp add: sqlite_view_def) (cases u; cases u'; simp add: firestore_view_def)

text \<open>Replacing the row of one run.\<close>

lemma row_of_other:
  "(\<And>q. p q \<Longrightarrow> vr_run_id q = i) \<Longrightarrow> vr_run_id s = i \<Longrightarrow> j \<noteq> i \<Longrightarrow>
     row_of (update_where p (\<lambda>_. s) rows) j = row_of rows j"
  by (induction rows) (auto simp: row_of_def update_where_def)

lemma run_replaced:
  assumes "row_of rows i = Some r" "apply_run_transition r t (Aware now 0) = Inr s" "p r"
    and "\<And>q. p q \<Longrightarrow> vr_run_id q = i"
  shows "row_of (update_where p (\<lambda>_. s) rows) = (row_of rows)(i \<mapsto> s)" "run_ok s" "vr_run_id s = i"
proof -
  show id: "vr_run_id s = i" and "run_ok s"
    using apply_row_le [OF assms(2)] row_of_Some [OF assms(1)] by (auto simp: row_le_def)
  show "row_of (update_where p (\<lambda>_. s) rows) = (row_of rows)(i \<mapsto> s)"
    using row_of_replace [where p = p, OF assms(1) id assms(4,3)] row_of_other [where p = p, OF assms(4) id]
    by (auto simp: fun_eq_iff)
qed

lemma require_run_upd:
  "row_of rows = (row_of (db_runs db))(i \<mapsto> s) \<Longrightarrow> run_ok s \<Longrightarrow>
     require_run (db\<lparr>db_runs := rows\<rparr>) = (require_run db)(i := Inr s)"
  by (auto simp: require_run_def fun_eq_iff)

lemma document_upd:
  "row_of rows = (row_of (fs_runs fs))(i \<mapsto> s) \<Longrightarrow> run_ok s \<Longrightarrow>
     get_run_in_transaction (fs\<lparr>fs_runs := rows\<rparr>) = (get_run_in_transaction fs)(i := Inr s)"
  by (auto simp: get_run_in_transaction_def run_ok_def fun_eq_iff)

lemma tables_only:
  "require_run (db\<lparr>db_evidence := x\<rparr>) = require_run db" "require_run (db\<lparr>db_publications := y\<rparr>) = require_run db"
  "require_run (db\<lparr>db_failures := z\<rparr>) = require_run db"
  "get_run_in_transaction (fs\<lparr>fs_evidence := x\<rparr>) = get_run_in_transaction fs"
  "get_run_in_transaction (fs\<lparr>fs_publications := y\<rparr>) = get_run_in_transaction fs"
  "get_run_in_transaction (fs\<lparr>fs_failures := z\<rparr>) = get_run_in_transaction fs"
  by (simp_all add: require_run_def get_run_in_transaction_def fun_eq_iff)

lemma sqlite_transition_law:
  assumes "transition_run i v t c db = (Inr r, db')"
  shows "transition_law i v t r (sqlite_view (db, k)) (sqlite_view (db', k'))"
proof -
  from assms obtain now r0 where r0: "require_run db i = Inr r0" "vr_version r0 = v"
    and s: "apply_run_transition r0 t (Aware now 0) = Inr r"
    and db': "db' = db\<lparr>db_runs := update_where (\<lambda>r. vr_run_id r = i \<and> vr_version r = v) (\<lambda>_. r) (db_runs db)\<rparr>"
    unfolding transition_run_ok by blast
  from require_run_ok [OF r0(1)] have row: "row_of (db_runs db) i = Some r0" by blast
  have "require_run db' = (require_run db)(i := Inr r)"
    unfolding db' by (rule require_run_upd [OF run_replaced(1,2) [OF row s]])
      (use r0 row_of_Some [OF row] in auto)
  with r0 s show ?thesis unfolding transition_law_def
    by (intro exI [of _ r0] exI [of _ now]) (simp add: sqlite_view_def db')
qed

lemma document_run_ok: "get_run_in_transaction fs i = Inr r \<Longrightarrow> row_of (fs_runs fs) i = Some r \<and> run_ok r"
  by (auto simp: get_run_in_transaction_def mk_VerificationRun_iff split: option.splits)

lemma set_run_document_row:
  assumes "row_of rows i = Some r" "apply_run_transition r t (Aware now 0) = Inr s"
  shows "row_of (set_run_document s rows) = (row_of rows)(i \<mapsto> s)"
proof -
  have row: "vr_run_id r = i" "vr_run_id s = i"
    using run_replaced(3) [OF assms, of "\<lambda>q. vr_run_id q = i"] row_of_Some [OF assms(1)] by auto
  with assms(1) have "set_run_document s rows = update_where (\<lambda>q. vr_run_id q = i) (\<lambda>_. s) rows"
    by (simp add: set_run_document_def update_run_def)
  then show ?thesis using run_replaced(1) [OF assms, of "\<lambda>q. vr_run_id q = i"] row by simp
qed

lemma firestore_transition_law:
  assumes "fs_transition_run i v t c fs = (Inr r, fs')"
  shows "transition_law i v t r (firestore_view (fs, k)) (firestore_view (fs', k'))"
proof -
  from assms obtain now r0 where r0: "get_run_in_transaction fs i = Inr r0" "vr_version r0 = v"
    and s: "apply_run_transition r0 t (Aware now 0) = Inr r"
    and fs': "fs' = fs\<lparr>fs_runs := set_run_document r (fs_runs fs)\<rparr>"
    unfolding fs_transition_run_def by (auto simp: guard_simps)
  from document_run_ok [OF r0(1)] have row: "row_of (fs_runs fs) i = Some r0" by blast
  have "get_run_in_transaction fs' = (get_run_in_transaction fs)(i := Inr r)"
    unfolding fs' by (rule document_upd [OF set_run_document_row [OF row s]]) (use apply_row_le [OF s] in blast)
  with r0 s show ?thesis unfolding transition_law_def
    by (intro exI [of _ r0] exI [of _ now]) (simp add: firestore_view_def fs')
qed

lemma failure_summary_text: "failure_summary code summary raw = Inr m \<Longrightarrow> m = take 500 (strip summary)"
  by (auto simp: failure_summary_def Let_def guard_simps)

lemma sqlite_fail_law:
  assumes "fail_run i code summary retryable usage raw c db = (Inr f, db')"
  shows "fail_law i code summary retryable usage raw f (sqlite_view (db, k)) (sqlite_view (db', k'))"
proof -
  from assms obtain m now where b: "fail_body i code m retryable usage raw now db = Inr (f, db')"
    and m: "m = take 500 (strip summary)"
    by (auto simp: fail_run_def guard_simps dest: failure_summary_text)
  show ?thesis
  proof (cases "db_failures db i")
    case (Some g)
    with fail_body_ok [OF b] show ?thesis by (auto simp: fail_law_def sqlite_view_def)
  next
    case None
    with fail_body_ok [OF b] obtain r s where r: "require_run db i = Inr r"
      and s: "apply_run_transition r failed_transition (Aware now 0) = Inr s"
      and db': "db' = db\<lparr>db_runs := update_run i (\<lambda>_. s) (db_runs db), db_failures := (db_failures db)(i \<mapsto> f)\<rparr>"
      by auto
    from require_run_ok [OF r] have row: "row_of (db_runs db) i = Some r" by blast
    have upd: "require_run (db\<lparr>db_runs := update_run i (\<lambda>_. s) (db_runs db)\<rparr>) = (require_run db)(i := Inr s)"
      unfolding update_run_def by (rule require_run_upd [OF run_replaced(1,2) [OF row s]])
        (use row_of_Some [OF row] in auto)
    have f: "f = failure_record i r code m retryable usage raw now"
      using b None r s by (auto simp: fail_body_def guard_simps Let_def)
    show ?thesis unfolding fail_law_def
      by (rule disjI2, rule conjI, use None in \<open>simp add: sqlite_view_def\<close>,
          rule exI [of _ r], rule exI [of _ s], rule exI [of _ now])
        (use r s f m upd in \<open>simp add: sqlite_view_def db' tables_only\<close>)
  qed
qed

lemma firestore_fail_law:
  assumes "fs_fail_run i code summary retryable usage raw c fs = (Inr f, fs')"
  shows "fail_law i code summary retryable usage raw f (firestore_view (fs, k)) (firestore_view (fs', k'))"
proof -
  from assms obtain m now where b: "fs_fail_body i code m retryable usage raw now fs = Inr (f, fs')"
    and m: "m = take 500 (strip summary)"
    by (auto simp: fs_fail_run_def guard_simps dest: failure_summary_text)
  show ?thesis
  proof (cases "fs_failures fs i")
    case (Some g)
    with b show ?thesis by (auto simp: fail_law_def firestore_view_def fs_fail_body_def)
  next
    case None
    with b obtain r s where r: "get_run_in_transaction fs i = Inr r"
      and s: "apply_run_transition r failed_transition (Aware now 0) = Inr s"
      and fs': "fs' = fs\<lparr>fs_runs := set_run_document s (fs_runs fs), fs_failures := (fs_failures fs)(i \<mapsto> f)\<rparr>"
      by (auto simp: fs_fail_body_def guard_simps Let_def)
    from document_run_ok [OF r] have row: "row_of (fs_runs fs) i = Some r" by blast
    have upd: "get_run_in_transaction (fs\<lparr>fs_runs := set_run_document s (fs_runs fs)\<rparr>) = (get_run_in_transaction fs)(i := Inr s)"
      by (rule document_upd [OF set_run_document_row [OF row s]]) (use apply_row_le [OF s] in blast)
    have f: "f = failure_record i r code m retryable usage raw now"
      using b None r s by (auto simp: fs_fail_body_def guard_simps Let_def)
    show ?thesis unfolding fail_law_def
      by (rule disjI2, rule conjI, use None in \<open>simp add: firestore_view_def\<close>,
          rule exI [of _ r], rule exI [of _ s], rule exI [of _ now])
        (use r s f m upd in \<open>simp add: firestore_view_def fs' tables_only\<close>)
  qed
qed


lemma require_run_id: "require_run db i = Inr r \<Longrightarrow> vr_run_id r = i \<and> run_ok r"
  using require_run_ok [of db i r] row_of_Some [of "db_runs db" i r] by auto

lemma document_run_id: "get_run_in_transaction fs i = Inr r \<Longrightarrow> vr_run_id r = i \<and> run_ok r"
  using document_run_ok [of fs i r] row_of_Some [of "fs_runs fs" i r] by auto

lemma pguard_ok [guard_simps]: "pguard b e s = (Inr u, t) \<longleftrightarrow> b \<and> t = s"
  by (auto simp: pguard_def)

lemma sqlite_evidence_law:
  assumes "save_evidence i doc sha c db = (Inr e, db')"
  shows "evidence_law i doc sha e (sqlite_view (db, k)) (sqlite_view (db', k'))"
proof (cases "db_evidence db i")
  case None
  with assms show ?thesis
    by (auto simp: save_evidence_def guard_simps Let_def evidence_law_def sqlite_view_def tables_only)
next
  case (Some old)
  with assms have "e = old" "db' = db" "sha256 (utf8 doc) = sha" "se_sha256 old = sha" "se_document_json old = doc"
    by (auto simp: save_evidence_def guard_simps split: if_splits)
  with Some show ?thesis by (simp add: evidence_law_def sqlite_view_def fun_upd_idem)
qed

lemma firestore_evidence_law:
  assumes "fs_save_evidence i doc sha c fs = (Inr e, fs')"
  shows "evidence_law i doc sha e (firestore_view (fs, k)) (firestore_view (fs', k'))"
proof (cases "fs_evidence fs i")
  case None
  with assms show ?thesis
    by (auto simp: fs_save_evidence_def guard_simps Let_def evidence_law_def firestore_view_def tables_only)
next
  case (Some old)
  with assms have "e = old" "fs' = fs" "sha256 (utf8 doc) = sha" "se_sha256 old = sha" "se_document_json old = doc"
    by (auto simp: fs_save_evidence_def guard_simps split: if_splits)
  with Some show ?thesis by (simp add: evidence_law_def firestore_view_def fun_upd_idem)
qed

lemma sqlite_begin_law:
  "begin_publication i sha c db = (Inr p, db') \<Longrightarrow>
     publication_law i p (sqlite_view (db, k)) (sqlite_view (db', k')) \<and> cp_payload_sha256 p = sha"
  by (cases "db_publications db i") (force simp: begin_publication_def put_publication_def guard_simps
      publication_law_def sqlite_view_def tables_only split: if_splits)+

lemma sqlite_check_law:
  "set_check_run_id i n c db = (Inr p, db') \<Longrightarrow>
     publication_law i p (sqlite_view (db, k)) (sqlite_view (db', k')) \<and> cp_check_run_id p = Some n \<and> 0 < n
     \<and> (\<exists>old. db_publications db i = Some old)"
  by (cases "db_publications db i") (force simp: set_check_run_id_def put_publication_def guard_simps
      publication_law_def sqlite_view_def tables_only split: if_splits)+

lemma sqlite_error_law:
  "record_publication_error i m c db = (Inr p, db') \<Longrightarrow>
     publication_law i p (sqlite_view (db, k)) (sqlite_view (db', k')) \<and> (\<exists>old. db_publications db i = Some old)"
  by (cases "db_publications db i") (force simp: record_publication_error_def put_publication_def guard_simps
      publication_law_def sqlite_view_def tables_only split: if_splits)+

lemma update_publication_law:
  assumes "update_publication i n m c fs = (Inr p, fs')"
  shows "publication_law i p (firestore_view (fs, k)) (firestore_view (fs', k')) \<and> (\<exists>old. fs_publications fs i = Some old)
     \<and> (n \<noteq> None \<longrightarrow> cp_check_run_id p = n)"
proof (cases "fs_publications fs i")
  case None
  with assms show ?thesis by (auto simp: update_publication_def guard_simps)
next
  case (Some old)
  with assms obtain now where fs': "fs' = fs\<lparr>fs_publications := (fs_publications fs)(i \<mapsto> p)\<rparr>"
    and p: "p = \<lparr>cp_run_id = i, cp_payload_sha256 = cp_payload_sha256 old, cp_check_run_id = or_else n (cp_check_run_id old),
              cp_attempt_count = cp_attempt_count old, cp_last_error = or_else m (cp_last_error old), cp_updated_at = now\<rparr>"
    and keep: "\<not> (n \<noteq> None \<and> cp_check_run_id old \<noteq> None \<and> cp_check_run_id old \<noteq> n)"
    by (auto simp: update_publication_def fs_put_publication_def guard_simps split: if_splits)
  from keep have "n \<noteq> None \<longrightarrow> or_else n (cp_check_run_id old) = n"
    "cp_check_run_id old \<noteq> None \<longrightarrow> or_else n (cp_check_run_id old) = cp_check_run_id old"
    by (auto simp: or_else_def split: option.splits)
  with Some show ?thesis by (simp add: publication_law_def firestore_view_def tables_only fs' p)
qed

lemma firestore_begin_law:
  assumes "fs_begin_publication i sha c fs = (Inr p, fs')"
  shows "publication_law i p (firestore_view (fs, k)) (firestore_view (fs', k')) \<and> cp_payload_sha256 p = sha"
  using assms
  by (cases "fs_publications fs i") (force simp: fs_begin_publication_def fs_put_publication_def guard_simps
      publication_law_def firestore_view_def tables_only split: if_splits)+

lemma firestore_check_law:
  assumes "fs_set_check_run_id i n c fs = (Inr p, fs')"
  shows "publication_law i p (firestore_view (fs, k)) (firestore_view (fs', k')) \<and> cp_check_run_id p = Some n \<and> 0 < n
     \<and> (\<exists>old. fs_publications fs i = Some old)"
proof -
  from assms have "0 < n" "update_publication i (Some n) None c fs = (Inr p, fs')"
    by (auto simp: fs_set_check_run_id_def guard_simps)
  with update_publication_law [OF this(2), of k k'] show ?thesis by simp
qed

lemma firestore_error_law:
  "fs_record_publication_error i m c fs = (Inr p, fs') \<Longrightarrow>
     publication_law i p (firestore_view (fs, k)) (firestore_view (fs', k')) \<and> (\<exists>old. fs_publications fs i = Some old)"
  using update_publication_law [of i None "Some (bounded_error m)" c fs p fs' k k']
  by (simp add: fs_record_publication_error_def)

interpretation sqlite: run_store "sqlite_ops clock ids" sqlite_view
proof unfold_locales
  fix s s' i v t e r doc sha ev p n m code summary retryable usage raw f
  show "so_get_run (sqlite_ops clock ids) i s = (sv_runs (sqlite_view s) i, s)"
    "so_get_evidence (sqlite_ops clock ids) i s = (Inr (sv_evidence (sqlite_view s) i), s)"
    "so_get_publication (sqlite_ops clock ids) i s = (Inr (sv_publications (sqlite_view s) i), s)"
    by (cases s; simp add: sqlite_ops_def observing_def sqlite_view_def get_run_def get_evidence_def get_publication_def)+
  show "sv_runs (sqlite_view s) i = Inr r \<Longrightarrow> vr_run_id r = i \<and> run_ok r"
    by (cases s) (simp add: sqlite_view_def require_run_id)
  show "so_transition (sqlite_ops clock ids) i v t s = (Inl e, s') \<Longrightarrow> sqlite_view s' = sqlite_view s"
    "so_save_evidence (sqlite_ops clock ids) i doc sha s = (Inl e, s') \<Longrightarrow> sqlite_view s' = sqlite_view s"
    "so_begin_publication (sqlite_ops clock ids) i sha s = (Inl e, s') \<Longrightarrow> sqlite_view s' = sqlite_view s"
    "so_set_check_run_id (sqlite_ops clock ids) i n s = (Inl e, s') \<Longrightarrow> sqlite_view s' = sqlite_view s"
    "so_record_error (sqlite_ops clock ids) i m s = (Inl e, s') \<Longrightarrow> sqlite_view s' = sqlite_view s"
    "so_fail_run (sqlite_ops clock ids) i code summary retryable usage raw s = (Inl e, s') \<Longrightarrow> sqlite_view s' = sqlite_view s"
    by (simp add: sqlite_ops_def, drule ticking_raises, rule sqlite_ops_atomic, erule view_of_tables)+
  show "so_transition (sqlite_ops clock ids) i v t s = (Inr r, s') \<Longrightarrow> transition_law i v t r (sqlite_view s) (sqlite_view s')"
    by (auto simp: sqlite_ops_def ticking_returns intro: sqlite_transition_law)
  show "so_save_evidence (sqlite_ops clock ids) i doc sha s = (Inr ev, s') \<Longrightarrow> evidence_law i doc sha ev (sqlite_view s) (sqlite_view s')"
    by (auto simp: sqlite_ops_def ticking_returns intro: sqlite_evidence_law)
  show "so_begin_publication (sqlite_ops clock ids) i sha s = (Inr p, s') \<Longrightarrow>
      publication_law i p (sqlite_view s) (sqlite_view s') \<and> cp_payload_sha256 p = sha"
    by (auto simp: sqlite_ops_def ticking_returns dest: sqlite_begin_law)
  show "so_set_check_run_id (sqlite_ops clock ids) i n s = (Inr p, s') \<Longrightarrow>
      publication_law i p (sqlite_view s) (sqlite_view s') \<and> cp_check_run_id p = Some n \<and> 0 < n
      \<and> (\<exists>old. sv_publications (sqlite_view s) i = Some old)"
    by (auto simp: sqlite_ops_def ticking_returns sqlite_view_def dest: sqlite_check_law)
  show "so_record_error (sqlite_ops clock ids) i m s = (Inr p, s') \<Longrightarrow>
      publication_law i p (sqlite_view s) (sqlite_view s') \<and> (\<exists>old. sv_publications (sqlite_view s) i = Some old)"
    by (auto simp: sqlite_ops_def ticking_returns sqlite_view_def dest: sqlite_error_law)
  show "so_fail_run (sqlite_ops clock ids) i code summary retryable usage raw s = (Inr f, s') \<Longrightarrow>
      fail_law i code summary retryable usage raw f (sqlite_view s) (sqlite_view s')"
    by (auto simp: sqlite_ops_def ticking_returns intro: sqlite_fail_law)
qed

interpretation firestore: run_store "firestore_ops clock ids" firestore_view
proof unfold_locales
  fix s s' i v t e r doc sha ev p n m code summary retryable usage raw f
  show "so_get_run (firestore_ops clock ids) i s = (sv_runs (firestore_view s) i, s)"
    "so_get_evidence (firestore_ops clock ids) i s = (Inr (sv_evidence (firestore_view s) i), s)"
    "so_get_publication (firestore_ops clock ids) i s = (Inr (sv_publications (firestore_view s) i), s)"
    by (cases s; simp add: firestore_ops_def observing_def firestore_view_def fs_get_run_def fs_get_evidence_def fs_get_publication_def)+
  show "sv_runs (firestore_view s) i = Inr r \<Longrightarrow> vr_run_id r = i \<and> run_ok r"
    by (cases s) (simp add: firestore_view_def document_run_id)
  show "so_transition (firestore_ops clock ids) i v t s = (Inl e, s') \<Longrightarrow> firestore_view s' = firestore_view s"
    "so_save_evidence (firestore_ops clock ids) i doc sha s = (Inl e, s') \<Longrightarrow> firestore_view s' = firestore_view s"
    "so_begin_publication (firestore_ops clock ids) i sha s = (Inl e, s') \<Longrightarrow> firestore_view s' = firestore_view s"
    "so_set_check_run_id (firestore_ops clock ids) i n s = (Inl e, s') \<Longrightarrow> firestore_view s' = firestore_view s"
    "so_record_error (firestore_ops clock ids) i m s = (Inl e, s') \<Longrightarrow> firestore_view s' = firestore_view s"
    "so_fail_run (firestore_ops clock ids) i code summary retryable usage raw s = (Inl e, s') \<Longrightarrow> firestore_view s' = firestore_view s"
    by (simp add: firestore_ops_def, drule ticking_raises, rule firestore_ops_atomic, erule view_of_tables)+
  show "so_transition (firestore_ops clock ids) i v t s = (Inr r, s') \<Longrightarrow> transition_law i v t r (firestore_view s) (firestore_view s')"
    by (auto simp: firestore_ops_def ticking_returns intro: firestore_transition_law)
  show "so_save_evidence (firestore_ops clock ids) i doc sha s = (Inr ev, s') \<Longrightarrow> evidence_law i doc sha ev (firestore_view s) (firestore_view s')"
    by (auto simp: firestore_ops_def ticking_returns intro: firestore_evidence_law)
  show "so_begin_publication (firestore_ops clock ids) i sha s = (Inr p, s') \<Longrightarrow>
      publication_law i p (firestore_view s) (firestore_view s') \<and> cp_payload_sha256 p = sha"
    by (auto simp: firestore_ops_def ticking_returns dest: firestore_begin_law)
  show "so_set_check_run_id (firestore_ops clock ids) i n s = (Inr p, s') \<Longrightarrow>
      publication_law i p (firestore_view s) (firestore_view s') \<and> cp_check_run_id p = Some n \<and> 0 < n
      \<and> (\<exists>old. sv_publications (firestore_view s) i = Some old)"
    by (auto simp: firestore_ops_def ticking_returns firestore_view_def dest: firestore_check_law)
  show "so_record_error (firestore_ops clock ids) i m s = (Inr p, s') \<Longrightarrow>
      publication_law i p (firestore_view s) (firestore_view s') \<and> (\<exists>old. sv_publications (firestore_view s) i = Some old)"
    by (auto simp: firestore_ops_def ticking_returns firestore_view_def dest: firestore_error_law)
  show "so_fail_run (firestore_ops clock ids) i code summary retryable usage raw s = (Inr f, s') \<Longrightarrow>
      fail_law i code summary retryable usage raw f (firestore_view s) (firestore_view s')"
    by (auto simp: firestore_ops_def ticking_returns intro: firestore_fail_law)
qed

end
