(* ===== verification/ControlPlane.thy ===== *)
theory ControlPlane
  imports PrResolution StoreOps
begin

text \<open>
  \<open>src/patchproof/github_webhook.py\<close>, \<open>control_plane.py\<close> and \<open>cloud_tasks.py\<close>: HMAC
  authentication, the webhook handler over a run store, and the idempotent hand-over of accepted
  runs to a task queue. The JSON decoder and the Cloud Tasks service are parameters. The facts say
  which requests can change the store, and that a run is queued under one name however often it is
  dispatched.
\<close>

section \<open>Authentication\<close>

fun hex_value :: "char \<Rightarrow> nat" where
  "hex_value c = (if is_digit c then of_char c - 48 else of_char c - 87)"

fun unhex :: "string \<Rightarrow> bytes" where
  "unhex (a # b # s) = of_nat (hex_value a * 16 + hex_value b) # unhex s"
| "unhex _ = []"

definition sha256_digest :: "bytes \<Rightarrow> bytes" where
  "sha256_digest m = unhex (sha256 m)"

definition hmac_key :: "bytes \<Rightarrow> bytes" where
  "hmac_key secret =
     (let key = if 64 < length secret then sha256_digest secret else secret in
      key @ replicate (64 - length key) 0)"

unbundle bit_operations_syntax

definition hmac_sha256 :: "bytes \<Rightarrow> bytes \<Rightarrow> string" where
  "hmac_sha256 secret body =
     (let key = hmac_key secret in
      sha256 (map (\<lambda>b. b XOR 92) key @ sha256_digest (map (\<lambda>b. b XOR 54) key @ body)))"

definition signature_pattern :: regex where
  "signature_pattern = Seq (lit ''sha256='') (Grp ''1'' (times_re (Cls is_lower_hex) 64))"

definition delivery_pattern :: regex where
  "delivery_pattern = Rep (Cls (\<lambda>c. is_alnum c \<or> c \<in> set ''._:-'')) 1 (Some 128)"

definition verify_github_signature :: "bytes \<Rightarrow> bytes \<Rightarrow> string option \<Rightarrow> bool" where
  "verify_github_signature secret body signature_header =
     (if secret = [] then False
      else case signature_header of
        None \<Rightarrow> False
      | Some h \<Rightarrow>
          (case fullmatch signature_pattern (lower (strip h)) of
             None \<Rightarrow> False
           | Some groups \<Rightarrow> hmac_sha256 secret body = get_group groups ''1''))"

definition validate_delivery_id :: "string option \<Rightarrow> exn + string" where
  "validate_delivery_id value =
     (let normalized = (case value of None \<Rightarrow> [] | Some v \<Rightarrow> strip v) in
      if \<not> is_fullmatch delivery_pattern normalized
      then Inl (ValueError ''X-GitHub-Delivery is missing or malformed'') else Inr normalized)"

section \<open>The payload\<close>

definition SUPPORTED_PULL_REQUEST_ACTIONS :: "string list" where
  "SUPPORTED_PULL_REQUEST_ACTIONS = [''opened'', ''reopened'', ''synchronize'', ''ready_for_review'']"

record webhook_payload =
  wp_action :: string
  wp_number :: int
  wp_full_name :: string
  wp_private :: bool
  wp_base_sha :: string
  wp_head_sha :: string
  wp_updated_at :: datetime
  wp_title :: string
  wp_body :: "string option"
  wp_installation :: "int option"

definition is_aware :: "datetime \<Rightarrow> bool" where
  "is_aware d = (case d of Naive _ \<Rightarrow> False | Aware _ _ \<Rightarrow> True)"

definition webhook_fields_ok :: "webhook_payload \<Rightarrow> bool" where
  "webhook_fields_ok p =
     (len_between 1 64 (wp_action p) \<and> 0 < wp_number p \<and> len_between 3 256 (wp_full_name p)
      \<and> is_aware (wp_updated_at p) \<and> pos_opt (wp_installation p))"

definition to_event :: "webhook_payload \<Rightarrow> string \<Rightarrow> exn + PullRequestEvent" where
  "to_event p delivery_id =
     mk_PullRequestEvent delivery_id (wp_action p) (wp_full_name p) (wp_number p) (wp_base_sha p)
       (wp_head_sha p) (wp_updated_at p) (bounded_title (wp_title p)) (bounded_body (wp_body p))
       (wp_installation p)"

section \<open>Settings and requests\<close>

record control_plane_settings =
  cs_webhook_secret :: bytes
  cs_allowed_repositories :: "string list"
  cs_max_payload_bytes :: nat

definition mk_control_plane_settings :: "bytes \<Rightarrow> string list \<Rightarrow> int \<Rightarrow> exn + control_plane_settings" where
  "mk_control_plane_settings secret allowed max_payload_bytes =
     rbind (guard (secret \<noteq> []) (ValueError ''GitHub webhook secret must not be empty'')) (\<lambda>_.
     rbind (rmap normalize_repository_name (filter (\<lambda>r. strip r \<noteq> []) allowed)) (\<lambda>repositories.
     rbind (checks
       [(repositories = [], ValueError ''at least one allowlisted repository is required''),
        (max_payload_bytes \<le> 0, ValueError ''maximum webhook payload size must be positive'')]) (\<lambda>_.
     Inr \<lparr>cs_webhook_secret = secret, cs_allowed_repositories = repositories,
          cs_max_payload_bytes = nat max_payload_bytes\<rparr>)))"

record http_request =
  hq_headers :: "(string \<times> string) list"
  hq_chunks :: "bytes list"

definition request_header :: "http_request \<Rightarrow> string \<Rightarrow> string option" where
  "request_header q name = map_of (hq_headers q) name"

datatype http_error = HTTPException int string | Raised exn

definition read_bounded_body :: "http_request \<Rightarrow> nat \<Rightarrow> http_error + bytes" where
  "read_bounded_body q maximum_bytes =
     rbind (case request_header q ''content-length'' of
        None \<Rightarrow> Inr ()
      | Some v \<Rightarrow>
          (case py_int v of
             None \<Rightarrow> Inl (HTTPException 400 ''invalid Content-Length header'')
           | Some n \<Rightarrow>
               (if n < 0 then Inl (HTTPException 400 ''invalid Content-Length header'')
                else if int maximum_bytes < n then Inl (HTTPException 413 ''webhook payload is too large'')
                else Inr ())))
     (\<lambda>_. bounded_chunks maximum_bytes (HTTPException 413 ''webhook payload is too large'') [] (hq_chunks q))"

section \<open>The webhook handler\<close>

datatype WebhookDisposition = ACCEPTED | DUPLICATE | STALE | IGNORED

record webhook_response =
  wr_status_code :: int
  wr_disposition :: WebhookDisposition
  wr_detail :: string
  wr_run_id :: "uuid option"
  wr_lifecycle :: "RunLifecycle option"
  wr_revision_state :: "RevisionState option"

definition ignored :: "string \<Rightarrow> webhook_response" where
  "ignored detail = \<lparr>wr_status_code = 202, wr_disposition = IGNORED, wr_detail = detail,
     wr_run_id = None, wr_lifecycle = None, wr_revision_state = None\<rparr>"

text \<open>What the request asks for, before the store is touched: nothing, or an event.\<close>

definition authenticate ::
    "(bytes \<Rightarrow> webhook_payload option) \<Rightarrow> control_plane_settings \<Rightarrow> http_request
       \<Rightarrow> http_error + (webhook_response + PullRequestEvent)" where
  "authenticate json settings q =
     rbind (read_bounded_body q (cs_max_payload_bytes settings)) (\<lambda>body.
     rbind (guard (verify_github_signature (cs_webhook_secret settings) body (request_header q ''x-hub-signature-256''))
              (HTTPException 401 ''invalid GitHub webhook signature'')) (\<lambda>_.
     rbind (case validate_delivery_id (request_header q ''x-github-delivery'') of
              Inl e \<Rightarrow> Inl (HTTPException 400 ''X-GitHub-Delivery is missing or malformed'') | Inr d \<Rightarrow> Inr d) (\<lambda>delivery_id.
     let event_name = lower (strip (case request_header q ''x-github-event'' of None \<Rightarrow> [] | Some v \<Rightarrow> v)) in
     if event_name = [] then Inl (HTTPException 400 ''X-GitHub-Event is missing'')
     else if event_name \<noteq> ''pull_request'' then Inr (Inl (ignored (''unsupported GitHub event: '' @ event_name)))
     else case json body of
       None \<Rightarrow> Inl (HTTPException 400 ''malformed pull-request payload'')
     | Some payload \<Rightarrow>
         (if \<not> webhook_fields_ok payload then Inl (HTTPException 400 ''malformed pull-request payload'')
          else if wp_action payload \<notin> set SUPPORTED_PULL_REQUEST_ACTIONS then
            Inr (Inl (ignored (''unsupported pull-request action: '' @ wp_action payload)))
          else if wp_private payload then Inl (HTTPException 403 ''private repositories are not supported'')
          else if lower (strip (wp_full_name payload)) \<notin> set (cs_allowed_repositories settings) then
            Inl (HTTPException 403 ''repository is not allowlisted'')
          else case to_event payload delivery_id of
            Inl e \<Rightarrow> (case e of ValidationError _ \<Rightarrow> Inl (HTTPException 400 ''invalid pull-request identity'')
                     | ValueError _ \<Rightarrow> Inl (HTTPException 400 ''invalid pull-request identity'')
                     | _ \<Rightarrow> Inl (Raised e))
          | Inr event \<Rightarrow> Inr (Inr event)))))"

text \<open>
  A dispatcher takes a run identity and either returns or raises; its own state is part of the
  handler's. \<open>None\<close> is the control plane without a dispatcher.
\<close>

type_synonym 'q dispatcher = "uuid \<Rightarrow> ('q, unit, unit) prog"

definition wants_dispatch :: "VerificationRun \<Rightarrow> bool" where
  "wants_dispatch run = (vr_revision_state run = RevisionState.CURRENT \<and> vr_lifecycle run \<noteq> TERMINAL)"

definition acceptance_response :: "AcceptanceResult \<Rightarrow> webhook_response" where
  "acceptance_response a =
     (let (code, disposition, detail) =
        (case ar_kind a of
           CREATED \<Rightarrow> (202, WebhookDisposition.ACCEPTED, ''verification run accepted'')
         | STALE_CREATED \<Rightarrow> (202, STALE, ''delivery recorded as stale; newer HEAD remains current'')
         | _ \<Rightarrow> (200, DUPLICATE, ''delivery resolved to an existing verification run'')) in
      \<lparr>wr_status_code = code, wr_disposition = disposition, wr_detail = detail,
       wr_run_id = Some (vr_run_id (ar_run a)), wr_lifecycle = Some (vr_lifecycle (ar_run a)),
       wr_revision_state = Some (vr_revision_state (ar_run a))\<rparr>)"

definition dispatch_run :: "'q dispatcher option \<Rightarrow> VerificationRun \<Rightarrow> 'q \<Rightarrow> (http_error + unit) \<times> 'q" where
  "dispatch_run dispatcher run q =
     (case dispatcher of
        None \<Rightarrow> (Inr (), q)
      | Some dispatch \<Rightarrow>
          (if wants_dispatch run then
             (case dispatch (vr_run_id run) q of
                (Inl _, q') \<Rightarrow> (Inl (HTTPException 503 ''verification dispatch is temporarily unavailable''), q')
              | (Inr _, q') \<Rightarrow> (Inr (), q'))
           else (Inr (), q)))"

definition github_webhook ::
    "'s store_ops \<Rightarrow> 'q dispatcher option \<Rightarrow> (bytes \<Rightarrow> webhook_payload option) \<Rightarrow> control_plane_settings
       \<Rightarrow> http_request \<Rightarrow> ('s \<times> 'q, http_error, webhook_response) prog" where
  "github_webhook ops dispatcher json settings request = (\<lambda>(s, q).
     case authenticate json settings request of
       Inl e \<Rightarrow> (Inl e, (s, q))
     | Inr (Inl response) \<Rightarrow> (Inr response, (s, q))
     | Inr (Inr event) \<Rightarrow>
         (case so_accept ops event s of
            (Inl e, s') \<Rightarrow> (Inl (Raised e), (s', q))
          | (Inr acceptance, s') \<Rightarrow>
              (case dispatch_run dispatcher (ar_run acceptance) q of
                 (Inl e, q') \<Rightarrow> (Inl e, (s', q'))
               | (Inr _, q') \<Rightarrow> (Inr (acceptance_response acceptance), (s', q')))))"

section \<open>Cloud Tasks\<close>

record tasks_settings =
  td_project_id :: string
  td_location :: string
  td_queue :: string
  td_target_url :: string
  td_service_account_email :: string
  td_audience :: string
  td_deadline_seconds :: int

definition mk_tasks_settings :: "tasks_settings \<Rightarrow> exn + tasks_settings" where
  "mk_tasks_settings t =
     rbind (checks
       [(list_ex (\<lambda>v. strip v = []) [td_project_id t, td_location t, td_queue t, td_target_url t,
           td_service_account_email t, td_audience t], ValueError ''Cloud Tasks settings must not be empty''),
        (\<not> startswith (td_target_url t) ''https://'' \<or> \<not> startswith (td_audience t) ''https://'',
         ValueError ''Cloud Tasks target and audience must use HTTPS''),
        (\<not> (15 \<le> td_deadline_seconds t \<and> td_deadline_seconds t \<le> 1800),
         ValueError ''Cloud Tasks deadline must be between 15 and 1800 seconds'')])
     (\<lambda>_. Inr t)"

record cloud_task =
  ct_name :: string
  ct_url :: string
  ct_run_id :: uuid
  ct_service_account_email :: string
  ct_audience :: string
  ct_deadline_seconds :: int

datatype create_error = AlreadyExists | ApiError

type_synonym task_queue = "string \<Rightarrow> cloud_task option"

definition queue_path :: "tasks_settings \<Rightarrow> string" where
  "queue_path t = ''projects/'' @ td_project_id t @ ''/locations/'' @ td_location t @ ''/queues/'' @ td_queue t"

text \<open>\<open>run_id.hex\<close> is a parameter: 32 hexadecimal digits, one text per UUID.\<close>

definition run_task :: "tasks_settings \<Rightarrow> (uuid \<Rightarrow> string) \<Rightarrow> uuid \<Rightarrow> cloud_task" where
  "run_task t uuid_hex run_id =
     \<lparr>ct_name = queue_path t @ ''/tasks/run-'' @ uuid_hex run_id, ct_url = td_target_url t, ct_run_id = run_id,
      ct_service_account_email = td_service_account_email t, ct_audience = td_audience t,
      ct_deadline_seconds = td_deadline_seconds t\<rparr>"

definition tasks_dispatch ::
    "tasks_settings \<Rightarrow> (uuid \<Rightarrow> string) \<Rightarrow> (cloud_task \<Rightarrow> (task_queue, create_error, unit) prog) \<Rightarrow> task_queue dispatcher" where
  "tasks_dispatch t uuid_hex create_task run_id = (\<lambda>q.
     case create_task (run_task t uuid_hex run_id) q of
       (Inl AlreadyExists, q') \<Rightarrow> (Inr (), q')
     | (Inl ApiError, q') \<Rightarrow> (Inl (), q')
     | (Inr _, q') \<Rightarrow> (Inr (), q'))"

text \<open>
  The documented behaviour of \<open>CreateTask\<close>: it may fail without effect, it refuses the name of an
  existing task, and otherwise it adds the task under its name, whether or not the caller learns of it.
\<close>


definition create_task_law :: "(cloud_task \<Rightarrow> (task_queue, create_error, unit) prog) \<Rightarrow> bool" where
  "create_task_law create_task =
     (\<forall>task q. create_task task q = (Inl ApiError, q)
        \<or> (q (ct_name task) \<noteq> None \<and> create_task task q = (Inl AlreadyExists, q))
        \<or> (q (ct_name task) = None
           \<and> create_task task q \<in> {(Inr (), q(ct_name task \<mapsto> task)), (Inl ApiError, q(ct_name task \<mapsto> task))}))"

text \<open>Every dispatch the control plane makes, in order, over one queue.\<close>

fun dispatches :: "'q dispatcher \<Rightarrow> uuid list \<Rightarrow> 'q \<Rightarrow> (uuid \<times> (unit + unit)) list \<times> 'q" where
  "dispatches dispatch [] q = ([], q)"
| "dispatches dispatch (i # is) q =
     (let (r, q') = dispatch i q; (rs, q'') = dispatches dispatch is q' in ((i, r) # rs, q''))"

section \<open>Which requests can change the store\<close>

lemma signature_groups:
  assumes "fullmatch signature_pattern s = Some g"
  shows "s = ''sha256='' @ get_group g ''1''"
  using fullmatch_groups [OF assms] unfolding signature_pattern_def
  by (auto simp: get_group_def simp del: lit.simps)

lemma signature_accepts:
  assumes "is_sha256_hex d"
  shows "is_fullmatch signature_pattern (''sha256='' @ d)"
proof -
  have "plain signature_pattern" by (simp add: signature_pattern_def)
  moreover have "lang signature_pattern (''sha256='' @ d)"
    using assms unfolding signature_pattern_def lang_Seq_lit
    by (intro exI [of _ d]) (simp add: is_sha256_hex_def list_all_iff)
  ultimately show ?thesis by (simp only: fullmatch_lang)
qed

lemma verified_signature:
  "verify_github_signature secret body h \<longleftrightarrow>
     secret \<noteq> [] \<and> (\<exists>v. h = Some v \<and> lower (strip v) = ''sha256='' @ hmac_sha256 secret body)"
proof -
  have "is_sha256_hex (hmac_sha256 secret body)" by (simp add: hmac_sha256_def Let_def)
  from signature_accepts [OF this] obtain g where
    "fullmatch signature_pattern (''sha256='' @ hmac_sha256 secret body) = Some g" by (auto simp: is_fullmatch_def)
  moreover from signature_groups [OF this] have "get_group g ''1'' = hmac_sha256 secret body" by simp
  ultimately show ?thesis
    by (auto simp: verify_github_signature_def dest: signature_groups split: if_splits option.splits)
qed

lemma read_bounded_ok:
  "read_bounded_body q m = Inr body \<Longrightarrow> body = concat (hq_chunks q) \<and> length body \<le> m"
  unfolding read_bounded_body_def rbind_eq_Inr by (auto dest: bounded_chunks_ok)

definition authentic :: "(bytes \<Rightarrow> webhook_payload option) \<Rightarrow> control_plane_settings \<Rightarrow> http_request \<Rightarrow> PullRequestEvent \<Rightarrow> bool" where
  "authentic json settings q event =
     (\<exists>body v payload delivery. body = concat (hq_chunks q) \<and> length body \<le> cs_max_payload_bytes settings
        \<and> request_header q ''x-hub-signature-256'' = Some v
        \<and> lower (strip v) = ''sha256='' @ hmac_sha256 (cs_webhook_secret settings) body
        \<and> json body = Some payload \<and> wp_action payload \<in> set SUPPORTED_PULL_REQUEST_ACTIONS
        \<and> \<not> wp_private payload \<and> lower (strip (wp_full_name payload)) \<in> set (cs_allowed_repositories settings)
        \<and> to_event payload delivery = Inr event)"

lemma authenticate_event:
  assumes "authenticate json settings q = Inr (Inr event)"
  shows "authentic json settings q event"
proof -
  from assms obtain body delivery payload where
    body: "read_bounded_body q (cs_max_payload_bytes settings) = Inr body"
    and sig: "verify_github_signature (cs_webhook_secret settings) body (request_header q ''x-hub-signature-256'')"
    and p: "json body = Some payload" "wp_action payload \<in> set SUPPORTED_PULL_REQUEST_ACTIONS"
      "\<not> wp_private payload" "lower (strip (wp_full_name payload)) \<in> set (cs_allowed_repositories settings)"
      "to_event payload delivery = Inr event"
    unfolding authenticate_def rbind_eq_Inr Let_def guard_eq_Inr
    by (elim exE conjE) (simp split: if_splits option.splits sum.splits exn.splits)
  from sig [unfolded verified_signature] read_bounded_ok [OF body] p show ?thesis
    unfolding authentic_def by blast
qed

text \<open>
  C12: The webhook changes no state for a request that is not authentic: when the store or the
  task queue differ afterwards, the whole body was within the limit, carried the HMAC of the
  secret, and decoded to a supported action on an allowlisted public repository, whose event the
  store accepted; and only the accepted run, CURRENT and not TERMINAL, was dispatched.
\<close>

theorem webhook_authentic:
  assumes "github_webhook ops dispatcher json settings request (s, q) = (r, (s', q'))" and "(s', q') \<noteq> (s, q)"
  shows "\<exists>event result. authentic json settings request event \<and> so_accept ops event s = (result, s')
     \<and> (q' \<noteq> q \<longrightarrow> (\<exists>accepted dispatch. result = Inr accepted \<and> wants_dispatch (ar_run accepted)
          \<and> dispatcher = Some dispatch \<and> snd (dispatch (vr_run_id (ar_run accepted)) q) = q'))"
proof -
  from assms obtain event where e: "authenticate json settings request = Inr (Inr event)"
    by (auto simp: github_webhook_def split: sum.splits)
  with assms(1) have "so_accept ops event s = (fst (so_accept ops event s), s')"
    and "q' \<noteq> q \<longrightarrow> (\<exists>accepted dispatch. fst (so_accept ops event s) = Inr accepted \<and> wants_dispatch (ar_run accepted)
          \<and> dispatcher = Some dispatch \<and> snd (dispatch (vr_run_id (ar_run accepted)) q) = q')"
    by (auto simp: github_webhook_def dispatch_run_def split: sum.splits option.splits prod.splits if_splits)
  with authenticate_event [OF e] show ?thesis by blast
qed

definition sample_secret :: bytes where "sample_secret = [1]"

definition sample_settings :: control_plane_settings where
  "sample_settings = \<lparr>cs_webhook_secret = sample_secret, cs_allowed_repositories = [''o/r''], cs_max_payload_bytes = 8\<rparr>"

definition sample_payload :: webhook_payload where
  "sample_payload = \<lparr>wp_action = ''opened'', wp_number = 7, wp_full_name = ''o/r'', wp_private = False,
     wp_base_sha = replicate 40 (CHR ''a''), wp_head_sha = replicate 40 (CHR ''b''), wp_updated_at = Aware 5 0,
     wp_title = ''t'', wp_body = None, wp_installation = None\<rparr>"

definition sample_request :: http_request where
  "sample_request = \<lparr>hq_headers = [(''x-hub-signature-256'', ''sha256='' @ hmac_sha256 sample_secret [9]),
     (''x-github-delivery'', ''d1''), (''x-github-event'', ''pull_request'')], hq_chunks = [[9]]\<rparr>"

lemma sample_authentic: "\<exists>event. authenticate (\<lambda>_. Some sample_payload) sample_settings sample_request = Inr (Inr event)"
proof -
  have body: "read_bounded_body sample_request 8 = Inr [9]"
    by (simp add: read_bounded_body_def sample_request_def request_header_def)
  have no_space: "list_all (\<lambda>c. \<not> is_space c \<and> lower_char c = c) (''sha256='' @ hmac_sha256 sample_secret [9])" (is "list_all _ ?h")
  proof -
    have "is_sha256_hex (hmac_sha256 sample_secret [9])" by (simp add: hmac_sha256_def Let_def)
    then show ?thesis
      by (auto simp: is_sha256_hex_def list_all_iff is_lower_hex_def is_digit_def in_range_def is_space_def lower_char_def)
  qed
  have "lower (strip ?h) = ?h"
  proof -
    have ne: "?h \<noteq> []" by simp
    from no_space hd_in_set [OF ne] last_in_set [OF ne] have "\<not> is_space (hd ?h)" "\<not> is_space (last ?h)"
      unfolding list_all_iff by blast+
    with ne have "strip ?h = ?h" by (rule strip_ends)
    with no_space show ?thesis by (simp only: lower_def) (simp add: list_all_iff map_idI)
  qed
  then have sig: "verify_github_signature sample_secret [9] (request_header sample_request ''x-hub-signature-256'')"
    unfolding verified_signature by (simp add: sample_request_def request_header_def sample_secret_def)
  have headers: "request_header sample_request ''x-github-delivery'' = Some ''d1''"
    "request_header sample_request ''x-github-event'' = Some ''pull_request''"
    by (simp_all add: sample_request_def request_header_def)
  have d: "validate_delivery_id (Some ''d1'') = Inr ''d1''" by code_simp
  have e: "lower (strip ''pull_request'') = ''pull_request''" by code_simp
  have p: "webhook_fields_ok sample_payload" "wp_action sample_payload \<in> set SUPPORTED_PULL_REQUEST_ACTIONS"
    "\<not> wp_private sample_payload" "lower (strip (wp_full_name sample_payload)) \<in> set (cs_allowed_repositories sample_settings)"
    by code_simp+
  have "is_ok (to_event sample_payload ''d1'')" by code_simp
  then obtain event where "to_event sample_payload ''d1'' = Inr event" by (auto simp: is_ok_iff)
  then have "authenticate (\<lambda>_. Some sample_payload) sample_settings sample_request = Inr (Inr event)"
    unfolding authenticate_def using body sig p by (simp add: headers d e sample_settings_def)
  then show ?thesis by blast
qed

theorem webhook_authentic_witness:
  "\<exists>r s' q' event result. github_webhook (sqlite_ops (\<lambda>_. Aware 6 0) (\<lambda>n. n)) None (\<lambda>_. Some sample_payload) sample_settings
       sample_request ((empty_database, 0), ()) = (r, (s', q')) \<and> (s', q') \<noteq> ((empty_database, 0), ())
     \<and> authentic (\<lambda>_. Some sample_payload) sample_settings sample_request event
     \<and> so_accept (sqlite_ops (\<lambda>_. Aware 6 0) (\<lambda>n. n)) event (empty_database, 0) = (result, s')"
proof -
  let ?ops = "sqlite_ops (\<lambda>_. Aware 6 0) (\<lambda>n. n)" and ?json = "\<lambda>_ :: bytes. Some sample_payload"
  obtain r s' q' where w: "github_webhook ?ops None ?json sample_settings sample_request ((empty_database, 0), ()) = (r, (s', q'))"
    by (cases "github_webhook ?ops None ?json sample_settings sample_request ((empty_database, 0), ())") auto
  from sample_authentic obtain event where e: "authenticate ?json sample_settings sample_request = Inr (Inr event)" by blast
  from w have "snd s' = 1"
    by (auto simp: github_webhook_def e sqlite_ops_def ticking_def split: prod.splits sum.splits)
  then have ne: "(s', q') \<noteq> ((empty_database, 0), ())" by auto
  from webhook_authentic [OF w this] w ne show ?thesis by blast
qed

section \<open>Cloud Tasks\<close>

lemma dispatch_effect:
  assumes law: "create_task_law create_task" and d: "tasks_dispatch t uuid_hex create_task i q = (r, q')"
  shows "(q' = q \<or> q (ct_name (run_task t uuid_hex i)) = None \<and> q' = q(ct_name (run_task t uuid_hex i) \<mapsto> run_task t uuid_hex i))
     \<and> (r = Inr () \<longrightarrow> q' (ct_name (run_task t uuid_hex i)) \<noteq> None)"
  using law [unfolded create_task_law_def, rule_format, of "run_task t uuid_hex i" q] d
  by (auto simp: tasks_dispatch_def)

definition only_tasks :: "tasks_settings \<Rightarrow> (uuid \<Rightarrow> string) \<Rightarrow> uuid set \<Rightarrow> task_queue \<Rightarrow> bool" where
  "only_tasks t uuid_hex I q = (\<forall>n task. q n = Some task \<longrightarrow> n = ct_name task \<and> (\<exists>i \<in> I. task = run_task t uuid_hex i))"

lemma dispatches_effect:
  assumes law: "create_task_law create_task"
  shows "dispatches (tasks_dispatch t uuid_hex create_task) is q = (rs, q') \<Longrightarrow> only_tasks t uuid_hex I q \<Longrightarrow>
    only_tasks t uuid_hex (I \<union> set is) q' \<and> q \<subseteq>\<^sub>m q'
    \<and> (\<forall>i. (i, Inr ()) \<in> set rs \<longrightarrow> q' (ct_name (run_task t uuid_hex i)) \<noteq> None)"
proof (induction "is" arbitrary: q rs I)
  case Nil
  then show ?case by simp
next
  case (Cons i "is")
  from Cons.prems(1) obtain r q1 rs1 where d: "tasks_dispatch t uuid_hex create_task i q = (r, q1)"
    and ds: "dispatches (tasks_dispatch t uuid_hex create_task) is q1 = (rs1, q')" and rs: "rs = (i, r) # rs1"
    by (auto simp: Let_def split: prod.splits)
  note e = dispatch_effect [OF law d]
  have only: "only_tasks t uuid_hex (insert i I) q1" using e Cons.prems(2) unfolding only_tasks_def
    by (fastforce split: if_splits)
  have le: "q \<subseteq>\<^sub>m q1" using e by (auto simp: map_le_def)
  from Cons.IH [OF ds only] have IH: "only_tasks t uuid_hex (insert i I \<union> set is) q'" "q1 \<subseteq>\<^sub>m q'"
    "\<forall>i. (i, Inr ()) \<in> set rs1 \<longrightarrow> q' (ct_name (run_task t uuid_hex i)) \<noteq> None" by simp_all
  have "r = Inr () \<longrightarrow> q' (ct_name (run_task t uuid_hex i)) \<noteq> None"
    using e IH(2) by (auto simp: map_le_def dom_def)
  with IH(1,3) map_le_trans [OF le IH(2)] show ?case by (auto simp: rs)
qed


text \<open>A service that times out after creating the task of an even run, and answers the others.\<close>

definition sample_create :: "cloud_task \<Rightarrow> (task_queue, create_error, unit) prog" where
  "sample_create task = (\<lambda>q.
     if q (ct_name task) \<noteq> None then (Inl AlreadyExists, q)
     else (if even (ct_run_id task) then Inl ApiError else Inr (), q(ct_name task \<mapsto> task)))"

definition sample_tasks :: tasks_settings where
  "sample_tasks = \<lparr>td_project_id = ''p'', td_location = ''l'', td_queue = ''q'', td_target_url = ''https://t'',
     td_service_account_email = ''e'', td_audience = ''https://t'', td_deadline_seconds = 600\<rparr>"


end
