(* ===== verification/Reliability.thy ===== *)
theory Reliability
  imports StoreOps
begin

text \<open>
  \<open>src/patchproof/model_reliability.py\<close>, \<open>reasoning_budget.py\<close> and \<open>reliable_worker.py\<close>: which
  provider failures are transient, the one retry of a semantic call, the budgets of the three tasks,
  and the worker that turns any failure of the workflow into a sanitized, stored one. A Python
  exception object is a number; its class and the exception it was raised from are read from a
  finite table.
\<close>

section \<open>Transient provider failures\<close>

datatype provider_class =
  TimeoutErrorClass | HttpxTimeoutException | HttpxNetworkError | ServerError | ClientError int | OtherClass

text \<open>Class and \<open>__cause__ or __context__\<close> of every exception object that exists.\<close>

type_synonym exception_table = "(nat \<times> provider_class \<times> nat option) list"

fun transient_class :: "provider_class \<Rightarrow> bool" where
  "transient_class TimeoutErrorClass = True"
| "transient_class HttpxTimeoutException = True"
| "transient_class HttpxNetworkError = True"
| "transient_class ServerError = True"
| "transient_class (ClientError code) = (code \<in> {408, 409, 425, 429})"
| "transient_class OtherClass = False"

function chain_transient :: "exception_table \<Rightarrow> nat set \<Rightarrow> nat option \<Rightarrow> bool" where
  "chain_transient table visited current =
     (case current of
        None \<Rightarrow> False
      | Some i \<Rightarrow>
          (if i \<in> visited then False
           else case map_of table i of
             None \<Rightarrow> False
           | Some (c, next) \<Rightarrow> transient_class c \<or> chain_transient table (insert i visited) next))"
  by pat_completeness simp

termination
proof (relation "measure (\<lambda>(table, visited, _). card (set (map fst table) - visited))")
  fix table :: exception_table and visited and current :: "nat option" and i c "next" and x :: "provider_class \<times> nat option"
  assume "i \<notin> visited" "map_of table i = Some x" "(c, next) = x"
  then have "i \<in> set (map fst table) - visited" by (force dest: map_of_SomeD)
  then have "card (set (map fst table) - visited - {i}) < card (set (map fst table) - visited)"
    by (intro card_Diff1_less) simp_all
  moreover have "set (map fst table) - insert i visited = set (map fst table) - visited - {i}" by blast
  ultimately show "((table, insert i visited, next), table, visited, current)
     \<in> measure (\<lambda>(table, visited, _). card (set (map fst table) - visited))" by simp
qed simp

definition is_transient_provider_error :: "exception_table \<Rightarrow> nat \<Rightarrow> bool" where
  "is_transient_provider_error table error = chain_transient table {} (Some error)"

definition transient_codes :: "string list" where
  "transient_codes = [''408'', ''409'', ''425'', ''429'', ''500'', ''502'', ''503'', ''504'', ''DEADLINE_EXCEEDED'',
     ''INTERNAL'', ''RESOURCE_EXHAUSTED'', ''SERVICE_UNAVAILABLE'', ''UNAVAILABLE'']"

definition is_transient_event_code :: "string option \<Rightarrow> bool" where
  "is_transient_event_code value =
     (upper (strip (case value of None \<Rightarrow> [] | Some v \<Rightarrow> v)) \<in> set transient_codes)"

section \<open>One retry\<close>

text \<open>A call takes the world it acts on; \<open>with_attempts\<close> is \<open>model_copy\<close> of the response's usage.\<close>

function retrying :: "('a \<Rightarrow> ('w, exn, 'r) prog) \<Rightarrow> (int \<Rightarrow> 'r \<Rightarrow> 'r) \<Rightarrow> int \<Rightarrow> 'a \<Rightarrow> ('w, exn, 'r) prog" where
  "retrying call with_attempts before request w =
     (let attempts = before + 1 in
      case call request w of
        (Inr response, w') \<Rightarrow> (Inr (with_attempts attempts response), w')
      | (Inl e, w') \<Rightarrow>
          (case e of
             ModelInvocationFailure m retryable \<Rightarrow>
               (if \<not> retryable \<or> 2 \<le> attempts then (Inl e, w') else retrying call with_attempts attempts request w')
           | _ \<Rightarrow> (Inl e, w')))"
  by pat_completeness auto

termination by (relation "measure (\<lambda>(_, _, before, _, _). nat (2 - before))") auto

definition BoundedRetryingModel_invoke ::
    "('a \<Rightarrow> ('w, exn, 'r) prog) \<Rightarrow> (int \<Rightarrow> 'r \<Rightarrow> 'r) \<Rightarrow> 'a \<Rightarrow> ('w, exn, 'r) prog" where
  "BoundedRetryingModel_invoke model with_attempts request = retrying model with_attempts 0 request"

definition BoundedRetryingEvidenceAssessor_assess ::
    "('c \<times> string \<times> ChallengeResult \<Rightarrow> ('w, exn, 'r) prog) \<Rightarrow> (int \<Rightarrow> 'r \<Rightarrow> 'r)
     \<Rightarrow> 'c \<Rightarrow> string \<Rightarrow> ChallengeResult \<Rightarrow> ('w, exn, 'r) prog" where
  "BoundedRetryingEvidenceAssessor_assess assessor with_attempts claim candidate_source challenge =
     retrying assessor with_attempts 0 (claim, candidate_source, challenge)"

section \<open>Reasoning budgets\<close>

datatype AgentTask = CLAIM_SELECTION | CANDIDATE_GENERATION | EVIDENCE_ASSESSMENT

datatype ThinkingLevel = LOW | MEDIUM

record ReasoningBudget =
  rb_task :: AgentTask
  rb_thinking_level :: ThinkingLevel
  rb_max_output_tokens :: int
  rb_temperature :: rat

definition mk_ReasoningBudget :: "AgentTask \<Rightarrow> ThinkingLevel \<Rightarrow> int \<Rightarrow> rat \<Rightarrow> exn + ReasoningBudget" where
  "mk_ReasoningBudget task thinking_level max_output_tokens temperature =
     rbind (checks
       [(max_output_tokens \<le> 0, ValueError ''reasoning budget output-token limit must be positive''),
        (\<not> (0 \<le> temperature \<and> temperature \<le> 1), ValueError ''reasoning budget temperature must be within [0.0, 1.0]'')])
     (\<lambda>_. Inr \<lparr>rb_task = task, rb_thinking_level = thinking_level, rb_max_output_tokens = max_output_tokens,
              rb_temperature = temperature\<rparr>)"

definition CLAIM_SELECTION_BUDGET :: "exn + ReasoningBudget" where
  "CLAIM_SELECTION_BUDGET = mk_ReasoningBudget CLAIM_SELECTION MEDIUM 4096 (1 / 10)"

definition CANDIDATE_GENERATION_BUDGET :: "exn + ReasoningBudget" where
  "CANDIDATE_GENERATION_BUDGET = mk_ReasoningBudget CANDIDATE_GENERATION MEDIUM 12000 (1 / 10)"

definition EVIDENCE_ASSESSMENT_BUDGET :: "exn + ReasoningBudget" where
  "EVIDENCE_ASSESSMENT_BUDGET = mk_ReasoningBudget EVIDENCE_ASSESSMENT LOW 4096 (1 / 10)"

fun budget_for :: "AgentTask \<Rightarrow> exn + ReasoningBudget" where
  "budget_for CLAIM_SELECTION = CLAIM_SELECTION_BUDGET"
| "budget_for CANDIDATE_GENERATION = CANDIDATE_GENERATION_BUDGET"
| "budget_for EVIDENCE_ASSESSMENT = EVIDENCE_ASSESSMENT_BUDGET"

section \<open>The worker\<close>

datatype WorkerFailureCode =
    MODEL_RETRY_EXHAUSTED | MODEL_OUTPUT_INVALID | REPOSITORY_CONTEXT_FAILED | EXECUTION_CONTRACT_INVALID
  | UNSUPPORTED_EXECUTION_PLAN | WORKSPACE_FAILED | CANDIDATE_BUDGET_VIOLATION | INTERNAL_WORKER_FAILURE

fun str_failure_code :: "WorkerFailureCode \<Rightarrow> string" where
  "str_failure_code MODEL_RETRY_EXHAUSTED = ''MODEL_RETRY_EXHAUSTED''"
| "str_failure_code MODEL_OUTPUT_INVALID = ''MODEL_OUTPUT_INVALID''"
| "str_failure_code REPOSITORY_CONTEXT_FAILED = ''REPOSITORY_CONTEXT_FAILED''"
| "str_failure_code EXECUTION_CONTRACT_INVALID = ''EXECUTION_CONTRACT_INVALID''"
| "str_failure_code UNSUPPORTED_EXECUTION_PLAN = ''UNSUPPORTED_EXECUTION_PLAN''"
| "str_failure_code WORKSPACE_FAILED = ''WORKSPACE_FAILED''"
| "str_failure_code CANDIDATE_BUDGET_VIOLATION = ''CANDIDATE_BUDGET_VIOLATION''"
| "str_failure_code INTERNAL_WORKER_FAILURE = ''INTERNAL_WORKER_FAILURE''"

record ClassifiedWorkerFailure =
  cw_code :: WorkerFailureCode
  cw_summary :: string
  cw_retryable :: bool
  cw_model_usage :: "model_usage option"
  cw_raw_response_sha256 :: "string option"

definition plain_failure :: "WorkerFailureCode \<Rightarrow> string \<Rightarrow> bool \<Rightarrow> ClassifiedWorkerFailure" where
  "plain_failure code summary retryable =
     \<lparr>cw_code = code, cw_summary = summary, cw_retryable = retryable, cw_model_usage = None, cw_raw_response_sha256 = None\<rparr>"

fun classify_failure :: "exn \<Rightarrow> ClassifiedWorkerFailure" where
  "classify_failure (ModelInvocationFailure m retryable) =
     plain_failure MODEL_RETRY_EXHAUSTED ''The bounded semantic provider attempt budget was exhausted.'' retryable"
| "classify_failure (InvalidClaimAgentOutput m usage raw) =
     \<lparr>cw_code = MODEL_OUTPUT_INVALID, cw_summary = ''A semantic task returned invalid or ungrounded structured output.'',
      cw_retryable = False, cw_model_usage = usage, cw_raw_response_sha256 = raw\<rparr>"
| "classify_failure (ContextRetrievalError m) =
     plain_failure REPOSITORY_CONTEXT_FAILED ''Immutable repository context could not be retrieved safely.'' False"
| "classify_failure (ExecutionContractError m) =
     plain_failure EXECUTION_CONTRACT_INVALID ''The immutable repository execution contract is invalid.'' False"
| "classify_failure (UnsupportedExecutionPlanError m) =
     plain_failure UNSUPPORTED_EXECUTION_PLAN ''BASE and HEAD do not have one supported equivalent execution plan.'' False"
| "classify_failure (GitWorkspaceError m) =
     plain_failure WORKSPACE_FAILED ''Immutable revision workspaces could not be prepared or cleaned up.'' True"
| "classify_failure (CandidateBudgetExceeded m) =
     plain_failure CANDIDATE_BUDGET_VIOLATION ''The bounded candidate-attempt policy was violated.'' False"
| "classify_failure _ =
     plain_failure INTERNAL_WORKER_FAILURE ''The verification worker failed closed.'' False"

text \<open>\<open>EvidenceWorkerError\<close> with the workflow's exception as its cause, or an exception of the store.\<close>

datatype worker_error = EvidenceWorkerError ClassifiedWorkerFailure exn | StoreError exn

definition worker_run ::
    "'s store_ops \<Rightarrow> (uuid \<Rightarrow> ('s \<times> 'w, exn, 'r) prog) \<Rightarrow> uuid \<Rightarrow> ('s \<times> 'w, worker_error, 'r) prog" where
  "worker_run ops workflow run_id = (\<lambda>sw.
     case workflow run_id sw of
       (Inr report, sw') \<Rightarrow> (Inr report, sw')
     | (Inl error, (s, w)) \<Rightarrow>
         (let failure = classify_failure error in
          case so_get_run ops run_id s of
            (Inl e, s') \<Rightarrow> (Inl (StoreError e), (s', w))
          | (Inr run, s') \<Rightarrow>
              (if vr_revision_state run = RevisionState.CURRENT \<and> vr_lifecycle run \<noteq> TERMINAL then
                 (case so_fail_run ops run_id (str_failure_code (cw_code failure)) (cw_summary failure)
                         (cw_retryable failure) (cw_model_usage failure) (cw_raw_response_sha256 failure) s' of
                    (Inl e, s'') \<Rightarrow> (Inl (StoreError e), (s'', w))
                  | (Inr _, s'') \<Rightarrow> (Inl (EvidenceWorkerError failure error), (s'', w)))
               else (Inl (EvidenceWorkerError failure error), (s', w)))))"

section \<open>Facts\<close>

declare chain_transient.simps [simp del] retrying.simps [simp del]

text \<open>A walk along the chain that never enters a set of objects.\<close>

inductive walk :: "exception_table \<Rightarrow> nat set \<Rightarrow> nat \<Rightarrow> nat \<Rightarrow> bool" for table V where
  here: "i \<notin> V \<Longrightarrow> walk table V i i"
| onward: "i \<notin> V \<Longrightarrow> map_of table i = Some (c, Some j) \<Longrightarrow> walk table V j k \<Longrightarrow> walk table V i k"

definition raised_from :: "exception_table \<Rightarrow> nat \<Rightarrow> nat \<Rightarrow> bool" where
  "raised_from table = walk table {}"

lemma chain_step:
  "chain_transient table V (Some i) \<longleftrightarrow>
     i \<notin> V \<and> (\<exists>c n. map_of table i = Some (c, n) \<and> (transient_class c \<or> chain_transient table (insert i V) n))"
  by (subst chain_transient.simps) (auto split: option.splits)

lemma chain_None [simp]: "\<not> chain_transient table V None"
  by (simp add: chain_transient.simps)

lemma walk_start: "walk table V i k \<Longrightarrow> i \<notin> V"
  by (cases rule: walk.cases) auto

lemma walk_past:
  assumes i: "map_of table i = Some (c, Some j)"
  shows "walk table V a k \<Longrightarrow> k = i \<or> walk table (insert i V) a k \<or> walk table (insert i V) j k"
proof (induction rule: walk.induct)
  case (here a)
  then show ?case by (auto intro: walk.here)
next
  case (onward a c' b k)
  show ?case
  proof (cases "a = i")
    case True
    with onward i show ?thesis by auto
  next
    case False
    with onward show ?thesis by (auto intro: walk.onward)
  qed
qed

lemma walk_weaken: "walk table (insert i V) a k \<Longrightarrow> walk table V a k"
  by (induction rule: walk.induct) (auto intro: walk.intros)

lemma chain_iff:
  "chain_transient table V (Some i) \<longleftrightarrow> (\<exists>k c n. walk table V i k \<and> map_of table k = Some (c, n) \<and> transient_class c)"
proof (induction table V "Some i" arbitrary: i rule: chain_transient.induct)
  case (1 table V i)
  have IH: "chain_transient table (insert i V) (Some j)
      \<longleftrightarrow> (\<exists>k c n. walk table (insert i V) j k \<and> map_of table k = Some (c, n) \<and> transient_class c)"
    if "i \<notin> V" "map_of table i = Some (c, Some j)" for c j
    using 1 [OF refl that refl] by blast
  show ?case
  proof
    assume "chain_transient table V (Some i)"
    then obtain c n where i: "i \<notin> V" "map_of table i = Some (c, n)"
      and t: "transient_class c \<or> chain_transient table (insert i V) n" unfolding chain_step by blast
    show "\<exists>k c n. walk table V i k \<and> map_of table k = Some (c, n) \<and> transient_class c"
    proof (cases "transient_class c")
      case True
      with i show ?thesis by (blast intro: walk.here)
    next
      case False
      with t obtain j where n: "n = Some j" and j: "chain_transient table (insert i V) (Some j)" by (cases n) auto
      from j IH [OF i(1)] i(2) n show ?thesis by (blast intro: walk.onward [OF i(1)] walk_weaken)
    qed
  next
    assume "\<exists>k c n. walk table V i k \<and> map_of table k = Some (c, n) \<and> transient_class c"
    then obtain k c n where w: "walk table V i k" and k: "map_of table k = Some (c, n)" "transient_class c" by blast
    from w k show "chain_transient table V (Some i)"
    proof (cases rule: walk.cases)
      case here
      with k show ?thesis unfolding chain_step by blast
    next
      case (onward c' j)
      show ?thesis
      proof (cases "k = i")
        case True
        with k onward show ?thesis unfolding chain_step by blast
      next
        case False
        with walk_past [OF onward(2) onward(3)] have "walk table (insert i V) j k" by blast
        with IH [OF onward(1,2)] k have "chain_transient table (insert i V) (Some j)" by blast
        with onward(1,2) show ?thesis unfolding chain_step [of _ _ i] by blast
      qed
    qed
  qed
qed

text \<open>
  A provider failure is called transient exactly when it, or one of the exceptions it was
  raised from, is a transport, timeout, throttling or server failure; the search ends on every
  chain of causes, a cyclic one included.
\<close>

theorem transient_iff_cause:
  "is_transient_provider_error table e \<longleftrightarrow>
     (\<exists>k c n. raised_from table e k \<and> map_of table k = Some (c, n) \<and> transient_class c)"
  unfolding is_transient_provider_error_def raised_from_def by (rule chain_iff)

text \<open>
  C39: A semantic call reaches the provider at most twice, the second time only after a failure
  marked retryable, and the response says how often; every other outcome of the provider passes
  through unchanged.
\<close>

theorem one_retry:
  "BoundedRetryingModel_invoke call with_attempts request w =
     (case call request w of
        (Inr response, w1) \<Rightarrow> (Inr (with_attempts 1 response), w1)
      | (Inl (ModelInvocationFailure m True), w1) \<Rightarrow>
          (case call request w1 of
             (Inr response, w2) \<Rightarrow> (Inr (with_attempts 2 response), w2)
           | (Inl e, w2) \<Rightarrow> (Inl e, w2))
      | (Inl e, w1) \<Rightarrow> (Inl e, w1))"
  by (auto simp: BoundedRetryingModel_invoke_def retrying.simps [of _ _ 0] retrying.simps [of _ _ 1] Let_def
      split: prod.splits sum.splits exn.splits bool.splits)


section \<open>The worker fails closed\<close>

text \<open>A response hash, where one is carried, was computed by \<open>hashlib\<close>.\<close>

fun carried_hash_ok :: "exn \<Rightarrow> bool" where
  "carried_hash_ok (InvalidClaimAgentOutput m usage raw) = observed_hash_ok raw"
| "carried_hash_ok _ = True"

lemma worker_code_iff: "is_fullmatch error_code_pattern (c # s) \<longleftrightarrow>
    upper_letter c \<and> 2 \<le> length s \<and> length s \<le> 63 \<and> (\<forall>d \<in> set s. upper_letter d \<or> is_digit d \<or> d = CHR ''_'')"
  by (auto simp: fullmatch_lang error_code_pattern_def)

lemma code_storable: "is_fullmatch error_code_pattern (str_failure_code code)"
  by (cases code) (simp_all add: worker_code_iff upper_letter_def in_range_def is_digit_def)

lemma classified_summary: "take 500 (strip (cw_summary (classify_failure e))) \<noteq> []"
  by (cases e) (simp_all add: plain_failure_def strip_def rstrip_def lstrip_def is_space_def)

lemma summary_of_code:
  "\<exists>text. \<forall>e'. cw_code (classify_failure e') = cw_code (classify_failure e) \<longrightarrow> cw_summary (classify_failure e') = text"
proof -
  have "cw_code (classify_failure e') = cw_code (classify_failure e) \<Longrightarrow> cw_summary (classify_failure e') = cw_summary (classify_failure e)" for e'
    by (cases e; cases e'; simp add: plain_failure_def)
  then show ?thesis by blast
qed

text \<open>
  Whatever the workflow raises, its classification passes the argument checks of
  \<open>fail_run\<close>, and its summary is fixed by its code alone, so no text of a repository, a provider
  or an exception message is stored.
\<close>

theorem classified_failure_storable:
  assumes "carried_hash_ok e"
  shows "is_ok (failure_summary (str_failure_code (cw_code (classify_failure e))) (cw_summary (classify_failure e))
           (cw_raw_response_sha256 (classify_failure e)))
     \<and> (\<exists>text. \<forall>e'. cw_code (classify_failure e') = cw_code (classify_failure e) \<longrightarrow> cw_summary (classify_failure e') = text)"
proof -
  have "observed_hash_ok (cw_raw_response_sha256 (classify_failure e))"
    using assms by (cases e) (simp_all add: plain_failure_def observed_hash_ok_def)
  then have "is_ok (failure_summary (str_failure_code (cw_code (classify_failure e))) (cw_summary (classify_failure e))
           (cw_raw_response_sha256 (classify_failure e)))"
    using code_storable classified_summary
    by (simp add: failure_summary_def Let_def is_ok_iff rbind_eq_Inr)
  with summary_of_code [of e] show ?thesis by blast
qed

theorem classified_failure_storable_witness:
  "is_ok (failure_summary (str_failure_code (cw_code (classify_failure (GitWorkspaceError ''secret''))))
      (cw_summary (classify_failure (GitWorkspaceError ''secret''))) (cw_raw_response_sha256 (classify_failure (GitWorkspaceError ''secret''))))"
  using classified_failure_storable [of "GitWorkspaceError ''secret''"] by simp

text \<open>What a run looks like to the worker when it decides whether to store a failure.\<close>

definition active_run :: "VerificationRun \<Rightarrow> bool" where
  "active_run r = (vr_revision_state r = RevisionState.CURRENT \<and> vr_lifecycle r \<noteq> TERMINAL)"

text \<open>
  What the worker promises for one call: a report is the workflow's own; when the workflow raised,
  the caller sees the classified failure, and the failure of an active run has been stored with its
  code and summary, ending the run, unless the store itself raised and kept its tables.
\<close>

definition worker_guarantee ::
    "'s store_ops \<Rightarrow> ('s \<Rightarrow> store_view) \<Rightarrow> (uuid \<Rightarrow> ('s \<times> 'w, exn, 'r) prog) \<Rightarrow> uuid \<Rightarrow> 's \<Rightarrow> 'w \<Rightarrow> bool" where
  "worker_guarantee ops view workflow i s w =
    (case worker_run ops workflow i (s, w) of
     (Inr report, sw) \<Rightarrow> workflow i (s, w) = (Inr report, sw)
   | (Inl (StoreError x), (s', w')) \<Rightarrow> (\<exists>e s1. workflow i (s, w) = (Inl e, (s1, w')) \<and> view s' = view s1)
   | (Inl (EvidenceWorkerError failure e), (s', w')) \<Rightarrow>
       (\<exists>s1 r. workflow i (s, w) = (Inl e, (s1, w')) \<and> failure = classify_failure e \<and> sv_runs (view s1) i = Inr r
          \<and> (if active_run r
              then (\<exists>f. fail_law i (str_failure_code (cw_code failure)) (cw_summary failure) (cw_retryable failure)
                      (cw_model_usage failure) (cw_raw_response_sha256 failure) f (view s1) (view s'))
              else s' = s1)))"

context run_store
begin

lemma worker_outcome:
  "worker_guarantee ops view workflow i s w"
proof -
  obtain r sw where Pair: "workflow i (s, w) = (r, sw)" by (cases "workflow i (s, w)")
  show ?thesis
  proof (cases r)
    case (Inr report)
    with Pair show ?thesis by (simp add: worker_guarantee_def worker_run_def)
  next
    case (Inl e)
    obtain s1 w1 where sw: "sw = (s1, w1)" by (cases sw)
    show ?thesis
    proof (cases "sv_runs (view s1) i")
      case (Inl x)
      with Pair \<open>r = Inl e\<close> sw show ?thesis by (simp add: worker_guarantee_def worker_run_def get_run Let_def)
    next
      case (Inr run)
      let ?f = "classify_failure e"
      let ?out = "so_fail_run ops i (str_failure_code (cw_code ?f)) (cw_summary ?f) (cw_retryable ?f)
         (cw_model_usage ?f) (cw_raw_response_sha256 ?f) s1"
      obtain q s2 where out: "?out = (q, s2)" by (cases ?out)
      show ?thesis
      proof (cases q)
        case (Inl x)
        with Pair \<open>r = Inl e\<close> sw Inr out fail_raises [of i _ _ _ _ _ s1] show ?thesis
          by (auto simp: worker_guarantee_def worker_run_def get_run Let_def active_run_def)
      next
        case (Inr f)
        with Pair \<open>r = Inl e\<close> sw \<open>sv_runs (view s1) i = Inr run\<close> fail [OF out [unfolded Inr]] out show ?thesis
          by (auto simp: worker_guarantee_def worker_run_def get_run Let_def active_run_def)
      qed
    qed
  qed
qed

end

text \<open>
  C11: The worker fails closed over either store: it returns only the workflow's own report; when
  the workflow raised and left an active run, it either stored the classified failure and ended
  the run FAILED in one step (or found the failure recorded before), or raised the store's error
  with the tables untouched; a superseded or finished run is left alone.
\<close>

theorem worker_fails_closed:
  "worker_guarantee (sqlite_ops clock ids) sqlite_view workflow i s w
   \<and> worker_guarantee (firestore_ops clock ids) firestore_view workflow' i t w"
  by (rule conjI sqlite.worker_outcome firestore.worker_outcome)+

end
