(* ===== verification/ExecRuntime.thy ===== *)
theory ExecRuntime
  imports PyExn PyRegex
begin

text \<open>
  \<open>src/patchproof/execution_runtime.py\<close>: the environment a child process gets, the collector
  that keeps both ends of an output stream, and the bounded run of one process. Decoding with
  replacement is an argument (it produces characters beyond the 8-bit strings used here), and the
  operating system is the trace of one process: whether it started, what its three possible waits
  observed, and the chunks read from its streams. The model is the POSIX branch of the code.
\<close>

section \<open>Bounded text\<close>

definition TRUNCATION_MARKER :: string where
  "TRUNCATION_MARKER = CHR 0x0A # ''... [middle output omitted by PatchProof] ...'' @ [CHR 0x0A]"

text \<open>\<open>value[-n:]\<close> for a positive \<open>n\<close>.\<close>

definition last_chars :: "nat \<Rightarrow> 'a list \<Rightarrow> 'a list" where
  "last_chars n value = drop (length value - n) value"

definition bounded_head_tail :: "string \<Rightarrow> nat \<Rightarrow> exn + string" where
  "bounded_head_tail value maximum_chars =
     (if maximum_chars \<le> length TRUNCATION_MARKER then Inl (ValueError ''bounded output budget is too small'')
      else if length value \<le> maximum_chars then Inr value
      else let retained = maximum_chars - length TRUNCATION_MARKER;
               head_chars = retained div 2;
               tail_chars = retained - head_chars in
           Inr (take head_chars value @ TRUNCATION_MARKER @ last_chars tail_chars value))"

definition not_space :: "char \<Rightarrow> bool" where
  "not_space c = (\<not> is_space c)"

definition separator :: "string \<Rightarrow> regex" where
  "separator cs = opt (Cls (\<lambda>c. c \<in> set cs))"

definition credential_pattern :: regex where
  "credential_pattern = seqs
     [WordB,
      alts [lit_ci ''authorization'', seqs [lit_ci ''api'', separator ''_-'', lit_ci ''key''],
        seqs [lit_ci ''access'', separator ''_-'', lit_ci ''token''], seqs [lit_ci ''refresh'', separator ''_-'', lit_ci ''token''],
        lit_ci ''token'', lit_ci ''secret'', lit_ci ''password'', lit_ci ''credential''],
      star (Cls is_space), Cls (\<lambda>c. c = CHR '':'' \<or> c = CHR ''=''), star (Cls is_space), plus_re (Cls not_space)]"

definition bearer_pattern :: regex where
  "bearer_pattern = seqs [WordB, lit_ci ''Bearer'', plus_re (Cls is_space), plus_re (Cls not_space)]"

definition sanitize_process_output :: "string \<Rightarrow> nat \<Rightarrow> exn + string" where
  "sanitize_process_output value maximum_chars =
     (if maximum_chars \<le> length TRUNCATION_MARKER then Inl (ValueError ''sanitized process output budget is too small'')
      else let text = re_sub credential_pattern ''credential=<redacted>'' value;
               text = re_sub bearer_pattern ''Bearer <redacted>'' text;
               text = filter (\<lambda>c. c \<noteq> CHR 0x00) text in
           bounded_head_tail text maximum_chars)"

section \<open>The child environment\<close>

definition inherited_names :: "string list" where
  "inherited_names = [''PATH'', ''PATHEXT'', ''SYSTEMROOT'', ''WINDIR'', ''COMSPEC'', ''LANG'', ''LC_ALL'', ''SSL_CERT_FILE'',
     ''REQUESTS_CA_BUNDLE'']"

type_synonym environment = "string \<Rightarrow> string option"

definition fixed_environment :: "string \<Rightarrow> (string \<times> string) list" where
  "fixed_environment runtime_root =
     [(''HOME'', runtime_root @ ''/home''), (''USERPROFILE'', runtime_root @ ''/home''), (''TEMP'', runtime_root @ ''/tmp''),
      (''TMP'', runtime_root @ ''/tmp''), (''TMPDIR'', runtime_root @ ''/tmp''), (''UV_CACHE_DIR'', runtime_root @ ''/uv-cache''),
      (''UV_NO_CACHE'', ''1''), (''UV_NO_PROGRESS'', ''1''), (''UV_PYTHON_DOWNLOADS'', ''never''),
      (''PYTHONDONTWRITEBYTECODE'', ''1''), (''PYTHONIOENCODING'', ''utf-8''), (''PYTHONUTF8'', ''1''), (''NO_COLOR'', ''1'')]"

definition inherited_environment :: "environment \<Rightarrow> environment" where
  "inherited_environment os_environ name =
     (if name \<in> set inherited_names
      then case os_environ name of None \<Rightarrow> None | Some v \<Rightarrow> if v = [] then None else Some v
      else None)"

definition build_environment :: "environment \<Rightarrow> string \<Rightarrow> exn + environment" where
  "build_environment os_environ runtime_root =
     (let environment = inherited_environment os_environ in
      if environment ''PATH'' = None then Inl (RuntimeError ''child process PATH is unavailable'')
      else Inr (environment ++ map_of (fixed_environment runtime_root)))"

section \<open>The collector\<close>

record bounded_collector =
  bc_maximum_bytes :: nat
  bc_head_limit :: nat
  bc_tail_limit :: nat
  bc_head :: bytes
  bc_tail :: bytes
  bc_total_bytes :: nat

definition new_collector :: "nat \<Rightarrow> bounded_collector" where
  "new_collector maximum_bytes =
     \<lparr>bc_maximum_bytes = maximum_bytes, bc_head_limit = maximum_bytes div 2,
      bc_tail_limit = maximum_bytes - maximum_bytes div 2, bc_head = [], bc_tail = [], bc_total_bytes = 0\<rparr>"

definition collect_chunk :: "bounded_collector \<Rightarrow> bytes \<Rightarrow> bounded_collector" where
  "collect_chunk c chunk =
     (let total = bc_total_bytes c + length chunk;
          remaining = bc_head_limit c - length (bc_head c);
          head = bc_head c @ take remaining chunk;
          chunk = drop remaining chunk;
          tail = bc_tail c @ chunk;
          tail = drop (length tail - bc_tail_limit c) tail in
      c\<lparr>bc_head := head, bc_tail := (if chunk = [] then bc_tail c else tail), bc_total_bytes := total\<rparr>)"

text \<open>Reading ends at the first empty chunk.\<close>

definition drain :: "bounded_collector \<Rightarrow> bytes list \<Rightarrow> bounded_collector" where
  "drain c chunks = foldl collect_chunk c (takeWhile (\<lambda>chunk. chunk \<noteq> []) chunks)"

definition collector_text :: "(bytes \<Rightarrow> string) \<Rightarrow> bounded_collector \<Rightarrow> nat \<Rightarrow> exn + string" where
  "collector_text decode c maximum_chars =
     (let head = decode (bc_head c); tail = decode (bc_tail c) in
      if bc_total_bytes c \<le> bc_maximum_bytes c then bounded_head_tail (head @ tail) maximum_chars
      else let retained = maximum_chars - length TRUNCATION_MARKER;
               head_chars = retained div 2;
               tail_chars = retained - head_chars in
           Inr (take head_chars head @ TRUNCATION_MARKER @ last_chars tail_chars tail))"

section \<open>One process\<close>

record BoundedProcessResult =
  bp_returncode :: "int option"
  bp_duration_seconds :: seconds
  bp_stdout :: string
  bp_stderr :: string
  bp_timed_out :: bool
  bp_start_error :: "string option"

datatype wait_outcome = Exits int | Expires

record process_trace =
  pt_wait :: wait_outcome
  pt_wait_after_terminate :: wait_outcome
  pt_wait_after_kill :: wait_outcome
  pt_stdout :: "bytes list"
  pt_stderr :: "bytes list"
  pt_duration :: seconds

datatype process_start = CannotStart seconds | Started process_trace

definition mk_process_runner :: "nat \<Rightarrow> exn + nat" where
  "mk_process_runner max_output_chars =
     (if max_output_chars < length TRUNCATION_MARKER + 1 then Inl (ValueError ''process output budget is too small'')
      else Inr max_output_chars)"

text \<open>How the waits end: the return code of an undisturbed process, or a timeout; a process that survives even the kill raises.\<close>

definition await_process :: "process_trace \<Rightarrow> exn + int option" where
  "await_process t =
     (case pt_wait t of
        Exits code \<Rightarrow> Inr (Some code)
      | Expires \<Rightarrow>
          (case pt_wait_after_terminate t of
             Exits _ \<Rightarrow> Inr None
           | Expires \<Rightarrow> (case pt_wait_after_kill t of Exits _ \<Rightarrow> Inr None | Expires \<Rightarrow> Inl TimeoutExpired)))"

definition run_process ::
    "nat \<Rightarrow> (bytes \<Rightarrow> string) \<Rightarrow> (string list \<Rightarrow> string \<Rightarrow> environment \<Rightarrow> ('w \<Rightarrow> process_start \<times> 'w))
     \<Rightarrow> string list \<Rightarrow> string \<Rightarrow> environment \<Rightarrow> seconds \<Rightarrow> ('w, exn, BoundedProcessResult) prog" where
  "run_process max_output_chars decode popen command cwd environment timeout_seconds = (\<lambda>w.
     if command = [] \<or> timeout_seconds \<le> 0 then (Inl (ValueError ''process command and timeout must be configured''), w)
     else case popen command cwd environment w of
       (CannotStart d, w') \<Rightarrow>
         (Inr \<lparr>bp_returncode = None, bp_duration_seconds = d, bp_stdout = [], bp_stderr = [], bp_timed_out = False,
               bp_start_error = Some ''process could not start''\<rparr>, w')
     | (Started t, w') \<Rightarrow>
         (rbind (await_process t) (\<lambda>code.
          rbind (collector_text decode (drain (new_collector (max_output_chars * 4)) (pt_stdout t)) max_output_chars) (\<lambda>out.
          rbind (collector_text decode (drain (new_collector (max_output_chars * 4)) (pt_stderr t)) max_output_chars) (\<lambda>err.
          Inr \<lparr>bp_returncode = code, bp_duration_seconds = pt_duration t, bp_stdout = out, bp_stderr = err,
               bp_timed_out = (code = None), bp_start_error = None\<rparr>))), w'))"

text \<open>Best-effort removal: at most twenty attempts. \<open>rmtree\<close> says whether the path is gone.\<close>

fun remove_attempts :: "nat \<Rightarrow> ('w \<Rightarrow> bool \<times> 'w) \<Rightarrow> 'w \<Rightarrow> 'w" where
  "remove_attempts 0 rmtree w = w"
| "remove_attempts (Suc n) rmtree w =
     (case rmtree w of (True, w') \<Rightarrow> w' | (False, w') \<Rightarrow> remove_attempts n rmtree w')"

definition remove_runtime_directory :: "('w \<Rightarrow> bool \<times> 'w) \<Rightarrow> 'w \<Rightarrow> 'w" where
  "remove_runtime_directory rmtree w = remove_attempts 20 rmtree w"

section \<open>Facts\<close>

lemma bounded_head_tail_length: "bounded_head_tail value m = Inr text \<Longrightarrow> length text \<le> m"
  by (auto simp: bounded_head_tail_def Let_def last_chars_def split: if_splits)

lemma sanitized_bounded:
  assumes "sanitize_process_output value m = Inr text"
  shows "length text \<le> m" "CHR 0x00 \<notin> set text"
proof -
  from assms obtain t where b: "bounded_head_tail t m = Inr text" and t: "CHR 0x00 \<notin> set t"
    by (auto simp: sanitize_process_output_def Let_def split: if_splits)
  from bounded_head_tail_length [OF b] show "length text \<le> m" .
  from b t show "CHR 0x00 \<notin> set text"
    by (auto simp: bounded_head_tail_def Let_def last_chars_def TRUNCATION_MARKER_def dest: in_set_takeD in_set_dropD split: if_splits)
qed

text \<open>What a collector holds after reading \<open>data\<close> from new.\<close>

definition collected :: "nat \<Rightarrow> bytes \<Rightarrow> bounded_collector" where
  "collected m data =
     (new_collector m)\<lparr>bc_head := take (m div 2) data, bc_tail := last_chars (m - m div 2) (drop (m div 2) data),
                       bc_total_bytes := length data\<rparr>"

lemma last_chars_append: "last_chars n (last_chars n xs @ ys) = last_chars n (xs @ ys)"
proof (cases "n \<le> length xs")
  case True
  then have "length xs - (length xs - n) = n" by simp
  with True show ?thesis by (simp add: last_chars_def add.commute)
qed (simp add: last_chars_def)

lemma last_chars_Nil [simp]: "last_chars n [] = []"
  by (simp add: last_chars_def)

lemma collect_chunk_eq:
  "collect_chunk c chunk = c\<lparr>bc_head := bc_head c @ take (bc_head_limit c - length (bc_head c)) chunk,
     bc_tail := (let rest = drop (bc_head_limit c - length (bc_head c)) chunk in
                 if rest = [] then bc_tail c else last_chars (bc_tail_limit c) (bc_tail c @ rest)),
     bc_total_bytes := bc_total_bytes c + length chunk\<rparr>"
  by (simp add: collect_chunk_def last_chars_def Let_def)

lemma last_chars_idem: "last_chars n (last_chars n xs) = last_chars n xs"
  using last_chars_append [of n xs "[]"] by simp

lemma collect_collected: "collect_chunk (collected m data) chunk = collected m (data @ chunk)"
proof -
  let ?h = "m div 2"
  have head: "take ?h data @ take (?h - length (take ?h data)) chunk = take ?h (data @ chunk)"
    and tail: "drop ?h (data @ chunk) = drop ?h data @ drop (?h - length (take ?h data)) chunk"
    by (cases "length data \<le> ?h"; simp)+
  show ?thesis
  proof (rule bounded_collector.equality)
    show "bc_head (collect_chunk (collected m data) chunk) = bc_head (collected m (data @ chunk))"
      unfolding collect_chunk_eq collected_def new_collector_def bounded_collector.simps using head by simp
    show "bc_tail (collect_chunk (collected m data) chunk) = bc_tail (collected m (data @ chunk))"
      unfolding collect_chunk_eq collected_def new_collector_def bounded_collector.simps tail Let_def last_chars_append
      by (simp only: append_Nil2 if_distrib split: if_split) simp
  qed (simp_all add: collect_chunk_eq collected_def new_collector_def)
qed

lemma drain_collected: "foldl collect_chunk (collected m data) chunks = collected m (data @ concat chunks)"
  by (induction chunks arbitrary: data) (simp_all add: collect_collected)

lemma kept_whole: "length data \<le> m \<Longrightarrow> take (m div 2) data @ last_chars (m - m div 2) (drop (m div 2) data) = data"
  by (simp add: last_chars_def)

text \<open>
  However a stream is cut into chunks, the collector ends with the first half of its budget of
  bytes and the last half of what follows, and the true number of bytes read: it is the same as
  reading the whole stream and cutting it once, and a stream within the budget is kept whole.
\<close>

theorem collector_keeps_ends:
  "let data = concat (takeWhile (\<lambda>chunk. chunk \<noteq> []) chunks); c = drain (new_collector m) chunks in
     bc_head c = take (m div 2) data \<and> bc_tail c = last_chars (m - m div 2) (drop (m div 2) data)
     \<and> bc_total_bytes c = length data \<and> (m < length data \<or> bc_head c @ bc_tail c = data)"
proof -
  have "new_collector m = collected m []" by (simp add: collected_def new_collector_def)
  then have "drain (new_collector m) chunks = collected m (concat (takeWhile (\<lambda>chunk. chunk \<noteq> []) chunks))"
    by (simp add: drain_def drain_collected)
  moreover have "m < length data \<or> take (m div 2) data @ last_chars (m - m div 2) (drop (m div 2) data) = data" for data :: bytes
    using kept_whole [of data m] by linarith
  ultimately show ?thesis by (simp add: collected_def Let_def del: new_collector_def)
qed

lemma collector_text_bounded: "length TRUNCATION_MARKER < m \<Longrightarrow> collector_text decode c m = Inr text \<Longrightarrow> length text \<le> m"
  by (auto simp: collector_text_def Let_def last_chars_def dest: bounded_head_tail_length split: if_splits)

lemma collector_text_ok: "length TRUNCATION_MARKER < m \<Longrightarrow> \<exists>text. collector_text decode c m = Inr text"
  by (auto simp: collector_text_def bounded_head_tail_def Let_def)

definition outcome_ok :: "BoundedProcessResult \<Rightarrow> bool" where
  "outcome_ok r = (if bp_start_error r \<noteq> None then bp_returncode r = None \<and> \<not> bp_timed_out r
                   else bp_timed_out r = (bp_returncode r = None))"

text \<open>
  A run of a process returns or raises as the operating system decides, and what it returns is
  within the output budget on both streams and names exactly one outcome.
\<close>

lemma process_result_bounded:
  assumes runner: "mk_process_runner m = Inr m'"
    and r: "run_process m' decode popen command cwd environment timeout w = (Inr r, w')"
  shows "length (bp_stdout r) \<le> m \<and> length (bp_stderr r) \<le> m \<and> outcome_ok r"
proof -
  have m: "m' = m" "length TRUNCATION_MARKER < m" using runner by (auto simp: mk_process_runner_def split: if_splits)
  from r show ?thesis
    by (auto simp: run_process_def m(1) guard_simps outcome_ok_def
        dest!: collector_text_bounded [OF m(2)] split: if_splits prod.splits process_start.splits)
qed

section \<open>No credential reaches a child\<close>

definition operational_names :: "string list" where
  "operational_names = inherited_names @ map fst (fixed_environment [])"

text \<open>
  C28: The environment of a child process depends only on nine named variables of the parent: two
  parents that agree on them give the same environment, or the same error, whatever else (tokens,
  keys, credentials) they hold; and every variable of a child has one of the operational names.
\<close>

theorem child_environment_isolated:
  assumes "\<forall>name \<in> set inherited_names. os1 name = os2 name"
  shows "build_environment os1 dir = build_environment os2 dir
     \<and> (\<forall>env. build_environment os1 dir = Inr env \<longrightarrow> dom env \<subseteq> set operational_names)"
proof -
  have "inherited_environment os1 = inherited_environment os2"
    using assms by (auto simp: inherited_environment_def fun_eq_iff)
  moreover have "dom (inherited_environment os1) \<subseteq> set inherited_names"
    by (auto simp: inherited_environment_def split: if_splits)
  moreover have "dom (map_of (fixed_environment dir)) = set (map fst (fixed_environment []))"
    unfolding dom_map_of_conv_image_fst by (simp add: fixed_environment_def)
  ultimately show ?thesis
    by (auto simp: build_environment_def Let_def operational_names_def split: if_splits)
qed

theorem child_environment_isolated_witness:
  "build_environment [''PATH'' \<mapsto> ''/bin'', ''GITHUB_TOKEN'' \<mapsto> ''x''] ''/r'' = build_environment [''PATH'' \<mapsto> ''/bin''] ''/r''
     \<and> (\<exists>env. build_environment [''PATH'' \<mapsto> ''/bin''] ''/r'' = Inr env \<and> env ''GITHUB_TOKEN'' = None)"
proof -
  have agree: "\<forall>name \<in> set inherited_names. [''PATH'' \<mapsto> ''/bin''] name = [''PATH'' \<mapsto> ''/bin'', ''GITHUB_TOKEN'' \<mapsto> ''x''] name"
    by (simp add: inherited_names_def)
  note facts = child_environment_isolated [OF agree, of "''/r''"]
  obtain env where env: "build_environment [''PATH'' \<mapsto> ''/bin''] ''/r'' = Inr env"
    by (simp add: build_environment_def inherited_environment_def inherited_names_def)
  with facts have "dom env \<subseteq> set operational_names" by blast
  moreover have "''GITHUB_TOKEN'' \<notin> set operational_names"
    by (simp add: operational_names_def inherited_names_def fixed_environment_def)
  ultimately have "env ''GITHUB_TOKEN'' = None" by blast
  with facts env show ?thesis by metis
qed

end
