(* ===== verification/PytestParser.thy ===== *)
theory PytestParser
  imports Models PyRegex
begin

text \<open>
  The first half of \<open>src/patchproof/pytest_runner.py\<close>: what one run of pytest is taken to have
  observed. The XML parser is that of the standard library; its result is an element tree.
\<close>

section \<open>Element trees\<close>

datatype element = Element (tag: string) (attrib: "(string \<times> string) list") (body_text: "string option") (children: "element list")

text \<open>\<open>root.iter()\<close>: the element and its descendants in document order.\<close>

fun iter_elements :: "element \<Rightarrow> element list" where
  "iter_elements (Element t a b cs) = Element t a b cs # concat (map iter_elements cs)"

datatype junit_report = NoReport | Unparsable string | Report element

record ParsedPytestResult =
  pr_status :: TestExecutionStatus
  pr_collected_count :: int
  pr_detail :: "string option"

definition parsed :: "TestExecutionStatus \<Rightarrow> int \<Rightarrow> string option \<Rightarrow> ParsedPytestResult" where
  "parsed status collected_count detail =
     \<lparr>pr_status = status, pr_collected_count = collected_count, pr_detail = detail\<rparr>"

definition local_name :: "string \<Rightarrow> string" where
  "local_name t = after_last (CHR ''}'') t"

definition attribute :: "element \<Rightarrow> string \<Rightarrow> string" where
  "attribute e name = (case map_of (attrib e) name of None \<Rightarrow> [] | Some v \<Rightarrow> v)"

definition element_detail :: "element \<Rightarrow> string" where
  "element_detail e =
     (let message = strip (attribute e ''message'');
          body = strip (case body_text e of None \<Rightarrow> [] | Some t \<Rightarrow> t) in
      join [CHR 0x0A] (filter (\<lambda>part. part \<noteq> []) [message, body]))"

text \<open>The dictionary of the children by local name; a later child replaces an earlier one.\<close>

definition child :: "element \<Rightarrow> string \<Rightarrow> element option" where
  "child e name = map_of (rev (map (\<lambda>c. (local_name (tag c), c)) (children e))) name"

section \<open>Expectations that were not met\<close>

definition identifier_head :: "char \<Rightarrow> bool" where
  "identifier_head c = (in_range (CHR ''A'') (CHR ''Z'') c \<or> in_range (CHR ''a'') (CHR ''z'') c \<or> c = CHR ''_'')"

definition dotted_identifier :: regex where
  "dotted_identifier =
     Seq (star (seqs [Cls identifier_head, star (Cls is_word), lit ''.'']))
         (Seq (Cls identifier_head) (star (Cls is_word)))"

definition line_start :: regex where
  "line_start = NotBehind (\<lambda>c. c \<noteq> CHR 0x0A)"

definition unexpected_exception_pattern :: regex where
  "unexpected_exception_pattern = seqs
     [line_start, star (Cls is_space), opt (Seq (lit ''E'') (plus_re (Cls is_space))), dotted_identifier,
      alts [lit ''Error'', lit ''Exception'', lit ''Exit'', lit ''Interrupt''], lit '':'', star (Cls is_space)]"

definition is_line_break :: "char \<Rightarrow> bool" where
  "is_line_break c = ((of_char c :: nat) \<in> {10, 11, 12, 13, 28, 29, 30, 133})"

definition first_line :: "string \<Rightarrow> string" where
  "first_line detail = (if strip detail = [] then [] else takeWhile (\<lambda>c. \<not> is_line_break c) (lstrip detail))"

definition pytest_expectation_failure :: "string \<Rightarrow> string option" where
  "pytest_expectation_failure detail =
     (let line = first_line detail in
      if search unexpected_exception_pattern detail then None
      else if line = ''Failed: DID NOT WARN'' \<or> startswith line ''Failed: DID NOT WARN.'' then
        Some ''PYTEST_EXPECTATION_NOT_MET: expected warning was not emitted''
      else if startswith line ''Failed: DID NOT RAISE '' then
        Some ''PYTEST_EXPECTATION_NOT_MET: expected exception was not raised''
      else None)"

section \<open>The parser\<close>

definition without_report :: "int \<Rightarrow> string \<Rightarrow> string \<Rightarrow> ParsedPytestResult" where
  "without_report exit_code out err =
     (let combined_output = strip (out @ [CHR 0x0A] @ err) in
      if exit_code = 5 \<or> contains (lower combined_output) ''not found:'' then
        parsed NOT_COLLECTED 0 (Some (or_str combined_output ''selected pytest node was not collected''))
      else if contains (lower combined_output) ''error collecting'' \<or> contains (lower combined_output) ''collection error'' then
        parsed COLLECTION_ERROR 0 (Some combined_output)
      else parsed PROCESS_ERROR 0
        (Some (or_str combined_output (''pytest exited with '' @ str_int exit_code @ '' without a JUnit report''))))"

definition parse_error :: "element \<Rightarrow> element \<Rightarrow> ParsedPytestResult" where
  "parse_error test_case error =
     (let detail = element_detail error;
          is_collection_error = contains (lower detail) ''collection failure'' \<or> contains (lower detail) ''error collecting''
            \<or> attribute test_case ''classname'' = [] in
      parsed (if is_collection_error then COLLECTION_ERROR else TEST_ERROR) (if is_collection_error then 0 else 1) (Some detail))"

definition parse_skipped :: "element \<Rightarrow> ParsedPytestResult" where
  "parse_skipped skipped =
     (let detail = element_detail skipped in
      parsed (if contains (lower (attribute skipped ''type'')) ''xfail'' \<or> contains (lower detail) ''xfail''
              then XFAILED else SKIPPED) 1 (Some detail))"

definition parse_failure :: "element \<Rightarrow> ParsedPytestResult" where
  "parse_failure failure =
     (let detail = element_detail failure in
      if contains (lower detail) ''xpass'' then parsed XPASSED 1 (Some detail)
      else case pytest_expectation_failure detail of
        Some expectation_detail \<Rightarrow> parsed ASSERTION_FAILED 1 (Some expectation_detail)
      | None \<Rightarrow>
          (if contains (lower detail) ''assertionerror'' \<or> startswith (lstrip detail) ''assert '' then
             parsed ASSERTION_FAILED 1 (Some detail)
           else parsed TEST_ERROR 1 (Some detail)))"

definition parse_case :: "element \<Rightarrow> int \<Rightarrow> string \<Rightarrow> ParsedPytestResult" where
  "parse_case test_case exit_code out =
     (case child test_case ''error'' of
        Some error \<Rightarrow> parse_error test_case error
      | None \<Rightarrow>
     (case child test_case ''skipped'' of
        Some skipped \<Rightarrow> parse_skipped skipped
      | None \<Rightarrow>
     (case child test_case ''failure'' of
        Some failure \<Rightarrow> parse_failure failure
      | None \<Rightarrow>
          (if contains out ''XPASS'' then parsed XPASSED 1 (Some ''pytest reported an unexpected pass'')
           else if exit_code = 0 then parsed PASSED 1 None
           else parsed PROCESS_ERROR 1
             (Some (''pytest exited with '' @ str_int exit_code @ '' despite a result without an outcome element''))))))"

definition test_cases :: "element \<Rightarrow> element list" where
  "test_cases r = filter (\<lambda>e. local_name (tag e) = ''testcase'') (iter_elements r)"

definition parse_report :: "junit_report \<Rightarrow> int \<Rightarrow> string \<Rightarrow> string \<Rightarrow> ParsedPytestResult" where
  "parse_report report exit_code out err =
     (case report of
        NoReport \<Rightarrow> without_report exit_code out err
      | Unparsable error \<Rightarrow> parsed PROCESS_ERROR 0 (Some (''pytest JUnit report could not be parsed: '' @ error))
      | Report r \<Rightarrow>
          (case test_cases r of
             [] \<Rightarrow> without_report exit_code out err
           | [test_case] \<Rightarrow> parse_case test_case exit_code out
           | cases \<Rightarrow> parsed MULTIPLE_TESTS_COLLECTED (int (length cases))
               (Some (''selected node collected '' @ str_nat (length cases) @ '' tests; exactly one is required''))))"

section \<open>What a verdict means\<close>

lemma parsed_fields [simp]:
  "pr_status (parsed s n d) = s" "pr_collected_count (parsed s n d) = n" "pr_detail (parsed s n d) = d"
  by (simp_all add: parsed_def)

lemma without_report_status:
  "pr_status (without_report c out err) \<in> {NOT_COLLECTED, COLLECTION_ERROR, PROCESS_ERROR} \<and> pr_collected_count (without_report c out err) = 0"
  by (simp add: without_report_def Let_def)

definition no_outcome :: "element \<Rightarrow> bool" where
  "no_outcome test_case =
     (child test_case ''error'' = None \<and> child test_case ''skipped'' = None \<and> child test_case ''failure'' = None)"

lemma parse_case_passed:
  "pr_status (parse_case t c out) = PASSED \<longleftrightarrow> no_outcome t \<and> \<not> contains out ''XPASS'' \<and> c = 0"
  by (simp add: parse_case_def parse_error_def parse_skipped_def parse_failure_def no_outcome_def Let_def split: option.splits)

lemma parse_case_failed:
  "pr_status (parse_case t c out) = ASSERTION_FAILED \<Longrightarrow>
     child t ''error'' = None \<and> child t ''skipped'' = None
     \<and> (\<exists>f. child t ''failure'' = Some f \<and> \<not> contains (lower (element_detail f)) ''xpass''
          \<and> (pytest_expectation_failure (element_detail f) \<noteq> None \<or> contains (lower (element_detail f)) ''assertionerror''
             \<or> startswith (lstrip (element_detail f)) ''assert ''))"
  by (auto simp: parse_case_def parse_error_def parse_skipped_def parse_failure_def Let_def split: option.splits if_splits)

lemma parse_case_count: "pr_status (parse_case t c out) = PASSED \<or> pr_status (parse_case t c out) = ASSERTION_FAILED \<Longrightarrow>
    pr_collected_count (parse_case t c out) = 1"
  by (auto simp: parse_case_def parse_error_def parse_skipped_def parse_failure_def Let_def split: option.splits if_splits)

text \<open>
  C40: pytest counts as PASSED exactly when its report has one test case, that case has no error,
  skip or failure element, the output reports no unexpected pass and pytest exited with 0; and a
  case counts as ASSERTION_FAILED only when it is the only one, has a failure and neither error
  nor skip, and the failure is an assertion or a missed expectation. Both collected one test.
\<close>

theorem parsed_verdict:
  "(pr_status (parse_report report c out err) = PASSED \<longleftrightarrow>
      (\<exists>r t. report = Report r \<and> test_cases r = [t] \<and> no_outcome t \<and> \<not> contains out ''XPASS'' \<and> c = 0))
   \<and> (pr_status (parse_report report c out err) \<in> {PASSED, ASSERTION_FAILED} \<longrightarrow>
        pr_collected_count (parse_report report c out err) = 1)
   \<and> (pr_status (parse_report report c out err) = ASSERTION_FAILED \<longrightarrow>
        (\<exists>r t f. report = Report r \<and> test_cases r = [t] \<and> child t ''error'' = None \<and> child t ''skipped'' = None
           \<and> child t ''failure'' = Some f
           \<and> (pytest_expectation_failure (element_detail f) \<noteq> None \<or> contains (lower (element_detail f)) ''assertionerror''
              \<or> startswith (lstrip (element_detail f)) ''assert '')))"
proof (cases report)
  case (Report r)
  show ?thesis
  proof (cases "test_cases r")
    case (Cons t ts)
    show ?thesis
    proof (cases ts)
      case Nil
      then have "parse_report report c out err = parse_case t c out" by (simp add: parse_report_def Report Cons)
      with parse_case_passed [of t c out] parse_case_failed [of t c out] parse_case_count [of t c out] Report Cons Nil
      show ?thesis by auto
    qed (use Report Cons in \<open>simp add: parse_report_def\<close>)
  qed (use Report without_report_status [of c out err] in \<open>auto simp: parse_report_def\<close>)
qed (use without_report_status [of c out err] in \<open>auto simp: parse_report_def\<close>)

text \<open>A case that passed, and one whose only child is an assertion failure.\<close>

definition sample_case :: "element list \<Rightarrow> element" where
  "sample_case outcome = Element ''testsuite'' [] None [Element ''testcase'' [(''classname'', ''m'')] None outcome]"

definition sample_failure :: element where
  "sample_failure = Element ''failure'' [(''message'', ''assert 1 == 2'')] None []"

theorem parsed_verdict_witness:
  "pr_status (parse_report (Report (sample_case [])) 0 [] []) = PASSED
   \<and> pr_status (parse_report (Report (sample_case [sample_failure])) 1 [] []) = ASSERTION_FAILED
   \<and> pr_collected_count (parse_report (Report (sample_case [sample_failure])) 1 [] []) = 1"
proof -
  have "\<exists>r t. Report (sample_case []) = Report r \<and> test_cases r = [t] \<and> no_outcome t \<and> \<not> contains [] ''XPASS'' \<and> (0 :: int) = 0"
    by (simp add: sample_case_def test_cases_def local_name_def after_last_def no_outcome_def child_def)
  with parsed_verdict [of "Report (sample_case [])" 0 "[]" "[]"]
  have "pr_status (parse_report (Report (sample_case [])) 0 [] []) = PASSED" by blast
  moreover have f: "pr_status (parse_report (Report (sample_case [sample_failure])) 1 [] []) = ASSERTION_FAILED" by code_simp
  moreover have "pr_collected_count (parse_report (Report (sample_case [sample_failure])) 1 [] []) = 1"
    using parsed_verdict [of "Report (sample_case [sample_failure])" 1 "[]" "[]"] f by simp
  ultimately show ?thesis by blast
qed

end
