(* ===== verification/PytestRunner.thy ===== *)
theory PytestRunner
  imports ExecRuntime PytestParser ExecContract GitReader
begin

text \<open>
  The second half of \<open>src/patchproof/pytest_runner.py\<close>: installing a repository's dependencies
  and running one injected test file. The host is a record of the operating system's calls on a
  world \<open>'w\<close>, with Python's own parser among them; \<open>host_law\<close> states the two facts about files the
  proofs need.
\<close>

section \<open>The host\<close>

record 'w host =
  h_resolve :: "string \<Rightarrow> 'w \<Rightarrow> string"
  h_is_dir :: "string \<Rightarrow> 'w \<Rightarrow> bool"
  h_exists :: "string \<Rightarrow> 'w \<Rightarrow> bool"
  h_make_parents :: "string \<Rightarrow> ('w, exn, unit) prog"
  h_create :: "string \<Rightarrow> bytes \<Rightarrow> ('w, exn, unit) prog"
  h_read :: "string \<Rightarrow> 'w \<Rightarrow> bytes option"
  h_unlink :: "string \<Rightarrow> 'w \<Rightarrow> 'w"
  h_mkdtemp :: "string \<Rightarrow> string \<Rightarrow> ('w, exn, string) prog"
  h_rmtree :: "string \<Rightarrow> 'w \<Rightarrow> 'w"
  h_report :: "string \<Rightarrow> 'w \<Rightarrow> junit_report"
  h_environ :: environment
  h_popen :: "string list \<Rightarrow> string \<Rightarrow> environment \<Rightarrow> 'w \<Rightarrow> process_start \<times> 'w"
  h_decode :: "bytes \<Rightarrow> string"
  h_monotonic :: "'w \<Rightarrow> seconds"
  h_ast_parse :: "bytes \<Rightarrow> string option"
  h_format_g :: "seconds \<Rightarrow> string"

text \<open>\<open>try: m finally: cleanup\<close> for a cleanup that cannot raise.\<close>

definition finally_do :: "('w, 'e, 'a) prog \<Rightarrow> ('w \<Rightarrow> 'w) \<Rightarrow> ('w, 'e, 'a) prog" where
  "finally_do m cleanup = (\<lambda>w. case m w of (r, w') \<Rightarrow> (r, cleanup w'))"

definition pget :: "('w \<Rightarrow> 'a) \<Rightarrow> ('w, 'e, 'a) prog" where
  "pget f = (\<lambda>w. (Inr (f w), w))"

definition pupdate :: "('w \<Rightarrow> 'w) \<Rightarrow> ('w, 'e, unit) prog" where
  "pupdate f = (\<lambda>w. (Inr (), f w))"

section \<open>Arguments\<close>

definition DISABLED_PYTEST_PLUGINS :: "string list" where
  "DISABLED_PYTEST_PLUGINS = [''cacheprovider'', ''randomly'', ''xdist'', ''cov'']"

definition PYTEST_ISOLATION_ARGUMENTS :: "string list" where
  "PYTEST_ISOLATION_ARGUMENTS =
     concat (map (\<lambda>plugin. [''-p'', ''no:'' @ plugin]) DISABLED_PYTEST_PLUGINS)
     @ [''-o'', ''addopts='', ''--color=no'', ''--tb=short'', ''--maxfail=1'', ''-q'', ''-rxX'']"

record pytest_runner =
  rn_contract :: ExecutionContract
  rn_python_executable :: string
  rn_install_dependencies :: bool
  rn_repository_python_paths :: "string list"
  rn_max_output_chars :: nat

definition validate_python_path :: "string \<Rightarrow> exn + string" where
  "validate_python_path value =
     (if value = ''.'' then Inr value
      else rbind (checks
        [(CHR 0x5C \<in> set value \<or> CHR 0x00 \<in> set value \<or> CHR 0x0A \<in> set value \<or> CHR 0x0D \<in> set value,
          ValueError ''repository Python path contains an unsupported character''),
         (\<not> normal_relative value, ValueError ''repository Python path must be a normalized relative POSIX path'')])
      (\<lambda>_. Inr value))"

definition mk_pytest_runner :: "ExecutionContract \<Rightarrow> string \<Rightarrow> bool \<Rightarrow> string list \<Rightarrow> exn + pytest_runner" where
  "mk_pytest_runner contract python_executable install_dependencies repository_python_paths =
     rbind (rmap validate_python_path repository_python_paths) (\<lambda>paths.
     Inr \<lparr>rn_contract = contract, rn_python_executable = python_executable,
          rn_install_dependencies = install_dependencies, rn_repository_python_paths = paths,
          rn_max_output_chars = 12000\<rparr>)"

definition is_relative_to :: "string \<Rightarrow> string \<Rightarrow> bool" where
  "is_relative_to path base = (path = base \<or> startswith path (base @ ''/''))"

definition parent_path :: "string \<Rightarrow> string" where
  "parent_path path = rev (tl (dropWhile (\<lambda>c. c \<noteq> CHR ''/'') (rev path)))"

text \<open>\<open>base / relative\<close> for a relative path.\<close>

definition under :: "string \<Rightarrow> string \<Rightarrow> string" where
  "under base relative = base @ ''/'' @ relative"

definition safe_artifact_path :: "'w host \<Rightarrow> string \<Rightarrow> string \<Rightarrow> 'w \<Rightarrow> exn + string" where
  "safe_artifact_path host workspace relative_path w =
     (let artifact_path = h_resolve host (under workspace relative_path) w in
      if \<not> is_relative_to artifact_path workspace then Inl (ValueError ''artifact path resolves outside the revision workspace'')
      else Inr artifact_path)"

definition safe_python_path :: "'w host \<Rightarrow> string \<Rightarrow> string \<Rightarrow> 'w \<Rightarrow> exn + string" where
  "safe_python_path host workspace relative_path w =
     (let path = (if relative_path = ''.'' then workspace else under workspace relative_path);
          resolved = h_resolve host path w in
      if \<not> is_relative_to resolved workspace then Inl (ValueError ''repository Python path resolves outside the revision workspace'')
      else Inr resolved)"

definition test_command :: "pytest_runner \<Rightarrow> string \<Rightarrow> string list" where
  "test_command rn workspace =
     (if \<not> rn_install_dependencies rn \<or> hd (ec_test_command (rn_contract rn)) \<noteq> ''python''
      then resolved_test_command (rn_contract rn) (rn_python_executable rn)
      else (workspace @ ''/.venv/bin/python'') # tl (ec_test_command (rn_contract rn)))"

definition process_run :: "'w host \<Rightarrow> pytest_runner \<Rightarrow> string list \<Rightarrow> string \<Rightarrow> environment \<Rightarrow> seconds \<Rightarrow> ('w, exn, BoundedProcessResult) prog" where
  "process_run host rn = run_process (rn_max_output_chars rn) (h_decode host) (h_popen host)"

section \<open>Installation\<close>

definition nonprocess_installation_failure :: "pytest_runner \<Rightarrow> string \<Rightarrow> string \<Rightarrow> exn + EnvironmentSetupDiagnostic" where
  "nonprocess_installation_failure rn workspace reason =
     mk_EnvironmentSetupDiagnostic
       \<lparr>sd_reason = reason, sd_argv = hd (ec_install (rn_contract rn)), sd_cwd = workspace, sd_exit_code = None,
        sd_duration_seconds = 0, sd_stdout = [], sd_stderr = [], sd_timed_out = False, sd_start_error = Some reason,
        sd_environment = []\<rparr>"

definition reported_names :: "string list" where
  "reported_names = [''UV_NO_CACHE'', ''UV_NO_PROGRESS'', ''UV_PYTHON'', ''UV_PYTHON_DOWNLOADS'']"

definition reported_environment :: "environment \<Rightarrow> (string \<times> string) list" where
  "reported_environment env =
     concat (map (\<lambda>name. case env name of None \<Rightarrow> [] | Some v \<Rightarrow> [(name, v)]) reported_names)"

definition installation_reason :: "'w host \<Rightarrow> pytest_runner \<Rightarrow> BoundedProcessResult \<Rightarrow> string" where
  "installation_reason host rn completed =
     (if bp_timed_out completed then
        ''dependency installation exceeded the '' @ h_format_g host (ec_install_timeout_seconds (rn_contract rn)) @ ''-second timeout''
      else case bp_start_error completed of
        Some e \<Rightarrow> ''dependency installation could not start: '' @ e
      | None \<Rightarrow> ''dependency installation failed with exit code ''
                 @ (case bp_returncode completed of None \<Rightarrow> ''None'' | Some code \<Rightarrow> str_int code))"

definition installation_diagnostic ::
    "'w host \<Rightarrow> pytest_runner \<Rightarrow> string \<Rightarrow> string list \<Rightarrow> environment \<Rightarrow> BoundedProcessResult \<Rightarrow> exn + EnvironmentSetupDiagnostic" where
  "installation_diagnostic host rn workspace command env completed =
     rbind (sanitize_process_output (bp_stdout completed) 4000) (\<lambda>out.
     rbind (sanitize_process_output (bp_stderr completed) 4000) (\<lambda>err.
     mk_EnvironmentSetupDiagnostic
       \<lparr>sd_reason = installation_reason host rn completed, sd_argv = command, sd_cwd = workspace,
        sd_exit_code = bp_returncode completed, sd_duration_seconds = bp_duration_seconds completed,
        sd_stdout = out, sd_stderr = err, sd_timed_out = bp_timed_out completed,
        sd_start_error = bp_start_error completed, sd_environment = reported_environment env\<rparr>))"

definition installation_failed :: "BoundedProcessResult \<Rightarrow> bool" where
  "installation_failed completed =
     (bp_timed_out completed \<or> bp_start_error completed \<noteq> None \<or> bp_returncode completed \<noteq> Some 0)"

fun install_all :: "'w host \<Rightarrow> pytest_runner \<Rightarrow> string \<Rightarrow> environment \<Rightarrow> string list list \<Rightarrow> ('w, exn, EnvironmentSetupDiagnostic option) prog" where
  "install_all host rn workspace env [] = preturn None"
| "install_all host rn workspace env (command # rest) =
     (let command_env = (if command = [''uv'', ''venv''] then env(''UV_PYTHON'' \<mapsto> rn_python_executable rn) else env) in
      pbind (process_run host rn command workspace command_env (ec_install_timeout_seconds (rn_contract rn))) (\<lambda>completed.
        if installation_failed completed
        then pbind (plift (installation_diagnostic host rn workspace command command_env completed)) (\<lambda>d. preturn (Some d))
        else install_all host rn workspace env rest))"

definition install :: "'w host \<Rightarrow> pytest_runner \<Rightarrow> string \<Rightarrow> ('w, exn, EnvironmentSetupDiagnostic option) prog" where
  "install host rn workspace =
     pbind (h_mkdtemp host ''.ppi-'' (parent_path workspace)) (\<lambda>runtime_root.
     finally_do
       (pbind (plift (build_environment (h_environ host) runtime_root)) (\<lambda>env.
          install_all host rn workspace env (ec_install (rn_contract rn))))
       (h_rmtree host runtime_root))"

text \<open>The runner's memo of installed workspaces is part of its state.\<close>

definition install_once :: "'w host \<Rightarrow> pytest_runner \<Rightarrow> string \<Rightarrow> ('w \<times> string set, exn, EnvironmentSetupDiagnostic option) prog" where
  "install_once host rn workspace = (\<lambda>(w, installed).
     if workspace \<in> installed then (Inr None, (w, installed))
     else case install host rn workspace w of
       (Inr None, w') \<Rightarrow> (Inr None, (w', insert workspace installed))
     | (r, w') \<Rightarrow> (r, (w', installed)))"

definition prepare_environment ::
    "'w host \<Rightarrow> pytest_runner \<Rightarrow> string \<Rightarrow> ('w \<times> string set, exn, EnvironmentSetupDiagnostic option) prog" where
  "prepare_environment host rn workspace0 = (\<lambda>(w, installed).
     let workspace = h_resolve host workspace0 w in
     if \<not> h_is_dir host workspace w then
       (rbind (nonprocess_installation_failure rn workspace ''revision workspace does not exist'') (\<lambda>d. Inr (Some d)), (w, installed))
     else if \<not> rn_install_dependencies rn then
       (rbind (nonprocess_installation_failure rn workspace ''validated dependency installation is disabled'') (\<lambda>d. Inr (Some d)), (w, installed))
     else install_once host rn workspace (w, installed))"

section \<open>Running one artifact\<close>

definition hash_file :: "'w host \<Rightarrow> string \<Rightarrow> 'w \<Rightarrow> string option" where
  "hash_file host path w = map_option sha256 (h_read host path w)"

definition result_of ::
    "Revision \<Rightarrow> TestArtifact \<Rightarrow> string option \<Rightarrow> string option \<Rightarrow> TestExecutionStatus \<Rightarrow> int \<Rightarrow> int option \<Rightarrow> seconds
     \<Rightarrow> string \<Rightarrow> string \<Rightarrow> string option \<Rightarrow> exn + ExecutionResult" where
  "result_of revision artifact before after status collected_count exit_code duration out err detail =
     mk_ExecutionResult
       \<lparr>er_revision = revision, er_test_node_id = ta_node_id artifact, er_expected_sha256 = ta_sha256 artifact,
        er_sha256_before = before, er_sha256_after = after, er_status = status, er_collected_count = collected_count,
        er_exit_code = exit_code, er_duration_seconds = duration, er_stdout = out, er_stderr = err, er_detail = detail\<rparr>"

definition early_result ::
    "Revision \<Rightarrow> TestArtifact \<Rightarrow> TestExecutionStatus \<Rightarrow> seconds \<Rightarrow> string \<Rightarrow> exn + ExecutionResult" where
  "early_result revision artifact status duration detail =
     result_of revision artifact None None status 0 None duration [] [] (Some detail)"

definition setup_failed_result :: "Revision \<Rightarrow> TestArtifact \<Rightarrow> seconds \<Rightarrow> EnvironmentSetupDiagnostic \<Rightarrow> exn + ExecutionResult" where
  "setup_failed_result revision artifact duration d =
     result_of revision artifact None None ENVIRONMENT_SETUP_FAILED 0 (sd_exit_code d) duration (sd_stdout d) (sd_stderr d)
       (Some (sd_reason d))"

text \<open>Writing the artifact: the parents, the check that they stay inside, the exclusive creation.\<close>

definition inject :: "'w host \<Rightarrow> string \<Rightarrow> string \<Rightarrow> bytes \<Rightarrow> ('w, exn, unit) prog" where
  "inject host workspace artifact_path content =
     pbind (h_make_parents host artifact_path) (\<lambda>_.
     pbind (pget (\<lambda>w. is_relative_to (h_resolve host (parent_path artifact_path) w) workspace)) (\<lambda>inside.
     pbind (pguard inside (ValueError ''artifact parent resolves outside the revision workspace'')) (\<lambda>_.
     h_create host artifact_path content)))"

fun os_or_value_error :: "exn \<Rightarrow> string option" where
  "os_or_value_error (OSError m) = Some m"
| "os_or_value_error e = (if is_value_error e then Some (error_message e) else None)"

definition pytest_argv :: "pytest_runner \<Rightarrow> string \<Rightarrow> string \<Rightarrow> string \<Rightarrow> string list" where
  "pytest_argv rn workspace report_path node_id =
     test_command rn workspace @ PYTEST_ISOLATION_ARGUMENTS
     @ [''-o'', ''junit_family=xunit2'', ''--junitxml='' @ report_path, node_id]"

definition pytest_environment :: "'w host \<Rightarrow> pytest_runner \<Rightarrow> string \<Rightarrow> environment \<Rightarrow> 'w \<Rightarrow> exn + environment" where
  "pytest_environment host rn workspace env w =
     (if rn_repository_python_paths rn = [] then Inr env
      else rbind (rmap (\<lambda>p. safe_python_path host workspace p w) (rn_repository_python_paths rn)) (\<lambda>paths.
             Inr (env(''PYTHONPATH'' \<mapsto> join '':'' paths))))"

definition completed_result ::
    "'w host \<Rightarrow> pytest_runner \<Rightarrow> Revision \<Rightarrow> TestArtifact \<Rightarrow> string option \<Rightarrow> string option \<Rightarrow> seconds \<Rightarrow> junit_report
     \<Rightarrow> BoundedProcessResult \<Rightarrow> exn + ExecutionResult" where
  "completed_result host rn revision artifact before after duration report completed =
     (if bp_timed_out completed then
        result_of revision artifact before after TIMED_OUT 0 None duration (bp_stdout completed) (bp_stderr completed)
          (Some (''pytest exceeded the '' @ h_format_g host (ec_timeout_seconds (rn_contract rn)) @ ''-second timeout''))
      else case bp_start_error completed of
        Some e \<Rightarrow> result_of revision artifact before after PROCESS_ERROR 0 None duration [] [] (Some e)
      | None \<Rightarrow>
          (let p = parse_report report (case bp_returncode completed of None \<Rightarrow> 0 | Some c \<Rightarrow> c)
                     (bp_stdout completed) (bp_stderr completed) in
           result_of revision artifact before after (pr_status p) (pr_collected_count p) (bp_returncode completed) duration
             (bp_stdout completed) (bp_stderr completed) (pr_detail p)))"

definition run_pytest ::
    "'w host \<Rightarrow> pytest_runner \<Rightarrow> string \<Rightarrow> Revision \<Rightarrow> TestArtifact \<Rightarrow> string \<Rightarrow> string option \<Rightarrow> seconds \<Rightarrow> string
     \<Rightarrow> ('w, exn, ExecutionResult) prog" where
  "run_pytest host rn workspace revision artifact artifact_path before started_at result_directory =
     (let report_path = result_directory @ ''/pytest.xml'' in
      pbind (plift (build_environment (h_environ host) (result_directory @ ''/runtime''))) (\<lambda>env0.
      pbind (\<lambda>w. (pytest_environment host rn workspace env0 w, w)) (\<lambda>env.
      pbind (process_run host rn (pytest_argv rn workspace report_path (ta_node_id artifact)) workspace env
               (ec_timeout_seconds (rn_contract rn))) (\<lambda>completed w.
        (completed_result host rn revision artifact before (hash_file host artifact_path w)
           (h_monotonic host w - started_at) (h_report host report_path w) completed, w)))))"

definition run_injected ::
    "'w host \<Rightarrow> pytest_runner \<Rightarrow> string \<Rightarrow> Revision \<Rightarrow> TestArtifact \<Rightarrow> string \<Rightarrow> seconds \<Rightarrow> ('w, exn, ExecutionResult) prog" where
  "run_injected host rn workspace revision artifact artifact_path started_at = (\<lambda>w.
     case inject host workspace artifact_path (ta_content artifact) w of
       (Inl e, w1) \<Rightarrow>
         (case os_or_value_error e of
            None \<Rightarrow> (Inl e, w1)
          | Some m \<Rightarrow> (early_result revision artifact INVALID_ARTIFACT (h_monotonic host w1 - started_at)
              (''test artifact could not be injected safely: '' @ m), w1))
     | (Inr _, w1) \<Rightarrow>
         (let before = hash_file host artifact_path w1 in
          case h_ast_parse host (ta_content artifact) of
            Some m \<Rightarrow>
              (result_of revision artifact before (hash_file host artifact_path w1) INVALID_ARTIFACT 0 None
                 (h_monotonic host w1 - started_at) [] [] (Some (''candidate test is not valid UTF-8 Python source: '' @ m)), w1)
          | None \<Rightarrow>
              pbind (h_mkdtemp host ''.ppr-'' (parent_path workspace)) (\<lambda>result_directory.
                finally_do (run_pytest host rn workspace revision artifact artifact_path before started_at result_directory)
                  (\<lambda>w. h_unlink host artifact_path (h_rmtree host result_directory w))) w1))"

definition install_for ::
    "'w host \<Rightarrow> pytest_runner \<Rightarrow> string \<Rightarrow> ('w \<times> string set, exn, EnvironmentSetupDiagnostic option) prog" where
  "install_for host rn workspace =
     (if rn_install_dependencies rn then install_once host rn workspace else preturn None)"

definition run ::
    "'w host \<Rightarrow> pytest_runner \<Rightarrow> string \<Rightarrow> Revision \<Rightarrow> TestArtifact \<Rightarrow> ('w \<times> string set, exn, ExecutionResult) prog" where
  "run host rn workspace0 revision artifact = (\<lambda>(w, installed).
     let started_at = h_monotonic host w; workspace = h_resolve host workspace0 w;
         early = (\<lambda>status detail. early_result revision artifact status (h_monotonic host w - started_at) detail) in
     if \<not> h_is_dir host workspace w then
       (early PROCESS_ERROR (''revision workspace does not exist: '' @ workspace), (w, installed))
     else if \<not> permits_test_path (rn_contract rn) (ta_relative_path artifact) then
       (early INVALID_ARTIFACT ''candidate test path is outside the execution contract allowlist'', (w, installed))
     else case safe_artifact_path host workspace (ta_relative_path artifact) w of
       Inl e \<Rightarrow> (early INVALID_ARTIFACT (error_message e), (w, installed))
     | Inr artifact_path \<Rightarrow>
         (if h_exists host artifact_path w then
            (early INVALID_ARTIFACT (''refusing to overwrite repository path: '' @ ta_relative_path artifact), (w, installed))
          else case install_for host rn workspace (w, installed) of
            (Inl e, st) \<Rightarrow> (Inl e, st)
          | (Inr (Some d), (w1, installed1)) \<Rightarrow>
              (setup_failed_result revision artifact (h_monotonic host w1 - started_at) d, (w1, installed1))
          | (Inr None, (w1, installed1)) \<Rightarrow>
              (case run_injected host rn workspace revision artifact artifact_path started_at w1 of
                 (r, w2) \<Rightarrow> (r, (w2, installed1)))))"

section \<open>What a result says\<close>

text \<open>The documented behaviour of files: exclusive creation stores the bytes, unlinking removes the path.\<close>

definition host_law :: "'w host \<Rightarrow> bool" where
  "host_law host =
     ((\<forall>p content w w'. h_create host p content w = (Inr (), w') \<longrightarrow> h_read host p w' = Some content)
      \<and> (\<forall>p w. \<not> h_exists host p (h_unlink host p w)))"

definition describes :: "Revision \<Rightarrow> TestArtifact \<Rightarrow> ExecutionResult \<Rightarrow> bool" where
  "describes revision artifact r =
     (er_revision r = revision \<and> er_test_node_id r = ta_node_id artifact \<and> er_expected_sha256 r = ta_sha256 artifact)"

lemma result_of_ok:
  "result_of revision artifact before after status n code d out err detail = Inr r \<Longrightarrow>
     describes revision artifact r \<and> er_status r = status \<and> er_sha256_before r = before"
  unfolding result_of_def by (drule mk_ExecutionResult_eq) (simp add: describes_def)

lemma early_result_ok:
  "early_result revision artifact status d detail = Inr r \<Longrightarrow> describes revision artifact r \<and> er_status r = status"
  unfolding early_result_def by (drule result_of_ok) simp

lemma setup_failed_ok:
  "setup_failed_result revision artifact d diag = Inr r \<Longrightarrow> describes revision artifact r \<and> er_status r = ENVIRONMENT_SETUP_FAILED"
  unfolding setup_failed_result_def by (drule result_of_ok) simp

lemma completed_result_ok:
  "completed_result host rn revision artifact before after d report completed = Inr r \<Longrightarrow>
     describes revision artifact r \<and> er_sha256_before r = before"
  by (auto simp: completed_result_def Let_def dest: result_of_ok split: if_splits option.splits)

definition verdict :: "TestExecutionStatus \<Rightarrow> bool" where
  "verdict status = (status \<in> {PASSED, ASSERTION_FAILED})"

lemma run_pytest_ok:
  "run_pytest host rn workspace revision artifact p before t dir w = (Inr r, w') \<Longrightarrow>
     describes revision artifact r \<and> er_sha256_before r = before"
  by (auto simp: run_pytest_def Let_def guard_simps dest: completed_result_ok)

lemma injected:
  assumes "host_law host" "inject host workspace p content w = (Inr u, w')"
  shows "hash_file host p w' = Some (sha256 content)"
  using assms by (auto simp: host_law_def inject_def guard_simps hash_file_def)

lemma run_injected_ok:
  assumes law: "host_law host" and r: "run_injected host rn workspace revision artifact p t w = (Inr r, w')"
  shows "describes revision artifact r
    \<and> (h_ast_parse host (ta_content artifact) = None \<and> er_sha256_before r = Some (ta_sha256 artifact) \<and> \<not> h_exists host p w'
       \<or> er_status r = INVALID_ARTIFACT)"
proof -
  obtain q w1 where i: "inject host workspace p (ta_content artifact) w = (q, w1)" by fastforce
  show ?thesis
  proof (cases q)
    case (Inl e)
    with r i show ?thesis by (auto simp: run_injected_def dest: early_result_ok split: option.splits)
  next
    case (Inr u)
    have before: "hash_file host p w1 = Some (ta_sha256 artifact)"
      using injected [OF law i [unfolded Inr]] by (simp add: ta_sha256_def)
    show ?thesis
    proof (cases "h_ast_parse host (ta_content artifact)")
      case (Some m)
      with r i Inr show ?thesis by (auto simp: run_injected_def Let_def dest: result_of_ok)
    next
      case None
      with r i Inr obtain dir w2 where d: "h_mkdtemp host ''.ppr-'' (parent_path workspace) w1 = (Inr dir, w2)"
        and f: "finally_do (run_pytest host rn workspace revision artifact p (hash_file host p w1) t dir)
                  (\<lambda>w. h_unlink host p (h_rmtree host dir w)) w2 = (Inr r, w')"
        by (auto simp: run_injected_def Let_def guard_simps)
      from f obtain w3 where "run_pytest host rn workspace revision artifact p (hash_file host p w1) t dir w2 = (Inr r, w3)"
        and w': "w' = h_unlink host p (h_rmtree host dir w3)" by (auto simp: finally_do_def split: prod.splits)
      with run_pytest_ok before law None show ?thesis by (fastforce simp: host_law_def)
    qed
  qed
qed

lemma run_sound:
  assumes law: "host_law host" and r: "run host rn workspace0 revision artifact (w, installed) = (Inr r, (w', installed'))"
  shows "describes revision artifact r
    \<and> (verdict (er_status r) \<longrightarrow>
        permits_test_path (rn_contract rn) (ta_relative_path artifact) \<and> h_ast_parse host (ta_content artifact) = None
        \<and> (\<exists>p. p = h_resolve host (under (h_resolve host workspace0 w) (ta_relative_path artifact)) w
             \<and> is_relative_to p (h_resolve host workspace0 w) \<and> \<not> h_exists host p w
             \<and> er_sha256_before r = Some (ta_sha256 artifact) \<and> \<not> h_exists host p w'))"
proof -
  let ?ws = "h_resolve host workspace0 w"
  let ?p = "h_resolve host (under ?ws (ta_relative_path artifact)) w"
  show ?thesis
  proof (cases "h_is_dir host ?ws w \<and> permits_test_path (rn_contract rn) (ta_relative_path artifact)
     \<and> is_relative_to ?p ?ws \<and> \<not> h_exists host ?p w")
    case False
    with r show ?thesis
      by (auto simp: run_def Let_def safe_artifact_path_def verdict_def dest!: early_result_ok split: if_splits)
  next
    case True
    obtain q w1 installed1 where i: "install_for host rn ?ws (w, installed) = (q, (w1, installed1))" by (metis prod.exhaust)
    from r True have "(case install_for host rn ?ws (w, installed) of
            (Inl e, st) \<Rightarrow> (Inl e, st)
          | (Inr (Some d), (w1, installed1)) \<Rightarrow>
              (setup_failed_result revision artifact (h_monotonic host w1 - h_monotonic host w) d, (w1, installed1))
          | (Inr None, (w1, installed1)) \<Rightarrow>
              (case run_injected host rn ?ws revision artifact ?p (h_monotonic host w) w1 of
                 (r, w2) \<Rightarrow> (r, (w2, installed1)))) = (Inr r, (w', installed'))"
      by (simp add: run_def Let_def safe_artifact_path_def)
    with i consider d where "setup_failed_result revision artifact (h_monotonic host w1 - h_monotonic host w) d = Inr r"
      | "run_injected host rn ?ws revision artifact ?p (h_monotonic host w) w1 = (Inr r, w')"
      by (auto split: sum.splits option.splits prod.splits)
    then show ?thesis
    proof cases
      case 1
      from setup_failed_ok [OF this] show ?thesis by (simp add: verdict_def)
    next
      case 2
      from run_injected_ok [OF law this] True show ?thesis by (auto simp: verdict_def)
    qed
  qed
qed


text \<open>
  A host of files in a map whose pytest reports one case, failed by assertion in the workspaces
  chosen and passed in the others; the process leaves the workspace it ran in at \<open>/cwd\<close>.
\<close>

definition sample_trace :: process_trace where
  "sample_trace = \<lparr>pt_wait = Exits 0, pt_wait_after_terminate = Expires, pt_wait_after_kill = Expires,
     pt_stdout = [], pt_stderr = [], pt_duration = 1\<rparr>"

definition sample_host :: "string \<Rightarrow> (string \<Rightarrow> bytes option) host" where
  "sample_host failing =
     \<lparr>h_resolve = (\<lambda>p w. p), h_is_dir = (\<lambda>p w. True), h_exists = (\<lambda>p w. w p \<noteq> None),
      h_make_parents = (\<lambda>p w. (Inr (), w)), h_create = (\<lambda>p content w. (Inr (), w(p \<mapsto> content))),
      h_read = (\<lambda>p w. w p), h_unlink = (\<lambda>p w. w(p := None)), h_mkdtemp = (\<lambda>prefix dir w. (Inr ''/t'', w)),
      h_rmtree = (\<lambda>p w. w),
      h_report = (\<lambda>p w. Report (sample_case (if w ''/cwd'' = Some (utf8 failing) then [sample_failure] else []))),
      h_environ = [''PATH'' \<mapsto> ''/bin''], h_popen = (\<lambda>argv cwd env w. (Started sample_trace, w(''/cwd'' \<mapsto> utf8 cwd))),
      h_decode = (\<lambda>b. []), h_monotonic = (\<lambda>w. 0), h_ast_parse = (\<lambda>b. None), h_format_g = (\<lambda>t. [])\<rparr>"

definition sample_runner :: pytest_runner where
  "sample_runner = \<lparr>rn_contract = synthesized_contract sample_plan, rn_python_executable = ''/p'',
     rn_install_dependencies = False, rn_repository_python_paths = [], rn_max_output_chars = 12000\<rparr>"

definition sample_artifact :: TestArtifact where
  "sample_artifact = \<lparr>ta_relative_path = SYNTHESIZED_TEST_PATH @ ''t.py'', ta_node_id = SYNTHESIZED_TEST_PATH @ ''t.py::t'', ta_content = [1]\<rparr>"

definition sample_status :: "string \<Rightarrow> string \<Rightarrow> TestExecutionStatus" where
  "sample_status failing ws = (if utf8 ws = utf8 failing then ASSERTION_FAILED else PASSED)"

lemma sample_host_fields [simp]:
  "h_ast_parse (sample_host failing) b = None" "h_mkdtemp (sample_host failing) prefix dir w = (Inr ''/t'', w)"
  "h_monotonic (sample_host failing) w = 0" "h_resolve (sample_host failing) p w = p" "h_is_dir (sample_host failing) p w"
  "h_exists (sample_host failing) p w = (w p \<noteq> None)" "h_rmtree (sample_host failing) p w = w"
  "h_unlink (sample_host failing) p w = w(p := None)"
  by (simp_all add: sample_host_def)

lemma sample_process:
  "process_run (sample_host failing) sample_runner (pytest_argv sample_runner ws rp node) ws env (ec_timeout_seconds (rn_contract sample_runner)) w
     = (Inr \<lparr>bp_returncode = Some 0, bp_duration_seconds = 1, bp_stdout = [], bp_stderr = [], bp_timed_out = False, bp_start_error = None\<rparr>,
        w(''/cwd'' \<mapsto> utf8 ws))"
proof -
  have no_output: "collector_text (\<lambda>b. []) (drain (new_collector 48000) []) 12000 = Inr []"
    by (simp add: collector_text_def drain_def new_collector_def bounded_head_tail_def TRUNCATION_MARKER_def)
  have timeout: "0 < ec_timeout_seconds (rn_contract sample_runner)"
    by (simp add: sample_runner_def synthesized_contract_def)
  show ?thesis using timeout no_output
    by (simp add: process_run_def run_process_def pytest_argv_def sample_host_def sample_trace_def await_process_def)
      (simp add: sample_runner_def)
qed

lemma sample_reports:
  "parse_report (Report (sample_case [])) 0 [] [] = parsed PASSED 1 None"
  "parse_report (Report (sample_case [sample_failure])) 0 [] [] = parsed ASSERTION_FAILED 1 (Some ''assert 1 == 2'')"
  by code_simp+

lemma sample_pytest:
  assumes "w p = Some (ta_content sample_artifact)" "p \<noteq> ''/cwd''"
  shows "\<exists>r. run_pytest (sample_host failing) sample_runner ws revision sample_artifact p (Some (ta_sha256 sample_artifact)) 0 ''/t'' w
      = (Inr r, w(''/cwd'' \<mapsto> utf8 ws)) \<and> er_status r = sample_status failing ws \<and> artifact_was_unchanged r"
proof -
  obtain env where "build_environment (h_environ (sample_host failing)) (''/t'' @ ''/runtime'') = Inr env"
    by (simp add: sample_host_def build_environment_def inherited_environment_def inherited_names_def)
  moreover have "hash_file (sample_host failing) p (w(''/cwd'' \<mapsto> utf8 ws)) = Some (ta_sha256 sample_artifact)"
    using assms by (simp add: hash_file_def sample_host_def ta_sha256_def)
  moreover have "h_report (sample_host failing) x (w(''/cwd'' \<mapsto> utf8 ws))
      = Report (sample_case (if utf8 ws = utf8 failing then [sample_failure] else []))" for x
    by (simp add: sample_host_def)
  moreover have "pytest_environment h sample_runner ws e v = Inr e" for h :: "(string \<Rightarrow> bytes option) host" and e v
    by (simp add: pytest_environment_def sample_runner_def)
  ultimately show ?thesis
    by (simp add: run_pytest_def Let_def pbind_def plift_def sample_process completed_result_def sample_reports result_of_def
        mk_ExecutionResult_def observed_hash_ok_def sample_status_def artifact_was_unchanged_def)
qed

lemma sample_run:
  assumes free: "w (under ws (ta_relative_path sample_artifact)) = None" and other: "under ws (ta_relative_path sample_artifact) \<noteq> ''/cwd''"
  shows "\<exists>r. run (sample_host failing) sample_runner ws revision sample_artifact (w, {})
      = (Inr r, (w(''/cwd'' \<mapsto> utf8 ws), {})) \<and> er_status r = sample_status failing ws \<and> artifact_was_unchanged r"
proof -
  let ?h = "sample_host failing" and ?p = "under ws (ta_relative_path sample_artifact)"
  let ?w = "w(?p \<mapsto> ta_content sample_artifact)"
  have permits: "permits_test_path (rn_contract sample_runner) (ta_relative_path sample_artifact)"
    by (simp add: permits_test_path_def sample_runner_def synthesized_contract_def sample_artifact_def)
  have inside: "is_relative_to ?p ws" by (simp add: is_relative_to_def under_def startswith_iff)
  have parent: "is_relative_to (parent_path ?p) ws"
    by (simp add: is_relative_to_def parent_path_def under_def sample_artifact_def SYNTHESIZED_TEST_PATH_def startswith_iff)
  have inject: "inject ?h ws ?p (ta_content sample_artifact) w = (Inr (), ?w)"
    using parent by (simp add: inject_def pbind_def pget_def pguard_def plift_def sample_host_def)
  have before: "hash_file ?h ?p ?w = Some (ta_sha256 sample_artifact)"
    by (simp add: hash_file_def sample_host_def ta_sha256_def)
  from sample_pytest [of ?w ?p failing ws revision] other obtain r where
    r: "run_pytest ?h sample_runner ws revision sample_artifact ?p (Some (ta_sha256 sample_artifact)) 0 ''/t'' ?w = (Inr r, ?w(''/cwd'' \<mapsto> utf8 ws))"
      "er_status r = sample_status failing ws" "artifact_was_unchanged r" by auto
  have "(?w(''/cwd'' \<mapsto> utf8 ws))(?p := None) = w(''/cwd'' \<mapsto> utf8 ws)"
    using free other by (auto simp: fun_eq_iff)
  then have "run_injected ?h sample_runner ws revision sample_artifact ?p 0 w = (Inr r, w(''/cwd'' \<mapsto> utf8 ws))"
    using r(1) by (simp add: run_injected_def inject before Let_def pbind_def finally_do_def)
  then have "run ?h sample_runner ws revision sample_artifact (w, {}) = (Inr r, (w(''/cwd'' \<mapsto> utf8 ws), {}))"
    using permits inside free by (simp add: run_def Let_def safe_artifact_path_def install_for_def preturn_def sample_runner_def)
  with r(2,3) show ?thesis by blast
qed

lemma sample_host_law: "host_law (sample_host failing)"
  by (simp add: host_law_def sample_host_def)


end
