(* ===== verification/Challenge.thy ===== *)
theory Challenge
  imports Evidence PytestRunner
begin

text \<open>
  \<open>src/patchproof/git_workspace.py\<close>, \<open>environment_introspection.py\<close> and \<open>challenge.py\<close>: a pair of
  detached worktrees and its disposal, the importable names of a prepared environment, and the
  session that runs one artifact on both revisions and classifies the pair. Git is a call on the
  world; the host is that of the runner.
\<close>

section \<open>Worktrees\<close>

text \<open>Exit code, output and error text of a Git command, or the exception of one that did not complete.\<close>

type_synonym 'w git_call = "string list \<Rightarrow> ('w, exn, int \<times> string \<times> string) prog"

definition run_git_in :: "'w git_call \<Rightarrow> bool \<Rightarrow> string list \<Rightarrow> ('w, exn, int \<times> string \<times> string) prog" where
  "run_git_in git check arguments =
     pbind (git arguments) (\<lambda>(code, out, err).
       if check \<and> code \<noteq> 0 then
         praise (GitWorkspaceError (''Git command failed with exit code '' @ str_int code @ '': '' @ or_str (strip err) (strip out)))
       else preturn (code, out, err))"

record RevisionWorkspaces =
  rw_base_revision :: Revision
  rw_head_revision :: Revision
  rw_base_path :: string
  rw_head_path :: string

definition resolve_revision :: "'w git_call \<Rightarrow> string \<Rightarrow> RevisionRole \<Rightarrow> ('w, exn, Revision) prog" where
  "resolve_revision git ref role =
     pbind (pguard (\<not> (ref = [] \<or> CHR 0x00 \<in> set ref \<or> CHR 0x0A \<in> set ref \<or> CHR 0x0D \<in> set ref))
              (ValueError ''Git revision reference is empty or contains a control character'')) (\<lambda>_.
     pbind (run_git_in git True [''rev-parse'', ''--verify'', ref @ ''^{commit}'']) (\<lambda>(code, out, err).
       plift (mk_Revision role (strip out))))"

definition remove_tree :: "'w host \<Rightarrow> string \<Rightarrow> 'w \<Rightarrow> 'w" where
  "remove_tree host path = remove_attempts 20 (\<lambda>w. let w' = h_rmtree host path w in (\<not> h_exists host path w', w'))"

text \<open>
  Adding the worktrees one by one. The paths registered so far are returned beside the result,
  because the cleanup needs them when a later step raises.
\<close>

fun add_worktrees :: "'w git_call \<Rightarrow> (Revision \<times> string) list \<Rightarrow> string list \<Rightarrow> 'w \<Rightarrow> (exn + unit) \<times> string list \<times> 'w" where
  "add_worktrees git [] registered w = (Inr (), registered, w)"
| "add_worktrees git ((revision, path) # rest) registered w =
     (case run_git_in git True [''worktree'', ''add'', ''--detach'', path, rev_sha revision] w of
        (Inl e, w') \<Rightarrow> (Inl e, registered, w')
      | (Inr _, w') \<Rightarrow>
     (case run_git_in git True [''-C'', path, ''rev-parse'', ''HEAD''] w' of
        (Inl e, w'') \<Rightarrow> (Inl e, registered @ [path], w'')
      | (Inr (_, out, _), w'') \<Rightarrow>
          (if lower (strip out) \<noteq> rev_sha revision then
             (Inl (GitWorkspaceError (''worktree revision mismatch: expected '' @ rev_sha revision @ '', got '' @ strip out)),
              registered @ [path], w'')
           else add_worktrees git rest (registered @ [path]) w'')))"

text \<open>The cleanup: the failures it met, or the exception of a Git command that did not complete.\<close>

fun remove_worktrees :: "'w host \<Rightarrow> 'w git_call \<Rightarrow> string list \<Rightarrow> ('w, exn, string list) prog" where
  "remove_worktrees host git [] = preturn []"
| "remove_worktrees host git (path # rest) =
     pbind (run_git_in git False [''worktree'', ''remove'', ''--force'', path]) (\<lambda>(code, out, err) w.
       if code \<noteq> 0 \<and> h_exists host path w
       then pbind (remove_worktrees host git rest) (\<lambda>failures. preturn (or_str (strip err) path # failures)) (remove_tree host path w)
       else remove_worktrees host git rest w)"

definition cleanup_pair :: "'w host \<Rightarrow> 'w git_call \<Rightarrow> string \<Rightarrow> string list \<Rightarrow> exn option \<Rightarrow> ('w, exn, unit) prog" where
  "cleanup_pair host git run_root registered active_error =
     pbind (remove_worktrees host git (rev registered)) (\<lambda>cleanup_failures.
     pbind (run_git_in git False [''worktree'', ''prune'']) (\<lambda>_.
     pbind (pupdate (\<lambda>w. if h_exists host run_root w then remove_tree host run_root w else w)) (\<lambda>_ w.
       if cleanup_failures \<noteq> [] \<or> h_exists host run_root w then
         (case active_error of
            Some _ \<Rightarrow> (Inr (), w)
          | None \<Rightarrow> (Inl (GitWorkspaceError (''failed to clean temporary worktrees: '' @ or_str (join ''; '' cleanup_failures) run_root)), w))
       else (Inr (), w))))"

text \<open>
  \<open>with create_pair(...) as pair: body pair\<close>. An exception of the body survives the cleanup unless
  the cleanup itself raises. The body works on a larger state that contains the world.
\<close>

definition on_fst :: "('a, 'e, 'r) prog \<Rightarrow> ('a \<times> 's, 'e, 'r) prog" where
  "on_fst m = (\<lambda>(a, s). case m a of (r, a') \<Rightarrow> (r, (a', s)))"

definition on_snd :: "('s, 'e, 'r) prog \<Rightarrow> ('a \<times> 's, 'e, 'r) prog" where
  "on_snd m = (\<lambda>(a, s). case m s of (r, s') \<Rightarrow> (r, (a, s')))"

definition with_pair ::
    "'w host \<Rightarrow> 'w git_call \<Rightarrow> string \<Rightarrow> string \<Rightarrow> string \<Rightarrow> (RevisionWorkspaces \<Rightarrow> ('w \<times> 's, exn, 'r) prog) \<Rightarrow> ('w \<times> 's, exn, 'r) prog" where
  "with_pair host git workspace_root base_ref head_ref body =
     pbind (on_fst (resolve_revision git base_ref BASE)) (\<lambda>base_revision.
     pbind (on_fst (resolve_revision git head_ref HEAD)) (\<lambda>head_revision.
     pbind (on_fst (h_mkdtemp host ''r-'' workspace_root)) (\<lambda>run_root (w, s).
       let base_path = under run_root ''base''; head_path = under run_root ''head'';
           pair = \<lparr>rw_base_revision = base_revision, rw_head_revision = head_revision,
                   rw_base_path = base_path, rw_head_path = head_path\<rparr>;
           (added, registered, w1) = add_worktrees git [(base_revision, base_path), (head_revision, head_path)] [] w;
           (result, (w2, s2)) = (case added of Inl e \<Rightarrow> (Inl e, (w1, s)) | Inr _ \<Rightarrow> body pair (w1, s));
           active_error = (case result of Inl e \<Rightarrow> Some e | Inr _ \<Rightarrow> None);
           (cleaned, w3) = cleanup_pair host git run_root registered active_error w2 in
       (case cleaned of Inl e \<Rightarrow> Inl e | Inr _ \<Rightarrow> result, (w3, s2)))))"

section \<open>What a prepared environment can import\<close>

definition MAX_IMPORT_ROOTS :: nat where
  "MAX_IMPORT_ROOTS = 4096"

definition import_root_pattern :: regex where
  "import_root_pattern = Seq (Cls identifier_head) (star (Cls (\<lambda>c. is_alnum c \<or> c = CHR ''_'')))"

text \<open>An entry of \<open>site-packages\<close>: its name, whether it is a directory, and the \<open>top_level.txt\<close> below it.\<close>

record site_entry =
  se_name :: string
  se_is_dir :: bool
  se_top_level :: "string option"

fun split_lines_acc :: "string \<Rightarrow> string \<Rightarrow> string list" where
  "split_lines_acc acc [] = (if acc = [] then [] else [rev acc])"
| "split_lines_acc acc (c # s) = (if is_line_break c then rev acc # split_lines_acc [] s else split_lines_acc (c # acc) s)"

definition split_lines :: "string \<Rightarrow> string list" where
  "split_lines s = split_lines_acc [] s"

definition collect_from_metadata :: "string option \<Rightarrow> string list \<Rightarrow> string list" where
  "collect_from_metadata raw roots =
     (case raw of
        None \<Rightarrow> roots
      | Some text \<Rightarrow> fold List.insert (filter (is_fullmatch import_root_pattern) (map strip (split_lines text))) roots)"

definition module_suffix :: "string \<Rightarrow> bool" where
  "module_suffix name = (endswith name ''.py'' \<or> endswith name ''.pyd'' \<or> endswith name ''.so'')"

fun collect_from_site_packages :: "site_entry list \<Rightarrow> string list \<Rightarrow> string list" where
  "collect_from_site_packages [] roots = roots"
| "collect_from_site_packages (entry # rest) roots =
     (if MAX_IMPORT_ROOTS \<le> length roots then roots
      else if endswith (se_name entry) ''.dist-info'' \<or> endswith (se_name entry) ''.egg-info'' then
        collect_from_site_packages rest (collect_from_metadata (se_top_level entry) roots)
      else if se_is_dir entry then
        collect_from_site_packages rest
          (if is_fullmatch import_root_pattern (se_name entry) then List.insert (se_name entry) roots else roots)
      else let stem = before_first (CHR ''.'') (se_name entry) in
        collect_from_site_packages rest
          (if module_suffix (se_name entry) \<and> is_fullmatch import_root_pattern stem then List.insert stem roots else roots))"

fun collect_environments :: "site_entry list list \<Rightarrow> string list \<Rightarrow> string list" where
  "collect_environments [] roots = roots"
| "collect_environments (site # rest) roots =
     (let roots = collect_from_site_packages site roots in
      if MAX_IMPORT_ROOTS \<le> length roots then roots else collect_environments rest roots)"

definition installed_import_roots :: "site_entry list list \<Rightarrow> string list" where
  "installed_import_roots sites = take MAX_IMPORT_ROOTS (sort (collect_environments sites []))"

section \<open>A session\<close>

definition READINESS_PROBE_FUNCTION :: string where
  "READINESS_PROBE_FUNCTION = ''test_patchproof_environment_probe''"

definition READINESS_PROBE_SOURCE :: string where
  "READINESS_PROBE_SOURCE =
     ''def '' @ READINESS_PROBE_FUNCTION @ ''() -> None:'' @ [CHR 0x0A] @ ''    assert True'' @ [CHR 0x0A]"

definition probe_artifact :: "pytest_runner \<Rightarrow> exn + TestArtifact" where
  "probe_artifact rn =
     (let relative_path = hd (ec_allowed_test_paths (rn_contract rn)) @ ''test_patchproof_environment_probe.py'' in
      from_text relative_path (relative_path @ ''::'' @ READINESS_PROBE_FUNCTION) READINESS_PROBE_SOURCE)"

text \<open>The world and the runner's memo, as the state of a session.\<close>

type_synonym 'w session_state = "'w \<times> string set"

definition failed_setup :: "RevisionRole \<Rightarrow> EnvironmentReadinessStatus" where
  "failed_setup role = (case role of BASE \<Rightarrow> BASE_SETUP_FAILED | HEAD \<Rightarrow> HEAD_SETUP_FAILED)"

definition ready_reason :: string where
  "ready_reason = ''repository-declared setup completed and an injected pytest node '' @ ''executed successfully on BASE and HEAD''"

fun install_roles :: "'w host \<Rightarrow> pytest_runner \<Rightarrow> (RevisionRole \<times> string) list \<Rightarrow> ('w session_state, exn, EnvironmentReadiness option) prog" where
  "install_roles host rn [] = preturn None"
| "install_roles host rn ((role, workspace) # rest) =
     pbind (prepare_environment host rn workspace) (\<lambda>error.
       case error of
         None \<Rightarrow> install_roles host rn rest
       | Some d \<Rightarrow> preturn (Some \<lparr>rd_status = failed_setup role,
           rd_reason = str_role role @ '' repository environment setup failed: '' @ sd_reason d,
           rd_setup_diagnostic = Some d\<rparr>))"

fun probe_roles :: "'w host \<Rightarrow> pytest_runner \<Rightarrow> TestArtifact \<Rightarrow> (RevisionRole \<times> string \<times> Revision) list
     \<Rightarrow> ('w session_state, exn, EnvironmentReadiness option) prog" where
  "probe_roles host rn artifact [] = preturn None"
| "probe_roles host rn artifact ((role, workspace, revision) # rest) =
     pbind (run host rn workspace revision artifact) (\<lambda>result.
       if er_status result \<noteq> PASSED then
         (let detail = take 600 (case er_detail result of None \<Rightarrow> [] | Some d \<Rightarrow> d) in
          preturn (Some \<lparr>rd_status = failed_setup role,
            rd_reason = take 2000 (str_role role @ '' could not execute an injected pytest node (status=''
                          @ str_status (er_status result) @ ''): '' @ detail),
            rd_setup_diagnostic = None\<rparr>))
       else probe_roles host rn artifact rest)"

definition session_prepare_environment :: "'w host \<Rightarrow> pytest_runner \<Rightarrow> RevisionWorkspaces \<Rightarrow> ('w session_state, exn, EnvironmentReadiness) prog" where
  "session_prepare_environment host rn pair =
     pbind (install_roles host rn [(BASE, rw_base_path pair), (HEAD, rw_head_path pair)]) (\<lambda>failed.
       case failed of
         Some readiness \<Rightarrow> preturn readiness
       | None \<Rightarrow>
           pbind (plift (probe_artifact rn)) (\<lambda>artifact.
           pbind (probe_roles host rn artifact [(BASE, rw_base_path pair, rw_base_revision pair), (HEAD, rw_head_path pair, rw_head_revision pair)]) (\<lambda>failed.
             case failed of
               Some readiness \<Rightarrow> preturn readiness
             | None \<Rightarrow> preturn \<lparr>rd_status = READY, rd_reason = ready_reason, rd_setup_diagnostic = None\<rparr>)))"

definition session_run ::
    "'w host \<Rightarrow> pytest_runner \<Rightarrow> RevisionWorkspaces \<Rightarrow> TestArtifact \<Rightarrow> (ExecutionResult \<Rightarrow> ('s, exn, unit) prog)
     \<Rightarrow> ('w session_state \<times> 's, exn, ChallengeResult) prog" where
  "session_run host rn pair artifact on_base_complete =
     pbind (on_fst (run host rn (rw_base_path pair) (rw_base_revision pair) artifact)) (\<lambda>base_result.
     pbind (on_snd (on_base_complete base_result)) (\<lambda>_.
     pbind (on_fst (run host rn (rw_head_path pair) (rw_head_revision pair) artifact)) (\<lambda>head_result.
     pbind (plift (classify artifact base_result head_result)) (\<lambda>assessment.
     plift (mk_ChallengeResult \<lparr>cr_artifact = artifact, cr_base = base_result, cr_head = head_result, cr_assessment = assessment\<rparr>)))))"

definition session_import_roots :: "site_entry list list \<Rightarrow> site_entry list list \<Rightarrow> string set" where
  "session_import_roots base_sites head_sites =
     (let base = set (installed_import_roots base_sites); head = set (installed_import_roots head_sites) in
      if base = {} \<or> head = {} then {} else base \<inter> head)"

section \<open>Facts\<close>

lemma on_fst_ok [guard_simps]: "on_fst m (a, s) = (Inr r, t) \<longleftrightarrow> (\<exists>a'. m a = (Inr r, a') \<and> t = (a', s))"
  by (auto simp: on_fst_def split: prod.splits)

lemma on_snd_ok [guard_simps]: "on_snd m (a, s) = (Inr r, t) \<longleftrightarrow> (\<exists>s'. m s = (Inr r, s') \<and> t = (a, s'))"
  by (auto simp: on_snd_def split: prod.splits)

lemma plift_ok [guard_simps]: "plift q s = (Inr r, t) \<longleftrightarrow> q = Inr r \<and> t = s"
  by (auto simp: plift_def)

lemma preturn_ok [guard_simps]: "preturn a s = (Inr r, t) \<longleftrightarrow> a = r \<and> t = s"
  by (auto simp: preturn_def)

lemma classify_discriminating:
  assumes "classify a b h = Inr r" "ea_mechanical_status r = DISCRIMINATING"
  shows "right_roles b h \<and> comparable a b h \<and> er_status b \<noteq> er_status h
    \<and> ea_pattern r = ordinary_pattern (er_status b) (er_status h)"
proof -
  have roles: "right_roles b h" using assms(1) classify_ok_iff [of a b h] by simp
  show ?thesis
  proof (cases "comparable a b h")
    case True
    from classify_comparable [OF roles True] assms show ?thesis
      by (auto simp: roles True split: if_splits)
  next
    case False
    from classify_not_comparable [OF roles False] assms show ?thesis by auto
  qed
qed

lemma session_run_parts:
  assumes "session_run host rn pair artifact cb (((w, installed), s)) = (Inr c, st)"
  obtains b h w1 i1 w2 i2 where
    "run host rn (rw_base_path pair) (rw_base_revision pair) artifact (w, installed) = (Inr b, (w1, i1))"
    "run host rn (rw_head_path pair) (rw_head_revision pair) artifact (w1, i1) = (Inr h, (w2, i2))"
    "classify artifact b h = Inr (cr_assessment c)" "cr_artifact c = artifact" "cr_base c = b" "cr_head c = h"
proof -
  from assms obtain b h a1 a2 v where r: "run host rn (rw_base_path pair) (rw_base_revision pair) artifact (w, installed) = (Inr b, a1)"
    "run host rn (rw_head_path pair) (rw_head_revision pair) artifact a1 = (Inr h, a2)"
    and v: "classify artifact b h = Inr v"
    and c: "mk_ChallengeResult \<lparr>cr_artifact = artifact, cr_base = b, cr_head = h, cr_assessment = v\<rparr> = Inr c"
    by (auto simp: session_run_def guard_simps)
  from c have "c = \<lparr>cr_artifact = artifact, cr_base = b, cr_head = h, cr_assessment = v\<rparr>"
    by (auto simp: mk_ChallengeResult_def guard_simps)
  with r v show ?thesis by (cases a1; cases a2) (auto intro!: that)
qed

text \<open>
  C6: A discriminating challenge compares one test on two revisions and nothing else: both
  executions are of the session's own BASE and HEAD revisions, ran the artifact's node with its
  bytes in the file before and after the run, at a path the contract permits, one of them passed
  and the other failed by assertion, and the pattern says which.
\<close>

theorem discriminating_challenge_sound:
  assumes law: "host_law host"
    and r: "session_run host rn pair artifact cb ((w, installed), s) = (Inr c, st)"
    and d: "ea_mechanical_status (cr_assessment c) = DISCRIMINATING"
  shows "cr_artifact c = artifact \<and> permits_test_path (rn_contract rn) (ta_relative_path artifact)
    \<and> er_revision (cr_base c) = rw_base_revision pair \<and> er_revision (cr_head c) = rw_head_revision pair
    \<and> rev_role (rw_base_revision pair) = BASE \<and> rev_role (rw_head_revision pair) = HEAD
    \<and> same_artifact artifact (cr_base c) \<and> same_artifact artifact (cr_head c)
    \<and> {er_status (cr_base c), er_status (cr_head c)} = {PASSED, ASSERTION_FAILED}
    \<and> (ea_pattern (cr_assessment c) = BASE_ASSERTION_FAILED_HEAD_PASSED \<longleftrightarrow> er_status (cr_head c) = PASSED)"
proof -
  from session_run_parts [OF r] obtain b h w1 i1 w2 i2 where
    b: "run host rn (rw_base_path pair) (rw_base_revision pair) artifact (w, installed) = (Inr b, (w1, i1))"
    and h: "run host rn (rw_head_path pair) (rw_head_revision pair) artifact (w1, i1) = (Inr h, (w2, i2))"
    and v: "classify artifact b h = Inr (cr_assessment c)" and c: "cr_artifact c = artifact" "cr_base c = b" "cr_head c = h" .
  note e = classify_discriminating [OF v d]
  then have ord: "ordinary_status (er_status b)" "ordinary_status (er_status h)" "er_status b \<noteq> er_status h"
    by (simp_all add: comparable_def)
  have "describes (rw_base_revision pair) artifact b" "describes (rw_head_revision pair) artifact h"
    "verdict (er_status b) \<Longrightarrow> permits_test_path (rn_contract rn) (ta_relative_path artifact)"
    using run_sound [OF law b] run_sound [OF law h] by blast+
  then show ?thesis using e ord c
    by (auto simp: describes_def verdict_def right_roles_def comparable_def ordinary_status_def ordinary_pattern_def split: if_splits)
qed

text \<open>A test that fails by assertion in the BASE worktree and passes in the HEAD worktree.\<close>

definition sample_pair :: RevisionWorkspaces where
  "sample_pair = \<lparr>rw_base_revision = \<lparr>rev_role = BASE, rev_sha = []\<rparr>, rw_head_revision = \<lparr>rev_role = HEAD, rev_sha = []\<rparr>,
     rw_base_path = ''/b'', rw_head_path = ''/h''\<rparr>"

lemma sample_challenge:
  "\<exists>c st. session_run (sample_host ''/b'') sample_runner sample_pair sample_artifact (\<lambda>_. preturn ()) ((Map.empty, {}), ()) = (Inr c, st)
     \<and> ea_mechanical_status (cr_assessment c) = DISCRIMINATING \<and> er_status (cr_head c) = PASSED"
proof -
  let ?h = "sample_host ''/b''" and ?wb = "Map.empty(''/cwd'' \<mapsto> utf8 ''/b'') :: string \<Rightarrow> bytes option"
  have ne: "utf8 ''/h'' \<noteq> utf8 ''/b''" by (simp add: utf8_def utf8_char_def)
  have "\<exists>b. run ?h sample_runner ''/b'' (rw_base_revision sample_pair) sample_artifact (Map.empty, {})
      = (Inr b, (?wb, {})) \<and> er_status b = sample_status ''/b'' ''/b'' \<and> artifact_was_unchanged b"
    by (rule sample_run) (simp_all add: under_def)
  then obtain b where b: "run ?h sample_runner ''/b'' (rw_base_revision sample_pair) sample_artifact (Map.empty, {}) = (Inr b, (?wb, {}))"
    "er_status b = ASSERTION_FAILED" "artifact_was_unchanged b" by (auto simp: sample_status_def)
  have "\<exists>h. run ?h sample_runner ''/h'' (rw_head_revision sample_pair) sample_artifact (?wb, {})
      = (Inr h, (?wb(''/cwd'' \<mapsto> utf8 ''/h''), {})) \<and> er_status h = sample_status ''/b'' ''/h'' \<and> artifact_was_unchanged h"
    by (rule sample_run) (simp_all add: under_def)
  then obtain h where h: "run ?h sample_runner ''/h'' (rw_head_revision sample_pair) sample_artifact (?wb, {}) = (Inr h, (?wb(''/cwd'' \<mapsto> utf8 ''/h''), {}))"
    "er_status h = PASSED" "artifact_was_unchanged h" using ne by (auto simp: sample_status_def)
  have d: "describes (rw_base_revision sample_pair) sample_artifact b" "describes (rw_head_revision sample_pair) sample_artifact h"
    using run_sound [OF sample_host_law b(1)] run_sound [OF sample_host_law h(1)] by blast+
  then have roles: "right_roles b h" by (simp add: right_roles_def describes_def sample_pair_def)
  have "comparable sample_artifact b h"
    using d b(2,3) h(2,3) by (simp add: comparable_def same_artifact_def describes_def ordinary_status_def)
  from classify_comparable [OF roles this] obtain reason where
    v: "classify sample_artifact b h = Inr (assess DISCRIMINATING BASE_ASSERTION_FAILED_HEAD_PASSED reason)"
    by (auto simp: b h ordinary_pattern_def)
  have "session_run ?h sample_runner sample_pair sample_artifact (\<lambda>_. preturn ()) ((Map.empty, {}), ())
      = (Inr \<lparr>cr_artifact = sample_artifact, cr_base = b, cr_head = h,
              cr_assessment = assess DISCRIMINATING BASE_ASSERTION_FAILED_HEAD_PASSED reason\<rparr>,
         ((?wb(''/cwd'' \<mapsto> utf8 ''/h''), {}), ()))"
    using b(1) h(1) roles
    by (simp add: session_run_def pbind_def on_fst_def on_snd_def plift_def preturn_def mk_ChallengeResult_def right_roles_def)
      (simp add: sample_pair_def v)
  with h(2) show ?thesis by auto
qed

theorem discriminating_challenge_sound_witness:
  "\<exists>c st. session_run (sample_host ''/b'') sample_runner sample_pair sample_artifact (\<lambda>_. preturn ()) ((Map.empty, {}), ()) = (Inr c, st)
     \<and> same_artifact sample_artifact (cr_base c) \<and> same_artifact sample_artifact (cr_head c)
     \<and> ea_pattern (cr_assessment c) = BASE_ASSERTION_FAILED_HEAD_PASSED"
proof -
  from sample_challenge obtain c st where
    r: "session_run (sample_host ''/b'') sample_runner sample_pair sample_artifact (\<lambda>_. preturn ()) ((Map.empty, {}), ()) = (Inr c, st)"
    and d: "ea_mechanical_status (cr_assessment c) = DISCRIMINATING" "er_status (cr_head c) = PASSED" by blast
  from discriminating_challenge_sound [OF sample_host_law r d(1)] r d(2) show ?thesis by blast
qed

end
