(* ===== verification/ClaimAgent.thy ===== *)
theory ClaimAgent
  imports GitReader PytestParser
begin

text \<open>
  \<open>src/patchproof/claim_agent.py\<close>: the bounded narrative and context, the draft a model returns,
  its normalisation into a claim, the grounding of the claim in the deterministic context, and the
  structure-only diagnostic of an invalid answer. The model, JSON decoding and pydantic's texts for
  failed fields are arguments; the field constraints are written out. The context's own classes
  are those of \<open>context_retrieval.py\<close>.
\<close>

section \<open>Deterministic context\<close>

datatype SymbolKind = FUNCTION | ASYNC_FUNCTION | METHOD | ASYNC_METHOD | CLASS | MODULE

datatype SnippetKind = CHANGED_SYMBOL | LIKELY_TEST | SYMBOL_REFERENCE | IMPORT | CALLED_HELPER

record ChangedSymbol =
  cs_path :: string
  cs_qualified_name :: string
  cs_kind :: SymbolKind
  cs_start_line :: int
  cs_end_line :: int

record ContextSnippet =
  sn_kind :: SnippetKind
  sn_path :: string
  sn_start_line :: int
  sn_end_line :: int
  sn_content :: string
  sn_reason :: string

record RetrievalStats =
  rs_changed_file_count :: int
  rs_changed_python_file_count :: int
  rs_python_path_count :: int
  rs_test_files_scanned :: int
  rs_reference_files_scanned :: int
  rs_omitted_changed_files :: int
  rs_excluded_changed_files :: int
  rs_excluded_python_paths :: int
  rs_truncated :: bool

record CrossRevisionInterfaces =
  xi_present_on_both :: "string list"
  xi_new_on_head :: "string list"
  xi_removed_on_base :: "string list"
  xi_truncated :: bool

record PullRequestContext =
  pc_base_sha :: string
  pc_head_sha :: string
  pc_diff :: string
  pc_changed_files :: "ChangedFile list"
  pc_changed_symbols :: "ChangedSymbol list"
  pc_snippets :: "ContextSnippet list"
  pc_stats :: RetrievalStats
  pc_interfaces :: CrossRevisionInterfaces

definition leaf_name :: "string \<Rightarrow> string" where
  "leaf_name name = after_last (CHR ''.'') name"

definition head_only_leaf_names :: "CrossRevisionInterfaces \<Rightarrow> string set" where
  "head_only_leaf_names interfaces =
     set (filter (\<lambda>leaf. \<not> startswith leaf ''__'') (map leaf_name (xi_new_on_head interfaces)))"

definition mk_ChangedSymbol :: "ChangedSymbol \<Rightarrow> exn + ChangedSymbol" where
  "mk_ChangedSymbol s =
     rbind (validate_repository_path (cs_path s)) (\<lambda>_.
     rbind (checks
       [(\<not> len_between 1 256 (cs_qualified_name s), ValidationError ''qualified_name''),
        (\<not> (0 < cs_start_line s \<and> 0 < cs_end_line s), ValidationError ''start_line''),
        (cs_end_line s < cs_start_line s, ValidationError ''symbol end line cannot precede its start line'')]) (\<lambda>_.
     Inr s))"

definition mk_ContextSnippet :: "ContextSnippet \<Rightarrow> exn + ContextSnippet" where
  "mk_ContextSnippet s =
     rbind (validate_repository_path (sn_path s)) (\<lambda>_.
     rbind (checks
       [(\<not> (0 < sn_start_line s \<and> 0 < sn_end_line s), ValidationError ''start_line''),
        (sn_content s = [], ValidationError ''content''),
        (\<not> len_between 1 300 (sn_reason s), ValidationError ''reason''),
        (sn_end_line s < sn_start_line s, ValidationError ''snippet end line cannot precede its start line'')]) (\<lambda>_.
     Inr s))"

section \<open>Narrative\<close>

record PullRequestNarrative =
  pn_title :: string
  pn_body :: string
  pn_linked_issue_context :: "string list"
  pn_truncated :: bool

definition mk_PullRequestNarrative :: "PullRequestNarrative \<Rightarrow> exn + PullRequestNarrative" where
  "mk_PullRequestNarrative n =
     rbind (checks
       [(\<not> len_between 1 300 (pn_title n), ValidationError ''title''),
        (8000 < length (pn_body n), ValidationError ''body''),
        (3 < length (pn_linked_issue_context n), ValidationError ''linked_issue_context''),
        (list_ex (\<lambda>v. 4000 < length v) (pn_linked_issue_context n),
         ValidationError ''each linked-issue context is limited to 4000 characters'')]) (\<lambda>_. Inr n)"

definition from_untrusted :: "string \<Rightarrow> string \<Rightarrow> string list \<Rightarrow> exn + PullRequestNarrative" where
  "from_untrusted title body linked_issue_context =
     (let normalized_title = or_str (strip title) ''Untitled pull request'';
          bounded_title = take 300 normalized_title;
          bounded_body = take 8000 body;
          bounded_issues = map (take 4000) (take 3 linked_issue_context) in
      mk_PullRequestNarrative
        \<lparr>pn_title = bounded_title, pn_body = bounded_body, pn_linked_issue_context = bounded_issues,
         pn_truncated = (bounded_title \<noteq> normalized_title \<or> bounded_body \<noteq> body \<or> bounded_issues \<noteq> linked_issue_context)\<rparr>)"

section \<open>Drafts and claims\<close>

datatype ClaimSelectionDisposition = SELECTED | INSUFFICIENT_EVIDENCE | COUNTERFACTUAL_NOT_APPLICABLE

datatype ClaimTestability = TESTABLE | NOT_TESTABLE

definition context_path_ok :: "string \<Rightarrow> bool" where
  "context_path_ok v =
     (\<not> (CHR 0x5C \<in> set v \<or> CHR 0x00 \<in> set v \<or> CHR 0x0A \<in> set v \<or> CHR 0x0D \<in> set v) \<and> normal_relative v)"

record AffectedSymbolRef =
  as_path :: string
  as_qualified_name :: string

definition affected_symbol_ok :: "AffectedSymbolRef \<Rightarrow> bool" where
  "affected_symbol_ok s = (context_path_ok (as_path s) \<and> len_between 1 256 (as_qualified_name s))"

record SupportingContextRef =
  sc_path :: string
  sc_start_line :: int
  sc_end_line :: int
  sc_relevance :: string

definition supporting_context_ok :: "SupportingContextRef \<Rightarrow> bool" where
  "supporting_context_ok s =
     (context_path_ok (sc_path s) \<and> 1 \<le> sc_start_line s \<and> 1 \<le> sc_end_line s
      \<and> len_between 1 300 (sc_relevance s) \<and> sc_start_line s \<le> sc_end_line s)"

record BehavioralClaim =
  cl_claim_id :: string
  cl_summary :: string
  cl_observable_operation :: string
  cl_trigger_condition :: string
  cl_expected_head_observation :: string
  cl_expected_base_hypothesis :: string
  cl_shared_interface :: string
  cl_preconditions :: "string list"
  cl_action :: string
  cl_expected_behavior :: string
  cl_affected_symbols :: "AffectedSymbolRef list"
  cl_supporting_context :: "SupportingContextRef list"
  cl_confidence :: rat
  cl_testability :: ClaimTestability
  cl_reasoning_summary :: string

definition claim_id_pattern :: regex where
  "claim_id_pattern = Seq (lit ''claim-'') (Seq (Cls (\<lambda>c. in_range (CHR ''a'') (CHR ''z'') c \<or> is_digit c))
     (Rep (Cls (\<lambda>c. in_range (CHR ''a'') (CHR ''z'') c \<or> is_digit c \<or> c = CHR ''-'')) 0 (Some 62)))"

definition preconditions_ok :: "nat \<Rightarrow> string list \<Rightarrow> bool" where
  "preconditions_ok limit values = list_all (\<lambda>v. strip v \<noteq> [] \<and> length v \<le> limit) values"

definition claim_ok :: "BehavioralClaim \<Rightarrow> bool" where
  "claim_ok c =
     (is_fullmatch claim_id_pattern (cl_claim_id c) \<and> len_between 1 300 (cl_summary c)
      \<and> length (cl_observable_operation c) \<le> 300 \<and> length (cl_trigger_condition c) \<le> 300
      \<and> length (cl_expected_head_observation c) \<le> 400 \<and> length (cl_expected_base_hypothesis c) \<le> 400
      \<and> length (cl_shared_interface c) \<le> 256 \<and> length (cl_preconditions c) \<le> 6 \<and> preconditions_ok 300 (cl_preconditions c)
      \<and> len_between 1 500 (cl_action c) \<and> len_between 1 700 (cl_expected_behavior c)
      \<and> len_between 1 8 (cl_affected_symbols c) \<and> list_all affected_symbol_ok (cl_affected_symbols c)
      \<and> len_between 1 8 (cl_supporting_context c) \<and> list_all supporting_context_ok (cl_supporting_context c)
      \<and> 65 / 100 \<le> cl_confidence c \<and> cl_confidence c \<le> 1 \<and> len_between 1 600 (cl_reasoning_summary c)
      \<and> cl_testability c = TESTABLE \<and> distinct (cl_affected_symbols c))"

record BehavioralClaimDraft =
  cd_summary :: string
  cd_observable_operation :: string
  cd_trigger_condition :: string
  cd_expected_head_observation :: string
  cd_expected_base_hypothesis :: string
  cd_shared_interface :: string
  cd_preconditions :: "string list"
  cd_action :: string
  cd_expected_behavior :: string
  cd_affected_symbols :: "AffectedSymbolRef list"
  cd_supporting_context :: "SupportingContextRef list"
  cd_confidence :: rat

definition claim_draft_ok :: "BehavioralClaimDraft \<Rightarrow> bool" where
  "claim_draft_ok c =
     (len_between 1 220 (cd_summary c) \<and> len_between 1 220 (cd_observable_operation c)
      \<and> len_between 1 220 (cd_trigger_condition c) \<and> len_between 1 280 (cd_expected_head_observation c)
      \<and> len_between 1 280 (cd_expected_base_hypothesis c) \<and> len_between 1 256 (cd_shared_interface c)
      \<and> length (cd_preconditions c) \<le> 4 \<and> preconditions_ok 220 (cd_preconditions c)
      \<and> len_between 1 350 (cd_action c) \<and> len_between 1 450 (cd_expected_behavior c)
      \<and> len_between 1 4 (cd_affected_symbols c) \<and> list_all affected_symbol_ok (cd_affected_symbols c)
      \<and> len_between 1 4 (cd_supporting_context c) \<and> list_all supporting_context_ok (cd_supporting_context c)
      \<and> 65 / 100 \<le> cd_confidence c \<and> cd_confidence c \<le> 1 \<and> distinct (cd_affected_symbols c))"

record ClaimSelectionDraft =
  sd_disposition :: ClaimSelectionDisposition
  sd_claim :: "BehavioralClaimDraft option"
  sd_explanation :: string

definition selection_draft_ok :: "ClaimSelectionDraft \<Rightarrow> bool" where
  "selection_draft_ok d =
     (len_between 1 350 (sd_explanation d) \<and> (case sd_claim d of None \<Rightarrow> True | Some c \<Rightarrow> claim_draft_ok c)
      \<and> (sd_disposition d = SELECTED) = (sd_claim d \<noteq> None))"

record ClaimSelection =
  se_disposition :: ClaimSelectionDisposition
  se_claim :: "BehavioralClaim option"
  se_explanation :: string

definition mk_ClaimSelection :: "ClaimSelection \<Rightarrow> exn + ClaimSelection" where
  "mk_ClaimSelection s =
     rbind (checks
       [(case se_claim s of None \<Rightarrow> False | Some c \<Rightarrow> \<not> claim_ok c, ValidationError ''claim''),
        (\<not> len_between 1 700 (se_explanation s), ValidationError ''explanation''),
        ((se_disposition s = SELECTED) \<noteq> (se_claim s \<noteq> None),
         ValidationError ''SELECTED requires one claim; abstention must not include a claim'')]) (\<lambda>_. Inr s)"

section \<open>Diagnostics of an invalid answer\<close>

datatype claim_stage = RESPONSE_BUDGET | DRAFT_SCHEMA | NORMALIZATION | GROUNDING

datatype ClaimJsonParseStatus = NOT_ATTEMPTED | INVALID | VALID

text \<open>The value \<open>json.loads\<close> returns, as far as the diagnostic looks at it.\<close>

datatype json_value = JNull | JBool | JObject "string list" | JArray | JString | JNumber

fun json_kind :: "json_value \<Rightarrow> string" where
  "json_kind JNull = ''null''"
| "json_kind JBool = ''boolean''"
| "json_kind (JObject keys) = ''object''"
| "json_kind JArray = ''array''"
| "json_kind JString = ''string''"
| "json_kind JNumber = ''number''"

record ClaimOutputDiagnostic =
  od_stage :: claim_stage
  od_response_sha256 :: string
  od_response_chars :: nat
  od_output_tokens :: "int option"
  od_response_budget_exceeded :: bool
  od_json_parse_status :: ClaimJsonParseStatus
  od_json_error :: "(nat \<times> nat) option"
  od_top_level_kind :: string
  od_expected_fields_present :: "string list"
  od_expected_fields_missing :: "string list"
  od_unexpected_fields :: "string list"
  od_unexpected_field_count :: nat
  od_validation_errors :: "string list"
  od_diagnostic_truncated :: bool

definition CLAIM_DRAFT_FIELDS :: "string list" where
  "CLAIM_DRAFT_FIELDS = [''disposition'', ''claim'', ''explanation'']"

definition field_char :: "char \<Rightarrow> bool" where
  "field_char c = (is_alnum c \<or> c \<in> set ''_.-[]$'')"

definition sanitize_field :: "string \<Rightarrow> string" where
  "sanitize_field value = map (\<lambda>c. if field_char c then c else CHR ''?'') value"

definition sensitive_field_pattern :: regex where
  "sensitive_field_pattern = alts
     [lit_ci ''authorization'', seqs [lit_ci ''api'', opt (Cls (\<lambda>c. c = CHR ''_'' \<or> c = CHR ''-'')), lit_ci ''key''],
      lit_ci ''token'', lit_ci ''secret'', lit_ci ''password'', lit_ci ''credential'']"

definition opaque_field_pattern :: regex where
  "opaque_field_pattern = Rep (Cls (\<lambda>c. is_alnum c \<or> c = CHR ''_'' \<or> c = CHR ''-'')) 24 None"

definition safe_diagnostic_field :: "string \<Rightarrow> string" where
  "safe_diagnostic_field value =
     (let sanitized = sanitize_field value in
      if 80 < length value \<or> search sensitive_field_pattern sanitized \<or> is_fullmatch opaque_field_pattern value
      then ''sha256:'' @ take 12 (sha256 (utf8 value))
      else sanitized)"

text \<open>A validation error of pydantic: its location, as texts, and its type.\<close>

type_synonym schema_error = "string list \<times> string"

definition error_text :: "schema_error \<Rightarrow> string" where
  "error_text e =
     or_str (join ''.'' (map safe_diagnostic_field (fst e))) ''$'' @ '':'' @ take 80 (sanitize_field (snd e))"

definition claim_output_diagnostic ::
    "(string \<Rightarrow> (nat \<times> nat) + json_value) \<Rightarrow> string \<Rightarrow> string \<Rightarrow> int option \<Rightarrow> claim_stage \<Rightarrow> bool \<Rightarrow> schema_error list
     \<Rightarrow> ClaimOutputDiagnostic" where
  "claim_output_diagnostic json_loads response_text response_sha256 output_tokens stage budget_exceeded validation_errors =
     (let attempt = (if budget_exceeded then None else Some (json_loads response_text));
          keys = (case attempt of Some (Inr (JObject ks)) \<Rightarrow> ks | _ \<Rightarrow> []);
          unexpected = (case attempt of Some (Inr (JObject ks)) \<Rightarrow> sort (remdups (filter (\<lambda>k. k \<notin> set CLAIM_DRAFT_FIELDS) ks)) | _ \<Rightarrow> []);
          errors = map error_text validation_errors in
      \<lparr>od_stage = stage, od_response_sha256 = response_sha256, od_response_chars = length response_text,
       od_output_tokens = output_tokens, od_response_budget_exceeded = budget_exceeded,
       od_json_parse_status = (case attempt of None \<Rightarrow> NOT_ATTEMPTED | Some (Inl _) \<Rightarrow> INVALID | Some (Inr _) \<Rightarrow> VALID),
       od_json_error = (case attempt of Some (Inl position) \<Rightarrow> Some position | _ \<Rightarrow> None),
       od_top_level_kind = (case attempt of Some (Inr v) \<Rightarrow> json_kind v | _ \<Rightarrow> ''unknown''),
       od_expected_fields_present = sort (filter (\<lambda>f. f \<in> set keys) CLAIM_DRAFT_FIELDS),
       od_expected_fields_missing = sort (filter (\<lambda>f. f \<notin> set keys) CLAIM_DRAFT_FIELDS),
       od_unexpected_fields = map safe_diagnostic_field (take 8 unexpected),
       od_unexpected_field_count = length unexpected,
       od_validation_errors = take 8 errors,
       od_diagnostic_truncated =
         (8 < length unexpected \<or> list_ex (\<lambda>k. 80 < length k) (take 8 unexpected) \<or> 8 < length errors)\<rparr>)"

section \<open>Selecting a claim\<close>

record RawClaimModelResponse =
  cr_text :: string
  cr_usage :: model_usage

definition mk_RawClaimModelResponse :: "string \<Rightarrow> model_usage \<Rightarrow> exn + RawClaimModelResponse" where
  "mk_RawClaimModelResponse text usage =
     (if text = [] then Inl (ValueError ''claim model response must not be empty'') else Inr \<lparr>cr_text = text, cr_usage = usage\<rparr>)"

record ClaimAgentResult =
  ca_selection :: ClaimSelection
  ca_usage :: model_usage
  ca_raw_response_sha256 :: string

definition DETERMINISTIC_CLAIM_ID :: string where
  "DETERMINISTIC_CLAIM_ID = ''claim-selected-behavior''"

definition normalized_claim :: "string \<Rightarrow> BehavioralClaimDraft \<Rightarrow> BehavioralClaim" where
  "normalized_claim explanation c =
     \<lparr>cl_claim_id = DETERMINISTIC_CLAIM_ID, cl_summary = cd_summary c,
      cl_observable_operation = cd_observable_operation c, cl_trigger_condition = cd_trigger_condition c,
      cl_expected_head_observation = cd_expected_head_observation c,
      cl_expected_base_hypothesis = cd_expected_base_hypothesis c, cl_shared_interface = cd_shared_interface c,
      cl_preconditions = cd_preconditions c, cl_action = cd_action c, cl_expected_behavior = cd_expected_behavior c,
      cl_affected_symbols = cd_affected_symbols c, cl_supporting_context = cd_supporting_context c,
      cl_confidence = cd_confidence c, cl_testability = TESTABLE, cl_reasoning_summary = explanation\<rparr>"

definition normalize_draft :: "ClaimSelectionDraft \<Rightarrow> exn + ClaimSelection" where
  "normalize_draft draft =
     mk_ClaimSelection
       \<lparr>se_disposition = sd_disposition draft,
        se_claim = map_option (normalized_claim (sd_explanation draft)) (sd_claim draft),
        se_explanation = sd_explanation draft\<rparr>"

definition known_symbol :: "PullRequestContext \<Rightarrow> AffectedSymbolRef \<Rightarrow> bool" where
  "known_symbol context s =
     ((as_path s, as_qualified_name s) \<in> set (map (\<lambda>c. (cs_path c, cs_qualified_name c)) (pc_changed_symbols context)))"

definition citation_inside :: "PullRequestContext \<Rightarrow> SupportingContextRef \<Rightarrow> bool" where
  "citation_inside context citation =
     list_ex (\<lambda>snippet. sn_path snippet = sc_path citation \<and> sn_start_line snippet \<le> sc_start_line citation
                 \<and> sc_end_line citation \<le> sn_end_line snippet) (pc_snippets context)"

definition validate_grounding :: "ClaimSelection \<Rightarrow> PullRequestContext \<Rightarrow> string + unit" where
  "validate_grounding selection context =
     (case se_claim selection of
        None \<Rightarrow> Inr ()
      | Some claim \<Rightarrow>
          (let interfaces = pc_interfaces context; shared = cl_shared_interface claim; leaf = leaf_name shared in
           checks
             [(\<not> list_all (known_symbol context) (cl_affected_symbols claim),
               ''claim references an affected symbol absent from deterministic context''),
              (shared \<noteq> [] \<and> leaf \<in> head_only_leaf_names interfaces,
               ''claim targets an interface that exists only on HEAD; a differential '' @ ''experiment requires an interface present on both revisions''),
              (shared \<noteq> [] \<and> leaf \<notin> set (map leaf_name (xi_present_on_both interfaces)),
               ''claim's shared interface is absent from the deterministic '' @ ''BASE/HEAD symbol partition''),
              (\<not> list_all (citation_inside context) (cl_supporting_context claim),
               ''claim citation falls outside the deterministic context snippets'')]))"

record claim_agent =
  ag_max_input_json_chars :: nat
  ag_max_response_chars :: nat

definition mk_claim_agent :: "int \<Rightarrow> int \<Rightarrow> exn + claim_agent" where
  "mk_claim_agent max_input max_response =
     (if max_input \<le> 0 \<or> max_response \<le> 0 then Inl (ValueError ''claim-agent character budgets must be positive'')
      else Inr \<lparr>ag_max_input_json_chars = nat max_input, ag_max_response_chars = nat max_response\<rparr>)"

text \<open>
  What the agent asks of its libraries: the size of the serialised request, \<open>json.loads\<close>, and the
  decoding of the draft, which gives the fields of a well-typed document or pydantic's errors;
  \<open>field_errors\<close> are pydantic's errors for well-typed fields that miss a constraint.
\<close>

record json_library =
  jl_request_chars :: "PullRequestNarrative \<Rightarrow> PullRequestContext \<Rightarrow> nat"
  jl_loads :: "string \<Rightarrow> (nat \<times> nat) + json_value"
  jl_decode_draft :: "string \<Rightarrow> schema_error list + ClaimSelectionDraft"
  jl_field_errors :: "ClaimSelectionDraft \<Rightarrow> schema_error list"

definition validate_draft :: "json_library \<Rightarrow> string \<Rightarrow> schema_error list + ClaimSelectionDraft" where
  "validate_draft lib text =
     (case jl_decode_draft lib text of
        Inl errors \<Rightarrow> Inl errors
      | Inr d \<Rightarrow> if selection_draft_ok d then Inr d else Inl (jl_field_errors lib d))"

text \<open>An exception of the agent with the diagnostic it carries.\<close>

type_synonym claim_failure = "exn \<times> ClaimOutputDiagnostic option"

definition invalid_output ::
    "json_library \<Rightarrow> RawClaimModelResponse \<Rightarrow> string \<Rightarrow> claim_stage \<Rightarrow> schema_error list \<Rightarrow> claim_failure" where
  "invalid_output lib response message stage errors =
     (let h = sha256 (utf8 (cr_text response)) in
      (InvalidClaimAgentOutput message (Some (cr_usage response)) (Some h),
       Some (claim_output_diagnostic (jl_loads lib) (cr_text response) h (mu_output_tokens (cr_usage response)) stage
         (stage = RESPONSE_BUDGET) errors)))"

definition judge_response ::
    "json_library \<Rightarrow> claim_agent \<Rightarrow> PullRequestContext \<Rightarrow> RawClaimModelResponse \<Rightarrow> claim_failure + ClaimAgentResult" where
  "judge_response lib agent context response =
     (if ag_max_response_chars agent < length (cr_text response) then
        Inl (invalid_output lib response ''claim model response exceeds the configured budget'' RESPONSE_BUDGET [])
      else case validate_draft lib (cr_text response) of
        Inl errors \<Rightarrow> Inl (invalid_output lib response ''claim model returned invalid structured output'' DRAFT_SCHEMA errors)
      | Inr draft \<Rightarrow>
          (case normalize_draft draft of
             Inl _ \<Rightarrow> Inl (invalid_output lib response ''claim model output could not be normalized safely'' NORMALIZATION [])
           | Inr selection \<Rightarrow>
               (case validate_grounding selection context of
                  Inl message \<Rightarrow> Inl (invalid_output lib response message GROUNDING [])
                | Inr _ \<Rightarrow> Inr \<lparr>ca_selection = selection, ca_usage = cr_usage response,
                                 ca_raw_response_sha256 = sha256 (utf8 (cr_text response))\<rparr>)))"

definition select_claim ::
    "json_library \<Rightarrow> claim_agent \<Rightarrow> (PullRequestNarrative \<times> PullRequestContext \<Rightarrow> ('w, exn, RawClaimModelResponse) prog)
     \<Rightarrow> PullRequestContext \<Rightarrow> PullRequestNarrative \<Rightarrow> ('w, claim_failure, ClaimAgentResult) prog" where
  "select_claim lib agent model context narrative = (\<lambda>w.
     if ag_max_input_json_chars agent < jl_request_chars lib narrative context then
       (Inl (ValueError ''claim-agent input exceeds the configured character budget'', None), w)
     else case model (narrative, context) w of
       (Inl e, w') \<Rightarrow> (Inl (e, None), w')
     | (Inr response, w') \<Rightarrow> (judge_response lib agent context response, w'))"

section \<open>Facts\<close>

lemma claim_id_ok: "is_fullmatch claim_id_pattern DETERMINISTIC_CLAIM_ID"
  by code_simp

lemma preconditions_weaken: "preconditions_ok m vs \<Longrightarrow> m \<le> n \<Longrightarrow> preconditions_ok n vs"
  by (auto simp: preconditions_ok_def list_all_iff)

text \<open>The draft's bounds are inside the claim's, so a draft that passed is always normalised.\<close>

lemma normalized_claim_ok: "selection_draft_ok d \<Longrightarrow> sd_claim d = Some c \<Longrightarrow> claim_ok (normalized_claim (sd_explanation d) c)"
  using preconditions_weaken [of 220 "cd_preconditions c" 300]
  by (simp add: selection_draft_ok_def claim_draft_ok_def claim_ok_def normalized_claim_def claim_id_ok len_between_def)

lemma normalize_draft_total:
  assumes "selection_draft_ok d"
  shows "normalize_draft d = Inr \<lparr>se_disposition = sd_disposition d,
     se_claim = map_option (normalized_claim (sd_explanation d)) (sd_claim d), se_explanation = sd_explanation d\<rparr>"
  using assms normalized_claim_ok [OF assms]
  by (auto simp: normalize_draft_def mk_ClaimSelection_def selection_draft_ok_def len_between_def split: option.splits)

definition grounded :: "PullRequestContext \<Rightarrow> BehavioralClaim \<Rightarrow> bool" where
  "grounded context claim =
     ((\<forall>s \<in> set (cl_affected_symbols claim). \<exists>c \<in> set (pc_changed_symbols context).
         cs_path c = as_path s \<and> cs_qualified_name c = as_qualified_name s)
      \<and> leaf_name (cl_shared_interface claim) \<notin> head_only_leaf_names (pc_interfaces context)
      \<and> (\<exists>name \<in> set (xi_present_on_both (pc_interfaces context)). leaf_name name = leaf_name (cl_shared_interface claim))
      \<and> (\<forall>r \<in> set (cl_supporting_context claim). \<exists>s \<in> set (pc_snippets context).
           sn_path s = sc_path r \<and> sn_start_line s \<le> sc_start_line r \<and> sc_end_line r \<le> sn_end_line s))"

lemma known_symbol_iff: "known_symbol context s \<longleftrightarrow>
    (\<exists>c \<in> set (pc_changed_symbols context). cs_path c = as_path s \<and> cs_qualified_name c = as_qualified_name s)"
  unfolding known_symbol_def set_map image_iff prod.inject by (rule bex_cong [OF refl]) auto

lemma citation_inside_iff: "citation_inside context r \<longleftrightarrow>
    (\<exists>s \<in> set (pc_snippets context). sn_path s = sc_path r \<and> sn_start_line s \<le> sc_start_line r \<and> sc_end_line r \<le> sn_end_line s)"
  by (auto simp: citation_inside_def list_ex_iff)

lemma shared_leaf_iff: "leaf \<in> set (map leaf_name names) \<longleftrightarrow> (\<exists>name \<in> set names. leaf_name name = leaf)"
  by auto

lemma grounding_iff:
  assumes "se_claim selection = Some claim" "cl_shared_interface claim \<noteq> []"
  shows "validate_grounding selection context = Inr () \<longleftrightarrow> grounded context claim"
  using assms unfolding validate_grounding_def Let_def grounded_def
  by (simp add: list_all_iff known_symbol_iff citation_inside_iff shared_leaf_iff del: set_map checks.simps) blast

lemma judge_ok:
  assumes "judge_response lib agent context response = Inr result"
  shows "\<exists>d. jl_decode_draft lib (cr_text response) = Inr d \<and> selection_draft_ok d
    \<and> length (cr_text response) \<le> ag_max_response_chars agent
    \<and> result = \<lparr>ca_selection = \<lparr>se_disposition = sd_disposition d,
         se_claim = map_option (normalized_claim (sd_explanation d)) (sd_claim d), se_explanation = sd_explanation d\<rparr>,
       ca_usage = cr_usage response, ca_raw_response_sha256 = sha256 (utf8 (cr_text response))\<rparr>
    \<and> validate_grounding (ca_selection result) context = Inr ()"
proof -
  from assms obtain d s where v: "validate_draft lib (cr_text response) = Inr d" and n: "normalize_draft d = Inr s"
    and g: "validate_grounding s context = Inr ()" and l: "length (cr_text response) \<le> ag_max_response_chars agent"
    and r: "result = \<lparr>ca_selection = s, ca_usage = cr_usage response, ca_raw_response_sha256 = sha256 (utf8 (cr_text response))\<rparr>"
    by (auto simp: judge_response_def split: if_splits sum.splits)
  from v have d: "jl_decode_draft lib (cr_text response) = Inr d" "selection_draft_ok d"
    by (auto simp: validate_draft_def split: sum.splits if_splits)
  from n normalize_draft_total [OF d(2)] show ?thesis using d g l r by (intro exI [of _ d]) simp
qed


section \<open>An example\<close>

definition sample_draft :: ClaimSelectionDraft where
  "sample_draft = \<lparr>sd_disposition = SELECTED,
     sd_claim = Some \<lparr>cd_summary = ''s'', cd_observable_operation = ''o'', cd_trigger_condition = ''t'',
       cd_expected_head_observation = ''h'', cd_expected_base_hypothesis = ''b'', cd_shared_interface = ''m.f'',
       cd_preconditions = [], cd_action = ''a'', cd_expected_behavior = ''e'',
       cd_affected_symbols = [\<lparr>as_path = ''m.py'', as_qualified_name = ''f''\<rparr>],
       cd_supporting_context = [\<lparr>sc_path = ''m.py'', sc_start_line = 1, sc_end_line = 2, sc_relevance = ''r''\<rparr>],
       cd_confidence = 9 / 10\<rparr>,
     sd_explanation = ''x''\<rparr>"

definition sample_context :: PullRequestContext where
  "sample_context = \<lparr>pc_base_sha = [], pc_head_sha = [], pc_diff = [], pc_changed_files = [],
     pc_changed_symbols = [\<lparr>cs_path = ''m.py'', cs_qualified_name = ''f'', cs_kind = FUNCTION, cs_start_line = 1, cs_end_line = 2\<rparr>],
     pc_snippets = [\<lparr>sn_kind = SnippetKind.CHANGED_SYMBOL, sn_path = ''m.py'', sn_start_line = 1, sn_end_line = 3,
                     sn_content = ''c'', sn_reason = ''r''\<rparr>],
     pc_stats = \<lparr>rs_changed_file_count = 1, rs_changed_python_file_count = 1, rs_python_path_count = 1, rs_test_files_scanned = 0,
       rs_reference_files_scanned = 0, rs_omitted_changed_files = 0, rs_excluded_changed_files = 0, rs_excluded_python_paths = 0,
       rs_truncated = False\<rparr>,
     pc_interfaces = \<lparr>xi_present_on_both = [''f''], xi_new_on_head = [''g''], xi_removed_on_base = [], xi_truncated = False\<rparr>\<rparr>"

definition sample_library :: json_library where
  "sample_library = \<lparr>jl_request_chars = (\<lambda>n c. 10), jl_loads = (\<lambda>s. Inr (JObject [])), jl_decode_draft = (\<lambda>s. Inr sample_draft),
     jl_field_errors = (\<lambda>d. [])\<rparr>"

definition sample_usage :: model_usage where
  "sample_usage = \<lparr>mu_model_name = ''m'', mu_model_version = None, mu_prompt_tokens = None, mu_output_tokens = None,
     mu_total_tokens = None, mu_cached_tokens = None, mu_reasoning_tokens = None, mu_duration_seconds = 0, mu_provider_attempts = 1\<rparr>"

definition sample_model :: "PullRequestNarrative \<times> PullRequestContext \<Rightarrow> (unit, exn, RawClaimModelResponse) prog" where
  "sample_model = (\<lambda>_ w. (Inr \<lparr>cr_text = ''x'', cr_usage = sample_usage\<rparr>, w))"

definition sample_narrative :: PullRequestNarrative where
  "sample_narrative = \<lparr>pn_title = ''t'', pn_body = [], pn_linked_issue_context = [], pn_truncated = False\<rparr>"

lemma sample_draft_ok: "selection_draft_ok sample_draft"
  unfolding selection_draft_ok_def claim_draft_ok_def sample_draft_def by (simp add: len_between_def preconditions_ok_def) code_simp

lemma sample_select:
  "\<exists>result claim. select_claim sample_library \<lparr>ag_max_input_json_chars = 64000, ag_max_response_chars = 6000\<rparr> sample_model
      sample_context sample_narrative () = (Inr result, ()) \<and> se_claim (ca_selection result) = Some claim"
proof -
  let ?r = "\<lparr>cr_text = ''x'', cr_usage = sample_usage\<rparr>"
  obtain claim where c: "sd_claim sample_draft = Some claim" by (simp add: sample_draft_def)
  have v: "validate_draft sample_library ''x'' = Inr sample_draft"
    using sample_draft_ok by (simp add: validate_draft_def sample_library_def)
  have "validate_grounding \<lparr>se_disposition = sd_disposition sample_draft,
      se_claim = map_option (normalized_claim (sd_explanation sample_draft)) (sd_claim sample_draft), se_explanation = sd_explanation sample_draft\<rparr>
      sample_context = Inr ()"
    by code_simp
  then show ?thesis using c v
    by (simp add: select_claim_def sample_model_def judge_response_def normalize_draft_total [OF sample_draft_ok])
      (simp add: sample_library_def)
qed


end
