(* ===== verification/CandidateGeneration.thy ===== *)
theory CandidateGeneration
  imports ClaimAgent ExecContract PrResolution
begin

text \<open>
  \<open>src/patchproof/test_generation.py\<close> without its validator: the draft a model returns, the
  proposal made of it, the bounded feedback of a repair, the diagnostic of a malformed answer, and
  the generator that spends at most three model calls. The validator is an argument of the
  generator, as it is of its constructor; JSON decoding is one too.
\<close>

section \<open>Proposals\<close>

datatype CandidateOrigin = INITIAL | REPAIR

datatype CandidateAttemptStatus = VALIDATED | REJECTED | INVALID_MODEL_OUTPUT

datatype CandidateIssueCode =
    RESPONSE_TOO_LARGE | MALFORMED_OUTPUT | PATH_NOT_ALLOWED | PATH_ALREADY_EXISTS | SOURCE_TOO_LARGE
  | SYNTAX_ERROR | TEST_FUNCTION_MISMATCH | MULTIPLE_TESTS | RELATIVE_IMPORT | WILDCARD_IMPORT | BLOCKED_IMPORT
  | UNGROUNDED_IMPORT | FORBIDDEN_CALL | DUPLICATE_CANDIDATE_ID | DUPLICATE_CANDIDATE_SOURCE
  | NO_BEHAVIORAL_REPAIR_CHANGE | BROAD_EXCEPTION_HANDLER | UNGROUNDED_EXCEPTION_TYPE | SWALLOWED_OUTCOME
  | HEAD_ONLY_INTERFACE

fun str_issue_code :: "CandidateIssueCode \<Rightarrow> string" where
  "str_issue_code RESPONSE_TOO_LARGE = ''RESPONSE_TOO_LARGE''"
| "str_issue_code MALFORMED_OUTPUT = ''MALFORMED_OUTPUT''"
| "str_issue_code PATH_NOT_ALLOWED = ''PATH_NOT_ALLOWED''"
| "str_issue_code PATH_ALREADY_EXISTS = ''PATH_ALREADY_EXISTS''"
| "str_issue_code SOURCE_TOO_LARGE = ''SOURCE_TOO_LARGE''"
| "str_issue_code SYNTAX_ERROR = ''SYNTAX_ERROR''"
| "str_issue_code TEST_FUNCTION_MISMATCH = ''TEST_FUNCTION_MISMATCH''"
| "str_issue_code MULTIPLE_TESTS = ''MULTIPLE_TESTS''"
| "str_issue_code RELATIVE_IMPORT = ''RELATIVE_IMPORT''"
| "str_issue_code WILDCARD_IMPORT = ''WILDCARD_IMPORT''"
| "str_issue_code BLOCKED_IMPORT = ''BLOCKED_IMPORT''"
| "str_issue_code UNGROUNDED_IMPORT = ''UNGROUNDED_IMPORT''"
| "str_issue_code FORBIDDEN_CALL = ''FORBIDDEN_CALL''"
| "str_issue_code DUPLICATE_CANDIDATE_ID = ''DUPLICATE_CANDIDATE_ID''"
| "str_issue_code DUPLICATE_CANDIDATE_SOURCE = ''DUPLICATE_CANDIDATE_SOURCE''"
| "str_issue_code NO_BEHAVIORAL_REPAIR_CHANGE = ''NO_BEHAVIORAL_REPAIR_CHANGE''"
| "str_issue_code BROAD_EXCEPTION_HANDLER = ''BROAD_EXCEPTION_HANDLER''"
| "str_issue_code UNGROUNDED_EXCEPTION_TYPE = ''UNGROUNDED_EXCEPTION_TYPE''"
| "str_issue_code SWALLOWED_OUTCOME = ''SWALLOWED_OUTCOME''"
| "str_issue_code HEAD_ONLY_INTERFACE = ''HEAD_ONLY_INTERFACE''"

definition candidate_id_pattern :: regex where
  "candidate_id_pattern = Seq (lit ''candidate-'') (Seq (Cls (\<lambda>c. in_range (CHR ''a'') (CHR ''z'') c \<or> is_digit c))
     (Rep (Cls (\<lambda>c. in_range (CHR ''a'') (CHR ''z'') c \<or> is_digit c \<or> c = CHR ''-'')) 0 (Some 58)))"

definition test_function_pattern :: regex where
  "test_function_pattern = Seq (lit ''test_'') (Rep (Cls (\<lambda>c. is_alnum c \<or> c = CHR ''_'')) 1 (Some 120))"

definition test_filename_pattern :: regex where
  "test_filename_pattern = seqs [lit ''test_'', plus_re (Cls (\<lambda>c. is_alnum c \<or> c = CHR ''_'')), lit ''.py'']"

definition GENERATED_TEST_FUNCTION :: string where
  "GENERATED_TEST_FUNCTION = ''test_patchproof_generated_behavior''"

definition MAX_CANDIDATE_MODEL_CALLS :: nat where
  "MAX_CANDIDATE_MODEL_CALLS = 3"

definition MAX_REPAIRS :: nat where
  "MAX_REPAIRS = 2"

definition validate_relative_python_path :: "string \<Rightarrow> exn + string" where
  "validate_relative_python_path value =
     rbind (checks
       [(CHR 0x5C \<in> set value \<or> CHR 0x00 \<in> set value \<or> CHR 0x0A \<in> set value \<or> CHR 0x0D \<in> set value,
         ValueError ''candidate path contains an unsupported character''),
        (\<not> normal_relative value \<or> path_suffix value \<noteq> ''.py'' \<or> \<not> is_fullmatch test_filename_pattern (path_name value),
         ValueError ''candidate path must be a normalized relative test_*.py path'')])
     (\<lambda>_. Inr value)"

record CandidateTestProposal =
  tp_candidate_id :: string
  tp_target_path :: string
  tp_test_function :: string
  tp_source :: string
  tp_rationale :: string

definition mk_CandidateTestProposal :: "CandidateTestProposal \<Rightarrow> exn + CandidateTestProposal" where
  "mk_CandidateTestProposal p =
     rbind (checks
       [(\<not> is_fullmatch candidate_id_pattern (tp_candidate_id p), ValidationError ''candidate_id''),
        (\<not> is_ok (validate_relative_python_path (tp_target_path p)), ValidationError ''target_path''),
        (\<not> is_fullmatch test_function_pattern (tp_test_function p), ValidationError ''test_function''),
        (\<not> len_between 1 16000 (tp_source p), ValidationError ''source''),
        (\<not> len_between 1 700 (tp_rationale p), ValidationError ''rationale'')])
     (\<lambda>_. Inr p)"

record CandidateTestDraft =
  td_source :: string
  td_rationale :: string

definition candidate_draft_ok :: "CandidateTestDraft \<Rightarrow> bool" where
  "candidate_draft_ok d = (len_between 1 16000 (td_source d) \<and> len_between 1 700 (td_rationale d))"

record CandidateValidationIssue =
  vi_code :: CandidateIssueCode
  vi_message :: string

definition issue :: "CandidateIssueCode \<Rightarrow> string \<Rightarrow> CandidateValidationIssue" where
  "issue code message = \<lparr>vi_code = code, vi_message = message\<rparr>"

text \<open>\<open>CandidateValidationError\<close> with its issues, or another exception that leaves the validator.\<close>

datatype candidate_failure = CandidateValidationError "CandidateValidationIssue list" | Raised exn

definition reject :: "CandidateIssueCode \<Rightarrow> string \<Rightarrow> candidate_failure" where
  "reject code message =
     (if len_between 1 500 message then CandidateValidationError [issue code message] else Raised (ValidationError ''message''))"

definition issue_text :: "CandidateValidationIssue \<Rightarrow> string" where
  "issue_text i = str_issue_code (vi_code i) @ '': '' @ vi_message i"

record CandidateFeedback =
  fb_category :: string
  fb_summary :: string
  fb_observations :: "string list"

definition mk_CandidateFeedback :: "CandidateFeedback \<Rightarrow> exn + CandidateFeedback" where
  "mk_CandidateFeedback f =
     rbind (checks
       [(\<not> len_between 1 80 (fb_category f), ValidationError ''category''),
        (\<not> len_between 1 1500 (fb_summary f), ValidationError ''summary''),
        (5 < length (fb_observations f), ValidationError ''observations''),
        (list_ex (\<lambda>v. strip v = [] \<or> 900 < length v) (fb_observations f),
         ValidationError ''repair observations must contain bounded non-empty text'')])
     (\<lambda>_. Inr f)"

definition from_validation_issues :: "CandidateValidationIssue list \<Rightarrow> exn + CandidateFeedback" where
  "from_validation_issues issues =
     mk_CandidateFeedback
       \<lparr>fb_category = ''VALIDATION'', fb_summary = ''The previous candidate failed deterministic validation.'',
        fb_observations = map issue_text (take 4 issues)\<rparr>"

record RepositorySignatureContext =
  sg_signatures :: "(string \<times> string \<times> string) list"
  sg_truncated :: bool
  sg_sha256 :: string

record CandidateModelRequest =
  mr_claim :: BehavioralClaim
  mr_context :: PullRequestContext
  mr_repository_signatures :: RepositorySignatureContext
  mr_allowed_test_paths :: "string list"
  mr_previous_candidate :: "CandidateTestProposal option"
  mr_feedback :: "CandidateFeedback option"

definition mk_CandidateModelRequest :: "CandidateModelRequest \<Rightarrow> exn + CandidateModelRequest" where
  "mk_CandidateModelRequest r =
     rbind (checks
       [(\<not> len_between 1 4 (mr_allowed_test_paths r), ValidationError ''allowed_test_paths''),
        (mr_feedback r = None \<and> mr_previous_candidate r \<noteq> None,
         ValidationError ''a previous candidate requires repair feedback'')])
     (\<lambda>_. Inr r)"

record RawCandidateModelResponse =
  cm_text :: string
  cm_usage :: model_usage

section \<open>Diagnostics of a malformed answer\<close>

datatype candidate_stage = RESPONSE_BUDGET | DRAFT_SCHEMA | NORMALIZED_PROPOSAL

datatype json_member = Text string | Kind string

datatype candidate_json = NotObject string | Object "(string \<times> json_member) list"

record CandidateOutputDiagnostic =
  co_stage :: candidate_stage
  co_response_sha256 :: string
  co_response_chars :: nat
  co_response_budget_exceeded :: bool
  co_json_parse_status :: ClaimJsonParseStatus
  co_json_error :: "(nat \<times> nat) option"
  co_top_level_kind :: string
  co_expected_fields_present :: "string list"
  co_expected_fields_missing :: "string list"
  co_unexpected_fields :: "string list"
  co_unexpected_field_count :: nat
  co_source_json_type :: "string option"
  co_source_chars :: "nat option"
  co_source_sha256 :: "string option"
  co_validation_errors :: "string list"
  co_diagnostic_truncated :: bool

definition CANDIDATE_DRAFT_FIELDS :: "string list" where
  "CANDIDATE_DRAFT_FIELDS = [''source'', ''rationale'']"

fun member_kind :: "json_member \<Rightarrow> string" where
  "member_kind (Text s) = ''string''"
| "member_kind (Kind k) = k"

fun member_text :: "json_member \<Rightarrow> string option" where
  "member_text (Text s) = Some s"
| "member_text (Kind k) = None"

definition candidate_error_text :: "schema_error \<Rightarrow> string" where
  "candidate_error_text e =
     take 80 (sanitize_field (or_str (join ''.'' (fst e)) ''$'')) @ '':'' @ take 80 (sanitize_field (snd e))"

definition candidate_output_diagnostic ::
    "(string \<Rightarrow> (nat \<times> nat) + candidate_json) \<Rightarrow> string \<Rightarrow> candidate_stage \<Rightarrow> schema_error list \<Rightarrow> CandidateOutputDiagnostic" where
  "candidate_output_diagnostic loads response_text stage validation_errors =
     (let budget_exceeded = (stage = RESPONSE_BUDGET);
          attempt = (if budget_exceeded then None else Some (loads response_text));
          members = (case attempt of Some (Inr (Object ms)) \<Rightarrow> ms | _ \<Rightarrow> []);
          keys = map fst members;
          unexpected = sort (remdups (filter (\<lambda>k. k \<notin> set CANDIDATE_DRAFT_FIELDS) keys));
          source = map_of (rev members) ''source'';
          errors = map candidate_error_text validation_errors in
      \<lparr>co_stage = stage, co_response_sha256 = sha256 (utf8 response_text), co_response_chars = length response_text,
       co_response_budget_exceeded = budget_exceeded,
       co_json_parse_status = (case attempt of None \<Rightarrow> NOT_ATTEMPTED | Some (Inl _) \<Rightarrow> INVALID | Some (Inr _) \<Rightarrow> VALID),
       co_json_error = (case attempt of Some (Inl position) \<Rightarrow> Some position | _ \<Rightarrow> None),
       co_top_level_kind = (case attempt of Some (Inr (NotObject k)) \<Rightarrow> k | Some (Inr (Object _)) \<Rightarrow> ''object'' | _ \<Rightarrow> ''unknown''),
       co_expected_fields_present = sort (filter (\<lambda>f. f \<in> set keys) CANDIDATE_DRAFT_FIELDS),
       co_expected_fields_missing = sort (filter (\<lambda>f. f \<notin> set keys) CANDIDATE_DRAFT_FIELDS),
       co_unexpected_fields = map (\<lambda>k. take 80 (sanitize_field k)) (take 8 unexpected),
       co_unexpected_field_count = length unexpected,
       co_source_json_type = map_option member_kind source,
       co_source_chars = map_option length (Option.bind source member_text),
       co_source_sha256 = map_option (\<lambda>s. sha256 (utf8 s)) (Option.bind source member_text),
       co_validation_errors = take 8 errors,
       co_diagnostic_truncated =
         (8 < length unexpected \<or> list_ex (\<lambda>k. 80 < length k) (take 8 unexpected) \<or> 8 < length errors)\<rparr>)"

section \<open>Attempts\<close>

record ValidatedCandidate =
  vc_proposal :: CandidateTestProposal
  vc_artifact :: TestArtifact
  vc_imported_roots :: "string list"
  vc_behavior_fingerprint :: string

record CandidateAttempt =
  at_sequence :: nat
  at_origin :: CandidateOrigin
  at_parent_candidate_id :: "string option"
  at_parent_artifact_sha256 :: "string option"
  at_status :: CandidateAttemptStatus
  at_proposal :: "CandidateTestProposal option"
  at_validated :: "ValidatedCandidate option"
  at_issues :: "CandidateValidationIssue list"
  at_feedback :: "CandidateFeedback option"
  at_usage :: model_usage
  at_raw_response_sha256 :: string
  at_behavior_fingerprint :: "string option"
  at_signature_context_count :: nat
  at_signature_context_truncated :: bool
  at_signature_context_sha256 :: string
  at_malformed_output_diagnostic :: "CandidateOutputDiagnostic option"

text \<open>The state of a generator; a snapshot of it is the attempts and the two counters.\<close>

record generator_state =
  gs_attempts :: "CandidateAttempt list"
  gs_model_calls :: nat
  gs_initial_started :: bool
  gs_repair_count :: nat
  gs_invoking :: bool

definition new_generator :: generator_state where
  "new_generator = \<lparr>gs_attempts = [], gs_model_calls = 0, gs_initial_started = False, gs_repair_count = 0, gs_invoking = False\<rparr>"

definition latest_validated :: "generator_state \<Rightarrow> ValidatedCandidate option" where
  "latest_validated g = (case filter (\<lambda>v. v \<noteq> None) (map at_validated (rev (gs_attempts g))) of [] \<Rightarrow> None | v # _ \<Rightarrow> v)"

text \<open>What a generator is made with. \<open>gn_validate\<close> is \<open>validator.validate\<close> on its context, contract and paths.\<close>

record generator =
  gn_claim :: BehavioralClaim
  gn_context :: PullRequestContext
  gn_contract :: ExecutionContract
  gn_repository_signatures :: RepositorySignatureContext
  gn_max_input_json_chars :: nat
  gn_max_response_chars :: nat
  gn_validate :: "CandidateTestProposal \<Rightarrow> candidate_failure + ValidatedCandidate"
  gn_request_chars :: "CandidateModelRequest \<Rightarrow> nat"
  gn_loads :: "string \<Rightarrow> (nat \<times> nat) + candidate_json"
  gn_decode_draft :: "string \<Rightarrow> schema_error list + CandidateTestDraft"
  gn_field_errors :: "string \<Rightarrow> schema_error list"
  gn_proposal_errors :: "CandidateTestProposal \<Rightarrow> schema_error list"

definition decode_candidate_draft :: "generator \<Rightarrow> string \<Rightarrow> schema_error list + CandidateTestDraft" where
  "decode_candidate_draft gn text =
     (case gn_decode_draft gn text of
        Inl errors \<Rightarrow> Inl errors
      | Inr d \<Rightarrow> if candidate_draft_ok d then Inr d else Inl (gn_field_errors gn text))"

definition candidate_suffix :: "CandidateOrigin \<Rightarrow> nat \<Rightarrow> string \<Rightarrow> string" where
  "candidate_suffix origin repair_count separator =
     (case origin of INITIAL \<Rightarrow> ''initial'' | REPAIR \<Rightarrow> ''repair'' @ separator @ str_nat repair_count)"

definition candidate_proposal :: "generator \<Rightarrow> CandidateOrigin \<Rightarrow> nat \<Rightarrow> CandidateTestDraft \<Rightarrow> CandidateTestProposal" where
  "candidate_proposal gn origin repair_count draft =
       \<lparr>tp_candidate_id = ''candidate-'' @ candidate_suffix origin repair_count ''-'',
        tp_target_path = hd (ec_allowed_test_paths (gn_contract gn)) @ ''test_patchproof_generated_''
                         @ candidate_suffix origin repair_count ''_'' @ ''.py'',
        tp_test_function = GENERATED_TEST_FUNCTION, tp_source = td_source draft, tp_rationale = td_rationale draft\<rparr>"

text \<open>The outcome of one answer: status, proposal, validated candidate, issues, fingerprint, diagnostic.\<close>

record judged_candidate =
  jc_status :: CandidateAttemptStatus
  jc_proposal :: "CandidateTestProposal option"
  jc_validated :: "ValidatedCandidate option"
  jc_issues :: "CandidateValidationIssue list"
  jc_fingerprint :: "string option"
  jc_diagnostic :: "CandidateOutputDiagnostic option"

definition malformed :: "generator \<Rightarrow> string \<Rightarrow> candidate_stage \<Rightarrow> schema_error list \<Rightarrow> CandidateValidationIssue \<Rightarrow> judged_candidate" where
  "malformed gn text stage errors i =
     \<lparr>jc_status = INVALID_MODEL_OUTPUT, jc_proposal = None, jc_validated = None, jc_issues = [i], jc_fingerprint = None,
      jc_diagnostic = Some (candidate_output_diagnostic (gn_loads gn) text stage errors)\<rparr>"

definition rejected :: "CandidateTestProposal \<Rightarrow> CandidateValidationIssue list \<Rightarrow> string option \<Rightarrow> judged_candidate" where
  "rejected p issues fingerprint =
     \<lparr>jc_status = REJECTED, jc_proposal = Some p, jc_validated = None, jc_issues = issues, jc_fingerprint = fingerprint,
      jc_diagnostic = None\<rparr>"

definition same_source :: "CandidateTestProposal \<Rightarrow> CandidateAttempt option \<Rightarrow> bool" where
  "same_source p previous =
     (case previous of
        None \<Rightarrow> False
      | Some a \<Rightarrow> (case at_proposal a of None \<Rightarrow> False | Some q \<Rightarrow> utf8 (tp_source p) = utf8 (tp_source q)))"

definition used_id :: "CandidateAttempt list \<Rightarrow> string \<Rightarrow> bool" where
  "used_id attempts i =
     list_ex (\<lambda>a. case at_proposal a of None \<Rightarrow> False | Some q \<Rightarrow> tp_candidate_id q = i) attempts"

definition same_behavior :: "ValidatedCandidate \<Rightarrow> CandidateAttempt option \<Rightarrow> bool" where
  "same_behavior v previous =
     (case previous of None \<Rightarrow> False | Some a \<Rightarrow> at_behavior_fingerprint a = Some (vc_behavior_fingerprint v))"

definition judge_proposal ::
    "generator \<Rightarrow> CandidateOrigin \<Rightarrow> CandidateAttempt list \<Rightarrow> CandidateAttempt option \<Rightarrow> CandidateTestProposal
     \<Rightarrow> exn + judged_candidate" where
  "judge_proposal gn origin attempts previous p =
     (if origin = REPAIR \<and> same_source p previous then
        Inr (rejected p [issue DUPLICATE_CANDIDATE_SOURCE ''repair source must differ byte-for-byte from the previous source''] None)
      else if used_id attempts (tp_candidate_id p) then
        Inr (rejected p [issue DUPLICATE_CANDIDATE_ID ''candidate IDs must be unique within one generation run''] None)
      else case gn_validate gn p of
        Inl (Raised e) \<Rightarrow> Inl e
      | Inl (CandidateValidationError issues) \<Rightarrow> Inr (rejected p issues None)
      | Inr v \<Rightarrow>
          (if origin = REPAIR \<and> same_behavior v previous then
             Inr (rejected p [issue NO_BEHAVIORAL_REPAIR_CHANGE
               (''repair must materially change executable test behavior, '' @ ''not only formatting, comments, or unused imports'')]
               (Some (vc_behavior_fingerprint v)))
           else Inr \<lparr>jc_status = VALIDATED, jc_proposal = Some p, jc_validated = Some v, jc_issues = [],
                 jc_fingerprint = Some (vc_behavior_fingerprint v), jc_diagnostic = None\<rparr>))"

definition judge_candidate ::
    "generator \<Rightarrow> CandidateOrigin \<Rightarrow> nat \<Rightarrow> CandidateAttempt list \<Rightarrow> CandidateAttempt option \<Rightarrow> string \<Rightarrow> exn + judged_candidate" where
  "judge_candidate gn origin repair_count attempts previous text =
     (if gn_max_response_chars gn < length text then
        Inr (malformed gn text RESPONSE_BUDGET []
          (issue RESPONSE_TOO_LARGE ''candidate model response exceeds the configured budget''))
      else case decode_candidate_draft gn text of
        Inl errors \<Rightarrow> Inr (malformed gn text DRAFT_SCHEMA errors
          (issue MALFORMED_OUTPUT ''candidate model returned invalid structured output''))
      | Inr draft \<Rightarrow>
          (case mk_CandidateTestProposal (candidate_proposal gn origin repair_count draft) of
             Inl _ \<Rightarrow> Inr (malformed gn text NORMALIZED_PROPOSAL
               (gn_proposal_errors gn (candidate_proposal gn origin repair_count draft))
               (issue MALFORMED_OUTPUT ''candidate model output could not be normalized safely''))
           | Inr p \<Rightarrow> judge_proposal gn origin attempts previous p))"

definition attempt_of ::
    "generator \<Rightarrow> nat \<Rightarrow> CandidateOrigin \<Rightarrow> CandidateAttempt option \<Rightarrow> CandidateFeedback option \<Rightarrow> RawCandidateModelResponse
     \<Rightarrow> judged_candidate \<Rightarrow> CandidateAttempt" where
  "attempt_of gn sequence origin previous feedback response j =
     \<lparr>at_sequence = sequence, at_origin = origin,
      at_parent_candidate_id =
        (if origin = REPAIR then map_option tp_candidate_id (Option.bind previous at_proposal) else None),
      at_parent_artifact_sha256 = map_option (\<lambda>v. ta_sha256 (vc_artifact v)) (Option.bind previous at_validated),
      at_status = jc_status j, at_proposal = jc_proposal j, at_validated = jc_validated j, at_issues = jc_issues j,
      at_feedback = feedback, at_usage = cm_usage response, at_raw_response_sha256 = sha256 (utf8 (cm_text response)),
      at_behavior_fingerprint = jc_fingerprint j,
      at_signature_context_count = length (sg_signatures (gn_repository_signatures gn)),
      at_signature_context_truncated = sg_truncated (gn_repository_signatures gn),
      at_signature_context_sha256 = sg_sha256 (gn_repository_signatures gn),
      at_malformed_output_diagnostic = jc_diagnostic j\<rparr>"

section \<open>The generator\<close>

type_synonym 'w candidate_model = "CandidateModelRequest \<Rightarrow> ('w, exn, RawCandidateModelResponse) prog"

definition last_attempt :: "generator_state \<Rightarrow> CandidateAttempt option" where
  "last_attempt g = (if gs_attempts g = [] then None else Some (last (gs_attempts g)))"

definition candidate_request :: "generator \<Rightarrow> CandidateOrigin \<Rightarrow> CandidateAttempt option \<Rightarrow> CandidateFeedback option \<Rightarrow> exn + CandidateModelRequest" where
  "candidate_request gn origin previous feedback =
     mk_CandidateModelRequest
       \<lparr>mr_claim = gn_claim gn, mr_context = gn_context gn, mr_repository_signatures = gn_repository_signatures gn,
        mr_allowed_test_paths = ec_allowed_test_paths (gn_contract gn),
        mr_previous_candidate = (if origin = REPAIR then Option.bind previous at_proposal else None), mr_feedback = feedback\<rparr>"

definition generator_invoke ::
    "generator \<Rightarrow> 'w candidate_model \<Rightarrow> CandidateOrigin \<Rightarrow> CandidateFeedback option
     \<Rightarrow> (generator_state \<times> 'w, exn, CandidateAttempt) prog" where
  "generator_invoke gn model origin feedback = (\<lambda>(g, w).
     if gs_invoking g then (Inl (CandidateGenerationStateError ''candidate model invocation already in progress''), (g, w))
     else if MAX_CANDIDATE_MODEL_CALLS \<le> gs_model_calls g then
       (Inl (CandidateBudgetExceeded ''candidate model-call budget is exhausted''), (g, w))
     else let previous = last_attempt g in
       case candidate_request gn origin previous feedback of
         Inl e \<Rightarrow> (Inl e, (g, w))
       | Inr request \<Rightarrow>
           (if gn_max_input_json_chars gn < gn_request_chars gn request then
              (Inl (ValueError ''candidate-agent input exceeds the configured character budget''), (g, w))
            else let g1 = g\<lparr>gs_invoking := True, gs_model_calls := gs_model_calls g + 1\<rparr> in
              case model request w of
                (Inl e, w') \<Rightarrow> (Inl e, (g1\<lparr>gs_invoking := False\<rparr>, w'))
              | (Inr response, w') \<Rightarrow>
                  (case judge_candidate gn origin (gs_repair_count g1) (gs_attempts g1) previous (cm_text response) of
                     Inl e \<Rightarrow> (Inl e, (g1\<lparr>gs_invoking := False\<rparr>, w'))
                   | Inr j \<Rightarrow>
                       (let a = attempt_of gn (length (gs_attempts g1) + 1) origin previous feedback response j in
                        (Inr a, (g1\<lparr>gs_invoking := False, gs_attempts := gs_attempts g1 @ [a]\<rparr>, w'))))))"

definition generate_initial :: "generator \<Rightarrow> 'w candidate_model \<Rightarrow> (generator_state \<times> 'w, exn, CandidateAttempt) prog" where
  "generate_initial gn model = (\<lambda>(g, w).
     if gs_initial_started g then (Inl (CandidateGenerationStateError ''initial candidate generation already started''), (g, w))
     else generator_invoke gn model INITIAL None (g\<lparr>gs_initial_started := True\<rparr>, w))"

definition repair :: "generator \<Rightarrow> 'w candidate_model \<Rightarrow> CandidateFeedback \<Rightarrow> (generator_state \<times> 'w, exn, CandidateAttempt) prog" where
  "repair gn model feedback = (\<lambda>(g, w).
     if gs_attempts g = [] then (Inl (CandidateGenerationStateError ''repair requires a completed initial attempt''), (g, w))
     else if MAX_REPAIRS \<le> gs_repair_count g \<or> MAX_CANDIDATE_MODEL_CALLS \<le> gs_model_calls g then
       (Inl (CandidateBudgetExceeded ''candidate repair budget is exhausted''), (g, w))
     else generator_invoke gn model REPAIR (Some feedback) (g\<lparr>gs_repair_count := gs_repair_count g + 1\<rparr>, w))"

section \<open>What a run of the generator keeps\<close>

datatype generator_call = GenerateInitial | Repair CandidateFeedback

fun make_call :: "generator \<Rightarrow> 'w candidate_model \<Rightarrow> generator_call \<Rightarrow> (generator_state \<times> 'w, exn, CandidateAttempt) prog" where
  "make_call gn model GenerateInitial = generate_initial gn model"
| "make_call gn model (Repair feedback) = repair gn model feedback"

text \<open>The state after a sequence of calls; a call that raised leaves the state it left.\<close>

primrec generator_calls :: "generator \<Rightarrow> 'w candidate_model \<Rightarrow> generator_call list \<Rightarrow> generator_state \<times> 'w \<Rightarrow> generator_state \<times> 'w" where
  "generator_calls gn model [] s = s"
| "generator_calls gn model (c # cs) s = generator_calls gn model cs (snd (make_call gn model c s))"

definition proposal_ids :: "CandidateAttempt list \<Rightarrow> string list" where
  "proposal_ids as = map tp_candidate_id (List.map_filter at_proposal as)"

text \<open>An attempt that came from the validator, and one that repairs another.\<close>

definition attempt_sound :: "generator \<Rightarrow> CandidateAttempt \<Rightarrow> bool" where
  "attempt_sound gn a =
     (case at_validated a of
        None \<Rightarrow> at_status a \<noteq> VALIDATED
      | Some v \<Rightarrow> at_status a = VALIDATED \<and> at_issues a = [] \<and> at_behavior_fingerprint a = Some (vc_behavior_fingerprint v)
          \<and> (case at_proposal a of None \<Rightarrow> False | Some p \<Rightarrow> gn_validate gn p = Inr v))"

definition repairs :: "CandidateAttempt \<Rightarrow> CandidateAttempt \<Rightarrow> bool" where
  "repairs a b =
     (at_origin b = REPAIR \<and> (at_validated b = None
        \<or> at_behavior_fingerprint a \<noteq> at_behavior_fingerprint b
          \<and> (at_proposal a = None \<or> map_option (utf8 \<circ> tp_source) (at_proposal a) \<noteq> map_option (utf8 \<circ> tp_source) (at_proposal b))))"

definition generator_bounded :: "generator_state \<Rightarrow> bool" where
  "generator_bounded g =
     (gs_repair_count g \<le> MAX_REPAIRS \<and> gs_model_calls g \<le> MAX_CANDIDATE_MODEL_CALLS
      \<and> length (gs_attempts g) \<le> gs_model_calls g \<and> \<not> gs_invoking g)"

definition attempts_linked :: "CandidateAttempt list \<Rightarrow> bool" where
  "attempts_linked as =
     (map at_sequence as = [1..<Suc (length as)] \<and> distinct (proposal_ids as)
      \<and> list_all (\<lambda>i. repairs (as ! i) (as ! Suc i)) [0..<length as - 1]
      \<and> (as \<noteq> [] \<longrightarrow> at_origin (hd as) = INITIAL))"

definition id_used_by :: "nat \<Rightarrow> CandidateAttempt \<Rightarrow> bool" where
  "id_used_by n a =
     (\<forall>p. at_proposal a = Some p \<longrightarrow>
        tp_candidate_id p = ''candidate-initial''
        \<or> (\<exists>k. 1 \<le> k \<and> k \<le> n \<and> tp_candidate_id p = ''candidate-repair-'' @ str_nat k))"

definition generator_inv :: "generator \<Rightarrow> generator_state \<Rightarrow> bool" where
  "generator_inv gn g \<longleftrightarrow>
     generator_bounded g \<and> list_all (attempt_sound gn) (gs_attempts g) \<and> attempts_linked (gs_attempts g)
     \<and> list_all (id_used_by (gs_repair_count g)) (gs_attempts g)
     \<and> (gs_attempts g \<noteq> [] \<longrightarrow> gs_initial_started g)"


lemma attempt_of_fields [simp]:
  "at_sequence (attempt_of gn n origin previous feedback response j) = n"
  "at_origin (attempt_of gn n origin previous feedback response j) = origin"
  "at_status (attempt_of gn n origin previous feedback response j) = jc_status j"
  "at_proposal (attempt_of gn n origin previous feedback response j) = jc_proposal j"
  "at_validated (attempt_of gn n origin previous feedback response j) = jc_validated j"
  "at_issues (attempt_of gn n origin previous feedback response j) = jc_issues j"
  "at_behavior_fingerprint (attempt_of gn n origin previous feedback response j) = jc_fingerprint j"
  by (simp_all add: attempt_of_def)

lemma malformed_fields [simp]:
  "jc_status (malformed gn text stage errors i) = INVALID_MODEL_OUTPUT"
  "jc_proposal (malformed gn text stage errors i) = None"
  "jc_validated (malformed gn text stage errors i) = None"
  by (simp_all add: malformed_def)

lemma rejected_fields [simp]:
  "jc_status (rejected p is f) = REJECTED" "jc_proposal (rejected p is f) = Some p" "jc_validated (rejected p is f) = None"
  by (simp_all add: rejected_def)

lemma judge_proposal_cases:
  assumes "judge_proposal gn origin as previous p = Inr j"
  obtains (rejected) "jc_validated j = None" "jc_status j = REJECTED" "jc_proposal j = Some p"
  | (validated) v where "gn_validate gn p = Inr v" "\<not> used_id as (tp_candidate_id p)"
      "origin = REPAIR \<Longrightarrow> \<not> same_source p previous" "origin = REPAIR \<Longrightarrow> \<not> same_behavior v previous"
      "jc_validated j = Some v" "jc_status j = VALIDATED" "jc_issues j = []" "jc_proposal j = Some p"
      "jc_fingerprint j = Some (vc_behavior_fingerprint v)"
  using assms by (fastforce simp: judge_proposal_def split: if_splits sum.splits candidate_failure.splits)

lemma judge_candidate_cases:
  assumes "judge_candidate gn origin r as previous text = Inr j"
  obtains (malformed) "jc_validated j = None" "jc_status j = INVALID_MODEL_OUTPUT" "jc_proposal j = None"
  | (judged) draft where "judge_proposal gn origin as previous (candidate_proposal gn origin r draft) = Inr j"
proof (cases "gn_max_response_chars gn < length text \<or> \<not> is_ok (decode_candidate_draft gn text)")
  case True
  then show ?thesis using assms by (intro malformed) (auto simp: judge_candidate_def split: sum.splits if_splits)
next
  case False
  then obtain draft where d: "decode_candidate_draft gn text = Inr draft" by (cases "decode_candidate_draft gn text") auto
  show ?thesis
  proof (cases "mk_CandidateTestProposal (candidate_proposal gn origin r draft)")
    case (Inl e)
    then show ?thesis using assms False d by (intro malformed) (auto simp: judge_candidate_def)
  next
    case (Inr q)
    then have "q = candidate_proposal gn origin r draft"
      by (auto simp: mk_CandidateTestProposal_def guard_simps simp del: checks.simps)
    then show ?thesis using assms False d Inr by (intro judged [of draft]) (auto simp: judge_candidate_def)
  qed
qed

lemma judged_attempt_sound:
  assumes "judge_candidate gn origin r as previous text = Inr j"
  shows "attempt_sound gn (attempt_of gn n origin previous feedback response j)"
proof (cases rule: judge_candidate_cases [OF assms])
  case 1
  then show ?thesis by (simp add: attempt_sound_def)
next
  case (2 draft)
  then show ?thesis by (cases rule: judge_proposal_cases) (auto simp: attempt_sound_def)
qed

lemma judged_attempt_repairs:
  assumes "judge_candidate gn REPAIR r as (Some a) text = Inr j"
  shows "repairs a (attempt_of gn n REPAIR (Some a) feedback response j)"
proof (cases rule: judge_candidate_cases [OF assms])
  case 1
  then show ?thesis by (simp add: repairs_def)
next
  case (2 draft)
  then show ?thesis
    by (cases rule: judge_proposal_cases) (auto simp: repairs_def same_source_def same_behavior_def split: option.splits)
qed

lemma candidate_proposal_id:
  "tp_candidate_id (candidate_proposal gn INITIAL r draft) = ''candidate-initial''"
  "tp_candidate_id (candidate_proposal gn REPAIR r draft) = ''candidate-repair-'' @ str_nat r"
  by (simp_all add: candidate_proposal_def candidate_suffix_def)

lemma judged_id:
  assumes "judge_candidate gn origin r as previous text = Inr j" "jc_proposal j = Some p"
  shows "tp_candidate_id p = (case origin of INITIAL \<Rightarrow> ''candidate-initial'' | REPAIR \<Rightarrow> ''candidate-repair-'' @ str_nat r)"
proof (cases rule: judge_candidate_cases [OF assms(1)])
  case 1
  then show ?thesis using assms(2) by simp
next
  case (2 draft)
  then show ?thesis using assms(2)
    by (cases rule: judge_proposal_cases) (auto simp: candidate_proposal_id split: CandidateOrigin.split)
qed

lemma str_nat_eq_iff: "str_nat j = str_nat k \<longleftrightarrow> j = k"
  using int_body_str_nat by (metis option.inject)

lemma id_used_by_mono: "list_all (id_used_by n) as \<Longrightarrow> list_all (id_used_by (Suc n)) as"
  unfolding id_used_by_def list_all_iff by (meson le_SucI)

lemma id_used_by_fresh:
  "id_used_by n a \<Longrightarrow> at_proposal a = Some p \<Longrightarrow> tp_candidate_id p \<noteq> ''candidate-repair-'' @ str_nat (Suc n)"
  by (auto simp: id_used_by_def str_nat_eq_iff)

lemma repair_id_fresh:
  assumes "list_all (id_used_by n) as" "tp_candidate_id p = ''candidate-repair-'' @ str_nat (Suc n)"
  shows "tp_candidate_id p \<notin> set (proposal_ids as)"
proof
  assume "tp_candidate_id p \<in> set (proposal_ids as)"
  then obtain a q where "a \<in> set as" "at_proposal a = Some q" "tp_candidate_id q = tp_candidate_id p"
    by (auto simp: proposal_ids_def List.map_filter_def image_iff)
  then show False using assms id_used_by_fresh [of n a q] by (simp add: list_all_iff del: append.simps)
qed

lemma attempts_linked_snoc:
  assumes linked: "attempts_linked as" and seq: "at_sequence a = length as + 1"
    and first: "as = [] \<Longrightarrow> at_origin a = INITIAL" and next_: "as \<noteq> [] \<Longrightarrow> repairs (last as) a"
    and fresh: "\<And>p. at_proposal a = Some p \<Longrightarrow> tp_candidate_id p \<notin> set (proposal_ids as)"
  shows "attempts_linked (as @ [a])"
proof (cases "as = []")
  case True
  then show ?thesis using seq first by (auto simp: attempts_linked_def proposal_ids_def List.map_filter_def)
next
  case False
  have ids: "distinct (proposal_ids (as @ [a]))"
    using linked fresh by (cases "at_proposal a") (auto simp: attempts_linked_def proposal_ids_def List.map_filter_def)
  have "repairs ((as @ [a]) ! i) ((as @ [a]) ! Suc i)" if i: "i < length as" for i
  proof (cases "i = length as - 1")
    case True
    then show ?thesis using False i next_ by (simp add: nth_append last_conv_nth)
  next
    case other: False
    then have "i \<in> set [0..<length as - 1]" "Suc i < length as" using i by auto
    then show ?thesis using linked i unfolding attempts_linked_def list_all_iff by (simp add: nth_append)
  qed
  then have "list_all (\<lambda>i. repairs ((as @ [a]) ! i) ((as @ [a]) ! Suc i)) [0..<length (as @ [a]) - 1]"
    by (simp add: list_all_iff)
  then show ?thesis using linked seq ids False by (simp add: attempts_linked_def)
qed


text \<open>The state in which \<open>_invoke\<close> starts: the flag is set, or the repair is counted, and its id is new.\<close>

definition invoke_ready :: "generator \<Rightarrow> CandidateOrigin \<Rightarrow> generator_state \<Rightarrow> bool" where
  "invoke_ready gn origin g \<longleftrightarrow>
     generator_bounded g \<and> list_all (attempt_sound gn) (gs_attempts g) \<and> attempts_linked (gs_attempts g) \<and> gs_initial_started g
     \<and> (case origin of
          INITIAL \<Rightarrow> gs_attempts g = []
        | REPAIR \<Rightarrow> gs_attempts g \<noteq> []
            \<and> (\<exists>n. gs_repair_count g = Suc n \<and> list_all (id_used_by n) (gs_attempts g)))"

lemma invoke_ready_inv: "invoke_ready gn origin g \<Longrightarrow> generator_inv gn g"
  unfolding invoke_ready_def generator_inv_def
  by (cases origin) (auto intro: id_used_by_mono)

lemma inv_model_called:
  "generator_inv gn g \<Longrightarrow> gs_model_calls g < MAX_CANDIDATE_MODEL_CALLS
     \<Longrightarrow> generator_inv gn (g\<lparr>gs_model_calls := gs_model_calls g + 1, gs_invoking := False\<rparr>)"
  by (simp add: generator_inv_def generator_bounded_def)

lemma inv_attempt_added:
  assumes ready: "invoke_ready gn origin g" and calls: "gs_model_calls g < MAX_CANDIDATE_MODEL_CALLS"
    and j: "judge_candidate gn origin (gs_repair_count g) (gs_attempts g) (last_attempt g) (cm_text response) = Inr j"
    and a: "a = attempt_of gn (length (gs_attempts g) + 1) origin (last_attempt g) feedback response j"
  shows "generator_inv gn (g\<lparr>gs_model_calls := gs_model_calls g + 1, gs_invoking := False, gs_attempts := gs_attempts g @ [a]\<rparr>)"
proof -
  have id: "tp_candidate_id p = (case origin of INITIAL \<Rightarrow> ''candidate-initial'' | REPAIR \<Rightarrow> ''candidate-repair-'' @ str_nat (gs_repair_count g))"
    if "at_proposal a = Some p" for p
    using that judged_id [OF j] unfolding a attempt_of_fields by blast
  have linked: "attempts_linked (gs_attempts g @ [a])"
  proof (rule attempts_linked_snoc)
    show "attempts_linked (gs_attempts g)" using ready by (simp add: invoke_ready_def)
    show "at_sequence a = length (gs_attempts g) + 1" by (simp add: a)
    show "at_origin a = INITIAL" if "gs_attempts g = []"
      using that ready by (simp add: a invoke_ready_def split: CandidateOrigin.splits)
    show "repairs (last (gs_attempts g)) a" if "gs_attempts g \<noteq> []"
    proof -
      have "origin = REPAIR" using that ready by (simp add: invoke_ready_def split: CandidateOrigin.splits)
      moreover have "last_attempt g = Some (last (gs_attempts g))" using that by (simp add: last_attempt_def)
      ultimately show ?thesis using judged_attempt_repairs j by (simp add: a)
    qed
    show "tp_candidate_id p \<notin> set (proposal_ids (gs_attempts g))" if "at_proposal a = Some p" for p
    proof (cases origin)
      case INITIAL
      then show ?thesis using ready by (simp add: invoke_ready_def proposal_ids_def List.map_filter_def)
    next
      case REPAIR
      then show ?thesis using ready id [OF that] repair_id_fresh [of _ "gs_attempts g" p] by (auto simp: invoke_ready_def)
    qed
  qed
  have used: "id_used_by (gs_repair_count g) a"
    using id ready by (cases origin) (auto simp: id_used_by_def invoke_ready_def)
  show ?thesis
    using invoke_ready_inv [OF ready] ready calls linked used judged_attempt_sound [OF j]
    by (simp add: generator_inv_def generator_bounded_def invoke_ready_def a)
qed

lemma generator_invoke_inv:
  assumes ready: "invoke_ready gn origin g"
  shows "generator_inv gn (fst (snd (generator_invoke gn model origin feedback (g, w))))"
proof (cases "gs_model_calls g < MAX_CANDIDATE_MODEL_CALLS \<and> \<not> gs_invoking g")
  case False
  then show ?thesis using invoke_ready_inv [OF ready] by (auto simp: generator_invoke_def)
next
  case True
  note kept = inv_model_called [OF invoke_ready_inv [OF ready] conjunct1 [OF True]]
  note added = inv_attempt_added [OF ready conjunct1 [OF True] _ refl]
  show ?thesis
  proof (cases "candidate_request gn origin (last_attempt g) feedback")
    case (Inl e)
    then show ?thesis using True invoke_ready_inv [OF ready] by (simp add: generator_invoke_def)
  next
    case (Inr request)
    obtain r w' where m: "model request w = (r, w')" by (cases "model request w")
    show ?thesis
      using True Inr m invoke_ready_inv [OF ready] kept added [of _ _ feedback]
      by (cases r) (auto simp: generator_invoke_def Let_def not_le split: sum.split)
  qed
qed

lemma make_call_inv: "generator_inv gn g \<Longrightarrow> generator_inv gn (fst (snd (make_call gn model c (g, w))))"
proof (cases c)
  case GenerateInitial
  assume inv: "generator_inv gn g"
  show ?thesis
  proof (cases "gs_initial_started g")
    case True
    then show ?thesis using inv GenerateInitial by (simp add: generate_initial_def)
  next
    case False
    then have "invoke_ready gn INITIAL (g\<lparr>gs_initial_started := True\<rparr>)"
      using inv by (auto simp: invoke_ready_def generator_inv_def generator_bounded_def)
    then show ?thesis using False GenerateInitial by (simp add: generate_initial_def generator_invoke_inv)
  qed
next
  case (Repair feedback)
  assume inv: "generator_inv gn g"
  show ?thesis
  proof (cases "gs_attempts g = [] \<or> MAX_REPAIRS \<le> gs_repair_count g \<or> MAX_CANDIDATE_MODEL_CALLS \<le> gs_model_calls g")
    case True
    then show ?thesis using inv Repair by (auto simp: repair_def)
  next
    case False
    then have "invoke_ready gn REPAIR (g\<lparr>gs_repair_count := gs_repair_count g + 1\<rparr>)"
      using inv by (auto simp: invoke_ready_def generator_inv_def generator_bounded_def)
    then show ?thesis using False Repair by (simp add: repair_def generator_invoke_inv)
  qed
qed

lemma generator_calls_inv: "generator_inv gn (fst s) \<Longrightarrow> generator_inv gn (fst (generator_calls gn model cs s))"
proof (induction cs arbitrary: s)
  case (Cons c cs)
  then show ?case using make_call_inv [of gn "fst s" model c "snd s"] by simp
qed simp

lemma new_generator_inv: "generator_inv gn new_generator"
  by (simp add: generator_inv_def new_generator_def generator_bounded_def attempts_linked_def proposal_ids_def List.map_filter_def)


end
