(* ===== verification/CandidateValidator.thy ===== *)
theory CandidateValidator
  imports CandidateGeneration
begin

text \<open>
  \<open>CandidateTestValidator\<close> of \<open>src/patchproof/test_generation.py\<close>: the path, size, collection shape,
  imports, calls, exception handlers and interfaces of a generated test, checked on its syntax tree.
  A tree is the part of Python's \<open>ast\<close> the checks look at; every other node is \<open>Other\<close> with its
  child nodes in field order. \<open>ast.parse\<close>, \<open>textwrap.dedent\<close>, the module and exception names of the
  interpreter and the behavioral fingerprint are arguments.
\<close>

section \<open>Syntax trees\<close>

text \<open>
  An alias is a dotted name and its \<open>as\<close> name; the second list of a call holds its keyword nodes.
\<close>

type_synonym import_alias = "string \<times> string option"

datatype py_node =
    Import "import_alias list"
  | ImportFrom "string option" "import_alias list" nat
  | Name string
  | Attribute py_node string
  | Call py_node "py_node list" "py_node list"
  | Tuple "py_node list"
  | ExceptHandler "py_node option" "string option" "py_node list"
  | FunctionDef string "py_node list"
  | AsyncFunctionDef string "py_node list"
  | Pass
  | Continue
  | Break
  | Other string "py_node list"

fun iter_child_nodes :: "py_node \<Rightarrow> py_node list" where
  "iter_child_nodes (Attribute v a) = [v]"
| "iter_child_nodes (Call f args keywords) = f # args @ keywords"
| "iter_child_nodes (Tuple elts) = elts"
| "iter_child_nodes (ExceptHandler t n body) = (case t of None \<Rightarrow> [] | Some e \<Rightarrow> [e]) @ body"
| "iter_child_nodes (FunctionDef n cs) = cs"
| "iter_child_nodes (AsyncFunctionDef n cs) = cs"
| "iter_child_nodes (Other k cs) = cs"
| "iter_child_nodes _ = []"

lemma size_children: "sum_list (map (\<lambda>c. Suc (size c)) (iter_child_nodes n)) \<le> size n"
  by (cases n) (auto simp: size_list_conv_sum_list sum_list_Suc split: option.splits)

text \<open>\<open>ast.walk\<close>: breadth first, with a queue.\<close>

function walk_queue :: "py_node list \<Rightarrow> py_node list" where
  "walk_queue [] = []"
| "walk_queue (n # queue) = n # walk_queue (queue @ iter_child_nodes n)"
  by pat_completeness auto

termination
  by (relation "measure (\<lambda>queue. sum_list (map (\<lambda>n. Suc (size n)) queue))") (use size_children in \<open>auto simp: less_Suc_eq_le\<close>)

definition ast_walk :: "py_node list \<Rightarrow> py_node list" where
  "ast_walk body = walk_queue body"


section \<open>Names\<close>

definition BLOCKED_IMPORT_ROOTS :: "string list" where
  "BLOCKED_IMPORT_ROOTS =
     [''asyncio.subprocess'', ''ctypes'', ''ftplib'', ''http'', ''httpx'', ''multiprocessing'', ''requests'', ''socket'',
      ''smtplib'', ''subprocess'', ''telnetlib'', ''urllib'']"

definition FORBIDDEN_CALL_NAMES :: "string list" where
  "FORBIDDEN_CALL_NAMES = [''__import__'', ''compile'', ''eval'', ''exec'']"

definition OVERBROAD_EXCEPTION_NAMES :: "string list" where
  "OVERBROAD_EXCEPTION_NAMES = [''BaseException'', ''Exception'']"

definition FORBIDDEN_ATTRIBUTE_CALLS :: "(string \<times> string) list" where
  "FORBIDDEN_ATTRIBUTE_CALLS = [(''os'', ''popen''), (''os'', ''system''), (''pytest'', ''main''), (''shutil'', ''rmtree'')]"

text \<open>\<open>{name!r}\<close> of an identifier or dotted name.\<close>

definition quoted :: "string \<Rightarrow> string" where
  "quoted s = [CHR 0x27] @ s @ [CHR 0x27]"

definition top_name :: "string \<Rightarrow> string" where
  "top_name modname = before_first (CHR ''.'') modname"

text \<open>\<open>_import_bindings\<close>: a later import of the same name replaces the value of an earlier one.\<close>

definition bind_alias :: "(string \<rightharpoonup> string) \<Rightarrow> string \<times> string \<Rightarrow> (string \<rightharpoonup> string)" where
  "bind_alias bindings entry = bindings(fst entry \<mapsto> snd entry)"

fun aliases_bound :: "py_node \<Rightarrow> (string \<times> string) list" where
  "aliases_bound (Import names) =
     map (\<lambda>(name, asname). (case asname of Some n \<Rightarrow> n | None \<Rightarrow> top_name name, ''import:'' @ name)) names"
| "aliases_bound (ImportFrom modname names level) =
     map (\<lambda>(name, asname). (case asname of Some n \<Rightarrow> n | None \<Rightarrow> name,
             ''from:'' @ str_nat level @ '':'' @ (case modname of None \<Rightarrow> [] | Some m \<Rightarrow> m) @ '':'' @ name))
       (filter (\<lambda>(name, asname). name \<noteq> ''*'') names)"
| "aliases_bound _ = []"

definition import_bindings :: "py_node list \<Rightarrow> (string \<rightharpoonup> string)" where
  "import_bindings body = foldl bind_alias Map.empty (concat (map aliases_bound body))"

text \<open>\<open>_exception_names\<close>: the dotted names of an expression; of a call or another expression, none.\<close>

fun attribute_path :: "py_node \<Rightarrow> string list option" where
  "attribute_path (Name n) = Some [n]"
| "attribute_path (Attribute v a) = map_option (\<lambda>p. p @ [a]) (attribute_path v)"
| "attribute_path _ = None"

fun exception_names :: "py_node \<Rightarrow> string list" where
  "exception_names (Tuple elts) = concat (map exception_names elts)"
| "exception_names (Name n) = [n]"
| "exception_names (Attribute v a) =
     (case attribute_path (Attribute v a) of Some p \<Rightarrow> [join ''.'' p] | None \<Rightarrow> [a])"
| "exception_names _ = []"

section \<open>The checks\<close>

datatype parse_result = Parsed "py_node list" | ParseSyntaxError string | ParseRaises exn

text \<open>What the checks ask of the interpreter.\<close>

record python =
  py_parse :: "string \<Rightarrow> parse_result"
  py_dedent :: "string \<Rightarrow> string"
  py_stdlib_modules :: "string list"
  py_builtin_exception :: "string \<Rightarrow> bool"
  py_fingerprint :: "string \<Rightarrow> string \<Rightarrow> exn + string"

definition path_stem :: "string \<Rightarrow> string" where
  "path_stem p = take (length (path_name p) - length (path_suffix p)) (path_name p)"

definition root_of_path :: "string \<Rightarrow> string list" where
  "root_of_path path =
     (case path_parts path of
        [] \<Rightarrow> []
      | first # rest \<Rightarrow>
          (if first = ''src'' \<and> rest \<noteq> [] then [hd rest]
           else if first \<notin> {''test'', ''tests''} then [path_stem first] else []))"

fun first_module :: "py_node \<Rightarrow> string option" where
  "first_module (Import ((name, _) # _)) = Some name"
| "first_module (ImportFrom modname names level) = modname"
| "first_module _ = None"

definition root_of_node :: "py_node \<Rightarrow> string list" where
  "root_of_node n = (case first_module n of None \<Rightarrow> [] | Some m \<Rightarrow> if m = [] then [] else [top_name m])"

definition snippet_roots :: "python \<Rightarrow> ContextSnippet \<Rightarrow> candidate_failure + string list" where
  "snippet_roots py snippet =
     (case py_parse py (py_dedent py (sn_content snippet)) of
        Parsed body \<Rightarrow> Inr (concat (map root_of_node (ast_walk body)))
      | ParseSyntaxError _ \<Rightarrow> Inr []
      | ParseRaises e \<Rightarrow> Inl (Raised e))"

definition allowed_import_roots :: "python \<Rightarrow> PullRequestContext \<Rightarrow> candidate_failure + string set" where
  "allowed_import_roots py context =
     rbind (rmap (snippet_roots py) (pc_snippets context)) (\<lambda>roots.
     Inr (set (py_stdlib_modules py) \<union> {''pytest''}
          \<union> set (concat (map root_of_path (map cf_path (pc_changed_files context) @ map sn_path (pc_snippets context))))
          \<union> set (concat roots)))"

fun imported_modules :: "py_node \<Rightarrow> candidate_failure + string list" where
  "imported_modules (Import names) = Inr (map fst names)"
| "imported_modules (ImportFrom modname names level) =
     rbind (checks
       [(level \<noteq> 0, reject RELATIVE_IMPORT ''relative imports are not allowed in generated candidates''),
        (list_ex (\<lambda>a. fst a = ''*'') names, reject WILDCARD_IMPORT ''wildcard imports are not allowed in generated candidates'')])
     (\<lambda>_. Inr (case modname of None \<Rightarrow> [] | Some m \<Rightarrow> if m = [] then [] else [m]))"
| "imported_modules _ = Inr []"

definition check_module :: "string set \<Rightarrow> string \<Rightarrow> candidate_failure + string" where
  "check_module allowed_roots modname =
     (let import_root = top_name modname in
      rbind (checks
        [(modname \<in> set BLOCKED_IMPORT_ROOTS \<or> import_root \<in> set BLOCKED_IMPORT_ROOTS,
          reject BLOCKED_IMPORT (''generated candidate imports blocked module '' @ quoted import_root)),
         (import_root \<notin> allowed_roots,
          reject UNGROUNDED_IMPORT (''import root '' @ quoted import_root @ '' is absent from deterministic context''))])
      (\<lambda>_. Inr import_root))"

definition validate_imports :: "string set \<Rightarrow> py_node list \<Rightarrow> candidate_failure + string list" where
  "validate_imports allowed_roots nodes =
     rbind (rmap (\<lambda>n. rbind (imported_modules n) (rmap (check_module allowed_roots))) nodes) (\<lambda>roots.
     Inr (sort (remdups (concat roots))))"

fun call_checks :: "py_node \<Rightarrow> (bool \<times> candidate_failure) list" where
  "call_checks (Call (Name f) args keywords) =
     [(f \<in> set FORBIDDEN_CALL_NAMES, reject FORBIDDEN_CALL (''generated candidate calls forbidden builtin '' @ quoted f))]"
| "call_checks (Call (Attribute (Name m) a) args keywords) =
     [((m, a) \<in> set FORBIDDEN_ATTRIBUTE_CALLS,
       reject FORBIDDEN_CALL (''generated candidate calls forbidden API '' @ m @ ''.'' @ a))]"
| "call_checks _ = []"

definition overbroad :: "string \<Rightarrow> bool" where
  "overbroad name = (after_last (CHR ''.'') name \<in> set OVERBROAD_EXCEPTION_NAMES)"

definition is_grounded_exception :: "python \<Rightarrow> (string \<rightharpoonup> string) \<Rightarrow> string \<Rightarrow> bool" where
  "is_grounded_exception py bindings name =
     (if bindings (top_name name) \<noteq> None then True
      else if contains name ''.'' then False
      else py_builtin_exception py name)"

definition discards :: "py_node \<Rightarrow> bool" where
  "discards statement = (statement = Pass \<or> statement = Continue \<or> statement = Break)"

definition name_checks :: "python \<Rightarrow> (string \<rightharpoonup> string) \<Rightarrow> string \<Rightarrow> (bool \<times> candidate_failure) list" where
  "name_checks py bindings name =
     [(overbroad name,
       reject BROAD_EXCEPTION_HANDLER (''catching '' @ quoted name @ '' is too broad to be claim-scoped evidence'')),
      (\<not> is_grounded_exception py bindings name,
       reject UNGROUNDED_EXCEPTION_TYPE (''exception type '' @ quoted name @ '' is neither a builtin nor imported by the test''))]"

fun exception_checks :: "python \<Rightarrow> (string \<rightharpoonup> string) \<Rightarrow> py_node \<Rightarrow> (bool \<times> candidate_failure) list" where
  "exception_checks py bindings (ExceptHandler t n body) =
     (t = None, reject BROAD_EXCEPTION_HANDLER ''a bare except clause cannot express a specific behavioral expectation'')
     # concat (map (name_checks py bindings) (case t of None \<Rightarrow> [] | Some e \<Rightarrow> exception_names e))
     @ [(list_all discards body,
         reject SWALLOWED_OUTCOME ''an except clause must record the outcome for an assertion, not discard it'')]"
| "exception_checks py bindings (Call (Attribute (Name m) a) (arg # args) keywords) =
     (if m = ''pytest'' \<and> a = ''raises'' then
        map (\<lambda>name. (overbroad name,
               reject BROAD_EXCEPTION_HANDLER (''pytest.raises('' @ name @ '') is too broad to be claim-scoped evidence'')))
          (exception_names arg)
      else [])"
| "exception_checks py bindings _ = []"

fun head_only_name :: "string set \<Rightarrow> py_node \<Rightarrow> string option" where
  "head_only_name head_only (ImportFrom modname names level) = find (\<lambda>n. n \<in> head_only) (map fst names)"
| "head_only_name head_only (Attribute v a) = (if a \<in> head_only then Some a else None)"
| "head_only_name head_only _ = None"

definition interface_checks :: "string set \<Rightarrow> py_node \<Rightarrow> (bool \<times> candidate_failure) list" where
  "interface_checks head_only n =
     (case head_only_name head_only n of
        None \<Rightarrow> []
      | Some name \<Rightarrow> [(True, reject HEAD_ONLY_INTERFACE (quoted name @ '' exists only on HEAD; test observable behavior through an ''
                          @ ''interface present on both revisions instead''))])"

fun function_name :: "py_node \<Rightarrow> string option" where
  "function_name (FunctionDef n _) = Some n"
| "function_name (AsyncFunctionDef n _) = Some n"
| "function_name _ = None"

definition top_level_tests :: "py_node list \<Rightarrow> string list" where
  "top_level_tests body = filter (\<lambda>n. startswith n ''test_'') (List.map_filter function_name body)"

record candidate_validator =
  cv_max_source_bytes :: nat
  cv_installed_import_roots :: "string set"

definition mk_candidate_validator :: "int \<Rightarrow> string set \<Rightarrow> exn + candidate_validator" where
  "mk_candidate_validator max_source_bytes roots =
     (if max_source_bytes \<le> 0 then Inl (ValueError ''candidate source byte budget must be positive'')
      else Inr \<lparr>cv_max_source_bytes = nat max_source_bytes, cv_installed_import_roots = roots\<rparr>)"

definition raising :: "exn + 'a \<Rightarrow> candidate_failure + 'a" where
  "raising r = (case r of Inl e \<Rightarrow> Inl (Raised e) | Inr a \<Rightarrow> Inr a)"

definition parse_candidate :: "python \<Rightarrow> string \<Rightarrow> candidate_failure + py_node list" where
  "parse_candidate py source =
     (case py_parse py source of
        Parsed body \<Rightarrow> Inr body
      | ParseSyntaxError msg \<Rightarrow> Inl (reject SYNTAX_ERROR (''candidate source is not valid Python: '' @ msg))
      | ParseRaises e \<Rightarrow> Inl (Raised e))"

definition validate_candidate ::
    "python \<Rightarrow> candidate_validator \<Rightarrow> PullRequestContext \<Rightarrow> ExecutionContract \<Rightarrow> string set \<Rightarrow> CandidateTestProposal
     \<Rightarrow> candidate_failure + ValidatedCandidate" where
  "validate_candidate py cv context contract existing_paths p =
     rbind (checks
       [(\<not> permits_test_path contract (tp_target_path p), reject PATH_NOT_ALLOWED ''candidate target is outside allowed_test_paths''),
        (tp_target_path p \<in> existing_paths,
         reject PATH_ALREADY_EXISTS ''candidate target would overwrite a committed repository path''),
        (cv_max_source_bytes cv < length (utf8 (tp_source p)),
         reject SOURCE_TOO_LARGE ''candidate source exceeds the configured byte budget'')]) (\<lambda>_.
     rbind (parse_candidate py (tp_source p)) (\<lambda>body.
     rbind (checks
       [(tp_test_function p \<notin> set (top_level_tests body),
         reject TEST_FUNCTION_MISMATCH ''declared test function is not a top-level pytest function''),
        (length (top_level_tests body) \<noteq> 1,
         reject MULTIPLE_TESTS ''candidate source must define exactly one top-level test function'')]) (\<lambda>_.
     rbind (allowed_import_roots py context) (\<lambda>grounded_roots.
     rbind (validate_imports (grounded_roots \<union> cv_installed_import_roots cv) (ast_walk body)) (\<lambda>imported_roots.
     rbind (checks (concat (map call_checks (ast_walk body)))) (\<lambda>_.
     rbind (checks (concat (map (exception_checks py (import_bindings body)) (ast_walk body)))) (\<lambda>_.
     rbind (checks (concat (map (interface_checks (head_only_leaf_names (pc_interfaces context))) (ast_walk body)))) (\<lambda>_.
     rbind (raising (from_text (tp_target_path p) (tp_target_path p @ ''::'' @ tp_test_function p) (tp_source p))) (\<lambda>artifact.
     rbind (raising (py_fingerprint py (tp_source p) (tp_test_function p))) (\<lambda>fingerprint.
     Inr \<lparr>vc_proposal = p, vc_artifact = artifact, vc_imported_roots = imported_roots,
          vc_behavior_fingerprint = fingerprint\<rparr>))))))))))"


section \<open>What an accepted candidate is\<close>

definition child :: "py_node \<Rightarrow> py_node \<Rightarrow> bool" where
  "child a b = (b \<in> set (iter_child_nodes a))"

definition occurs :: "py_node list \<Rightarrow> py_node \<Rightarrow> bool" where
  "occurs body n = (\<exists>r \<in> set body. child\<^sup>*\<^sup>* r n)"

text \<open>The walk meets every node of the tree, and no other.\<close>

lemma occurs_Cons: "occurs (n # queue) m \<longleftrightarrow> m = n \<or> occurs (queue @ iter_child_nodes n) m"
  unfolding occurs_def by (auto simp: child_def elim: converse_rtranclpE intro: converse_rtranclp_into_rtranclp)

lemma walk_occurs: "m \<in> set (walk_queue queue) \<longleftrightarrow> occurs queue m"
  by (induction queue rule: walk_queue.induct) (simp add: occurs_def, simp add: occurs_Cons)

text \<open>What may stand in a generated test, one clause per kind of node the rules speak about.\<close>

definition importable :: "string set \<Rightarrow> string \<Rightarrow> bool" where
  "importable allowed m = (m \<notin> set BLOCKED_IMPORT_ROOTS \<and> top_name m \<notin> set BLOCKED_IMPORT_ROOTS \<and> top_name m \<in> allowed)"

fun modules_of :: "py_node \<Rightarrow> string list" where
  "modules_of (Import names) = map fst names"
| "modules_of (ImportFrom m names level) = (case m of None \<Rightarrow> [] | Some k \<Rightarrow> if k = [] then [] else [k])"
| "modules_of _ = []"

fun explicit_import :: "py_node \<Rightarrow> bool" where
  "explicit_import (ImportFrom m names level) = (level = 0 \<and> (\<forall>a \<in> set names. fst a \<noteq> ''*''))"
| "explicit_import _ = True"

fun harmless_call :: "py_node \<Rightarrow> bool" where
  "harmless_call (Call (Name f) args keywords) = (f \<notin> set FORBIDDEN_CALL_NAMES)"
| "harmless_call (Call (Attribute (Name m) a) args keywords) = ((m, a) \<notin> set FORBIDDEN_ATTRIBUTE_CALLS)"
| "harmless_call _ = True"

fun narrow_handling :: "python \<Rightarrow> (string \<rightharpoonup> string) \<Rightarrow> py_node \<Rightarrow> bool" where
  "narrow_handling py bindings (ExceptHandler t n body) =
     ((\<exists>e. t = Some e \<and> (\<forall>name \<in> set (exception_names e). \<not> overbroad name \<and> is_grounded_exception py bindings name))
      \<and> (\<exists>statement \<in> set body. \<not> discards statement))"
| "narrow_handling py bindings (Call (Attribute (Name m) a) (arg # args) keywords) =
     (m = ''pytest'' \<and> a = ''raises'' \<longrightarrow> (\<forall>name \<in> set (exception_names arg). \<not> overbroad name))"
| "narrow_handling py bindings _ = True"

fun shared_interface :: "string set \<Rightarrow> py_node \<Rightarrow> bool" where
  "shared_interface head_only (ImportFrom m names level) = (\<forall>a \<in> set names. fst a \<notin> head_only)"
| "shared_interface head_only (Attribute v a) = (a \<notin> head_only)"
| "shared_interface head_only _ = True"

definition tree_sound :: "python \<Rightarrow> string set \<Rightarrow> string set \<Rightarrow> py_node list \<Rightarrow> bool" where
  "tree_sound py allowed head_only body =
     (\<forall>n. occurs body n \<longrightarrow> explicit_import n \<and> (\<forall>m \<in> set (modules_of n). importable allowed m)
        \<and> harmless_call n \<and> narrow_handling py (import_bindings body) n \<and> shared_interface head_only n)"

lemma imported_modules_ok [guard_simps]:
  "imported_modules n = Inr ms \<longleftrightarrow> explicit_import n \<and> ms = modules_of n"
  by (cases n) (auto simp: guard_simps list_ex_iff simp del: checks.simps)

lemma check_module_ok [guard_simps]: "check_module allowed m = Inr r \<longleftrightarrow> importable allowed m \<and> r = top_name m"
  by (auto simp: check_module_def Let_def guard_simps importable_def simp del: checks.simps)

lemma rmap_all: "(\<And>x y. f x = Inr y \<longleftrightarrow> P x \<and> y = g x) \<Longrightarrow> rmap f xs = Inr ys \<longleftrightarrow> (\<forall>x \<in> set xs. P x) \<and> ys = map g xs"
  by (induction xs arbitrary: ys) (auto simp: guard_simps)

lemma validate_imports_ok [guard_simps]:
  "validate_imports allowed ns = Inr rs \<longleftrightarrow>
     (\<forall>n \<in> set ns. explicit_import n \<and> (\<forall>m \<in> set (modules_of n). importable allowed m))
     \<and> rs = sort (remdups (concat (map (\<lambda>n. map top_name (modules_of n)) ns)))"
proof -
  have inner: "rmap (check_module allowed) ms = Inr ys \<longleftrightarrow> (\<forall>m \<in> set ms. importable allowed m) \<and> ys = map top_name ms" for ms ys
    by (rule rmap_all) (rule check_module_ok)
  have "rmap (\<lambda>n. rbind (imported_modules n) (rmap (check_module allowed))) ns = Inr ys \<longleftrightarrow>
      (\<forall>n \<in> set ns. explicit_import n \<and> (\<forall>m \<in> set (modules_of n). importable allowed m))
      \<and> ys = map (\<lambda>n. map top_name (modules_of n)) ns" for ys
    by (rule rmap_all) (auto simp: guard_simps inner)
  then show ?thesis by (auto simp: validate_imports_def guard_simps)
qed

lemma checks_concat [simp]:
  "list_all P (concat (map f ns)) \<longleftrightarrow> (\<forall>n \<in> set ns. list_all P (f n))"
  by (induction ns) auto

lemma call_checks_ok: "list_all (\<lambda>(b, e). \<not> b) (call_checks n) \<longleftrightarrow> harmless_call n"
  by (cases n rule: call_checks.cases) auto

lemma exception_checks_ok: "list_all (\<lambda>(b, e). \<not> b) (exception_checks py bindings n) \<longleftrightarrow> narrow_handling py bindings n"
  by (cases "(py, bindings, n)" rule: exception_checks.cases)
    (auto simp: name_checks_def list_all_iff split: option.splits)

lemma find_none: "find P xs = None \<longleftrightarrow> (\<forall>x \<in> set xs. \<not> P x)"
  by (induction xs) auto

lemma find_some: "find P xs = Some x \<Longrightarrow> x \<in> set xs \<and> P x"
  by (induction xs) (auto split: if_splits)

lemma interface_checks_ok: "list_all (\<lambda>(b, e). \<not> b) (interface_checks head_only n) \<longleftrightarrow> shared_interface head_only n"
  by (cases "(head_only, n)" rule: head_only_name.cases) (auto simp: interface_checks_def find_none split: option.splits dest!: find_some)

lemma parse_candidate_ok [guard_simps]: "parse_candidate py source = Inr body \<longleftrightarrow> py_parse py source = Parsed body"
  by (auto simp: parse_candidate_def split: parse_result.splits)

lemma raising_ok [guard_simps]: "raising r = Inr a \<longleftrightarrow> r = Inr a"
  by (auto simp: raising_def split: sum.splits)

lemma one_test: "f \<in> set ts \<and> length ts = 1 \<longleftrightarrow> ts = [f]"
  by (cases ts) auto


lemma tree_sound_iff:
  "tree_sound py allowed head_only body \<longleftrightarrow>
     (\<forall>n \<in> set (ast_walk body). explicit_import n \<and> (\<forall>m \<in> set (modules_of n). importable allowed m))
     \<and> (\<forall>n \<in> set (ast_walk body). harmless_call n)
     \<and> (\<forall>n \<in> set (ast_walk body). narrow_handling py (import_bindings body) n)
     \<and> (\<forall>n \<in> set (ast_walk body). shared_interface head_only n)"
  unfolding tree_sound_def ast_walk_def walk_occurs [symmetric] by blast

definition artifact_of :: "CandidateTestProposal \<Rightarrow> TestArtifact" where
  "artifact_of p = \<lparr>ta_relative_path = tp_target_path p, ta_node_id = tp_target_path p @ ''::'' @ tp_test_function p,
     ta_content = utf8 (tp_source p)\<rparr>"

text \<open>The requirements on a proposal whose source parses to \<open>body\<close>, given the import roots grounded in the context.\<close>

definition proposal_sound ::
    "python \<Rightarrow> candidate_validator \<Rightarrow> PullRequestContext \<Rightarrow> ExecutionContract \<Rightarrow> string set \<Rightarrow> py_node list \<Rightarrow> string set
     \<Rightarrow> CandidateTestProposal \<Rightarrow> bool" where
  "proposal_sound py cv context contract existing_paths body grounded_roots p =
     (permits_test_path contract (tp_target_path p) \<and> tp_target_path p \<notin> existing_paths
      \<and> length (utf8 (tp_source p)) \<le> cv_max_source_bytes cv
      \<and> top_level_tests body = [tp_test_function p] \<and> artifact_ok (artifact_of p)
      \<and> tree_sound py (grounded_roots \<union> cv_installed_import_roots cv) (head_only_leaf_names (pc_interfaces context)) body)"

text \<open>
  C22: The validator accepts a proposal exactly when its path is permitted and new, its source is within
  its bytes and parses to a tree with the declared function as its only top-level test, and everywhere
  in that tree imports are absolute, named and of grounded modules that are not blocked, no forbidden
  function is called, every exception handler names specific grounded types and keeps an outcome, and no
  name that exists only on HEAD is used; what it returns is the proposal with exactly these bytes, the
  imported roots in order and the fingerprint.
\<close>

theorem accepted_candidate_iff:
  "validate_candidate py cv context contract existing_paths p = Inr v \<longleftrightarrow>
     (\<exists>body grounded_roots fingerprint.
        py_parse py (tp_source p) = Parsed body \<and> allowed_import_roots py context = Inr grounded_roots
        \<and> py_fingerprint py (tp_source p) (tp_test_function p) = Inr fingerprint
        \<and> proposal_sound py cv context contract existing_paths body grounded_roots p
        \<and> v = \<lparr>vc_proposal = p, vc_artifact = artifact_of p,
               vc_imported_roots = sort (remdups (concat (map (\<lambda>n. map top_name (modules_of n)) (ast_walk body)))),
               vc_behavior_fingerprint = fingerprint\<rparr>)"
  (is "?L \<longleftrightarrow> ?R")
proof
  assume ?L
  then show ?R
    unfolding validate_candidate_def rbind_eq_Inr checks_ok
    by (auto simp: guard_simps call_checks_ok exception_checks_ok interface_checks_ok proposal_sound_def tree_sound_iff
        from_text_def mk_TestArtifact_iff artifact_of_def one_test [symmetric] not_less simp del: One_nat_def)
next
  assume ?R
  then show ?L
    unfolding validate_candidate_def rbind_eq_Inr checks_ok
    by (auto simp: guard_simps call_checks_ok exception_checks_ok interface_checks_ok proposal_sound_def tree_sound_iff
        from_text_def mk_TestArtifact_iff artifact_of_def not_less)
qed


text \<open>
  The rules look at the handler's type expression and at calls of \<open>pytest.raises\<close> by that name only:
  a type computed by a call, \<open>raises\<close> imported from \<open>pytest\<close> and \<open>contextlib.suppress\<close> pass
  with \<open>Exception\<close>.
\<close>

lemma broad_handling_passes:
  "narrow_handling py bindings (ExceptHandler (Some (Call f [] [])) n [Other ''Assign'' []])"
  "narrow_handling py bindings (Call (Name ''raises'') [Name ''Exception''] [])"
  "narrow_handling py bindings (Call (Attribute (Name ''contextlib'') ''suppress'') [Name ''Exception''] [])"
  by (simp_all add: discards_def)

end
