(* ===== verification/RepairFeedback.thy ===== *)
theory RepairFeedback
  imports CandidateGeneration Challenge
begin

text \<open>
  The part of \<open>src/patchproof/evidence_workflow.py\<close> that tells a repair what the executions showed:
  redaction and truncation of process text, the exception, assertion, frame and failing line read from
  a pytest report, and the bounded feedback made of them.
\<close>

section \<open>Redaction\<close>

definition feedback_credential_pattern :: regex where
  "feedback_credential_pattern = seqs
     [WordB,
      alts [lit_ci ''authorization'', seqs [lit_ci ''api'', separator ''_-'', lit_ci ''key''],
        seqs [lit_ci ''access'', separator ''_-'', lit_ci ''token''], seqs [lit_ci ''refresh'', separator ''_-'', lit_ci ''token''],
        lit_ci ''token'', lit_ci ''secret'', lit_ci ''password''],
      WordB, star (Cls is_space), Cls (\<lambda>c. c = CHR '':'' \<or> c = CHR ''=''), star (Cls is_space),
      opt (Seq (lit_ci ''Bearer'') (plus_re (Cls is_space))),
      plus_re (Cls (\<lambda>c. \<not> is_space c \<and> c \<noteq> CHR '','' \<and> c \<noteq> CHR '';''))]"

definition feedback_bearer_pattern :: regex where
  "feedback_bearer_pattern = seqs
     [WordB, lit_ci ''Bearer'', plus_re (Cls is_space), plus_re (Cls (\<lambda>c. is_alnum c \<or> c \<in> set ''._~+/=-''))]"

definition token_char :: "char \<Rightarrow> bool" where
  "token_char c = (is_alnum c \<or> c = CHR ''_'' \<or> c = CHR ''-'')"

definition known_token_pattern :: regex where
  "known_token_pattern = Alt
     (Seq (lit ''AIza'') (Rep (Cls token_char) 20 None))
     (seqs [lit ''gh'', Cls (\<lambda>c. c \<in> set ''opsu''), lit ''_'', Rep (Cls (\<lambda>c. is_alnum c \<or> c = CHR ''_'')) 20 None])"

definition windows_path_pattern :: regex where
  "windows_path_pattern = Seq
     (Alt (seqs [Cls (\<lambda>c. in_range (CHR ''a'') (CHR ''z'') (lower_char c)), lit '':'', Cls (\<lambda>c. c = CHR 0x5C \<or> c = CHR ''/'')])
          (lit [CHR 0x5C, CHR 0x5C]))
     (plus_re (Cls (\<lambda>c. \<not> is_space c \<and> c \<noteq> CHR 0x27 \<and> c \<noteq> CHR 0x22)))"

definition unix_path_pattern :: regex where
  "unix_path_pattern = seqs
     [NotBehind (\<lambda>c. is_word c \<or> c = CHR ''.''), lit ''/'',
      plus_re (Seq (plus_re (Cls (\<lambda>c. c \<noteq> CHR ''/'' \<and> \<not> is_space c))) (lit ''/'')),
      plus_re (Cls (\<lambda>c. c \<noteq> CHR '':'' \<and> \<not> is_space c))]"

definition opaque_value_pattern :: regex where
  "opaque_value_pattern = seqs [NotBehind is_alnum, Rep (Cls token_char) 32 None, NotAhead is_alnum]"

definition control_pattern :: regex where
  "control_pattern = plus_re (Cls (\<lambda>c. (of_char c :: nat) < 32 \<or> c = CHR 0x7F))"

definition FEEDBACK_TRUNCATION_MARKER :: string where
  "FEEDBACK_TRUNCATION_MARKER = ''...[truncated]''"

definition redact_secrets :: "string \<Rightarrow> string" where
  "redact_secrets value =
     re_sub known_token_pattern ''<redacted-token>''
       (re_sub feedback_bearer_pattern ''Bearer <redacted>''
         (re_sub feedback_credential_pattern ''credential=<redacted>'' value))"

definition squeeze :: "string \<Rightarrow> nat \<Rightarrow> string" where
  "squeeze value limit =
     (let text = re_sub control_pattern '' '' value;
          text = join '' '' (split_ws text) in
      if length text \<le> limit then text
      else rstrip (take (limit - length FEEDBACK_TRUNCATION_MARKER) text) @ FEEDBACK_TRUNCATION_MARKER)"

definition sanitize_observed_value :: "string \<Rightarrow> nat \<Rightarrow> string" where
  "sanitize_observed_value value limit = squeeze (redact_secrets value) limit"

definition sanitize_feedback_text :: "string \<Rightarrow> nat \<Rightarrow> string" where
  "sanitize_feedback_text value limit =
     squeeze (re_sub opaque_value_pattern ''<opaque>''
       (re_sub unix_path_pattern ''<path>'' (re_sub windows_path_pattern ''<path>'' (redact_secrets value)))) limit"

section \<open>Reading a report\<close>

definition identifier_start :: "char \<Rightarrow> bool" where
  "identifier_start c = (in_range (CHR ''A'') (CHR ''Z'') c \<or> in_range (CHR ''a'') (CHR ''z'') c \<or> c = CHR ''_'')"

definition exception_line_pattern :: regex where
  "exception_line_pattern = seqs
     [opt (Seq (lit ''E'') (plus_re (Cls is_space))),
      Grp ''type'' (seqs
        [star (seqs [Cls identifier_start, star (Cls is_word), lit ''.'']),
         Cls identifier_start, star (Cls is_word),
         alts [lit ''Error'', lit ''Exception'', lit ''Warning'', lit ''Exit'', lit ''Interrupt'']]),
      lit '':'', star (Cls is_space), Grp ''message'' (star (Cls (\<lambda>c. c \<noteq> CHR 0x0A)))]"

definition traceback_frame_pattern :: regex where
  "traceback_frame_pattern = seqs
     [plus_re (Cls (\<lambda>c. c \<noteq> CHR 0x0A)), lit ''.py:'', plus_re (Cls is_digit), lit '': in '', plus_re (Cls (\<lambda>c. \<not> is_space c))]"

text \<open>\<open>re.findall\<close> for a pattern with one group that never matches the empty string.\<close>

fun find_all_from :: "nat \<Rightarrow> regex \<Rightarrow> string \<Rightarrow> string \<Rightarrow> string list" where
  "find_all_from 0 r p w = []"
| "find_all_from (Suc k) r p [] = []"
| "find_all_from (Suc k) r p (c # w) =
     (case matches r (p, c # w, []) of
        [] \<Rightarrow> find_all_from k r (c # p) w
      | (p', w', g) # _ \<Rightarrow> snd (hd g) # find_all_from k r p' w')"

definition find_all :: "regex \<Rightarrow> string \<Rightarrow> string list" where
  "find_all r s = find_all_from (length s) r [] s"

definition line_number_pattern :: regex where
  "line_number_pattern = seqs
     [lit '':'', Grp ''1'' (plus_re (Cls is_digit)), alts [lit '':'', Cls is_space, NotAhead (\<lambda>_. True)]]"

definition line_word_pattern :: regex where
  "line_word_pattern = seqs [WordB, lit_ci ''line'', plus_re (Cls is_space), Grp ''1'' (plus_re (Cls is_digit)), WordB]"

text \<open>An empty detail counts as none.\<close>

definition detail_lines :: "ExecutionResult \<Rightarrow> string list" where
  "detail_lines r = (case er_detail r of None \<Rightarrow> [] | Some d \<Rightarrow> split_lines d)"

definition has_detail :: "ExecutionResult \<Rightarrow> bool" where
  "has_detail r = (case er_detail r of None \<Rightarrow> False | Some d \<Rightarrow> d \<noteq> [])"

definition nonempty :: "string \<Rightarrow> string option" where
  "nonempty s = (if s = [] then None else Some s)"

definition assertion_observation :: "ExecutionResult \<Rightarrow> string option" where
  "assertion_observation r =
     (if er_status r \<noteq> ASSERTION_FAILED \<or> \<not> has_detail r then None
      else let explanation = map (\<lambda>line. strip (tl (strip line))) (filter (\<lambda>line. startswith (strip line) ''E '') (detail_lines r)) in
           if explanation = [] then None
           else nonempty (sanitize_observed_value (join '' | '' (filter (\<lambda>part. part \<noteq> []) explanation)) 400))"

definition path_markers :: "string \<Rightarrow> string list" where
  "path_markers path = [path, map (\<lambda>c. if c = CHR ''/'' then CHR 0x5C else c) path, after_last (CHR ''/'') path]"

definition mentions :: "string list \<Rightarrow> string \<Rightarrow> bool" where
  "mentions markers line = list_ex (contains line) markers"

definition production_frame :: "ExecutionResult \<Rightarrow> CandidateAttempt \<Rightarrow> string option" where
  "production_frame r attempt =
     (case at_validated attempt of
        None \<Rightarrow> None
      | Some v \<Rightarrow>
          (if \<not> has_detail r then None
           else let frames = map strip (filter (\<lambda>line. match_start traceback_frame_pattern (strip line) \<noteq> None
                                \<and> \<not> mentions (path_markers (ta_relative_path (vc_artifact v))) line) (detail_lines r)) in
                if frames = [] then None else nonempty (sanitize_feedback_text (last frames) 200)))"

definition exception_of_line :: "string \<Rightarrow> (string \<times> string) option" where
  "exception_of_line line =
     (case fullmatch exception_line_pattern (strip line) of
        None \<Rightarrow> None
      | Some g \<Rightarrow> (case (map_of g ''type'', map_of g ''message'') of
                     (Some t, Some m) \<Rightarrow> Some (sanitize_feedback_text t 120, sanitize_feedback_text m 240)
                   | _ \<Rightarrow> None))"

definition first_some :: "('a \<Rightarrow> 'b option) \<Rightarrow> 'a list \<Rightarrow> 'b option" where
  "first_some f xs = (case List.map_filter f xs of [] \<Rightarrow> None | y # _ \<Rightarrow> Some y)"

definition execution_exception :: "ExecutionResult \<Rightarrow> (string \<times> string) option" where
  "execution_exception r =
     (if er_status r \<noteq> TEST_ERROR \<or> \<not> has_detail r then None else first_some exception_of_line (detail_lines r))"

definition line_of_report :: "string list \<Rightarrow> string list \<Rightarrow> string \<Rightarrow> (nat \<times> string) option" where
  "line_of_report markers source_lines traceback_line =
     (if \<not> mentions markers traceback_line then None
      else let ms = find_all line_number_pattern traceback_line;
               ms = (if ms = [] then find_all line_word_pattern traceback_line else ms) in
           if ms = [] then None
           else case py_int (last ms) of
             None \<Rightarrow> None
           | Some n \<Rightarrow>
               (if 1 \<le> n \<and> n \<le> int (length source_lines)
                then Some (nat n, or_str (sanitize_feedback_text (strip (source_lines ! (nat n - 1))) 160) ''<blank>'')
                else None))"

definition generated_failing_line :: "ExecutionResult \<Rightarrow> CandidateAttempt \<Rightarrow> (nat \<times> string) option" where
  "generated_failing_line r attempt =
     (case (at_proposal attempt, at_validated attempt) of
        (Some p, Some v) \<Rightarrow>
          (if \<not> has_detail r then None
           else first_some (line_of_report (path_markers (ta_relative_path (vc_artifact v))) (split_lines (tp_source p))) (detail_lines r))
      | _ \<Rightarrow> None)"

definition execution_observation :: "RevisionRole \<Rightarrow> ExecutionResult \<Rightarrow> CandidateAttempt \<Rightarrow> (string \<times> string) option \<Rightarrow> string" where
  "execution_observation role r attempt exception =
     take 900 (join ''; ''
       ([str_role role @ '' status='' @ str_status (er_status r)]
        @ (case exception of None \<Rightarrow> [] | Some (t, m) \<Rightarrow> [''exception_type='' @ t, ''message='' @ or_str m ''<empty>''])
        @ (case assertion_observation r of None \<Rightarrow> [] | Some obs \<Rightarrow> [''observed='' @ obs])
        @ (case generated_failing_line r attempt of None \<Rightarrow> [] | Some (n, source) \<Rightarrow> [''generated_line='' @ str_nat n @ '':'' @ source])
        @ (case production_frame r attempt of None \<Rightarrow> [] | Some frame \<Rightarrow> [''repository_frame='' @ frame])))"


section \<open>Feedback\<close>

definition EXCEPTION_TO_OBSERVABLE_GUIDANCE :: string where
  "EXCEPTION_TO_OBSERVABLE_GUIDANCE =
     ''Exactly one revision let an exception escape. That is a real behavioral difference, '' @
     ''but an escaping exception is not assertion evidence, so it cannot support a claim. '' @
     ''Rewrite the same scenario so both outcomes become one observed value and assert on '' @
     ''it, for example: observed = ('' @
     [CHR 0x27] @
     ''ok'' @
     [CHR 0x27] @
     '', repr(operation())) inside try, and '' @
     ''observed = ('' @
     [CHR 0x27] @
     ''error'' @
     [CHR 0x27] @
     '', type(error).__name__) in an except clause naming that specific '' @
     ''exception type; then assert observed == <expected HEAD observation>. Keep the same '' @
     ''selected claim and the same trigger. Never catch Exception or BaseException, never '' @
     ''use a bare except, and never swallow an outcome without asserting on it.''"

definition both_passed_guidance :: string where
  "both_passed_guidance =
     ''The same observation occurred on both revisions, so this input does not '' @
     ''reach the changed behavior or does not depend on it. Change the input or '' @
     ''the observed property so the two revisions must differ; do not restate '' @
     ''the same scenario. If repository_frame is absent, the call never entered '' @
     ''the changed code at all.''"

definition both_failed_guidance :: string where
  "both_failed_guidance =
     ''Both revisions failed the same assertion, so the expected value is wrong '' @
     ''rather than the trigger. Use the observed values above to correct the '' @
     ''expectation for HEAD while keeping the same selected claim.''"

definition bool_text :: "bool \<Rightarrow> string" where
  "bool_text b = (if b then ''true'' else ''false'')"

definition comparison_observation :: "ChallengeResult \<Rightarrow> (string \<times> string) option \<Rightarrow> (string \<times> string) option \<Rightarrow> string list" where
  "comparison_observation c base_exception head_exception =
     (if er_status (cr_base c) = TEST_ERROR \<and> er_status (cr_head c) = TEST_ERROR then
        [''same_exception_on_base_and_head='' @ bool_text (base_exception \<noteq> None \<and> head_exception \<noteq> None \<and> base_exception = head_exception)]
      else if ea_mechanical_status (cr_assessment c) = UNCAUGHT_EXCEPTION_ON_ONE_REVISION then [EXCEPTION_TO_OBSERVABLE_GUIDANCE]
      else if ea_pattern (cr_assessment c) = BOTH_PASSED then [both_passed_guidance]
      else if ea_pattern (cr_assessment c) = BOTH_ASSERTION_FAILED then [both_failed_guidance]
      else [])"

definition execution_feedback :: "CandidateAttempt \<Rightarrow> ChallengeResult \<Rightarrow> CandidateFeedback" where
  "execution_feedback attempt c =
     (let base_exception = execution_exception (cr_base c); head_exception = execution_exception (cr_head c) in
      \<lparr>fb_category = ''EXECUTION_EVIDENCE'',
       fb_summary = ''The previous candidate did not produce discriminating BASE/HEAD evidence. '' @
         ''Use only these bounded execution facts to repair the generated test.'',
       fb_observations =
         [execution_observation BASE (cr_base c) attempt base_exception,
          execution_observation HEAD (cr_head c) attempt head_exception,
          ''mechanical_status='' @ str_mechanical (ea_mechanical_status (cr_assessment c))
            @ ''; pattern='' @ str_pattern (ea_pattern (cr_assessment c))]
         @ comparison_observation c base_exception head_exception\<rparr>)"

definition repair_feedback :: "CandidateAttempt \<Rightarrow> ChallengeResult option \<Rightarrow> exn + CandidateFeedback" where
  "repair_feedback attempt challenge =
     (if at_status attempt \<noteq> VALIDATED then
        (if at_issues attempt \<noteq> [] then from_validation_issues (at_issues attempt)
         else mk_CandidateFeedback
           \<lparr>fb_category = ''VALIDATION'', fb_summary = ''The previous candidate did not produce a valid executable artifact.'',
            fb_observations = []\<rparr>)
      else case (challenge, at_validated attempt) of
        (Some c, Some _) \<Rightarrow> mk_CandidateFeedback (execution_feedback attempt c)
      | _ \<Rightarrow> Inl AssertionError)"

section \<open>Feedback of an executed attempt is always well formed\<close>

definition observation_ok :: "string \<Rightarrow> bool" where
  "observation_ok v = (strip v \<noteq> [] \<and> length v \<le> 900)"

lemma strip_nonempty: "\<not> is_space c \<Longrightarrow> strip (c # s) \<noteq> []"
proof -
  assume c: "\<not> is_space c"
  have "dropWhile is_space (rev (c # s)) \<noteq> []" using c by (auto simp: dropWhile_eq_Nil_conv)
  then show ?thesis using c by (simp add: strip_def lstrip_def rstrip_def)
qed


lemma observation_fixed:
  "observation_ok EXCEPTION_TO_OBSERVABLE_GUIDANCE" "observation_ok both_passed_guidance" "observation_ok both_failed_guidance"
  by code_simp+

lemma comparison_observation_ok: "list_all observation_ok (comparison_observation c a b)" "length (comparison_observation c a b) \<le> 2"
  using observation_fixed
  by (auto simp: comparison_observation_def bool_text_def observation_ok_def strip_nonempty is_space_def)

lemma take_join_head: "\<exists>t. take n (join sep (w # ws)) = take n (w @ t)"
proof -
  have "\<exists>t. join sep (w # ws) = w @ t" by (cases ws) auto
  then show ?thesis by metis
qed

lemma execution_observation_ok: "observation_ok (execution_observation role r attempt e)"
proof -
  have "\<exists>t. execution_observation role r attempt e = take 900 ((str_role role @ '' status='' @ str_status (er_status r)) @ t)"
    unfolding execution_observation_def append.simps(2) [of _ "[]"] append.simps(1) by (rule take_join_head)
  then obtain t where "execution_observation role r attempt e = take 900 (str_role role @ t)" by auto
  then show ?thesis by (cases role) (auto simp: observation_ok_def strip_nonempty is_space_def)
qed

lemma status_line_ok:
  "observation_ok (''mechanical_status='' @ str_mechanical m @ ''; pattern='' @ str_pattern p)"
  by (cases m; cases p) (simp_all add: observation_ok_def strip_nonempty is_space_def)

lemma mk_CandidateFeedback_iff:
  "mk_CandidateFeedback f = Inr g \<longleftrightarrow>
     g = f \<and> len_between 1 80 (fb_category f) \<and> len_between 1 1500 (fb_summary f)
     \<and> length (fb_observations f) \<le> 5 \<and> list_all observation_ok (fb_observations f)"
  by (auto simp: mk_CandidateFeedback_def guard_simps list_ex_iff list_all_iff observation_ok_def not_less simp del: checks.simps)

lemma execution_feedback_ok: "mk_CandidateFeedback (execution_feedback attempt c) = Inr (execution_feedback attempt c)"
  using execution_observation_ok comparison_observation_ok status_line_ok
  by (simp add: mk_CandidateFeedback_iff execution_feedback_def Let_def len_between_def)

lemma issue_text_ok: "len_between 1 500 (vi_message i) \<Longrightarrow> observation_ok (issue_text i)"
  by (cases "vi_code i") (simp_all add: issue_text_def observation_ok_def len_between_def strip_nonempty is_space_def)

text \<open>
  Whatever the executions printed, the feedback of an attempt that was executed, or rejected for bounded
  issues, is accepted by its constructor: asking for a repair never raises.
\<close>

definition executed_if_valid :: "CandidateAttempt \<Rightarrow> ChallengeResult option \<Rightarrow> bool" where
  "executed_if_valid attempt challenge =
     (at_status attempt = VALIDATED \<longrightarrow> at_validated attempt \<noteq> None \<and> challenge \<noteq> None)"

lemma repair_feedback_total:
  assumes "executed_if_valid attempt challenge" "list_all (\<lambda>i. len_between 1 500 (vi_message i)) (at_issues attempt)"
  shows "is_ok (repair_feedback attempt challenge)"
proof (cases "at_status attempt = VALIDATED")
  case True
  then show ?thesis using assms(1) execution_feedback_ok by (auto simp: executed_if_valid_def repair_feedback_def)
next
  case False
  have "list_all observation_ok (map issue_text (take 4 (at_issues attempt)))"
    using assms(2) issue_text_ok by (auto simp: list_all_iff dest!: in_set_takeD)
  then show ?thesis using False
    by (auto simp: repair_feedback_def from_validation_issues_def is_ok_iff mk_CandidateFeedback_iff len_between_def)
qed

end
