(* ===== verification/EvidenceReport.thy ===== *)
theory EvidenceReport
  imports CandidateGeneration Challenge Workflow
begin

text \<open>
  The documents of \<open>src/patchproof/evidence_workflow.py\<close>: what is kept of an attempt, an execution and
  an evaluation, the immutable report with its validator, the check of a semantic decision against the
  mechanical facts, and the two ways a report is made. The type of an investigation transcript is a
  parameter. A field's \<open>pattern\<close> has no anchors and pydantic searches it, so a hash is found anywhere.
\<close>

section \<open>Semantic decisions\<close>

datatype AssertionRelation = RELATED | UNCERTAIN

record SemanticEvidenceDecision =
  sm_outcome :: ClaimOutcome
  sm_assertion_relation :: AssertionRelation
  sm_explanation :: string
  sm_confidence :: rat

definition mk_SemanticEvidenceDecision :: "SemanticEvidenceDecision \<Rightarrow> exn + SemanticEvidenceDecision" where
  "mk_SemanticEvidenceDecision d =
     rbind (checks
       [(\<not> len_between 1 1000 (sm_explanation d), ValidationError ''explanation''),
        (\<not> (0 \<le> sm_confidence d \<and> sm_confidence d \<le> 1), ValidationError ''confidence'')]) (\<lambda>_. Inr d)"

record SemanticAssessmentResult =
  sa_decision :: SemanticEvidenceDecision
  sa_usage :: model_usage
  sa_raw_response_sha256 :: string

definition mk_SemanticAssessmentResult :: "SemanticAssessmentResult \<Rightarrow> exn + SemanticAssessmentResult" where
  "mk_SemanticAssessmentResult a =
     (if \<not> search sha256_pattern (sa_raw_response_sha256 a) then Inl (ValidationError ''raw_response_sha256'') else Inr a)"

definition allowed_outcomes :: "DifferentialPattern \<Rightarrow> ClaimOutcome list" where
  "allowed_outcomes pattern =
     ClaimOutcome.INSUFFICIENT_EVIDENCE #
       (if pattern = BASE_ASSERTION_FAILED_HEAD_PASSED then [CLAIM_SUPPORTED_FOR_SCENARIO]
        else if pattern = BASE_PASSED_HEAD_ASSERTION_FAILED then [POTENTIAL_REGRESSION] else [])"

definition validate_semantic_decision :: "ChallengeResult \<Rightarrow> SemanticEvidenceDecision \<Rightarrow> exn + unit" where
  "validate_semantic_decision challenge decision =
     checks
       [(sm_outcome decision \<notin> set (allowed_outcomes (ea_pattern (cr_assessment challenge))),
         ValueError ''semantic assessment contradicts mechanical BASE/HEAD evidence''),
        (sm_outcome decision \<noteq> ClaimOutcome.INSUFFICIENT_EVIDENCE \<and> sm_assertion_relation decision \<noteq> RELATED,
         ValueError ''claim conclusion requires a related assertion'')]"

section \<open>Evidence documents\<close>

fun str_origin :: "CandidateOrigin \<Rightarrow> string" where
  "str_origin INITIAL = ''INITIAL''"
| "str_origin REPAIR = ''REPAIR''"

fun str_attempt_status :: "CandidateAttemptStatus \<Rightarrow> string" where
  "str_attempt_status VALIDATED = ''VALIDATED''"
| "str_attempt_status REJECTED = ''REJECTED''"
| "str_attempt_status INVALID_MODEL_OUTPUT = ''INVALID_MODEL_OUTPUT''"

record CandidateAttemptEvidence =
  ae_sequence :: nat
  ae_origin :: string
  ae_status :: string
  ae_parent_candidate_id :: "string option"
  ae_parent_artifact_sha256 :: "string option"
  ae_candidate_id :: "string option"
  ae_target_path :: "string option"
  ae_test_function :: "string option"
  ae_source :: "string option"
  ae_rationale :: "string option"
  ae_artifact_sha256 :: "string option"
  ae_behavior_fingerprint :: "string option"
  ae_signature_context_count :: nat
  ae_signature_context_truncated :: bool
  ae_signature_context_sha256 :: string
  ae_issues :: "string list"
  ae_feedback :: "CandidateFeedback option"
  ae_usage :: model_usage
  ae_raw_response_sha256 :: string

definition mk_CandidateAttemptEvidence :: "CandidateAttemptEvidence \<Rightarrow> exn + CandidateAttemptEvidence" where
  "mk_CandidateAttemptEvidence a =
     rbind (checks
       [(\<not> (1 \<le> ae_sequence a \<and> ae_sequence a \<le> 3), ValidationError ''sequence''),
        (\<not> max_len_opt 16000 (ae_source a), ValidationError ''source''),
        (\<not> (case ae_behavior_fingerprint a of None \<Rightarrow> True | Some h \<Rightarrow> search sha256_pattern h), ValidationError ''behavior_fingerprint''),
        (8 < ae_signature_context_count a, ValidationError ''signature_context_count''),
        (\<not> search sha256_pattern (ae_signature_context_sha256 a), ValidationError ''signature_context_sha256''),
        (8 < length (ae_issues a), ValidationError ''issues'')]) (\<lambda>_. Inr a)"

definition attempt_evidence :: "CandidateAttempt \<Rightarrow> exn + CandidateAttemptEvidence" where
  "attempt_evidence a =
     (let proposal = at_proposal a in
      mk_CandidateAttemptEvidence
        \<lparr>ae_sequence = at_sequence a, ae_origin = str_origin (at_origin a), ae_status = str_attempt_status (at_status a),
         ae_parent_candidate_id = at_parent_candidate_id a, ae_parent_artifact_sha256 = at_parent_artifact_sha256 a,
         ae_candidate_id = map_option tp_candidate_id proposal, ae_target_path = map_option tp_target_path proposal,
         ae_test_function = map_option tp_test_function proposal, ae_source = map_option tp_source proposal,
         ae_rationale = map_option tp_rationale proposal,
         ae_artifact_sha256 = map_option (\<lambda>v. ta_sha256 (vc_artifact v)) (at_validated a),
         ae_behavior_fingerprint = at_behavior_fingerprint a,
         ae_signature_context_count = at_signature_context_count a,
         ae_signature_context_truncated = at_signature_context_truncated a,
         ae_signature_context_sha256 = at_signature_context_sha256 a,
         ae_issues = map issue_text (at_issues a), ae_feedback = at_feedback a, ae_usage = at_usage a,
         ae_raw_response_sha256 = at_raw_response_sha256 a\<rparr>)"

record ExecutionEvidence =
  xe_role :: string
  xe_revision_sha :: string
  xe_test_node_id :: string
  xe_expected_artifact_sha256 :: string
  xe_artifact_sha256_before :: "string option"
  xe_artifact_sha256_after :: "string option"
  xe_status :: string
  xe_collected_count :: int
  xe_exit_code :: "int option"
  xe_duration_seconds :: seconds
  xe_stdout :: string
  xe_stderr :: string
  xe_detail :: "string option"

definition mk_ExecutionEvidence :: "ExecutionEvidence \<Rightarrow> exn + ExecutionEvidence" where
  "mk_ExecutionEvidence e =
     rbind (checks
       [(xe_collected_count e < 0, ValidationError ''collected_count''),
        (xe_duration_seconds e < 0, ValidationError ''duration_seconds''),
        (12000 < length (xe_stdout e), ValidationError ''stdout''),
        (12000 < length (xe_stderr e), ValidationError ''stderr''),
        (\<not> max_len_opt 2000 (xe_detail e), ValidationError ''detail'')]) (\<lambda>_. Inr e)"

definition execution_evidence :: "ExecutionResult \<Rightarrow> exn + ExecutionEvidence" where
  "execution_evidence r =
     mk_ExecutionEvidence
       \<lparr>xe_role = str_role (rev_role (er_revision r)), xe_revision_sha = rev_sha (er_revision r),
        xe_test_node_id = er_test_node_id r, xe_expected_artifact_sha256 = er_expected_sha256 r,
        xe_artifact_sha256_before = er_sha256_before r, xe_artifact_sha256_after = er_sha256_after r,
        xe_status = str_status (er_status r), xe_collected_count = er_collected_count r, xe_exit_code = er_exit_code r,
        xe_duration_seconds = er_duration_seconds r, xe_stdout = take 12000 (er_stdout r), xe_stderr = take 12000 (er_stderr r),
        xe_detail = (case er_detail r of None \<Rightarrow> None | Some d \<Rightarrow> if d = [] then None else Some (take 2000 d))\<rparr>"

record CandidateEvaluationEvidence =
  ce_attempt_sequence :: nat
  ce_artifact_sha256 :: string
  ce_base_execution :: ExecutionEvidence
  ce_head_execution :: ExecutionEvidence
  ce_mechanical_status :: MechanicalEvidenceStatus
  ce_differential_pattern :: DifferentialPattern
  ce_mechanical_reason :: string

definition evaluation_evidence :: "nat \<Rightarrow> ChallengeResult \<Rightarrow> exn + CandidateEvaluationEvidence" where
  "evaluation_evidence attempt_sequence c =
     rbind (execution_evidence (cr_base c)) (\<lambda>b.
     rbind (execution_evidence (cr_head c)) (\<lambda>h.
     rbind (checks
       [(\<not> (1 \<le> attempt_sequence \<and> attempt_sequence \<le> 3), ValidationError ''attempt_sequence''),
        (\<not> len_between 1 2000 (ea_reason (cr_assessment c)), ValidationError ''mechanical_reason'')]) (\<lambda>_.
     Inr \<lparr>ce_attempt_sequence = attempt_sequence, ce_artifact_sha256 = ta_sha256 (cr_artifact c), ce_base_execution = b,
          ce_head_execution = h, ce_mechanical_status = ea_mechanical_status (cr_assessment c),
          ce_differential_pattern = ea_pattern (cr_assessment c), ce_mechanical_reason = ea_reason (cr_assessment c)\<rparr>)))"

record EnvironmentReadinessEvidence =
  rv_status :: EnvironmentReadinessStatus
  rv_reason :: string

definition from_domain :: "EnvironmentReadiness \<Rightarrow> exn + EnvironmentReadinessEvidence" where
  "from_domain r =
     (let reason = take 2000 (rd_reason r) in
      if reason = [] then Inl (ValidationError ''reason'') else Inr \<lparr>rv_status = rd_status r, rv_reason = reason\<rparr>)"

record 't EvidenceReport =
  rp_schema_version :: int
  rp_run_id :: uuid
  rp_repository :: string
  rp_pr_number :: int
  rp_base_sha :: string
  rp_head_sha :: string
  rp_claim_disposition :: ClaimSelectionDisposition
  rp_claim :: "BehavioralClaim option"
  rp_claim_usage :: model_usage
  rp_claim_response_sha256 :: string
  rp_environment_readiness :: "EnvironmentReadinessEvidence option"
  rp_investigation_transcript :: "'t option"
  rp_candidate_attempts :: "CandidateAttemptEvidence list"
  rp_candidate_evaluations :: "CandidateEvaluationEvidence list"
  rp_selected_artifact_sha256 :: "string option"
  rp_base_execution :: "ExecutionEvidence option"
  rp_head_execution :: "ExecutionEvidence option"
  rp_mechanical_status :: MechanicalEvidenceStatus
  rp_differential_pattern :: DifferentialPattern
  rp_mechanical_reason :: string
  rp_semantic_assessment :: "SemanticAssessmentResult option"
  rp_claim_outcome :: ClaimOutcome
  rp_conclusion :: string
  rp_created_at :: utc

definition mk_EvidenceReport :: "'t EvidenceReport \<Rightarrow> exn + 't EvidenceReport" where
  "mk_EvidenceReport r =
     rbind (checks
       [(rp_pr_number r \<le> 0, ValidationError ''pr_number''),
        (3 < length (rp_candidate_attempts r), ValidationError ''candidate_attempts''),
        (3 < length (rp_candidate_evaluations r), ValidationError ''candidate_evaluations''),
        (\<not> len_between 1 2000 (rp_mechanical_reason r), ValidationError ''mechanical_reason''),
        (\<not> len_between 1 2000 (rp_conclusion r), ValidationError ''conclusion''),
        ((rp_base_execution r = None) \<noteq> (rp_head_execution r = None),
         ValidationError ''BASE and HEAD evidence must be present or absent together''),
        (rp_mechanical_status r = DISCRIMINATING \<and> (rp_base_execution r = None \<or> rp_semantic_assessment r = None),
         ValidationError ''discriminating evidence requires executions and interpretation''),
        (rp_claim r = None \<and> rp_claim_outcome r \<noteq> ClaimOutcome.INSUFFICIENT_EVIDENCE,
         ValidationError ''claim abstention can only conclude insufficient evidence'')]) (\<lambda>_. Inr r)"

section \<open>Making a report\<close>

definition conclusion :: "ClaimOutcome \<Rightarrow> BehavioralClaim \<Rightarrow> string" where
  "conclusion outcome claim =
     (if outcome = CLAIM_SUPPORTED_FOR_SCENARIO then
        ''The generated scenario supports claim '' @ cl_claim_id claim @ '': '' @ cl_summary claim
          @ ''. This is claim-scoped evidence, not verification of the pull request as a whole.''
      else if outcome = POTENTIAL_REGRESSION then
        ''The generated scenario indicates a potential regression for claim '' @ cl_claim_id claim @ '': '' @ cl_summary claim @ ''.''
      else ''PatchProof found insufficient evidence for claim '' @ cl_claim_id claim @ ''.'')"

definition workflow_now :: "('w, exn, datetime) prog \<Rightarrow> ('w, exn, utc) prog" where
  "workflow_now clock =
     pbind clock (\<lambda>now. plift (to_utc (ValueError ''workflow clock must return a timezone-aware timestamp'') now))"

definition completed_report ::
    "('w, exn, datetime) prog \<Rightarrow> VerificationRun \<Rightarrow> ClaimAgentResult \<Rightarrow> CandidateAttempt list \<Rightarrow> CandidateEvaluationEvidence list
     \<Rightarrow> ChallengeResult \<Rightarrow> SemanticAssessmentResult \<Rightarrow> EnvironmentReadinessEvidence \<Rightarrow> 't option
     \<Rightarrow> ('w, exn, 't EvidenceReport) prog" where
  "completed_report clock vrun claim_result attempts evaluations challenge semantic readiness transcript =
     (case se_claim (ca_selection claim_result) of
        None \<Rightarrow> praise AssertionError
      | Some claim \<Rightarrow>
          pbind (plift (rmap attempt_evidence attempts)) (\<lambda>attempt_documents.
          pbind (plift (execution_evidence (cr_base challenge))) (\<lambda>b.
          pbind (plift (execution_evidence (cr_head challenge))) (\<lambda>h.
          pbind (workflow_now clock) (\<lambda>now.
          plift (mk_EvidenceReport
            \<lparr>rp_schema_version = 1, rp_run_id = vr_run_id vrun, rp_repository = vr_repository vrun, rp_pr_number = vr_pr_number vrun,
             rp_base_sha = vr_base_sha vrun, rp_head_sha = vr_head_sha vrun,
             rp_claim_disposition = se_disposition (ca_selection claim_result), rp_claim = Some claim,
             rp_claim_usage = ca_usage claim_result, rp_claim_response_sha256 = ca_raw_response_sha256 claim_result,
             rp_environment_readiness = Some readiness, rp_investigation_transcript = transcript,
             rp_candidate_attempts = attempt_documents, rp_candidate_evaluations = evaluations,
             rp_selected_artifact_sha256 = Some (ta_sha256 (cr_artifact challenge)),
             rp_base_execution = Some b, rp_head_execution = Some h,
             rp_mechanical_status = ea_mechanical_status (cr_assessment challenge),
             rp_differential_pattern = ea_pattern (cr_assessment challenge),
             rp_mechanical_reason = ea_reason (cr_assessment challenge), rp_semantic_assessment = Some semantic,
             rp_claim_outcome = sm_outcome (sa_decision semantic),
             rp_conclusion = conclusion (sm_outcome (sa_decision semantic)) claim, rp_created_at = now\<rparr>))))))"

definition optional_execution :: "(ChallengeResult \<Rightarrow> ExecutionResult) \<Rightarrow> ChallengeResult option \<Rightarrow> exn + ExecutionEvidence option" where
  "optional_execution side challenge =
     (case challenge of None \<Rightarrow> Inr None | Some c \<Rightarrow> rbind (execution_evidence (side c)) (\<lambda>e. Inr (Some e)))"

definition abstention_report ::
    "('w, exn, datetime) prog \<Rightarrow> VerificationRun \<Rightarrow> ClaimAgentResult \<Rightarrow> CandidateAttempt list \<Rightarrow> CandidateEvaluationEvidence list
     \<Rightarrow> MechanicalEvidenceStatus \<Rightarrow> string \<Rightarrow> ChallengeResult option \<Rightarrow> EnvironmentReadinessEvidence option \<Rightarrow> 't option
     \<Rightarrow> ('w, exn, 't EvidenceReport) prog" where
  "abstention_report clock vrun claim_result attempts evaluations mechanical_status reason challenge readiness transcript =
     pbind (plift (rmap attempt_evidence attempts)) (\<lambda>attempt_documents.
     pbind (plift (optional_execution cr_base challenge)) (\<lambda>b.
     pbind (plift (optional_execution cr_head challenge)) (\<lambda>h.
     pbind (workflow_now clock) (\<lambda>now.
     plift (mk_EvidenceReport
       \<lparr>rp_schema_version = 1, rp_run_id = vr_run_id vrun, rp_repository = vr_repository vrun, rp_pr_number = vr_pr_number vrun,
        rp_base_sha = vr_base_sha vrun, rp_head_sha = vr_head_sha vrun,
        rp_claim_disposition = se_disposition (ca_selection claim_result), rp_claim = se_claim (ca_selection claim_result),
        rp_claim_usage = ca_usage claim_result, rp_claim_response_sha256 = ca_raw_response_sha256 claim_result,
        rp_environment_readiness = readiness, rp_investigation_transcript = transcript,
        rp_candidate_attempts = attempt_documents, rp_candidate_evaluations = evaluations,
        rp_selected_artifact_sha256 = map_option (\<lambda>c. ta_sha256 (cr_artifact c)) challenge,
        rp_base_execution = b, rp_head_execution = h, rp_mechanical_status = mechanical_status,
        rp_differential_pattern = (case challenge of None \<Rightarrow> NOT_COMPARABLE | Some c \<Rightarrow> ea_pattern (cr_assessment c)),
        rp_mechanical_reason = take 2000 reason, rp_semantic_assessment = None,
        rp_claim_outcome = ClaimOutcome.INSUFFICIENT_EVIDENCE,
        rp_conclusion =
          (if se_claim (ca_selection claim_result) \<noteq> None
           then ''PatchProof found insufficient evidence for the selected claim and abstained.''
           else ''PatchProof could not select a sufficiently grounded claim and abstained.''),
        rp_created_at = now\<rparr>)))))"


section \<open>What a report may conclude\<close>

text \<open>An execution of the artifact with hash \<open>sha\<close>, whose bytes were the same before and after it.\<close>

definition execution_shows :: "RevisionRole \<Rightarrow> string \<Rightarrow> TestExecutionStatus \<Rightarrow> ExecutionEvidence \<Rightarrow> bool" where
  "execution_shows role sha status e =
     (xe_role e = str_role role \<and> xe_status e = str_status status \<and> xe_expected_artifact_sha256 e = sha
      \<and> xe_artifact_sha256_before e = Some sha \<and> xe_artifact_sha256_after e = Some sha)"

definition expected_statuses :: "ClaimOutcome \<Rightarrow> (TestExecutionStatus \<times> TestExecutionStatus) option" where
  "expected_statuses outcome =
     (if outcome = CLAIM_SUPPORTED_FOR_SCENARIO then Some (ASSERTION_FAILED, PASSED)
      else if outcome = POTENTIAL_REGRESSION then Some (PASSED, ASSERTION_FAILED) else None)"

text \<open>
  A conclusion other than insufficient evidence: the claim, a discriminating pair of executions of one
  artifact with the statuses of that conclusion, and a related assertion judged to that conclusion.
\<close>

definition conclusion_grounded :: "'t EvidenceReport \<Rightarrow> bool" where
  "conclusion_grounded r =
     (\<exists>b h sha node sb sh s.
        rp_claim r \<noteq> None \<and> rp_mechanical_status r = DISCRIMINATING
        \<and> rp_base_execution r = Some b \<and> rp_head_execution r = Some h \<and> rp_selected_artifact_sha256 r = Some sha
        \<and> expected_statuses (rp_claim_outcome r) = Some (sb, sh)
        \<and> execution_shows BASE sha sb b \<and> execution_shows HEAD sha sh h
        \<and> xe_test_node_id b = node \<and> xe_test_node_id h = node
        \<and> rp_semantic_assessment r = Some s \<and> sm_outcome (sa_decision s) = rp_claim_outcome r
        \<and> sm_assertion_relation (sa_decision s) = RELATED)"

definition report_sound :: "'t EvidenceReport \<Rightarrow> bool" where
  "report_sound r = (rp_claim_outcome r = ClaimOutcome.INSUFFICIENT_EVIDENCE \<or> conclusion_grounded r)"

text \<open>The report is about the run's pull request and revisions.\<close>

definition report_of :: "VerificationRun \<Rightarrow> 't EvidenceReport \<Rightarrow> bool" where
  "report_of r report =
     (rp_run_id report = vr_run_id r \<and> rp_repository report = vr_repository r \<and> rp_pr_number report = vr_pr_number r
      \<and> rp_base_sha report = vr_base_sha r \<and> rp_head_sha report = vr_head_sha r)"

lemma mk_EvidenceReport_eq: "mk_EvidenceReport r = Inr r' \<Longrightarrow> r' = r"
  by (auto simp: mk_EvidenceReport_def guard_simps simp del: checks.simps)

lemma execution_evidence_eq:
  "execution_evidence r = Inr e \<Longrightarrow>
     xe_role e = str_role (rev_role (er_revision r)) \<and> xe_test_node_id e = er_test_node_id r
     \<and> xe_expected_artifact_sha256 e = er_expected_sha256 r \<and> xe_artifact_sha256_before e = er_sha256_before r
     \<and> xe_artifact_sha256_after e = er_sha256_after r \<and> xe_status e = str_status (er_status r)"
  by (auto simp: execution_evidence_def mk_ExecutionEvidence_def guard_simps simp del: checks.simps)

lemma abstention_report_returns:
  assumes "abstention_report clock vrun claim_result attempts evaluations m reason challenge readiness transcript w = (Inr r, w')"
  shows "report_sound r \<and> report_of vrun r \<and> rp_mechanical_status r = m"
proof -
  from assms obtain docs b h now where r: "r =
       \<lparr>rp_schema_version = 1, rp_run_id = vr_run_id vrun, rp_repository = vr_repository vrun, rp_pr_number = vr_pr_number vrun,
        rp_base_sha = vr_base_sha vrun, rp_head_sha = vr_head_sha vrun,
        rp_claim_disposition = se_disposition (ca_selection claim_result), rp_claim = se_claim (ca_selection claim_result),
        rp_claim_usage = ca_usage claim_result, rp_claim_response_sha256 = ca_raw_response_sha256 claim_result,
        rp_environment_readiness = readiness, rp_investigation_transcript = transcript,
        rp_candidate_attempts = docs, rp_candidate_evaluations = evaluations,
        rp_selected_artifact_sha256 = map_option (\<lambda>c. ta_sha256 (cr_artifact c)) challenge,
        rp_base_execution = b, rp_head_execution = h, rp_mechanical_status = m,
        rp_differential_pattern = (case challenge of None \<Rightarrow> NOT_COMPARABLE | Some c \<Rightarrow> ea_pattern (cr_assessment c)),
        rp_mechanical_reason = take 2000 reason, rp_semantic_assessment = None,
        rp_claim_outcome = ClaimOutcome.INSUFFICIENT_EVIDENCE,
        rp_conclusion =
          (if se_claim (ca_selection claim_result) \<noteq> None
           then ''PatchProof found insufficient evidence for the selected claim and abstained.''
           else ''PatchProof could not select a sufficiently grounded claim and abstained.''),
        rp_created_at = now\<rparr>"
    unfolding abstention_report_def by (auto simp: guard_simps dest!: mk_EvidenceReport_eq)
  show ?thesis unfolding r report_sound_def report_of_def by simp
qed


text \<open>A challenge whose assessment is the classification of its own executions.\<close>

definition classified :: "ChallengeResult \<Rightarrow> bool" where
  "classified c = (classify (cr_artifact c) (cr_base c) (cr_head c) = Inr (cr_assessment c))"

lemma decision_statuses:
  assumes c: "classified c" "ea_mechanical_status (cr_assessment c) = DISCRIMINATING"
    and d: "validate_semantic_decision c decision = Inr ()" "sm_outcome decision \<noteq> ClaimOutcome.INSUFFICIENT_EVIDENCE"
  shows "expected_statuses (sm_outcome decision) = Some (er_status (cr_base c), er_status (cr_head c))
    \<and> sm_assertion_relation decision = RELATED"
proof -
  from classify_discriminating [OF c(1) [unfolded classified_def] c(2)]
  have p: "ea_pattern (cr_assessment c) = ordinary_pattern (er_status (cr_base c)) (er_status (cr_head c))"
    and ord: "ordinary_status (er_status (cr_base c))" "ordinary_status (er_status (cr_head c))"
    and ne: "er_status (cr_base c) \<noteq> er_status (cr_head c)"
    by (auto simp: comparable_def)
  then show ?thesis using d
    by (auto simp: validate_semantic_decision_def allowed_outcomes_def expected_statuses_def ordinary_status_def ordinary_pattern_def
        simp del: checks.simps split: if_splits)
qed

lemma completed_report_returns:
  assumes c: "classified c" "ea_mechanical_status (cr_assessment c) = DISCRIMINATING"
    and d: "validate_semantic_decision c (sa_decision semantic) = Inr ()"
    and r: "completed_report clock vrun claim_result attempts evaluations c semantic readiness transcript w = (Inr r, w')"
  shows "report_sound r \<and> report_of vrun r"
proof -
  from r obtain claim docs b h now where claim: "se_claim (ca_selection claim_result) = Some claim"
    and b: "execution_evidence (cr_base c) = Inr b" and h: "execution_evidence (cr_head c) = Inr h" and r: "r =
            \<lparr>rp_schema_version = 1, rp_run_id = vr_run_id vrun, rp_repository = vr_repository vrun, rp_pr_number = vr_pr_number vrun,
             rp_base_sha = vr_base_sha vrun, rp_head_sha = vr_head_sha vrun,
             rp_claim_disposition = se_disposition (ca_selection claim_result), rp_claim = Some claim,
             rp_claim_usage = ca_usage claim_result, rp_claim_response_sha256 = ca_raw_response_sha256 claim_result,
             rp_environment_readiness = Some readiness, rp_investigation_transcript = transcript,
             rp_candidate_attempts = docs, rp_candidate_evaluations = evaluations,
             rp_selected_artifact_sha256 = Some (ta_sha256 (cr_artifact c)),
             rp_base_execution = Some b, rp_head_execution = Some h,
             rp_mechanical_status = ea_mechanical_status (cr_assessment c),
             rp_differential_pattern = ea_pattern (cr_assessment c),
             rp_mechanical_reason = ea_reason (cr_assessment c), rp_semantic_assessment = Some semantic,
             rp_claim_outcome = sm_outcome (sa_decision semantic),
             rp_conclusion = conclusion (sm_outcome (sa_decision semantic)) claim, rp_created_at = now\<rparr>"
    unfolding completed_report_def by (auto simp: guard_simps dest!: mk_EvidenceReport_eq split: option.splits)
  from classify_discriminating [OF c(1) [unfolded classified_def] c(2)]
  have s: "right_roles (cr_base c) (cr_head c)" "same_artifact (cr_artifact c) (cr_base c)" "same_artifact (cr_artifact c) (cr_head c)"
    by (auto simp: comparable_def)
  have shows_b: "execution_shows BASE (ta_sha256 (cr_artifact c)) (er_status (cr_base c)) b"
    using execution_evidence_eq [OF b] s
    by (simp add: execution_shows_def right_roles_def same_artifact_def artifact_was_unchanged_def)
  have shows_h: "execution_shows HEAD (ta_sha256 (cr_artifact c)) (er_status (cr_head c)) h"
    using execution_evidence_eq [OF h] s
    by (simp add: execution_shows_def right_roles_def same_artifact_def artifact_was_unchanged_def)
  have node: "xe_test_node_id b = xe_test_node_id h"
    using execution_evidence_eq [OF b] execution_evidence_eq [OF h] s by (simp add: same_artifact_def)
  have "report_sound r"
  proof (cases "sm_outcome (sa_decision semantic) = ClaimOutcome.INSUFFICIENT_EVIDENCE")
    case True
    then show ?thesis by (simp add: report_sound_def r)
  next
    case False
    from decision_statuses [OF c d False] shows_b shows_h node c(2) show ?thesis
      unfolding report_sound_def conclusion_grounded_def r
      by (intro disjI2 exI [of _ b] exI [of _ h] exI [of _ "ta_sha256 (cr_artifact c)"] exI [of _ "xe_test_node_id h"]
          exI [of _ "er_status (cr_base c)"] exI [of _ "er_status (cr_head c)"] exI [of _ semantic]) simp
  qed
  then show ?thesis by (simp add: report_of_def r)
qed

end
