(* ===== verification/EvidenceWorkflow.thy ===== *)
theory EvidenceWorkflow
  imports CandidateValidator RepairFeedback EvidenceReport Reliability
begin

text \<open>
  \<open>EvidenceWorkflow\<close> of \<open>src/patchproof/evidence_workflow.py\<close> over any run store: replay of stored
  evidence, selection of a claim, readiness of the environment, at most three candidates executed and
  assessed, and the report persisted before the run becomes terminal. Its state is the challenge's world
  and the store. The challenge is an interface, as in the code: the local one opens worktrees and runs
  \<open>pytest\<close> in them, the deployed one asks a private executor.
\<close>

section \<open>Challenges\<close>

text \<open>
  A session executes artifacts on the same two revisions; the callback of a run acts on the caller's
  state. The local world has the runner's memo of prepared worktrees beside it.
\<close>

record ('w, 's) challenge_session =
  sx_prepare_environment :: "('w, exn, EnvironmentReadiness) prog"
  sx_run :: "TestArtifact \<Rightarrow> (ExecutionResult \<Rightarrow> ('s, exn, unit) prog) \<Rightarrow> ('w \<times> 's, exn, ChallengeResult) prog"
  sx_import_roots :: "'w \<Rightarrow> string set"

record ('w, 's, 'r) challenge =
  ch_contract :: ExecutionContract
  ch_install_dependencies :: bool
  ch_session :: "string \<Rightarrow> string \<Rightarrow> (('w, VerificationRun \<times> 's) challenge_session \<Rightarrow> ('w \<times> 's, exn, 'r) prog)
     \<Rightarrow> ('w \<times> 's, exn, 'r) prog"

definition local_session ::
    "'w host \<Rightarrow> pytest_runner \<Rightarrow> (string \<Rightarrow> 'w \<Rightarrow> site_entry list list) \<Rightarrow> RevisionWorkspaces \<Rightarrow> ('w session_state, 's) challenge_session" where
  "local_session host rn sites pair =
     \<lparr>sx_prepare_environment = session_prepare_environment host rn pair,
      sx_run = session_run host rn pair,
      sx_import_roots = (\<lambda>(w, installed). session_import_roots (sites (rw_base_path pair) w) (sites (rw_head_path pair) w))\<rparr>"

text \<open>\<open>BaseHeadChallenge\<close>; \<open>sites\<close> lists the \<open>site-packages\<close> directories below a worktree.\<close>

definition local_challenge ::
    "'w host \<Rightarrow> 'w git_call \<Rightarrow> string \<Rightarrow> pytest_runner \<Rightarrow> (string \<Rightarrow> 'w \<Rightarrow> site_entry list list)
     \<Rightarrow> ('w session_state, 's, 'r) challenge" where
  "local_challenge host git workspace_root rn sites =
     \<lparr>ch_contract = rn_contract rn, ch_install_dependencies = rn_install_dependencies rn,
      ch_session = (\<lambda>base_ref head_ref body ((w, installed), s).
        case with_pair host git workspace_root base_ref head_ref
               (\<lambda>pair (w, (installed, s)). case body (local_session host rn sites pair) ((w, installed), s) of
                  (r, ((w', i'), s')) \<Rightarrow> (r, (w', (i', s'))))
               (w, (installed, s)) of
          (r, (w', (i', s'))) \<Rightarrow> (r, ((w', i'), s')))\<rparr>"

section \<open>The workflow and its collaborators\<close>

text \<open>
  The challenge, the context retriever, the investigator, the models, the assessor, the clock and the
  report's JSON are arguments.
\<close>

record ('w, 's, 't) evidence_workflow =
  ew_store :: "'s store_ops"
  ew_challenge :: "('w, 's, 't EvidenceReport) challenge"
  ew_yaml :: "bytes \<Rightarrow> contract_document"
  ew_read_committed_file :: "string \<Rightarrow> string \<Rightarrow> ('w, exn, bytes) prog"
  ew_committed_paths :: "string \<Rightarrow> ('w, exn, string list) prog"
  ew_retrieve :: "string \<Rightarrow> string \<Rightarrow> ('w, exn, PullRequestContext) prog"
  ew_retrieve_signatures :: "string \<Rightarrow> PullRequestContext \<Rightarrow> (string \<times> string) list \<Rightarrow> ('w, exn, RepositorySignatureContext) prog"
  ew_investigator :: "(string \<Rightarrow> string \<Rightarrow> PullRequestNarrative \<Rightarrow> string \<Rightarrow> ('w, exn, ClaimAgentResult \<times> 't) prog) option"
  ew_claim_json :: json_library
  ew_claim_agent :: claim_agent
  ew_claim_model :: "PullRequestNarrative \<times> PullRequestContext \<Rightarrow> ('w, exn, RawClaimModelResponse) prog"
  ew_candidate_model :: "'w candidate_model"
  ew_candidate_request_chars :: "CandidateModelRequest \<Rightarrow> nat"
  ew_candidate_loads :: "string \<Rightarrow> (nat \<times> nat) + candidate_json"
  ew_decode_candidate :: "string \<Rightarrow> schema_error list + CandidateTestDraft"
  ew_draft_errors :: "string \<Rightarrow> schema_error list"
  ew_proposal_errors :: "CandidateTestProposal \<Rightarrow> schema_error list"
  ew_python :: python
  ew_assessor :: "BehavioralClaim \<times> string \<times> ChallengeResult \<Rightarrow> ('w, exn, SemanticAssessmentResult) prog"
  ew_clock :: "('w, exn, datetime) prog"
  ew_dump :: "'t EvidenceReport \<Rightarrow> string"
  ew_load :: "string \<Rightarrow> exn + 't EvidenceReport"

type_synonym ('w, 's) workflow_state = "'w \<times> 's"

abbreviation on_world :: "('w, 'e, 'a) prog \<Rightarrow> (('w, 's) workflow_state, 'e, 'a) prog" where
  "on_world m \<equiv> on_fst m"

definition require_current :: "VerificationRun \<Rightarrow> ('s, exn, unit) prog" where
  "require_current vrun =
     pguard (vr_revision_state vrun = RevisionState.CURRENT) (RuntimeError ''superseded verification run cannot execute or publish'')"

definition transition :: "'s store_ops \<Rightarrow> VerificationRun \<Rightarrow> RunTransition \<Rightarrow> ('s, exn, VerificationRun) prog" where
  "transition ops vrun t = so_transition ops (vr_run_id vrun) (vr_version vrun) t"

definition to_lifecycle :: "RunLifecycle \<Rightarrow> RunTransition" where
  "to_lifecycle l = no_transition\<lparr>rt_lifecycle := Some l\<rparr>"

definition to_phase :: "RunPhase \<Rightarrow> RunTransition" where
  "to_phase p = no_transition\<lparr>rt_phase := Some p\<rparr>"

definition terminal_transition :: "'t EvidenceReport \<Rightarrow> RunTransition" where
  "terminal_transition report =
     \<lparr>rt_lifecycle = Some TERMINAL, rt_phase = Some PUBLICATION, rt_terminal_reason = Some COMPLETED,
      rt_mechanical_evidence_status = Some (rp_mechanical_status report), rt_claim_outcome = Some (rp_claim_outcome report),
      rt_publication_state = Some PENDING\<rparr>"

text \<open>Evidence first, then the terminal state.\<close>

definition persist_terminal ::
    "'s store_ops \<Rightarrow> ('t EvidenceReport \<Rightarrow> string) \<Rightarrow> VerificationRun \<Rightarrow> 't EvidenceReport \<Rightarrow> ('s, exn, StoredEvidence) prog" where
  "persist_terminal ops dump vrun report =
     pbind (so_save_evidence ops (vr_run_id vrun) (dump report) (sha256 (utf8 (dump report)))) (\<lambda>stored.
     pbind (so_get_run ops (vr_run_id vrun)) (\<lambda>latest.
     pbind (transition ops latest (terminal_transition report)) (\<lambda>_. preturn stored)))"

definition finish ::
    "('w, 's, 't) evidence_workflow \<Rightarrow> VerificationRun \<Rightarrow> ('w, exn, 't EvidenceReport) prog
     \<Rightarrow> (('w, 's) workflow_state, exn, 't EvidenceReport) prog" where
  "finish ew vrun build =
     pbind (on_world build) (\<lambda>report.
     pbind (on_snd (persist_terminal (ew_store ew) (ew_dump ew) vrun report)) (\<lambda>_. preturn report))"

section \<open>One candidate\<close>

definition candidate_environment_failure :: "ChallengeResult \<Rightarrow> EnvironmentReadiness option" where
  "candidate_environment_failure c =
     (let failure = (\<lambda>role r. Some \<lparr>rd_status = failed_setup role,
          rd_reason = take 2000 (str_role role @ '' repository environment setup failed: ''
            @ (case er_detail r of None \<Rightarrow> ''repository-declared setup failed''
               | Some d \<Rightarrow> or_str d ''repository-declared setup failed'')),
          rd_setup_diagnostic = None\<rparr>) in
      if er_status (cr_base c) = ENVIRONMENT_SETUP_FAILED then failure BASE (cr_base c)
      else if er_status (cr_head c) = ENVIRONMENT_SETUP_FAILED then failure HEAD (cr_head c)
      else None)"

text \<open>\<open>mark_head_execution\<close>, which rebinds the caller's run.\<close>

definition mark_head_execution :: "'s store_ops \<Rightarrow> uuid \<Rightarrow> ExecutionResult \<Rightarrow> (VerificationRun \<times> 's, exn, unit) prog" where
  "mark_head_execution ops run_id base_result =
     pbind (on_snd (so_get_run ops run_id)) (\<lambda>latest.
     pbind (on_snd (require_current latest)) (\<lambda>_ (vrun, s).
       if vr_phase vrun = BASE_EXECUTION then
         (case transition ops vrun (to_phase HEAD_EXECUTION) s of
            (Inl e, s') \<Rightarrow> (Inl e, (vrun, s'))
          | (Inr next_run, s') \<Rightarrow> (Inr (), (next_run, s')))
       else (Inr (), (vrun, s))))"

definition run_challenge ::
    "('w, 's, 't) evidence_workflow \<Rightarrow> uuid \<Rightarrow> ('w, VerificationRun \<times> 's) challenge_session \<Rightarrow> TestArtifact \<Rightarrow> VerificationRun
     \<Rightarrow> (('w, 's) workflow_state, exn, ChallengeResult \<times> VerificationRun) prog" where
  "run_challenge ew run_id session artifact vrun = (\<lambda>(ws, s).
     case sx_run session artifact (mark_head_execution (ew_store ew) run_id) (ws, (vrun, s)) of
       (Inl e, (ws', (vrun', s'))) \<Rightarrow> (Inl e, (ws', s'))
     | (Inr c, (ws', (vrun', s'))) \<Rightarrow> (Inr (c, vrun'), (ws', s')))"

definition advance_for_execution :: "'s store_ops \<Rightarrow> VerificationRun \<Rightarrow> ('s, exn, VerificationRun) prog" where
  "advance_for_execution ops vrun =
     (if vr_phase vrun = TEST_GENERATION then transition ops vrun (to_phase BASE_EXECUTION) else preturn vrun)"

definition advance_to_assessment :: "'s store_ops \<Rightarrow> VerificationRun \<Rightarrow> ('s, exn, VerificationRun) prog" where
  "advance_to_assessment ops vrun =
     (if vr_phase vrun \<noteq> ASSESSMENT then transition ops vrun (to_phase ASSESSMENT) else preturn vrun)"

definition with_assessment_attempts :: "int \<Rightarrow> SemanticAssessmentResult \<Rightarrow> SemanticAssessmentResult" where
  "with_assessment_attempts n a = a\<lparr>sa_usage := (sa_usage a)\<lparr>mu_provider_attempts := n\<rparr>\<rparr>"

text \<open>What stays the same for all candidates of a run.\<close>

record ('w, 's, 't) candidate_phase =
  ph_run_id :: uuid
  ph_claim :: BehavioralClaim
  ph_claim_result :: ClaimAgentResult
  ph_readiness :: EnvironmentReadinessEvidence
  ph_transcript :: "'t option"
  ph_session :: "('w, VerificationRun \<times> 's) challenge_session"
  ph_generator :: generator

text \<open>
  Executing and assessing one attempt: a report ends the run, otherwise the run, the challenge and the
  evaluations go on to the repair.
\<close>

definition run_attempt ::
    "('w, 's, 't) evidence_workflow \<Rightarrow> ('w, 's, 't) candidate_phase \<Rightarrow> VerificationRun \<Rightarrow> CandidateAttempt list
     \<Rightarrow> CandidateEvaluationEvidence list \<Rightarrow> CandidateAttempt
     \<Rightarrow> (('w, 's) workflow_state, exn, 't EvidenceReport + VerificationRun \<times> ChallengeResult option \<times> CandidateEvaluationEvidence list) prog" where
  "run_attempt ew ph vrun attempts evaluations attempt =
     (case at_validated attempt of
        None \<Rightarrow> preturn (Inr (vrun, None, evaluations))
      | Some v \<Rightarrow>
          pbind (on_snd (so_get_run (ew_store ew) (ph_run_id ph))) (\<lambda>latest.
          pbind (require_current latest) (\<lambda>_.
          pbind (on_snd (advance_for_execution (ew_store ew) vrun)) (\<lambda>vrun.
          pbind (run_challenge ew (ph_run_id ph) (ph_session ph) (vc_artifact v) vrun) (\<lambda>(challenge, vrun).
          pbind (plift (evaluation_evidence (at_sequence attempt) challenge)) (\<lambda>evaluation.
          let evaluations = evaluations @ [evaluation] in
          pbind (on_snd (advance_to_assessment (ew_store ew) vrun)) (\<lambda>vrun.
            case candidate_environment_failure challenge of
              Some failure \<Rightarrow>
                pbind (plift (from_domain failure)) (\<lambda>readiness.
                pbind (finish ew vrun (abstention_report (ew_clock ew) vrun (ph_claim_result ph) attempts evaluations ENVIRONMENTAL
                         (rd_reason failure) (Some challenge) (Some readiness) (ph_transcript ph))) (\<lambda>report.
                preturn (Inl report)))
            | None \<Rightarrow>
                (if ea_mechanical_status (cr_assessment challenge) = DISCRIMINATING then
                   pbind (on_world (BoundedRetryingEvidenceAssessor_assess (ew_assessor ew) with_assessment_attempts
                            (ph_claim ph) (tp_source (vc_proposal v)) challenge)) (\<lambda>semantic.
                   pbind (plift (validate_semantic_decision challenge (sa_decision semantic))) (\<lambda>_.
                   pbind (finish ew vrun (completed_report (ew_clock ew) vrun (ph_claim_result ph) attempts evaluations challenge
                            semantic (ph_readiness ph) (ph_transcript ph))) (\<lambda>report.
                   preturn (Inl report))))
                 else preturn (Inr (vrun, Some challenge, evaluations))))))))))"

section \<open>Three candidates\<close>

text \<open>The generator's state is a local of the workflow; a call of it acts on the world.\<close>

definition calling_generator ::
    "(generator_state \<times> 'w, exn, CandidateAttempt) prog \<Rightarrow> generator_state
     \<Rightarrow> (('w, 's) workflow_state, exn, CandidateAttempt \<times> generator_state) prog" where
  "calling_generator m g = on_world (\<lambda>w. case m (g, w) of
       (Inl e, (g', w')) \<Rightarrow> (Inl e, w')
     | (Inr attempt, (g', w')) \<Rightarrow> (Inr (attempt, g'), w'))"

definition with_candidate_attempts :: "int \<Rightarrow> RawCandidateModelResponse \<Rightarrow> RawCandidateModelResponse" where
  "with_candidate_attempts n r = r\<lparr>cm_usage := (cm_usage r)\<lparr>mu_provider_attempts := n\<rparr>\<rparr>"

definition retrying_candidate_model :: "('w, 's, 't) evidence_workflow \<Rightarrow> 'w candidate_model" where
  "retrying_candidate_model ew = BoundedRetryingModel_invoke (ew_candidate_model ew) with_candidate_attempts"

definition give_up ::
    "('w, 's, 't) evidence_workflow \<Rightarrow> ('w, 's, 't) candidate_phase \<Rightarrow> VerificationRun \<Rightarrow> CandidateAttempt list
     \<Rightarrow> CandidateEvaluationEvidence list \<Rightarrow> ChallengeResult option \<Rightarrow> (('w, 's) workflow_state, exn, 't EvidenceReport) prog" where
  "give_up ew ph vrun attempts evaluations challenge =
     finish ew vrun (abstention_report (ew_clock ew) vrun (ph_claim_result ph) attempts evaluations
       (case challenge of Some c \<Rightarrow> ea_mechanical_status (cr_assessment c) | None \<Rightarrow> INVALID_TEST)
       (case challenge of Some c \<Rightarrow> ea_reason (cr_assessment c)
        | None \<Rightarrow> ''All three bounded candidate attempts failed deterministic validation.'')
       challenge (Some (ph_readiness ph)) (ph_transcript ph))"

text \<open>\<open>for attempt_number in range(3)\<close>, with the numbers left as the list.\<close>

fun attempt_loop ::
    "('w, 's, 't) evidence_workflow \<Rightarrow> ('w, 's, 't) candidate_phase \<Rightarrow> nat list \<Rightarrow> VerificationRun \<Rightarrow> generator_state
     \<Rightarrow> CandidateAttempt list \<Rightarrow> CandidateEvaluationEvidence list \<Rightarrow> CandidateAttempt
     \<Rightarrow> (('w, 's) workflow_state, exn, 't EvidenceReport) prog" where
  "attempt_loop ew ph [] vrun g attempts evaluations attempt = give_up ew ph vrun attempts evaluations None"
| "attempt_loop ew ph (attempt_number # numbers) vrun g attempts evaluations attempt =
     pbind (run_attempt ew ph vrun attempts evaluations attempt) (\<lambda>outcome.
       case outcome of
         Inl report \<Rightarrow> preturn report
       | Inr (vrun, challenge, evaluations) \<Rightarrow>
           (if MAX_REPAIRS \<le> attempt_number then give_up ew ph vrun attempts evaluations challenge
            else
              pbind (plift (repair_feedback attempt challenge)) (\<lambda>feedback.
              pbind (calling_generator (repair (ph_generator ph) (retrying_candidate_model ew) feedback) g) (\<lambda>(next_attempt, g).
              attempt_loop ew ph numbers vrun g (attempts @ [next_attempt]) evaluations next_attempt))))"

definition candidate_generator ::
    "('w, 's, 't) evidence_workflow \<Rightarrow> BehavioralClaim \<Rightarrow> PullRequestContext \<Rightarrow> ExecutionContract \<Rightarrow> string set
     \<Rightarrow> RepositorySignatureContext \<Rightarrow> candidate_validator \<Rightarrow> generator" where
  "candidate_generator ew claim context contract existing_paths signatures validator =
     \<lparr>gn_claim = claim, gn_context = context, gn_contract = contract, gn_repository_signatures = signatures,
      gn_max_input_json_chars = 64000, gn_max_response_chars = 20000,
      gn_validate = validate_candidate (ew_python ew) validator context contract existing_paths,
      gn_request_chars = ew_candidate_request_chars ew, gn_loads = ew_candidate_loads ew,
      gn_decode_draft = ew_decode_candidate ew, gn_field_errors = ew_draft_errors ew,
      gn_proposal_errors = ew_proposal_errors ew\<rparr>"

text \<open>The body of the session: readiness, the first candidate, the loop.\<close>

definition verify_claim ::
    "('w, 's, 't) evidence_workflow \<Rightarrow> uuid \<Rightarrow> ExecutionContract \<Rightarrow> string set \<Rightarrow> PullRequestContext \<Rightarrow> ClaimAgentResult \<Rightarrow> BehavioralClaim
     \<Rightarrow> 't option \<Rightarrow> VerificationRun \<Rightarrow> ('w, VerificationRun \<times> 's) challenge_session
     \<Rightarrow> (('w, 's) workflow_state, exn, 't EvidenceReport) prog" where
  "verify_claim ew run_id contract existing_paths context claim_result claim transcript vrun session =
     pbind (on_world (sx_prepare_environment session)) (\<lambda>environment.
     pbind (plift (from_domain environment)) (\<lambda>readiness.
       if \<not> rd_ready environment then
         finish ew vrun (abstention_report (ew_clock ew) vrun claim_result [] [] ENVIRONMENTAL (rd_reason environment) None
           (Some readiness) transcript)
       else
         pbind (on_snd (transition (ew_store ew) vrun (to_phase TEST_GENERATION))) (\<lambda>vrun.
         pbind (on_world (ew_retrieve_signatures ew (vr_head_sha vrun) context
                  (map (\<lambda>s. (as_path s, as_qualified_name s)) (cl_affected_symbols claim)))) (\<lambda>signatures.
         pbind (on_world (pget (sx_import_roots session))) (\<lambda>roots.
         pbind (plift (mk_candidate_validator 16000 roots)) (\<lambda>validator.
         let gn = candidate_generator ew claim context contract existing_paths signatures validator;
             ph = \<lparr>ph_run_id = run_id, ph_claim = claim, ph_claim_result = claim_result, ph_readiness = readiness,
                   ph_transcript = transcript, ph_session = session, ph_generator = gn\<rparr> in
         pbind (calling_generator (generate_initial gn (retrying_candidate_model ew)) new_generator) (\<lambda>(attempt, g).
         attempt_loop ew ph [0..<MAX_CANDIDATE_MODEL_CALLS] vrun g [attempt] [] attempt)))))))"

section \<open>The workflow\<close>

definition replay ::
    "('w, 's, 't) evidence_workflow \<Rightarrow> uuid \<Rightarrow> StoredEvidence \<Rightarrow> (('w, 's) workflow_state, exn, 't EvidenceReport) prog" where
  "replay ew run_id prior =
     pbind (plift (ew_load ew (se_document_json prior))) (\<lambda>report.
     pbind (on_snd (so_get_run (ew_store ew) run_id)) (\<lambda>durable_run.
       if vr_revision_state durable_run = RevisionState.CURRENT \<and> vr_lifecycle durable_run \<noteq> TERMINAL then
         pbind (on_snd (persist_terminal (ew_store ew) (ew_dump ew) durable_run report)) (\<lambda>_. preturn report)
       else preturn report))"

definition load_contract ::
    "('w, 's, 't) evidence_workflow \<Rightarrow> string \<Rightarrow> (('w, 's) workflow_state, exn, ExecutionContract) prog" where
  "load_contract ew sha =
     pbind (on_world (ew_read_committed_file ew sha contract_filename)) (\<lambda>raw. plift (load_bytes (ew_yaml ew) raw))"

definition with_claim_attempts :: "int \<Rightarrow> RawClaimModelResponse \<Rightarrow> RawClaimModelResponse" where
  "with_claim_attempts n r = r\<lparr>cr_usage := (cr_usage r)\<lparr>mu_provider_attempts := n\<rparr>\<rparr>"

text \<open>The investigator when there is one, else the claim agent; a failure's diagnostic travels with the exception.\<close>

definition choose_claim ::
    "('w, 's, 't) evidence_workflow \<Rightarrow> VerificationRun \<Rightarrow> PullRequestContext \<Rightarrow> PullRequestNarrative
     \<Rightarrow> ('w, exn, ClaimAgentResult \<times> 't option) prog" where
  "choose_claim ew vrun context narrative =
     (case ew_investigator ew of
        Some investigate \<Rightarrow>
          pbind (investigate (vr_base_sha vrun) (vr_head_sha vrun) narrative (pc_diff context)) (\<lambda>(result, transcript).
          preturn (result, Some transcript))
      | None \<Rightarrow> (\<lambda>w.
          case select_claim (ew_claim_json ew) (ew_claim_agent ew)
                 (BoundedRetryingModel_invoke (ew_claim_model ew) with_claim_attempts) context narrative w of
            (Inl (e, diagnostic), w') \<Rightarrow> (Inl e, w')
          | (Inr result, w') \<Rightarrow> (Inr (result, None), w')))"

definition start_run :: "'s store_ops \<Rightarrow> VerificationRun \<Rightarrow> ('s, exn, VerificationRun) prog" where
  "start_run ops vrun =
     pbind (if vr_lifecycle vrun = ACCEPTED then transition ops vrun (to_lifecycle QUEUED) else preturn vrun) (\<lambda>vrun.
     if vr_lifecycle vrun = QUEUED then transition ops vrun (to_lifecycle RUNNING) else preturn vrun)"

definition compute ::
    "('w, 's, 't) evidence_workflow \<Rightarrow> uuid \<Rightarrow> (('w, 's) workflow_state, exn, 't EvidenceReport) prog" where
  "compute ew run_id =
     pbind (on_snd (so_get_run (ew_store ew) run_id)) (\<lambda>vrun.
     pbind (require_current vrun) (\<lambda>_.
     pbind (pguard (vr_lifecycle vrun \<noteq> TERMINAL) (RuntimeError ''terminal verification run cannot execute again'')) (\<lambda>_.
     pbind (load_contract ew (vr_base_sha vrun)) (\<lambda>base_contract.
     pbind (load_contract ew (vr_head_sha vrun)) (\<lambda>contract.
     pbind (pguard (base_contract = contract)
              (RuntimeError ''BASE and HEAD execution contracts differ; comparison is unsafe'')) (\<lambda>_.
     pbind (pguard (ch_contract (ew_challenge ew) = contract)
              (RuntimeError ''executor contract does not match the immutable repository contract'')) (\<lambda>_.
     pbind (pguard (ch_install_dependencies (ew_challenge ew))
              (RuntimeError ''Phase 5 execution requires validated dependency installation'')) (\<lambda>_.
     pbind (on_world (ew_committed_paths ew (vr_head_sha vrun))) (\<lambda>existing_paths.
     pbind (on_snd (start_run (ew_store ew) vrun)) (\<lambda>vrun.
     pbind (on_world (ew_retrieve ew (vr_base_sha vrun) (vr_head_sha vrun))) (\<lambda>context.
     pbind (on_snd (transition (ew_store ew) vrun (to_phase CLAIM))) (\<lambda>vrun.
     pbind (plift (from_untrusted (vr_title vrun) (vr_body vrun) [])) (\<lambda>narrative.
     pbind (on_world (choose_claim ew vrun context narrative)) (\<lambda>(claim_result, transcript).
       case se_claim (ca_selection claim_result) of
         None \<Rightarrow>
           finish ew vrun (abstention_report (ew_clock ew) vrun claim_result [] []
             (if se_disposition (ca_selection claim_result) = ClaimSelectionDisposition.COUNTERFACTUAL_NOT_APPLICABLE
              then MechanicalEvidenceStatus.COUNTERFACTUAL_NOT_APPLICABLE else NON_DISCRIMINATING)
             (se_explanation (ca_selection claim_result)) None None transcript)
       | Some claim \<Rightarrow>
           ch_session (ew_challenge ew) (vr_base_sha vrun) (vr_head_sha vrun)
             (verify_claim ew run_id contract (set existing_paths) context claim_result claim transcript vrun)))))))))))))))"

definition execute ::
    "('w, 's, 't) evidence_workflow \<Rightarrow> uuid \<Rightarrow> (('w, 's) workflow_state, exn, 't EvidenceReport) prog" where
  "execute ew run_id =
     pbind (on_snd (so_get_evidence (ew_store ew) run_id)) (\<lambda>prior.
       case prior of Some stored \<Rightarrow> replay ew run_id stored | None \<Rightarrow> compute ew run_id)"

end
