(* ===== verification/EvidenceSoundness.thy ===== *)
theory EvidenceSoundness
  imports EvidenceWorkflow StoreOps
begin

text \<open>
  What the workflow guarantees over any store that keeps the laws of \<open>run_store\<close> and any challenge whose
  sessions classify what they executed: the report it returns is
  about the run's revisions, draws no conclusion its own evidence does not carry, and is stored with its
  hash when the run becomes terminal; stored evidence is replayed without touching the world. The proofs
  use partial-correctness triples over the programs, one rule per construct.
\<close>

section \<open>Triples\<close>

definition triple :: "('s \<Rightarrow> bool) \<Rightarrow> ('s, 'e, 'a) prog \<Rightarrow> ('a \<Rightarrow> 's \<Rightarrow> bool) \<Rightarrow> bool" where
  "triple P m Q = (\<forall>s r t. P s \<longrightarrow> m s = (Inr r, t) \<longrightarrow> Q r t)"

lemma tripleI: "(\<And>s r t. P s \<Longrightarrow> m s = (Inr r, t) \<Longrightarrow> Q r t) \<Longrightarrow> triple P m Q"
  by (simp add: triple_def)

lemma tripleD: "triple P m Q \<Longrightarrow> P s \<Longrightarrow> m s = (Inr r, t) \<Longrightarrow> Q r t"
  by (simp add: triple_def)

lemma triple_pbind: "triple P m Q \<Longrightarrow> (\<And>a. triple (Q a) (f a) R) \<Longrightarrow> triple P (pbind m f) R"
  unfolding triple_def by (auto simp: guard_simps)

lemma triple_pure: "(b \<Longrightarrow> triple P m Q) \<Longrightarrow> triple (\<lambda>s. P s \<and> b) m Q"
  by (auto simp: triple_def)

lemma triple_preturn: "(\<And>s. P s \<Longrightarrow> Q a s) \<Longrightarrow> triple P (preturn a) Q"
  by (simp add: triple_def)

lemma triple_plift: "triple P (plift r) (\<lambda>a s. P s \<and> r = Inr a)"
  by (simp add: triple_def)

lemma triple_pguard: "triple P (pguard b e) (\<lambda>_ s. P s \<and> b)"
  by (cases b) (simp_all add: triple_def)

lemma triple_praise: "triple P (praise e) Q"
  by (simp add: triple_def)

lemma triple_post: "triple P m Q \<Longrightarrow> (\<And>a s. Q a s \<Longrightarrow> R a s) \<Longrightarrow> triple P m R"
  by (auto simp: triple_def)

lemma triple_pre: "triple P m Q \<Longrightarrow> (\<And>s. R s \<Longrightarrow> P s) \<Longrightarrow> triple R m Q"
  by (auto simp: triple_def)

text \<open>A program on the world leaves the store alone; one on the store acts on it only.\<close>

lemma triple_on_fst: "triple (\<lambda>st. J (snd st)) (on_fst m) (\<lambda>_ st. J (snd st))"
  by (auto simp: triple_def guard_simps)

lemma triple_on_snd: "triple J m Q \<Longrightarrow> triple (\<lambda>st. J (snd st)) (on_snd m) (\<lambda>a st. Q a (snd st))"
  by (auto simp: triple_def guard_simps)

section \<open>Over a lawful store\<close>

definition same_pull_request :: "VerificationRun \<Rightarrow> VerificationRun \<Rightarrow> bool" where
  "same_pull_request r s =
     (vr_run_id s = vr_run_id r \<and> vr_repository s = vr_repository r \<and> vr_pr_number s = vr_pr_number r
      \<and> vr_base_sha s = vr_base_sha r \<and> vr_head_sha s = vr_head_sha r)"

lemma transition_same_pull_request: "apply_run_transition r t (Aware now off) = Inr s \<Longrightarrow> same_pull_request r s"
  by (auto simp: apply_ok_iff same_pull_request_def with_changes_def)

lemma same_pull_request_trans: "same_pull_request r s \<Longrightarrow> same_pull_request s t \<Longrightarrow> same_pull_request r t"
  by (simp add: same_pull_request_def)

lemma report_of_same: "same_pull_request r s \<Longrightarrow> report_of s report \<Longrightarrow> report_of r report"
  by (simp add: same_pull_request_def report_of_def)

definition stored_as :: "store_view \<Rightarrow> VerificationRun \<Rightarrow> bool" where
  "stored_as V r0 = (\<exists>r. sv_runs V (vr_run_id r0) = Inr r \<and> same_pull_request r0 r)"

text \<open>The run ended with this report, whose text and hash are stored.\<close>

definition ended_with :: "('t EvidenceReport \<Rightarrow> string) \<Rightarrow> VerificationRun \<Rightarrow> 't EvidenceReport \<Rightarrow> store_view \<Rightarrow> bool" where
  "ended_with dump r0 report V =
     (\<exists>e r. sv_evidence V (vr_run_id r0) = Some e \<and> se_document_json e = dump report \<and> se_sha256 e = sha256 (utf8 (dump report))
        \<and> sv_runs V (vr_run_id r0) = Inr r \<and> same_pull_request r0 r
        \<and> vr_lifecycle r = TERMINAL \<and> vr_terminal_reason r = Some COMPLETED
        \<and> vr_mechanical_evidence_status r = Some (rp_mechanical_status report)
        \<and> vr_claim_outcome r = Some (rp_claim_outcome report) \<and> vr_publication_state r = PENDING)"

definition delivered :: "('t EvidenceReport \<Rightarrow> string) \<Rightarrow> VerificationRun \<Rightarrow> 't EvidenceReport \<Rightarrow> store_view \<Rightarrow> bool" where
  "delivered dump r0 report V = (report_sound report \<and> report_of r0 report \<and> ended_with dump r0 report V)"

lemma completed_fields:
  assumes "apply_run_transition r (terminal_transition report) (Aware now 0) = Inr s"
  shows "vr_lifecycle s = TERMINAL" "vr_terminal_reason s = Some COMPLETED"
    "vr_mechanical_evidence_status s = Some (rp_mechanical_status report)"
    "vr_claim_outcome s = Some (rp_claim_outcome report)" "vr_publication_state s = PENDING"
  using assms by (auto simp: apply_ok_iff with_changes_def terminal_transition_def)

lemma pguard_state: "pguard b e s = (Inr u, t) \<Longrightarrow> t = s"
  by (cases b) auto

lemma session_run_callback:
  assumes "session_run host rn pair artifact cb (ws, s) = (Inr c, (ws', s'))"
  shows "classified c \<and> cr_artifact c = artifact \<and> (\<exists>base_result. cb base_result s = (Inr (), s'))"
  using assms
  by (auto simp: session_run_def guard_simps classified_def mk_ChallengeResult_def simp del: checks.simps)

text \<open>What a session returned, its body returned, with the store it left.\<close>

lemma with_pair_body:
  assumes "with_pair host git workspace_root base_ref head_ref body (w, s) = (Inr r, (w', s'))"
  shows "\<exists>pair w1 w2. body pair (w1, s) = (Inr r, (w2, s'))"
proof -
  from assms obtain b h run_root w1 where tail: "(let base_path = under run_root ''base''; head_path = under run_root ''head'';
           pair = \<lparr>rw_base_revision = b, rw_head_revision = h, rw_base_path = base_path, rw_head_path = head_path\<rparr>;
           (added, registered, w1) = add_worktrees git [(b, base_path), (h, head_path)] [] w1;
           (result, (w2, s2)) = (case added of Inl e \<Rightarrow> (Inl e, (w1, s)) | Inr _ \<Rightarrow> body pair (w1, s));
           active_error = (case result of Inl e \<Rightarrow> Some e | Inr _ \<Rightarrow> None);
           (cleaned, w3) = cleanup_pair host git run_root registered active_error w2 in
       (case cleaned of Inl e \<Rightarrow> Inl e | Inr _ \<Rightarrow> result, (w3, s2))) = (Inr r, (w', s'))"
    unfolding with_pair_def by (auto simp only: pbind_eq_ok on_fst_ok prod.case)
  obtain added registered w2 where a: "add_worktrees git [(b, under run_root ''base''), (h, under run_root ''head'')] [] w1 = (added, registered, w2)"
    by (cases "add_worktrees git [(b, under run_root ''base''), (h, under run_root ''head'')] [] w1")
  let ?pair = "\<lparr>rw_base_revision = b, rw_head_revision = h, rw_base_path = under run_root ''base'', rw_head_path = under run_root ''head''\<rparr>"
  obtain result w3 s3 where body: "body ?pair (w2, s) = (result, (w3, s3))" by (cases "body ?pair (w2, s)") auto
  show ?thesis
  proof (cases added)
    case (Inl e)
    with tail show ?thesis unfolding Let_def a by (auto split: prod.splits sum.splits)
  next
    case (Inr u)
    with tail body have "result = Inr r" "s3 = s'" unfolding Let_def a by (auto split: prod.splits sum.splits)
    with body show ?thesis by blast
  qed
qed

text \<open>
  A session that classifies its own executions of the artifact it was given and acts on its caller's
  state through one call of the callback only; a challenge that runs its body once in such a session.
\<close>

definition lawful_session :: "('w, 's) challenge_session \<Rightarrow> bool" where
  "lawful_session session =
     (\<forall>artifact cb w s c w' s'. sx_run session artifact cb (w, s) = (Inr c, (w', s')) \<longrightarrow>
        classified c \<and> ta_sha256 (cr_artifact c) = ta_sha256 artifact \<and> (\<exists>base_result. cb base_result s = (Inr (), s')))"

locale lawful_challenge =
  fixes ch :: "('w, 's, 'r) challenge"
  assumes session_body: "ch_session ch base_ref head_ref body (w, s) = (Inr r, (w', s')) \<Longrightarrow>
    \<exists>session w1 w2. lawful_session session \<and> body session (w1, s) = (Inr r, (w2, s'))"

lemma local_session_lawful: "lawful_session (local_session host rn sites pair)"
  unfolding lawful_session_def by (auto simp: local_session_def dest: session_run_callback)

interpretation local: lawful_challenge "local_challenge host git workspace_root rn sites"
proof unfold_locales
  fix base_ref head_ref body w s r w' s'
  assume x: "ch_session (local_challenge host git workspace_root rn sites) base_ref head_ref body (w, s) = (Inr r, (w', s'))"
  obtain w0 i where w: "w = (w0, i)" by (cases w)
  obtain w1 i1 where w': "w' = (w1, i1)" by (cases w')
  from x have "with_pair host git workspace_root base_ref head_ref
       (\<lambda>pair (w, (installed, s)). case body (local_session host rn sites pair) ((w, installed), s) of
          (r, ((w', i'), s')) \<Rightarrow> (r, (w', (i', s')))) (w0, (i, s)) = (Inr r, (w1, (i1, s')))"
    by (auto simp: local_challenge_def w w' split: prod.splits)
  from with_pair_body [OF this] obtain pair u v where
    c: "(case body (local_session host rn sites pair) ((u, i), s) of (r, ((w', i'), s')) \<Rightarrow> (r, (w', (i', s')))) = (Inr r, (v, (i1, s')))" by auto
  then have "body (local_session host rn sites pair) ((u, i), s) = (Inr r, ((v, i1), s'))"
    by (cases "body (local_session host rn sites pair) ((u, i), s)") (auto split: prod.splits)
  then show "\<exists>session w1 w2. lawful_session session \<and> body session (w1, s) = (Inr r, (w2, s'))"
    using local_session_lawful by blast
qed

locale evidence_run = run_store ops view + lawful_challenge ch
  for ops :: "'s store_ops" and view :: "'s \<Rightarrow> store_view" and ch :: "('w, 's, 't EvidenceReport) challenge"

context run_store
begin

abbreviation kept :: "VerificationRun \<Rightarrow> 's \<Rightarrow> bool" where
  "kept r0 s \<equiv> stored_as (view s) r0"

lemma get_run_triple: "triple (kept r0) (so_get_run ops (vr_run_id r0)) (\<lambda>r s. kept r0 s \<and> same_pull_request r0 r)"
  by (auto simp: triple_def get_run stored_as_def)

lemma transition_triple:
  assumes "vr_run_id r = vr_run_id r0"
  shows "triple (kept r0) (EvidenceWorkflow.transition ops r t) (\<lambda>r' s. kept r0 s \<and> same_pull_request r0 r')"
proof (rule tripleI)
  fix s r' s'
  assume kept: "kept r0 s" and t: "EvidenceWorkflow.transition ops r t s = (Inr r', s')"
  then obtain old now where old: "sv_runs (view s) (vr_run_id r0) = Inr old"
    and next_run: "apply_run_transition old t (Aware now 0) = Inr r'"
    and view: "view s' = (view s)\<lparr>sv_runs := (sv_runs (view s))(vr_run_id r0 := Inr r')\<rparr>"
    using transition [of "vr_run_id r" "vr_version r" t s r' s'] assms
    by (auto simp: EvidenceWorkflow.transition_def transition_law_def)
  from old kept have "same_pull_request r0 old" by (auto simp: stored_as_def)
  then have "same_pull_request r0 r'"
    using transition_same_pull_request [OF next_run] same_pull_request_trans by blast
  then show "kept r0 s' \<and> same_pull_request r0 r'" using view by (simp add: stored_as_def)
qed

lemma persist_triple:
  assumes "vr_run_id r = vr_run_id r0"
  shows "triple (kept r0) (persist_terminal ops dump r report) (\<lambda>_ s. ended_with dump r0 report (view s))"
proof (rule tripleI)
  fix s e s'
  assume kept: "kept r0 s" and p: "persist_terminal ops dump r report s = (Inr e, s')"
  then obtain ev s1 latest s2 r' where save: "so_save_evidence ops (vr_run_id r0) (dump report) (sha256 (utf8 (dump report))) s = (Inr ev, s1)"
    and latest: "so_get_run ops (vr_run_id r0) s1 = (Inr latest, s2)"
    and t: "so_transition ops (vr_run_id latest) (vr_version latest) (terminal_transition report) s2 = (Inr r', s')"
    using assms by (auto simp: persist_terminal_def EvidenceWorkflow.transition_def guard_simps)
  from evidence_law_def save [THEN run_store.save [OF run_store_axioms]]
  have ev: "se_document_json ev = dump report" "se_sha256 ev = sha256 (utf8 (dump report))"
    and s1: "view s1 = (view s)\<lparr>sv_evidence := (sv_evidence (view s))(vr_run_id r0 \<mapsto> ev)\<rparr>"
    by (auto simp: evidence_law_def)
  have s2: "s2 = s1" "sv_runs (view s1) (vr_run_id r0) = Inr latest" using latest by (auto simp: get_run)
  then have id: "vr_run_id latest = vr_run_id r0" using run_valid by blast
  from transition [OF t] obtain now where next_run: "apply_run_transition latest (terminal_transition report) (Aware now 0) = Inr r'"
    and v: "view s' = (view s1)\<lparr>sv_runs := (sv_runs (view s1))(vr_run_id r0 := Inr r')\<rparr>"
    using s2 id by (auto simp: transition_law_def)
  have "same_pull_request r0 latest" using kept s2 s1 by (auto simp: stored_as_def)
  then have "same_pull_request r0 r'" using transition_same_pull_request [OF next_run] same_pull_request_trans by blast
  then show "ended_with dump r0 report (view s')"
    using completed_fields [OF next_run] ev s1 v by (auto simp: ended_with_def)
qed


lemma finish_triple:
  assumes "ew_store ew = ops" "vr_run_id r = vr_run_id r0"
    and build: "\<And>w report w'. build w = (Inr report, w') \<Longrightarrow> report_sound report \<and> report_of r0 report"
  shows "triple (\<lambda>st. kept r0 (snd st)) (finish ew r build) (\<lambda>report st. delivered (ew_dump ew) r0 report (view (snd st)))"
  unfolding finish_def
proof (rule triple_pbind)
  show "triple (\<lambda>st. kept r0 (snd st)) (on_world build) (\<lambda>report st. kept r0 (snd st) \<and> report_sound report \<and> report_of r0 report)"
    using build by (auto simp: triple_def guard_simps)
  show "triple (\<lambda>st. kept r0 (snd st) \<and> report_sound report \<and> report_of r0 report)
      (pbind (on_snd (persist_terminal (ew_store ew) (ew_dump ew) r report)) (\<lambda>_. preturn report))
      (\<lambda>report st. delivered (ew_dump ew) r0 report (view (snd st)))" for report
    using tripleD [OF persist_triple [OF assms(2), of "ew_dump ew" report]]
    by (intro tripleI) (auto simp: pbind_eq_ok on_snd_ok assms(1) delivered_def)
qed

lemma abstention_triple:
  assumes "ew_store ew = ops" "same_pull_request r0 r"
  shows "triple (\<lambda>st. kept r0 (snd st)) (finish ew r (abstention_report clock r result attempts evaluations m reason challenge readiness transcript))
     (\<lambda>report st. delivered (ew_dump ew) r0 report (view (snd st)))"
  using assms(2) abstention_report_returns [of clock r result attempts evaluations m reason challenge readiness transcript]
  by (intro finish_triple [OF assms(1)]) (auto simp: same_pull_request_def report_of_def)

lemma mark_head_triple:
  "triple (\<lambda>(r, s). kept r0 s \<and> same_pull_request r0 r) (mark_head_execution ops (vr_run_id r0) base_result)
     (\<lambda>_ (r, s). kept r0 s \<and> same_pull_request r0 r)"
proof (rule tripleI, clarsimp)
  fix r s u r' s'
  assume kept: "kept r0 s" and r: "same_pull_request r0 r"
    and m: "mark_head_execution ops (vr_run_id r0) base_result (r, s) = (Inr u, (r', s'))"
  show "kept r0 s' \<and> same_pull_request r0 r'"
  proof (cases "vr_phase r = BASE_EXECUTION")
    case True
    with m have "(case EvidenceWorkflow.transition ops r (to_phase HEAD_EXECUTION) s of
        (Inl e, s1) \<Rightarrow> (Inl e, (r, s1)) | (Inr next_run, s1) \<Rightarrow> (Inr (), (next_run, s1))) = (Inr u, (r', s'))"
      by (auto simp: mark_head_execution_def guard_simps get_run require_current_def)
    then have t: "EvidenceWorkflow.transition ops r (to_phase HEAD_EXECUTION) s = (Inr r', s')"
      by (auto split: prod.splits sum.splits)
    have "vr_run_id r = vr_run_id r0" using r by (simp add: same_pull_request_def)
    from tripleD [OF transition_triple [OF this] kept t] show ?thesis .
  next
    case False
    with m have "r' = r" "s' = s" by (auto simp: mark_head_execution_def guard_simps get_run require_current_def)
    with kept r show ?thesis by simp
  qed
qed

lemma run_challenge_triple:
  assumes "ew_store ew = ops" "same_pull_request r0 r" "lawful_session session"
  shows "triple (\<lambda>st. kept r0 (snd st)) (run_challenge ew (vr_run_id r0) session artifact r)
     (\<lambda>(c, r') st. kept r0 (snd st) \<and> classified c \<and> same_pull_request r0 r')"
proof (rule tripleI)
  fix st q st'
  assume kept: "kept r0 (snd st)" and q: "run_challenge ew (vr_run_id r0) session artifact r st = (Inr q, st')"
  obtain ws s where st: "st = (ws, s)" by (cases st)
  from q obtain c ws' r' s' where c: "sx_run session artifact (mark_head_execution ops (vr_run_id r0)) (ws, (r, s))
      = (Inr c, (ws', (r', s')))" and q': "q = (c, r')" "st' = (ws', s')"
    by (auto simp: run_challenge_def st assms(1) split: prod.splits sum.splits)
  from assms(3) c obtain b where cl: "classified c" and
    cb: "mark_head_execution ops (vr_run_id r0) b (r, s) = (Inr (), (r', s'))" unfolding lawful_session_def by blast
  from tripleD [OF mark_head_triple _ cb] kept assms(2) st have "kept r0 s' \<and> same_pull_request r0 r'" by auto
  with cl q' show "(case q of (c, r') \<Rightarrow> \<lambda>st. kept r0 (snd st) \<and> classified c \<and> same_pull_request r0 r') st'" by simp
qed


lemma same_id: "same_pull_request r0 r \<Longrightarrow> vr_run_id r = vr_run_id r0"
  by (simp add: same_pull_request_def)

lemma advance_triple:
  assumes "same_pull_request r0 r"
  shows "triple (kept r0) (advance_for_execution ops r) (\<lambda>r' s. kept r0 s \<and> same_pull_request r0 r')"
    and "triple (kept r0) (advance_to_assessment ops r) (\<lambda>r' s. kept r0 s \<and> same_pull_request r0 r')"
  using transition_triple [OF same_id [OF assms]] assms
  by (auto simp: advance_for_execution_def advance_to_assessment_def intro: triple_preturn)

lemma start_triple:
  assumes "same_pull_request r0 r"
  shows "triple (kept r0) (start_run ops r) (\<lambda>r' s. kept r0 s \<and> same_pull_request r0 r')"
  unfolding start_run_def
proof (rule triple_pbind)
  show "triple (kept r0) (if vr_lifecycle r = ACCEPTED then EvidenceWorkflow.transition ops r (to_lifecycle QUEUED) else preturn r)
      (\<lambda>r' s. kept r0 s \<and> same_pull_request r0 r')"
    using transition_triple [OF same_id [OF assms]] assms by (auto intro: triple_preturn)
  show "triple (\<lambda>s. kept r0 s \<and> same_pull_request r0 r')
      (if vr_lifecycle r' = QUEUED then EvidenceWorkflow.transition ops r' (to_lifecycle RUNNING) else preturn r')
      (\<lambda>r' s. kept r0 s \<and> same_pull_request r0 r')" for r'
    using transition_triple by (intro triple_pure) (auto simp: same_id intro: triple_preturn)
qed

text \<open>What an executed attempt hands on: a delivered report, or a run that is still the same.\<close>

definition handed_on :: "('t EvidenceReport \<Rightarrow> string) \<Rightarrow> VerificationRun \<Rightarrow> 't EvidenceReport + VerificationRun \<times> 'c \<times> 'd \<Rightarrow> 's \<Rightarrow> bool" where
  "handed_on dump r0 outcome s =
     (case outcome of
        Inl report \<Rightarrow> delivered dump r0 report (view s)
      | Inr (r, _, _) \<Rightarrow> kept r0 s \<and> same_pull_request r0 r)"

lemma triple_lifted: "(\<And>a. q = Inr a \<Longrightarrow> triple P (f a) Q) \<Longrightarrow> triple P (pbind (plift q) f) Q"
  by (cases q) (simp_all add: triple_praise)

lemma triple_world: "(\<And>a. triple (\<lambda>st. kept r0 (snd st)) (f a) Q) \<Longrightarrow> triple (\<lambda>st. kept r0 (snd st)) (pbind (on_fst m) f) Q"
  by (rule triple_pbind [OF triple_on_fst])

lemma deliver_inl:
  "triple P m (\<lambda>report st. delivered dump r0 report (view (snd st))) \<Longrightarrow>
     triple P (pbind m (\<lambda>report. preturn (Inl report))) (\<lambda>outcome st. handed_on dump r0 outcome (snd st))"
  by (erule triple_pbind) (simp add: triple_preturn handed_on_def)

lemma assess_triple:
  assumes ew: "ew_store ew = ops" and c: "classified c" and r: "same_pull_request r0 r"
  shows "triple (\<lambda>st. kept r0 (snd st))
     (case candidate_environment_failure c of
        Some failure \<Rightarrow>
          pbind (plift (from_domain failure)) (\<lambda>readiness.
          pbind (finish ew r (abstention_report (ew_clock ew) r (ph_claim_result ph) attempts evaluations ENVIRONMENTAL
                   (rd_reason failure) (Some c) (Some readiness) (ph_transcript ph))) (\<lambda>report.
          preturn (Inl report)))
      | None \<Rightarrow>
          (if ea_mechanical_status (cr_assessment c) = DISCRIMINATING then
             pbind (on_world (BoundedRetryingEvidenceAssessor_assess (ew_assessor ew) with_assessment_attempts
                      (ph_claim ph) source c)) (\<lambda>semantic.
             pbind (plift (validate_semantic_decision c (sa_decision semantic))) (\<lambda>_.
             pbind (finish ew r (completed_report (ew_clock ew) r (ph_claim_result ph) attempts evaluations c
                      semantic (ph_readiness ph) (ph_transcript ph))) (\<lambda>report.
             preturn (Inl report))))
           else preturn (Inr (r, Some c, evaluations))))
     (\<lambda>outcome st. handed_on (ew_dump ew) r0 outcome (snd st))"
proof (cases "candidate_environment_failure c")
  case (Some failure)
  show ?thesis unfolding Some option.case
    by (intro triple_lifted deliver_inl abstention_triple ew r)
next
  case None
  show ?thesis
  proof (cases "ea_mechanical_status (cr_assessment c) = DISCRIMINATING")
    case True
    show ?thesis unfolding None option.case if_P [OF True]
    proof (intro triple_world triple_lifted deliver_inl finish_triple ew same_id r)
      fix semantic u w report w'
      assume d: "validate_semantic_decision c (sa_decision semantic) = Inr u"
        and m: "completed_report (ew_clock ew) r (ph_claim_result ph) attempts evaluations c semantic (ph_readiness ph) (ph_transcript ph) w
         = (Inr report, w')"
      from d have "validate_semantic_decision c (sa_decision semantic) = Inr ()" by simp
      from completed_report_returns [OF c True this m] report_of_same [OF r, of report]
      show "report_sound report \<and> report_of r0 report" by blast
    qed
  next
    case False
    then show ?thesis using r by (simp add: None triple_preturn handed_on_def)
  qed
qed

lemma run_attempt_triple:
  assumes ew: "ew_store ew = ops" and id: "ph_run_id ph = vr_run_id r0" and session: "lawful_session (ph_session ph)"
    and r: "same_pull_request r0 r"
  shows "triple (\<lambda>st. kept r0 (snd st)) (run_attempt ew ph r attempts evaluations attempt)
     (\<lambda>outcome st. handed_on (ew_dump ew) r0 outcome (snd st))"
proof (cases "at_validated attempt")
  case None
  then show ?thesis using r by (auto simp: run_attempt_def handed_on_def intro: triple_preturn)
next
  case (Some v)
  let ?W = "\<lambda>st. kept r0 (snd st)"
  show ?thesis
    unfolding run_attempt_def Some option.case Let_def ew id
  proof (rule triple_pbind [OF triple_on_snd [OF get_run_triple]], rule triple_pure,
         rule triple_pbind [where Q = "\<lambda>_. ?W"], goal_cases)
    case (1 latest)
    then show ?case by (auto simp: require_current_def triple_def pguard_ok)
  next
    case (2 latest)
    show ?case
    proof (rule triple_pbind [OF triple_on_snd [OF advance_triple(1) [OF r]]], rule triple_pure,
           rule triple_pbind [OF run_challenge_triple [OF ew _ session]], assumption, clarify, goal_cases)
      case (1 r1 c r2)
      show ?case
      proof (rule triple_pure, elim conjE, rule triple_lifted, rule triple_pbind [OF triple_on_snd [OF advance_triple(2)]],
             assumption, rule triple_pure, goal_cases)
        case (1 evaluation r3)
        show ?case by (rule assess_triple [OF ew]) (use 1 in simp_all)
      qed
    qed
  qed
qed


lemma give_up_triple:
  assumes "ew_store ew = ops" "same_pull_request r0 r"
  shows "triple (\<lambda>st. kept r0 (snd st)) (give_up ew ph r attempts evaluations challenge)
     (\<lambda>report st. delivered (ew_dump ew) r0 report (view (snd st)))"
  unfolding give_up_def by (rule abstention_triple [OF assms])

lemma attempt_loop_triple:
  assumes ew: "ew_store ew = ops" and id: "ph_run_id ph = vr_run_id r0" and session: "lawful_session (ph_session ph)"
  shows "same_pull_request r0 r \<Longrightarrow> triple (\<lambda>st. kept r0 (snd st)) (attempt_loop ew ph numbers r g attempts evaluations attempt)
     (\<lambda>report st. delivered (ew_dump ew) r0 report (view (snd st)))"
proof (induction numbers arbitrary: r g attempts evaluations attempt)
  case Nil
  then show ?case by (simp add: give_up_triple [OF ew])
next
  case (Cons n numbers)
  show ?case unfolding attempt_loop.simps
  proof (rule triple_pbind [OF run_attempt_triple [OF ew id session Cons.prems]])
    fix outcome
    show "triple (\<lambda>st. handed_on (ew_dump ew) r0 outcome (snd st))
      (case outcome of Inl report \<Rightarrow> preturn report
       | Inr (vrun, challenge, evaluations) \<Rightarrow>
           if MAX_REPAIRS \<le> n then give_up ew ph vrun attempts evaluations challenge
           else pbind (plift (repair_feedback attempt challenge)) (\<lambda>feedback.
                pbind (calling_generator (repair (ph_generator ph) (retrying_candidate_model ew) feedback) g) (\<lambda>(next_attempt, g).
                attempt_loop ew ph numbers vrun g (attempts @ [next_attempt]) evaluations next_attempt)))
      (\<lambda>report st. delivered (ew_dump ew) r0 report (view (snd st)))"
    proof (cases outcome)
      case (Inl report)
      then show ?thesis by (simp add: triple_preturn handed_on_def)
    next
      case (Inr rest)
      obtain r1 challenge evs where rest: "rest = (r1, challenge, evs)" by (cases rest)
      have pre: "triple (\<lambda>st. kept r0 (snd st) \<and> same_pull_request r0 r1) m Q \<Longrightarrow> triple (\<lambda>st. handed_on (ew_dump ew) r0 outcome (snd st)) m Q" for m :: "('w, 's) workflow_state \<Rightarrow> (exn + 't EvidenceReport) \<times> ('w, 's) workflow_state" and Q
        by (simp add: handed_on_def Inr rest)
      show ?thesis
        unfolding Inr rest sum.case prod.case
        by (rule pre [unfolded Inr rest], rule triple_pure)
          (auto intro!: give_up_triple [OF ew] triple_lifted triple_world Cons.IH simp: calling_generator_def split: prod.split)
    qed
  qed
qed

lemma verify_claim_triple:
  assumes ew: "ew_store ew = ops" and r: "same_pull_request r0 r" and session: "lawful_session session"
  shows "triple (\<lambda>st. kept r0 (snd st)) (verify_claim ew (vr_run_id r0) contract existing context result claim transcript r session)
     (\<lambda>report st. delivered (ew_dump ew) r0 report (view (snd st)))"
  unfolding verify_claim_def
proof (intro triple_world triple_lifted, goal_cases)
  case (1 environment readiness)
  show ?case
  proof (cases "rd_ready environment")
    case False
    then show ?thesis by (simp add: abstention_triple [OF ew r])
  next
    case True
    show ?thesis
      unfolding if_not_P [OF not_not [THEN iffD2, OF True]] ew Let_def calling_generator_def pget_def
      by (rule triple_pbind [OF triple_on_snd [OF transition_triple [OF same_id [OF r]]]], rule triple_pure)
        (auto intro!: triple_world triple_lifted attempt_loop_triple [OF ew] simp: session split: prod.split)
  qed
qed


lemma triple_require: "triple P (require_current r) (\<lambda>_ st. P st \<and> vr_revision_state r = RevisionState.CURRENT)"
  unfolding require_current_def by (rule triple_pguard)

lemma load_contract_triple: "triple (\<lambda>st. kept r0 (snd st)) (load_contract ew sha) (\<lambda>_ st. kept r0 (snd st))"
  unfolding load_contract_def by (intro triple_world triple_post [OF triple_plift]) simp

lemma fetch_triple:
  assumes "vr_run_id r0 = i"
  shows "triple (\<lambda>st. sv_runs (view (snd st)) i = Inr r0) (on_snd (so_get_run ops i)) (\<lambda>r st. kept r0 (snd st) \<and> r = r0)"
  using assms by (auto simp: triple_def on_snd_ok get_run stored_as_def same_pull_request_def)

text \<open>A delivered report of a run that was active when it was fetched.\<close>

definition outcome_of :: "('t EvidenceReport \<Rightarrow> string) \<Rightarrow> VerificationRun \<Rightarrow> 't EvidenceReport \<Rightarrow> 's \<Rightarrow> bool" where
  "outcome_of dump r0 report s =
     (vr_revision_state r0 = RevisionState.CURRENT \<and> vr_lifecycle r0 \<noteq> TERMINAL \<and> delivered dump r0 report (view s))"

lemma deliver_outcome:
  "vr_revision_state r0 = RevisionState.CURRENT \<Longrightarrow> vr_lifecycle r0 \<noteq> TERMINAL
     \<Longrightarrow> triple P m (\<lambda>report st. delivered dump r0 report (view (snd st)))
     \<Longrightarrow> triple P m (\<lambda>report st. outcome_of dump r0 report (snd st))"
  by (auto simp: outcome_of_def elim: triple_post)

end

context evidence_run
begin

lemma session_triple:
  assumes "\<And>session. lawful_session session \<Longrightarrow> triple (\<lambda>st. J (snd st)) (body session) (\<lambda>report st. Q report (snd st))"
  shows "triple (\<lambda>st. J (snd st)) (ch_session ch base_ref head_ref body) (\<lambda>report st. Q report (snd st))"
proof (rule tripleI)
  fix st report st'
  assume J: "J (snd st)" and s: "ch_session ch base_ref head_ref body st = (Inr report, st')"
  from s session_body [of base_ref head_ref body "fst st" "snd st" report "fst st'" "snd st'"]
  obtain session w1 w2 where "lawful_session session" "body session (w1, snd st) = (Inr report, (w2, snd st'))" by auto
  with tripleD [OF assms, of session "(w1, snd st)" report "(w2, snd st')"] J show "Q report (snd st')" by simp
qed

lemma compute_triple:
  assumes ew: "ew_store ew = ops" and ch: "ew_challenge ew = ch" and id: "vr_run_id r0 = i"
  shows "triple (\<lambda>st. sv_runs (view (snd st)) i = Inr r0) (compute ew i) (\<lambda>report st. outcome_of (ew_dump ew) r0 report (snd st))"
  unfolding compute_def ew
proof (rule triple_pbind [OF fetch_triple [OF id]], rule triple_pure, hypsubst,
    rule triple_pbind [OF triple_require], rule triple_pure,
    rule triple_pbind [OF triple_pguard], rule triple_pure,
    rule triple_pbind [OF load_contract_triple], rule triple_pbind [OF load_contract_triple],
    rule triple_pbind [OF triple_pguard], rule triple_pure, rule triple_pbind [OF triple_pguard], rule triple_pure,
    rule triple_pbind [OF triple_pguard], rule triple_pure, rule triple_world,
    rule triple_pbind [OF triple_on_snd [OF start_triple]], goal_cases)
  case (1 r u v base_contract contract)
  then show ?case by (simp add: same_pull_request_def)
next
  case (2 u v base_contract contract u1 u2 u3 paths r1)
  note deliver = deliver_outcome [OF 2(1,2)]
  show ?case
  proof (rule triple_pure, rule triple_world, rule triple_pbind [OF triple_on_snd [OF transition_triple]], goal_cases)
    case 1
    then show ?case by (rule same_id)
  next
    case (2 ctx r2)
    show ?case
    proof (rule triple_pure, rule triple_lifted, rule triple_world, clarify, goal_cases)
      case (1 narrative result transcript)
      show ?case
      proof (cases "se_claim (ca_selection result)")
        case None
        show ?thesis unfolding None option.case by (rule deliver, rule abstention_triple [OF ew 1(1)])
      next
        case (Some claim)
        show ?thesis unfolding Some option.case id [symmetric] ch
          by (rule deliver, rule session_triple, rule verify_claim_triple [OF ew 1(1)])
      qed
    qed
  qed
qed

lemma compute_outcome:
  assumes ew: "ew_store ew = ops" and ch: "ew_challenge ew = ch" and c: "compute ew i st = (Inr report, st')"
  shows "\<exists>r0. sv_runs (view (snd st)) i = Inr r0 \<and> outcome_of (ew_dump ew) r0 report (snd st')"
proof -
  from c obtain r0 where r0: "sv_runs (view (snd st)) i = Inr r0"
    by (cases st) (auto simp: compute_def pbind_eq_ok ew on_snd_ok get_run)
  from tripleD [OF compute_triple [OF ew ch] r0 c] run_valid [OF r0] r0 show ?thesis by blast
qed

text \<open>A replay reads the stored document and, if the run is still active, ends it; the world stays as it is.\<close>

lemma replay_outcome:
  assumes ew: "ew_store ew = ops" and e: "sv_evidence (view (snd st)) i = Some e" and x: "replay ew i e st = (Inr report, st')"
  shows "ew_load ew (se_document_json e) = Inr report \<and> fst st' = fst st
     \<and> (view (snd st') = view (snd st)
        \<or> (\<exists>r0. sv_runs (view (snd st)) i = Inr r0 \<and> vr_revision_state r0 = RevisionState.CURRENT
             \<and> vr_lifecycle r0 \<noteq> TERMINAL \<and> ended_with (ew_dump ew) r0 report (view (snd st'))))"
proof -
  obtain ws s where st: "st = (ws, s)" by (cases st)
  from x obtain r0 where load: "ew_load ew (se_document_json e) = Inr report" and r0: "sv_runs (view s) i = Inr r0"
    and rest: "(if vr_revision_state r0 = RevisionState.CURRENT \<and> vr_lifecycle r0 \<noteq> TERMINAL
       then pbind (on_snd (persist_terminal ops (ew_dump ew) r0 report)) (\<lambda>_. preturn report) else preturn report) (ws, s) = (Inr report, st')"
    by (auto simp: replay_def pbind_eq_ok ew on_snd_ok get_run st plift_ok split: if_splits)
  have id: "vr_run_id r0 = i" using run_valid [OF r0] by blast
  show ?thesis
  proof (cases "vr_revision_state r0 = RevisionState.CURRENT \<and> vr_lifecycle r0 \<noteq> TERMINAL")
    case True
    with rest obtain stored s' where p: "persist_terminal ops (ew_dump ew) r0 report s = (Inr stored, s')" "st' = (ws, s')"
      by (auto simp: pbind_eq_ok on_snd_ok)
    have "kept r0 s" using r0 id by (auto simp: stored_as_def same_pull_request_def)
    from tripleD [OF persist_triple [OF refl] this p(1)] p(2) True load r0 show ?thesis by (auto simp: st)
  next
    case False
    with rest load show ?thesis by (auto simp: st)
  qed
qed


text \<open>The run is over, so executing it again only reads: it finds the stored text and changes nothing.\<close>

lemma execute_again:
  assumes ew: "ew_store ew = ops" and e: "ended_with (ew_dump ew) r0 report (view (snd st))"
    and load: "ew_load ew (ew_dump ew report) = Inr report"
  shows "execute ew (vr_run_id r0) st = (Inr report, st)"
proof -
  obtain ws s where st: "st = (ws, s)" by (cases st)
  from e obtain ev r where ev: "sv_evidence (view s) (vr_run_id r0) = Some ev" "se_document_json ev = ew_dump ew report"
    and r: "sv_runs (view s) (vr_run_id r0) = Inr r" "vr_lifecycle r = TERMINAL"
    by (auto simp: ended_with_def st)
  then show ?thesis
    by (simp add: execute_def replay_def pbind_def on_snd_def ew get_evidence get_run st load)
qed

end

section \<open>The workflow's guarantee\<close>

definition workflow_guarantee ::
    "'s store_ops \<Rightarrow> ('s \<Rightarrow> store_view) \<Rightarrow> ('w, 's, 't EvidenceReport) challenge \<Rightarrow> ('w, 's, 't) evidence_workflow \<Rightarrow> uuid \<Rightarrow> ('w, 's) workflow_state \<Rightarrow> bool" where
  "workflow_guarantee ops view ch ew i st =
     (case execute (ew\<lparr>ew_store := ops, ew_challenge := ch\<rparr>) i st of
        (Inl e, st') \<Rightarrow> True
      | (Inr report, st') \<Rightarrow>
          (case sv_evidence (view (snd st)) i of
             None \<Rightarrow>
               (\<exists>r0. sv_runs (view (snd st)) i = Inr r0 \<and> vr_revision_state r0 = RevisionState.CURRENT \<and> vr_lifecycle r0 \<noteq> TERMINAL
                  \<and> report_sound report \<and> report_of r0 report \<and> ended_with (ew_dump ew) r0 report (view (snd st')))
               \<and> (ew_load ew (ew_dump ew report) = Inr report \<longrightarrow>
                    execute (ew\<lparr>ew_store := ops, ew_challenge := ch\<rparr>) i st' = (Inr report, st'))
           | Some e \<Rightarrow>
               ew_load ew (se_document_json e) = Inr report \<and> fst st' = fst st
               \<and> (view (snd st') = view (snd st)
                  \<or> (\<exists>r0. sv_runs (view (snd st)) i = Inr r0 \<and> vr_revision_state r0 = RevisionState.CURRENT
                       \<and> vr_lifecycle r0 \<noteq> TERMINAL \<and> ended_with (ew_dump ew) r0 report (view (snd st'))))))"

context evidence_run
begin

lemma workflow_outcome: "workflow_guarantee ops view ch ew i st"
proof -
  let ?ew = "ew\<lparr>ew_store := ops, ew_challenge := ch\<rparr>"
  have store: "ew_store ?ew = ops" "ew_challenge ?ew = ch" by simp_all
  obtain q st' where x: "execute ?ew i st = (q, st')" by (cases "execute ?ew i st")
  show ?thesis
  proof (cases q)
    case (Inl e)
    with x show ?thesis by (simp add: workflow_guarantee_def)
  next
    case report: (Inr report)
    have get: "on_snd (so_get_evidence ops i) st = (Inr (sv_evidence (view (snd st)) i), st)"
      by (cases st) (simp add: on_snd_def get_evidence)
    show ?thesis
    proof (cases "sv_evidence (view (snd st)) i")
      case None
      with x get report have "compute ?ew i st = (Inr report, st')" by (simp add: execute_def pbind_def store)
      from compute_outcome [OF store this] obtain r0 where r0: "sv_runs (view (snd st)) i = Inr r0"
        and o: "outcome_of (ew_dump ?ew) r0 report (snd st')" by blast
      from o have ended: "ended_with (ew_dump ?ew) r0 report (view (snd st'))" by (simp add: outcome_of_def delivered_def)
      have id: "vr_run_id r0 = i" using run_valid [OF r0] by blast
      note again = execute_again [OF store(1) ended, unfolded id]
      show ?thesis using None x report r0 o ended again by (simp add: workflow_guarantee_def outcome_of_def delivered_def)
    next
      case (Some e)
      with x get report have "replay ?ew i e st = (Inr report, st')" by (simp add: execute_def pbind_def store)
      from replay_outcome [OF store(1) Some this] Some x report show ?thesis by (simp add: workflow_guarantee_def)
    qed
  qed
qed

end

interpretation sqlite_local: evidence_run "sqlite_ops clock ids" sqlite_view "local_challenge host git workspace_root rn sites"
  by (intro evidence_run.intro sqlite.run_store_axioms local.lawful_challenge_axioms)

interpretation firestore_local: evidence_run "firestore_ops clock ids" firestore_view "local_challenge host git workspace_root rn sites"
  by (intro evidence_run.intro firestore.run_store_axioms local.lawful_challenge_axioms)

text \<open>
  C1: Over either store, whatever the models, Git, the tests and the host do: a report the workflow
  computes is of an active run and about its pull request and revisions; it concludes more than
  insufficient evidence only with one artifact executed unchanged on BASE and HEAD with the statuses of
  that conclusion and an assertion judged to be related; and when it is returned, its text and hash are
  stored and the run is TERMINAL with its outcome and a pending publication. Executing the run again
  returns the same report and changes nothing, and a stored report is replayed without touching the world.
\<close>

theorem evidence_workflow_sound:
  "workflow_guarantee (sqlite_ops clock ids) sqlite_view (local_challenge host git workspace_root rn sites) ew i st
   \<and> workflow_guarantee (firestore_ops clock ids) firestore_view (local_challenge host git workspace_root rn sites) ew' i st'"
  by (rule conjI sqlite_local.workflow_outcome firestore_local.workflow_outcome)+

end
