(* ===== verification/GithubChecks.thy ===== *)
theory GithubChecks
  imports EvidenceSoundness
begin

text \<open>
  \<open>src/patchproof/github_checks.py\<close>: the Check built from a stored report, the installation tokens and
  their cache, the client that finds, updates or creates one Check run, and the publisher over any run
  store. GitHub is a call on the world; the signer and the JSON library are arguments. The em dash of
  the claim line is beyond the 8-bit strings of the model and is an argument too.
\<close>

section \<open>The Check of a report\<close>

definition CHECK_NAME :: string where
  "CHECK_NAME = ''PatchProof claim evidence''"

definition GITHUB_API_VERSION :: string where
  "GITHUB_API_VERSION = ''2026-03-10''"

record GitHubCheckOutput =
  gc_title :: string
  gc_summary :: string
  gc_text :: string

definition mk_GitHubCheckOutput :: "GitHubCheckOutput \<Rightarrow> exn + GitHubCheckOutput" where
  "mk_GitHubCheckOutput c =
     rbind (checks
       [(\<not> len_between 1 255 (gc_title c), ValidationError ''title''),
        (\<not> len_between 1 65535 (gc_summary c), ValidationError ''summary''),
        (\<not> len_between 1 65535 (gc_text c), ValidationError ''text'')]) (\<lambda>_. Inr c)"

record GitHubCheckPayload =
  gp_name :: string
  gp_head_sha :: string
  gp_status :: string
  gp_conclusion :: string
  gp_external_id :: string
  gp_output :: GitHubCheckOutput

text \<open>\<open>value.replace(old, new)\<close> for a non-empty \<open>old\<close>; the fuel is the length.\<close>

fun replace_from :: "nat \<Rightarrow> string \<Rightarrow> string \<Rightarrow> string \<Rightarrow> string" where
  "replace_from 0 old new s = s"
| "replace_from (Suc k) old new [] = []"
| "replace_from (Suc k) old new (c # s) =
     (if startswith (c # s) old then new @ replace_from k old new (drop (length old) (c # s))
      else c # replace_from k old new s)"

definition replace_all :: "string \<Rightarrow> string \<Rightarrow> string \<Rightarrow> string" where
  "replace_all old new s = replace_from (length s) old new s"

definition fence :: string where
  "fence = [CHR 0x60, CHR 0x60, CHR 0x60]"

definition tick :: "string \<Rightarrow> string" where
  "tick s = [CHR 0x60] @ s @ [CHR 0x60]"

definition nl :: string where
  "nl = [CHR 0x0A]"

definition fenced :: "string \<Rightarrow> string" where
  "fenced value = or_str (replace_all fence [CHR 0x60, CHR '' '', CHR 0x60, CHR '' '', CHR 0x60] value) ''(empty)''"

definition code_block :: "string \<Rightarrow> string \<Rightarrow> string" where
  "code_block language value = fence @ language @ nl @ fenced value @ nl @ fence"

text \<open>An optional field in an f-string.\<close>

definition opt_text :: "string option \<Rightarrow> string" where
  "opt_text v = (case v of None \<Rightarrow> ''None'' | Some s \<Rightarrow> s)"

definition check_conclusion :: "ClaimOutcome \<Rightarrow> string \<times> string" where
  "check_conclusion outcome =
     (if outcome = CLAIM_SUPPORTED_FOR_SCENARIO then (''success'', ''Generated scenario supports the selected claim'')
      else if outcome = POTENTIAL_REGRESSION then (''failure'', ''Generated scenario indicates a potential regression'')
      else (''neutral'', ''Insufficient claim-scoped evidence''))"

definition selected_attempt :: "'t EvidenceReport \<Rightarrow> CandidateAttemptEvidence option" where
  "selected_attempt r =
     find (\<lambda>a. ae_artifact_sha256 a = rp_selected_artifact_sha256 r) (rev (rp_candidate_attempts r))"

definition claim_text :: "string \<Rightarrow> 't EvidenceReport \<Rightarrow> string" where
  "claim_text em_dash r =
     (case rp_claim r of
        Some c \<Rightarrow> tick (cl_claim_id c) @ '' '' @ em_dash @ '' '' @ cl_summary c
      | None \<Rightarrow> ''No sufficiently grounded behavioral claim was selected.'')"

definition candidate_text :: "CandidateAttemptEvidence option \<Rightarrow> string" where
  "candidate_text selected =
     (case selected of
        Some a \<Rightarrow> tick (opt_text (ae_candidate_id a)) @ '' at ''
          @ tick (opt_text (ae_target_path a) @ ''::'' @ opt_text (ae_test_function a)) @ nl @ nl
          @ ''Artifact SHA-256: '' @ tick (opt_text (ae_artifact_sha256 a))
      | None \<Rightarrow> ''No candidate produced publishable evidence.'')"

definition source_text :: "CandidateAttemptEvidence option \<Rightarrow> string" where
  "source_text selected =
     (case selected of
        Some a \<Rightarrow> code_block ''python'' (case ae_source a of None \<Rightarrow> [] | Some s \<Rightarrow> s)
      | None \<Rightarrow> ''Not available.'')"

definition bold :: "string \<Rightarrow> string" where
  "bold s = ''**'' @ s @ ''**''"

definition executions_text :: "'t EvidenceReport \<Rightarrow> string" where
  "executions_text r =
     (case (rp_base_execution r, rp_head_execution r) of
        (Some b, Some h) \<Rightarrow>
          ''- BASE '' @ tick (rp_base_sha r) @ '': '' @ bold (xe_status b) @ nl
          @ ''- HEAD '' @ tick (rp_head_sha r) @ '': '' @ bold (xe_status h) @ nl
          @ ''- Mechanical result: '' @ bold (str_mechanical (rp_mechanical_status r)) @ '' / ''
          @ bold (str_pattern (rp_differential_pattern r)) @ nl
          @ ''- Reason: '' @ rp_mechanical_reason r
      | _ \<Rightarrow> ''No comparable BASE/HEAD execution pair was retained.'')"

definition logs_text :: "'t EvidenceReport \<Rightarrow> string" where
  "logs_text r =
     (case (rp_base_execution r, rp_head_execution r) of
        (Some b, Some h) \<Rightarrow>
          ''#### BASE stdout'' @ nl @ code_block ''text'' (take 6000 (xe_stdout b)) @ nl
          @ ''#### BASE stderr'' @ nl @ code_block ''text'' (take 6000 (xe_stderr b)) @ nl
          @ ''#### HEAD stdout'' @ nl @ code_block ''text'' (take 6000 (xe_stdout h)) @ nl
          @ ''#### HEAD stderr'' @ nl @ code_block ''text'' (take 6000 (xe_stderr h))
      | _ \<Rightarrow> ''No execution logs were produced.'')"

definition check_text :: "string \<Rightarrow> ('t EvidenceReport \<Rightarrow> string) \<Rightarrow> 't EvidenceReport \<Rightarrow> string" where
  "check_text em_dash dump r =
     (let selected = selected_attempt r in
      ''PatchProof reports evidence for one generated scenario. It does not approve, certify, ''
      @ ''or establish correctness of the pull request as a whole.'' @ nl @ nl
      @ ''### Selected claim'' @ nl @ claim_text em_dash r @ nl @ nl
      @ ''### Candidate artifact'' @ nl @ candidate_text selected @ nl @ nl @ source_text selected @ nl @ nl
      @ ''### Immutable comparison'' @ nl @ executions_text r @ nl @ nl
      @ ''### Conservative conclusion'' @ nl @ rp_conclusion r @ nl @ nl
      @ ''### Captured logs and artifact provenance'' @ nl @ logs_text r @ nl @ nl
      @ ''Evidence document SHA-256: '' @ tick (sha256 (utf8 (dump r))))"

definition format_github_check ::
    "string \<Rightarrow> (uuid \<Rightarrow> string) \<Rightarrow> ('t EvidenceReport \<Rightarrow> string) \<Rightarrow> 't EvidenceReport \<Rightarrow> exn + GitHubCheckPayload" where
  "format_github_check em_dash str_uuid dump r =
     (let (conclusion, title) = check_conclusion (rp_claim_outcome r) in
      rbind (mk_GitHubCheckOutput
        \<lparr>gc_title = title, gc_summary = rp_conclusion r, gc_text = take 65535 (check_text em_dash dump r)\<rparr>) (\<lambda>c.
      Inr \<lparr>gp_name = CHECK_NAME, gp_head_sha = rp_head_sha r, gp_status = ''completed'', gp_conclusion = conclusion,
           gp_external_id = str_uuid (rp_run_id r), gp_output = c\<rparr>))"

section \<open>GitHub\<close>

text \<open>
  A request of the program, and what the transport made of it: a response with its content, a timeout or
  network error, or another exception. The type of contents is a parameter. The bodies of the requests are those of a Check.
\<close>

record check_body =
  cb_name :: string
  cb_identity :: "(string \<times> string) option"
  cb_status :: string
  cb_conclusion :: string
  cb_output :: GitHubCheckOutput

record api_request =
  rq_method :: string
  rq_url :: string
  rq_headers :: "(string \<times> string) list"
  rq_params :: "(string \<times> string) list"
  rq_json :: "check_body option"

datatype 'c http_reply = HttpResponse int 'c | HttpTransportFailure | HttpRaises exn

type_synonym ('w, 'c) http_call = "api_request \<Rightarrow> 'w \<Rightarrow> 'c http_reply \<times> 'w"

definition transient_status :: "int \<Rightarrow> bool" where
  "transient_status code = (code \<in> set [408, 409, 425, 429] \<or> 500 \<le> code)"

definition api_headers :: "string \<Rightarrow> (string \<times> string) list" where
  "api_headers token =
     [(''Accept'', ''application/vnd.github+json''), (''Authorization'', ''Bearer '' @ token),
      (''X-GitHub-Api-Version'', GITHUB_API_VERSION)]"

definition judge_reply :: "string \<Rightarrow> string \<Rightarrow> string \<Rightarrow> 'c http_reply \<Rightarrow> exn + 'c" where
  "judge_reply outage transient refused reply =
     (case reply of
        HttpTransportFailure \<Rightarrow> Inl (GitHubCheckRetryableError outage)
      | HttpRaises e \<Rightarrow> Inl e
      | HttpResponse code content \<Rightarrow>
          (if transient_status code then Inl (GitHubCheckRetryableError (transient @ str_int code))
           else if \<not> (200 \<le> code \<and> code < 300) then Inl (GitHubCheckTerminalError (refused @ str_int code))
           else Inr content))"

section \<open>Installation tokens\<close>

definition static_token_for :: "string \<Rightarrow> int \<Rightarrow> string \<Rightarrow> ('w, exn, string) prog" where
  "static_token_for token installation_id repository =
     (if token = [] then praise (GitHubCheckTerminalError ''GitHub installation token is unavailable'') else preturn token)"

record cached_token =
  ct_token :: string
  ct_expires_at :: utc

text \<open>
  \<open>ap_sign\<close> is the encoder with the signer: the issue and expiry second and the issuer. \<open>ap_document\<close> reads
  the token and the expiry of a response, where it has both.
\<close>

record ('w, 'c) app_provider =
  ap_app_id :: int
  ap_base_url :: string
  ap_sign :: "int \<Rightarrow> int \<Rightarrow> string \<Rightarrow> string"
  ap_clock :: "('w, exn, datetime) prog"
  ap_post :: "('w, 'c) http_call"
  ap_document :: "'c \<Rightarrow> (string \<times> datetime) option"

definition mk_app_provider ::
    "(string \<Rightarrow> (int \<Rightarrow> int \<Rightarrow> string \<Rightarrow> string) option) \<Rightarrow> int \<Rightarrow> string \<Rightarrow> string \<Rightarrow> ('w, exn, datetime) prog \<Rightarrow> ('w, 'c) http_call
     \<Rightarrow> ('c \<Rightarrow> (string \<times> datetime) option) \<Rightarrow> exn + ('w, 'c) app_provider" where
  "mk_app_provider signer_from app_id private_key_pem api_base_url clock post document =
     rbind (guard (0 < app_id \<and> strip private_key_pem \<noteq> []) (ValueError ''GitHub App ID and private key are required'')) (\<lambda>_.
     case signer_from private_key_pem of
       None \<Rightarrow> Inl (ValueError ''GitHub App private key is not valid PEM'')
     | Some sign \<Rightarrow>
         Inr \<lparr>ap_app_id = app_id, ap_base_url = rstrip_char (CHR ''/'') api_base_url, ap_sign = sign, ap_clock = clock,
              ap_post = post, ap_document = document\<rparr>)"

text \<open>\<open>int(now.timestamp())\<close>, which truncates, on microseconds.\<close>

definition whole_seconds :: "utc \<Rightarrow> int" where
  "whole_seconds t = (if 0 \<le> t then t div 1000000 else - ((- t) div 1000000))"

definition read_token :: "(string \<times> datetime) option \<Rightarrow> exn + cached_token" where
  "read_token document =
     (let unusable = GitHubCheckRetryableError ''GitHub App token endpoint returned an unusable response'' in
      case document of
        None \<Rightarrow> Inl unusable
      | Some (token, expires_at) \<Rightarrow>
          rbind (guard (token \<noteq> []) unusable) (\<lambda>_.
          rbind (to_utc unusable expires_at) (\<lambda>t. Inr \<lparr>ct_token = token, ct_expires_at = t\<rparr>)))"

type_synonym token_cache = "int \<rightharpoonup> cached_token"

definition token_request :: "('w, 'c) app_provider \<Rightarrow> int \<Rightarrow> utc \<Rightarrow> api_request" where
  "token_request ap installation_id now =
     (let issued_at = whole_seconds now - 60 in
      \<lparr>rq_method = ''POST'',
       rq_url = ap_base_url ap @ ''/app/installations/'' @ str_int installation_id @ ''/access_tokens'',
       rq_headers = api_headers (ap_sign ap issued_at (issued_at + 600) (str_int (ap_app_id ap))),
       rq_params = [], rq_json = None\<rparr>)"

definition mint_token :: "('w, 'c) app_provider \<Rightarrow> int \<Rightarrow> utc \<Rightarrow> (token_cache \<times> 'w, exn, string) prog" where
  "mint_token ap installation_id now = (\<lambda>(cache, w).
     case ap_post ap (token_request ap installation_id now) w of
       (reply, w') \<Rightarrow>
         (case rbind (judge_reply ''GitHub App token endpoint is temporarily unavailable''
                  ''GitHub App token endpoint transient HTTP '' ''GitHub App token endpoint rejected credentials with HTTP '' reply)
                (\<lambda>content. read_token (ap_document ap content)) of
            Inl e \<Rightarrow> (Inl e, (cache, w'))
          | Inr c \<Rightarrow> (Inr (ct_token c), (cache(installation_id \<mapsto> c), w'))))"

definition token_now :: "('w, 'c) app_provider \<Rightarrow> ('w, exn, utc) prog" where
  "token_now ap = pbind (ap_clock ap) (\<lambda>value.
     plift (to_utc (ValueError ''GitHub App token clock must return an aware timestamp'') value))"

definition token_for :: "('w, 'c) app_provider \<Rightarrow> int \<Rightarrow> string \<Rightarrow> (token_cache \<times> 'w, exn, string) prog" where
  "token_for ap installation_id repository =
     pbind (on_snd (token_now ap)) (\<lambda>now (cache, w).
       case cache installation_id of
         Some c \<Rightarrow> (if 2 * 60 * 1000000 < ct_expires_at c - now then (Inr (ct_token c), (cache, w))
                    else mint_token ap installation_id now (cache, w))
       | None \<Rightarrow> mint_token ap installation_id now (cache, w))"

section \<open>The Checks client\<close>

text \<open>
  \<open>cc_id\<close> and \<open>cc_listing\<close> read a response's \<open>id\<close> and \<open>check_runs\<close> where they have the shape the code
  reads; an entry of the listing is no object, or has an external identity and an identity of its own.
\<close>

datatype check_item = NotAnObject | CheckItem "string option" "int option"

record ('w, 'c) checks_client =
  cc_token_for :: "int \<Rightarrow> string \<Rightarrow> ('w, exn, string) prog"
  cc_request :: "('w, 'c) http_call"
  cc_base_url :: string
  cc_id :: "'c \<Rightarrow> int option"
  cc_listing :: "'c \<Rightarrow> check_item list option"

definition mk_checks_client ::
    "(int \<Rightarrow> string \<Rightarrow> ('w, exn, string) prog) \<Rightarrow> ('w, 'c) http_call \<Rightarrow> string \<Rightarrow> seconds \<Rightarrow> ('c \<Rightarrow> int option)
     \<Rightarrow> ('c \<Rightarrow> check_item list option) \<Rightarrow> exn + ('w, 'c) checks_client" where
  "mk_checks_client tokens request api_base_url timeout_seconds id_of listing =
     rbind (guard (0 < timeout_seconds) (ValueError ''GitHub API timeout must be positive'')) (\<lambda>_.
     Inr \<lparr>cc_token_for = tokens, cc_request = request, cc_base_url = rstrip_char (CHR ''/'') api_base_url,
          cc_id = id_of, cc_listing = listing\<rparr>)"

definition send_request :: "('w, 'c) checks_client \<Rightarrow> api_request \<Rightarrow> ('w, exn, 'c) prog" where
  "send_request cc r = (\<lambda>w. case cc_request cc r w of
     (reply, w') \<Rightarrow> (judge_reply ''GitHub Checks API is temporarily unavailable''
        ''GitHub Checks API transient HTTP '' ''GitHub Checks API rejected publication with HTTP '' reply, w'))"

definition listing_request :: "('w, 'c) checks_client \<Rightarrow> string \<Rightarrow> string \<Rightarrow> string \<Rightarrow> api_request" where
  "listing_request cc token repository head_sha =
     \<lparr>rq_method = ''GET'', rq_url = cc_base_url cc @ ''/repos/'' @ repository @ ''/commits/'' @ head_sha @ ''/check-runs'',
      rq_headers = api_headers token,
      rq_params = [(''check_name'', CHECK_NAME), (''filter'', ''all''), (''per_page'', ''100'')], rq_json = None\<rparr>"

definition whole_body :: "GitHubCheckPayload \<Rightarrow> check_body" where
  "whole_body p =
     \<lparr>cb_name = gp_name p, cb_identity = Some (gp_head_sha p, gp_external_id p), cb_status = gp_status p,
      cb_conclusion = gp_conclusion p, cb_output = gp_output p\<rparr>"

definition update_request :: "('w, 'c) checks_client \<Rightarrow> string \<Rightarrow> string \<Rightarrow> int \<Rightarrow> GitHubCheckPayload \<Rightarrow> api_request" where
  "update_request cc token repository check_run_id p =
     \<lparr>rq_method = ''PATCH'', rq_url = cc_base_url cc @ ''/repos/'' @ repository @ ''/check-runs/'' @ str_int check_run_id,
      rq_headers = api_headers token, rq_params = [], rq_json = Some ((whole_body p)\<lparr>cb_identity := None\<rparr>)\<rparr>"

definition create_request :: "('w, 'c) checks_client \<Rightarrow> string \<Rightarrow> string \<Rightarrow> GitHubCheckPayload \<Rightarrow> api_request" where
  "create_request cc token repository p =
     \<lparr>rq_method = ''POST'', rq_url = cc_base_url cc @ ''/repos/'' @ repository @ ''/check-runs'',
      rq_headers = api_headers token, rq_params = [], rq_json = Some (whole_body p)\<rparr>"

definition unusable_listing :: exn where
  "unusable_listing = GitHubCheckRetryableError ''GitHub returned an unusable Check listing''"

fun first_match :: "string \<Rightarrow> check_item list \<Rightarrow> exn + int option" where
  "first_match external_id [] = Inr None"
| "first_match external_id (NotAnObject # items) = Inl unusable_listing"
| "first_match external_id (CheckItem e n # items) =
     (if e = Some external_id then (case n of None \<Rightarrow> Inl unusable_listing | Some k \<Rightarrow> Inr (Some k))
      else first_match external_id items)"

definition find_existing :: "('w, 'c) checks_client \<Rightarrow> string \<Rightarrow> string \<Rightarrow> string \<Rightarrow> string \<Rightarrow> ('w, exn, int option) prog" where
  "find_existing cc token repository head_sha external_id =
     pbind (send_request cc (listing_request cc token repository head_sha)) (\<lambda>content.
     plift (case cc_listing cc content of None \<Rightarrow> Inl unusable_listing | Some items \<Rightarrow> first_match external_id items))"

text \<open>\<open>known_check_run_id or self._find_existing(...)\<close>: zero is no identity.\<close>

definition known_or_found ::
    "('w, 'c) checks_client \<Rightarrow> string \<Rightarrow> string \<Rightarrow> GitHubCheckPayload \<Rightarrow> int option \<Rightarrow> ('w, exn, int option) prog" where
  "known_or_found cc token repository p known =
     (case known of
        Some k \<Rightarrow> (if k \<noteq> 0 then preturn (Some k) else find_existing cc token repository (gp_head_sha p) (gp_external_id p))
      | None \<Rightarrow> find_existing cc token repository (gp_head_sha p) (gp_external_id p))"

definition upsert_completed ::
    "('w, 'c) checks_client \<Rightarrow> string \<Rightarrow> int option \<Rightarrow> GitHubCheckPayload \<Rightarrow> int option \<Rightarrow> ('w, exn, int) prog" where
  "upsert_completed cc repository installation_id p known_check_run_id =
     (case installation_id of
        None \<Rightarrow> praise (GitHubCheckTerminalError ''webhook did not include a GitHub App installation ID'')
      | Some installation \<Rightarrow>
          pbind (cc_token_for cc installation repository) (\<lambda>token.
          pbind (known_or_found cc token repository p known_check_run_id) (\<lambda>check_run_id.
          pbind (send_request cc (case check_run_id of
                   Some k \<Rightarrow> update_request cc token repository k p
                 | None \<Rightarrow> create_request cc token repository p)) (\<lambda>content.
          case cc_id cc content of
            None \<Rightarrow> praise (GitHubCheckRetryableError ''GitHub returned an unusable Check response'')
          | Some remote_id \<Rightarrow>
              (if remote_id \<le> 0 then praise (GitHubCheckRetryableError ''GitHub returned an invalid Check ID'')
               else preturn remote_id)))))"

section \<open>The publisher\<close>

text \<open>\<open>pu_load\<close> is the report's JSON decoder, \<open>pu_dump\<close> its canonical JSON and \<open>pu_payload_json\<close> the payload's.\<close>

record ('w, 's, 't, 'c) publisher =
  pu_store :: "'s store_ops"
  pu_client :: "('w, 'c) checks_client"
  pu_load :: "string \<Rightarrow> exn + 't EvidenceReport"
  pu_dump :: "'t EvidenceReport \<Rightarrow> string"
  pu_payload_json :: "GitHubCheckPayload \<Rightarrow> string"
  pu_str_uuid :: "uuid \<Rightarrow> string"
  pu_em_dash :: string

definition payload_sha256 :: "('w, 's, 't, 'c) publisher \<Rightarrow> GitHubCheckPayload \<Rightarrow> string" where
  "payload_sha256 pu p = sha256 (utf8 (pu_payload_json pu p))"

definition stored_payload :: "('w, 's, 't, 'c) publisher \<Rightarrow> StoredEvidence \<Rightarrow> exn + GitHubCheckPayload" where
  "stored_payload pu evidence =
     rbind (pu_load pu (se_document_json evidence)) (\<lambda>report. format_github_check (pu_em_dash pu) (pu_str_uuid pu) (pu_dump pu) report)"

definition to_publication :: "PublicationState \<Rightarrow> RunTransition" where
  "to_publication p = no_transition\<lparr>rt_publication_state := Some p\<rparr>"

definition published_already :: "('w, 's, 't, 'c) publisher \<Rightarrow> uuid \<Rightarrow> GitHubCheckPayload \<Rightarrow> ('w \<times> 's, exn, CheckPublication) prog" where
  "published_already pu run_id payload =
     pbind (on_snd (so_get_publication (pu_store pu) run_id)) (\<lambda>stored.
       case stored of
         None \<Rightarrow> praise (RuntimeError ''published run is missing GitHub Check metadata'')
       | Some p \<Rightarrow>
           (if cp_payload_sha256 p \<noteq> payload_sha256 pu payload
            then praise (RuntimeError ''published GitHub Check payload does not match stored evidence'')
            else preturn p))"

definition note_failure :: "'s store_ops \<Rightarrow> uuid \<Rightarrow> string \<Rightarrow> PublicationState \<Rightarrow> exn \<Rightarrow> ('s, exn, 'a) prog" where
  "note_failure ops run_id message state error =
     pbind (so_record_error ops run_id message) (\<lambda>_.
     pbind (so_get_run ops run_id) (\<lambda>latest.
     pbind (so_transition ops run_id (vr_version latest) (to_publication state)) (\<lambda>_. praise error)))"

text \<open>The guarded call and its two handlers.\<close>

definition publish_remotely ::
    "('w, 's, 't, 'c) publisher \<Rightarrow> uuid \<Rightarrow> VerificationRun \<Rightarrow> GitHubCheckPayload \<Rightarrow> int option \<Rightarrow> ('w \<times> 's, exn, CheckPublication) prog" where
  "publish_remotely pu run_id vrun payload known = (\<lambda>st.
     case pbind (on_fst (upsert_completed (pu_client pu) (vr_repository vrun) (vr_installation_id vrun) payload known)) (\<lambda>check_run_id.
          on_snd (so_set_check_run_id (pu_store pu) run_id check_run_id)) st of
       (Inl (GitHubCheckRetryableError m), st') \<Rightarrow>
         on_snd (note_failure (pu_store pu) run_id m RETRYABLE_FAILURE (GitHubCheckRetryableError m)) st'
     | (Inl (GitHubCheckTerminalError m), st') \<Rightarrow>
         on_snd (note_failure (pu_store pu) run_id m TERMINAL_FAILURE (GitHubCheckTerminalError m)) st'
     | (r, st') \<Rightarrow> (r, st'))"

definition resume_pending :: "'s store_ops \<Rightarrow> uuid \<Rightarrow> VerificationRun \<Rightarrow> ('s, exn, VerificationRun) prog" where
  "resume_pending ops run_id vrun =
     (if vr_publication_state vrun = RETRYABLE_FAILURE
      then so_transition ops run_id (vr_version vrun) (to_publication PENDING) else preturn vrun)"

definition publish_attempt :: "('w, 's, 't, 'c) publisher \<Rightarrow> uuid \<Rightarrow> GitHubCheckPayload \<Rightarrow> ('w \<times> 's, exn, CheckPublication) prog" where
  "publish_attempt pu run_id payload =
     pbind (on_snd (so_begin_publication (pu_store pu) run_id (payload_sha256 pu payload))) (\<lambda>publication.
     pbind (on_snd (so_get_run (pu_store pu) run_id)) (\<lambda>vrun.
     pbind (on_snd (resume_pending (pu_store pu) run_id vrun)) (\<lambda>vrun.
     publish_remotely pu run_id vrun payload (cp_check_run_id publication))))"

definition mark_published :: "'s store_ops \<Rightarrow> uuid \<Rightarrow> CheckPublication \<Rightarrow> ('s, exn, CheckPublication) prog" where
  "mark_published ops run_id publication =
     pbind (so_get_run ops run_id) (\<lambda>latest.
     pbind (so_transition ops run_id (vr_version latest) (to_publication PUBLISHED)) (\<lambda>_. preturn publication))"

definition publish :: "('w, 's, 't, 'c) publisher \<Rightarrow> uuid \<Rightarrow> ('w \<times> 's, exn, CheckPublication) prog" where
  "publish pu run_id =
     pbind (on_snd (so_get_run (pu_store pu) run_id)) (\<lambda>vrun.
     pbind (pguard (vr_revision_state vrun = RevisionState.CURRENT) (RuntimeError ''superseded verification run cannot publish'')) (\<lambda>_.
     pbind (pguard (vr_lifecycle vrun = TERMINAL \<and> vr_terminal_reason vrun = Some COMPLETED)
              (RuntimeError ''publication requires a completed verification run'')) (\<lambda>_.
     pbind (on_snd (so_get_evidence (pu_store pu) run_id)) (\<lambda>evidence.
       case evidence of
         None \<Rightarrow> praise (RuntimeError ''publication requires a stored evidence document'')
       | Some e \<Rightarrow>
           pbind (plift (stored_payload pu e)) (\<lambda>payload.
             if vr_publication_state vrun = PUBLISHED then published_already pu run_id payload
             else
               pbind (pguard (vr_publication_state vrun \<noteq> TERMINAL_FAILURE)
                        (RuntimeError ''terminal GitHub publication failure cannot be retried'')) (\<lambda>_.
               pbind (publish_attempt pu run_id payload) (\<lambda>publication.
               on_snd (mark_published (pu_store pu) run_id publication))))))))"



section \<open>What a publication may touch\<close>

definition same_verdict :: "VerificationRun \<Rightarrow> VerificationRun \<Rightarrow> bool" where
  "same_verdict r s =
     (s = r\<lparr>vr_publication_state := vr_publication_state s, vr_updated_at := vr_updated_at s, vr_version := vr_version s\<rparr>)"

definition only_publication :: "uuid \<Rightarrow> store_view \<Rightarrow> store_view \<Rightarrow> bool" where
  "only_publication i V V' =
     (sv_evidence V' = sv_evidence V \<and> sv_failures V' = sv_failures V
      \<and> (\<forall>j. j \<noteq> i \<longrightarrow> sv_runs V' j = sv_runs V j \<and> sv_publications V' j = sv_publications V j)
      \<and> (\<forall>r. sv_runs V i = Inr r \<longrightarrow> (\<exists>s. sv_runs V' i = Inr s \<and> same_verdict r s))
      \<and> ((\<exists>e. sv_runs V i = Inl e) \<longrightarrow> sv_runs V' i = sv_runs V i))"

definition is_published :: "store_view \<Rightarrow> uuid \<Rightarrow> bool" where
  "is_published V i = (case sv_runs V i of Inl e \<Rightarrow> False | Inr r \<Rightarrow> vr_publication_state r = PUBLISHED)"

definition may_publish :: "('w, 's, 't, 'c) publisher \<Rightarrow> store_view \<Rightarrow> uuid \<Rightarrow> bool" where
  "may_publish pu V i =
     (\<exists>r e payload. sv_runs V i = Inr r \<and> vr_revision_state r = RevisionState.CURRENT \<and> vr_lifecycle r = TERMINAL
        \<and> vr_terminal_reason r = Some COMPLETED \<and> vr_publication_state r \<noteq> PUBLISHED \<and> vr_publication_state r \<noteq> TERMINAL_FAILURE
        \<and> sv_evidence V i = Some e \<and> stored_payload pu e = Inr payload)"

text \<open>What the Check says is what the report says.\<close>

definition faithful_check :: "(uuid \<Rightarrow> string) \<Rightarrow> 't EvidenceReport \<Rightarrow> GitHubCheckPayload \<Rightarrow> bool" where
  "faithful_check str_uuid report p =
     ((gp_conclusion p = ''success'') = (rp_claim_outcome report = CLAIM_SUPPORTED_FOR_SCENARIO)
      \<and> (gp_conclusion p = ''failure'') = (rp_claim_outcome report = POTENTIAL_REGRESSION)
      \<and> (gp_conclusion p = ''neutral'') = (rp_claim_outcome report \<notin> {CLAIM_SUPPORTED_FOR_SCENARIO, POTENTIAL_REGRESSION})
      \<and> gp_head_sha p = rp_head_sha report \<and> gp_external_id p = str_uuid (rp_run_id report)
      \<and> gp_name p = CHECK_NAME \<and> gp_status p = ''completed'' \<and> gc_summary (gp_output p) = rp_conclusion report
      \<and> len_between 1 255 (gc_title (gp_output p)) \<and> length (gc_text (gp_output p)) \<le> 65535)"

lemma format_faithful:
  "format_github_check em_dash str_uuid dump report = Inr p \<Longrightarrow> faithful_check str_uuid report p"
  by (cases "rp_claim_outcome report")
    (auto simp: format_github_check_def check_conclusion_def mk_GitHubCheckOutput_def guard_simps faithful_check_def len_between_def)

text \<open>The publication carries the hash of a faithful payload made from the stored report.\<close>

definition carries :: "('w, 's, 't, 'c) publisher \<Rightarrow> store_view \<Rightarrow> uuid \<Rightarrow> CheckPublication \<Rightarrow> bool" where
  "carries pu V i p =
     (\<exists>e report payload. sv_evidence V i = Some e \<and> pu_load pu (se_document_json e) = Inr report
        \<and> stored_payload pu e = Inr payload \<and> faithful_check (pu_str_uuid pu) report payload
        \<and> cp_payload_sha256 p = payload_sha256 pu payload)"

lemma carriesI:
  "sv_evidence V i = Some e \<Longrightarrow> stored_payload pu e = Inr payload \<Longrightarrow> cp_payload_sha256 p = payload_sha256 pu payload
     \<Longrightarrow> carries pu V i p"
  using format_faithful by (fastforce simp: carries_def stored_payload_def guard_simps)

definition publish_guarantee ::
    "'s store_ops \<Rightarrow> ('s \<Rightarrow> store_view) \<Rightarrow> ('w, 's, 't, 'c) publisher \<Rightarrow> uuid \<Rightarrow> 'w \<times> 's \<Rightarrow> bool" where
  "publish_guarantee ops view pu i st =
     (case publish (pu\<lparr>pu_store := ops\<rparr>) i st of (q, st') \<Rightarrow>
        only_publication i (view (snd st)) (view (snd st'))
        \<and> (may_publish pu (view (snd st)) i \<or> fst st' = fst st \<and> view (snd st') = view (snd st))
        \<and> (case q of
             Inl e \<Rightarrow> is_published (view (snd st')) i = is_published (view (snd st)) i
           | Inr p \<Rightarrow> is_published (view (snd st')) i \<and> sv_publications (view (snd st')) i = Some p
               \<and> carries pu (view (snd st)) i p
               \<and> (is_published (view (snd st)) i \<or> (\<exists>c. cp_check_run_id p = Some c \<and> 0 < c))
               \<and> publish (pu\<lparr>pu_store := ops\<rparr>) i st' = (Inr p, st')))"

lemma only_publication_refl [simp]: "only_publication i V V"
  by (auto simp: only_publication_def same_verdict_def)

lemma same_verdict_trans: "same_verdict r s \<Longrightarrow> same_verdict s t \<Longrightarrow> same_verdict r t"
  unfolding same_verdict_def by (cases r; cases s; cases t) simp

lemma only_publication_trans:
  assumes "only_publication i V W" "only_publication i W X"
  shows "only_publication i V X"
proof (cases "sv_runs V i")
  case (Inl e)
  with assms show ?thesis by (simp add: only_publication_def)
next
  case (Inr r)
  with assms(1) obtain s where s: "sv_runs W i = Inr s" "same_verdict r s" by (auto simp: only_publication_def)
  with assms(2) obtain t where "sv_runs X i = Inr t" "same_verdict s t" by (auto simp: only_publication_def)
  with Inr s assms same_verdict_trans show ?thesis by (fastforce simp: only_publication_def)
qed

lemma publication_transition:
  assumes "apply_run_transition r (to_publication p) (Aware now 0) = Inr s"
  shows "same_verdict r s" "vr_publication_state s = p" "vr_version s = vr_version r + 1"
  using assms by (auto simp: apply_ok_iff with_changes_def to_publication_def no_transition_def same_verdict_def)

lemma pkeeps_on_snd: "pkeeps P m \<Longrightarrow> pkeeps (\<lambda>st. P (snd st)) (on_snd m)"
  by (auto simp: pkeeps_def on_snd_def split: prod.splits)

lemma pkeeps_on_fst: "pkeeps (\<lambda>st. P (snd st)) (on_fst m)"
  by (auto simp: pkeeps_def on_fst_def split: prod.splits)

context run_store
begin

abbreviation confined :: "uuid \<Rightarrow> store_view \<Rightarrow> 's \<Rightarrow> bool" where
  "confined i V s \<equiv> only_publication i V (view s)"

lemma confined_step:
  "(\<And>s r t. m s = (r, t) \<Longrightarrow> only_publication i (view s) (view t)) \<Longrightarrow> pkeeps (confined i V) m"
  by (rule pkeepsI) (metis only_publication_trans prod.collapse)

lemma publication_step:
  assumes "publication_law i p V V'"
  shows "only_publication i V V'"
  using assms by (auto simp: publication_law_def only_publication_def same_verdict_def)

lemma transition_step:
  assumes "so_transition ops i v (to_publication p) s = (q, t)"
  shows "only_publication i (view s) (view t)"
proof (cases q)
  case (Inl e)
  with assms transition_raises have "view t = view s" by blast
  then show ?thesis by simp
next
  case (Inr r)
  with assms transition have "transition_law i v (to_publication p) r (view s) (view t)" by blast
  then show ?thesis
    by (auto simp: transition_law_def only_publication_def dest: publication_transition)
qed

lemma confined_ops:
  "pkeeps (confined i V) (so_get_run ops i)" "pkeeps (confined i V) (so_get_evidence ops i)"
  "pkeeps (confined i V) (so_get_publication ops i)" "pkeeps (confined i V) (so_begin_publication ops i sha)"
  "pkeeps (confined i V) (so_set_check_run_id ops i c)" "pkeeps (confined i V) (so_record_error ops i m)"
  "pkeeps (confined i V) (so_transition ops i v (to_publication p))"
proof -
  show "pkeeps (confined i V) (so_get_run ops i)" "pkeeps (confined i V) (so_get_evidence ops i)"
    "pkeeps (confined i V) (so_get_publication ops i)"
    by (simp_all add: pkeeps_def get_run get_evidence get_publication)
  show "pkeeps (confined i V) (so_begin_publication ops i sha)"
    by (rule confined_step, case_tac r) (auto dest: begin_raises begin_ok intro: publication_step)
  show "pkeeps (confined i V) (so_set_check_run_id ops i c)"
    by (rule confined_step, case_tac r) (auto dest: check_raises check intro: publication_step)
  show "pkeeps (confined i V) (so_record_error ops i m)"
    by (rule confined_step, case_tac r) (auto dest: error_raises error intro: publication_step)
  show "pkeeps (confined i V) (so_transition ops i v (to_publication p))"
    by (rule confined_step) (rule transition_step)
qed

lemma unpublished_ops:
  "pkeeps (\<lambda>s. \<not> is_published (view s) i) (so_get_run ops i)"
  "pkeeps (\<lambda>s. \<not> is_published (view s) i) (so_begin_publication ops i sha)"
  "pkeeps (\<lambda>s. \<not> is_published (view s) i) (so_set_check_run_id ops i c)"
  "pkeeps (\<lambda>s. \<not> is_published (view s) i) (so_record_error ops i m)"
  "p \<noteq> PUBLISHED \<Longrightarrow> pkeeps (\<lambda>s. \<not> is_published (view s) i) (so_transition ops i v (to_publication p))"
proof -
  have same: "sv_runs V' i = sv_runs V i \<Longrightarrow> is_published V' i = is_published V i" for V V'
    by (simp add: is_published_def)
  have law: "publication_law i q V V' \<Longrightarrow> is_published V' i = is_published V i" for q V V'
    by (rule same) (auto simp: publication_law_def)
  show "pkeeps (\<lambda>s. \<not> is_published (view s) i) (so_get_run ops i)" by (simp add: pkeeps_def get_run)
  have step: "(\<And>s r t. m s = (r, t) \<Longrightarrow> is_published (view t) i = is_published (view s) i) \<Longrightarrow> pkeeps (\<lambda>s. \<not> is_published (view s) i) m"
    for m :: "'s \<Rightarrow> (exn + 'a) \<times> 's"
    by (rule pkeepsI) (metis prod.collapse)
  show "pkeeps (\<lambda>s. \<not> is_published (view s) i) (so_begin_publication ops i sha)"
    by (rule step, case_tac r) (auto dest: begin_raises begin_ok law)
  show "pkeeps (\<lambda>s. \<not> is_published (view s) i) (so_set_check_run_id ops i c)"
    by (rule step, case_tac r) (auto dest: check_raises check law)
  show "pkeeps (\<lambda>s. \<not> is_published (view s) i) (so_record_error ops i m)"
    by (rule step, case_tac r) (auto dest: error_raises error law)
  assume p: "p \<noteq> PUBLISHED"
  show "pkeeps (\<lambda>s. \<not> is_published (view s) i) (so_transition ops i v (to_publication p))"
  proof (rule pkeepsI)
    fix s
    assume s: "\<not> is_published (view s) i"
    obtain q t where t: "so_transition ops i v (to_publication p) s = (q, t)" by (cases "so_transition ops i v (to_publication p) s")
    show "\<not> is_published (view (snd (so_transition ops i v (to_publication p) s))) i"
    proof (cases q)
      case (Inl e)
      with t s transition_raises show ?thesis by fastforce
    next
      case (Inr r)
      with t transition have "transition_law i v (to_publication p) r (view s) (view t)" by blast
      with t p show ?thesis by (auto simp: transition_law_def is_published_def dest: publication_transition(2))
    qed
  qed
qed

text \<open>An invariant of the operations an attempt calls is one of the attempt, however GitHub answers.\<close>

lemma attempt_keeps:
  fixes pu :: "('w, 's, 't, 'c) publisher"
  assumes begin_pub: "\<And>sha. pkeeps P (so_begin_publication ops i sha)" and get: "pkeeps P (so_get_run ops i)"
    and trans: "\<And>v p. p \<noteq> PUBLISHED \<Longrightarrow> pkeeps P (so_transition ops i v (to_publication p))"
    and set_id: "\<And>c. pkeeps P (so_set_check_run_id ops i c)" and record_error: "\<And>m. pkeeps P (so_record_error ops i m)"
  shows "pkeeps (\<lambda>st. P (snd st)) (publish_attempt (pu\<lparr>pu_store := ops\<rparr>) i payload)"
proof -
  have note_keeps: "p \<noteq> PUBLISHED \<Longrightarrow> pkeeps (\<lambda>st. P (snd st)) (on_snd (note_failure ops i m p e))" for m p e
    unfolding note_failure_def by (intro pkeeps_on_snd pkeeps_pbind record_error get trans pkeeps_basic)
  have remote: "pkeeps (\<lambda>st. P (snd st)) (publish_remotely (pu\<lparr>pu_store := ops\<rparr>) i r payload known)" for r known
  proof (rule pkeepsI)
    fix st :: "'w \<times> 's"
    assume st: "P (snd st)"
    let ?body = "pbind (on_fst (upsert_completed (pu_client pu) (vr_repository r) (vr_installation_id r) payload known))
      (\<lambda>check_run_id. on_snd (so_set_check_run_id ops i check_run_id))"
    obtain q st' where q: "?body st = (q, st')" by (cases "?body st")
    have "pkeeps (\<lambda>st. P (snd st)) ?body" by (intro pkeeps_pbind pkeeps_on_fst pkeeps_on_snd set_id)
    from pkeepsD [OF this st q] have st': "P (snd st')" .
    have n: "P (snd (snd (on_snd (note_failure ops i m p e) st')))" if "p \<noteq> PUBLISHED" for m p e
      using note_keeps [OF that, of m e] st' unfolding pkeeps_def by blast
    show "P (snd (snd (publish_remotely (pu\<lparr>pu_store := ops\<rparr>) i r payload known st)))"
      using q st' n by (auto simp: publish_remotely_def split: sum.split exn.split)
  qed
  show ?thesis
    unfolding publish_attempt_def resume_pending_def
    by (intro pkeeps_pbind pkeeps_on_snd) (auto intro: begin_pub get trans remote split: if_split)
qed

lemma remote_publication:
  assumes r: "publish_remotely (pu\<lparr>pu_store := ops\<rparr>) i r payload known st = (Inr p, st')"
    and old: "sv_publications (view (snd st)) i = Some old"
  shows "sv_publications (view (snd st')) i = Some p \<and> cp_payload_sha256 p = cp_payload_sha256 old
     \<and> (\<exists>c. cp_check_run_id p = Some c \<and> 0 < c)"
proof -
  obtain w s where st: "st = (w, s)" by (cases st)
  have raises: "note_failure ops i m q e s1 \<noteq> (Inr x, s2)" for m q e s1 s2 and x :: CheckPublication
    by (auto simp: note_failure_def guard_simps)
  from r obtain c w' s' where set_id: "so_set_check_run_id ops i c s = (Inr p, s')" "st' = (w', s')"
    by (auto simp: publish_remotely_def st guard_simps raises split: prod.splits sum.splits exn.splits)
  from check [OF set_id(1)] old st set_id(2) show ?thesis by (auto simp: publication_law_def)
qed

lemma attempt_publication:
  assumes "publish_attempt (pu\<lparr>pu_store := ops\<rparr>) i payload st = (Inr p, st')"
  shows "sv_publications (view (snd st')) i = Some p \<and> cp_payload_sha256 p = payload_sha256 pu payload
     \<and> (\<exists>c. cp_check_run_id p = Some c \<and> 0 < c)"
proof -
  obtain w s where st: "st = (w, s)" by (cases st)
  from assms obtain old s1 r r' s2 where begin_pub: "so_begin_publication ops i (payload_sha256 (pu\<lparr>pu_store := ops\<rparr>) payload) s = (Inr old, s1)"
    and resume: "resume_pending ops i r s1 = (Inr r', s2)"
    and remote: "publish_remotely (pu\<lparr>pu_store := ops\<rparr>) i r' payload (cp_check_run_id old) (w, s2) = (Inr p, st')"
    by (auto simp: publish_attempt_def st guard_simps get_run)
  from begin_ok [OF begin_pub] have old: "sv_publications (view s1) i = Some old"
    "cp_payload_sha256 old = payload_sha256 pu payload"
    by (auto simp: publication_law_def payload_sha256_def)
  have "sv_publications (view s2) = sv_publications (view s1)"
    using resume by (auto simp: resume_pending_def transition_law_def dest!: transition split: if_splits)
  with old remote_publication [OF remote] show ?thesis by simp
qed

lemma mark_published_ok:
  assumes "mark_published ops i p s = (Inr q, t)"
  shows "q = p \<and> is_published (view t) i \<and> sv_publications (view t) = sv_publications (view s)"
  using assms
  by (auto simp: mark_published_def guard_simps get_run transition_law_def is_published_def
      dest!: transition dest: publication_transition(2))

lemma mark_published_raises:
  assumes "mark_published ops i p s = (Inl e, t)"
  shows "view t = view s"
proof (cases "sv_runs (view s) i")
  case (Inl x)
  with assms show ?thesis by (simp add: mark_published_def pbind_def get_run)
next
  case (Inr r)
  obtain q u where q: "so_transition ops i (vr_version r) (to_publication PUBLISHED) s = (q, u)"
    by (cases "so_transition ops i (vr_version r) (to_publication PUBLISHED) s")
  with assms Inr have "q = Inl e" "u = t" by (auto simp: mark_published_def pbind_def get_run split: sum.splits)
  with q transition_raises show ?thesis by blast
qed

lemma mark_keeps: "pkeeps (confined i V) (mark_published ops i p)"
  unfolding mark_published_def by (intro pkeeps_pbind confined_ops pkeeps_basic)

lemma attempt_confined: "pkeeps (\<lambda>st. confined i V (snd st)) (publish_attempt (pu\<lparr>pu_store := ops\<rparr>) i payload)"
  by (rule attempt_keeps) (rule confined_ops)+

lemma attempt_unpublished: "pkeeps (\<lambda>st. \<not> is_published (view (snd st)) i) (publish_attempt (pu\<lparr>pu_store := ops\<rparr>) i payload)"
  by (rule attempt_keeps) (rule unpublished_ops, assumption?)+

text \<open>Publishing a published run reads the stored publication and changes nothing.\<close>

lemma publish_published:
  assumes r: "sv_runs (view (snd st)) i = Inr r" "vr_revision_state r = RevisionState.CURRENT" "vr_lifecycle r = TERMINAL"
    "vr_terminal_reason r = Some COMPLETED" "vr_publication_state r = PUBLISHED"
    and e: "sv_evidence (view (snd st)) i = Some e" "stored_payload pu e = Inr payload"
  shows "publish (pu\<lparr>pu_store := ops\<rparr>) i st = published_already (pu\<lparr>pu_store := ops\<rparr>) i payload st"
  using r e by (cases st) (simp add: publish_def pbind_def on_snd_def get_run get_evidence stored_payload_def pguard_def)

lemma published_already_outcome:
  "published_already (pu\<lparr>pu_store := ops\<rparr>) i payload st = (q, st') \<Longrightarrow>
     st' = st \<and> (case q of Inl e \<Rightarrow> True
        | Inr p \<Rightarrow> sv_publications (view (snd st)) i = Some p \<and> cp_payload_sha256 p = payload_sha256 pu payload)"
  by (cases st) (auto simp: published_already_def pbind_def on_snd_def get_publication payload_sha256_def split: option.splits if_splits)

lemma stored_payload_update [simp]: "stored_payload (pu\<lparr>pu_store := ops\<rparr>) e = stored_payload pu e"
  by (simp add: stored_payload_def)

text \<open>Every run of the publisher: refused, replayed, or an attempt followed by the mark.\<close>

lemma publish_cases:
  assumes q: "publish (pu\<lparr>pu_store := ops\<rparr>) i st = (q, st')"
  obtains (refused) e where "q = Inl e" "st' = st"
  | (replayed) payload r where "published_already (pu\<lparr>pu_store := ops\<rparr>) i payload st = (q, st')"
      "is_published (view (snd st)) i" "\<exists>e. sv_evidence (view (snd st)) i = Some e \<and> stored_payload pu e = Inr payload"
      "sv_runs (view (snd st)) i = Inr r" "vr_revision_state r = RevisionState.CURRENT" "vr_lifecycle r = TERMINAL"
      "vr_terminal_reason r = Some COMPLETED"
  | (attempted) payload r where "pbind (publish_attempt (pu\<lparr>pu_store := ops\<rparr>) i payload) (\<lambda>p. on_snd (mark_published ops i p)) st = (q, st')"
      "may_publish pu (view (snd st)) i" "\<not> is_published (view (snd st)) i"
      "\<exists>e. sv_evidence (view (snd st)) i = Some e \<and> stored_payload pu e = Inr payload"
      "sv_runs (view (snd st)) i = Inr r" "vr_revision_state r = RevisionState.CURRENT" "vr_lifecycle r = TERMINAL"
      "vr_terminal_reason r = Some COMPLETED"
proof (cases "sv_runs (view (snd st)) i")
  case (Inl e)
  with q have "(\<exists>e. q = Inl e) \<and> st' = st"
          by (cases st) (auto simp: publish_def pbind_def on_snd_def get_run split: if_splits)
        then show thesis using refused by blast
next
  case (Inr r)
  note run = Inr
  show thesis
  proof (cases "vr_revision_state r = RevisionState.CURRENT \<and> vr_lifecycle r = TERMINAL \<and> vr_terminal_reason r = Some COMPLETED")
    case False
    with q run have "(\<exists>e. q = Inl e) \<and> st' = st"
          by (cases st) (auto simp: publish_def pbind_def on_snd_def get_run pguard_def split: if_splits)
        then show thesis using refused by blast
  next
    case ready: True
    show thesis
    proof (cases "sv_evidence (view (snd st)) i")
      case None
      with q run ready have "(\<exists>e. q = Inl e) \<and> st' = st"
          by (cases st) (auto simp: publish_def pbind_def on_snd_def get_run get_evidence pguard_def split: if_splits)
        then show thesis using refused by blast
    next
      case e: (Some e)
      show thesis
      proof (cases "stored_payload pu e")
        case (Inl x)
        with q run ready e have "(\<exists>e. q = Inl e) \<and> st' = st"
          by (cases st) (auto simp: publish_def pbind_def on_snd_def get_run get_evidence pguard_def split: if_splits)
        then show thesis using refused by blast
      next
        case payload: (Inr payload)
        show thesis
        proof (cases "vr_publication_state r = PUBLISHED")
          case True
          from publish_published [OF run _ _ _ True e payload] ready q have
            "published_already (pu\<lparr>pu_store := ops\<rparr>) i payload st = (q, st')" by simp
          then show thesis using replayed run ready True e payload by (auto simp: is_published_def)
        next
          case fresh: False
          show thesis
          proof (cases "vr_publication_state r = TERMINAL_FAILURE")
            case True
            with q run ready e payload have "(\<exists>e. q = Inl e) \<and> st' = st"
          by (cases st) (auto simp: publish_def pbind_def on_snd_def get_run get_evidence pguard_def split: if_splits)
        then show thesis using refused by blast
          next
            case False
            have "pbind (publish_attempt (pu\<lparr>pu_store := ops\<rparr>) i payload) (\<lambda>p. on_snd (mark_published ops i p)) st = (q, st')"
              using q run ready e payload fresh False
              by (cases st) (simp add: publish_def pbind_def on_snd_def get_run get_evidence pguard_def)
            then show thesis using attempted run ready fresh False e payload by (auto simp: may_publish_def is_published_def)
          qed
        qed
      qed
    qed
  qed
qed

lemma publish_outcome: "publish_guarantee ops view pu i st"
proof -
  obtain q st' where q: "publish (pu\<lparr>pu_store := ops\<rparr>) i st = (q, st')" by (cases "publish (pu\<lparr>pu_store := ops\<rparr>) i st")
  from q show ?thesis
  proof (cases rule: publish_cases)
    case (refused e)
    with q show ?thesis by (simp add: publish_guarantee_def)
  next
    case (replayed payload r)
    from published_already_outcome [OF replayed(1)] q replayed show ?thesis
      by (auto simp: publish_guarantee_def intro: carriesI split: sum.splits)
  next
    case (attempted payload r)
    obtain a st1 where a: "publish_attempt (pu\<lparr>pu_store := ops\<rparr>) i payload st = (a, st1)"
      by (cases "publish_attempt (pu\<lparr>pu_store := ops\<rparr>) i payload st")
    have kept: "confined i (view (snd st)) (snd st1)" "\<not> is_published (view (snd st1)) i"
      using pkeepsD [OF attempt_confined _ a] pkeepsD [OF attempt_unpublished _ a] attempted(3) by auto
    show ?thesis
    proof (cases a)
      case (Inl e)
      with attempted(1) a have "q = Inl e" "st' = st1" by (auto simp: pbind_def)
      with q kept attempted show ?thesis by (simp add: publish_guarantee_def)
    next
      case (Inr p)
      obtain w s where st1: "st1 = (w, s)" by (cases st1)
      obtain s' where m: "mark_published ops i p s = (q, s')" "st' = (w, s')"
        using attempted(1) a Inr by (auto simp: pbind_def st1 on_snd_def split: prod.splits)
      have conf: "confined i (view (snd st)) (snd st')"
        using pkeepsD [OF mark_keeps _ m(1)] kept(1) m(2) st1 by simp
      show ?thesis
      proof (cases q)
        case (Inl e)
        with mark_published_raises m have "view (snd st') = view (snd st1)" by (simp add: st1)
        with Inl q conf kept attempted show ?thesis by (simp add: publish_guarantee_def)
      next
        case (Inr p')
        from mark_published_ok [OF m(1) [unfolded Inr]] have done_ok: "p' = p" "is_published (view s') i"
          "sv_publications (view s') = sv_publications (view s)" by auto
        from attempt_publication [OF a [unfolded \<open>a = Inr p\<close>]] have pub: "sv_publications (view s) i = Some p"
          "cp_payload_sha256 p = payload_sha256 pu payload" "\<exists>c. cp_check_run_id p = Some c \<and> 0 < c" by (auto simp: st1)
        from attempted(4) obtain e where e: "sv_evidence (view (snd st)) i = Some e" "stored_payload pu e = Inr payload" by blast
        with conf m have e': "sv_evidence (view s') i = Some e" by (simp add: only_publication_def)
        from conf attempted(5) m(2) obtain r' where r': "sv_runs (view s') i = Inr r'" "same_verdict r r'"
          by (auto simp: only_publication_def)
        then have "vr_revision_state r' = RevisionState.CURRENT" "vr_lifecycle r' = TERMINAL" "vr_terminal_reason r' = Some COMPLETED"
          using attempted(6-8) unfolding same_verdict_def by (metis VerificationRun.select_convs VerificationRun.surjective VerificationRun.update_convs)+
        with r' done_ok(2) e' e m(2) have again: "publish (pu\<lparr>pu_store := ops\<rparr>) i st' = published_already (pu\<lparr>pu_store := ops\<rparr>) i payload st'"
          by (intro publish_published) (auto simp: is_published_def)
        then have "publish (pu\<lparr>pu_store := ops\<rparr>) i st' = (Inr p, st')"
          using pub done_ok m(2) by (simp add: published_already_def pbind_def on_snd_def get_publication payload_sha256_def)
        then show ?thesis using q conf attempted Inr done_ok pub e m(2) by (auto simp: publish_guarantee_def intro: carriesI)
      qed
    qed
  qed
qed

end



section \<open>One Check per run\<close>

text \<open>
  What the client relies on from GitHub, with \<open>remote\<close> the Checks that exist as repository, revision and
  external identity: tokens, updates and listings create nothing; a creation adds at most its Check,
  and does add it when it is answered with success, but may also have added it when the reply was lost;
  a successful listing of a revision shows exactly its Checks, provided one page can hold them.
\<close>

definition success_status :: "int \<Rightarrow> bool" where
  "success_status code = (200 \<le> code \<and> code < 300)"

definition creates :: "(string \<times> string \<times> string) \<Rightarrow> 'c http_reply \<Rightarrow> (string \<times> string \<times> string) list \<Rightarrow> (string \<times> string \<times> string) list \<Rightarrow> bool" where
  "creates x reply R R' =
     ((R' = R \<or> R' = R @ [x]) \<and> (\<forall>code content. reply = HttpResponse code content \<longrightarrow> success_status code \<longrightarrow> R' = R @ [x]))"

definition lists_checks :: "(string \<times> string \<times> string) list \<Rightarrow> string \<Rightarrow> string \<Rightarrow> check_item list option \<Rightarrow> bool" where
  "lists_checks R repository sha listing =
     (length R \<le> 100 \<longrightarrow>
        (\<exists>items. listing = Some items \<and> (\<forall>x. (repository, sha, x) \<in> set R \<longleftrightarrow> (\<exists>n. CheckItem (Some x) n \<in> set items))))"

definition github_law :: "('w, 'c) checks_client \<Rightarrow> ('w \<Rightarrow> (string \<times> string \<times> string) list) \<Rightarrow> bool" where
  "github_law cc remote =
     ((\<forall>n repository w. remote (snd (cc_token_for cc n repository w)) = remote w)
      \<and> (\<forall>token repository k p w. remote (snd (cc_request cc (update_request cc token repository k p) w)) = remote w)
      \<and> (\<forall>token repository p w reply w'. cc_request cc (create_request cc token repository p) w = (reply, w') \<longrightarrow>
           creates (repository, gp_head_sha p, gp_external_id p) reply (remote w) (remote w'))
      \<and> (\<forall>token repository sha w reply w'. cc_request cc (listing_request cc token repository sha) w = (reply, w') \<longrightarrow>
           remote w' = remote w
           \<and> (CHR ''/'' \<notin> set sha \<longrightarrow> (\<forall>code content. reply = HttpResponse code content \<longrightarrow> success_status code \<longrightarrow>
                lists_checks (remote w) repository sha (cc_listing cc content)))))"

record check_call =
  kc_repository :: string
  kc_installation_id :: "int option"
  kc_payload :: GitHubCheckPayload
  kc_known :: "int option"

fun upserts :: "('w, 'c) checks_client \<Rightarrow> check_call list \<Rightarrow> 'w \<Rightarrow> (exn + int) list \<times> 'w" where
  "upserts cc [] w = ([], w)"
| "upserts cc (k # ks) w =
     (case upsert_completed cc (kc_repository k) (kc_installation_id k) (kc_payload k) (kc_known k) w of
        (r, w') \<Rightarrow> (case upserts cc ks w' of (rs, w'') \<Rightarrow> (r # rs, w'')))"

definition check_key :: "check_call \<Rightarrow> string \<times> string \<times> string" where
  "check_key k = (kc_repository k, gp_head_sha (kc_payload k), gp_external_id (kc_payload k))"

definition calls_ok :: "check_call list \<Rightarrow> bool" where
  "calls_ok ks = (\<forall>k \<in> set ks. CHR ''/'' \<notin> set (gp_head_sha (kc_payload k)))"

text \<open>A call that did not know an identity and returned one has its Check.\<close>

definition found_or_created :: "(string \<times> string \<times> string) list \<Rightarrow> check_call \<Rightarrow> exn + int \<Rightarrow> bool" where
  "found_or_created R k r = (is_ok r \<and> kc_known k = None \<longrightarrow> check_key k \<in> set R)"

lemma judge_reply_ok:
  "judge_reply a b c reply = Inr content \<longleftrightarrow> (\<exists>code. reply = HttpResponse code content \<and> success_status code)"
  by (auto simp: judge_reply_def success_status_def transient_status_def split: http_reply.splits)

lemma first_match_None: "first_match x items = Inr None \<Longrightarrow> CheckItem (Some x) n \<notin> set items"
  by (induction x items rule: first_match.induct) (auto split: if_splits option.splits)

lemma first_match_Some: "first_match x items = Inr (Some k) \<Longrightarrow> \<exists>n. CheckItem (Some x) n \<in> set items"
  by (induction x items rule: first_match.induct) (auto split: if_splits option.splits)

lemma find_existing_law:
  assumes law: "github_law cc remote" and sha: "CHR ''/'' \<notin> set sha" and small: "length (remote w) \<le> 100"
    and f: "find_existing cc token repository sha x w = (q, w')"
  shows "remote w' = remote w \<and> (q = Inr None \<longrightarrow> (repository, sha, x) \<notin> set (remote w))
     \<and> (\<forall>k. q = Inr (Some k) \<longrightarrow> (repository, sha, x) \<in> set (remote w))"
proof -
  obtain reply w1 where r: "cc_request cc (listing_request cc token repository sha) w = (reply, w1)"
    by (cases "cc_request cc (listing_request cc token repository sha) w")
  from law r have R: "remote w1 = remote w"
    and shown: "\<And>code content. reply = HttpResponse code content \<Longrightarrow> success_status code \<Longrightarrow>
        lists_checks (remote w) repository sha (cc_listing cc content)"
    using sha by (auto simp: github_law_def)
  from f r have w': "w' = w1" by (auto simp: find_existing_def send_request_def pbind_def split: sum.splits)
  have items: "\<exists>items. first_match x items = Inr y
      \<and> (\<forall>x. (repository, sha, x) \<in> set (remote w) \<longleftrightarrow> (\<exists>n. CheckItem (Some x) n \<in> set items))" if "q = Inr y" for y
  proof -
    from f r that obtain content where content: "judge_reply ''GitHub Checks API is temporarily unavailable''
        ''GitHub Checks API transient HTTP '' ''GitHub Checks API rejected publication with HTTP '' reply = Inr content"
      and y: "(case cc_listing cc content of None \<Rightarrow> Inl unusable_listing | Some items \<Rightarrow> first_match x items) = Inr y"
      by (auto simp: find_existing_def send_request_def pbind_def split: sum.splits)
    from content shown small y show ?thesis
      by (auto simp: judge_reply_ok lists_checks_def split: option.splits)
  qed
  show ?thesis
    using R w' items first_match_None first_match_Some by (auto dest!: items)
qed

lemma known_or_found_law:
  assumes law: "github_law cc remote" and sha: "CHR ''/'' \<notin> set (gp_head_sha p)" and small: "length (remote w) \<le> 100"
    and f: "known_or_found cc token repository p known w = (q, w')"
  shows "remote w' = remote w \<and> (q = Inr None \<longrightarrow> (repository, gp_head_sha p, gp_external_id p) \<notin> set (remote w))
     \<and> (\<forall>k. known = None \<longrightarrow> q = Inr (Some k) \<longrightarrow> (repository, gp_head_sha p, gp_external_id p) \<in> set (remote w))"
  using find_existing_law [OF law sha small] f
  by (auto simp: known_or_found_def split: option.splits if_splits)

lemma upsert_law:
  assumes law: "github_law cc remote" and sha: "CHR ''/'' \<notin> set (gp_head_sha p)" and small: "length (remote w) \<le> 100"
    and u: "upsert_completed cc repository installation p known w = (q, w')"
  shows "let key = (repository, gp_head_sha p, gp_external_id p) in
     (remote w' = remote w \<or> remote w' = remote w @ [key] \<and> key \<notin> set (remote w))
     \<and> (is_ok q \<and> known = None \<longrightarrow> key \<in> set (remote w'))"
proof (cases installation)
  case None
  with u show ?thesis by (auto simp: upsert_completed_def Let_def)
next
  case (Some n)
  obtain t w1 where t: "cc_token_for cc n repository w = (t, w1)" by (cases "cc_token_for cc n repository w")
  have r1: "remote w1 = remote w" using law t by (metis github_law_def snd_conv)
  show ?thesis
  proof (cases t)
    case (Inl e)
    with u t Some r1 show ?thesis by (auto simp: upsert_completed_def pbind_def Let_def)
  next
    case token: (Inr token)
    obtain f w2 where f: "known_or_found cc token repository p known w1 = (f, w2)"
      by (cases "known_or_found cc token repository p known w1")
    note found = known_or_found_law [OF law sha small [folded r1] f, unfolded r1]
    show ?thesis
    proof (cases f)
      case (Inl e)
      with u t Some token f found show ?thesis by (auto simp: upsert_completed_def pbind_def Let_def)
    next
      case existing: (Inr existing)
      let ?r = "case existing of Some k \<Rightarrow> update_request cc token repository k p | None \<Rightarrow> create_request cc token repository p"
      obtain reply w3 where reply: "cc_request cc ?r w2 = (reply, w3)" by (cases "cc_request cc ?r w2")
      have w': "w' = w3" and ok: "is_ok q \<Longrightarrow> \<exists>code content. reply = HttpResponse code content \<and> success_status code"
        using u t Some token f existing reply
        by (auto simp: upsert_completed_def pbind_def send_request_def judge_reply_ok split: sum.splits option.splits if_splits)
      show ?thesis
      proof (cases existing)
        case None
        with law reply have "creates (repository, gp_head_sha p, gp_external_id p) reply (remote w2) (remote w3)"
          by (simp add: github_law_def)
        with found existing None ok w' show ?thesis by (auto simp: creates_def Let_def)
      next
        case (Some k)
        with law reply have "remote w3 = remote w2" by (simp add: github_law_def) (metis snd_conv)
        with found existing Some w' show ?thesis by (auto simp: Let_def)
      qed
    qed
  qed
qed

definition checks_once ::
    "('w \<Rightarrow> (string \<times> string \<times> string) list) \<Rightarrow> check_call list \<Rightarrow> (exn + int) list \<times> 'w \<Rightarrow> bool" where
  "checks_once remote ks out =
     (distinct (remote (snd out)) \<and> length (fst out) = length ks
      \<and> list_all2 (found_or_created (remote (snd out))) ks (fst out))"

lemma upserts_grow:
  assumes law: "github_law cc remote"
  shows "calls_ok ks \<Longrightarrow> length (remote w) + length ks \<le> 100 \<Longrightarrow> distinct (remote w) \<Longrightarrow>
     set (remote w) \<subseteq> set (remote (snd (upserts cc ks w))) \<and> checks_once remote ks (upserts cc ks w)"
proof (induction ks arbitrary: w)
  case Nil
  then show ?case by (simp add: checks_once_def)
next
  case (Cons k ks)
  obtain q w1 where q: "upsert_completed cc (kc_repository k) (kc_installation_id k) (kc_payload k) (kc_known k) w = (q, w1)"
    by (cases "upsert_completed cc (kc_repository k) (kc_installation_id k) (kc_payload k) (kc_known k) w")
  obtain qs w2 where qs: "upserts cc ks w1 = (qs, w2)" by (cases "upserts cc ks w1")
  have sha: "CHR ''/'' \<notin> set (gp_head_sha (kc_payload k))" and rest: "calls_ok ks" and small: "length (remote w) \<le> 100"
    using Cons.prems by (auto simp: calls_ok_def)
  from upsert_law [OF law sha small q] have step: "remote w1 = remote w \<or> remote w1 = remote w @ [check_key k] \<and> check_key k \<notin> set (remote w)"
    and mine: "is_ok q \<and> kc_known k = None \<Longrightarrow> check_key k \<in> set (remote w1)"
    by (auto simp: check_key_def Let_def)
  from step Cons.prems have "length (remote w1) + length ks \<le> 100" "distinct (remote w1)" by auto
  from Cons.IH [OF rest this] qs have IH: "set (remote w1) \<subseteq> set (remote w2)" "checks_once remote ks (qs, w2)" by auto
  from step IH mine show ?case by (auto simp: q qs checks_once_def found_or_created_def)
qed

text \<open>
  C13: Under GitHub's documented behaviour, any sequence of publications, among them repeated ones and
  ones whose replies were lost, creates at most one Check of each run and revision, as long as one page
  of a listing holds them all: no Check exists twice, and one exists for every call that returned an
  identity it was not given.
\<close>

theorem one_check_per_run:
  assumes "github_law cc remote" "calls_ok ks" "length (remote w) + length ks \<le> 100" "distinct (remote w)"
  shows "checks_once remote ks (upserts cc ks w)"
  using upserts_grow [OF assms] by blast

text \<open>
  A server that keeps a list of Checks; its first reply to a creation is lost.
\<close>

definition between :: "nat \<Rightarrow> nat \<Rightarrow> string \<Rightarrow> string" where
  "between m n s = take (length s - m - n) (drop m s)"

definition listing_url :: "string \<Rightarrow> string \<Rightarrow> string" where
  "listing_url repository sha = ''/repos/'' @ repository @ ''/commits/'' @ sha @ ''/check-runs''"

definition memory_github :: "((string \<times> string \<times> string) list, (string \<times> int) list) http_call" where
  "memory_github r R =
     (case rq_json r of
        None \<Rightarrow> (HttpResponse 200 (map (\<lambda>(repository, sha, x). (x, 1)) (filter (\<lambda>(repository, sha, x). CHR ''/'' \<notin> set sha \<and> rq_url r = listing_url repository sha) R)), R)
      | Some b \<Rightarrow>
          (case cb_identity b of
             None \<Rightarrow> (HttpResponse 200 [([], 1)], R)
           | Some (sha, x) \<Rightarrow>
               (if R = [] then HttpTransportFailure else HttpResponse 201 [(x, 1)], R @ [(between 7 11 (rq_url r), sha, x)])))"

definition memory_client :: "((string \<times> string \<times> string) list, (string \<times> int) list) checks_client" where
  "memory_client =
     \<lparr>cc_token_for = static_token_for ''token'', cc_request = memory_github, cc_base_url = [],
      cc_id = (\<lambda>items. case items of [] \<Rightarrow> None | (x, n) # _ \<Rightarrow> Some n),
      cc_listing = (\<lambda>items. Some (map (\<lambda>(x, n). CheckItem (Some x) (Some n)) items))\<rparr>"

definition sample_call :: check_call where
  "sample_call =
     \<lparr>kc_repository = ''o/r'', kc_installation_id = Some 1,
      kc_payload = \<lparr>gp_name = CHECK_NAME, gp_head_sha = ''ab'', gp_status = ''completed'', gp_conclusion = ''neutral'',
        gp_external_id = ''run'', gp_output = \<lparr>gc_title = ''t'', gc_summary = ''s'', gc_text = ''x''\<rparr>\<rparr>,
      kc_known = None\<rparr>"

lemma listing_url_inj:
  assumes "listing_url r s = listing_url r' s'" "CHR ''/'' \<notin> set s'" "CHR ''/'' \<notin> set s"
  shows "r' = r \<and> s' = s"
proof -
  from assms(1) have eq: "r @ ''/commits/'' @ s = r' @ ''/commits/'' @ s'" by (simp add: listing_url_def)
  have last: "rev (takeWhile (\<lambda>c. c \<noteq> CHR ''/'') (rev (q @ ''/commits/'' @ t))) = t" if "CHR ''/'' \<notin> set t" for q t
    by (simp, subst takeWhile_append2) (use that in auto)
  from last [OF assms(2), of r'] last [OF assms(3), of r] eq have "s' = s" by metis
  with eq show ?thesis by simp
qed

lemma memory_lists:
  assumes "CHR ''/'' \<notin> set sha"
  shows "lists_checks R repository sha (cc_listing memory_client (map (\<lambda>(r, s, x). (x, 1))
      (filter (\<lambda>(r, s, x). CHR ''/'' \<notin> set s \<and> listing_url repository sha = listing_url r s) R)))"
proof -
  have same: "CHR ''/'' \<notin> set s \<and> listing_url repository sha = listing_url r s \<longleftrightarrow> r = repository \<and> s = sha" for r s
    using listing_url_inj [of repository sha r s] assms by blast
  show ?thesis unfolding same by (force simp: lists_checks_def memory_client_def)
qed

lemma memory_github_law: "github_law memory_client id"
  unfolding github_law_def
proof (intro conjI allI impI)
  fix token repository p w reply w'
  assume "cc_request memory_client (create_request memory_client token repository p) w = (reply, w')"
  moreover have "between 7 11 (''/repos/'' @ repository @ ''/check-runs'') = repository" by (simp add: between_def)
  ultimately show "creates (repository, gp_head_sha p, gp_external_id p) reply (id w) (id w')"
    by (auto simp: memory_client_def create_request_def memory_github_def whole_body_def creates_def)
next
  fix token repository sha w reply w' code content
  assume "cc_request memory_client (listing_request memory_client token repository sha) w = (reply, w')"
    "CHR ''/'' \<notin> set sha" "reply = HttpResponse code content"
  then show "lists_checks (id w) repository sha (cc_listing memory_client content)"
    using memory_lists [of sha w repository]
    by (auto simp: memory_client_def listing_request_def memory_github_def listing_url_def)
next
  fix n repository w
  show "id (snd (cc_token_for memory_client n repository w)) = id w"
    by (simp add: memory_client_def static_token_for_def)
next
  fix token repository k p w
  show "id (snd (cc_request memory_client (update_request memory_client token repository k p) w)) = id w"
    by (simp add: memory_client_def update_request_def memory_github_def)
next
  fix token repository sha w reply w'
  assume "cc_request memory_client (listing_request memory_client token repository sha) w = (reply, w')"
  then show "id w' = id w" by (auto simp: memory_client_def listing_request_def memory_github_def)
qed

text \<open>The first reply is lost, yet the second call finds the Check.\<close>

lemma sample_upserts:
  "upserts memory_client [sample_call, sample_call] [] =
     ([Inl (GitHubCheckRetryableError ''GitHub Checks API is temporarily unavailable''), Inr 1], [(''o/r'', ''ab'', ''run'')])"
  by code_simp

theorem one_check_per_run_witness:
  "checks_once id [sample_call, sample_call] (upserts memory_client [sample_call, sample_call] [])"
  by (rule one_check_per_run [OF memory_github_law]) (simp_all add: calls_ok_def sample_call_def)

end
