(* ===== verification/CloudExecutor.thy ===== *)
theory CloudExecutor
  imports EvidenceWorkflow ControlPlane
begin

text \<open>
  \<open>src/patchproof/cloud_executor.py\<close>: the documents that cross between the control plane and the private
  executor, the executor that fetches a public pull request and runs one challenge in disposable worktrees,
  and its routes. Subprocesses, Git and the host are calls on the world. The facts say that a challenge
  crosses the wire unchanged and that the executor answers only for an allowlisted repository, the pull
  request's own HEAD and a contract that both revisions commit or that PatchProof synthesized.
\<close>

section \<open>Requests\<close>

datatype ExecutionContractOrigin = REPOSITORY | PATCHPROOF_PROBE | PATCHPROOF_MANIFEST

record ExecutorEnvironmentRequest =
  xq_repository :: string
  xq_pull_request_number :: int
  xq_base_sha :: string
  xq_head_sha :: string
  xq_contract :: ExecutionContract
  xq_contract_origin :: ExecutionContractOrigin
  xq_repository_python_paths :: "string list"

definition python_path_ok :: "string \<Rightarrow> bool" where
  "python_path_ok item = (item \<noteq> [] \<and> \<not> is_absolute item \<and> ''..'' \<notin> set (path_parts item))"

text \<open>The \<open>pattern\<close> of a field has no anchors and is searched.\<close>

definition environment_request_checks :: "'a ExecutorEnvironmentRequest_scheme \<Rightarrow> (bool \<times> exn) list" where
  "environment_request_checks q =
     [(xq_pull_request_number q \<le> 0, ValidationError ''pull_request_number''),
      (\<not> search git_sha_pattern (xq_base_sha q), ValidationError ''base_sha''),
      (\<not> search git_sha_pattern (xq_head_sha q), ValidationError ''head_sha''),
      (4 < length (xq_repository_python_paths q), ValidationError ''repository_python_paths''),
      (\<not> list_all python_path_ok (xq_repository_python_paths q),
       ValidationError ''repository Python paths must be relative and normalized''),
      (\<not> distinct (xq_repository_python_paths q), ValidationError ''repository Python paths must be unique'')]"

definition normalized_repository :: "string \<Rightarrow> exn + string" where
  "normalized_repository value =
     (case normalize_repository_name value of Inl e \<Rightarrow> Inl (ValidationError (error_message e)) | Inr r \<Rightarrow> Inr r)"

definition mk_ExecutorEnvironmentRequest :: "ExecutorEnvironmentRequest \<Rightarrow> exn + ExecutorEnvironmentRequest" where
  "mk_ExecutorEnvironmentRequest q =
     rbind (normalized_repository (xq_repository q)) (\<lambda>repository.
     rbind (mk_ExecutionContract (xq_contract q)) (\<lambda>contract.
     rbind (checks (environment_request_checks q)) (\<lambda>_. Inr (q\<lparr>xq_repository := repository, xq_contract := contract\<rparr>))))"

record ExecutorChallengeRequest = ExecutorEnvironmentRequest +
  xq_artifact_path :: string
  xq_node_id :: string
  xq_artifact_source :: string
  xq_artifact_sha256 :: string

definition mk_ExecutorChallengeRequest :: "ExecutorChallengeRequest \<Rightarrow> exn + ExecutorChallengeRequest" where
  "mk_ExecutorChallengeRequest q =
     rbind (normalized_repository (xq_repository q)) (\<lambda>repository.
     rbind (mk_ExecutionContract (xq_contract q)) (\<lambda>contract.
     rbind (checks (environment_request_checks q @
       [(\<not> len_between 1 300 (xq_artifact_path q), ValidationError ''artifact_path''),
        (\<not> len_between 1 500 (xq_node_id q), ValidationError ''node_id''),
        (\<not> len_between 1 16000 (xq_artifact_source q), ValidationError ''artifact_source''),
        (\<not> search sha256_pattern (xq_artifact_sha256 q), ValidationError ''artifact_sha256'')])) (\<lambda>_.
     Inr (q\<lparr>xq_repository := repository, xq_contract := contract\<rparr>))))"

definition request_artifact :: "ExecutorChallengeRequest \<Rightarrow> exn + TestArtifact" where
  "request_artifact q =
     rbind (from_text (xq_artifact_path q) (xq_node_id q) (xq_artifact_source q)) (\<lambda>artifact.
     if ta_sha256 artifact \<noteq> xq_artifact_sha256 q
     then Inl (ValueError ''candidate artifact hash does not match its source'') else Inr artifact)"

section \<open>Responses\<close>

record ExecutionResultDocument =
  xr_role :: RevisionRole
  xr_revision_sha :: string
  xr_test_node_id :: string
  xr_expected_artifact_sha256 :: string
  xr_artifact_sha256_before :: "string option"
  xr_artifact_sha256_after :: "string option"
  xr_status :: TestExecutionStatus
  xr_collected_count :: int
  xr_exit_code :: "int option"
  xr_duration_seconds :: seconds
  xr_stdout :: string
  xr_stderr :: string
  xr_detail :: "string option"

definition result_document :: "ExecutionResult \<Rightarrow> ExecutionResultDocument" where
  "result_document r =
     \<lparr>xr_role = rev_role (er_revision r), xr_revision_sha = rev_sha (er_revision r), xr_test_node_id = er_test_node_id r,
      xr_expected_artifact_sha256 = er_expected_sha256 r, xr_artifact_sha256_before = er_sha256_before r,
      xr_artifact_sha256_after = er_sha256_after r, xr_status = er_status r, xr_collected_count = er_collected_count r,
      xr_exit_code = er_exit_code r, xr_duration_seconds = er_duration_seconds r, xr_stdout = er_stdout r,
      xr_stderr = er_stderr r, xr_detail = er_detail r\<rparr>"

definition document_result :: "ExecutionResultDocument \<Rightarrow> exn + ExecutionResult" where
  "document_result d =
     rbind (mk_Revision (xr_role d) (xr_revision_sha d)) (\<lambda>revision.
     mk_ExecutionResult
       \<lparr>er_revision = revision, er_test_node_id = xr_test_node_id d, er_expected_sha256 = xr_expected_artifact_sha256 d,
        er_sha256_before = xr_artifact_sha256_before d, er_sha256_after = xr_artifact_sha256_after d,
        er_status = xr_status d, er_collected_count = xr_collected_count d, er_exit_code = xr_exit_code d,
        er_duration_seconds = xr_duration_seconds d, er_stdout = xr_stdout d, er_stderr = xr_stderr d, er_detail = xr_detail d\<rparr>)"

record ExecutorChallengeResponse =
  xs_artifact_path :: string
  xs_node_id :: string
  xs_artifact_source :: string
  xs_artifact_sha256 :: string
  xs_base :: ExecutionResultDocument
  xs_head :: ExecutionResultDocument
  xs_mechanical_status :: MechanicalEvidenceStatus
  xs_differential_pattern :: DifferentialPattern
  xs_mechanical_reason :: string

definition challenge_response :: "ChallengeResult \<Rightarrow> exn + ExecutorChallengeResponse" where
  "challenge_response c =
     (case utf8_decode (ta_content (cr_artifact c)) of
        None \<Rightarrow> Inl (ValueError ''utf-8'')
      | Some source \<Rightarrow>
          Inr \<lparr>xs_artifact_path = ta_relative_path (cr_artifact c), xs_node_id = ta_node_id (cr_artifact c),
               xs_artifact_source = source, xs_artifact_sha256 = ta_sha256 (cr_artifact c),
               xs_base = result_document (cr_base c), xs_head = result_document (cr_head c),
               xs_mechanical_status = ea_mechanical_status (cr_assessment c),
               xs_differential_pattern = ea_pattern (cr_assessment c), xs_mechanical_reason = ea_reason (cr_assessment c)\<rparr>)"

definition response_challenge :: "ExecutorChallengeResponse \<Rightarrow> exn + ChallengeResult" where
  "response_challenge d =
     rbind (from_text (xs_artifact_path d) (xs_node_id d) (xs_artifact_source d)) (\<lambda>artifact.
     if ta_sha256 artifact \<noteq> xs_artifact_sha256 d then Inl (ValueError ''executor response artifact hash is inconsistent'')
     else rbind (document_result (xs_base d)) (\<lambda>base.
          rbind (document_result (xs_head d)) (\<lambda>head.
          mk_ChallengeResult
            \<lparr>cr_artifact = artifact, cr_base = base, cr_head = head,
             cr_assessment = \<lparr>ea_mechanical_status = xs_mechanical_status d, ea_pattern = xs_differential_pattern d,
               ea_reason = xs_mechanical_reason d, ea_claim_outcome = None\<rparr>\<rparr>)))"

record ExecutorEnvironmentResponse =
  xv_status :: EnvironmentReadinessStatus
  xv_reason :: string

definition readiness_response :: "EnvironmentReadiness \<Rightarrow> exn + ExecutorEnvironmentResponse" where
  "readiness_response r =
     (if \<not> len_between 1 2000 (rd_reason r) then Inl (ValidationError ''reason'')
      else Inr \<lparr>xv_status = rd_status r, xv_reason = rd_reason r\<rparr>)"

definition response_readiness :: "ExecutorEnvironmentResponse \<Rightarrow> EnvironmentReadiness" where
  "response_readiness d = \<lparr>rd_status = xv_status d, rd_reason = xv_reason d, rd_setup_diagnostic = None\<rparr>"

section \<open>The executor\<close>

text \<open>
  \<open>xc_command\<close> is \<open>subprocess.run\<close>: exit code, output and error text, or \<open>OSError\<close> or \<open>TimeoutExpired\<close>.
  \<open>xc_git\<close> is the worktree manager's Git in a source repository.
\<close>

record 'w executor =
  xc_allowed_repositories :: "string set"
  xc_git_timeout_seconds :: seconds
  xc_host :: "'w host"
  xc_command :: "seconds \<Rightarrow> string list \<Rightarrow> ('w, exn, int \<times> bytes \<times> bytes) prog"
  xc_git :: "string \<Rightarrow> 'w git_call"
  xc_mkdir :: "string \<Rightarrow> ('w, exn, unit) prog"
  xc_make_directories :: "string \<Rightarrow> ('w, exn, unit) prog"
  xc_temp_dir :: string
  xc_python_executable :: string
  xc_yaml :: "bytes \<Rightarrow> contract_document"

definition mk_executor :: "string list \<Rightarrow> seconds \<Rightarrow> 'w executor \<Rightarrow> exn + 'w executor" where
  "mk_executor allowed_repositories git_timeout_seconds ex =
     rbind (rmap normalize_repository_name allowed_repositories) (\<lambda>allowed.
     rbind (checks
       [(allowed = [], ValueError ''executor requires at least one allowlisted repository''),
        (git_timeout_seconds \<le> 0, ValueError ''Git timeout must be positive'')]) (\<lambda>_.
     Inr (ex\<lparr>xc_allowed_repositories := set allowed, xc_git_timeout_seconds := git_timeout_seconds\<rparr>)))"

definition run_bounded :: "'w executor \<Rightarrow> string list \<Rightarrow> ('w, exn, bytes) prog" where
  "run_bounded ex command = (\<lambda>w.
     case xc_command ex (xc_git_timeout_seconds ex) command w of
       (Inl (OSError m), w') \<Rightarrow> (Inl (RuntimeError ''bounded Git preparation failed''), w')
     | (Inl TimeoutExpired, w') \<Rightarrow> (Inl (RuntimeError ''bounded Git preparation failed''), w')
     | (Inl e, w') \<Rightarrow> (Inl e, w')
     | (Inr (code, out, err), w') \<Rightarrow>
         (if code \<noteq> 0
          then (Inl (RuntimeError (''Git preparation failed: '' @ take 1000 (h_decode (xc_host ex) err))), w')
          else (Inr out, w')))"

definition git_output :: "'w executor \<Rightarrow> string \<Rightarrow> string list \<Rightarrow> ('w, exn, bytes) prog" where
  "git_output ex repository arguments = run_bounded ex ([''git'', ''-C'', repository] @ arguments)"

definition fetch_repository :: "'w executor \<Rightarrow> 'a ExecutorEnvironmentRequest_scheme \<Rightarrow> string \<Rightarrow> ('w, exn, unit) prog" where
  "fetch_repository ex q destination =
     pbind (xc_mkdir ex destination) (\<lambda>_.
     pbind (git_output ex destination [''init'', ''--bare'']) (\<lambda>_.
     pbind (git_output ex destination
              [''remote'', ''add'', ''origin'', ''https://github.com/'' @ xq_repository q @ ''.git'']) (\<lambda>_.
     pbind (git_output ex destination
              [''fetch'', ''--no-tags'', ''origin'',
               ''+refs/pull/'' @ str_int (xq_pull_request_number q) @ ''/head:refs/patchproof/head'']) (\<lambda>_.
     pbind (git_output ex destination [''fetch'', ''--no-tags'', ''origin'', xq_base_sha q]) (\<lambda>_.
     pbind (git_output ex destination [''rev-parse'', ''refs/patchproof/head'']) (\<lambda>out.
     pbind (plift (case utf8_decode out of None \<Rightarrow> Inl (ValueError ''utf-8'') | Some s \<Rightarrow> Inr s)) (\<lambda>resolved.
     pbind (pguard (lower (strip resolved) = xq_head_sha q)
              (ValueError ''fetched pull-request HEAD does not match the webhook SHA'')) (\<lambda>_.
     pbind (git_output ex destination [''cat-file'', ''-e'', xq_base_sha q @ ''^{commit}'']) (\<lambda>_. preturn ())))))))))"

text \<open>\<open>GitWorkspaceManager(...)\<close>: the resolved repository and root it works with.\<close>

definition open_workspaces :: "'w executor \<Rightarrow> string \<Rightarrow> string \<Rightarrow> ('w, exn, string \<times> string) prog" where
  "open_workspaces ex source_repository workspace_root =
     pbind (pget (\<lambda>w. (h_resolve (xc_host ex) source_repository w, h_resolve (xc_host ex) workspace_root w))) (\<lambda>(repository, root).
     pbind (pget (h_is_dir (xc_host ex) repository)) (\<lambda>is_dir.
     pbind (pguard is_dir (GitWorkspaceError (''source repository does not exist: '' @ repository))) (\<lambda>_.
     pbind (xc_make_directories ex root) (\<lambda>_.
     pbind (run_git_in (xc_git ex repository) True [''rev-parse'', ''--git-dir'']) (\<lambda>_.
     preturn (repository, root))))))"

definition agree_on_contract :: "'w executor \<Rightarrow> 'a ExecutorEnvironmentRequest_scheme \<Rightarrow> string \<Rightarrow> ('w, exn, unit) prog" where
  "agree_on_contract ex q repository =
     (if xq_contract_origin q = ExecutionContractOrigin.REPOSITORY then
        pbind (git_output ex repository [''show'', xq_base_sha q @ '':'' @ contract_filename]) (\<lambda>base_raw.
        pbind (plift (load_bytes (xc_yaml ex) base_raw)) (\<lambda>base_contract.
        pbind (git_output ex repository [''show'', xq_head_sha q @ '':'' @ contract_filename]) (\<lambda>head_raw.
        pbind (plift (load_bytes (xc_yaml ex) head_raw)) (\<lambda>head_contract.
        pguard (base_contract = head_contract \<and> head_contract = xq_contract q)
          (ValueError ''immutable BASE/HEAD execution contracts do not match'')))))
      else pguard (ec_synthesized (xq_contract q))
             (ValueError ''PatchProof-supplied execution requires a synthesized contract''))"

definition prepare_challenge ::
    "'w executor \<Rightarrow> 'a ExecutorEnvironmentRequest_scheme \<Rightarrow> string \<Rightarrow> ('w, exn, string \<times> string \<times> pytest_runner) prog" where
  "prepare_challenge ex q temporary =
     (let repository = under temporary ''repository.git'' in
      pbind (fetch_repository ex q repository) (\<lambda>_.
      pbind (agree_on_contract ex q repository) (\<lambda>_.
      pbind (open_workspaces ex repository (under temporary ''worktrees'')) (\<lambda>(source_repository, workspace_root).
      pbind (plift (mk_pytest_runner (xq_contract q) (xc_python_executable ex) True (xq_repository_python_paths q))) (\<lambda>runner.
      preturn (source_repository, workspace_root, runner))))))"

text \<open>\<open>BaseHeadChallenge.run\<close> and \<open>prepare_environment\<close>: a session of one operation, with a runner of its own.\<close>

definition single_session ::
    "'w executor \<Rightarrow> string \<times> string \<times> pytest_runner \<Rightarrow> string \<Rightarrow> string
     \<Rightarrow> (RevisionWorkspaces \<Rightarrow> ('w session_state, exn, 'r) prog) \<Rightarrow> ('w, exn, 'r) prog" where
  "single_session ex prepared base_ref head_ref body =
     (case prepared of (source_repository, workspace_root, runner) \<Rightarrow> (\<lambda>w.
        case with_pair (xc_host ex) (xc_git ex source_repository) workspace_root base_ref head_ref body (w, {}) of
          (r, (w', _)) \<Rightarrow> (r, w')))"

definition challenge_run :: "'w executor \<Rightarrow> string \<times> string \<times> pytest_runner \<Rightarrow> string \<Rightarrow> string \<Rightarrow> TestArtifact \<Rightarrow> ('w, exn, ChallengeResult) prog" where
  "challenge_run ex prepared base_ref head_ref artifact =
     single_session ex prepared base_ref head_ref (\<lambda>pair ws.
       case session_run (xc_host ex) (snd (snd prepared)) pair artifact (\<lambda>_. preturn ()) (ws, ()) of (r, (ws', _)) \<Rightarrow> (r, ws'))"

definition challenge_prepare_environment :: "'w executor \<Rightarrow> string \<times> string \<times> pytest_runner \<Rightarrow> string \<Rightarrow> string \<Rightarrow> ('w, exn, EnvironmentReadiness) prog" where
  "challenge_prepare_environment ex prepared base_ref head_ref =
     single_session ex prepared base_ref head_ref (session_prepare_environment (xc_host ex) (snd (snd prepared)))"

definition in_temporary_directory :: "'w executor \<Rightarrow> (string \<Rightarrow> ('w, exn, 'r) prog) \<Rightarrow> ('w, exn, 'r) prog" where
  "in_temporary_directory ex body =
     pbind (h_mkdtemp (xc_host ex) ''patchproof-executor-'' (xc_temp_dir ex)) (\<lambda>temporary.
     finally_do (body temporary) (h_rmtree (xc_host ex) temporary))"

definition executor_execute :: "'w executor \<Rightarrow> ExecutorChallengeRequest \<Rightarrow> ('w, exn, ExecutorChallengeResponse) prog" where
  "executor_execute ex q =
     pbind (pguard (xq_repository q \<in> xc_allowed_repositories ex) (PermissionError ''repository is not allowlisted'')) (\<lambda>_.
     pbind (plift (request_artifact q)) (\<lambda>artifact.
     pbind (pguard (permits_test_path (xq_contract q) (ta_relative_path artifact))
              (ValueError ''candidate path is not permitted by the execution contract'')) (\<lambda>_.
     in_temporary_directory ex (\<lambda>temporary.
       pbind (prepare_challenge ex q temporary) (\<lambda>prepared.
       pbind (challenge_run ex prepared (xq_base_sha q) (xq_head_sha q) artifact) (\<lambda>c.
       plift (challenge_response c)))))))"

definition executor_prepare_environment :: "'w executor \<Rightarrow> 'a ExecutorEnvironmentRequest_scheme \<Rightarrow> ('w, exn, ExecutorEnvironmentResponse) prog" where
  "executor_prepare_environment ex q =
     pbind (pguard (xq_repository q \<in> xc_allowed_repositories ex) (PermissionError ''repository is not allowlisted'')) (\<lambda>_.
     in_temporary_directory ex (\<lambda>temporary.
       pbind (prepare_challenge ex q temporary) (\<lambda>prepared.
       pbind (challenge_prepare_environment ex prepared (xq_base_sha q) (xq_head_sha q)) (\<lambda>readiness.
       plift (readiness_response readiness)))))"

section \<open>The routes\<close>

text \<open>\<open>str(error)\<close> of a permission or value error.\<close>

fun error_text :: "exn \<Rightarrow> string" where
  "error_text (PermissionError m) = m"
| "error_text (ValueError m) = m"
| "error_text (ValidationError m) = m"
| "error_text (ExecutionContractError m) = m"
| "error_text _ = []"

definition executor_error :: "exn \<Rightarrow> http_error" where
  "executor_error e =
     (case e of
        PermissionError m \<Rightarrow> HTTPException 403 m
      | _ \<Rightarrow> (if is_value_error e then HTTPException 422 (error_text e) else HTTPException 503 ''executor failed closed''))"

definition executor_route :: "('w, exn, 'r) prog \<Rightarrow> ('w, http_error, 'r) prog" where
  "executor_route m = (\<lambda>w. case m w of (Inl e, w') \<Rightarrow> (Inl (executor_error e), w') | (Inr r, w') \<Rightarrow> (Inr r, w'))"

text \<open>The two routes: the request document is validated first, which FastAPI answers with 422.\<close>

definition challenge_route :: "'w executor \<Rightarrow> ExecutorChallengeRequest \<Rightarrow> ('w, http_error, ExecutorChallengeResponse) prog" where
  "challenge_route ex q =
     (case mk_ExecutorChallengeRequest q of
        Inl e \<Rightarrow> praise (HTTPException 422 (error_text e))
      | Inr q \<Rightarrow> executor_route (executor_execute ex q))"

definition environment_route :: "'w executor \<Rightarrow> ExecutorEnvironmentRequest \<Rightarrow> ('w, http_error, ExecutorEnvironmentResponse) prog" where
  "environment_route ex q =
     (case mk_ExecutorEnvironmentRequest q of
        Inl e \<Rightarrow> praise (HTTPException 422 (error_text e))
      | Inr q \<Rightarrow> executor_route (executor_prepare_environment ex q))"

section \<open>Across the wire\<close>

text \<open>A result as the runner builds it: of its revision and artifact, and past its constructor's checks.\<close>

definition built :: "Revision \<Rightarrow> TestArtifact \<Rightarrow> ExecutionResult \<Rightarrow> bool" where
  "built revision artifact r = (describes revision artifact r \<and> execution_ok r)"

lemma result_of_built: "result_of revision artifact before after status n code d out err detail = Inr r \<Longrightarrow> built revision artifact r"
  unfolding result_of_def built_def execution_ok_def
  by (frule mk_ExecutionResult_eq) (auto simp: describes_def is_ok_def)

lemma results_built:
  "early_result revision artifact status d detail = Inr r \<Longrightarrow> built revision artifact r"
  "setup_failed_result revision artifact d diag = Inr r \<Longrightarrow> built revision artifact r"
  "completed_result host rn revision artifact before after d report completed = Inr r \<Longrightarrow> built revision artifact r"
  by (auto simp: early_result_def setup_failed_result_def completed_result_def Let_def dest: result_of_built split: if_splits option.splits)

lemma run_pytest_built: "run_pytest host rn workspace revision artifact p before t dir w = (Inr r, w') \<Longrightarrow> built revision artifact r"
  by (auto simp: run_pytest_def Let_def guard_simps dest: results_built)

lemma finally_ok [guard_simps]: "finally_do m cleanup w = (Inr r, w') \<longleftrightarrow> (\<exists>v. m w = (Inr r, v) \<and> w' = cleanup v)"
  by (auto simp: finally_do_def split: prod.splits)

lemma run_injected_built: "run_injected host rn workspace revision artifact p t w = (Inr r, w') \<Longrightarrow> built revision artifact r"
  by (auto simp: run_injected_def Let_def guard_simps
      dest: results_built result_of_built run_pytest_built split: prod.splits sum.splits option.splits)

lemma run_built: "run host rn workspace revision artifact st = (Inr r, st') \<Longrightarrow> built revision artifact r"
  by (cases st) (auto simp: run_def Let_def dest: results_built run_injected_built split: prod.splits sum.splits option.splits if_splits)

text \<open>A challenge whose parts are as their constructors make them.\<close>

definition wire_ok :: "ChallengeResult \<Rightarrow> bool" where
  "wire_ok c =
     ((\<exists>source. from_text (ta_relative_path (cr_artifact c)) (ta_node_id (cr_artifact c)) source = Inr (cr_artifact c))
      \<and> revision_ok (er_revision (cr_base c)) \<and> revision_ok (er_revision (cr_head c))
      \<and> execution_ok (cr_base c) \<and> execution_ok (cr_head c)
      \<and> rev_role (er_revision (cr_base c)) = BASE \<and> rev_role (er_revision (cr_head c)) = HEAD
      \<and> ea_claim_outcome (cr_assessment c) = None)"

lemma revision_again: "revision_ok v \<Longrightarrow> mk_Revision (rev_role v) (rev_sha v) = Inr v"
  by (simp add: mk_Revision_def Let_def revision_ok_def lower_hex_fixed)

lemma document_roundtrip:
  assumes "revision_ok (er_revision r)" "execution_ok r"
  shows "document_result (result_document r) = Inr r"
proof -
  from assms(2) obtain r' where "mk_ExecutionResult r = Inr r'" by (auto simp: execution_ok_def is_ok_iff)
  with mk_ExecutionResult_eq have "mk_ExecutionResult r = Inr r" by blast
  then show ?thesis by (cases r) (use revision_again [OF assms(1)] in \<open>simp add: document_result_def result_document_def\<close>)
qed

lemma from_text_content: "from_text p n source = Inr a \<Longrightarrow> ta_content a = utf8 source \<and> ta_relative_path a = p \<and> ta_node_id a = n"
  by (simp add: from_text_def mk_TestArtifact_iff)

lemma challenge_roundtrip:
  assumes "wire_ok c"
  shows "\<exists>d. challenge_response c = Inr d \<and> response_challenge d = Inr c"
proof -
  from assms obtain source where a: "from_text (ta_relative_path (cr_artifact c)) (ta_node_id (cr_artifact c)) source = Inr (cr_artifact c)"
    by (auto simp: wire_ok_def)
  have decoded: "utf8_decode (ta_content (cr_artifact c)) = Some source" using from_text_content [OF a] by simp
  have base: "document_result (result_document (cr_base c)) = Inr (cr_base c)"
    and head: "document_result (result_document (cr_head c)) = Inr (cr_head c)"
    using assms by (auto simp: wire_ok_def intro: document_roundtrip)
  have eta: "\<lparr>cr_artifact = cr_artifact c, cr_base = cr_base c, cr_head = cr_head c,
      cr_assessment = \<lparr>ea_mechanical_status = ea_mechanical_status (cr_assessment c), ea_pattern = ea_pattern (cr_assessment c),
        ea_reason = ea_reason (cr_assessment c), ea_claim_outcome = None\<rparr>\<rparr> = c"
    using assms by (cases c; cases "cr_assessment c") (simp add: wire_ok_def)
  have "mk_ChallengeResult c = Inr c" using assms by (simp add: mk_ChallengeResult_def wire_ok_def)
  then show ?thesis by (simp add: challenge_response_def decoded response_challenge_def a base head eta)
qed

section \<open>What the executor answers\<close>

lemma resolve_revision_returns:
  "resolve_revision git ref role w = (Inr v, w') \<Longrightarrow> revision_ok v \<and> rev_role v = role"
  by (auto simp: resolve_revision_def guard_simps dest: mk_Revision_ok)

text \<open>What a session of the worktree pair returned, its body returned, on revisions that Git resolved.\<close>

lemma with_pair_returns:
  assumes "with_pair host git workspace_root base_ref head_ref body (w, s) = (Inr r, (w', s'))"
  shows "\<exists>pair w1 w2. body pair (w1, s) = (Inr r, (w2, s')) \<and> revision_ok (rw_base_revision pair) \<and> revision_ok (rw_head_revision pair)"
proof -
  from assms obtain b w1 h w2 run_root w3 where b: "resolve_revision git base_ref BASE w = (Inr b, w1)"
    and h: "resolve_revision git head_ref HEAD w1 = (Inr h, w2)"
    and tail: "(let base_path = under run_root ''base''; head_path = under run_root ''head'';
           pair = \<lparr>rw_base_revision = b, rw_head_revision = h, rw_base_path = base_path, rw_head_path = head_path\<rparr>;
           (added, registered, w1) = add_worktrees git [(b, base_path), (h, head_path)] [] w3;
           (result, (w2, s2)) = (case added of Inl e \<Rightarrow> (Inl e, (w1, s)) | Inr _ \<Rightarrow> body pair (w1, s));
           active_error = (case result of Inl e \<Rightarrow> Some e | Inr _ \<Rightarrow> None);
           (cleaned, w3) = cleanup_pair host git run_root registered active_error w2 in
       (case cleaned of Inl e \<Rightarrow> Inl e | Inr _ \<Rightarrow> result, (w3, s2))) = (Inr r, (w', s'))"
    unfolding with_pair_def by (auto simp only: pbind_eq_ok on_fst_ok prod.case)
  let ?pair = "\<lparr>rw_base_revision = b, rw_head_revision = h, rw_base_path = under run_root ''base'', rw_head_path = under run_root ''head''\<rparr>"
  obtain added registered w4 where a: "add_worktrees git [(b, under run_root ''base''), (h, under run_root ''head'')] [] w3 = (added, registered, w4)"
    by (cases "add_worktrees git [(b, under run_root ''base''), (h, under run_root ''head'')] [] w3")
  obtain result w5 s5 where body: "body ?pair (w4, s) = (result, (w5, s5))" by (cases "body ?pair (w4, s)") auto
  have ok: "revision_ok (rw_base_revision ?pair)" "revision_ok (rw_head_revision ?pair)"
    using resolve_revision_returns [OF b] resolve_revision_returns [OF h] by auto
  show ?thesis
  proof (cases added)
    case (Inl e)
    with tail show ?thesis unfolding Let_def a by (auto split: prod.splits sum.splits)
  next
    case (Inr u)
    with tail body have "result = Inr r" "s5 = s'" unfolding Let_def a by (auto split: prod.splits sum.splits)
    with body ok show ?thesis by blast
  qed
qed

lemma classify_no_outcome:
  assumes "classify artifact base head = Inr a"
  shows "ea_claim_outcome a = None"
proof -
  have roles: "right_roles base head"
  proof (rule ccontr)
    assume "\<not> right_roles base head"
    with assms show False by (auto simp: classify_def right_roles_def)
  qed
  show ?thesis
  proof (cases "comparable artifact base head")
    case True
    with classify_comparable [OF roles this] assms show ?thesis by auto
  next
    case False
    with classify_not_comparable [OF roles this] assms show ?thesis by auto
  qed
qed

lemma session_run_wire:
  assumes r: "session_run host rn pair artifact cb (ws, s) = (Inr c, st)"
    and a: "\<exists>source. from_text (ta_relative_path artifact) (ta_node_id artifact) source = Inr artifact"
    and pair: "revision_ok (rw_base_revision pair)" "revision_ok (rw_head_revision pair)"
  shows "wire_ok c \<and> classified c \<and> cr_artifact c = artifact"
proof -
  obtain w installed where ws: "ws = (w, installed)" by (cases ws)
  from session_run_parts [OF r [unfolded ws]] obtain b h w1 i1 w2 i2 where
    b: "run host rn (rw_base_path pair) (rw_base_revision pair) artifact (w, installed) = (Inr b, (w1, i1))"
    and h: "run host rn (rw_head_path pair) (rw_head_revision pair) artifact (w1, i1) = (Inr h, (w2, i2))"
    and v: "classify artifact b h = Inr (cr_assessment c)" and c: "cr_artifact c = artifact" "cr_base c = b" "cr_head c = h" .
  have roles: "rev_role (er_revision (cr_base c)) = BASE" "rev_role (er_revision (cr_head c)) = HEAD"
    using r by (auto simp: session_run_def guard_simps mk_ChallengeResult_def simp del: checks.simps)
  show ?thesis
    using run_built [OF b] run_built [OF h] v c a pair roles classify_no_outcome [OF v]
    by (auto simp: wire_ok_def classified_def built_def describes_def)
qed

lemma challenge_run_returns:
  assumes r: "challenge_run ex prepared base_ref head_ref artifact w = (Inr c, w')"
    and a: "\<exists>source. from_text (ta_relative_path artifact) (ta_node_id artifact) source = Inr artifact"
  shows "wire_ok c \<and> classified c \<and> cr_artifact c = artifact"
proof -
  obtain source_repository workspace_root rn where prepared: "prepared = (source_repository, workspace_root, rn)" by (cases prepared)
  let ?body = "\<lambda>pair ws. case session_run (xc_host ex) rn pair artifact (\<lambda>_. preturn ()) (ws, ()) of (r, (ws', _)) \<Rightarrow> (r, ws')"
  from r obtain i where "with_pair (xc_host ex) (xc_git ex source_repository) workspace_root base_ref head_ref ?body (w, {}) = (Inr c, (w', i))"
    by (auto simp: challenge_run_def single_session_def prepared split: prod.splits)
  from with_pair_returns [OF this] obtain pair w1 w2 where b: "?body pair (w1, {}) = (Inr c, (w2, i))"
    and ok: "revision_ok (rw_base_revision pair)" "revision_ok (rw_head_revision pair)" by blast
  from b obtain ws u where "session_run (xc_host ex) rn pair artifact (\<lambda>_. preturn ()) ((w1, {}), ()) = (Inr c, (ws, u))"
    by (auto split: prod.splits)
  from session_run_wire [OF this a ok] show ?thesis .
qed

text \<open>The contract may be trusted: both revisions commit it, or PatchProof made it.\<close>

definition contract_trusted :: "'w executor \<Rightarrow> 'a ExecutorEnvironmentRequest_scheme \<Rightarrow> bool" where
  "contract_trusted ex q =
     (if xq_contract_origin q = ExecutionContractOrigin.REPOSITORY then
        (\<exists>base_raw head_raw. load_bytes (xc_yaml ex) base_raw = Inr (xq_contract q) \<and> load_bytes (xc_yaml ex) head_raw = Inr (xq_contract q))
      else ec_synthesized (xq_contract q))"

definition head_fetched :: "'w executor \<Rightarrow> 'a ExecutorEnvironmentRequest_scheme \<Rightarrow> bool" where
  "head_fetched ex q =
     (\<exists>repository w w' out sha. git_output ex repository [''rev-parse'', ''refs/patchproof/head''] w = (Inr out, w')
        \<and> utf8_decode out = Some sha \<and> lower (strip sha) = xq_head_sha q)"

definition executor_guarantee :: "'w executor \<Rightarrow> ExecutorChallengeRequest \<Rightarrow> 'w \<Rightarrow> bool" where
  "executor_guarantee ex q w =
     (case executor_execute ex q w of
        (Inl e, w') \<Rightarrow> xq_repository q \<in> xc_allowed_repositories ex \<or> w' = w \<and> executor_error e = HTTPException 403 ''repository is not allowlisted''
      | (Inr d, w') \<Rightarrow>
          xq_repository q \<in> xc_allowed_repositories ex \<and> contract_trusted ex q \<and> head_fetched ex q
          \<and> (\<exists>artifact c. request_artifact q = Inr artifact \<and> permits_test_path (xq_contract q) (ta_relative_path artifact)
               \<and> response_challenge d = Inr c \<and> classified c \<and> cr_artifact c = artifact))"

lemma fetch_repository_head: "fetch_repository ex q destination w = (Inr u, w') \<Longrightarrow> head_fetched ex q"
  by (auto simp: fetch_repository_def guard_simps head_fetched_def split: option.splits) blast

lemma agree_on_contract_trusted: "agree_on_contract ex q repository w = (Inr u, w') \<Longrightarrow> contract_trusted ex q"
  by (auto simp: agree_on_contract_def guard_simps contract_trusted_def split: if_splits)

lemma prepare_challenge_returns:
  "prepare_challenge ex q temporary w = (Inr prepared, w') \<Longrightarrow> head_fetched ex q \<and> contract_trusted ex q"
  by (auto simp: prepare_challenge_def Let_def guard_simps dest: fetch_repository_head agree_on_contract_trusted)

lemma request_artifact_text:
  "request_artifact q = Inr artifact \<Longrightarrow> \<exists>source. from_text (ta_relative_path artifact) (ta_node_id artifact) source = Inr artifact"
  using from_text_content by (auto simp: request_artifact_def guard_simps split: if_splits)

lemma executor_execute_returns:
  assumes x: "executor_execute ex q w = (Inr d, w')"
  shows "xq_repository q \<in> xc_allowed_repositories ex \<and> contract_trusted ex q \<and> head_fetched ex q
    \<and> (\<exists>artifact c. request_artifact q = Inr artifact \<and> permits_test_path (xq_contract q) (ta_relative_path artifact)
         \<and> response_challenge d = Inr c \<and> classified c \<and> cr_artifact c = artifact)"
proof -
  from x obtain artifact temporary w1 w2 prepared w3 c where q: "xq_repository q \<in> xc_allowed_repositories ex"
    and a: "request_artifact q = Inr artifact" "permits_test_path (xq_contract q) (ta_relative_path artifact)"
    and p: "prepare_challenge ex q temporary w1 = (Inr prepared, w2)"
    and r: "challenge_run ex prepared (xq_base_sha q) (xq_head_sha q) artifact w2 = (Inr c, w3)"
    and d: "challenge_response c = Inr d"
    by (auto simp: executor_execute_def in_temporary_directory_def guard_simps)
  from challenge_run_returns [OF r request_artifact_text [OF a(1)]] have c: "wire_ok c" "classified c" "cr_artifact c = artifact" by auto
  from challenge_roundtrip [OF c(1)] d have "response_challenge d = Inr c" by auto
  with q a prepare_challenge_returns [OF p] c show ?thesis by blast
qed


end
