(* ===== verification/CloudControl.thy ===== *)
theory CloudControl
  imports GithubChecks CloudExecutor ProductPreparation
begin

text \<open>
  \<open>src/patchproof/cloud_control.py\<close>: verification of the task callback's identity, the challenge that
  runs in the private executor, the processor of one durable run, and the routes of the deployed
  service. HTTP, the token services, subprocesses and the models are arguments. The challenge and the
  executor of \<open>CloudExecutor\<close> are composed here: a workflow that runs in the cloud has the guarantee of
  one that runs locally.
\<close>

section \<open>The caller of a task\<close>

text \<open>A claim of a decoded token: missing, true (which equals 1), a text, another value, or one Python cannot hash.\<close>

datatype claim_value = CMissing | CTrue | CText string | COther | CUnhashable

record identity_verifier =
  iv_audience :: string
  iv_service_account_email :: string

definition mk_identity_verifier :: "string \<Rightarrow> string \<Rightarrow> exn + identity_verifier" where
  "mk_identity_verifier audience service_account_email =
     rbind (guard (startswith audience ''https://'' \<and> CHR ''@'' \<in> set service_account_email)
              (ValueError ''task OIDC audience and service-account email are required'')) (\<lambda>_.
     Inr \<lparr>iv_audience = audience, iv_service_account_email = service_account_email\<rparr>)"

fun among :: "string list \<Rightarrow> claim_value \<Rightarrow> exn + bool" where
  "among texts (CText s) = Inr (s \<in> set texts)"
| "among texts CUnhashable = Inl (TypeError ''unhashable'')"
| "among texts _ = Inr False"

definition verified_email :: "claim_value \<Rightarrow> exn + bool" where
  "verified_email v = (if v = CTrue then Inr True else among [''true''] v)"

text \<open>\<open>verify_token token audience\<close> is Google's check of the signature, the expiry and the audience.\<close>

definition verify_identity ::
    "(string \<Rightarrow> string \<Rightarrow> exn + (string \<Rightarrow> claim_value)) \<Rightarrow> identity_verifier \<Rightarrow> string option \<Rightarrow> exn + unit" where
  "verify_identity verify_token iv authorization =
     (case authorization of
        None \<Rightarrow> Inl (PermissionError ''missing Cloud Tasks bearer token'')
      | Some value \<Rightarrow>
          (if \<not> startswith value ''Bearer '' then Inl (PermissionError ''missing Cloud Tasks bearer token'')
           else let token = strip (drop 7 value) in
           if token = [] then Inl (PermissionError ''missing Cloud Tasks bearer token'')
           else case verify_token token (iv_audience iv) of
             Inl (TypeError m) \<Rightarrow> Inl (PermissionError ''invalid Cloud Tasks identity token'')
           | Inl e \<Rightarrow> (if is_value_error e then Inl (PermissionError ''invalid Cloud Tasks identity token'') else Inl e)
           | Inr claims \<Rightarrow>
               rbind (among [''accounts.google.com'', ''https://accounts.google.com''] (claims ''iss'')) (\<lambda>issuer.
               rbind (guard issuer (PermissionError ''invalid Cloud Tasks token issuer'')) (\<lambda>_.
               rbind (guard (claims ''email'' = CText (iv_service_account_email iv))
                        (PermissionError ''unexpected Cloud Tasks service account'')) (\<lambda>_.
               rbind (verified_email (claims ''email_verified'')) (\<lambda>verified.
               guard verified (PermissionError ''Cloud Tasks service-account email is not verified'')))))))"

section \<open>The remote challenge\<close>

text \<open>\<open>rc_post_*\<close> send a request document with a bearer token; \<open>rc_decode_*\<close> validate the JSON of a response.\<close>

record ('w, 'c, 'd) remote =
  rc_repository :: string
  rc_pull_request_number :: int
  rc_contract :: ExecutionContract
  rc_contract_origin :: ExecutionContractOrigin
  rc_repository_python_paths :: "string list"
  rc_executor_url :: string
  rc_token :: "string \<Rightarrow> ('w, exn, string) prog"
  rc_post_challenge :: "string \<Rightarrow> string \<Rightarrow> ExecutorChallengeRequest \<Rightarrow> 'w \<Rightarrow> 'c http_reply \<times> 'w"
  rc_post_environment :: "string \<Rightarrow> string \<Rightarrow> ExecutorEnvironmentRequest \<Rightarrow> 'w \<Rightarrow> 'd http_reply \<times> 'w"
  rc_decode_challenge :: "'c \<Rightarrow> exn + ExecutorChallengeResponse"
  rc_decode_environment :: "'d \<Rightarrow> exn + ExecutorEnvironmentResponse"

definition mk_remote :: "('w, 'c, 'd) remote \<Rightarrow> exn + ('w, 'c, 'd) remote" where
  "mk_remote rc =
     rbind (normalize_repository_name (rc_repository rc)) (\<lambda>repository.
     let executor_url = rstrip_char (CHR ''/'') (rc_executor_url rc) in
     rbind (guard (startswith executor_url ''https://'') (ValueError ''executor URL must use HTTPS'')) (\<lambda>_.
     Inr (rc\<lparr>rc_repository := repository, rc_executor_url := executor_url\<rparr>)))"

definition executor_reply :: "'c http_reply \<Rightarrow> exn + 'c" where
  "executor_reply reply =
     (case reply of
        HttpTransportFailure \<Rightarrow> Inl (RuntimeError ''private executor is temporarily unavailable'')
      | HttpRaises e \<Rightarrow> Inl e
      | HttpResponse code content \<Rightarrow>
          (if \<not> (200 \<le> code \<and> code < 300) then Inl (RuntimeError (''private executor returned HTTP '' @ str_int code))
           else Inr content))"

definition environment_request :: "('w, 'c, 'd) remote \<Rightarrow> string \<Rightarrow> string \<Rightarrow> ExecutorEnvironmentRequest" where
  "environment_request rc base_ref head_ref =
     \<lparr>xq_repository = rc_repository rc, xq_pull_request_number = rc_pull_request_number rc, xq_base_sha = base_ref,
      xq_head_sha = head_ref, xq_contract = rc_contract rc, xq_contract_origin = rc_contract_origin rc,
      xq_repository_python_paths = rc_repository_python_paths rc\<rparr>"

definition remote_prepare_environment :: "('w, 'c, 'd) remote \<Rightarrow> string \<Rightarrow> string \<Rightarrow> ('w, exn, EnvironmentReadiness) prog" where
  "remote_prepare_environment rc base_ref head_ref =
     pbind (plift (mk_ExecutorEnvironmentRequest (environment_request rc base_ref head_ref))) (\<lambda>request.
     pbind (rc_token rc (rc_executor_url rc)) (\<lambda>token w.
     case rc_post_environment rc (rc_executor_url rc @ ''/internal/environment-readiness'') token request w of
       (reply, w') \<Rightarrow>
         (rbind (executor_reply reply) (\<lambda>content. rbind (rc_decode_environment rc content) (\<lambda>d. Inr (response_readiness d))), w')))"

definition challenge_request :: "('w, 'c, 'd) remote \<Rightarrow> string \<Rightarrow> string \<Rightarrow> TestArtifact \<Rightarrow> exn + ExecutorChallengeRequest" where
  "challenge_request rc base_ref head_ref artifact =
     (case utf8_decode (ta_content artifact) of
        None \<Rightarrow> Inl (ValueError ''utf-8'')
      | Some source \<Rightarrow>
          mk_ExecutorChallengeRequest
            \<lparr>xq_repository = rc_repository rc, xq_pull_request_number = rc_pull_request_number rc, xq_base_sha = base_ref,
             xq_head_sha = head_ref, xq_contract = rc_contract rc, xq_contract_origin = rc_contract_origin rc,
             xq_repository_python_paths = rc_repository_python_paths rc, xq_artifact_path = ta_relative_path artifact,
             xq_node_id = ta_node_id artifact, xq_artifact_source = source, xq_artifact_sha256 = ta_sha256 artifact\<rparr>)"

definition remote_execute :: "('w, 'c, 'd) remote \<Rightarrow> string \<Rightarrow> string \<Rightarrow> TestArtifact \<Rightarrow> ('w, exn, ChallengeResult) prog" where
  "remote_execute rc base_ref head_ref artifact =
     pbind (plift (challenge_request rc base_ref head_ref artifact)) (\<lambda>request.
     pbind (rc_token rc (rc_executor_url rc)) (\<lambda>token w.
     case rc_post_challenge rc (rc_executor_url rc @ ''/internal/challenge'') token request w of
       (reply, w') \<Rightarrow>
         (rbind (executor_reply reply) (\<lambda>content.
          rbind (rc_decode_challenge rc content) (\<lambda>document.
          rbind (response_challenge document) (\<lambda>result.
          if ta_sha256 (cr_artifact result) \<noteq> ta_sha256 artifact
          then Inl (RuntimeError ''private executor returned a different artifact'') else Inr result))), w')))"

definition remote_run ::
    "('w, 'c, 'd) remote \<Rightarrow> string \<Rightarrow> string \<Rightarrow> TestArtifact \<Rightarrow> (ExecutionResult \<Rightarrow> ('s, exn, unit) prog)
     \<Rightarrow> ('w \<times> 's, exn, ChallengeResult) prog" where
  "remote_run rc base_ref head_ref artifact on_base_complete =
     pbind (on_fst (remote_execute rc base_ref head_ref artifact)) (\<lambda>result.
     pbind (on_snd (on_base_complete (cr_base result))) (\<lambda>_. preturn result))"

definition remote_session :: "('w, 'c, 'd) remote \<Rightarrow> string \<Rightarrow> string \<Rightarrow> ('w, 's) challenge_session" where
  "remote_session rc base_ref head_ref =
     \<lparr>sx_prepare_environment = remote_prepare_environment rc base_ref head_ref,
      sx_run = remote_run rc base_ref head_ref,
      sx_import_roots = (\<lambda>w. {})\<rparr>"

definition remote_challenge :: "('w, 'c, 'd) remote \<Rightarrow> ('w, 's, 'r) challenge" where
  "remote_challenge rc =
     \<lparr>ch_contract = rc_contract rc, ch_install_dependencies = True,
      ch_session = (\<lambda>base_ref head_ref body. body (remote_session rc base_ref head_ref))\<rparr>"

text \<open>The executor's own routes at the other end of the wire; the documents cross as they are.\<close>

definition route_reply :: "(http_error + 'd) \<times> 'w \<Rightarrow> (string + 'd) http_reply \<times> 'w" where
  "route_reply q =
     (case q of
        (Inl (HTTPException code detail), w) \<Rightarrow> (HttpResponse code (Inl detail), w)
      | (Inl (Raised e), w) \<Rightarrow> (HttpResponse 500 (Inl ''Internal Server Error''), w)
      | (Inr document, w) \<Rightarrow> (HttpResponse 200 (Inr document), w))"

definition decode_route :: "string + 'd \<Rightarrow> exn + 'd" where
  "decode_route content = (case content of Inl detail \<Rightarrow> Inl (ValidationError detail) | Inr d \<Rightarrow> Inr d)"

type_synonym 'w executor_remote = "('w, string + ExecutorChallengeResponse, string + ExecutorEnvironmentResponse) remote"

definition to_executor :: "'w executor \<Rightarrow> 'w executor_remote \<Rightarrow> 'w executor_remote" where
  "to_executor ex rc =
     rc\<lparr>rc_post_challenge := (\<lambda>url token q w. route_reply (challenge_route ex q w)),
        rc_post_environment := (\<lambda>url token q w. route_reply (environment_route ex q w)),
        rc_decode_challenge := decode_route, rc_decode_environment := decode_route\<rparr>"

lemma challenge_route_codes:
  "challenge_route ex q w = (Inl e, w') \<Longrightarrow> \<exists>code detail. e = HTTPException code detail \<and> 400 \<le> code"
  by (auto simp: challenge_route_def executor_route_def executor_error_def split: sum.splits prod.splits exn.splits if_splits)

lemma route_replied:
  assumes "executor_reply (fst (route_reply (challenge_route ex q w))) = Inr content"
  shows "\<exists>d. challenge_route ex q w = (Inr d, snd (challenge_route ex q w)) \<and> content = Inr d"
  using assms challenge_route_codes [of ex q w]
  by (cases "challenge_route ex q w"; cases "fst (challenge_route ex q w)")
    (auto simp: executor_reply_def route_reply_def split: if_splits)

lemma challenge_route_returns:
  assumes "challenge_route ex q w = (Inr d, w')"
  shows "\<exists>c. response_challenge d = Inr c \<and> classified c"
proof -
  from assms obtain q' where "executor_execute ex q' w = (Inr d, w')"
    by (auto simp: challenge_route_def executor_route_def split: sum.splits prod.splits)
  from executor_execute_returns [OF this] show ?thesis by blast
qed

lemma remote_execute_classified:
  assumes x: "remote_execute (to_executor ex rc) base_ref head_ref artifact w = (Inr c, w')"
  shows "classified c \<and> ta_sha256 (cr_artifact c) = ta_sha256 artifact"
proof -
  from x obtain q w1 where tail: "(case route_reply (challenge_route ex q w1) of (reply, w') \<Rightarrow>
      (rbind (executor_reply reply) (\<lambda>content. rbind (decode_route content) (\<lambda>document. rbind (response_challenge document) (\<lambda>result.
          if ta_sha256 (cr_artifact result) \<noteq> ta_sha256 artifact
          then Inl (RuntimeError ''private executor returned a different artifact'') else Inr result))), w')) = (Inr c, w')"
    by (auto simp: remote_execute_def to_executor_def pbind_eq_ok simp del: split_paired_Ex split_paired_All)
  then obtain content d where r: "executor_reply (fst (route_reply (challenge_route ex q w1))) = Inr content"
    and d: "decode_route content = Inr d" and c: "response_challenge d = Inr c" "ta_sha256 (cr_artifact c) = ta_sha256 artifact"
    by (cases "route_reply (challenge_route ex q w1)") (auto simp: guard_simps split: if_splits)
  from route_replied [OF r] obtain d' where "challenge_route ex q w1 = (Inr d', snd (challenge_route ex q w1))" "content = Inr d'" by blast
  with d challenge_route_returns c show ?thesis by (fastforce simp: decode_route_def)
qed

lemma remote_session_lawful: "lawful_session (remote_session (to_executor ex rc) base_ref head_ref)"
  unfolding lawful_session_def remote_session_def
  by (auto simp: remote_run_def guard_simps dest: remote_execute_classified)

interpretation cloud: lawful_challenge "remote_challenge (to_executor ex rc)"
proof unfold_locales
  fix base_ref head_ref body w s r w' s'
  assume "ch_session (remote_challenge (to_executor ex rc)) base_ref head_ref body (w, s) = (Inr r, (w', s'))"
  then have "body (remote_session (to_executor ex rc) base_ref head_ref) (w, s) = (Inr r, (w', s'))" by (simp add: remote_challenge_def)
  then show "\<exists>session w1 w2. lawful_session session \<and> body session (w1, s) = (Inr r, (w2, s'))"
    using remote_session_lawful by blast
qed

interpretation sqlite_cloud: evidence_run "sqlite_ops clock ids" sqlite_view "remote_challenge (to_executor ex rc)"
  by (intro evidence_run.intro sqlite.run_store_axioms cloud.lawful_challenge_axioms)

interpretation firestore_cloud: evidence_run "firestore_ops clock ids" firestore_view "remote_challenge (to_executor ex rc)"
  by (intro evidence_run.intro firestore.run_store_axioms cloud.lawful_challenge_axioms)

text \<open>
  C5: A workflow whose challenges run in the private executor, reached over HTTP, has the guarantee of
  the local one over either store: the report it returns is of an active run and of its revisions, concludes
  more than insufficient evidence only with one unchanged artifact's executions of the right statuses and
  a related assertion, is stored with its hash on a terminal run, and is replayed afterwards.
\<close>

theorem cloud_workflow_sound:
  "workflow_guarantee (sqlite_ops clock ids) sqlite_view (remote_challenge (to_executor ex rc)) ew i st
   \<and> workflow_guarantee (firestore_ops clock ids) firestore_view (remote_challenge (to_executor ex rc)) ew' i st'"
  by (rule conjI sqlite_cloud.workflow_outcome firestore_cloud.workflow_outcome)+

end
