(* ===== verification/CloudProcessor.thy ===== *)
theory CloudProcessor
  imports CloudControl
begin

text \<open>
  \<open>src/patchproof/cloud_control.py\<close>: the processor of one durable run and the routes of the deployed
  control service. A task callback is authenticated, the run is executed by the fail-closed worker with
  its challenges in the private executor, and its result is published; every way in which that fails is
  recorded before the task is acknowledged, or asks for a retry.
\<close>

section \<open>The processor\<close>

text \<open>
  \<open>kp_git\<close> reads the objects of a fetched repository, which are immutable; \<open>kp_command\<close> is
  \<open>subprocess.run\<close> with its exit code and output. The retrieval of context, the investigator and the
  parts of \<open>kp_workflow\<close> that talk to models are arguments.
\<close>

record ('w, 's, 't, 'c, 'd, 'h) processor =
  kp_store :: "'s store_ops"
  kp_allowed_repositories :: "string set"
  kp_publisher :: "('w, 's, 't, 'h) publisher"
  kp_remote :: "('w, 'c, 'd) remote"
  kp_workflow :: "('w, 's, 't) evidence_workflow"
  kp_mkdtemp :: "string \<Rightarrow> ('w, exn, string) prog"
  kp_rmtree :: "string \<Rightarrow> 'w \<Rightarrow> 'w"
  kp_mkdir :: "string \<Rightarrow> ('w, exn, unit) prog"
  kp_command :: "string list \<Rightarrow> ('w, exn, int \<times> string) prog"
  kp_git :: "string \<Rightarrow> 'w \<Rightarrow> git_program"
  kp_yaml :: "bytes \<Rightarrow> contract_document"
  kp_toml :: "bytes \<Rightarrow> toml option"
  kp_contract_json :: "ExecutionContract \<Rightarrow> string"
  kp_retrieve :: "string \<Rightarrow> string list \<Rightarrow> string \<Rightarrow> string \<Rightarrow> ('w, exn, PullRequestContext) prog"
  kp_retrieve_signatures :: "string \<Rightarrow> string list \<Rightarrow> string \<Rightarrow> PullRequestContext \<Rightarrow> (string \<times> string) list
     \<Rightarrow> ('w, exn, RepositorySignatureContext) prog"
  kp_investigator :: "string \<Rightarrow> string list \<Rightarrow> string list
     \<Rightarrow> string \<Rightarrow> string \<Rightarrow> PullRequestNarrative \<Rightarrow> string \<Rightarrow> ('w, exn, ClaimAgentResult \<times> 't) prog"

definition mk_processor ::
    "string list \<Rightarrow> ('w, 's, 't, 'c, 'd, 'h) processor \<Rightarrow> exn + ('w, 's, 't, 'c, 'd, 'h) processor" where
  "mk_processor allowed_repositories kp =
     rbind (rmap normalize_repository_name allowed_repositories) (\<lambda>allowed.
     Inr (kp\<lparr>kp_allowed_repositories := set allowed\<rparr>))"

text \<open>The fetch: each command in turn, its output kept for the last.\<close>

definition fetch_commands :: "string \<Rightarrow> int \<Rightarrow> string \<Rightarrow> string \<Rightarrow> string list list" where
  "fetch_commands repository pr_number base_sha destination =
     map (\<lambda>arguments. [''git'', ''-C'', destination] @ arguments)
       [[''init'', ''--bare''],
        [''remote'', ''add'', ''origin'', ''https://github.com/'' @ repository @ ''.git''],
        [''fetch'', ''--no-tags'', ''origin'', ''+refs/pull/'' @ str_int pr_number @ ''/head:refs/patchproof/head''],
        [''fetch'', ''--no-tags'', ''origin'', base_sha],
        [''rev-parse'', ''refs/patchproof/head'']]"

definition incomplete_fetch :: exn where
  "incomplete_fetch = ContextRetrievalError ''immutable public pull-request fetch did not complete''"

definition fetch_command ::
    "('w, 's, 't, 'c, 'd, 'h) processor \<Rightarrow> string list \<Rightarrow> ('w, exn, string) prog" where
  "fetch_command kp command = (\<lambda>w.
     case kp_command kp command w of
       (Inl (OSError m), w') \<Rightarrow> (Inl incomplete_fetch, w')
     | (Inl TimeoutExpired, w') \<Rightarrow> (Inl incomplete_fetch, w')
     | (Inl e, w') \<Rightarrow> (Inl e, w')
     | (Inr (code, out), w') \<Rightarrow>
         (if code \<noteq> 0 then Inl (ContextRetrievalError ''immutable public pull-request fetch failed'') else Inr out, w'))"

fun fetch_all ::
    "('w, 's, 't, 'c, 'd, 'h) processor \<Rightarrow> string list list \<Rightarrow> string \<Rightarrow> ('w, exn, string) prog" where
  "fetch_all kp [] output = preturn output"
| "fetch_all kp (command # commands) output = pbind (fetch_command kp command) (fetch_all kp commands)"

definition prepare_repository ::
    "('w, 's, 't, 'c, 'd, 'h) processor \<Rightarrow> VerificationRun \<Rightarrow> string \<Rightarrow> ('w, exn, unit) prog" where
  "prepare_repository kp vrun destination =
     pbind (kp_mkdir kp destination) (\<lambda>_.
     pbind (fetch_all kp (fetch_commands (vr_repository vrun) (vr_pr_number vrun) (vr_base_sha vrun) destination) []) (\<lambda>out.
     pguard (lower (strip out) = vr_head_sha vrun)
       (ContextRetrievalError ''fetched pull-request HEAD differs from the durable run'')))"

section \<open>The composed workflow\<close>

text \<open>What the kind of event decides: the contract with its origin, and how committed files are read.\<close>

record ('w, 't) run_setup =
  us_contract :: ExecutionContract
  us_contract_origin :: ExecutionContractOrigin
  us_excluded_paths :: "string list"
  us_read_committed_file :: "string \<Rightarrow> string \<Rightarrow> exn + bytes"
  us_investigator :: "(string \<Rightarrow> string \<Rightarrow> PullRequestNarrative \<Rightarrow> string \<Rightarrow> ('w, exn, ClaimAgentResult \<times> 't) prog) option"

definition product_setup ::
    "('w, 's, 't, 'c, 'd, 'h) processor \<Rightarrow> VerificationRun \<Rightarrow> string \<Rightarrow> git_program \<Rightarrow> exn + ('w, 't) run_setup" where
  "product_setup kp vrun repository git =
     rbind (mk_ResolvedPullRequest (vr_repository vrun) (vr_pr_number vrun)
              (''https://github.com/'' @ vr_repository vrun @ ''/pull/'' @ str_int (vr_pr_number vrun))
              (vr_base_sha vrun) (vr_head_sha vrun) (vr_title vrun) (vr_body vrun) (Aware (vr_head_updated_at vrun) 0)) (\<lambda>resolved.
     rbind (prepare_pull_request git (kp_yaml kp) (kp_toml kp) resolved) (\<lambda>prepared.
     let contract = pl_contract (pq_execution_plan prepared) in
     rbind (mk_product_retriever git contract {vr_base_sha vrun, vr_head_sha vrun}) (\<lambda>retriever.
     Inr \<lparr>us_contract = contract,
          us_contract_origin = (if pl_source (pq_execution_plan prepared) = REPOSITORY_CONTRACT
            then ExecutionContractOrigin.REPOSITORY else PATCHPROOF_PROBE),
          us_excluded_paths = pq_excluded_paths prepared,
          us_read_committed_file = (\<lambda>sha path. product_read_committed_file (kp_contract_json kp) retriever sha path 8192),
          us_investigator = Some (kp_investigator kp repository (pq_excluded_paths prepared) (pq_priority_paths prepared))\<rparr>)))"

definition webhook_setup ::
    "('w, 's, 't, 'c, 'd, 'h) processor \<Rightarrow> VerificationRun \<Rightarrow> git_program \<Rightarrow> exn + ('w, 't) run_setup" where
  "webhook_setup kp vrun git =
     rbind (read_committed_file git (vr_head_sha vrun) contract_filename 8192) (\<lambda>raw.
     rbind (load_bytes (kp_yaml kp) raw) (\<lambda>contract.
     Inr \<lparr>us_contract = contract, us_contract_origin = ExecutionContractOrigin.REPOSITORY, us_excluded_paths = [],
          us_read_committed_file = (\<lambda>sha path. read_committed_file git sha path 8192), us_investigator = None\<rparr>))"

definition run_remote ::
    "('w, 's, 't, 'c, 'd, 'h) processor \<Rightarrow> VerificationRun \<Rightarrow> ('w, 't) run_setup \<Rightarrow> exn + ('w, 'c, 'd) remote" where
  "run_remote kp vrun us =
     mk_remote ((kp_remote kp)
       \<lparr>rc_repository := vr_repository vrun, rc_pull_request_number := vr_pr_number vrun, rc_contract := us_contract us,
        rc_contract_origin := us_contract_origin us, rc_repository_python_paths := []\<rparr>)"

definition run_workflow ::
    "('w, 's, 't, 'c, 'd, 'h) processor \<Rightarrow> string \<Rightarrow> git_program \<Rightarrow> ('w, 't) run_setup \<Rightarrow> ('w, 'c, 'd) remote
     \<Rightarrow> ('w, 's, 't) evidence_workflow" where
  "run_workflow kp repository git us rc =
     (kp_workflow kp)
       \<lparr>ew_store := kp_store kp, ew_challenge := remote_challenge rc,
        ew_read_committed_file := (\<lambda>sha path. plift (us_read_committed_file us sha path)),
        ew_committed_paths := (\<lambda>sha. plift (committed_paths git sha 20000)),
        ew_retrieve := kp_retrieve kp repository (us_excluded_paths us),
        ew_retrieve_signatures := kp_retrieve_signatures kp repository (us_excluded_paths us),
        ew_investigator := us_investigator us\<rparr>"

section \<open>One task\<close>

datatype task_error = WorkerFailed ClassifiedWorkerFailure exn | TaskRaised exn

definition raising :: "('s, exn, 'a) prog \<Rightarrow> ('s, task_error, 'a) prog" where
  "raising m = (\<lambda>s. case m s of (Inl e, s') \<Rightarrow> (Inl (TaskRaised e), s') | (Inr a, s') \<Rightarrow> (Inr a, s'))"

definition swapped :: "('a \<times> 'b, 'e, 'r) prog \<Rightarrow> ('b \<times> 'a, 'e, 'r) prog" where
  "swapped m = (\<lambda>(b, a). case m (a, b) of (r, (a', b')) \<Rightarrow> (r, (b', a')))"

definition worker_task ::
    "'s store_ops \<Rightarrow> (uuid \<Rightarrow> ('w \<times> 's, exn, 'r) prog) \<Rightarrow> uuid \<Rightarrow> ('w \<times> 's, task_error, 'r) prog" where
  "worker_task ops workflow run_id = (\<lambda>st.
     case swapped (worker_run ops (\<lambda>i. swapped (workflow i)) run_id) st of
       (Inl (EvidenceWorkerError failure e), st') \<Rightarrow> (Inl (WorkerFailed failure e), st')
     | (Inl (StoreError e), st') \<Rightarrow> (Inl (TaskRaised e), st')
     | (Inr report, st') \<Rightarrow> (Inr report, st'))"

definition run_in ::
    "('w, 's, 't, 'c, 'd, 'h) processor \<Rightarrow> uuid \<Rightarrow> VerificationRun \<Rightarrow> string \<Rightarrow> ('w \<times> 's, task_error, 't EvidenceReport) prog" where
  "run_in kp run_id vrun temporary =
     (let repository = under temporary ''repository.git'' in
      pbind (raising (on_fst (prepare_repository kp vrun repository))) (\<lambda>_.
      pbind (raising (on_fst (pget (kp_git kp repository)))) (\<lambda>git.
      pbind (raising (plift (if vr_event_action vrun = ''patchproof_analyze''
               then product_setup kp vrun repository git else webhook_setup kp vrun git))) (\<lambda>us.
      pbind (raising (plift (run_remote kp vrun us))) (\<lambda>rc.
      worker_task (kp_store kp) (execute (run_workflow kp repository git us rc)) run_id)))))"

definition compute_evidence ::
    "('w, 's, 't, 'c, 'd, 'h) processor \<Rightarrow> uuid \<Rightarrow> VerificationRun \<Rightarrow> ('w \<times> 's, task_error, unit) prog" where
  "compute_evidence kp run_id vrun =
     pbind (raising (on_fst (kp_mkdtemp kp ''patchproof-control-''))) (\<lambda>temporary.
     pbind (finally_do (run_in kp run_id vrun temporary) (\<lambda>(w, s). (kp_rmtree kp temporary w, s))) (\<lambda>_. preturn ()))"

definition finish_without_github_check :: "'s store_ops \<Rightarrow> uuid \<Rightarrow> ('s, exn, unit) prog" where
  "finish_without_github_check ops run_id =
     pbind (so_get_run ops run_id) (\<lambda>vrun.
       if vr_publication_state vrun = PENDING then
         pbind (so_transition ops run_id (vr_version vrun) (to_publication NOT_APPLICABLE)) (\<lambda>_. preturn ())
       else preturn ())"

definition finish_task :: "('w, 's, 't, 'c, 'd, 'h) processor \<Rightarrow> uuid \<Rightarrow> VerificationRun \<Rightarrow> ('w \<times> 's, exn, unit) prog" where
  "finish_task kp run_id vrun =
     (if vr_installation_id vrun \<noteq> None
      then pbind (publish ((kp_publisher kp)\<lparr>pu_store := kp_store kp\<rparr>) run_id) (\<lambda>_. preturn ())
      else on_snd (finish_without_github_check (kp_store kp) run_id))"

definition process_run :: "('w, 's, 't, 'c, 'd, 'h) processor \<Rightarrow> uuid \<Rightarrow> ('w \<times> 's, task_error, unit) prog" where
  "process_run kp run_id =
     pbind (raising (on_snd (so_get_run (kp_store kp) run_id))) (\<lambda>vrun.
     pbind (raising (pguard (vr_repository vrun \<in> kp_allowed_repositories kp)
              (PermissionError ''durable run repository is not allowlisted''))) (\<lambda>_.
     pbind (raising (on_snd (so_get_evidence (kp_store kp) run_id))) (\<lambda>evidence.
     pbind (if evidence \<noteq> None then preturn () else compute_evidence kp run_id vrun) (\<lambda>_.
     raising (finish_task kp run_id vrun)))))"

section \<open>The task callback\<close>

text \<open>The last handler: classify, and record the failure of an active run.\<close>

definition record_failure :: "'s store_ops \<Rightarrow> uuid \<Rightarrow> exn \<Rightarrow> ('s, exn, unit) prog" where
  "record_failure ops run_id error =
     (let failure = classify_failure error in
      pbind (so_get_run ops run_id) (\<lambda>vrun.
        if vr_revision_state vrun = RevisionState.CURRENT \<and> vr_lifecycle vrun \<noteq> TERMINAL then
          pbind (so_fail_run ops run_id (str_failure_code (cw_code failure)) (cw_summary failure) (cw_retryable failure)
                   (cw_model_usage failure) (cw_raw_response_sha256 failure)) (\<lambda>_. preturn ())
        else preturn ()))"

definition route_raising :: "('s, exn, 'a) prog \<Rightarrow> ('s, http_error, 'a) prog" where
  "route_raising m = (\<lambda>s. case m s of (Inl e, s') \<Rightarrow> (Inl (Raised e), s') | (Inr a, s') \<Rightarrow> (Inr a, s'))"

definition task_failed ::
    "('w, 's, 't, 'c, 'd, 'h) processor \<Rightarrow> uuid \<Rightarrow> task_error \<Rightarrow> ('w \<times> 's, http_error, string) prog" where
  "task_failed kp run_id error =
     (case error of
        WorkerFailed failure e \<Rightarrow> preturn ''terminal''
      | TaskRaised (GitHubCheckRetryableError m) \<Rightarrow> praise (HTTPException 503 ''publication retry requested'')
      | TaskRaised (GitHubCheckTerminalError m) \<Rightarrow> preturn ''terminal''
      | TaskRaised (PermissionError m) \<Rightarrow> preturn ''terminal''
      | TaskRaised e \<Rightarrow> pbind (route_raising (on_snd (record_failure (kp_store kp) run_id e))) (\<lambda>_. preturn ''terminal''))"

definition verify_task ::
    "(string option \<Rightarrow> exn + unit) \<Rightarrow> ('w, 's, 't, 'c, 'd, 'h) processor \<Rightarrow> uuid \<Rightarrow> string option
     \<Rightarrow> ('w \<times> 's, http_error, string) prog" where
  "verify_task verify kp run_id authorization = (\<lambda>st.
     case verify authorization of
       Inl (PermissionError m) \<Rightarrow> (Inl (HTTPException 401 m), st)
     | Inl e \<Rightarrow> (Inl (Raised e), st)
     | Inr _ \<Rightarrow>
         (case process_run kp run_id st of
            (Inl e, st') \<Rightarrow> task_failed kp run_id e st'
          | (Inr _, st') \<Rightarrow> (Inr ''completed'', st')))"

section \<open>What a task leaves behind\<close>

text \<open>The failure of the run is recorded, or there is no active run to record it for.\<close>

definition settled :: "store_view \<Rightarrow> uuid \<Rightarrow> bool" where
  "settled V i = (sv_failures V i \<noteq> None \<or> \<not> (\<exists>r. sv_runs V i = Inr r \<and> active_run r))"

definition publication_closed :: "store_view \<Rightarrow> uuid \<Rightarrow> bool" where
  "publication_closed V i = (\<exists>r. sv_runs V i = Inr r \<and> vr_publication_state r \<noteq> PENDING)"

text \<open>Evidence that was there, or of a sound report of the run that was executed now.\<close>

definition evidence_ready :: "('t EvidenceReport \<Rightarrow> string) \<Rightarrow> uuid \<Rightarrow> store_view \<Rightarrow> store_view \<Rightarrow> bool" where
  "evidence_ready dump i V V' =
     (case sv_evidence V i of
        Some e \<Rightarrow> sv_evidence V' i = Some e
      | None \<Rightarrow>
          (\<exists>r report e. sv_runs V i = Inr r \<and> report_sound report \<and> report_of r report \<and> sv_evidence V' i = Some e
             \<and> se_document_json e = dump report \<and> se_sha256 e = sha256 (utf8 (dump report))))"

lemma evidence_ready_same:
  "evidence_ready dump i V V' \<Longrightarrow> sv_evidence W = sv_evidence V' \<Longrightarrow> evidence_ready dump i V W"
  by (auto simp: evidence_ready_def split: option.splits)

lemma raising_returns [guard_simps]: "raising m s = (Inr a, t) \<longleftrightarrow> m s = (Inr a, t)"
  by (auto simp: raising_def split: prod.splits sum.splits)

lemma route_raising_ok [guard_simps]: "route_raising m s = (Inr a, t) \<longleftrightarrow> m s = (Inr a, t)"
  by (auto simp: route_raising_def split: prod.splits sum.splits)

lemma pget_ok [guard_simps]: "pget f s = (Inr a, t) \<longleftrightarrow> a = f s \<and> t = s"
  by (auto simp: pget_def)

lemma fail_law_settled: "fail_law i code summary retryable usage raw f V V' \<Longrightarrow> settled V' i"
  by (auto simp: fail_law_def settled_def)

lemma settled_inactive: "sv_runs V i = Inr r \<Longrightarrow> \<not> active_run r \<Longrightarrow> settled V i"
  by (simp add: settled_def)

lemma run_in_parts:
  assumes "run_in kp i vrun temporary (w, s) = (Inr report, st')"
  shows "\<exists>git us rc w1. run_remote kp vrun us = Inr rc
     \<and> worker_task (kp_store kp) (execute (run_workflow kp (under temporary ''repository.git'') git us rc)) i (w1, s) = (Inr report, st')"
  using assms unfolding run_in_def Let_def pbind_eq_ok raising_returns plift_ok on_fst_ok pget_ok
  by (clarsimp simp del: split_paired_Ex) (auto simp: on_fst_ok)

lemma pbind_raises: "pbind m f s = (Inl e, t) \<longleftrightarrow> m s = (Inl e, t) \<or> (\<exists>a s'. m s = (Inr a, s') \<and> f a s' = (Inl e, t))"
  by (auto simp: pbind_def split: prod.splits sum.splits)

lemma preturn_returns: "preturn a s = (Inr a, s)"
  by (simp add: preturn_def)

lemma praise_returns: "praise e s = (Inl e, s)"
  by (simp add: praise_def)

lemma raising_not_worker: "raising m s \<noteq> (Inl (WorkerFailed failure e), t)"
  by (auto simp: raising_def split: prod.splits sum.splits)

text \<open>A worker's failure leaves the processor with the worker's store.\<close>

lemma run_in_failed:
  fixes kp :: "('w, 's, 't, 'c, 'd, 'h) processor"
  assumes "run_in kp i vrun temporary st = (Inl (WorkerFailed failure e), st')"
  shows "\<exists>workflow (st1 :: 'w \<times> 's). worker_task (kp_store kp) workflow i st1 = (Inl (WorkerFailed failure e) :: task_error + 't EvidenceReport, st')"
  using assms unfolding run_in_def Let_def pbind_raises
  by (clarsimp simp: raising_not_worker simp del: split_paired_Ex) blast

lemma compute_evidence_failed:
  assumes "compute_evidence kp i vrun st = (Inl (WorkerFailed failure e), st')"
  shows "\<exists>temporary st1 st2. run_in kp i vrun temporary st1 = (Inl (WorkerFailed failure e), st2) \<and> snd st' = snd st2"
proof -
  from assms obtain temporary st1 where
    "finally_do (run_in kp i vrun temporary) (\<lambda>(w, s). (kp_rmtree kp temporary w, s)) st1 = (Inl (WorkerFailed failure e), st')"
    unfolding compute_evidence_def pbind_raises by (auto simp: raising_not_worker)
  then show ?thesis by (auto simp: finally_do_def split: prod.splits) (metis prod.collapse)
qed

lemma process_failed:
  fixes kp :: "('w, 's, 't, 'c, 'd, 'h) processor"
  assumes "process_run kp i st = (Inl (WorkerFailed failure e), st')"
  shows "\<exists>workflow (st1 :: 'w \<times> 's) st2. worker_task (kp_store kp) workflow i st1 = (Inl (WorkerFailed failure e) :: task_error + 't EvidenceReport, st2) \<and> snd st' = snd st2"
proof -
  from assms obtain vrun st1 where "compute_evidence kp i vrun st1 = (Inl (WorkerFailed failure e), st')"
    unfolding process_run_def pbind_raises by (auto simp: raising_not_worker split: if_splits)
  from compute_evidence_failed [OF this] obtain temporary st2 st3
    where r: "run_in kp i vrun temporary st2 = (Inl (WorkerFailed failure e), st3)" and eq: "snd st' = snd st3" by blast
  from run_in_failed [OF r] obtain workflow st4
    where "worker_task (kp_store kp) workflow i st4 = (Inl (WorkerFailed failure e) :: task_error + 't EvidenceReport, st3)" by blast
  with eq show ?thesis by (intro exI conjI)
qed

lemma compute_evidence_parts:
  assumes "compute_evidence kp i vrun (w, s) = (Inr u, st')"
  shows "\<exists>temporary w1 report w2. run_in kp i vrun temporary (w1, s) = (Inr report, (w2, snd st'))"
  using assms by (auto simp: compute_evidence_def pbind_eq_ok raising_returns on_fst_ok finally_ok) blast

context run_store
begin

lemma worker_task_outcome:
  assumes "worker_task ops workflow i (w, s) = (q, (w', s'))"
  shows "(\<forall>report. q = Inr report \<longrightarrow> workflow i (w, s) = (Inr report, (w', s')))
     \<and> (\<forall>failure e. q = Inl (WorkerFailed failure e) \<longrightarrow> settled (view s') i)"
proof -
  let ?workflow = "\<lambda>i. swapped (workflow i)"
  obtain r s1 w1 where r: "worker_run ops ?workflow i (s, w) = (r, (s1, w1))" by (metis prod.collapse)
  note out = worker_outcome [of ?workflow i s w, unfolded worker_guarantee_def r prod.case]
  show ?thesis
  proof (cases r)
    case (Inr report)
    with out have "swapped (workflow i) (s, w) = (Inr report, (s1, w1))" by simp
    with assms r Inr show ?thesis by (auto simp: worker_task_def swapped_def split: prod.splits)
  next
    case (Inl x)
    show ?thesis
    proof (cases x)
      case (EvidenceWorkerError failure e)
      with out Inl obtain s2 run where run: "sv_runs (view s2) i = Inr run"
        and e: "if active_run run then \<exists>f. fail_law i (str_failure_code (cw_code failure)) (cw_summary failure) (cw_retryable failure)
              (cw_model_usage failure) (cw_raw_response_sha256 failure) f (view s2) (view s1) else s1 = s2" by auto
      then have "settled (view s1) i" by (auto dest: fail_law_settled settled_inactive split: if_splits)
      with assms r Inl EvidenceWorkerError show ?thesis by (auto simp: worker_task_def swapped_def)
    next
      case (StoreError e)
      with assms r Inl show ?thesis by (auto simp: worker_task_def swapped_def)
    qed
  qed
qed

lemma record_failure_settles:
  assumes "record_failure ops i error s = (Inr u, s')"
  shows "settled (view s') i"
  using assms
  by (auto simp: record_failure_def Let_def guard_simps get_run active_run_def intro: settled_inactive
      dest!: fail dest: fail_law_settled split: if_splits)

lemma finish_without_outcome:
  assumes "finish_without_github_check ops i s = (Inr u, s')"
  shows "publication_closed (view s') i \<and> sv_evidence (view s') = sv_evidence (view s)"
proof -
  from assms obtain r where r: "sv_runs (view s) i = Inr r"
    and rest: "(if vr_publication_state r = PENDING
      then pbind (so_transition ops i (vr_version r) (to_publication NOT_APPLICABLE)) (\<lambda>_. preturn ()) else preturn ()) s = (Inr u, s')"
    by (auto simp: finish_without_github_check_def pbind_eq_ok get_run)
  show ?thesis
  proof (cases "vr_publication_state r = PENDING")
    case True
    with rest obtain q where "so_transition ops i (vr_version r) (to_publication NOT_APPLICABLE) s = (Inr q, s')" by (auto simp: guard_simps)
    from transition [OF this] r obtain now where q: "apply_run_transition r (to_publication NOT_APPLICABLE) (Aware now 0) = Inr q"
      and view: "view s' = (view s)\<lparr>sv_runs := (sv_runs (view s))(i := Inr q)\<rparr>" by (auto simp: transition_law_def)
    from publication_transition(2) [OF q] view show ?thesis by (simp add: publication_closed_def)
  next
    case False
    with rest r show ?thesis by (simp add: publication_closed_def)
  qed
qed

lemma finish_task_outcome:
  assumes "finish_task (kp\<lparr>kp_store := ops\<rparr>) i vrun st = (Inr u, st')"
  shows "publication_closed (view (snd st')) i \<and> sv_evidence (view (snd st')) = sv_evidence (view (snd st))"
proof (cases "vr_installation_id vrun = None")
  case True
  with assms show ?thesis
    by (cases st) (auto simp: finish_task_def guard_simps dest: finish_without_outcome)
next
  case False
  with assms obtain p where p: "publish ((kp_publisher kp)\<lparr>pu_store := ops\<rparr>) i st = (Inr p, st')"
    by (auto simp: finish_task_def guard_simps)
  from publish_outcome [of "kp_publisher kp" i st] p show ?thesis
    by (auto simp: publish_guarantee_def is_published_def publication_closed_def only_publication_def split: sum.splits)
qed

lemma cloud_execute_outcome:
  "workflow_guarantee ops view (remote_challenge (to_executor ex rc)) ew i st"
  by (rule evidence_run.workflow_outcome [OF evidence_run.intro [OF run_store_axioms cloud.lawful_challenge_axioms]])

lemma run_remote_to_executor:
  "run_remote (kp\<lparr>kp_store := ops, kp_remote := to_executor ex rc\<rparr>) vrun us = Inr rc' \<Longrightarrow> rc' = to_executor ex rc'"
  by (auto simp: run_remote_def mk_remote_def guard_simps Let_def to_executor_def)

lemma execute_evidence:
  assumes x: "execute (run_workflow (kp\<lparr>kp_store := ops, kp_remote := to_executor ex rc\<rparr>) repository git us (to_executor ex rc')) i st = (Inr report, st')"
    and none: "sv_evidence (view (snd st)) i = None"
  shows "evidence_ready (ew_dump (kp_workflow kp)) i (view (snd st)) (view (snd st'))"
proof -
  let ?ew = "run_workflow (kp\<lparr>kp_store := ops, kp_remote := to_executor ex rc\<rparr>) repository git us (to_executor ex rc')"
  have ew: "?ew\<lparr>ew_store := ops, ew_challenge := remote_challenge (to_executor ex rc')\<rparr> = ?ew" "ew_dump ?ew = ew_dump (kp_workflow kp)"
    by (simp_all add: run_workflow_def)
  note g = cloud_execute_outcome [of ex rc' ?ew i st, unfolded workflow_guarantee_def ew x prod.case sum.case none option.case]
  from g obtain r0 where r0: "sv_runs (view (snd st)) i = Inr r0" "report_sound report" "report_of r0 report"
    "ended_with (ew_dump (kp_workflow kp)) r0 report (view (snd st'))" by blast
  from run_valid [OF r0(1)] have id: "vr_run_id r0 = i" by blast
  from r0(4) obtain e where "sv_evidence (view (snd st')) i = Some e" "se_document_json e = ew_dump (kp_workflow kp) report"
    "se_sha256 e = sha256 (utf8 (ew_dump (kp_workflow kp) report))"
    unfolding ended_with_def id by blast
  then show ?thesis unfolding evidence_ready_def none option.case
    by (intro exI [of _ r0] exI [of _ report] exI [of _ e] conjI r0(1-3))
qed

lemma compute_evidence_outcome:
  assumes x: "compute_evidence (kp\<lparr>kp_store := ops, kp_remote := to_executor ex rc\<rparr>) i vrun st = (Inr u, st')"
    and none: "sv_evidence (view (snd st)) i = None"
  shows "evidence_ready (ew_dump (kp_workflow kp)) i (view (snd st)) (view (snd st'))"
proof -
  let ?kp = "kp\<lparr>kp_store := ops, kp_remote := to_executor ex rc\<rparr>"
  obtain w s where st: "st = (w, s)" by (cases st)
  from compute_evidence_parts [OF x [unfolded st]] obtain temporary w1 report w2
    where r: "run_in ?kp i vrun temporary (w1, s) = (Inr report, (w2, snd st'))" by blast
  from run_in_parts [OF r] obtain git us rc' w3 where rc': "run_remote ?kp vrun us = Inr rc'"
    and t: "worker_task ops (execute (run_workflow ?kp (under temporary ''repository.git'') git us rc')) i (w3, s) = (Inr report, (w2, snd st'))"
    by auto
  from worker_task_outcome [OF t] have "execute (run_workflow ?kp (under temporary ''repository.git'') git us rc') i (w3, s) = (Inr report, (w2, snd st'))"
    by blast
  moreover obtain rc'' where "rc' = to_executor ex rc''" using run_remote_to_executor [OF rc'] by blast
  ultimately have "execute (run_workflow ?kp (under temporary ''repository.git'') git us (to_executor ex rc'')) i (w3, s) = (Inr report, (w2, snd st'))"
    by simp
  from execute_evidence [OF this] none st show ?thesis by simp
qed

lemma process_returns:
  assumes x: "process_run (kp\<lparr>kp_store := ops, kp_remote := to_executor ex rc\<rparr>) i st = (Inr u, st')"
  shows "publication_closed (view (snd st')) i \<and> evidence_ready (ew_dump (kp_workflow kp)) i (view (snd st)) (view (snd st'))
    \<and> (\<exists>r. sv_runs (view (snd st)) i = Inr r \<and> vr_repository r \<in> kp_allowed_repositories kp)"
proof -
  let ?kp = "kp\<lparr>kp_store := ops, kp_remote := to_executor ex rc\<rparr>"
  obtain w s where st: "st = (w, s)" by (cases st)
  from x obtain r st1 where r: "sv_runs (view s) i = Inr r" "vr_repository r \<in> kp_allowed_repositories kp"
    and c: "(if sv_evidence (view s) i \<noteq> None then preturn () else compute_evidence ?kp i r) (w, s) = (Inr (), st1)"
    and f: "finish_task ?kp i r st1 = (Inr u, st')"
    by (auto simp: process_run_def st guard_simps get_run get_evidence)
  have kp: "?kp = (kp\<lparr>kp_remote := to_executor ex rc\<rparr>)\<lparr>kp_store := ops\<rparr>" by simp
  note done_task = finish_task_outcome [OF f [unfolded kp]]
  have "evidence_ready (ew_dump (kp_workflow kp)) i (view s) (view (snd st1))"
  proof (cases "sv_evidence (view s) i")
    case None
    with c have "compute_evidence ?kp i r (w, s) = (Inr (), st1)" by simp
    from compute_evidence_outcome [OF this] None show ?thesis by simp
  next
    case (Some e)
    with c show ?thesis by (auto simp: evidence_ready_def)
  qed
  with evidence_ready_same done_task r st show ?thesis by auto
qed

end

section \<open>The guarantee of a task\<close>

definition unrecorded :: "task_error \<Rightarrow> bool" where
  "unrecorded e = (case e of TaskRaised (PermissionError _) \<Rightarrow> True | TaskRaised (GitHubCheckTerminalError _) \<Rightarrow> True | _ \<Rightarrow> False)"

definition task_guarantee ::
    "'s store_ops \<Rightarrow> ('s \<Rightarrow> store_view) \<Rightarrow> 'w executor
     \<Rightarrow> ('w, 's, 't, string + ExecutorChallengeResponse, string + ExecutorEnvironmentResponse, 'h) processor
     \<Rightarrow> (string option \<Rightarrow> exn + unit) \<Rightarrow> uuid \<Rightarrow> string option \<Rightarrow> 'w \<times> 's \<Rightarrow> bool" where
  "task_guarantee ops view ex kp verify i authorization st =
     (let kp' = kp\<lparr>kp_store := ops, kp_remote := to_executor ex (kp_remote kp)\<rparr> in
      case verify_task verify kp' i authorization st of (q, st') \<Rightarrow>
        (is_ok (verify authorization) \<or> \<not> is_ok q \<and> st' = st)
        \<and> (q = Inr ''completed'' \<longrightarrow>
             publication_closed (view (snd st')) i \<and> evidence_ready (ew_dump (kp_workflow kp)) i (view (snd st)) (view (snd st'))
             \<and> (\<exists>r. sv_runs (view (snd st)) i = Inr r \<and> vr_repository r \<in> kp_allowed_repositories kp))
        \<and> (q = Inr ''terminal'' \<longrightarrow>
             settled (view (snd st')) i \<or> (\<exists>e st1. process_run kp' i st = (Inl e, st1) \<and> unrecorded e))
        \<and> (\<forall>s. q = Inr s \<longrightarrow> s \<in> {''completed'', ''terminal''}))"

context run_store
begin

lemma process_worker_failure:
  fixes kp :: "('w, 's, 't, 'c, 'd, 'h) processor"
  assumes store: "kp_store kp = ops" and x: "process_run kp i st = (Inl (WorkerFailed failure e), st')"
  shows "settled (view (snd st')) i"
proof -
  from process_failed [OF x] obtain workflow and st1 :: "'w \<times> 's" and st2 where t: "worker_task (kp_store kp) workflow i st1 = (Inl (WorkerFailed failure e) :: task_error + 't EvidenceReport, st2)"
    and st': "snd st' = snd st2" by blast
  from worker_task_outcome [of workflow i "fst st1" "snd st1" "Inl (WorkerFailed failure e)" "fst st2" "snd st2"] t store st'
  show ?thesis by simp
qed

lemma task_outcome: "task_guarantee ops view ex kp verify i authorization st"
proof -
  let ?kp = "kp\<lparr>kp_store := ops, kp_remote := to_executor ex (kp_remote kp)\<rparr>"
  show ?thesis
  proof (cases "verify authorization")
    case (Inl e)
    then show ?thesis by (cases e) (simp_all add: task_guarantee_def verify_task_def Let_def)
  next
    case (Inr u)
    obtain q st1 where p: "process_run ?kp i st = (q, st1)" by (cases "process_run ?kp i st")
    show ?thesis
    proof (cases q)
      case (Inr v)
      from process_returns [OF p [unfolded Inr]] p Inr \<open>verify authorization = Inr u\<close> show ?thesis
        by (simp add: task_guarantee_def verify_task_def Let_def)
    next
      case e: (Inl e)
      obtain r st2 where f: "task_failed ?kp i e st1 = (r, st2)" by (cases "task_failed ?kp i e st1")
      have v: "verify_task verify ?kp i authorization st = (r, st2)" using p e f Inr by (simp add: verify_task_def)
      have store: "kp_store ?kp = ops" by simp
      have "r = Inr ''terminal'' \<and> (settled (view (snd st2)) i \<or> unrecorded e)" if "is_ok r"
      proof (cases e)
        case (WorkerFailed failure x)
        with f p e show ?thesis using process_worker_failure [OF store, of i st failure x st1]
          by (simp add: task_failed_def)
      next
        case (TaskRaised x)
        have recorded: "r = Inr ''terminal'' \<and> settled (view (snd st2)) i"
          if "pbind (route_raising (on_snd (record_failure ops i y))) (\<lambda>_. preturn ''terminal'') st1 = (r, st2)" for y
          using that \<open>is_ok r\<close> by (cases st1) (auto simp: is_ok_iff guard_simps record_failure_settles)
        from f that TaskRaised show ?thesis
          by (cases x) (auto simp: task_failed_def unrecorded_def praise_returns preturn_returns dest: recorded)
      qed
      with v p e Inr show ?thesis by (cases r) (auto simp: task_guarantee_def Let_def)
    qed
  qed
qed

end


end
