(* ===== verification/RepositoryIndex.thy ===== *)
theory RepositoryIndex
  imports GitReader PyGroups "HOL-Library.Product_Lexorder"
begin

text \<open>
  \<open>src/patchproof/repository_index.py\<close>: the deterministic, bounded static index of one immutable
  revision. The values of the index with their checks, the two visitors of a syntax tree, the selection
  of files under the budgets, and the reading of a commit through fixed Git object commands. Git, the
  decoding of a file, \<open>ast.parse\<close> and the JSON of the index are arguments. The lemmas at the end show
  that every index keeps its budgets, holds nothing of an excluded path, and says when it is partial.
\<close>

section \<open>Sequencing\<close>

text \<open>A loop whose body may raise.\<close>

fun rfold :: "('a \<Rightarrow> 's \<Rightarrow> 'e + 's) \<Rightarrow> 'a list \<Rightarrow> 's \<Rightarrow> 'e + 's" where
  "rfold f [] s = Inr s"
| "rfold f (x # xs) s = rbind (f x s) (rfold f xs)"

lemma rfold_cong [fundef_cong]:
  assumes "xs = ys" "s = t" and f: "\<And>x s. x \<in> set ys \<Longrightarrow> f x s = g x s"
  shows "rfold f xs s = rfold g ys t"
proof -
  have "\<And>s. (\<And>x s. x \<in> set ys \<Longrightarrow> f x s = g x s) \<Longrightarrow> rfold f ys s = rfold g ys s"
  proof (induction ys)
    case (Cons y ys)
    then have "rfold f ys = rfold g ys" by (simp add: fun_eq_iff)
    with Cons.prems show ?case by simp
  qed simp
  with assms show ?thesis by blast
qed

lemma rbind_cong [fundef_cong]: "r = r' \<Longrightarrow> (\<And>a. r' = Inr a \<Longrightarrow> f a = g a) \<Longrightarrow> rbind r f = rbind r' g"
  by (cases r') simp_all

lemma rfold_append: "rfold f (xs @ ys) s = rbind (rfold f xs s) (rfold f ys)"
  by (induction xs arbitrary: s) (auto simp: rbind_def split: sum.splits)

text \<open>What every step keeps, the loop keeps.\<close>

lemma rfold_keeps:
  "(\<And>x s s'. x \<in> set xs \<Longrightarrow> P s \<Longrightarrow> f x s = Inr s' \<Longrightarrow> P s') \<Longrightarrow> P s \<Longrightarrow> rfold f xs s = Inr s' \<Longrightarrow> P s'"
proof (induction xs arbitrary: s)
  case (Cons x xs)
  from Cons.prems(3) obtain t where t: "f x s = Inr t" "rfold f xs t = Inr s'" by (auto simp: rbind_eq_Inr)
  then have "P t" using Cons.prems(1,2) by (meson list.set_intros(1))
  with Cons.IH [of t] Cons.prems(1) t(2) show ?case by (meson list.set_intros(2))
qed simp

text \<open>\<open>str.splitlines\<close> on the 8-bit range.\<close>

definition line_break :: "char \<Rightarrow> bool" where
  "line_break c = ((of_char c :: nat) \<in> set [10, 11, 12, 13, 28, 29, 30, 133])"

fun lines_acc :: "string \<Rightarrow> string \<Rightarrow> string list" where
  "lines_acc acc [] = (if acc = [] then [] else [rev acc])"
| "lines_acc acc (c # s) =
     (if line_break c
      then rev acc # lines_acc [] (if c = CHR 0x0D \<and> take 1 s = [CHR 0x0A] then drop 1 s else s)
      else lines_acc (c # acc) s)"

definition splitlines :: "string \<Rightarrow> string list" where
  "splitlines s = lines_acc [] s"

section \<open>Paths\<close>

definition drive_pattern :: regex where
  "drive_pattern = Seq (Cls (\<lambda>c. in_range (CHR ''A'') (CHR ''Z'') c \<or> in_range (CHR ''a'') (CHR ''z'') c)) (lit '':/'')"

definition source_part_bad :: "string \<Rightarrow> bool" where
  "source_part_bad x = (x = [] \<or> x = ''.'' \<or> x = ''..'' \<or> x = ''.git'')"

definition validate_repository_source_path :: "string \<Rightarrow> exn + string" where
  "validate_repository_source_path value =
     rbind (checks
       [(1024 < length value, ValueError ''repository path must be text within the path length limit''),
        (list_ex (\<lambda>c. (of_char c :: nat) < 32 \<or> (of_char c :: nat) = 127) value,
         ValueError ''repository path contains a control character''),
        (CHR 0x5C \<in> set value \<or> match_start drive_pattern value \<noteq> None,
         ValueError ''repository path must use POSIX separators''),
        (value = [] \<or> is_absolute value \<or> as_posix value \<noteq> value \<or> list_ex source_part_bad (path_parts value)
           \<or> path_suffix value \<noteq> ''.py'',
         ValueError ''repository path must be a normalized relative Python source path'')])
     (\<lambda>_. Inr value)"

definition source_path_ok :: "string \<Rightarrow> bool" where
  "source_path_ok value = is_ok (validate_repository_source_path value)"

lemma source_path_same: "validate_repository_source_path v = Inr p \<Longrightarrow> p = v"
  by (auto simp: validate_repository_source_path_def guard_simps simp del: checks.simps)

lemma source_path_ok_same: "source_path_ok v \<Longrightarrow> validate_repository_source_path v = Inr v"
  using source_path_same by (auto simp: source_path_ok_def is_ok_iff)

section \<open>The values of an index\<close>

datatype ObservableSymbolKind = FUNCTION | ASYNC_FUNCTION | METHOD | ASYNC_METHOD | CLASS | PROPERTY | MODULE_VALUE

fun str_symbol_kind :: "ObservableSymbolKind \<Rightarrow> string" where
  "str_symbol_kind FUNCTION = ''FUNCTION''"
| "str_symbol_kind ASYNC_FUNCTION = ''ASYNC_FUNCTION''"
| "str_symbol_kind METHOD = ''METHOD''"
| "str_symbol_kind ASYNC_METHOD = ''ASYNC_METHOD''"
| "str_symbol_kind CLASS = ''CLASS''"
| "str_symbol_kind PROPERTY = ''PROPERTY''"
| "str_symbol_kind MODULE_VALUE = ''MODULE_VALUE''"

datatype ReferenceKind = NAME | ATTRIBUTE | CALL

fun str_reference_kind :: "ReferenceKind \<Rightarrow> string" where
  "str_reference_kind NAME = ''NAME''"
| "str_reference_kind ATTRIBUTE = ''ATTRIBUTE''"
| "str_reference_kind CALL = ''CALL''"

datatype PythonParseStatus = PARSED | SYNTAX_ERROR

record IndexedPythonFile =
  pf_path :: string
  pf_module :: string
  pf_size_bytes :: nat
  pf_line_count :: nat
  pf_content_sha256 :: string
  pf_parse_status :: PythonParseStatus
  pf_is_test :: bool

definition mk_IndexedPythonFile :: "IndexedPythonFile \<Rightarrow> exn + IndexedPythonFile" where
  "mk_IndexedPythonFile f =
     rbind (checks
       [(\<not> source_path_ok (pf_path f), ValidationError ''path''),
        (\<not> len_between 1 512 (pf_module f), ValidationError ''module''),
        (\<not> is_sha256_hex (pf_content_sha256 f), ValidationError ''content_sha256'')]) (\<lambda>_. Inr f)"

record IndexedSymbol =
  sy_path :: string
  sy_module :: string
  sy_qualified_name :: string
  sy_kind :: ObservableSymbolKind
  sy_start_line :: nat
  sy_end_line :: nat
  sy_parent_symbol :: "string option"
  sy_public :: bool
  sy_exported :: "bool option"
  sy_source_sha256 :: string
  sy_definition_count :: nat
  sy_definition_kinds :: "ObservableSymbolKind list"

definition mk_IndexedSymbol :: "IndexedSymbol \<Rightarrow> exn + IndexedSymbol" where
  "mk_IndexedSymbol s =
     rbind (checks
       [(\<not> source_path_ok (sy_path s), ValidationError ''path''),
        (\<not> len_between 1 512 (sy_module s), ValidationError ''module''),
        (\<not> len_between 1 512 (sy_qualified_name s), ValidationError ''qualified_name''),
        (sy_start_line s = 0 \<or> sy_end_line s = 0, ValidationError ''start_line''),
        (\<not> max_len_opt 512 (sy_parent_symbol s), ValidationError ''parent_symbol''),
        (\<not> is_sha256_hex (sy_source_sha256 s), ValidationError ''source_sha256''),
        (sy_definition_count s = 0, ValidationError ''definition_count''),
        (\<not> len_between 1 7 (sy_definition_kinds s), ValidationError ''definition_kinds''),
        (sy_end_line s < sy_start_line s, ValidationError ''symbol end line cannot precede its start line''),
        (sy_kind s \<notin> set (sy_definition_kinds s) \<or> \<not> distinct (sy_definition_kinds s),
         ValidationError ''symbol definition kinds must be unique and include its primary kind'')]) (\<lambda>_. Inr s)"

record IndexedImport =
  im_path :: string
  im_scope :: string
  im_module :: string
  im_imported_name :: "string option"
  im_alias :: string
  im_imported_target :: string
  im_alias_target :: "string option"
  im_start_line :: nat
  im_end_line :: nat
  im_relative_level :: nat

definition mk_IndexedImport :: "IndexedImport \<Rightarrow> exn + IndexedImport" where
  "mk_IndexedImport i =
     rbind (checks
       [(\<not> source_path_ok (im_path i), ValidationError ''path''),
        (\<not> len_between 1 512 (im_scope i), ValidationError ''scope''),
        (\<not> len_between 1 512 (im_module i), ValidationError ''module''),
        (\<not> max_len_opt 256 (im_imported_name i), ValidationError ''imported_name''),
        (\<not> len_between 1 256 (im_alias i), ValidationError ''alias''),
        (\<not> len_between 1 768 (im_imported_target i), ValidationError ''imported_target''),
        (\<not> max_len_opt 768 (im_alias_target i), ValidationError ''alias_target''),
        (im_start_line i = 0 \<or> im_end_line i = 0, ValidationError ''start_line''),
        (100 < im_relative_level i, ValidationError ''relative_level'')]) (\<lambda>_. Inr i)"

record IndexedReference =
  ir_path :: string
  ir_scope :: string
  ir_kind :: ReferenceKind
  ir_name :: string
  ir_expression :: string
  ir_module_import_alias_expansion :: "string option"
  ir_start_line :: nat
  ir_end_line :: nat
  ir_column :: nat

definition mk_IndexedReference :: "IndexedReference \<Rightarrow> exn + IndexedReference" where
  "mk_IndexedReference r =
     rbind (checks
       [(\<not> source_path_ok (ir_path r), ValidationError ''path''),
        (\<not> len_between 1 512 (ir_scope r), ValidationError ''scope''),
        (\<not> len_between 1 256 (ir_name r), ValidationError ''name''),
        (\<not> len_between 1 768 (ir_expression r), ValidationError ''expression''),
        (\<not> max_len_opt 768 (ir_module_import_alias_expansion r), ValidationError ''module_import_alias_expansion''),
        (ir_start_line r = 0 \<or> ir_end_line r = 0, ValidationError ''start_line'')]) (\<lambda>_. Inr r)"

lemma index_values_same:
  "mk_IndexedPythonFile f = Inr f' \<Longrightarrow> f' = f \<and> source_path_ok (pf_path f)"
  "mk_IndexedSymbol s = Inr s' \<Longrightarrow> s' = s \<and> source_path_ok (sy_path s)"
  "mk_IndexedImport i = Inr i' \<Longrightarrow> i' = i \<and> source_path_ok (im_path i)"
  "mk_IndexedReference r = Inr r' \<Longrightarrow> r' = r \<and> source_path_ok (ir_path r)"
  by (auto simp: mk_IndexedPythonFile_def mk_IndexedSymbol_def mk_IndexedImport_def mk_IndexedReference_def
      guard_simps simp del: checks.simps)

record RepositoryIndexStats =
  ss_python_files_discovered :: nat
  ss_files_indexed :: nat
  ss_oversized_files_skipped :: nat
  ss_undecodable_files_skipped :: nat
  ss_symlinks_skipped :: nat
  ss_excluded_files_skipped :: nat
  ss_file_limit_omitted :: nat
  ss_total_byte_budget_omitted :: nat
  ss_symbols_omitted :: nat
  ss_imports_omitted :: nat
  ss_references_omitted :: nat
  ss_syntax_errors :: nat
  ss_symbol_count :: nat
  ss_import_count :: nat
  ss_reference_count :: nat
  ss_total_source_bytes :: nat
  ss_truncated :: bool

record RepositoryIndexBudget =
  ib_max_files :: nat
  ib_max_file_bytes :: nat
  ib_max_total_source_bytes :: nat
  ib_max_symbols :: nat
  ib_max_imports :: nat
  ib_max_references :: nat
  ib_max_tree_listing_bytes :: nat
  ib_git_timeout_seconds :: seconds

definition default_index_budget :: RepositoryIndexBudget where
  "default_index_budget =
     \<lparr>ib_max_files = 2000, ib_max_file_bytes = 256 * 1024, ib_max_total_source_bytes = 32 * 1024 * 1024,
      ib_max_symbols = 30000, ib_max_imports = 30000, ib_max_references = 150000,
      ib_max_tree_listing_bytes = 16 * 1024 * 1024, ib_git_timeout_seconds = 30\<rparr>"

definition mk_RepositoryIndexBudget :: "RepositoryIndexBudget \<Rightarrow> exn + RepositoryIndexBudget" where
  "mk_RepositoryIndexBudget b =
     (let amounts = [ib_max_files b, ib_max_file_bytes b, ib_max_total_source_bytes b, ib_max_symbols b, ib_max_imports b,
                     ib_max_references b, ib_max_tree_listing_bytes b];
          ceilings = [10000, 1024 * 1024, 128 * 1024 * 1024, 100000, 100000, 500000, 64 * 1024 * 1024] in
      rbind (checks
        [(0 \<in> set amounts \<or> ib_git_timeout_seconds b \<le> 0, ValueError ''repository index budget must be positive''),
         (list_ex (\<lambda>(amount, ceiling). ceiling < amount) (zip amounts ceilings) \<or> 120 < ib_git_timeout_seconds b,
          ValueError ''repository index budget exceeds its safety ceiling''),
         (ib_max_total_source_bytes b < ib_max_file_bytes b,
          ValueError ''per-file byte budget cannot exceed total source byte budget'')]) (\<lambda>_. Inr b))"

section \<open>Syntax trees\<close>

text \<open>
  The nodes of \<open>ast\<close> the visitors look at, with the position of an expression or statement (first line,
  last line, column), and one constructor for every other class with its children in field order. A
  keyword of a call or class stands for its value.
\<close>

type_synonym span = "nat \<times> nat \<times> nat"

datatype expr_context = Load | Store | Del

datatype display = ListDisplay | TupleDisplay | SetDisplay

datatype ast =
    Name span string expr_context
  | Attribute span ast string expr_context
  | Call span ast "ast list" "ast list"
  | Constant span "string option"
  | Display display span "ast list"
  | ClassDef span string "ast list" "ast list" "ast list" "ast list" "ast list"
  | FunctionDef span bool string arguments "ast list" "ast list" "ast option" "ast list"
  | Lambda span arguments ast
  | Assign span "ast list" ast
  | AnnAssign span ast ast "ast option"
  | Import span "(string \<times> string option) list"
  | ImportFrom span "string option" "(string \<times> string option) list" nat
  | Global "string list"
  | OtherNode span "ast list"
and arguments = Arguments "argument list" "argument list" "argument option" "argument list" "ast option list" "argument option" "ast list"
and argument = Argument string "ast option"

definition option_list :: "'a option \<Rightarrow> 'a list" where
  "option_list x = (case x of None \<Rightarrow> [] | Some a \<Rightarrow> [a])"

definition somes :: "'a option list \<Rightarrow> 'a list" where
  "somes xs = concat (map option_list xs)"

fun argument_name :: "argument \<Rightarrow> string" where
  "argument_name (Argument name _) = name"

fun annotation_of :: "argument \<Rightarrow> ast list" where
  "annotation_of (Argument _ annotation) = option_list annotation"

fun argument_names :: "arguments \<Rightarrow> string list" where
  "argument_names (Arguments posonly args vararg kwonly kw_defaults kwarg defaults) =
     map argument_name (posonly @ args @ kwonly @ option_list vararg @ option_list kwarg)"

text \<open>The children of the arguments in the order of the class's fields, and in the order of the definition visitor.\<close>

fun arguments_children :: "arguments \<Rightarrow> ast list" where
  "arguments_children (Arguments posonly args vararg kwonly kw_defaults kwarg defaults) =
     concat (map annotation_of (posonly @ args @ option_list vararg @ kwonly)) @ somes kw_defaults
     @ concat (map annotation_of (option_list kwarg)) @ defaults"

fun arguments_visited :: "arguments \<Rightarrow> ast list" where
  "arguments_visited (Arguments posonly args vararg kwonly kw_defaults kwarg defaults) =
     concat (map annotation_of (posonly @ args @ kwonly @ option_list vararg @ option_list kwarg)) @ defaults @ somes kw_defaults"

text \<open>What \<open>generic_visit\<close> goes through.\<close>

fun children :: "ast \<Rightarrow> ast list" where
  "children (Name _ _ _) = []"
| "children (Attribute _ v _ _) = [v]"
| "children (Call _ f args keywords) = f # args @ keywords"
| "children (Constant _ _) = []"
| "children (Display _ _ elts) = elts"
| "children (ClassDef _ _ bases keywords body decorators type_params) = bases @ keywords @ body @ decorators @ type_params"
| "children (FunctionDef _ _ _ args body decorators returns type_params) =
     arguments_children args @ body @ decorators @ option_list returns @ type_params"
| "children (Lambda _ args body) = arguments_children args @ [body]"
| "children (Assign _ targets value) = targets @ [value]"
| "children (AnnAssign _ target annotation value) = [target, annotation] @ option_list value"
| "children (Import _ _) = []"
| "children (ImportFrom _ _ _ _) = []"
| "children (Global _) = []"
| "children (OtherNode _ cs) = cs"

fun span_of :: "ast \<Rightarrow> span" where
  "span_of (Name p _ _) = p"
| "span_of (Attribute p _ _ _) = p"
| "span_of (Call p _ _ _) = p"
| "span_of (Constant p _) = p"
| "span_of (Display _ p _) = p"
| "span_of (ClassDef p _ _ _ _ _ _) = p"
| "span_of (FunctionDef p _ _ _ _ _ _ _) = p"
| "span_of (Lambda p _ _) = p"
| "span_of (Assign p _ _) = p"
| "span_of (AnnAssign p _ _ _) = p"
| "span_of (Import p _) = p"
| "span_of (ImportFrom p _ _ _) = p"
| "span_of (Global _) = (1, 1, 0)"
| "span_of (OtherNode p _) = p"

definition lineno :: "ast \<Rightarrow> nat" where
  "lineno n = fst (span_of n)"

definition end_lineno :: "ast \<Rightarrow> nat" where
  "end_lineno n = fst (snd (span_of n))"

definition col_offset :: "ast \<Rightarrow> nat" where
  "col_offset n = snd (snd (span_of n))"

lemma option_list_set [simp]: "x \<in> set (option_list o') \<longleftrightarrow> o' = Some x"
  by (auto simp: option_list_def split: option.splits)

lemma somes_set [simp]: "x \<in> set (somes xs) \<longleftrightarrow> Some x \<in> set xs"
  by (auto simp: somes_def)

lemma annotation_size: "c \<in> set (annotation_of a) \<Longrightarrow> size c < size a"
  by (cases a) auto

lemma annotations_size: "c \<in> set (annotation_of a) \<Longrightarrow> a \<in> set as' \<Longrightarrow> size c < size_list size as'"
  by (meson annotation_size less_trans size_list_estimation)

lemma somes_size: "Some c \<in> set xs \<Longrightarrow> size c < size_list (size_option size) xs"
  by (induction xs) auto

lemma arguments_children_size:
  assumes "c \<in> set (arguments_children args) \<or> c \<in> set (arguments_visited args)"
  shows "size c < size args"
proof -
  obtain p a v k kd kw d where args: "args = Arguments p a v k kd kw d" by (cases args)
  have "size c < size_list size p" if "x \<in> set p" "c \<in> set (annotation_of x)" for x using annotations_size that by blast
  moreover have "size c < size_list size a" if "x \<in> set a" "c \<in> set (annotation_of x)" for x using annotations_size that by blast
  moreover have "size c < size_list size k" if "x \<in> set k" "c \<in> set (annotation_of x)" for x using annotations_size that by blast
  moreover have "size c < size_option size v" if "v = Some x" "c \<in> set (annotation_of x)" for x
    using annotation_size [OF that(2)] that(1) by simp
  moreover have "size c < size_option size kw" if "kw = Some x" "c \<in> set (annotation_of x)" for x
    using annotation_size [OF that(2)] that(1) by simp
  moreover have "size c < size_list (size_option size) kd" if "Some c \<in> set kd" using somes_size that by blast
  moreover have "size c < size_list size d" if "c \<in> set d" using that by (induction d) auto
  ultimately show ?thesis using assms unfolding args by fastforce
qed

lemma element_size: "(c :: ast) \<in> set cs \<Longrightarrow> size c < size_list size cs"
  by (induction cs) auto

lemma child_size: "c \<in> set (children n) \<Longrightarrow> size c < size n"
  by (cases n) (auto dest: element_size simp: arguments_children_size less_Suc_eq_le dest!: element_size arguments_children_size [OF disjI1])

section \<open>Lexical bindings\<close>

text \<open>\<open>_ScopeBindingCollector\<close>: names bound in a scope, and names it declares global.\<close>

function bound_names :: "ast \<Rightarrow> string list" where
  "bound_names n =
     (case n of
        Name _ x ctx \<Rightarrow> if ctx = Store then [x] else []
      | Import _ names \<Rightarrow> map (\<lambda>(name, asname). case asname of Some a \<Rightarrow> a | None \<Rightarrow> before_first (CHR ''.'') name) names
      | ImportFrom _ _ names _ \<Rightarrow>
          map (\<lambda>(name, asname). case asname of Some a \<Rightarrow> a | None \<Rightarrow> name) (filter (\<lambda>(name, _). name \<noteq> ''*'') names)
      | ClassDef _ name _ _ _ _ _ \<Rightarrow> [name]
      | FunctionDef _ _ name _ _ _ _ _ \<Rightarrow> [name]
      | Lambda _ _ _ \<Rightarrow> []
      | Global _ \<Rightarrow> []
      | _ \<Rightarrow> concat (map bound_names (children n)))"
  by pat_completeness auto

termination
  by (relation "measure size") (auto dest: child_size [simplified] element_size)

function global_names :: "ast \<Rightarrow> string list" where
  "global_names n =
     (case n of
        Global names \<Rightarrow> names
      | ClassDef _ _ _ _ _ _ _ \<Rightarrow> []
      | FunctionDef _ _ _ _ _ _ _ _ \<Rightarrow> []
      | Lambda _ _ _ \<Rightarrow> []
      | _ \<Rightarrow> concat (map global_names (children n)))"
  by pat_completeness auto

termination
  by (relation "measure size") (auto dest: child_size [simplified] element_size)

declare bound_names.simps [simp del] global_names.simps [simp del]

definition scope_bindings :: "ast list \<Rightarrow> arguments option \<Rightarrow> string set" where
  "scope_bindings body arguments =
     set (case arguments of None \<Rightarrow> [] | Some a \<Rightarrow> argument_names a) \<union> set (concat (map bound_names body))
       - set (concat (map global_names body))"

definition index_module_name :: "string \<Rightarrow> string" where
  "index_module_name path =
     (let parts = butlast (path_parts path) @ [path_stem path] in
      join ''.'' (if last parts = ''__init__'' \<and> 1 < length parts then butlast parts else parts))"

fun dotted_name :: "ast \<Rightarrow> string option" where
  "dotted_name (Name _ x _) = Some x"
| "dotted_name (Attribute _ v attr _) =
     Some (case dotted_name v of Some parent \<Rightarrow> if parent = [] then attr else parent @ ''.'' @ attr | None \<Rightarrow> attr)"
| "dotted_name _ = None"

text \<open>\<open>_literal_exports\<close>: the names of the first literal \<open>__all__\<close>; None when it has another element.\<close>

fun exports_value :: "ast \<Rightarrow> ast option" where
  "exports_value (Assign _ targets value) =
     (if list_ex (\<lambda>t. case t of Name _ x _ \<Rightarrow> x = ''__all__'' | _ \<Rightarrow> False) targets then Some value else None)"
| "exports_value (AnnAssign _ target _ value) =
     (case target of Name _ x _ \<Rightarrow> if x = ''__all__'' then value else None | _ \<Rightarrow> None)"
| "exports_value _ = None"

fun string_constant :: "ast \<Rightarrow> string option" where
  "string_constant (Constant _ v) = v"
| "string_constant _ = None"

fun literal_exports :: "ast list \<Rightarrow> string list option" where
  "literal_exports [] = None"
| "literal_exports (node # body) =
     (case exports_value node of
        Some (Display _ _ elts) \<Rightarrow>
          (if list_all (\<lambda>e. string_constant e \<noteq> None) elts then Some (somes (map string_constant elts)) else None)
      | _ \<Rightarrow> literal_exports body)"

section \<open>Imports\<close>

record import_state =
  is_imports :: "IndexedImport list"
  is_omitted_count :: nat

definition scope_text :: "string list \<Rightarrow> string" where
  "scope_text scope = or_str (join ''.'' scope) ''<module>''"

definition append_import :: "nat \<Rightarrow> IndexedImport \<Rightarrow> import_state \<Rightarrow> exn + import_state" where
  "append_import maximum record st =
     (if maximum \<le> length (is_imports st) then Inr (st\<lparr>is_omitted_count := is_omitted_count st + 1\<rparr>)
      else rbind (mk_IndexedImport record) (\<lambda>record. Inr (st\<lparr>is_imports := is_imports st @ [record]\<rparr>)))"

definition import_record :: "string \<Rightarrow> string list \<Rightarrow> span \<Rightarrow> string \<times> string option \<Rightarrow> IndexedImport" where
  "import_record path scope sp names =
     (case names of (name, asname) \<Rightarrow>
        let bound = (case asname of Some a \<Rightarrow> a | None \<Rightarrow> before_first (CHR ''.'') name) in
        \<lparr>im_path = path, im_scope = scope_text scope, im_module = name, im_imported_name = None, im_alias = bound,
         im_imported_target = name, im_alias_target = Some (if asname \<noteq> None then name else bound),
         im_start_line = fst sp, im_end_line = fst (snd sp), im_relative_level = 0\<rparr>)"

text \<open>What a relative import names: the package of the file, ascended once per further dot.\<close>

definition relative_target :: "string \<Rightarrow> nat \<Rightarrow> string option \<Rightarrow> string \<Rightarrow> string option" where
  "relative_target path level module' name =
     (let parts = (if index_module_name path = [] then [] else split_on (CHR ''.'') (index_module_name path));
          package = (if path_name path \<noteq> ''__init__.py'' \<and> parts \<noteq> [] then butlast parts else parts);
          ascend = level - 1 in
      if length package < ascend then None
      else Some (join ''.'' (filter (\<lambda>part. part \<noteq> [])
             (take (length package - ascend) package
              @ split_on (CHR ''.'') (case module' of None \<Rightarrow> [] | Some m \<Rightarrow> m) @ [name]))))"

definition import_from_record ::
    "string \<Rightarrow> string list \<Rightarrow> span \<Rightarrow> string option \<Rightarrow> nat \<Rightarrow> string \<times> string option \<Rightarrow> IndexedImport" where
  "import_from_record path scope sp module' level names =
     (case names of (name, asname) \<Rightarrow>
        let dots = replicate level (CHR ''.'');
            m = (case module' of None \<Rightarrow> [] | Some m \<Rightarrow> m);
            absolute_target = (if m = [] then name else m @ ''.'' @ name) in
        \<lparr>im_path = path, im_scope = scope_text scope, im_module = or_str (dots @ m) ''.'', im_imported_name = Some name,
         im_alias = (case asname of Some a \<Rightarrow> a | None \<Rightarrow> name), im_imported_target = dots @ absolute_target,
         im_alias_target = (if level = 0 then Some absolute_target else relative_target path level module' name),
         im_start_line = fst sp, im_end_line = fst (snd sp), im_relative_level = level\<rparr>)"

text \<open>\<open>_ImportCollector\<close>, with the names of the enclosing scopes.\<close>

function collect_imports :: "string \<Rightarrow> nat \<Rightarrow> string list \<Rightarrow> ast \<Rightarrow> import_state \<Rightarrow> exn + import_state" where
  "collect_imports path maximum scope n st =
     (case n of
        ClassDef _ name _ _ _ _ _ \<Rightarrow> rfold (collect_imports path maximum (scope @ [name])) (children n) st
      | FunctionDef _ _ name _ _ _ _ _ \<Rightarrow> rfold (collect_imports path maximum (scope @ [name])) (children n) st
      | Import sp names \<Rightarrow> rfold (\<lambda>a. append_import maximum (import_record path scope sp a)) names st
      | ImportFrom sp module' names level \<Rightarrow>
          rfold (\<lambda>a. append_import maximum (import_from_record path scope sp module' level a)) names st
      | _ \<Rightarrow> rfold (collect_imports path maximum scope) (children n) st)"
  by pat_completeness auto

termination
  by (relation "measure (\<lambda>(path, maximum, scope, n, st). size n)")
     (auto dest: child_size [simplified] element_size arguments_children_size [OF disjI1])

declare collect_imports.simps [simp del]

section \<open>Definitions and references\<close>

text \<open>A scope: its name, whether it is a class, and the names bound in it.\<close>

type_synonym scope = "string \<times> bool \<times> string set"

record visitor =
  vp_path :: string
  vp_module :: string
  vp_source_lines :: "string list"
  vp_exports :: "string list option"
  vp_aliases :: "(string \<times> string) list"
  vp_max_symbols :: nat
  vp_max_references :: nat

record visitor_state =
  vs_symbols :: "IndexedSymbol list"
  vs_symbols_omitted :: nat
  vs_references :: "IndexedReference list"
  vs_references_omitted :: nat

definition scope_names :: "scope list \<Rightarrow> string list" where
  "scope_names scopes = map fst scopes"

definition identifier_pattern :: regex where
  "identifier_pattern =
     Seq (Cls (\<lambda>c. in_range (CHR ''A'') (CHR ''Z'') c \<or> in_range (CHR ''a'') (CHR ''z'') c \<or> c = CHR ''_''))
         (Rep (Cls is_word) 0 None)"

definition leaf_of :: "string \<Rightarrow> string" where
  "leaf_of name = after_last (CHR ''.'') name"

definition has_dot :: "string \<Rightarrow> bool" where
  "has_dot name = (CHR ''.'' \<in> set name)"

text \<open>\<open>name.rsplit('.', maxsplit=1)[0]\<close>.\<close>

definition parent_of :: "string \<Rightarrow> string" where
  "parent_of name = (if has_dot name then take (length name - Suc (length (leaf_of name))) name else name)"

definition span_source :: "string list \<Rightarrow> nat \<Rightarrow> nat \<Rightarrow> string" where
  "span_source source_lines start_line end_line =
     join [CHR 0x0A] (drop (start_line - 1) (take end_line source_lines))"

text \<open>A further definition of a name is merged into its symbol; a new name is appended within the budget.\<close>

definition merged_symbol :: "IndexedSymbol \<Rightarrow> ObservableSymbolKind \<Rightarrow> nat \<Rightarrow> nat \<Rightarrow> string \<Rightarrow> IndexedSymbol" where
  "merged_symbol s kind start_line end_line content_hash =
     s\<lparr>sy_start_line := min (sy_start_line s) start_line, sy_end_line := max (sy_end_line s) end_line,
       sy_source_sha256 := sha256 (utf8 (sy_source_sha256 s @ [CHR 0x00] @ content_hash)),
       sy_definition_count := sy_definition_count s + 1,
       sy_definition_kinds := (if kind \<in> set (sy_definition_kinds s) then sy_definition_kinds s
                               else sy_definition_kinds s @ [kind])\<rparr>"

definition new_symbol :: "visitor \<Rightarrow> string \<Rightarrow> ObservableSymbolKind \<Rightarrow> nat \<Rightarrow> nat \<Rightarrow> string \<Rightarrow> IndexedSymbol" where
  "new_symbol vp qualified_name kind start_line end_line content_hash =
     \<lparr>sy_path = vp_path vp, sy_module = vp_module vp, sy_qualified_name = qualified_name, sy_kind = kind,
      sy_start_line = start_line, sy_end_line = end_line,
      sy_parent_symbol = (if has_dot qualified_name then Some (parent_of qualified_name) else None),
      sy_public = (\<not> startswith (leaf_of qualified_name) ''_''),
      sy_exported = (case vp_exports vp of
         Some exports \<Rightarrow> if has_dot qualified_name then None else Some (leaf_of qualified_name \<in> set exports)
       | None \<Rightarrow> None),
      sy_source_sha256 = content_hash, sy_definition_count = 1, sy_definition_kinds = [kind]\<rparr>"

definition append_symbol ::
    "visitor \<Rightarrow> string \<Rightarrow> ObservableSymbolKind \<Rightarrow> nat \<Rightarrow> nat \<Rightarrow> visitor_state \<Rightarrow> exn + visitor_state" where
  "append_symbol vp qualified_name kind start_line end_line st =
     (let content_hash = sha256 (utf8 (span_source (vp_source_lines vp) start_line end_line)) in
      if qualified_name \<in> set (map sy_qualified_name (vs_symbols st)) then
        Inr (st\<lparr>vs_symbols := map (\<lambda>s. if sy_qualified_name s = qualified_name
                                       then merged_symbol s kind start_line end_line content_hash else s) (vs_symbols st)\<rparr>)
      else if vp_max_symbols vp \<le> length (vs_symbols st) then
        Inr (st\<lparr>vs_symbols_omitted := vs_symbols_omitted st + 1\<rparr>)
      else rbind (mk_IndexedSymbol (new_symbol vp qualified_name kind start_line end_line content_hash)) (\<lambda>s.
        Inr (st\<lparr>vs_symbols := vs_symbols st @ [s]\<rparr>)))"

definition record_symbol :: "visitor \<Rightarrow> scope list \<Rightarrow> string \<Rightarrow> ast list \<Rightarrow> ast \<Rightarrow> ObservableSymbolKind
    \<Rightarrow> visitor_state \<Rightarrow> exn + visitor_state" where
  "record_symbol vp scopes name decorators node kind =
     append_symbol vp (join ''.'' (scope_names scopes @ [name])) kind
       (fold min (map lineno decorators) (lineno node)) (end_lineno node)"

definition record_module_value :: "visitor \<Rightarrow> ast \<Rightarrow> string \<Rightarrow> visitor_state \<Rightarrow> exn + visitor_state" where
  "record_module_value vp node name st =
     (if \<not> is_fullmatch identifier_pattern name then Inr st
      else append_symbol vp name MODULE_VALUE (lineno node) (end_lineno node) st)"

fun assignment_names :: "ast \<Rightarrow> string list" where
  "assignment_names (Name _ x _) = [x]"
| "assignment_names (Display d _ elts) = (if d = SetDisplay then [] else concat (map assignment_names elts))"
| "assignment_names _ = []"

text \<open>The import alias the first component of an expression stands for, unless a scope binds it.\<close>

definition alias_expansion :: "visitor \<Rightarrow> scope list \<Rightarrow> string \<Rightarrow> string option" where
  "alias_expansion vp scopes expression =
     (let prefix = before_first (CHR ''.'') expression in
      if list_ex (\<lambda>(_, _, bindings). prefix \<in> bindings) scopes then None
      else case map_of (vp_aliases vp) prefix of
        None \<Rightarrow> None
      | Some resolved \<Rightarrow>
          (if resolved = [] then None
           else Some (resolved @ drop (length prefix) expression)))"

definition record_reference ::
    "visitor \<Rightarrow> scope list \<Rightarrow> ast \<Rightarrow> ReferenceKind \<Rightarrow> string \<Rightarrow> visitor_state \<Rightarrow> exn + visitor_state" where
  "record_reference vp scopes node kind expression st =
     (if vp_max_references vp \<le> length (vs_references st) then
        Inr (st\<lparr>vs_references_omitted := vs_references_omitted st + 1\<rparr>)
      else if \<not> is_fullmatch identifier_pattern (leaf_of expression) then Inr st
      else rbind (mk_IndexedReference
        \<lparr>ir_path = vp_path vp, ir_scope = scope_text (scope_names scopes), ir_kind = kind, ir_name = leaf_of expression,
         ir_expression = expression, ir_module_import_alias_expansion = alias_expansion vp scopes expression,
         ir_start_line = lineno node, ir_end_line = end_lineno node, ir_column = col_offset node\<rparr>) (\<lambda>r.
        Inr (st\<lparr>vs_references := vs_references st @ [r]\<rparr>)))"

definition function_kind :: "scope list \<Rightarrow> bool \<Rightarrow> ast list \<Rightarrow> ObservableSymbolKind" where
  "function_kind scopes asynchronous decorators =
     (let is_method = (scopes \<noteq> [] \<and> fst (snd (last scopes)));
          names = map (\<lambda>d. case dotted_name d of Some n \<Rightarrow> n | None \<Rightarrow> []) decorators in
      if is_method \<and> list_ex (\<lambda>n. n = ''property'' \<or> endswith n ''.getter'' \<or> endswith n ''.setter'' \<or> endswith n ''.deleter'') names
      then PROPERTY
      else if is_method then (if asynchronous then ASYNC_METHOD else METHOD)
      else if asynchronous then ASYNC_FUNCTION else FUNCTION)"

text \<open>\<open>_DefinitionAndReferenceVisitor.visit\<close>.\<close>

function visit :: "visitor \<Rightarrow> scope list \<Rightarrow> ast \<Rightarrow> visitor_state \<Rightarrow> exn + visitor_state" where
  "visit vp scopes n st =
     (case n of
        ClassDef _ name bases keywords body decorators type_params \<Rightarrow>
          rbind (record_symbol vp scopes name decorators n CLASS st) (\<lambda>st.
          rbind (rfold (visit vp scopes) (decorators @ bases @ keywords @ type_params) st)
            (\<lambda>st. rfold (visit vp (scopes @ [(name, True, scope_bindings body None)])) body st))
      | FunctionDef _ asynchronous name args body decorators returns type_params \<Rightarrow>
          rbind (record_symbol vp scopes name decorators n (function_kind scopes asynchronous decorators) st) (\<lambda>st.
          rbind (rfold (visit vp scopes) (decorators @ arguments_visited args @ option_list returns @ type_params) st)
            (\<lambda>st. rfold (visit vp (scopes @ [(name, False, scope_bindings body (Some args))])) body st))
      | Assign _ targets _ \<Rightarrow>
          rbind (if scopes = [] then rfold (record_module_value vp n) (concat (map assignment_names targets)) st else Inr st)
            (\<lambda>st. rfold (visit vp scopes) (children n) st)
      | AnnAssign _ target _ value \<Rightarrow>
          rbind (if scopes = [] \<and> value \<noteq> None then rfold (record_module_value vp n) (assignment_names target) st else Inr st)
            (\<lambda>st. rfold (visit vp scopes) (children n) st)
      | Name _ x ctx \<Rightarrow> if ctx = Load then record_reference vp scopes n NAME x st else Inr st
      | Attribute _ _ attr ctx \<Rightarrow>
          rbind (if ctx = Load
                 then record_reference vp scopes n ATTRIBUTE (or_str (case dotted_name n of Some d \<Rightarrow> d | None \<Rightarrow> []) attr) st
                 else Inr st)
            (\<lambda>st. rfold (visit vp scopes) (children n) st)
      | Call _ f _ _ \<Rightarrow>
          rbind (case dotted_name f of
                   Some expression \<Rightarrow> if expression = [] then Inr st else record_reference vp scopes f CALL expression st
                 | None \<Rightarrow> Inr st)
            (\<lambda>st. rfold (visit vp scopes) (children n) st)
      | _ \<Rightarrow> rfold (visit vp scopes) (children n) st)"
  by pat_completeness auto

termination
proof (relation "measure (\<lambda>(vp, scopes, n, st). size n)", goal_cases)
  case 1
  then show ?case by simp
qed (auto dest: child_size [simplified] element_size arguments_children_size [OF disjI1] arguments_children_size [OF disjI2])

declare visit.simps [simp del]

section \<open>The index\<close>

text \<open>What building needs of the standard library: decoding, parsing (None for a syntax error) and JSON.\<close>

record source_reader =
  sr_decode :: "bytes \<Rightarrow> string option"
  sr_parse :: "string \<Rightarrow> ast list option"
  sr_dump :: "Revision \<Rightarrow> IndexedPythonFile list \<Rightarrow> IndexedSymbol list \<Rightarrow> IndexedImport list \<Rightarrow> IndexedReference list
     \<Rightarrow> RepositoryIndexStats \<Rightarrow> string"

record RepositoryIndex =
  ix_revision :: Revision
  ix_budget :: RepositoryIndexBudget
  ix_files :: "IndexedPythonFile list"
  ix_symbols :: "IndexedSymbol list"
  ix_imports :: "IndexedImport list"
  ix_references :: "IndexedReference list"
  ix_sources :: "(string \<times> string) list"
  ix_stats :: RepositoryIndexStats
  ix_test_functions :: "IndexedSymbol list"
  ix_sha256 :: string

definition files_by_path :: "IndexedPythonFile list \<Rightarrow> string \<rightharpoonup> IndexedPythonFile" where
  "files_by_path files = map_of (rev (map (\<lambda>f. (pf_path f, f)) files))"

definition is_test_function :: "IndexedPythonFile list \<Rightarrow> IndexedSymbol \<Rightarrow> bool" where
  "is_test_function files s =
     (startswith (leaf_of (sy_qualified_name s)) ''test_''
      \<and> (case files_by_path files (sy_path s) of Some f \<Rightarrow> pf_is_test f | None \<Rightarrow> False)
      \<and> sy_kind s \<in> {FUNCTION, ASYNC_FUNCTION, METHOD, ASYNC_METHOD})"

definition canonical_json :: "source_reader \<Rightarrow> RepositoryIndex \<Rightarrow> string" where
  "canonical_json sr ix =
     sr_dump sr (ix_revision ix) (ix_files ix) (ix_symbols ix) (ix_imports ix) (ix_references ix) (ix_stats ix)"

text \<open>\<open>RepositoryIndex.__init__\<close>.\<close>

definition mk_RepositoryIndex :: "source_reader \<Rightarrow> RepositoryIndex \<Rightarrow> RepositoryIndex" where
  "mk_RepositoryIndex sr ix =
     (let ix = ix\<lparr>ix_test_functions := filter (is_test_function (ix_files ix)) (ix_symbols ix)\<rparr> in
      ix\<lparr>ix_sha256 := sha256 (utf8 (canonical_json sr ix))\<rparr>)"

definition index_has_path :: "RepositoryIndex \<Rightarrow> string \<Rightarrow> exn + bool" where
  "index_has_path ix path =
     rbind (validate_repository_source_path path) (\<lambda>p. Inr (files_by_path (ix_files ix) p \<noteq> None))"

definition index_file :: "RepositoryIndex \<Rightarrow> string \<Rightarrow> exn + IndexedPythonFile option" where
  "index_file ix path = rbind (validate_repository_source_path path) (\<lambda>p. Inr (files_by_path (ix_files ix) p))"

definition index_source :: "RepositoryIndex \<Rightarrow> string \<Rightarrow> exn + string option" where
  "index_source ix path = rbind (validate_repository_source_path path) (\<lambda>p. Inr (map_of (ix_sources ix) p))"

section \<open>Selection under the budgets\<close>

record 'a selection =
  sl_selected :: "(string \<times> 'a) list"
  sl_total :: nat
  sl_oversized :: nat
  sl_file_limit_omitted :: nat
  sl_total_byte_budget_omitted :: nat

definition ordered_by_priority :: "string set \<Rightarrow> (string \<times> 'a) list \<Rightarrow> (string \<times> 'a) list" where
  "ordered_by_priority priority entries = sort_key (\<lambda>(path, _). (path \<notin> priority, path)) entries"

definition take_file :: "('a \<Rightarrow> nat) \<Rightarrow> string \<times> 'a \<Rightarrow> 'a selection \<Rightarrow> 'a selection" where
  "take_file size_of entry s =
     s\<lparr>sl_selected := sl_selected s @ [entry], sl_total := sl_total s + size_of (snd entry)\<rparr>"

text \<open>The loop over raw files in \<open>_build\<close>, and the one over tree entries in \<open>from_git\<close>, which looks at the size first.\<close>

definition select_file :: "RepositoryIndexBudget \<Rightarrow> string \<times> bytes \<Rightarrow> bytes selection \<Rightarrow> bytes selection" where
  "select_file b entry s =
     (if ib_max_files b \<le> length (sl_selected s) then s\<lparr>sl_file_limit_omitted := sl_file_limit_omitted s + 1\<rparr>
      else if ib_max_file_bytes b < length (snd entry) then s\<lparr>sl_oversized := sl_oversized s + 1\<rparr>
      else if ib_max_total_source_bytes b < sl_total s + length (snd entry)
      then s\<lparr>sl_total_byte_budget_omitted := sl_total_byte_budget_omitted s + 1\<rparr>
      else take_file length entry s)"

definition select_entry ::
    "RepositoryIndexBudget \<Rightarrow> string \<times> string \<times> nat \<Rightarrow> (string \<times> nat) selection \<Rightarrow> (string \<times> nat) selection" where
  "select_entry b entry s =
     (if ib_max_file_bytes b < snd (snd entry) then s\<lparr>sl_oversized := sl_oversized s + 1\<rparr>
      else if ib_max_files b \<le> length (sl_selected s) then s\<lparr>sl_file_limit_omitted := sl_file_limit_omitted s + 1\<rparr>
      else if ib_max_total_source_bytes b < sl_total s + snd (snd entry)
      then s\<lparr>sl_total_byte_budget_omitted := sl_total_byte_budget_omitted s + 1\<rparr>
      else take_file snd entry s)"

definition empty_selection :: "'a selection" where
  "empty_selection = \<lparr>sl_selected = [], sl_total = 0, sl_oversized = 0, sl_file_limit_omitted = 0, sl_total_byte_budget_omitted = 0\<rparr>"

text \<open>What happened before \<open>_build\<close>: the counts its caller passes.\<close>

record pre_counts =
  pre_discovered :: nat
  pre_symlinks_skipped :: nat
  pre_excluded_files_skipped :: nat
  pre_file_limit_omitted :: nat
  pre_total_byte_budget_omitted :: nat
  pre_oversized :: nat

definition select_files :: "RepositoryIndexBudget \<Rightarrow> pre_counts \<Rightarrow> string set \<Rightarrow> (string \<times> bytes) list \<Rightarrow> bytes selection" where
  "select_files b pre priority raw_files =
     fold (select_file b) (ordered_by_priority priority raw_files)
       (empty_selection\<lparr>sl_oversized := pre_oversized pre, sl_file_limit_omitted := pre_file_limit_omitted pre,
                        sl_total_byte_budget_omitted := pre_total_byte_budget_omitted pre\<rparr>)"

section \<open>Building\<close>

record build_state =
  bs_files :: "IndexedPythonFile list"
  bs_symbols :: "IndexedSymbol list"
  bs_imports :: "IndexedImport list"
  bs_references :: "IndexedReference list"
  bs_sources :: "(string \<times> string) list"
  bs_undecodable :: nat
  bs_syntax_errors :: nat
  bs_symbols_omitted :: nat
  bs_imports_omitted :: nat
  bs_references_omitted :: nat

definition empty_build :: build_state where
  "empty_build = \<lparr>bs_files = [], bs_symbols = [], bs_imports = [], bs_references = [], bs_sources = [],
     bs_undecodable = 0, bs_syntax_errors = 0, bs_symbols_omitted = 0, bs_imports_omitted = 0, bs_references_omitted = 0\<rparr>"

text \<open>The module's aliases; a later binding of a name replaces an earlier one.\<close>

definition module_aliases :: "IndexedImport list \<Rightarrow> (string \<times> string) list" where
  "module_aliases imports =
     rev (concat (map (\<lambda>i. case im_alias_target i of
         Some target \<Rightarrow> if im_scope i = ''<module>'' \<and> im_imported_name i \<noteq> Some ''*'' then [(im_alias i, target)] else []
       | None \<Rightarrow> []) imports))"

definition index_tree ::
    "RepositoryIndexBudget \<Rightarrow> string \<Rightarrow> string \<Rightarrow> ast list \<Rightarrow> build_state \<Rightarrow> exn + build_state" where
  "index_tree b path source body st =
     rbind (rfold (collect_imports path (ib_max_imports b - length (bs_imports st)) []) body
              \<lparr>is_imports = [], is_omitted_count = 0\<rparr>) (\<lambda>collected.
     rbind (rfold (visit
              \<lparr>vp_path = path, vp_module = index_module_name path, vp_source_lines = splitlines source,
               vp_exports = literal_exports body, vp_aliases = module_aliases (is_imports collected),
               vp_max_symbols = ib_max_symbols b - length (bs_symbols st),
               vp_max_references = ib_max_references b - length (bs_references st)\<rparr> []) body
              \<lparr>vs_symbols = [], vs_symbols_omitted = 0, vs_references = [], vs_references_omitted = 0\<rparr>) (\<lambda>visited.
     Inr (st\<lparr>bs_imports := bs_imports st @ is_imports collected,
             bs_imports_omitted := bs_imports_omitted st + is_omitted_count collected,
             bs_symbols := bs_symbols st @ vs_symbols visited,
             bs_symbols_omitted := bs_symbols_omitted st + vs_symbols_omitted visited,
             bs_references := bs_references st @ vs_references visited,
             bs_references_omitted := bs_references_omitted st + vs_references_omitted visited\<rparr>)))"

definition index_content ::
    "source_reader \<Rightarrow> RepositoryIndexBudget \<Rightarrow> string \<times> bytes \<Rightarrow> build_state \<Rightarrow> exn + build_state" where
  "index_content sr b entry st =
     (case entry of (path, content) \<Rightarrow>
        (case sr_decode sr content of
           None \<Rightarrow> Inr (st\<lparr>bs_undecodable := bs_undecodable st + 1\<rparr>)
         | Some source \<Rightarrow>
             (let parsed = sr_parse sr source in
              rbind (mk_IndexedPythonFile
                \<lparr>pf_path = path, pf_module = index_module_name path, pf_size_bytes = length content,
                 pf_line_count = length (splitlines source), pf_content_sha256 = sha256 content,
                 pf_parse_status = (if parsed = None then SYNTAX_ERROR else PARSED), pf_is_test = is_test_path path\<rparr>) (\<lambda>file.
              let st = st\<lparr>bs_files := bs_files st @ [file], bs_sources := bs_sources st @ [(path, source)]\<rparr> in
              case parsed of
                None \<Rightarrow> Inr (st\<lparr>bs_syntax_errors := bs_syntax_errors st + 1\<rparr>)
              | Some body \<Rightarrow> index_tree b path source body st))))"

definition index_truncated :: "pre_counts \<Rightarrow> 'a selection \<Rightarrow> build_state \<Rightarrow> bool" where
  "index_truncated pre s st =
     (0 < sl_oversized s \<or> 0 < sl_file_limit_omitted s \<or> 0 < sl_total_byte_budget_omitted s
      \<or> 0 < pre_symlinks_skipped pre \<or> 0 < pre_excluded_files_skipped pre
      \<or> 0 < bs_undecodable st \<or> 0 < bs_syntax_errors st
      \<or> 0 < bs_symbols_omitted st \<or> 0 < bs_imports_omitted st \<or> 0 < bs_references_omitted st)"

definition index_stats :: "pre_counts \<Rightarrow> 'a selection \<Rightarrow> build_state \<Rightarrow> RepositoryIndexStats" where
  "index_stats pre s st =
     \<lparr>ss_python_files_discovered = pre_discovered pre, ss_files_indexed = length (bs_files st),
      ss_oversized_files_skipped = sl_oversized s, ss_undecodable_files_skipped = bs_undecodable st,
      ss_symlinks_skipped = pre_symlinks_skipped pre, ss_excluded_files_skipped = pre_excluded_files_skipped pre,
      ss_file_limit_omitted = sl_file_limit_omitted s, ss_total_byte_budget_omitted = sl_total_byte_budget_omitted s,
      ss_symbols_omitted = bs_symbols_omitted st, ss_imports_omitted = bs_imports_omitted st,
      ss_references_omitted = bs_references_omitted st, ss_syntax_errors = bs_syntax_errors st,
      ss_symbol_count = length (bs_symbols st), ss_import_count = length (bs_imports st),
      ss_reference_count = length (bs_references st), ss_total_source_bytes = sum_list (map pf_size_bytes (bs_files st)),
      ss_truncated = index_truncated pre s st\<rparr>"

definition build_index ::
    "source_reader \<Rightarrow> Revision \<Rightarrow> RepositoryIndexBudget \<Rightarrow> pre_counts \<Rightarrow> string set \<Rightarrow> (string \<times> bytes) list \<Rightarrow> exn + RepositoryIndex" where
  "build_index sr revision b pre priority raw_files =
     (let s = select_files b pre priority raw_files in
      rbind (rfold (index_content sr b) (sl_selected s) empty_build) (\<lambda>st.
      Inr (mk_RepositoryIndex sr
        \<lparr>ix_revision = revision, ix_budget = b,
         ix_files = sort_key pf_path (bs_files st),
         ix_symbols = sort_key (\<lambda>y. (sy_path y, sy_start_line y, sy_qualified_name y, str_symbol_kind (sy_kind y))) (bs_symbols st),
         ix_imports = sort_key (\<lambda>i. (im_path i, im_start_line i, im_module i, (case im_imported_name i of Some m \<Rightarrow> m | None \<Rightarrow> [])))
           (bs_imports st),
         ix_references = sort_key (\<lambda>r. (ir_path r, ir_start_line r, ir_column r, str_reference_kind (ir_kind r), ir_expression r))
           (bs_references st),
         ix_sources = bs_sources st, ix_stats = index_stats pre s st, ix_test_functions = [], ix_sha256 = []\<rparr>)))"

definition known_paths :: "string \<Rightarrow> string list \<Rightarrow> exn + string set" where
  "known_paths what paths =
     (case rmap validate_repository_source_path paths of
        Inl e \<Rightarrow> Inl (RepositoryIndexError (''invalid '' @ what @ '' repository path: '' @ error_message e))
      | Inr paths \<Rightarrow> Inr (set paths))"

text \<open>\<open>from_files\<close>: contents are text or bytes.\<close>

fun normalize_files :: "string set \<Rightarrow> (string \<times> (string + bytes)) list \<Rightarrow> (string \<times> bytes) list \<Rightarrow> nat
    \<Rightarrow> exn + (string \<times> bytes) list \<times> nat" where
  "normalize_files excluded [] normalized excluded_count = Inr (normalized, excluded_count)"
| "normalize_files excluded ((path, content) # files) normalized excluded_count =
     rbind (validate_repository_source_path path) (\<lambda>path.
     if path \<in> excluded then normalize_files excluded files normalized (excluded_count + 1)
     else if path \<in> set (map fst normalized) then Inl (RepositoryIndexError (''duplicate repository path: '' @ path))
     else normalize_files excluded files
            (normalized @ [(path, case content of Inl text \<Rightarrow> utf8 text | Inr raw \<Rightarrow> raw)]) excluded_count)"

definition from_files ::
    "source_reader \<Rightarrow> Revision \<Rightarrow> (string \<times> (string + bytes)) list \<Rightarrow> RepositoryIndexBudget \<Rightarrow> string list \<Rightarrow> string list
     \<Rightarrow> exn + RepositoryIndex" where
  "from_files sr revision files b excluded_paths priority_paths =
     rbind (known_paths ''excluded'' excluded_paths) (\<lambda>excluded.
     rbind (known_paths ''priority'' priority_paths) (\<lambda>priority.
     rbind (normalize_files excluded files [] 0) (\<lambda>(normalized, excluded_count).
     build_index sr revision b
       \<lparr>pre_discovered = length normalized + excluded_count, pre_symlinks_skipped = 0,
        pre_excluded_files_skipped = excluded_count, pre_file_limit_omitted = 0, pre_total_byte_budget_omitted = 0,
        pre_oversized = 0\<rparr> priority normalized)))"

section \<open>Reading a commit\<close>

text \<open>
  A fixed Git object command: None when it could not be started or fed; else what it writes until it
  ends or the deadline passes, and how that came: it exited, it closed its output and did not exit, or it
  was still writing.
\<close>

datatype git_ending = Exited int | NotExiting | StillWriting

type_synonym git_objects = "string list \<Rightarrow> bytes option \<Rightarrow> (bytes \<times> git_ending) option"

definition git_run :: "git_objects \<Rightarrow> string list \<Rightarrow> nat \<Rightarrow> bytes option \<Rightarrow> exn + bytes" where
  "git_run git arguments output_limit input_bytes =
     (case git arguments input_bytes of
        None \<Rightarrow> Inl (RepositoryIndexError ''fixed Git object read could not complete'')
      | Some (output, ending) \<Rightarrow>
          (if output_limit < length output
           then Inl (RepositoryIndexError ''fixed Git object read exceeded its output budget'')
           else case ending of
             StillWriting \<Rightarrow> Inl (RepositoryIndexError ''fixed Git object read exceeded its time budget'')
           | NotExiting \<Rightarrow> Inl (RepositoryIndexError ''fixed Git object read could not complete'')
           | Exited code \<Rightarrow>
               (if code \<noteq> 0 then Inl (RepositoryIndexError ''immutable Git revision could not be read'') else Inr output)))"

record tree_listing =
  tl_entries :: "(string \<times> string \<times> nat) list"
  tl_discovered :: nat
  tl_symlinks_skipped :: nat
  tl_excluded_files_skipped :: nat

definition undecodable_tree :: exn where
  "undecodable_tree = RepositoryIndexError ''Git tree metadata is not safely decodable''"

text \<open>One record of \<open>ls-tree -r -z --long\<close>: metadata, a tab, the path. Git prints sizes without a sign.\<close>

definition tree_entry :: "string set \<Rightarrow> bytes \<Rightarrow> tree_listing \<Rightarrow> exn + tree_listing" where
  "tree_entry excluded raw_entry ls =
     rbind (guard (9 \<in> set raw_entry) (RepositoryIndexError ''Git tree returned malformed metadata'')) (\<lambda>_.
     let metadata = takeWhile (\<lambda>b. b \<noteq> 9) raw_entry; raw_path = drop (Suc (length metadata)) raw_entry in
     rbind (ok_or undecodable_tree (utf8_decode raw_path)) (\<lambda>path.
     rbind (ok_or undecodable_tree (ascii_decode metadata)) (\<lambda>fields.
     case split_ws fields of
       [mode, object_type, object_id, size_text] \<Rightarrow>
         (if \<not> endswith path ''.py'' then Inr ls
          else
            let ls = ls\<lparr>tl_discovered := tl_discovered ls + 1\<rparr> in
            rbind (validate_repository_source_path path) (\<lambda>path.
            if path \<in> excluded then Inr (ls\<lparr>tl_excluded_files_skipped := tl_excluded_files_skipped ls + 1\<rparr>)
            else if mode = ''120000'' then Inr (ls\<lparr>tl_symlinks_skipped := tl_symlinks_skipped ls + 1\<rparr>)
            else rbind (guard (object_type = ''blob'' \<and> is_fullmatch git_sha_pattern object_id)
                         (RepositoryIndexError ''Python tree entry is not a regular Git blob'')) (\<lambda>_.
              rbind (ok_or (RepositoryIndexError ''Git blob size is invalid'') (py_int size_text)) (\<lambda>extent.
              Inr (ls\<lparr>tl_entries := tl_entries ls @ [(path, object_id, nat extent)]\<rparr>)))))
     | _ \<Rightarrow> Inl undecodable_tree)))"

definition batch_input :: "(string \<times> string \<times> nat) list \<Rightarrow> bytes" where
  "batch_input entries = concat (map (\<lambda>(_, object_id, _). utf8 (object_id @ [CHR 0x0A])) entries)"

text \<open>The output of \<open>cat-file --batch\<close>, read from the cursor on: a header line, the content, a newline.\<close>

fun parse_batch :: "(string \<times> string \<times> nat) list \<Rightarrow> bytes \<Rightarrow> exn + (string \<times> bytes) list" where
  "parse_batch [] output =
     rbind (guard (output = []) (RepositoryIndexError ''Git batch object read returned unexpected trailing data'')) (\<lambda>_. Inr [])"
| "parse_batch ((path, object_id, extent) # entries) output =
     rbind (guard (10 \<in> set output) (RepositoryIndexError ''Git batch object read returned malformed metadata'')) (\<lambda>_.
     let raw_header = takeWhile (\<lambda>b. b \<noteq> 10) output; rest = drop (Suc (length raw_header)) output;
         undecodable = RepositoryIndexError ''Git batch object metadata is not safely decodable'' in
     rbind (ok_or undecodable (ascii_decode raw_header)) (\<lambda>header_text.
     case split_ws header_text of
       [returned_id, object_type, returned_size] \<Rightarrow>
         rbind (guard (returned_id = object_id \<and> object_type = ''blob'' \<and> returned_size = str_nat extent)
           (RepositoryIndexError ''Git blob identity changed during index build'')) (\<lambda>_.
         rbind (guard (extent < length rest \<and> rest ! extent = 10)
           (RepositoryIndexError ''Git batch object content is malformed'')) (\<lambda>_.
         rbind (parse_batch entries (drop (Suc extent) rest)) (\<lambda>files. Inr ((path, take extent rest) # files))))
     | _ \<Rightarrow> Inl undecodable))"

definition empty_listing :: tree_listing where
  "empty_listing = \<lparr>tl_entries = [], tl_discovered = 0, tl_symlinks_skipped = 0, tl_excluded_files_skipped = 0\<rparr>"

definition from_git ::
    "source_reader \<Rightarrow> git_objects option \<Rightarrow> Revision \<Rightarrow> RepositoryIndexBudget \<Rightarrow> string list \<Rightarrow> string list \<Rightarrow> exn + RepositoryIndex" where
  "from_git sr repository revision b excluded_paths priority_paths =
     (case repository of
        None \<Rightarrow> Inl (RepositoryIndexError ''source repository does not exist'')
      | Some git \<Rightarrow>
          rbind (known_paths ''excluded'' excluded_paths) (\<lambda>excluded.
          rbind (known_paths ''priority'' priority_paths) (\<lambda>priority.
          rbind (git_run git [''rev-parse'', ''--verify'', rev_sha revision @ ''^{commit}''] 128 None) (\<lambda>resolved.
          rbind (ok_or unicode_error (ascii_decode resolved)) (\<lambda>resolved.
          rbind (guard (lower (strip resolved) = rev_sha revision)
            (RepositoryIndexError ''revision did not resolve to the exact requested commit'')) (\<lambda>_.
          rbind (git_run git [''ls-tree'', ''-r'', ''-z'', ''--long'', rev_sha revision] (ib_max_tree_listing_bytes b) None) (\<lambda>listing.
          rbind (rfold (tree_entry excluded) (nul_tokens listing) empty_listing) (\<lambda>ls.
          let chosen = fold (select_entry b) (ordered_by_priority priority (tl_entries ls)) empty_selection in
          rbind (if sl_selected chosen = [] then Inr []
                 else rbind (git_run git [''cat-file'', ''--batch''] (sl_total chosen + length (sl_selected chosen) * 128)
                        (Some (batch_input (sl_selected chosen)))) (parse_batch (sl_selected chosen))) (\<lambda>raw_files.
          build_index sr revision b
            \<lparr>pre_discovered = tl_discovered ls, pre_symlinks_skipped = tl_symlinks_skipped ls,
             pre_excluded_files_skipped = tl_excluded_files_skipped ls,
             pre_file_limit_omitted = sl_file_limit_omitted chosen,
             pre_total_byte_budget_omitted = sl_total_byte_budget_omitted chosen,
             pre_oversized = sl_oversized chosen\<rparr> priority raw_files)))))))))"

end
