(* ===== verification/InvestigationTools.thy ===== *)
theory InvestigationTools
  imports RepositoryIndex
begin

text \<open>
  \<open>src/patchproof/investigation_tools.py\<close>: the bounded read-only queries over the indexes of two
  revisions. The values of a result with their checks, the comparison of the observables of BASE and HEAD
  with the closure of what a change reaches, and the ranked searches for symbols, references, callers,
  tests and source.
\<close>

section \<open>Values\<close>

definition QUALIFIED_IDENTIFIER :: regex where
  "QUALIFIED_IDENTIFIER =
     Seq identifier_pattern (Rep (Seq (lit ''.'') identifier_pattern) 0 None)"

datatype InvestigationQueryKind =
    INSPECT_SYMBOL | COMPARE_SYMBOL | COMPARE_OBSERVABLES | FIND_REFERENCES | FIND_CALLERS | FIND_RELATED_TESTS
  | INSPECT_SOURCE_WINDOW

fun str_query_kind :: "InvestigationQueryKind \<Rightarrow> string" where
  "str_query_kind INSPECT_SYMBOL = ''INSPECT_SYMBOL''"
| "str_query_kind COMPARE_SYMBOL = ''COMPARE_SYMBOL''"
| "str_query_kind COMPARE_OBSERVABLES = ''COMPARE_OBSERVABLES''"
| "str_query_kind FIND_REFERENCES = ''FIND_REFERENCES''"
| "str_query_kind FIND_CALLERS = ''FIND_CALLERS''"
| "str_query_kind FIND_RELATED_TESTS = ''FIND_RELATED_TESTS''"
| "str_query_kind INSPECT_SOURCE_WINDOW = ''INSPECT_SOURCE_WINDOW''"

datatype InvestigationMatchType =
    EXACT_PATH_AND_SYMBOL | EXACT_SYMBOL | AGGREGATED_SYMBOL_DEFINITIONS | QUALIFIED_SYNTAX_REFERENCE
  | STATIC_IMPORT_ALIAS_REFERENCE | NAME_SYNTAX_REFERENCE | ATTRIBUTE_SYNTAX_REFERENCE | STATIC_IMPORT_ALIAS_CALL
  | POSSIBLE_NAME_CALL | POSSIBLE_ATTRIBUTE_CALL | SYNTACTIC_IMPORT_BINDING | MODULE_SUFFIX_REFERENCE
  | TEXTUAL_FALLBACK | EXACT_SOURCE_WINDOW

fun str_match_type :: "InvestigationMatchType \<Rightarrow> string" where
  "str_match_type EXACT_PATH_AND_SYMBOL = ''EXACT_PATH_AND_SYMBOL''"
| "str_match_type EXACT_SYMBOL = ''EXACT_SYMBOL''"
| "str_match_type AGGREGATED_SYMBOL_DEFINITIONS = ''AGGREGATED_SYMBOL_DEFINITIONS''"
| "str_match_type QUALIFIED_SYNTAX_REFERENCE = ''QUALIFIED_SYNTAX_REFERENCE''"
| "str_match_type STATIC_IMPORT_ALIAS_REFERENCE = ''STATIC_IMPORT_ALIAS_REFERENCE''"
| "str_match_type NAME_SYNTAX_REFERENCE = ''NAME_SYNTAX_REFERENCE''"
| "str_match_type ATTRIBUTE_SYNTAX_REFERENCE = ''ATTRIBUTE_SYNTAX_REFERENCE''"
| "str_match_type STATIC_IMPORT_ALIAS_CALL = ''STATIC_IMPORT_ALIAS_CALL''"
| "str_match_type POSSIBLE_NAME_CALL = ''POSSIBLE_NAME_CALL''"
| "str_match_type POSSIBLE_ATTRIBUTE_CALL = ''POSSIBLE_ATTRIBUTE_CALL''"
| "str_match_type SYNTACTIC_IMPORT_BINDING = ''SYNTACTIC_IMPORT_BINDING''"
| "str_match_type MODULE_SUFFIX_REFERENCE = ''MODULE_SUFFIX_REFERENCE''"
| "str_match_type TEXTUAL_FALLBACK = ''TEXTUAL_FALLBACK''"
| "str_match_type EXACT_SOURCE_WINDOW = ''EXACT_SOURCE_WINDOW''"

datatype ObservablePresence = PRESENT_ON_BOTH | NEW_ON_HEAD | REMOVED_FROM_HEAD

record InvestigationBudget =
  bg_default_max_results :: nat
  bg_hard_max_results :: nat
  bg_max_symbol_query_chars :: nat
  bg_max_symbol_source_lines :: nat
  bg_max_source_window_lines :: nat
  bg_max_source_chars :: nat
  bg_max_total_source_chars :: nat
  bg_max_relevance_hops :: nat

definition default_investigation_budget :: InvestigationBudget where
  "default_investigation_budget =
     \<lparr>bg_default_max_results = 20, bg_hard_max_results = 50, bg_max_symbol_query_chars = 256,
      bg_max_symbol_source_lines = 120, bg_max_source_window_lines = 120, bg_max_source_chars = 12000,
      bg_max_total_source_chars = 24000, bg_max_relevance_hops = 3\<rparr>"

definition mk_InvestigationBudget :: "InvestigationBudget \<Rightarrow> exn + InvestigationBudget" where
  "mk_InvestigationBudget b =
     rbind (checks
       [(0 \<in> {bg_default_max_results b, bg_hard_max_results b, bg_max_symbol_query_chars b, bg_max_symbol_source_lines b,
              bg_max_source_window_lines b, bg_max_source_chars b, bg_max_total_source_chars b, bg_max_relevance_hops b},
         ValueError ''investigation budget must be positive''),
        (bg_hard_max_results b < bg_default_max_results b \<or> 100 < bg_hard_max_results b,
         ValueError ''investigation result budgets exceed their safety ceiling''),
        (512 < bg_max_symbol_query_chars b, ValueError ''symbol query budget exceeds its safety ceiling''),
        (300 < bg_max_symbol_source_lines b \<or> 300 < bg_max_source_window_lines b,
         ValueError ''source line budget exceeds its safety ceiling''),
        (32000 < bg_max_source_chars b, ValueError ''source character budget exceeds its safety ceiling''),
        (5 < bg_max_relevance_hops b, ValueError ''relevance traversal exceeds its safety ceiling''),
        (bg_max_total_source_chars b < bg_max_source_chars b \<or> 64000 < bg_max_total_source_chars b,
         ValueError ''aggregate source character budget exceeds its safety contract'')]) (\<lambda>_. Inr b)"

record InvestigationProvenance =
  pv_query_kind :: InvestigationQueryKind
  pv_revision :: RevisionRole
  pv_path :: string
  pv_start_line :: nat
  pv_end_line :: nat
  pv_symbol_name :: "string option"
  pv_match_type :: InvestigationMatchType
  pv_reason :: string
  pv_source_truncated :: bool

definition mk_InvestigationProvenance :: "InvestigationProvenance \<Rightarrow> exn + InvestigationProvenance" where
  "mk_InvestigationProvenance p =
     rbind (checks
       [(pv_start_line p = 0 \<or> pv_end_line p = 0, ValidationError ''start_line''),
        (\<not> max_len_opt 512 (pv_symbol_name p), ValidationError ''symbol_name''),
        (\<not> len_between 1 500 (pv_reason p), ValidationError ''reason''),
        (\<not> source_path_ok (pv_path p), ValidationError ''path''),
        (pv_end_line p < pv_start_line p, ValidationError ''provenance end line cannot precede its start line'')]) (\<lambda>_. Inr p)"

record InvestigationMatch =
  mt_provenance :: InvestigationProvenance
  mt_symbol :: "IndexedSymbol option"
  mt_reference :: "IndexedReference option"
  mt_import_record :: "IndexedImport option"
  mt_content :: "string option"

definition mk_InvestigationMatch :: "InvestigationMatch \<Rightarrow> exn + InvestigationMatch" where
  "mk_InvestigationMatch m =
     rbind (checks
       [(\<not> max_len_opt 32000 (mt_content m), ValidationError ''content''),
        (mt_symbol m = None \<and> mt_reference m = None \<and> mt_import_record m = None \<and> mt_content m = None,
         ValidationError ''investigation match requires a typed payload or source content'')]) (\<lambda>_. Inr m)"

definition mk_match ::
    "InvestigationProvenance \<Rightarrow> IndexedSymbol option \<Rightarrow> IndexedReference option \<Rightarrow> IndexedImport option \<Rightarrow> string option
     \<Rightarrow> exn + InvestigationMatch" where
  "mk_match p symbol reference imported content =
     rbind (mk_InvestigationProvenance p) (\<lambda>p.
     mk_InvestigationMatch \<lparr>mt_provenance = p, mt_symbol = symbol, mt_reference = reference, mt_import_record = imported,
       mt_content = content\<rparr>)"

record InvestigationResult =
  rr_query_kind :: InvestigationQueryKind
  rr_revision :: RevisionRole
  rr_revision_sha :: string
  rr_index_sha256 :: string
  rr_index_stats :: RepositoryIndexStats
  rr_matches :: "InvestigationMatch list"
  rr_truncated :: bool

definition mk_InvestigationResult :: "InvestigationResult \<Rightarrow> exn + InvestigationResult" where
  "mk_InvestigationResult r =
     rbind (checks
       [(\<not> is_fullmatch git_sha_pattern (rr_revision_sha r), ValidationError ''revision_sha''),
        (\<not> is_sha256_hex (rr_index_sha256 r), ValidationError ''index_sha256''),
        (100 < length (rr_matches r), ValidationError ''matches'')]) (\<lambda>_. Inr r)"

record SymbolComparison =
  sk_path :: string
  sk_qualified_name :: string
  sk_presence :: ObservablePresence
  sk_base :: "IndexedSymbol option"
  sk_head :: "IndexedSymbol option"
  sk_implementation_changed :: "bool option"

definition mk_SymbolComparison :: "SymbolComparison \<Rightarrow> exn + SymbolComparison" where
  "mk_SymbolComparison c =
     rbind (checks
       [(\<not> len_between 1 512 (sk_qualified_name c), ValidationError ''qualified_name''),
        (\<not> source_path_ok (sk_path c), ValidationError ''path''),
        ((sk_base c \<noteq> None, sk_head c \<noteq> None)
           \<noteq> (case sk_presence c of PRESENT_ON_BOTH \<Rightarrow> (True, True) | NEW_ON_HEAD \<Rightarrow> (False, True) | REMOVED_FROM_HEAD \<Rightarrow> (True, False)),
         ValidationError ''symbol comparison presence contradicts BASE/HEAD views''),
        (sk_presence c = PRESENT_ON_BOTH \<and> sk_implementation_changed c = None,
         ValidationError ''shared symbol comparison requires an implementation decision''),
        (sk_presence c \<noteq> PRESENT_ON_BOTH \<and> sk_implementation_changed c \<noteq> None,
         ValidationError ''absent symbol comparison cannot claim implementation change'')]) (\<lambda>_. Inr c)"

text \<open>The two results over both revisions share their header.\<close>

record pair_header =
  ph2_query_kind :: InvestigationQueryKind
  ph2_base_revision_sha :: string
  ph2_head_revision_sha :: string
  ph2_base_index_sha256 :: string
  ph2_head_index_sha256 :: string
  ph2_base_index_stats :: RepositoryIndexStats
  ph2_head_index_stats :: RepositoryIndexStats
  ph2_truncated :: bool

definition pair_header_checks :: "'a pair_header_scheme \<Rightarrow> (bool \<times> exn) list" where
  "pair_header_checks h =
     [(\<not> is_fullmatch git_sha_pattern (ph2_base_revision_sha h), ValidationError ''base_revision_sha''),
      (\<not> is_fullmatch git_sha_pattern (ph2_head_revision_sha h), ValidationError ''head_revision_sha''),
      (\<not> is_sha256_hex (ph2_base_index_sha256 h), ValidationError ''base_index_sha256''),
      (\<not> is_sha256_hex (ph2_head_index_sha256 h), ValidationError ''head_index_sha256'')]"

record SymbolComparisonResult = pair_header +
  sq_comparisons :: "SymbolComparison list"

definition mk_SymbolComparisonResult :: "SymbolComparisonResult \<Rightarrow> exn + SymbolComparisonResult" where
  "mk_SymbolComparisonResult r =
     rbind (checks (pair_header_checks r @ [(100 < length (sq_comparisons r), ValidationError ''comparisons'')])) (\<lambda>_. Inr r)"

record CrossRevisionObservables = pair_header +
  ob_present_on_both :: "SymbolComparison list"
  ob_new_on_head :: "IndexedSymbol list"
  ob_removed_from_head :: "IndexedSymbol list"

definition mk_CrossRevisionObservables :: "CrossRevisionObservables \<Rightarrow> exn + CrossRevisionObservables" where
  "mk_CrossRevisionObservables r =
     rbind (checks (pair_header_checks r @
       [(100 < length (ob_present_on_both r), ValidationError ''present_on_both''),
        (100 < length (ob_new_on_head r), ValidationError ''new_on_head''),
        (100 < length (ob_removed_from_head r), ValidationError ''removed_from_head'')])) (\<lambda>_. Inr r)"

section \<open>The investigator\<close>

record investigator =
  ri_base :: RepositoryIndex
  ri_head :: RepositoryIndex
  ri_budget :: InvestigationBudget

definition mk_RepositoryInvestigator :: "RepositoryIndex \<Rightarrow> RepositoryIndex \<Rightarrow> InvestigationBudget \<Rightarrow> exn + investigator" where
  "mk_RepositoryInvestigator base head b =
     rbind (checks
       [(rev_role (ix_revision base) \<noteq> BASE, ValueError ''base repository index must use the BASE role''),
        (rev_role (ix_revision head) \<noteq> HEAD, ValueError ''head repository index must use the HEAD role''),
        (rev_sha (ix_revision base) = rev_sha (ix_revision head),
         ValueError ''BASE and HEAD repository indexes must use distinct revisions'')])
     (\<lambda>_. Inr \<lparr>ri_base = base, ri_head = head, ri_budget = b\<rparr>)"

definition index_of :: "investigator \<Rightarrow> RevisionRole \<Rightarrow> RepositoryIndex" where
  "index_of ri role = (if role = BASE then ri_base ri else ri_head ri)"

definition query_revision :: "string \<Rightarrow> exn + RevisionRole" where
  "query_revision revision =
     (if revision = ''BASE'' then Inr BASE else if revision = ''HEAD'' then Inr HEAD
      else Inl (InvestigationQueryError ''unknown immutable revision role''))"

definition query_maximum :: "investigator \<Rightarrow> int option \<Rightarrow> exn + nat" where
  "query_maximum ri maximum =
     (case maximum of
        None \<Rightarrow> Inr (bg_default_max_results (ri_budget ri))
      | Some n \<Rightarrow>
          (if n \<le> 0 \<or> int (bg_hard_max_results (ri_budget ri)) < n
           then Inl (InvestigationQueryError ''requested result count exceeds its hard limit'') else Inr (nat n)))"

definition query_symbol :: "investigator \<Rightarrow> string \<Rightarrow> exn + string" where
  "query_symbol ri v =
     (if v = [] \<or> bg_max_symbol_query_chars (ri_budget ri) < length v \<or> \<not> is_fullmatch QUALIFIED_IDENTIFIER v
      then Inl (InvestigationQueryError ''symbol query must be a bounded dotted identifier'') else Inr v)"

definition optional :: "('a \<Rightarrow> 'e + 'b) \<Rightarrow> 'a option \<Rightarrow> 'e + 'b option" where
  "optional f v = (case v of None \<Rightarrow> Inr None | Some a \<Rightarrow> rbind (f a) (\<lambda>b. Inr (Some b)))"

definition query_path_text :: "string \<Rightarrow> exn + string" where
  "query_path_text v =
     (case validate_repository_source_path v of
        Inl e \<Rightarrow> Inl (InvestigationQueryError (error_message e)) | Inr path \<Rightarrow> Inr path)"

definition holds_path :: "RepositoryIndex \<Rightarrow> string \<Rightarrow> bool" where
  "holds_path ix path = (index_has_path ix path = Inr True)"

definition required_path :: "RepositoryIndex \<Rightarrow> string \<Rightarrow> exn + string" where
  "required_path ix v =
     rbind (query_path_text v) (\<lambda>path.
     if \<not> holds_path ix path then Inl (InvestigationQueryError ''path is absent from the bounded immutable index'')
     else Inr path)"

definition pair_path :: "investigator \<Rightarrow> string \<Rightarrow> exn + string" where
  "pair_path ri v =
     rbind (query_path_text v) (\<lambda>path.
     if \<not> holds_path (ri_base ri) path \<and> \<not> holds_path (ri_head ri) path
     then Inl (InvestigationQueryError ''path is absent from both immutable indexes'') else Inr path)"

definition symbol_matches :: "IndexedSymbol \<Rightarrow> string \<Rightarrow> bool" where
  "symbol_matches s query = (query = sy_qualified_name s \<or> query = sy_module s @ ''.'' @ sy_qualified_name s)"

definition wanted :: "string option \<Rightarrow> string option \<Rightarrow> IndexedSymbol \<Rightarrow> bool" where
  "wanted path name s =
     ((case path of None \<Rightarrow> True | Some p \<Rightarrow> sy_path s = p) \<and> (case name of None \<Rightarrow> True | Some q \<Rightarrow> symbol_matches s q))"

definition source_text :: "RepositoryIndex \<Rightarrow> string \<Rightarrow> exn + string" where
  "source_text ix path = rbind (index_source ix path) (\<lambda>s. Inr (case s of None \<Rightarrow> [] | Some source \<Rightarrow> source))"

definition truncate_content :: "investigator \<Rightarrow> string \<Rightarrow> string \<times> bool" where
  "truncate_content ri v =
     (if length v \<le> bg_max_source_chars (ri_budget ri) then (v, False) else (take (bg_max_source_chars (ri_budget ri)) v, True))"

definition symbol_source :: "investigator \<Rightarrow> RepositoryIndex \<Rightarrow> IndexedSymbol \<Rightarrow> exn + string \<times> nat \<times> bool" where
  "symbol_source ri ix s =
     rbind (source_text ix (sy_path s)) (\<lambda>source.
     let end_line = min (sy_end_line s) (sy_start_line s + bg_max_symbol_source_lines (ri_budget ri) - 1) in
     case truncate_content ri (span_source (splitlines source) (sy_start_line s) end_line) of
       (content, chars_truncated) \<Rightarrow> Inr (content, end_line, end_line < sy_end_line s \<or> chars_truncated))"

section \<open>Bounded results\<close>

text \<open>
  The loop of \<open>_result\<close> under the budget of characters: \<open>found\<close> matches were found, \<open>n\<close> are selected with
  \<open>chars\<close> characters of source. The flag is the loop's truncation.
\<close>

fun take_matches :: "nat \<Rightarrow> nat \<Rightarrow> nat \<Rightarrow> nat \<Rightarrow> InvestigationMatch list \<Rightarrow> InvestigationMatch list \<times> bool" where
  "take_matches budget found n chars [] = ([], False)"
| "take_matches budget found n chars (m # ms) =
     (if mt_content m \<noteq> None \<and> budget \<le> chars then ([], True)
      else
        let content = (case mt_content m of None \<Rightarrow> [] | Some c \<Rightarrow> c);
            clipped = (budget - chars < length content);
            item = (if clipped
                    then m\<lparr>mt_content := Some (take (budget - chars) content),
                           mt_provenance := (mt_provenance m)\<lparr>pv_source_truncated := True\<rparr>\<rparr>
                    else m);
            chars' = chars + min (budget - chars) (length content) in
        if budget \<le> chars' then ([item], clipped \<or> Suc n < found)
        else case take_matches budget found (Suc n) chars' ms of
          (items, truncated) \<Rightarrow> (item # items, clipped \<or> truncated))"

definition bounded_result ::
    "investigator \<Rightarrow> InvestigationQueryKind \<Rightarrow> RevisionRole \<Rightarrow> InvestigationMatch list \<Rightarrow> nat \<Rightarrow> exn + InvestigationResult" where
  "bounded_result ri query_kind role ms limit =
     (case take_matches (bg_max_total_source_chars (ri_budget ri)) (length ms) 0 0 (take limit ms) of
        (selected, truncated) \<Rightarrow>
          mk_InvestigationResult
            \<lparr>rr_query_kind = query_kind, rr_revision = role, rr_revision_sha = rev_sha (ix_revision (index_of ri role)),
             rr_index_sha256 = ix_sha256 (index_of ri role), rr_index_stats = ix_stats (index_of ri role),
             rr_matches = selected,
             rr_truncated = (limit < length ms \<or> truncated \<or> list_ex (\<lambda>m. pv_source_truncated (mt_provenance m)) selected)\<rparr>)"

section \<open>inspect\_symbol\<close>

definition symbol_match ::
    "investigator \<Rightarrow> RevisionRole \<Rightarrow> bool \<Rightarrow> IndexedSymbol \<Rightarrow> exn + InvestigationMatch" where
  "symbol_match ri role both s =
     rbind (symbol_source ri (index_of ri role) s) (\<lambda>(content, source_end, source_truncated).
     mk_match
       \<lparr>pv_query_kind = INSPECT_SYMBOL, pv_revision = role, pv_path = sy_path s, pv_start_line = sy_start_line s,
        pv_end_line = source_end, pv_symbol_name = Some (sy_qualified_name s),
        pv_match_type = (if sy_definition_count s = 1 then (if both then EXACT_PATH_AND_SYMBOL else EXACT_SYMBOL)
                         else AGGREGATED_SYMBOL_DEFINITIONS),
        pv_reason = (if sy_definition_count s = 1 then ''exact indexed symbol definition''
                     else ''enclosing source for '' @ str_nat (sy_definition_count s) @ '' same-identity definitions''),
        pv_source_truncated = source_truncated\<rparr> (Some s) None None (Some content))"

definition inspect_symbol ::
    "investigator \<Rightarrow> string \<Rightarrow> string option \<Rightarrow> string option \<Rightarrow> int option \<Rightarrow> exn + InvestigationResult" where
  "inspect_symbol ri revision path qualified_name maximum =
     rbind (query_revision revision) (\<lambda>role.
     rbind (optional (required_path (index_of ri role)) path) (\<lambda>path.
     rbind (optional (query_symbol ri) qualified_name) (\<lambda>name.
     rbind (guard (path \<noteq> None \<or> name \<noteq> None)
       (InvestigationQueryError ''inspect_symbol requires path and/or qualified_name'')) (\<lambda>_.
     rbind (query_maximum ri maximum) (\<lambda>limit.
     rbind (rmap (symbol_match ri role (path \<noteq> None \<and> name \<noteq> None))
       (take (Suc limit) (filter (wanted path name) (ix_symbols (index_of ri role))))) (\<lambda>ms.
     bounded_result ri INSPECT_SYMBOL role ms limit))))))"

section \<open>Comparing the revisions\<close>

type_synonym identity = "string \<times> string"

definition identity_of :: "IndexedSymbol \<Rightarrow> identity" where
  "identity_of s = (sy_path s, sy_qualified_name s)"

text \<open>The dictionary of selected symbols; a later symbol replaces an earlier one of the same identity.\<close>

definition selected_symbols :: "string option \<Rightarrow> string option \<Rightarrow> RepositoryIndex \<Rightarrow> identity \<rightharpoonup> IndexedSymbol" where
  "selected_symbols path name ix = map_of (rev (map (\<lambda>s. (identity_of s, s)) (filter (wanted path name) (ix_symbols ix))))"

definition selected_keys :: "string option \<Rightarrow> string option \<Rightarrow> RepositoryIndex \<Rightarrow> identity list" where
  "selected_keys path name ix = map identity_of (filter (wanted path name) (ix_symbols ix))"

definition symbols_differ :: "IndexedSymbol \<Rightarrow> IndexedSymbol \<Rightarrow> bool" where
  "symbols_differ b h =
     (sy_source_sha256 b \<noteq> sy_source_sha256 h \<or> sy_kind b \<noteq> sy_kind h \<or> sy_definition_kinds b \<noteq> sy_definition_kinds h
      \<or> sy_definition_count b \<noteq> sy_definition_count h)"

definition compare_identity ::
    "(identity \<rightharpoonup> IndexedSymbol) \<Rightarrow> (identity \<rightharpoonup> IndexedSymbol) \<Rightarrow> identity \<Rightarrow> exn + SymbolComparison" where
  "compare_identity base head key =
     mk_SymbolComparison
       \<lparr>sk_path = fst key, sk_qualified_name = snd key,
        sk_presence = (if base key \<noteq> None \<and> head key \<noteq> None then PRESENT_ON_BOTH
                       else if head key \<noteq> None then NEW_ON_HEAD else REMOVED_FROM_HEAD),
        sk_base = base key, sk_head = head key,
        sk_implementation_changed = (case (base key, head key) of (Some b, Some h) \<Rightarrow> Some (symbols_differ b h) | _ \<Rightarrow> None)\<rparr>"

definition comparisons :: "investigator \<Rightarrow> string option \<Rightarrow> string option \<Rightarrow> exn + SymbolComparison list" where
  "comparisons ri path name =
     rmap (compare_identity (selected_symbols path name (ri_base ri)) (selected_symbols path name (ri_head ri)))
       (sort (remdups (selected_keys path name (ri_base ri) @ selected_keys path name (ri_head ri))))"

definition pair_header_of :: "investigator \<Rightarrow> InvestigationQueryKind \<Rightarrow> bool \<Rightarrow> pair_header" where
  "pair_header_of ri query_kind truncated =
     \<lparr>ph2_query_kind = query_kind,
      ph2_base_revision_sha = rev_sha (ix_revision (ri_base ri)), ph2_head_revision_sha = rev_sha (ix_revision (ri_head ri)),
      ph2_base_index_sha256 = ix_sha256 (ri_base ri), ph2_head_index_sha256 = ix_sha256 (ri_head ri),
      ph2_base_index_stats = ix_stats (ri_base ri), ph2_head_index_stats = ix_stats (ri_head ri), ph2_truncated = truncated\<rparr>"

definition compare_symbol ::
    "investigator \<Rightarrow> string option \<Rightarrow> string option \<Rightarrow> int option \<Rightarrow> exn + SymbolComparisonResult" where
  "compare_symbol ri path qualified_name maximum =
     rbind (optional (pair_path ri) path) (\<lambda>path.
     rbind (optional (query_symbol ri) qualified_name) (\<lambda>name.
     rbind (guard (path \<noteq> None \<or> name \<noteq> None)
       (InvestigationQueryError ''compare_symbol requires path and/or qualified_name'')) (\<lambda>_.
     rbind (comparisons ri path name) (\<lambda>cs.
     rbind (query_maximum ri maximum) (\<lambda>limit.
     mk_SymbolComparisonResult
       (pair_header.extend (pair_header_of ri COMPARE_SYMBOL (limit < length cs)) \<lparr>sq_comparisons = take limit cs\<rparr>))))))"

section \<open>What a change reaches\<close>

definition key_of :: "SymbolComparison \<Rightarrow> identity" where
  "key_of c = (sk_path c, sk_qualified_name c)"

definition direct_change :: "SymbolComparison \<Rightarrow> bool" where
  "direct_change c = (sk_presence c = NEW_ON_HEAD \<or> sk_presence c = PRESENT_ON_BOTH \<and> sk_implementation_changed c = Some True)"

definition changed_names :: "SymbolComparison list \<Rightarrow> string list" where
  "changed_names cs = remdups (map (\<lambda>c. leaf_of (sk_qualified_name c)) (filter direct_change cs))"

definition expansions :: "IndexedSymbol \<Rightarrow> string list" where
  "expansions t =
     (sy_module t @ ''.'' @ sy_qualified_name t)
     # (if startswith (sy_path t) ''src/'' \<and> startswith (sy_module t) ''src.''
        then [drop 4 (sy_module t) @ ''.'' @ sy_qualified_name t] else [])"

definition targets_by_expansion :: "SymbolComparison list \<Rightarrow> string \<Rightarrow> identity list" where
  "targets_by_expansion cs expansion =
     map key_of (filter (\<lambda>c. case sk_head c of None \<Rightarrow> False | Some t \<Rightarrow> expansion \<in> set (expansions t)) cs)"

definition targets_by_path_and_name :: "SymbolComparison list \<Rightarrow> string \<Rightarrow> string \<Rightarrow> identity list" where
  "targets_by_path_and_name cs path name =
     map key_of (filter (\<lambda>c. case sk_head c of None \<Rightarrow> False | Some t \<Rightarrow> sy_path t = path \<and> sy_qualified_name t = name) cs)"

text \<open>\<open>_same_file_reference_name\<close>: a bare name, or a member through \<open>self\<close> or \<open>cls\<close>.\<close>

definition same_file_reference_name :: "IndexedSymbol \<Rightarrow> IndexedReference \<Rightarrow> string option" where
  "same_file_reference_name s r =
     (if \<not> has_dot (ir_expression r) then Some (ir_name r)
      else if parent_of (ir_expression r) \<notin> {''self'', ''cls''} then None
      else Some ((if sy_kind s = CLASS then sy_qualified_name s else parent_of (sy_qualified_name s)) @ ''.'' @ ir_name r))"

definition reference_targets :: "SymbolComparison list \<Rightarrow> IndexedSymbol \<Rightarrow> IndexedReference \<Rightarrow> identity list" where
  "reference_targets cs s r =
     (case ir_module_import_alias_expansion r of
        Some expansion \<Rightarrow> targets_by_expansion cs expansion
      | None \<Rightarrow>
          (case same_file_reference_name s r of
             None \<Rightarrow> []
           | Some name \<Rightarrow> targets_by_path_and_name cs (sy_path s) name))"

definition inside :: "IndexedSymbol \<Rightarrow> IndexedReference \<Rightarrow> bool" where
  "inside s r = (ir_path r = sy_path s \<and> sy_start_line s \<le> ir_start_line r \<and> ir_start_line r \<le> sy_end_line s)"

definition dependency_graph :: "investigator \<Rightarrow> SymbolComparison list \<Rightarrow> (identity \<times> identity list) list" where
  "dependency_graph ri cs =
     concat (map (\<lambda>c. case sk_head c of
         Some s \<Rightarrow>
           (if sk_presence c = PRESENT_ON_BOTH
            then [(key_of c, concat (map (reference_targets cs s) (filter (inside s) (ix_references (ri_head ri)))))] else [])
       | None \<Rightarrow> []) cs)"

definition reached_by :: "(identity \<times> identity list) list \<Rightarrow> identity set \<Rightarrow> identity set" where
  "reached_by graph relevant = set (map fst (filter (\<lambda>(_, dependencies). \<exists>d \<in> set dependencies. d \<in> relevant) graph))"

fun relevance_rounds :: "nat \<Rightarrow> (identity \<times> identity list) list \<Rightarrow> identity set \<Rightarrow> identity set" where
  "relevance_rounds 0 graph relevant = relevant"
| "relevance_rounds (Suc n) graph relevant =
     (let additions = reached_by graph relevant - relevant in
      if additions = {} then relevant else relevance_rounds n graph (relevant \<union> additions))"

definition relevant_keys :: "investigator \<Rightarrow> SymbolComparison list \<Rightarrow> identity set" where
  "relevant_keys ri cs =
     relevance_rounds (bg_max_relevance_hops (ri_budget ri)) (dependency_graph ri cs) (set (map key_of (filter direct_change cs)))"

definition changed_symbol_names :: "investigator \<Rightarrow> exn + string list" where
  "changed_symbol_names ri = rbind (comparisons ri None None) (\<lambda>cs. Inr (changed_names cs))"

definition identity_text :: "identity \<Rightarrow> string" where
  "identity_text k = fst k @ ''::'' @ snd k"

definition relevance_identities :: "investigator \<Rightarrow> exn + string set" where
  "relevance_identities ri = rbind (comparisons ri None None) (\<lambda>cs. Inr (identity_text ` relevant_keys ri cs))"

section \<open>compare\_observables\<close>

definition priority_key :: "SymbolComparison \<Rightarrow> nat \<times> nat \<times> string \<times> string" where
  "priority_key c =
     (case (case sk_head c of Some s \<Rightarrow> Some s | None \<Rightarrow> sk_base c) of
        None \<Rightarrow> (2, 1, sk_path c, sk_qualified_name c)
      | Some s \<Rightarrow> (if sy_public s then 0 else 1, if sy_exported s = Some True then 0 else 1, sk_path c, sk_qualified_name c))"

definition interleave :: "'a list list \<Rightarrow> 'a list" where
  "interleave groups =
     concat (map (\<lambda>offset. concat (map (\<lambda>g. if offset < length g then [g ! offset] else []) groups))
       [0..<fold max (map length groups) 0])"

definition prioritized :: "investigator \<Rightarrow> SymbolComparison list \<Rightarrow> SymbolComparison list" where
  "prioritized ri cs =
     (let relevant = relevant_keys ri cs;
          shared = filter (\<lambda>c. sk_presence c = PRESENT_ON_BOTH) cs;
          changed = filter (\<lambda>c. sk_implementation_changed c = Some True) shared;
          unchanged = filter (\<lambda>c. sk_implementation_changed c \<noteq> Some True) shared;
          ordered = sort_key priority_key in
      interleave
        [ordered changed,
         ordered (filter (\<lambda>c. sk_presence c = NEW_ON_HEAD) cs),
         ordered (filter (\<lambda>c. sk_presence c = REMOVED_FROM_HEAD) cs),
         ordered (filter (\<lambda>c. key_of c \<in> relevant) unchanged)]
      @ ordered (filter (\<lambda>c. key_of c \<notin> relevant) unchanged))"

definition compare_observables :: "investigator \<Rightarrow> int option \<Rightarrow> exn + CrossRevisionObservables" where
  "compare_observables ri maximum =
     rbind (query_maximum ri maximum) (\<lambda>limit.
     rbind (comparisons ri None None) (\<lambda>cs.
     let selected = take limit (prioritized ri cs) in
     mk_CrossRevisionObservables
       (pair_header.extend (pair_header_of ri COMPARE_OBSERVABLES (limit < length cs))
         \<lparr>ob_present_on_both = filter (\<lambda>c. sk_presence c = PRESENT_ON_BOTH) selected,
          ob_new_on_head = somes (map sk_head (filter (\<lambda>c. sk_presence c = NEW_ON_HEAD) selected)),
          ob_removed_from_head = somes (map sk_base (filter (\<lambda>c. sk_presence c = REMOVED_FROM_HEAD) selected))\<rparr>)))"

section \<open>References and callers\<close>

definition names_target :: "string \<Rightarrow> string \<Rightarrow> bool" where
  "names_target target query = (target = query \<or> endswith target (''.'' @ query))"

definition expands_to :: "IndexedReference \<Rightarrow> string \<Rightarrow> bool" where
  "expands_to r query = (case ir_module_import_alias_expansion r of None \<Rightarrow> False | Some e \<Rightarrow> names_target e query)"

definition call_match_type :: "IndexedReference \<Rightarrow> InvestigationMatchType" where
  "call_match_type r = (if has_dot (ir_expression r) then POSSIBLE_ATTRIBUTE_CALL else POSSIBLE_NAME_CALL)"

definition dotted_or :: "InvestigationMatchType \<Rightarrow> IndexedReference \<Rightarrow> InvestigationMatchType" where
  "dotted_or t r = (if has_dot (ir_expression r) then t else NAME_SYNTAX_REFERENCE)"

text \<open>How exactly a reference matches: None when it does not.\<close>

definition rank_reference :: "bool \<Rightarrow> string \<Rightarrow> IndexedReference \<Rightarrow> (nat \<times> InvestigationMatchType \<times> string) option" where
  "rank_reference callers_only query r =
     (if callers_only \<and> ir_kind r \<noteq> CALL then None
      else if expands_to r query then
        Some (0, if callers_only then STATIC_IMPORT_ALIAS_CALL else STATIC_IMPORT_ALIAS_REFERENCE,
              ''module-import alias syntax expands to '' @ query @ ''; runtime rebinding is not proven'')
      else if ir_expression r = query then
        Some (1, if callers_only then call_match_type r else dotted_or QUALIFIED_SYNTAX_REFERENCE r,
              ''exact syntax matches '' @ query @ ''; lexical and runtime identity are unresolved'')
      else if ir_name r = leaf_of query then
        Some (2, if callers_only then call_match_type r else dotted_or ATTRIBUTE_SYNTAX_REFERENCE r,
              if callers_only then ''syntactic call shares terminal name '' @ leaf_of query @ ''; receiver/binding is unresolved''
              else ''syntactic reference shares terminal name '' @ leaf_of query @ ''; binding is unresolved'')
      else None)"

type_synonym location_key = "string \<times> nat \<times> nat \<times> nat \<times> string \<times> string option"

definition location_key :: "IndexedReference \<Rightarrow> location_key" where
  "location_key r =
     (ir_path r, ir_start_line r, ir_end_line r, ir_column r, ir_expression r, ir_module_import_alias_expansion r)"

fun reference_matches ::
    "RevisionRole \<Rightarrow> string \<Rightarrow> bool \<Rightarrow> location_key list \<Rightarrow> IndexedReference list \<Rightarrow> exn + (nat \<times> InvestigationMatch) list" where
  "reference_matches role query callers_only seen [] = Inr []"
| "reference_matches role query callers_only seen (r # rs) =
     (case rank_reference callers_only query r of
        None \<Rightarrow> reference_matches role query callers_only seen rs
      | Some (rank, match_type, reason) \<Rightarrow>
          (if location_key r \<in> set seen then reference_matches role query callers_only seen rs
           else rbind (mk_match
             \<lparr>pv_query_kind = (if callers_only then FIND_CALLERS else FIND_REFERENCES), pv_revision = role, pv_path = ir_path r,
              pv_start_line = ir_start_line r, pv_end_line = ir_end_line r, pv_symbol_name = Some (ir_scope r),
              pv_match_type = match_type, pv_reason = reason, pv_source_truncated = False\<rparr> None (Some r) None None) (\<lambda>m.
             rbind (reference_matches role query callers_only (location_key r # seen) rs) (\<lambda>ms. Inr ((rank, m) # ms)))))"

definition binds_target :: "string \<Rightarrow> IndexedImport \<Rightarrow> bool" where
  "binds_target query i =
     (names_target (im_imported_target i) query \<or> \<not> has_dot query \<and> im_alias i = leaf_of query)"

definition import_match :: "RevisionRole \<Rightarrow> string \<Rightarrow> bool \<Rightarrow> IndexedImport \<Rightarrow> exn + nat \<times> InvestigationMatch" where
  "import_match role query callers_only i =
     rbind (mk_match
       \<lparr>pv_query_kind = (if callers_only then FIND_CALLERS else FIND_REFERENCES), pv_revision = role, pv_path = im_path i,
        pv_start_line = im_start_line i, pv_end_line = im_end_line i, pv_symbol_name = Some (im_scope i),
        pv_match_type = SYNTACTIC_IMPORT_BINDING, pv_reason = ''syntactic import binding targets '' @ query,
        pv_source_truncated = False\<rparr> None None (Some i) None) (\<lambda>m. Inr (3, m))"

definition ranked_references ::
    "RepositoryIndex \<Rightarrow> RevisionRole \<Rightarrow> string \<Rightarrow> bool \<Rightarrow> exn + (nat \<times> InvestigationMatch) list" where
  "ranked_references ix role query callers_only =
     rbind (reference_matches role query callers_only [] (ix_references ix)) (\<lambda>references.
     rbind (if callers_only then Inr [] else rmap (import_match role query callers_only) (filter (binds_target query) (ix_imports ix))) (\<lambda>imports.
     Inr (sort_key (\<lambda>(rank, m). (rank, pv_path (mt_provenance m), pv_start_line (mt_provenance m),
            str_match_type (pv_match_type (mt_provenance m)))) (references @ imports))))"

definition find_ranked ::
    "investigator \<Rightarrow> bool \<Rightarrow> string \<Rightarrow> string \<Rightarrow> int option \<Rightarrow> exn + InvestigationResult" where
  "find_ranked ri callers_only revision symbol maximum =
     rbind (query_revision revision) (\<lambda>role.
     rbind (query_symbol ri symbol) (\<lambda>query.
     rbind (query_maximum ri maximum) (\<lambda>limit.
     rbind (ranked_references (index_of ri role) role query callers_only) (\<lambda>ranked.
     bounded_result ri (if callers_only then FIND_CALLERS else FIND_REFERENCES) role (map snd ranked) limit))))"

definition find_references :: "investigator \<Rightarrow> string \<Rightarrow> string \<Rightarrow> int option \<Rightarrow> exn + InvestigationResult" where
  "find_references ri = find_ranked ri False"

definition find_callers :: "investigator \<Rightarrow> string \<Rightarrow> string \<Rightarrow> int option \<Rightarrow> exn + InvestigationResult" where
  "find_callers ri = find_ranked ri True"

section \<open>find\_related\_tests\<close>

lemma leaf_of_short: "has_dot name \<Longrightarrow> length (parent_of name) < length name"
  by (cases name) (auto simp: parent_of_def has_dot_def)

text \<open>The innermost test around a scope: the loop over the enclosing scopes.\<close>

function enclosing_test :: "identity set \<Rightarrow> string \<Rightarrow> string \<Rightarrow> string option" where
  "enclosing_test test_keys path scope =
     (if scope = [] \<or> scope = ''<module>'' then None
      else if (path, scope) \<in> test_keys then Some scope
      else if has_dot scope then enclosing_test test_keys path (parent_of scope) else None)"
  by pat_completeness auto

termination
  by (relation "measure (\<lambda>(test_keys, path, scope). length scope)") (auto simp: leaf_of_short)

declare enclosing_test.simps [simp del]

text \<open>\<open>re.search\<close> for a literal with no identifier character of ASCII on either side.\<close>

definition ascii_word :: "char \<Rightarrow> bool" where
  "ascii_word c = (in_range (CHR ''A'') (CHR ''Z'') c \<or> in_range (CHR ''a'') (CHR ''z'') c \<or> is_digit c \<or> c = CHR ''_'')"

fun occurs_from :: "string \<Rightarrow> bool \<Rightarrow> string \<Rightarrow> bool" where
  "occurs_from term' after_word s =
     ((\<not> after_word \<and> startswith s term' \<and> \<not> (case drop (length term') s of c # _ \<Rightarrow> ascii_word c | [] \<Rightarrow> False))
      \<or> (case s of [] \<Rightarrow> False | c # s' \<Rightarrow> occurs_from term' (ascii_word c) s'))"

declare occurs_from.simps [simp del]

definition occurs_as_word :: "string \<Rightarrow> string \<Rightarrow> bool" where
  "occurs_as_word term' s = occurs_from term' False s"

record test_query =
  tq_query :: "string option"
  tq_path :: "string option"
  tq_module :: "string option"

definition tq_leaf :: "test_query \<Rightarrow> string option" where
  "tq_leaf q = map_option leaf_of (tq_query q)"

definition tq_module_leaf :: "test_query \<Rightarrow> string option" where
  "tq_module_leaf q = map_option leaf_of (tq_module q)"

definition imports_module :: "test_query \<Rightarrow> IndexedImport \<Rightarrow> bool" where
  "imports_module q i =
     (endswith (dropWhile (\<lambda>c. c = CHR ''.'') (im_module i)) (case tq_module q of None \<Rightarrow> [] | Some m \<Rightarrow> m)
      \<or> Some (leaf_of (im_module i)) = tq_module_leaf q)"

text \<open>How a test matches: by reference, import, module or text, in this order.\<close>

definition rank_test ::
    "test_query \<Rightarrow> IndexedReference list \<Rightarrow> IndexedImport list \<Rightarrow> string \<Rightarrow> (nat \<times> InvestigationMatchType \<times> string) option" where
  "rank_test q references imports test_source =
     (let query = tq_query q; leaf = tq_leaf q; name = (case query of None \<Rightarrow> [] | Some n \<Rightarrow> n) in
      if query \<noteq> None \<and> find (\<lambda>r. expands_to r name) references \<noteq> None then
        Some (0, STATIC_IMPORT_ALIAS_REFERENCE,
              ''test has module-import alias syntax expanding to '' @ name @ ''; runtime rebinding is not proven'')
      else case (if query = None then None else find (\<lambda>r. ir_expression r = name) references) of
        Some r \<Rightarrow> Some (1, dotted_or QUALIFIED_SYNTAX_REFERENCE r,
                      ''test contains exact syntax '' @ name @ ''; runtime identity is unresolved'')
      | None \<Rightarrow>
      (case (if query = None then None else find (\<lambda>r. Some (ir_name r) = leaf) references) of
        Some r \<Rightarrow> Some (2, dotted_or ATTRIBUTE_SYNTAX_REFERENCE r,
                      ''test contains terminal identifier '' @ leaf_of name @ ''; binding identity is unresolved'')
      | None \<Rightarrow>
      (case (if query = None then None else find (binds_target name) imports) of
        Some i \<Rightarrow> Some (3, SYNTACTIC_IMPORT_BINDING,
                      if im_scope i \<noteq> ''<module>'' then ''test scope contains a syntactic import binding for '' @ name
                      else ''test file contains a module import binding for '' @ name)
      | None \<Rightarrow>
      (if (case tq_module_leaf q of None \<Rightarrow> False | Some l \<Rightarrow> l \<noteq> []) \<and> list_ex (imports_module q) imports then
         Some (4, MODULE_SUFFIX_REFERENCE,
               ''test import suffix matches module for '' @ (case tq_path q of None \<Rightarrow> [] | Some p \<Rightarrow> p)
               @ ''; package identity is unresolved'')
       else
         let term' = or_str (case leaf of None \<Rightarrow> [] | Some l \<Rightarrow> l) (case tq_module_leaf q of None \<Rightarrow> [] | Some l \<Rightarrow> l) in
         if term' \<noteq> [] \<and> occurs_as_word term' test_source
         then Some (5, TEXTUAL_FALLBACK, ''bounded textual fallback matched literal identifier '' @ term') else None))))"

definition test_keys :: "RepositoryIndex \<Rightarrow> identity set" where
  "test_keys ix = set (map identity_of (ix_test_functions ix))"

definition test_references :: "RepositoryIndex \<Rightarrow> IndexedSymbol \<Rightarrow> IndexedReference list" where
  "test_references ix test =
     filter (\<lambda>r. ir_path r = sy_path test \<and> enclosing_test (test_keys ix) (ir_path r) (ir_scope r) = Some (sy_qualified_name test))
       (ix_references ix)"

definition test_imports :: "RepositoryIndex \<Rightarrow> IndexedSymbol \<Rightarrow> IndexedImport list" where
  "test_imports ix test =
     filter (\<lambda>i. im_path i = sy_path test \<and> enclosing_test (test_keys ix) (im_path i) (im_scope i) = Some (sy_qualified_name test))
       (ix_imports ix)
     @ filter (\<lambda>i. im_path i = sy_path test \<and> im_scope i = ''<module>'') (ix_imports ix)"

definition test_match ::
    "RepositoryIndex \<Rightarrow> RevisionRole \<Rightarrow> test_query \<Rightarrow> IndexedSymbol \<Rightarrow> exn + (nat \<times> InvestigationMatch) list" where
  "test_match ix role q test =
     rbind (source_text ix (sy_path test)) (\<lambda>source.
     case rank_test q (test_references ix test) (test_imports ix test)
            (span_source (splitlines source) (sy_start_line test) (sy_end_line test)) of
       None \<Rightarrow> Inr []
     | Some (rank, match_type, reason) \<Rightarrow>
         rbind (mk_match
           \<lparr>pv_query_kind = FIND_RELATED_TESTS, pv_revision = role, pv_path = sy_path test,
            pv_start_line = sy_start_line test, pv_end_line = sy_end_line test, pv_symbol_name = Some (sy_qualified_name test),
            pv_match_type = match_type, pv_reason = reason, pv_source_truncated = False\<rparr> (Some test) None None None)
         (\<lambda>m. Inr [(rank, m)]))"

definition find_related_tests ::
    "investigator \<Rightarrow> string \<Rightarrow> string option \<Rightarrow> string option \<Rightarrow> int option \<Rightarrow> exn + InvestigationResult" where
  "find_related_tests ri revision symbol path maximum =
     rbind (query_revision revision) (\<lambda>role.
     let ix = index_of ri role in
     rbind (optional (query_symbol ri) symbol) (\<lambda>query.
     rbind (optional (required_path ix) path) (\<lambda>path.
     rbind (guard (query \<noteq> None \<or> path \<noteq> None)
       (InvestigationQueryError ''find_related_tests requires symbol and/or path'')) (\<lambda>_.
     rbind (query_maximum ri maximum) (\<lambda>limit.
     let q = \<lparr>tq_query = query, tq_path = path,
              tq_module = (case path of None \<Rightarrow> None | Some p \<Rightarrow> map_option pf_module (files_by_path (ix_files ix) p))\<rparr> in
     rbind (rmap (test_match ix role q) (ix_test_functions ix)) (\<lambda>ranked.
     bounded_result ri FIND_RELATED_TESTS role
       (map snd (sort_key (\<lambda>(rank, m). (rank, pv_path (mt_provenance m), pv_start_line (mt_provenance m),
           (case pv_symbol_name (mt_provenance m) of None \<Rightarrow> [] | Some n \<Rightarrow> n))) (concat ranked))) limit))))))"

section \<open>inspect\_source\_window\<close>

definition window_match ::
    "investigator \<Rightarrow> RevisionRole \<Rightarrow> string \<Rightarrow> IndexedPythonFile \<Rightarrow> string \<Rightarrow> nat \<Rightarrow> nat \<Rightarrow> exn + InvestigationMatch" where
  "window_match ri role path metadata source start_line line_count =
     (let requested_end = start_line + line_count - 1;
          end_line = min (pf_line_count metadata) requested_end in
      case truncate_content ri (span_source (splitlines source) start_line end_line) of
        (content, chars_truncated) \<Rightarrow>
          mk_match
            \<lparr>pv_query_kind = INSPECT_SOURCE_WINDOW, pv_revision = role, pv_path = path, pv_start_line = start_line,
             pv_end_line = end_line, pv_symbol_name = None, pv_match_type = EXACT_SOURCE_WINDOW,
             pv_reason = ''exact bounded window from pre-indexed immutable source'',
             pv_source_truncated = (pf_line_count metadata < requested_end \<or> chars_truncated)\<rparr>
            None None None (Some content))"

definition inspect_source_window ::
    "investigator \<Rightarrow> string \<Rightarrow> string \<Rightarrow> int \<Rightarrow> int \<Rightarrow> exn + InvestigationResult" where
  "inspect_source_window ri revision path start_line line_count =
     rbind (query_revision revision) (\<lambda>role.
     let ix = index_of ri role in
     rbind (required_path ix path) (\<lambda>path.
     rbind (guard (0 < start_line) (InvestigationQueryError ''source window start_line must be a positive integer'')) (\<lambda>_.
     rbind (guard (0 < line_count \<and> line_count \<le> int (bg_max_source_window_lines (ri_budget ri)))
       (InvestigationQueryError ''source window line_count exceeds its hard limit'')) (\<lambda>_.
     rbind (index_file ix path) (\<lambda>metadata.
     rbind (index_source ix path) (\<lambda>source.
     case (metadata, source) of
       (Some metadata, Some source) \<Rightarrow>
         rbind (guard (pf_line_count metadata \<noteq> 0)
           (InvestigationQueryError ''source window path has no indexed text lines'')) (\<lambda>_.
         rbind (guard (start_line \<le> int (pf_line_count metadata))
           (InvestigationQueryError ''source window starts beyond the indexed file'')) (\<lambda>_.
         rbind (window_match ri role path metadata source (nat start_line) (nat line_count)) (\<lambda>m.
         mk_InvestigationResult
           \<lparr>rr_query_kind = INSPECT_SOURCE_WINDOW, rr_revision = role, rr_revision_sha = rev_sha (ix_revision ix),
            rr_index_sha256 = ix_sha256 ix, rr_index_stats = ix_stats ix, rr_matches = [m],
            rr_truncated = pv_source_truncated (mt_provenance m)\<rparr>)))
     | _ \<Rightarrow> Inl (InvestigationQueryError ''source window path has no indexed text lines'')))))))"

end
