(* ===== verification/InvestigationToolbox.thy ===== *)
theory InvestigationToolbox
  imports InvestigationTools
begin

text \<open>
  \<open>src/patchproof/investigation_toolbox.py\<close>: the four queries a model may make, their validated
  arguments, and the budgets of calls and of source characters a toolbox enforces. A call never raises for
  bad input: it is recorded and refused. A JSON argument is the value the code distinguishes.
\<close>

section \<open>Budgets and records\<close>

datatype InvestigationToolName = inspect_symbol_tool | find_references_tool | find_related_tests_tool | inspect_source_window_tool

fun str_tool :: "InvestigationToolName \<Rightarrow> string" where
  "str_tool inspect_symbol_tool = ''inspect_symbol''"
| "str_tool find_references_tool = ''find_references''"
| "str_tool find_related_tests_tool = ''find_related_tests''"
| "str_tool inspect_source_window_tool = ''inspect_source_window''"

definition all_tools :: "InvestigationToolName list" where
  "all_tools = [inspect_symbol_tool, find_references_tool, find_related_tests_tool, inspect_source_window_tool]"

definition tool_named :: "string \<Rightarrow> InvestigationToolName option" where
  "tool_named tool = find (\<lambda>t. str_tool t = tool) all_tools"

datatype ToolCallStatus = OK | INVALID_ARGUMENTS | BUDGET_EXHAUSTED | UNAVAILABLE

record ToolBudget =
  tb_max_turns :: nat
  tb_max_total_calls :: nat
  tb_max_calls_per_tool :: nat
  tb_max_results_per_call :: nat
  tb_max_source_window_lines :: nat
  tb_max_total_source_chars :: nat

definition default_tool_budget :: ToolBudget where
  "default_tool_budget =
     \<lparr>tb_max_turns = 4, tb_max_total_calls = 8, tb_max_calls_per_tool = 3, tb_max_results_per_call = 10,
      tb_max_source_window_lines = 80, tb_max_total_source_chars = 24000\<rparr>"

definition mk_ToolBudget :: "ToolBudget \<Rightarrow> exn + ToolBudget" where
  "mk_ToolBudget b =
     rbind (checks
       [(0 \<in> {tb_max_turns b, tb_max_total_calls b, tb_max_calls_per_tool b, tb_max_results_per_call b,
              tb_max_source_window_lines b, tb_max_total_source_chars b}, ValueError ''tool budget must be positive''),
        (8 < tb_max_turns b \<or> 16 < tb_max_total_calls b \<or> 8 < tb_max_calls_per_tool b,
         ValueError ''tool budget exceeds its safety ceiling''),
        (tb_max_total_calls b < tb_max_calls_per_tool b, ValueError ''per-tool budget cannot exceed the total call budget''),
        (64000 < tb_max_total_source_chars b, ValueError ''aggregate source budget exceeds its safety ceiling'')]) (\<lambda>_. Inr b)"

text \<open>A JSON value as the argument checks see it.\<close>

datatype tool_argument = AText string | AInt int | ABool bool | ANull | AOther

type_synonym tool_arguments = "(string \<times> tool_argument) list"

record ToolCallRecord =
  tc_sequence :: nat
  tc_turn :: nat
  tc_tool :: InvestigationToolName
  tc_arguments :: tool_arguments
  tc_status :: ToolCallStatus
  tc_match_count :: nat
  tc_truncated :: bool
  tc_source_chars :: nat
  tc_detail :: string

definition mk_ToolCallRecord :: "ToolCallRecord \<Rightarrow> exn + ToolCallRecord" where
  "mk_ToolCallRecord r =
     rbind (checks
       [(tc_sequence r = 0, ValidationError ''sequence''), (tc_turn r = 0, ValidationError ''turn''),
        (\<not> len_between 1 500 (tc_detail r), ValidationError ''detail'')]) (\<lambda>_. Inr r)"

record toolbox =
  tx_investigator :: investigator
  tx_budget :: ToolBudget
  tx_calls :: "ToolCallRecord list"
  tx_per_tool :: "InvestigationToolName \<Rightarrow> nat"
  tx_source_chars :: nat
  tx_turn :: nat

definition new_toolbox :: "investigator \<Rightarrow> ToolBudget \<Rightarrow> toolbox" where
  "new_toolbox ri b =
     \<lparr>tx_investigator = ri, tx_budget = b, tx_calls = [], tx_per_tool = (\<lambda>_. 0), tx_source_chars = 0, tx_turn = 1\<rparr>"

definition begin_turn :: "toolbox \<Rightarrow> bool \<times> toolbox" where
  "begin_turn tx =
     (if tb_max_turns (tx_budget tx) \<le> tx_turn tx then (False, tx) else (True, tx\<lparr>tx_turn := tx_turn tx + 1\<rparr>))"

definition exhausted :: "toolbox \<Rightarrow> bool" where
  "exhausted tx = (tb_max_total_calls (tx_budget tx) \<le> length (tx_calls tx))"

definition remaining_budget_note :: "toolbox \<Rightarrow> string" where
  "remaining_budget_note tx =
     ''turn '' @ str_nat (tx_turn tx) @ ''/'' @ str_nat (tb_max_turns (tx_budget tx)) @ ''; tool calls used ''
     @ str_nat (length (tx_calls tx)) @ ''/'' @ str_nat (tb_max_total_calls (tx_budget tx)) @ ''; per-tool limit ''
     @ str_nat (tb_max_calls_per_tool (tx_budget tx))"

section \<open>Argument validation\<close>

definition get_argument :: "tool_arguments \<Rightarrow> string \<Rightarrow> tool_argument option" where
  "get_argument = map_of"

definition argument_revision :: "tool_arguments \<Rightarrow> exn + string" where
  "argument_revision arguments =
     (case get_argument arguments ''revision'' of
        None \<Rightarrow> Inr ''HEAD''
      | Some (AText v) \<Rightarrow>
          (let normalized = upper (strip v) in
           if normalized \<notin> {''BASE'', ''HEAD''} then Inl (ValueError ''revision must be exactly BASE or HEAD'') else Inr normalized)
      | Some _ \<Rightarrow> Inl (ValueError ''revision must be the text BASE or HEAD''))"

definition required_text :: "tool_arguments \<Rightarrow> string \<Rightarrow> exn + string" where
  "required_text arguments key =
     (case get_argument arguments key of
        Some (AText v) \<Rightarrow>
          (if strip v = [] then Inl (ValueError (key @ '' is required and must be non-empty text'')) else Inr (strip v))
      | _ \<Rightarrow> Inl (ValueError (key @ '' is required and must be non-empty text'')))"

definition optional_text :: "tool_arguments \<Rightarrow> string \<Rightarrow> exn + string option" where
  "optional_text arguments key =
     (case get_argument arguments key of
        None \<Rightarrow> Inr None
      | Some ANull \<Rightarrow> Inr None
      | Some (AText v) \<Rightarrow> Inr (if strip v = [] then None else Some (strip v))
      | Some _ \<Rightarrow> Inl (ValueError (key @ '' must be text when supplied'')))"

definition integer_argument :: "tool_arguments \<Rightarrow> string \<Rightarrow> int \<Rightarrow> exn + int" where
  "integer_argument arguments key fallback =
     (case (case get_argument arguments key of None \<Rightarrow> AInt fallback | Some v \<Rightarrow> v) of
        AInt n \<Rightarrow> if n < 1 then Inl (ValueError (key @ '' must be positive'')) else Inr n
      | _ \<Rightarrow> Inl (ValueError (key @ '' must be an integer'')))"

definition maximum_argument :: "ToolBudget \<Rightarrow> tool_arguments \<Rightarrow> exn + int" where
  "maximum_argument b arguments =
     (case (case get_argument arguments ''maximum'' of None \<Rightarrow> AInt (int (tb_max_results_per_call b)) | Some v \<Rightarrow> v) of
        AInt n \<Rightarrow> if n < 1 then Inl (ValueError ''maximum must be a positive integer'')
                  else Inr (min n (int (tb_max_results_per_call b)))
      | _ \<Rightarrow> Inl (ValueError ''maximum must be a positive integer''))"

section \<open>The four capabilities\<close>

definition run_tool :: "toolbox \<Rightarrow> InvestigationToolName \<Rightarrow> tool_arguments \<Rightarrow> exn + InvestigationResult" where
  "run_tool tx name arguments =
     (let ri = tx_investigator tx; b = tx_budget tx in
      case name of
        inspect_symbol_tool \<Rightarrow>
          rbind (argument_revision arguments) (\<lambda>revision.
          rbind (optional_text arguments ''path'') (\<lambda>path.
          rbind (optional_text arguments ''qualified_name'') (\<lambda>qualified_name.
          rbind (maximum_argument b arguments) (\<lambda>maximum.
          inspect_symbol ri revision path qualified_name (Some maximum)))))
      | find_references_tool \<Rightarrow>
          rbind (argument_revision arguments) (\<lambda>revision.
          rbind (required_text arguments ''symbol'') (\<lambda>symbol.
          rbind (maximum_argument b arguments) (\<lambda>maximum.
          find_references ri revision symbol (Some maximum))))
      | find_related_tests_tool \<Rightarrow>
          rbind (argument_revision arguments) (\<lambda>revision.
          rbind (optional_text arguments ''symbol'') (\<lambda>symbol.
          rbind (optional_text arguments ''path'') (\<lambda>path.
          rbind (maximum_argument b arguments) (\<lambda>maximum.
          find_related_tests ri revision symbol path (Some maximum)))))
      | inspect_source_window_tool \<Rightarrow>
          rbind (integer_argument arguments ''line_count'' 40) (\<lambda>line_count.
          rbind (argument_revision arguments) (\<lambda>revision.
          rbind (required_text arguments ''path'') (\<lambda>path.
          rbind (integer_argument arguments ''start_line'' 1) (\<lambda>start_line.
          inspect_source_window ri revision path start_line (min line_count (int (tb_max_source_window_lines b))))))))"

section \<open>Payloads\<close>

text \<open>One match as the model sees it: where, why, the symbol or reference, and the source it may still see.\<close>

datatype shown_content = NoContent | ContentOmitted | Content string bool

record match_entry =
  me_path :: string
  me_start_line :: nat
  me_end_line :: nat
  me_symbol_name :: "string option"
  me_match_type :: InvestigationMatchType
  me_reason :: string
  me_source_truncated :: bool
  me_symbol :: "(string \<times> IndexedSymbol) option"
  me_reference :: "IndexedReference option"
  me_content :: shown_content

record accepted_payload =
  pl2_revision :: RevisionRole
  pl2_query_kind :: InvestigationQueryKind
  pl2_match_count :: nat
  pl2_results_truncated :: bool
  pl2_index_partial :: bool
  pl2_matches :: "match_entry list"
  pl2_budget :: string

datatype payload = Accepted accepted_payload | Refused ToolCallStatus string string

definition entry_of :: "InvestigationMatch \<Rightarrow> shown_content \<Rightarrow> match_entry" where
  "entry_of m content =
     (let p = mt_provenance m in
      \<lparr>me_path = pv_path p, me_start_line = pv_start_line p, me_end_line = pv_end_line p, me_symbol_name = pv_symbol_name p,
       me_match_type = pv_match_type p, me_reason = pv_reason p, me_source_truncated = pv_source_truncated p,
       me_symbol = map_option (\<lambda>s. (identity_text (identity_of s), s)) (mt_symbol m), me_reference = mt_reference m,
       me_content = content\<rparr>)"

text \<open>The loop of \<open>_serialize\<close>: the entries, the characters used and whether any were cut.\<close>

fun serialize_matches :: "nat \<Rightarrow> nat \<Rightarrow> InvestigationMatch list \<Rightarrow> match_entry list \<times> nat \<times> bool" where
  "serialize_matches remaining used [] = ([], used, False)"
| "serialize_matches remaining used (m # ms) =
     (case mt_content m of
        None \<Rightarrow>
          (case serialize_matches remaining used ms of (es, u, t) \<Rightarrow> (entry_of m NoContent # es, u, t))
      | Some content \<Rightarrow>
          (if remaining \<le> used then
             (case serialize_matches remaining used ms of (es, u, t) \<Rightarrow> (entry_of m ContentOmitted # es, u, True))
           else
             let shown = take (remaining - used) content; cut = (length shown < length content) in
             case serialize_matches remaining (used + length shown) ms of
               (es, u, t) \<Rightarrow> (entry_of m (Content shown cut) # es, u, cut \<or> t)))"

definition serialize :: "toolbox \<Rightarrow> InvestigationResult \<Rightarrow> accepted_payload \<times> nat \<times> bool" where
  "serialize tx result =
     (case serialize_matches (tb_max_total_source_chars (tx_budget tx) - tx_source_chars tx) 0 (rr_matches result) of
        (entries, used, source_truncated) \<Rightarrow>
          (\<lparr>pl2_revision = rr_revision result, pl2_query_kind = rr_query_kind result,
            pl2_match_count = length (rr_matches result), pl2_results_truncated = rr_truncated result,
            pl2_index_partial = ss_truncated (rr_index_stats result), pl2_matches = entries,
            pl2_budget = remaining_budget_note tx\<rparr>, used, source_truncated))"

text \<open>\<open>_safe_arguments\<close>: the first eight, with short keys, integers, Booleans and cut texts.\<close>

definition safe_arguments :: "tool_arguments \<Rightarrow> tool_arguments" where
  "safe_arguments arguments =
     concat (map (\<lambda>(key, value).
         if 64 < length key then []
         else case value of
           AInt n \<Rightarrow> [(key, AInt n)] | ABool b \<Rightarrow> [(key, ABool b)] | AText t \<Rightarrow> [(key, AText (take 256 t))] | _ \<Rightarrow> [])
       (take 8 arguments))"

definition call_record ::
    "toolbox \<Rightarrow> InvestigationToolName \<Rightarrow> tool_arguments \<Rightarrow> ToolCallStatus \<Rightarrow> nat \<Rightarrow> bool \<Rightarrow> nat \<Rightarrow> string \<Rightarrow> exn + ToolCallRecord" where
  "call_record tx tool arguments status match_count truncated source_chars detail =
     mk_ToolCallRecord
       \<lparr>tc_sequence = length (tx_calls tx) + 1, tc_turn = tx_turn tx, tc_tool = tool, tc_arguments = safe_arguments arguments,
        tc_status = status, tc_match_count = match_count, tc_truncated = truncated, tc_source_chars = source_chars,
        tc_detail = detail\<rparr>"

definition accept_call ::
    "toolbox \<Rightarrow> InvestigationToolName \<Rightarrow> tool_arguments \<Rightarrow> InvestigationResult \<Rightarrow> exn + payload \<times> toolbox" where
  "accept_call tx tool arguments result =
     (case serialize tx result of
        (entries, source_chars, source_truncated) \<Rightarrow>
          let tx1 = tx\<lparr>tx_per_tool := (tx_per_tool tx)(tool := tx_per_tool tx tool + 1),
                       tx_source_chars := tx_source_chars tx + source_chars\<rparr> in
          rbind (call_record tx1 tool arguments OK (length (rr_matches result)) (rr_truncated result \<or> source_truncated) source_chars
                   (str_nat (length (rr_matches result)) @ '' match(es) on '' @ str_role (rr_revision result))) (\<lambda>record.
          Inr (Accepted entries, tx1\<lparr>tx_calls := tx_calls tx1 @ [record]\<rparr>)))"

text \<open>A refusal is recorded when its tool is known; the note in the answer is made afterwards.\<close>

definition refuse_call ::
    "toolbox \<Rightarrow> InvestigationToolName option \<Rightarrow> tool_arguments \<Rightarrow> ToolCallStatus \<Rightarrow> string \<Rightarrow> exn + payload \<times> toolbox" where
  "refuse_call tx tool arguments status detail =
     (case tool of
        None \<Rightarrow> Inr (Refused status detail (remaining_budget_note tx), tx)
      | Some t \<Rightarrow>
          rbind (call_record tx t arguments status 0 False 0 detail) (\<lambda>record.
          let tx1 = tx\<lparr>tx_calls := tx_calls tx @ [record]\<rparr> in Inr (Refused status detail (remaining_budget_note tx1), tx1)))"

definition message_of :: "exn \<Rightarrow> string" where
  "message_of e = (case e of InvestigationQueryError m \<Rightarrow> m | ValueError m \<Rightarrow> m | ValidationError m \<Rightarrow> m | TypeError m \<Rightarrow> m | _ \<Rightarrow> [])"

definition tool_call :: "toolbox \<Rightarrow> string \<Rightarrow> tool_arguments \<Rightarrow> exn + payload \<times> toolbox" where
  "tool_call tx tool arguments =
     (case tool_named tool of
        None \<Rightarrow>
          refuse_call tx None arguments INVALID_ARGUMENTS
            (''unknown tool '' @ [CHR 0x27] @ tool @ [CHR 0x27] @ ''; available tools are '' @ join '', '' (map str_tool all_tools))
      | Some name \<Rightarrow>
          (if exhausted tx then
             refuse_call tx (Some name) arguments BUDGET_EXHAUSTED
               ''total investigation call budget is exhausted; select a claim from the facts already gathered or abstain''
           else if tb_max_calls_per_tool (tx_budget tx) \<le> tx_per_tool tx name then
             refuse_call tx (Some name) arguments BUDGET_EXHAUSTED
               (''per-tool budget for '' @ str_tool name @ '' is exhausted; use a different tool or conclude'')
           else case run_tool tx name arguments of
             Inl (InvestigationQueryError m) \<Rightarrow>
               refuse_call tx (Some name) arguments INVALID_ARGUMENTS (take 500 (''rejected by the investigation contract: '' @ m))
           | Inl e \<Rightarrow>
               (if is_value_error e \<or> (case e of TypeError _ \<Rightarrow> True | _ \<Rightarrow> False)
                then refuse_call tx (Some name) arguments INVALID_ARGUMENTS (take 500 (''invalid tool arguments: '' @ message_of e))
                else Inl e)
           | Inr result \<Rightarrow> accept_call tx name arguments result))"

end
