(* ===== verification/IndexProperties.thy ===== *)
theory IndexProperties
  imports RepositoryIndex
begin

text \<open>
  What holds of every index \<open>repository_index.py\<close> builds: it stays within its budgets, everything in it
  comes from a file that was selected and not excluded, its statistics account for every Python file of
  the commit, and it says that it is partial whenever it is. Reading the answer of \<open>cat-file --batch\<close>
  gives back the objects Git wrote.
\<close>

section \<open>The visitors\<close>

lemma child_sizes: "\<forall>c \<in> set (children n). size c < size n"
  using child_size by blast

text \<open>Nodes without a method of the visitor.\<close>

fun visited_generically :: "ast \<Rightarrow> bool" where
  "visited_generically (Constant _ _) = True"
| "visited_generically (Display _ _ _) = True"
| "visited_generically (Lambda _ _ _) = True"
| "visited_generically (Import _ _) = True"
| "visited_generically (ImportFrom _ _ _ _) = True"
| "visited_generically (Global _) = True"
| "visited_generically (OtherNode _ _) = True"
| "visited_generically _ = False"

lemma visit_generic: "visited_generically n \<Longrightarrow> visit vp scopes n st = rfold (visit vp scopes) (children n) st"
  by (cases n) (simp_all add: visit.simps)

lemma visit_keeps:
  assumes sym: "\<And>q k a e st st'. append_symbol vp q k a e st = Inr st' \<Longrightarrow> P st \<Longrightarrow> P st'"
    and ref: "\<And>scopes node kind e st st'. record_reference vp scopes node kind e st = Inr st' \<Longrightarrow> P st \<Longrightarrow> P st'"
  shows "visit vp scopes n st = Inr st' \<Longrightarrow> P st \<Longrightarrow> P st'"
proof (induction n arbitrary: scopes st st' rule: measure_induct_rule [where f = size])
  case (less n)
  have kids: "P st2" if "rfold (visit vp sc) cs st1 = Inr st2" "P st1" "\<forall>c \<in> set cs. size c < size n" for cs sc st1 st2
    using rfold_keeps [of cs P "visit vp sc" st1 st2] less.IH that by meson
  have vals: "P st2" if "rfold (record_module_value vp n) names st1 = Inr st2" "P st1" for names st1 st2
    by (rule rfold_keeps [where P = P and f = "record_module_value vp n", OF _ that(2,1)])
       (auto simp: record_module_value_def split: if_splits intro: sym)
  have symbol: "P st2" if "record_symbol vp sc name ds m kind st1 = Inr st2" "P st1" for sc name ds m kind st1 st2
    using sym that unfolding record_symbol_def by blast
  have sizes: "\<forall>c \<in> set (children n). size c < size n" by (rule child_sizes)
  have rest: "P st2" if "rfold (visit vp sc) (children n) st1 = Inr st2" "P st1" for sc st1 st2
    using kids [OF that sizes] .
  from less.prems sizes show ?case
  proof (cases n)
    case (ClassDef p name bases kws body decorators type_params)
    with less.prems obtain st1 st2 where 1: "record_symbol vp scopes name decorators n CLASS st = Inr st1"
      "rfold (visit vp scopes) (decorators @ bases @ kws @ type_params) st1 = Inr st2"
      "rfold (visit vp (scopes @ [(name, True, scope_bindings body None)])) body st2 = Inr st'"
      by (subst (asm) visit.simps) (auto simp: rbind_eq_Inr)
    have "P st1" by (rule symbol [OF 1(1) less.prems(2)])
    then have "P st2" by (rule kids [OF 1(2)]) (use sizes ClassDef in auto)
    then show ?thesis by (rule kids [OF 1(3)]) (use sizes ClassDef in auto)
  next
    case (FunctionDef p asynchronous name args body decorators returns type_params)
    with less.prems obtain st1 st2 where 1: "record_symbol vp scopes name decorators n (function_kind scopes asynchronous decorators) st = Inr st1"
      "rfold (visit vp scopes) (decorators @ arguments_visited args @ option_list returns @ type_params) st1 = Inr st2"
      "rfold (visit vp (scopes @ [(name, False, scope_bindings body (Some args))])) body st2 = Inr st'"
      by (subst (asm) visit.simps) (auto simp: rbind_eq_Inr)
    have small: "\<forall>c \<in> set (arguments_visited args). size c < size n"
      using arguments_children_size [of _ args] FunctionDef by fastforce
    have "P st1" by (rule symbol [OF 1(1) less.prems(2)])
    then have "P st2" by (rule kids [OF 1(2)]) (use sizes small FunctionDef in auto)
    then show ?thesis by (rule kids [OF 1(3)]) (use sizes FunctionDef in auto)
  next
    case (Attribute p v attr ctx)
    have "rbind (if ctx = Load then record_reference vp scopes n ATTRIBUTE (or_str (case dotted_name n of Some d \<Rightarrow> d | None \<Rightarrow> []) attr) st
        else Inr st) (\<lambda>st. rfold (visit vp scopes) (children n) st) = Inr st'"
      using less.prems(1) by (simp only: visit.simps Attribute ast.case)
    then show ?thesis using less.prems(2) by (auto simp: rbind_eq_Inr split: if_splits intro: ref rest)
  next
    case (Call p f args kws)
    have "rbind (case dotted_name f of
                   Some expression \<Rightarrow> if expression = [] then Inr st else record_reference vp scopes f CALL expression st
                 | None \<Rightarrow> Inr st) (\<lambda>st. rfold (visit vp scopes) (children n) st) = Inr st'"
      using less.prems(1) by (simp only: visit.simps Call ast.case)
    then show ?thesis using less.prems(2) by (auto simp: rbind_eq_Inr split: if_splits option.splits intro: ref rest)
  next
    case (Assign p targets v)
    have "rbind (if scopes = [] then rfold (record_module_value vp n) (concat (map assignment_names targets)) st else Inr st)
        (\<lambda>st. rfold (visit vp scopes) (children n) st) = Inr st'"
      using less.prems(1) by (simp only: visit.simps Assign ast.case)
    then show ?thesis using less.prems(2) by (auto simp: rbind_eq_Inr split: if_splits intro: vals rest)
  next
    case (AnnAssign p target annotation v)
    have "rbind (if scopes = [] \<and> v \<noteq> None then rfold (record_module_value vp n) (assignment_names target) st else Inr st)
        (\<lambda>st. rfold (visit vp scopes) (children n) st) = Inr st'"
      using less.prems(1) by (simp only: visit.simps AnnAssign ast.case)
    then show ?thesis using less.prems(2) by (auto simp: rbind_eq_Inr split: if_splits intro: vals rest)
  next
    case (Name p x ctx)
    then show ?thesis using less.prems by (subst (asm) visit.simps) (auto split: if_splits intro: ref)
  qed (metis rest visit_generic visited_generically.simps)+
qed

definition visitor_ok :: "visitor \<Rightarrow> visitor_state \<Rightarrow> bool" where
  "visitor_ok vp st =
     (length (vs_symbols st) \<le> vp_max_symbols vp \<and> length (vs_references st) \<le> vp_max_references vp
      \<and> (\<forall>y \<in> set (vs_symbols st). sy_path y = vp_path vp \<and> source_path_ok (sy_path y))
      \<and> (\<forall>r \<in> set (vs_references st). ir_path r = vp_path vp)
      \<and> distinct (map sy_qualified_name (vs_symbols st)))"

lemma merged_names:
  "map sy_qualified_name (map (\<lambda>s. if sy_qualified_name s = q then merged_symbol s k a e h else s) ys) = map sy_qualified_name ys"
  by (induction ys) (auto simp: merged_symbol_def)

lemma visit_ok: "visit vp scopes n st = Inr st' \<Longrightarrow> visitor_ok vp st \<Longrightarrow> visitor_ok vp st'"
proof (rule visit_keeps [where P = "visitor_ok vp"])
  fix q k a e st st'
  assume a: "append_symbol vp q k a e st = Inr st'" and ok: "visitor_ok vp st"
  let ?h = "sha256 (utf8 (span_source (vp_source_lines vp) a e))"
  from a consider (merged) "st' = st\<lparr>vs_symbols := map (\<lambda>s. if sy_qualified_name s = q then merged_symbol s k a e ?h else s) (vs_symbols st)\<rparr>"
    | (full) "st' = st\<lparr>vs_symbols_omitted := vs_symbols_omitted st + 1\<rparr>"
    | (new) y where "mk_IndexedSymbol (new_symbol vp q k a e ?h) = Inr y" "st' = st\<lparr>vs_symbols := vs_symbols st @ [y]\<rparr>"
        "length (vs_symbols st) < vp_max_symbols vp" "q \<notin> sy_qualified_name ` set (vs_symbols st)"
    by (auto simp: append_symbol_def Let_def rbind_eq_Inr split: if_splits)
  then show "visitor_ok vp st'"
  proof cases
    case merged
    then show ?thesis using ok unfolding visitor_ok_def merged by (auto simp: merged_names merged_symbol_def simp del: map_map)
  next
    case new
    from index_values_same(2) [OF new(1)] have "y = new_symbol vp q k a e ?h" "source_path_ok (sy_path y)" by auto
    with new ok show ?thesis by (auto simp: visitor_ok_def new_symbol_def)
  qed (use ok in \<open>auto simp: visitor_ok_def\<close>)
next
  fix scopes node kind e st st'
  assume "record_reference vp scopes node kind e st = Inr st'" "visitor_ok vp st"
  then show "visitor_ok vp st'"
    by (auto simp: record_reference_def rbind_eq_Inr visitor_ok_def dest!: index_values_same(4) split: if_splits)
qed

definition imports_ok :: "string \<Rightarrow> nat \<Rightarrow> import_state \<Rightarrow> bool" where
  "imports_ok path maximum st = (length (is_imports st) \<le> maximum \<and> (\<forall>i \<in> set (is_imports st). im_path i = path))"

lemma append_import_ok:
  "append_import maximum i st = Inr st' \<Longrightarrow> im_path i = path \<Longrightarrow> imports_ok path maximum st \<Longrightarrow> imports_ok path maximum st'"
  by (auto simp: append_import_def imports_ok_def rbind_eq_Inr dest!: index_values_same(3) split: if_splits)

lemma import_paths: "im_path (import_record path scope p a) = path" "im_path (import_from_record path scope p m level a) = path"
  by (auto simp: import_record_def import_from_record_def Let_def split: prod.splits)

lemma collect_imports_ok:
  "collect_imports path maximum scope n st = Inr st' \<Longrightarrow> imports_ok path maximum st \<Longrightarrow> imports_ok path maximum st'"
proof (induction n arbitrary: scope st st' rule: measure_induct_rule [where f = size])
  case (less n)
  let ?P = "imports_ok path maximum"
  have kids: "?P st2" if "rfold (collect_imports path maximum sc) (children n) st1 = Inr st2" "?P st1" for sc st1 st2
    using rfold_keeps [of "children n" ?P "collect_imports path maximum sc" st1 st2] less.IH that child_sizes by meson
  have names: "?P st2" if "rfold (\<lambda>a. append_import maximum (g a)) as' st1 = Inr st2" "?P st1" "\<And>a. im_path (g a) = path" for g as' st1 st2
    by (rule rfold_keeps [where P = ?P and f = "\<lambda>a. append_import maximum (g a)", OF _ that(2,1)])
       (rule append_import_ok [OF _ that(3)])
  from less.prems show ?case
    by (cases n) (subst (asm) collect_imports.simps, auto intro: kids names simp: import_paths)+
qed

section \<open>Building\<close>

definition parsed_file :: "IndexedPythonFile list \<Rightarrow> string \<Rightarrow> bool" where
  "parsed_file files path = (\<exists>f \<in> set files. pf_path f = path \<and> pf_parse_status f = PARSED)"

text \<open>What building keeps, given the selected files.\<close>

definition build_ok :: "RepositoryIndexBudget \<Rightarrow> (string \<times> bytes) list \<Rightarrow> build_state \<Rightarrow> bool" where
  "build_ok b entries st =
     (length (bs_symbols st) \<le> ib_max_symbols b \<and> length (bs_imports st) \<le> ib_max_imports b
      \<and> length (bs_references st) \<le> ib_max_references b
      \<and> (\<forall>f \<in> set (bs_files st). source_path_ok (pf_path f)
           \<and> (\<exists>c. (pf_path f, c) \<in> set entries \<and> pf_size_bytes f = length c \<and> pf_content_sha256 f = sha256 c))
      \<and> (\<forall>y \<in> set (bs_symbols st). parsed_file (bs_files st) (sy_path y))
      \<and> (\<forall>i \<in> set (bs_imports st). parsed_file (bs_files st) (im_path i))
      \<and> (\<forall>r \<in> set (bs_references st). parsed_file (bs_files st) (ir_path r))
      \<and> map fst (bs_sources st) = map pf_path (bs_files st)
      \<and> length (filter (\<lambda>f. pf_parse_status f \<noteq> PARSED) (bs_files st)) = bs_syntax_errors st)"

lemma index_tree_result:
  assumes "index_tree b path source body st = Inr st'"
  shows "\<exists>collected (visited :: visitor_state). imports_ok path (ib_max_imports b - length (bs_imports st)) collected
    \<and> length (vs_symbols visited) \<le> ib_max_symbols b - length (bs_symbols st)
    \<and> length (vs_references visited) \<le> ib_max_references b - length (bs_references st)
    \<and> (\<forall>y \<in> set (vs_symbols visited). sy_path y = path) \<and> (\<forall>r \<in> set (vs_references visited). ir_path r = path)
    \<and> st' = st\<lparr>bs_imports := bs_imports st @ is_imports collected,
             bs_imports_omitted := bs_imports_omitted st + is_omitted_count collected,
             bs_symbols := bs_symbols st @ vs_symbols visited,
             bs_symbols_omitted := bs_symbols_omitted st + vs_symbols_omitted visited,
             bs_references := bs_references st @ vs_references visited,
             bs_references_omitted := bs_references_omitted st + vs_references_omitted visited\<rparr>"
proof -
  let ?max = "ib_max_imports b - length (bs_imports st)"
  from assms obtain collected vp visited where
    c: "rfold (collect_imports path ?max []) body \<lparr>is_imports = [], is_omitted_count = 0\<rparr> = Inr collected"
    and v: "rfold (visit vp []) body \<lparr>vs_symbols = [], vs_symbols_omitted = 0, vs_references = [], vs_references_omitted = 0\<rparr> = Inr visited"
    and vp: "vp_path vp = path" "vp_max_symbols vp = ib_max_symbols b - length (bs_symbols st)"
      "vp_max_references vp = ib_max_references b - length (bs_references st)"
    and st': "st' = st\<lparr>bs_imports := bs_imports st @ is_imports collected,
             bs_imports_omitted := bs_imports_omitted st + is_omitted_count collected,
             bs_symbols := bs_symbols st @ vs_symbols visited,
             bs_symbols_omitted := bs_symbols_omitted st + vs_symbols_omitted visited,
             bs_references := bs_references st @ vs_references visited,
             bs_references_omitted := bs_references_omitted st + vs_references_omitted visited\<rparr>"
    unfolding index_tree_def rbind_eq_Inr by (auto simp del: rfold.simps)
  have "imports_ok path ?max collected"
    by (rule rfold_keeps [where P = "imports_ok path ?max", OF _ _ c], erule (1) collect_imports_ok)
      (simp add: imports_ok_def)
  moreover have "visitor_ok vp visited"
    by (rule rfold_keeps [where P = "visitor_ok vp", OF _ _ v], erule (1) visit_ok) (simp add: visitor_ok_def)
  ultimately show ?thesis using vp st' unfolding visitor_ok_def
    by - (rule exI [of _ collected], rule exI [of _ visited], simp)
qed

lemma parsed_file_append: "parsed_file fs p \<Longrightarrow> parsed_file (fs @ gs) p"
  by (auto simp: parsed_file_def)

lemma index_content_cases:
  assumes "index_content sr b (path, content) st = Inr st'"
  obtains "st' = st\<lparr>bs_undecodable := bs_undecodable st + 1\<rparr>"
  | source f where "pf_path f = path" "pf_size_bytes f = length content" "pf_content_sha256 f = sha256 content"
      "source_path_ok path" "pf_parse_status f = SYNTAX_ERROR"
      "st' = st\<lparr>bs_files := bs_files st @ [f], bs_sources := bs_sources st @ [(path, source)], bs_syntax_errors := bs_syntax_errors st + 1\<rparr>"
  | source f body where "pf_path f = path" "pf_size_bytes f = length content" "pf_content_sha256 f = sha256 content"
      "source_path_ok path" "pf_parse_status f = PARSED"
      "index_tree b path source body (st\<lparr>bs_files := bs_files st @ [f], bs_sources := bs_sources st @ [(path, source)]\<rparr>) = Inr st'"
proof (cases "sr_decode sr content")
  case None
  with assms that(1) show thesis by (simp add: index_content_def)
next
  case (Some source)
  with assms obtain f where f: "mk_IndexedPythonFile
      \<lparr>pf_path = path, pf_module = index_module_name path, pf_size_bytes = length content,
       pf_line_count = length (splitlines source), pf_content_sha256 = sha256 content,
       pf_parse_status = (if sr_parse sr source = None then SYNTAX_ERROR else PARSED), pf_is_test = is_test_path path\<rparr> = Inr f"
    and st': "(let st = st\<lparr>bs_files := bs_files st @ [f], bs_sources := bs_sources st @ [(path, source)]\<rparr> in
       case sr_parse sr source of None \<Rightarrow> Inr (st\<lparr>bs_syntax_errors := bs_syntax_errors st + 1\<rparr>)
       | Some body \<Rightarrow> index_tree b path source body st) = Inr st'"
    by (auto simp: index_content_def Let_def rbind_eq_Inr)
  from index_values_same(1) [OF f] have fields: "pf_path f = path" "pf_size_bytes f = length content"
    "pf_content_sha256 f = sha256 content" "source_path_ok path"
    "pf_parse_status f = (if sr_parse sr source = None then SYNTAX_ERROR else PARSED)" by auto
  show thesis
  proof (cases "sr_parse sr source")
    case None
    show thesis by (rule that(2) [of f source]) (use fields st' None in \<open>simp_all add: Let_def\<close>)
  next
    case (Some body)
    show thesis by (rule that(3) [of f source body]) (use fields st' Some in \<open>simp_all add: Let_def\<close>)
  qed
qed

lemma index_content_ok:
  assumes x: "index_content sr b e st = Inr st'" and e: "e \<in> set entries" and ok: "build_ok b entries st"
  shows "build_ok b entries st'"
proof -
  obtain path content where p: "e = (path, content)" by (cases e)
  from x [unfolded p] show ?thesis
  proof (cases rule: index_content_cases)
    case 1
    with ok show ?thesis by (simp add: build_ok_def)
  next
    case (2 source f)
    with ok e p show ?thesis by (auto simp: build_ok_def intro!: parsed_file_append)
  next
    case (3 source f body)
    let ?st = "st\<lparr>bs_files := bs_files st @ [f], bs_sources := bs_sources st @ [(path, source)]\<rparr>"
    have here: "parsed_file (bs_files ?st) path" using 3 by (auto simp: parsed_file_def)
    have ok1: "build_ok b entries ?st" using ok e p 3 by (auto simp: build_ok_def intro!: parsed_file_append)
    from index_tree_result [OF 3(6)] obtain collected and visited :: visitor_state where
      r: "imports_ok path (ib_max_imports b - length (bs_imports ?st)) collected"
        "length (vs_symbols visited) \<le> ib_max_symbols b - length (bs_symbols ?st)"
        "length (vs_references visited) \<le> ib_max_references b - length (bs_references ?st)"
        "\<forall>y \<in> set (vs_symbols visited). sy_path y = path" "\<forall>r \<in> set (vs_references visited). ir_path r = path"
      and st': "st' = ?st\<lparr>bs_imports := bs_imports ?st @ is_imports collected,
             bs_imports_omitted := bs_imports_omitted ?st + is_omitted_count collected,
             bs_symbols := bs_symbols ?st @ vs_symbols visited,
             bs_symbols_omitted := bs_symbols_omitted ?st + vs_symbols_omitted visited,
             bs_references := bs_references ?st @ vs_references visited,
             bs_references_omitted := bs_references_omitted ?st + vs_references_omitted visited\<rparr>" by blast
    show ?thesis using ok1 r here unfolding build_ok_def imports_ok_def st' by auto
  qed
qed

lemma index_content_counts:
  assumes "index_content sr b e st = Inr st'"
  shows "length (bs_files st') + bs_undecodable st' = length (bs_files st) + bs_undecodable st + 1
    \<and> sum_list (map pf_size_bytes (bs_files st')) \<le> sum_list (map pf_size_bytes (bs_files st)) + length (snd e)"
proof -
  obtain path content where p: "e = (path, content)" by (cases e)
  from assms [unfolded p] show ?thesis
  proof (cases rule: index_content_cases)
    case (3 source f body)
    from index_tree_result [OF 3(6)] 3 p show ?thesis by auto
  qed (auto simp: p)
qed

lemma build_counts:
  "rfold (index_content sr b) es st = Inr st' \<Longrightarrow>
    length (bs_files st') + bs_undecodable st' = length (bs_files st) + bs_undecodable st + length es
    \<and> sum_list (map pf_size_bytes (bs_files st')) \<le> sum_list (map pf_size_bytes (bs_files st)) + sum_list (map (length \<circ> snd) es)"
proof (induction es arbitrary: st)
  case (Cons e es)
  then obtain st1 where 1: "index_content sr b e st = Inr st1" "rfold (index_content sr b) es st1 = Inr st'"
    by (auto simp: rbind_eq_Inr)
  from Cons.IH [OF 1(2)] index_content_counts [OF 1(1)] show ?case by auto
qed simp

section \<open>Selection\<close>

definition omitted :: "'a selection \<Rightarrow> nat" where
  "omitted s = sl_oversized s + sl_file_limit_omitted s + sl_total_byte_budget_omitted s"

definition selection_ok :: "RepositoryIndexBudget \<Rightarrow> ('a \<Rightarrow> nat) \<Rightarrow> (string \<times> 'a) list \<Rightarrow> 'a selection \<Rightarrow> bool" where
  "selection_ok b size_of entries s =
     (length (sl_selected s) \<le> ib_max_files b \<and> sl_total s = sum_list (map (size_of \<circ> snd) (sl_selected s))
      \<and> sl_total s \<le> ib_max_total_source_bytes b
      \<and> (\<forall>e \<in> set (sl_selected s). e \<in> set entries \<and> size_of (snd e) \<le> ib_max_file_bytes b))"

lemma select_ok:
  "e \<in> set entries \<Longrightarrow> selection_ok b length entries s \<Longrightarrow> selection_ok b length entries (select_file b e s)"
  "e' \<in> set entries' \<Longrightarrow> selection_ok b snd entries' s' \<Longrightarrow> selection_ok b snd entries' (select_entry b e' s')"
  by (auto simp: select_file_def select_entry_def selection_ok_def take_file_def)

lemma select_counts:
  "length (sl_selected (select_file b e s)) + omitted (select_file b e s) = length (sl_selected s) + omitted s + 1"
  "length (sl_selected (select_entry b e' s')) + omitted (select_entry b e' s') = length (sl_selected s') + omitted s' + 1"
  by (auto simp: select_file_def select_entry_def take_file_def omitted_def)

lemma fold_counts:
  assumes "\<And>e s. length (sl_selected (f e s)) + omitted (f e s) = length (sl_selected s) + omitted s + 1"
  shows "length (sl_selected (fold f es s)) + omitted (fold f es s) = length (sl_selected s) + omitted s + length es"
  by (induction es arbitrary: s) (simp_all add: assms)

lemma empty_selection_ok: "selection_ok b size_of entries (empty_selection\<lparr>sl_oversized := x, sl_file_limit_omitted := y, sl_total_byte_budget_omitted := z\<rparr>)"
  "selection_ok b size_of entries empty_selection"
  by (simp_all add: selection_ok_def empty_selection_def)

lemma ordered_set [simp]: "set (ordered_by_priority p es) = set es" "length (ordered_by_priority p es) = length es"
  by (simp_all add: ordered_by_priority_def)

lemma select_files_ok: "selection_ok b length raw_files (select_files b pre priority raw_files)"
  unfolding select_files_def
  by (rule fold_invariant [where Q = "\<lambda>e. e \<in> set raw_files"]) (auto intro: select_ok(1) simp: empty_selection_ok)

lemma select_files_counts:
  "length (sl_selected (select_files b pre priority raw_files)) + omitted (select_files b pre priority raw_files)
    = pre_oversized pre + pre_file_limit_omitted pre + pre_total_byte_budget_omitted pre + length raw_files"
  unfolding select_files_def fold_counts [of "select_file b", OF select_counts(1)]
  by (simp add: empty_selection_def omitted_def)

section \<open>The index\<close>

definition skipped :: "RepositoryIndexStats \<Rightarrow> nat" where
  "skipped t = ss_oversized_files_skipped t + ss_undecodable_files_skipped t + ss_symlinks_skipped t
     + ss_excluded_files_skipped t + ss_file_limit_omitted t + ss_total_byte_budget_omitted t"

definition complete_index :: "RepositoryIndex \<Rightarrow> bool" where
  "complete_index ix =
     (skipped (ix_stats ix) = 0 \<and> ss_symbols_omitted (ix_stats ix) = 0 \<and> ss_imports_omitted (ix_stats ix) = 0
      \<and> ss_references_omitted (ix_stats ix) = 0 \<and> (\<forall>f \<in> set (ix_files ix). pf_parse_status f = PARSED))"

definition index_sound :: "RepositoryIndexBudget \<Rightarrow> string set \<Rightarrow> RepositoryIndex \<Rightarrow> bool" where
  "index_sound b excluded ix =
     (length (ix_files ix) \<le> ib_max_files b \<and> length (ix_symbols ix) \<le> ib_max_symbols b
      \<and> length (ix_imports ix) \<le> ib_max_imports b \<and> length (ix_references ix) \<le> ib_max_references b
      \<and> ss_total_source_bytes (ix_stats ix) \<le> ib_max_total_source_bytes b
      \<and> (\<forall>f \<in> set (ix_files ix). pf_size_bytes f \<le> ib_max_file_bytes b \<and> source_path_ok (pf_path f) \<and> pf_path f \<notin> excluded)
      \<and> (\<forall>y \<in> set (ix_symbols ix). parsed_file (ix_files ix) (sy_path y))
      \<and> (\<forall>i \<in> set (ix_imports ix). parsed_file (ix_files ix) (im_path i))
      \<and> (\<forall>r \<in> set (ix_references ix). parsed_file (ix_files ix) (ir_path r))
      \<and> fst ` set (ix_sources ix) = pf_path ` set (ix_files ix)
      \<and> sorted (map pf_path (ix_files ix))
      \<and> ss_files_indexed (ix_stats ix) = length (ix_files ix)
      \<and> ss_python_files_discovered (ix_stats ix) = ss_files_indexed (ix_stats ix) + skipped (ix_stats ix)
      \<and> ss_truncated (ix_stats ix) = (\<not> complete_index ix))"

lemma parsed_file_set: "set fs = set gs \<Longrightarrow> parsed_file fs p = parsed_file gs p"
  by (auto simp: parsed_file_def)

lemma build_index_sound:
  assumes x: "build_index sr revision b pre priority raw_files = Inr ix"
    and raw: "\<forall>e \<in> set raw_files. fst e \<notin> excluded"
    and count: "pre_discovered pre = length raw_files + pre_symlinks_skipped pre + pre_excluded_files_skipped pre
        + pre_file_limit_omitted pre + pre_total_byte_budget_omitted pre + pre_oversized pre"
  shows "index_sound b excluded ix \<and> ix_revision ix = revision"
proof -
  let ?s = "select_files b pre priority raw_files"
  from x obtain st where st: "rfold (index_content sr b) (sl_selected ?s) empty_build = Inr st"
    and ix: "ix_revision ix = revision" "ix_files ix = sort_key pf_path (bs_files st)"
      "set (ix_symbols ix) = set (bs_symbols st)" "length (ix_symbols ix) = length (bs_symbols st)"
      "set (ix_imports ix) = set (bs_imports st)" "length (ix_imports ix) = length (bs_imports st)"
      "set (ix_references ix) = set (bs_references st)" "length (ix_references ix) = length (bs_references st)"
      "ix_sources ix = bs_sources st" "ix_stats ix = index_stats pre ?s st"
    by (auto simp: build_index_def Let_def rbind_eq_Inr mk_RepositoryIndex_def)
  have ok: "build_ok b (sl_selected ?s) st"
    by (rule rfold_keeps [where P = "build_ok b (sl_selected ?s)", OF _ _ st], rule index_content_ok, assumption+)
      (simp add: build_ok_def empty_build_def)
  note sel = select_files_ok [of b raw_files pre priority]
  note n = build_counts [OF st]
  have files: "set (ix_files ix) = set (bs_files st)" "length (ix_files ix) = length (bs_files st)" by (simp_all add: ix)
  have paths: "pf_size_bytes f \<le> ib_max_file_bytes b \<and> source_path_ok (pf_path f) \<and> pf_path f \<notin> excluded"
    if "f \<in> set (bs_files st)" for f
  proof -
    from that ok obtain c where c: "(pf_path f, c) \<in> set (sl_selected ?s)" "pf_size_bytes f = length c" "source_path_ok (pf_path f)"
      unfolding build_ok_def by blast
    with sel have "(pf_path f, c) \<in> set raw_files \<and> length c \<le> ib_max_file_bytes b" unfolding selection_ok_def by fastforce
    with raw c show ?thesis by auto
  qed
  have sum: "sum_list (map pf_size_bytes (bs_files st)) \<le> ib_max_total_source_bytes b"
    using n sel unfolding selection_ok_def by (auto simp: empty_build_def)
  have few: "length (bs_files st) \<le> ib_max_files b" using n sel unfolding selection_ok_def by (auto simp: empty_build_def)
  have sources: "fst ` set (bs_sources st) = pf_path ` set (bs_files st)"
    using ok unfolding build_ok_def by (metis list.set_map)
  have account: "pre_discovered pre = length (bs_files st) + skipped (index_stats pre ?s st)"
    using n count select_files_counts [of b pre priority raw_files]
    by (simp add: skipped_def index_stats_def omitted_def empty_build_def)
  have errors: "bs_syntax_errors st = 0 \<longleftrightarrow> (\<forall>f \<in> set (bs_files st). pf_parse_status f = PARSED)"
    using ok unfolding build_ok_def by (metis (mono_tags, lifting) filter_empty_conv length_0_conv)
  have trunc: "index_truncated pre ?s st = (\<not> complete_index ix)"
    unfolding complete_index_def files(1) errors [symmetric] ix(10) by (auto simp: index_truncated_def skipped_def index_stats_def)
  have parsed: "parsed_file (ix_files ix) p = parsed_file (bs_files st) p" for p by (rule parsed_file_set [OF files(1)])
  have sizes: "length (bs_symbols st) \<le> ib_max_symbols b" "length (bs_imports st) \<le> ib_max_imports b"
      "length (bs_references st) \<le> ib_max_references b"
    and from_parsed: "\<forall>y \<in> set (bs_symbols st). parsed_file (bs_files st) (sy_path y)"
      "\<forall>i \<in> set (bs_imports st). parsed_file (bs_files st) (im_path i)"
      "\<forall>r \<in> set (bs_references st). parsed_file (bs_files st) (ir_path r)"
    using ok unfolding build_ok_def by blast+
  have stats: "ss_total_source_bytes (index_stats pre ?s st) = sum_list (map pf_size_bytes (bs_files st))"
    "ss_files_indexed (index_stats pre ?s st) = length (bs_files st)"
    "ss_python_files_discovered (index_stats pre ?s st) = pre_discovered pre"
    "ss_truncated (index_stats pre ?s st) = index_truncated pre ?s st"
    by (simp_all add: index_stats_def)
  have sorted: "sorted (map pf_path (ix_files ix))" by (simp add: ix(2))
  show ?thesis
    unfolding index_sound_def ix(3-10) files parsed stats
    using few sizes from_parsed sum paths sources account trunc sorted ix(1) by blast
qed

section \<open>Reading the objects of a commit\<close>

text \<open>Git's answer for the objects it was asked for.\<close>

definition batch_output :: "(string \<times> string \<times> bytes) list \<Rightarrow> bytes" where
  "batch_output objects =
     concat (map (\<lambda>(_, object_id, content). utf8 (object_id @ '' blob '' @ str_nat (length content) @ [CHR 0x0A]) @ content @ [10]) objects)"

definition ascii :: "string \<Rightarrow> bool" where
  "ascii s = (\<forall>c \<in> set s. (of_char c :: nat) < 128)"

lemma utf8_ascii: "ascii s \<Longrightarrow> utf8 s = map (\<lambda>c. of_nat (of_char c)) s"
  by (induction s) (simp_all add: utf8_def utf8_char_def ascii_def Let_def)

lemma ascii_read_back: "ascii s \<Longrightarrow> ascii_decode (utf8 s) = Some s"
  by (rule ascii_decode_utf8) (auto simp: ascii_def list_all_iff)

lemma words_acc_word:
  "w \<noteq> [] \<or> acc \<noteq> [] \<Longrightarrow> \<forall>c \<in> set w. \<not> is_space c \<Longrightarrow> is_space d \<Longrightarrow>
    words_acc acc (w @ d # s) = (rev acc @ w) # words_acc [] s"
  by (induction w arbitrary: acc) auto

lemma words_acc_last: "w \<noteq> [] \<or> acc \<noteq> [] \<Longrightarrow> \<forall>c \<in> set w. \<not> is_space c \<Longrightarrow> words_acc acc w = [rev acc @ w]"
  by (induction w arbitrary: acc) auto

definition plain_word :: "string \<Rightarrow> bool" where
  "plain_word w = (w \<noteq> [] \<and> (\<forall>c \<in> set w. is_lower_hex c \<or> c \<in> set ''blob''))"

lemma plain_char: "is_lower_hex c \<or> c \<in> set ''blob'' \<Longrightarrow> \<not> is_space c \<and> (of_char c :: nat) < 128"
  by (auto simp: is_lower_hex_def is_digit_def in_range_def is_space_def)

lemma plain_words:
  assumes "plain_word a" "plain_word b" "plain_word c"
  shows "split_ws (a @ CHR '' '' # b @ CHR '' '' # c) = [a, b, c]" "ascii (a @ CHR '' '' # b @ CHR '' '' # c)"
proof -
  have sp: "is_space (CHR '' '')" by (simp add: is_space_def)
  have w: "w \<noteq> [] \<or> ([] :: string) \<noteq> []" "\<forall>c \<in> set w. \<not> is_space c" "ascii w" if "plain_word w" for w
    using that plain_char unfolding plain_word_def ascii_def by blast+
  note a = w [OF assms(1)] note b = w [OF assms(2)] note c = w [OF assms(3)]
  show "split_ws (a @ CHR '' '' # b @ CHR '' '' # c) = [a, b, c]"
    unfolding split_ws_def words_acc_word [OF a(1,2) sp] words_acc_word [OF b(1,2) sp] words_acc_last [OF c(1,2)] by simp
  from a(3) b(3) c(3) show "ascii (a @ CHR '' '' # b @ CHR '' '' # c)" by (auto simp: ascii_def)
qed

lemma plain_parts: "is_fullmatch git_sha_pattern i \<Longrightarrow> plain_word i" "plain_word ''blob''" "plain_word (str_nat n)"
  using digits_rev_digits [of n] by (auto simp: plain_word_def list_all_iff is_lower_hex_def str_nat_def)

lemma header_bytes: "plain_word w \<Longrightarrow> 10 \<notin> set (utf8 w)"
proof
  assume w: "plain_word w" and "10 \<in> set (utf8 w)"
  then obtain c where c: "c \<in> set w" "10 \<in> set (utf8_char c)" by (auto simp: utf8_def)
  with w have "is_lower_hex c \<or> c \<in> set ''blob''" by (auto simp: plain_word_def)
  then have n: "(of_char c :: nat) < 128" "(of_char c :: nat) \<noteq> 10"
    by (auto simp: is_lower_hex_def is_digit_def in_range_def)
  then have "utf8_char c = [of_nat (of_char c)]" by (simp add: utf8_char_def Let_def)
  with c have "(10 :: byte) = of_nat (of_char c)" by simp
  then have "unat (10 :: byte) = of_char c" using n unat_byte [of "of_char c"] by simp
  with n show False by simp
qed

lemma utf8_append: "utf8 (a @ b) = utf8 a @ utf8 b"
  by (simp add: utf8_def)

lemma batch_step:
  assumes "is_fullmatch git_sha_pattern i"
  shows "parse_batch ((p, i, length c) # es) (utf8 (i @ '' blob '' @ str_nat (length c) @ [CHR 0x0A]) @ c @ [10] @ out)
    = rbind (parse_batch es out) (\<lambda>files. Inr ((p, c) # files))"
proof -
  let ?h = "i @ CHR '' '' # ''blob'' @ CHR '' '' # str_nat (length c)"
  note parts = plain_parts(1) [OF assms] plain_parts(2) plain_parts(3) [of "length c"]
  have space: "utf8 [CHR '' ''] = [32]" "utf8 [CHR 0x0A] = [10]" by (simp_all add: utf8_def utf8_char_def)
  have "utf8 ?h = utf8 i @ utf8 [CHR '' ''] @ utf8 ''blob'' @ utf8 [CHR '' ''] @ utf8 (str_nat (length c))"
    unfolding utf8_append [symmetric] by simp
  then have h: "10 \<notin> set (utf8 ?h)" using header_bytes parts by (simp only: space) auto
  have out: "utf8 (i @ '' blob '' @ str_nat (length c) @ [CHR 0x0A]) @ c @ [10] @ out = utf8 ?h @ 10 # c @ 10 # out"
    using space(2) utf8_append [of ?h "[CHR 0x0A]"] by simp
  have take: "takeWhile (\<lambda>b. b \<noteq> 10) (utf8 ?h @ 10 # c @ 10 # out) = utf8 ?h" by (rule takeWhile_all_neq [OF h])
  note words = plain_words [OF parts]
  show ?thesis
    unfolding out
    by (simp add: take Let_def ascii_read_back [OF words(2)] words(1) ok_or_def nth_append del: append_Cons append.simps, simp)
qed

lemma batch_roundtrip:
  "\<forall>(p, i, c) \<in> set objects. is_fullmatch git_sha_pattern i \<Longrightarrow>
    parse_batch (map (\<lambda>(p, i, c). (p, i, length c)) objects) (batch_output objects) = Inr (map (\<lambda>(p, i, c). (p, c)) objects)"
proof (induction objects)
  case (Cons x objects)
  obtain p i c where x: "x = (p, i, c)" by (cases x)
  have "is_fullmatch git_sha_pattern i" using Cons.prems x by auto
  from batch_step [OF this, of p c "map (\<lambda>(p, i, c). (p, i, length c)) objects" "batch_output objects"] Cons x
  show ?case by (simp add: batch_output_def del: parse_batch.simps)
qed (simp add: batch_output_def)

section \<open>The two ways to an index\<close>

lemma known_paths_ok: "known_paths what paths = Inr known \<Longrightarrow> known = set paths"
proof -
  assume k: "known_paths what paths = Inr known"
  then obtain ps where "rmap validate_repository_source_path paths = Inr ps" "known = set ps"
    by (auto simp: known_paths_def split: sum.splits)
  with rmap_id [of paths validate_repository_source_path ps] source_path_same show ?thesis by blast
qed

lemma normalize_files_ok:
  "normalize_files excluded files normalized n = Inr (result, m) \<Longrightarrow> \<forall>e \<in> set normalized. fst e \<notin> excluded \<Longrightarrow>
    \<forall>e \<in> set result. fst e \<notin> excluded"
proof (induction excluded files normalized n rule: normalize_files.induct)
  case (2 excluded path content files normalized n)
  then show ?case by (auto simp: rbind_eq_Inr dest: source_path_same split: if_splits)
qed simp

definition listing_ok :: "string set \<Rightarrow> tree_listing \<Rightarrow> bool" where
  "listing_ok excluded ls =
     (tl_discovered ls = length (tl_entries ls) + tl_symlinks_skipped ls + tl_excluded_files_skipped ls
      \<and> (\<forall>e \<in> set (tl_entries ls). fst e \<notin> excluded))"

lemma fields_ok:
  "(case xs of [a, b, c, d] \<Rightarrow> f a b c d | _ \<Rightarrow> Inl e) = Inr r \<Longrightarrow> \<exists>a b c d. xs = [a, b, c, d] \<and> f a b c d = Inr r"
  "(case xs of [a, b, c] \<Rightarrow> g a b c | _ \<Rightarrow> Inl e) = Inr r' \<Longrightarrow> \<exists>a b c. xs = [a, b, c] \<and> g a b c = Inr r'"
  by (auto split: list.split_asm)

lemma tree_entry_ok: "tree_entry excluded raw ls = Inr ls' \<Longrightarrow> listing_ok excluded ls \<Longrightarrow> listing_ok excluded ls'"
  unfolding tree_entry_def
  by (clarsimp simp: listing_ok_def Let_def rbind_eq_Inr dest!: fields_ok(1) split: if_split_asm)
    (auto dest: arg_cong [where f = tl_entries])

lemma parse_batch_paths: "parse_batch es out = Inr files \<Longrightarrow> map fst files = map fst es"
proof (induction es out arbitrary: files rule: parse_batch.induct)
  case (2 path object_id extent entries out)
  then show ?case by (auto simp: rbind_eq_Inr Let_def dest!: fields_ok(2))
qed (auto simp: rbind_eq_Inr)

lemma from_files_sound:
  assumes "from_files sr revision files b excluded_paths priority_paths = Inr ix"
  shows "index_sound b (set excluded_paths) ix \<and> ix_revision ix = revision"
proof -
  from assms obtain priority normalized m where n: "normalize_files (set excluded_paths) files [] 0 = Inr (normalized, m)"
    and x: "build_index sr revision b
       \<lparr>pre_discovered = length normalized + m, pre_symlinks_skipped = 0,
        pre_excluded_files_skipped = m, pre_file_limit_omitted = 0, pre_total_byte_budget_omitted = 0,
        pre_oversized = 0\<rparr> priority normalized = Inr ix"
    unfolding from_files_def by (auto simp: rbind_eq_Inr dest!: known_paths_ok)
  show ?thesis by (rule build_index_sound [OF x]) (use normalize_files_ok [OF n] in auto)
qed

lemma from_git_sound:
  assumes "from_git sr repository revision b excluded_paths priority_paths = Inr ix"
  shows "index_sound b (set excluded_paths) ix \<and> ix_revision ix = revision"
proof -
  from assms obtain git priority listing ls where
    l: "rfold (tree_entry (set excluded_paths)) (nul_tokens listing) empty_listing = Inr ls"
    and x: "(let chosen = fold (select_entry b) (ordered_by_priority priority (tl_entries ls)) empty_selection in
          rbind (if sl_selected chosen = [] then Inr []
                 else rbind (git_run git [''cat-file'', ''--batch''] (sl_total chosen + length (sl_selected chosen) * 128)
                        (Some (batch_input (sl_selected chosen)))) (parse_batch (sl_selected chosen))) (\<lambda>raw_files.
          build_index sr revision b
            \<lparr>pre_discovered = tl_discovered ls, pre_symlinks_skipped = tl_symlinks_skipped ls,
             pre_excluded_files_skipped = tl_excluded_files_skipped ls,
             pre_file_limit_omitted = sl_file_limit_omitted chosen,
             pre_total_byte_budget_omitted = sl_total_byte_budget_omitted chosen,
             pre_oversized = sl_oversized chosen\<rparr> priority raw_files)) = Inr ix"
    unfolding from_git_def by (auto simp: rbind_eq_Inr dest!: known_paths_ok simp del: rfold.simps split: option.splits)
  define chosen where "chosen = fold (select_entry b) (ordered_by_priority priority (tl_entries ls)) empty_selection"
  have ls: "listing_ok (set excluded_paths) ls"
    by (rule rfold_keeps [where P = "listing_ok (set excluded_paths)", OF _ _ l], erule (1) tree_entry_ok)
      (simp add: listing_ok_def empty_listing_def)
  have sel: "selection_ok b snd (tl_entries ls) chosen"
    unfolding chosen_def by (rule fold_invariant [where Q = "\<lambda>e. e \<in> set (tl_entries ls)"])
      (auto intro: select_ok(2) simp: empty_selection_ok)
  have count: "length (sl_selected chosen) + omitted chosen = length (tl_entries ls)"
    unfolding chosen_def fold_counts [of "select_entry b", OF select_counts(2)] by (simp add: empty_selection_def omitted_def)
  from x obtain raw_files where raw: "map fst raw_files = map fst (sl_selected chosen)"
    and y: "build_index sr revision b
            \<lparr>pre_discovered = tl_discovered ls, pre_symlinks_skipped = tl_symlinks_skipped ls,
             pre_excluded_files_skipped = tl_excluded_files_skipped ls,
             pre_file_limit_omitted = sl_file_limit_omitted chosen,
             pre_total_byte_budget_omitted = sl_total_byte_budget_omitted chosen,
             pre_oversized = sl_oversized chosen\<rparr> priority raw_files = Inr ix"
    unfolding Let_def chosen_def [symmetric] by (auto simp: rbind_eq_Inr dest: parse_batch_paths split: if_splits)
  have "length raw_files = length (sl_selected chosen)" using arg_cong [OF raw, of length] by simp
  moreover have "\<forall>e \<in> set raw_files. fst e \<notin> set excluded_paths"
  proof
    fix e assume "e \<in> set raw_files"
    then have "fst e \<in> set (map fst (sl_selected chosen))" unfolding raw [symmetric] by simp
    then show "fst e \<notin> set excluded_paths" using sel ls unfolding selection_ok_def listing_ok_def by fastforce
  qed
  ultimately show ?thesis using ls count by (intro build_index_sound [OF y]) (auto simp: listing_ok_def omitted_def)
qed

definition index_guarantee :: "RepositoryIndexBudget \<Rightarrow> string list \<Rightarrow> Revision \<Rightarrow> exn + RepositoryIndex \<Rightarrow> bool" where
  "index_guarantee b excluded_paths revision built =
     (case built of Inl e \<Rightarrow> True | Inr ix \<Rightarrow> index_sound b (set excluded_paths) ix \<and> ix_revision ix = revision)"


end
