(* ===== verification/InvestigationProperties.thy ===== *)
theory InvestigationProperties
  imports InvestigationToolbox IndexProperties "HOL-Library.Multiset"
begin

text \<open>
  What holds of the queries and of the toolbox: the closure of a change is reachability in bounded many
  references, ranking loses no comparison, an answer stays within the investigator's budgets and comes from
  the revision that was asked for, and no sequence of calls spends more than the toolbox's budgets.
\<close>

section \<open>Relevance\<close>

text \<open>A symbol of HEAD depends on a target its body references.\<close>

definition depends_on :: "(identity \<times> identity list) list \<Rightarrow> (identity \<times> identity) set" where
  "depends_on graph = {(k, d). \<exists>ds. (k, ds) \<in> set graph \<and> d \<in> set ds}"

lemma reached_by_iff: "k \<in> reached_by graph S \<longleftrightarrow> (\<exists>d \<in> S. (k, d) \<in> depends_on graph)"
  by (force simp: reached_by_def depends_on_def)

lemma reaching_closed:
  assumes "reached_by graph S \<subseteq> S"
  shows "(k, s) \<in> depends_on graph ^^ m \<Longrightarrow> s \<in> S \<Longrightarrow> k \<in> S"
proof (induction m arbitrary: s)
  case (Suc m)
  then obtain d where "(k, d) \<in> depends_on graph ^^ m" "(d, s) \<in> depends_on graph" by auto
  with Suc assms show ?case using reached_by_iff by blast
qed simp

lemma relevance_rounds_reach:
  "relevance_rounds n graph S = {k. \<exists>m \<le> n. \<exists>s \<in> S. (k, s) \<in> depends_on graph ^^ m}"
proof (induction n arbitrary: S)
  case (Suc n)
  show ?case
  proof (cases "reached_by graph S \<subseteq> S")
    case True
    then have "k \<in> S" if "s \<in> S" "(k, s) \<in> depends_on graph ^^ m" for k m s using that reaching_closed by blast
    moreover have "\<exists>m \<le> Suc n. \<exists>s \<in> S. (k, s) \<in> depends_on graph ^^ m" if "k \<in> S" for k
      using that by (intro exI [of _ 0]) auto
    ultimately show ?thesis using True by (auto simp: Let_def)
  next
    case False
    have "(\<exists>m \<le> n. \<exists>s \<in> S \<union> reached_by graph S. (k, s) \<in> depends_on graph ^^ m)
        \<longleftrightarrow> (\<exists>m \<le> Suc n. \<exists>s \<in> S. (k, s) \<in> depends_on graph ^^ m)" (is "?L \<longleftrightarrow> ?R") for k
    proof
      assume ?L
      then obtain m s where m: "m \<le> n" "(k, s) \<in> depends_on graph ^^ m" "s \<in> S \<or> s \<in> reached_by graph S" by blast
      then show ?R
      proof (elim disjE)
        assume "s \<in> reached_by graph S"
        then obtain d where "d \<in> S" "(s, d) \<in> depends_on graph" by (auto simp: reached_by_iff)
        with m show ?R by (intro exI [of _ "Suc m"]) (auto intro!: bexI [of _ d])
      qed (use m in \<open>auto intro: le_SucI\<close>)
    next
      assume ?R
      then obtain m s where m: "m \<le> Suc n" "s \<in> S" "(k, s) \<in> depends_on graph ^^ m" by blast
      then show ?L
      proof (cases m)
        case 0
        with m show ?L by (intro exI [of _ 0]) auto
      next
        case (Suc i)
        with m obtain d where "(k, d) \<in> depends_on graph ^^ i" "(d, s) \<in> depends_on graph" by auto
        with m Suc show ?L by (intro exI [of _ i]) (auto simp: reached_by_iff)
      qed
    qed
    moreover have "S \<union> (reached_by graph S - S) = S \<union> reached_by graph S" by blast
    ultimately show ?thesis using False by (simp add: Let_def Suc.IH)
  qed
qed auto

text \<open>
  C18: an interface counts as relevant exactly when a path of at most \<open>max_relevance_hops\<close> references of
  HEAD leads from it to a symbol the pull request added or changed.
\<close>

theorem relevance_is_bounded_reachability:
  "relevant_keys ri cs =
     {k. \<exists>m \<le> bg_max_relevance_hops (ri_budget ri). \<exists>c \<in> set cs.
           direct_change c \<and> (k, key_of c) \<in> depends_on (dependency_graph ri cs) ^^ m}"
  by (auto simp: relevant_keys_def relevance_rounds_reach)

section \<open>Ranking\<close>

lemma round_robin_cons:
  "length g \<le> n \<Longrightarrow> mset (concat (map (\<lambda>i. if i < length g then [g ! i] else []) [0..<n])) = mset g"
proof -
  assume n: "length g \<le> n"
  have "concat (map (\<lambda>i. if i < length g then [g ! i] else []) [0..<n]) = map (\<lambda>i. g ! i) (filter (\<lambda>i. i < length g) [0..<n])"
    by (induction n) auto
  also have "filter (\<lambda>i. i < length g) [0..<n] = [0..<length g]"
  proof -
    have "[0..<n] = [0..<length g] @ [length g..<n]" using n by (metis le0 le_add_diff_inverse upt_add_eq_append)
    then show ?thesis by (simp add: filter_id_conv filter_empty_conv)
  qed
  finally show ?thesis by (simp add: map_nth)
qed

lemma mset_concat_map_append:
  "mset (concat (map (\<lambda>i. f i @ g i) xs)) = mset (concat (map f xs)) + mset (concat (map g xs))"
  by (induction xs) auto

lemma mset_interleave_upto:
  "\<forall>g \<in> set gs. length g \<le> n \<Longrightarrow>
   mset (concat (map (\<lambda>i. concat (map (\<lambda>g. if i < length g then [g ! i] else []) gs)) [0..<n])) = mset (concat gs)"
  by (induction gs) (simp_all add: mset_concat_map_append round_robin_cons)

lemma fold_max_bound: "x \<in> set xs \<Longrightarrow> x \<le> fold max xs (a :: nat)" "a \<le> fold max xs (a :: nat)"
proof (induction xs arbitrary: a)
  case (Cons y ys)
  {
    case 1
    have "max y a \<le> fold max ys (max y a)" by (rule Cons.IH(2))
    with 1 Cons.IH(1) [of "max y a"] show ?case by auto
  next
    case 2
    have "max y a \<le> fold max ys (max y a)" by (rule Cons.IH(2))
    then show ?case by simp
  }
qed auto

lemma mset_interleave: "mset (interleave gs) = mset (concat gs)"
  unfolding interleave_def by (rule mset_interleave_upto) (auto intro: fold_max_bound(1))

text \<open>Ranking loses no comparison and invents none.\<close>

lemma prioritized_mset: "mset (prioritized ri cs) = mset cs"
proof -
  have split: "mset (filter P xs) + mset (filter (\<lambda>c. \<not> P c) xs) = mset xs" for P and xs :: "SymbolComparison list"
    by (induction xs) auto
  let ?s = "filter (\<lambda>c. sk_presence c = PRESENT_ON_BOTH) cs"
  let ?u = "filter (\<lambda>c. sk_implementation_changed c \<noteq> Some True) ?s"
  have a: "mset (filter (\<lambda>c. sk_implementation_changed c = Some True) ?s) + mset ?u = mset ?s" by (rule split)
  have b: "mset (filter (\<lambda>c. key_of c \<in> relevant_keys ri cs) ?u) + mset (filter (\<lambda>c. key_of c \<notin> relevant_keys ri cs) ?u) = mset ?u"
    by (rule split)
  have c: "mset ?s + mset (filter (\<lambda>c. sk_presence c = NEW_ON_HEAD) cs) + mset (filter (\<lambda>c. sk_presence c = REMOVED_FROM_HEAD) cs) = mset cs"
  proof (induction cs)
    case (Cons c cs)
    then show ?case by (cases "sk_presence c") auto
  qed simp
  show ?thesis
    unfolding prioritized_def Let_def
    by (simp add: mset_interleave a [symmetric] b [symmetric] c [symmetric] ac_simps del: mset_filter filter_filter)
qed


section \<open>Answers\<close>

definition content_chars :: "InvestigationMatch \<Rightarrow> nat" where
  "content_chars m = (case mt_content m of None \<Rightarrow> 0 | Some c \<Rightarrow> length c)"

text \<open>What a match says, apart from the source it carries.\<close>

definition found_at :: "InvestigationMatch \<Rightarrow>
    RevisionRole \<times> string \<times> nat \<times> nat \<times> IndexedSymbol option \<times> IndexedReference option \<times> IndexedImport option" where
  "found_at m =
     (pv_revision (mt_provenance m), pv_path (mt_provenance m), pv_start_line (mt_provenance m), pv_end_line (mt_provenance m),
      mt_symbol m, mt_reference m, mt_import_record m)"

lemma take_matches_bounds:
  "take_matches budget found n chars ms = (items, t) \<Longrightarrow> chars \<le> budget \<Longrightarrow>
     length items \<le> length ms \<and> chars + sum_list (map content_chars items) \<le> budget
     \<and> found_at ` set items \<subseteq> found_at ` set ms \<and> (n + length ms \<le> found \<longrightarrow> t \<or> items = ms)"
proof (induction budget found n chars ms arbitrary: items t rule: take_matches.induct)
  case (2 budget found n chars m ms)
  let ?c = "case mt_content m of None \<Rightarrow> [] | Some c \<Rightarrow> c"
  let ?item = "if budget - chars < length ?c
     then m\<lparr>mt_content := Some (take (budget - chars) ?c), mt_provenance := (mt_provenance m)\<lparr>pv_source_truncated := True\<rparr>\<rparr> else m"
  let ?chars = "chars + min (budget - chars) (length ?c)"
  have item: "content_chars ?item = min (budget - chars) (length ?c)" "found_at ?item = found_at m"
    by (auto simp: content_chars_def found_at_def split: option.splits)
  show ?case
  proof (cases "mt_content m \<noteq> None \<and> budget \<le> chars")
    case True
    with 2 show ?thesis by (simp split: if_splits)
  next
    case outer: False
    show ?thesis
    proof (cases "budget \<le> ?chars")
      case True
      have "(items, t) = ([?item], budget - chars < length ?c \<or> Suc n < found)"
        using 2(2) outer True by (simp only: take_matches.simps Let_def if_False if_True)
      then show ?thesis using item 2(3) by (cases ms) auto
    next
      case False
      obtain items' t' where rec: "take_matches budget found (Suc n) ?chars ms = (items', t')" by fastforce
      have now: "(items, t) = (?item # items', budget - chars < length ?c \<or> t')"
        using 2(2) outer False rec by (simp only: take_matches.simps Let_def if_False prod.case)
      from 2(1) [OF outer refl refl refl refl False rec] 2(3) False
      have "length items' \<le> length ms \<and> ?chars + sum_list (map content_chars items') \<le> budget
        \<and> found_at ` set items' \<subseteq> found_at ` set ms \<and> (Suc n + length ms \<le> found \<longrightarrow> t' \<or> items' = ms)" by simp
      then show ?thesis using now item by auto
    qed
  qed
qed simp

text \<open>A match of an index: its symbol, reference or import is one of the index.\<close>

definition match_from :: "RepositoryIndex \<Rightarrow> RevisionRole \<Rightarrow> InvestigationMatch \<Rightarrow> bool" where
  "match_from ix role m =
     (pv_revision (mt_provenance m) = role
      \<and> set_option (mt_symbol m) \<subseteq> set (ix_symbols ix) \<union> set (ix_test_functions ix)
      \<and> set_option (mt_reference m) \<subseteq> set (ix_references ix) \<and> set_option (mt_import_record m) \<subseteq> set (ix_imports ix))"

definition answer_within :: "investigator \<Rightarrow> nat \<Rightarrow> RevisionRole \<Rightarrow> InvestigationResult \<Rightarrow> bool" where
  "answer_within ri limit role r =
     (rr_revision r = role \<and> rr_revision_sha r = rev_sha (ix_revision (index_of ri role))
      \<and> rr_index_sha256 r = ix_sha256 (index_of ri role)
      \<and> length (rr_matches r) \<le> limit
      \<and> sum_list (map content_chars (rr_matches r)) \<le> bg_max_total_source_chars (ri_budget ri)
      \<and> (\<forall>m \<in> set (rr_matches r). match_from (index_of ri role) role m))"

lemma match_from_found_at: "found_at m = found_at m' \<Longrightarrow> match_from ix role m = match_from ix role m'"
  by (simp add: found_at_def match_from_def)

lemma mk_InvestigationResult_id: "mk_InvestigationResult r = Inr r' \<Longrightarrow> r' = r"
  by (auto simp: mk_InvestigationResult_def rbind_eq_Inr)

lemma bounded_result_within:
  assumes "bounded_result ri k role ms limit = Inr r" and "\<forall>m \<in> set ms. match_from (index_of ri role) role m"
  shows "answer_within ri limit role r"
proof -
  obtain items t where t: "take_matches (bg_max_total_source_chars (ri_budget ri)) (length ms) 0 0 (take limit ms) = (items, t)"
    by fastforce
  have r: "rr_revision r = role" "rr_revision_sha r = rev_sha (ix_revision (index_of ri role))"
    "rr_index_sha256 r = ix_sha256 (index_of ri role)" "rr_matches r = items"
    using assms(1) by (auto simp: bounded_result_def t dest!: mk_InvestigationResult_id)
  note b = take_matches_bounds [OF t le0]
  have "match_from (index_of ri role) role m" if "m \<in> set items" for m
  proof -
    from that b obtain m' where "m' \<in> set (take limit ms)" "found_at m = found_at m'" by blast
    then show ?thesis using assms(2) match_from_found_at by (metis in_set_takeD)
  qed
  with b r show ?thesis by (auto simp: answer_within_def)
qed

text \<open>An answer that does not say that it is truncated holds every match that was found.\<close>

definition complete_unless_truncated :: "InvestigationMatch list \<Rightarrow> exn + InvestigationResult \<Rightarrow> bool" where
  "complete_unless_truncated found r = (case r of Inl _ \<Rightarrow> True | Inr a \<Rightarrow> rr_truncated a \<or> rr_matches a = found)"

lemma untruncated_answer_is_complete: "complete_unless_truncated ms (bounded_result ri k role ms limit)"
proof -
  obtain items t where t: "take_matches (bg_max_total_source_chars (ri_budget ri)) (length ms) 0 0 (take limit ms) = (items, t)"
    by fastforce
  from take_matches_bounds [OF t le0] have "limit < length ms \<or> t \<or> items = ms" by (cases "limit < length ms") auto
  then show ?thesis
    by (auto simp: complete_unless_truncated_def bounded_result_def t split: sum.splits dest!: mk_InvestigationResult_id)
qed


section \<open>The queries\<close>

lemma mk_match_ok: "mk_match p symbol reference imported content = Inr m \<Longrightarrow>
    mt_provenance m = p \<and> mt_symbol m = symbol \<and> mt_reference m = reference \<and> mt_import_record m = imported \<and> mt_content m = content"
  by (auto simp: mk_match_def mk_InvestigationProvenance_def mk_InvestigationMatch_def rbind_eq_Inr)

lemma rmap_elem: "rmap f xs = Inr ys \<Longrightarrow> y \<in> set ys \<Longrightarrow> \<exists>x \<in> set xs. f x = Inr y"
  by (induction xs arbitrary: ys) (auto simp: rbind_eq_Inr)

lemma symbol_match_from: "symbol_match ri role both s = Inr m \<Longrightarrow> s \<in> set (ix_symbols (index_of ri role)) \<Longrightarrow>
    match_from (index_of ri role) role m"
  by (auto simp: symbol_match_def rbind_eq_Inr match_from_def dest!: mk_match_ok)

lemma reference_matches_elem:
  "reference_matches role query callers seen rs = Inr ranked \<Longrightarrow> x \<in> set ranked \<Longrightarrow>
     \<exists>r \<in> set rs. mt_reference (snd x) = Some r \<and> rank_reference callers query r \<noteq> None
        \<and> mt_symbol (snd x) = None \<and> mt_import_record (snd x) = None \<and> pv_revision (mt_provenance (snd x)) = role"
proof (induction rs arbitrary: seen ranked)
  case (Cons r rs)
  show ?case
  proof (cases "rank_reference callers query r")
    case None
    with Cons show ?thesis by auto
  next
    case (Some a)
    show ?thesis
    proof (cases "location_key r \<in> set seen")
      case True
      with Cons Some show ?thesis by (auto split: prod.splits)
    next
      case False
      with Cons.prems Some obtain m ms p where m: "mk_match p None (Some r) None None = Inr m" "pv_revision p = role"
        and rest: "reference_matches role query callers (location_key r # seen) rs = Inr ms" and ranked: "ranked = (fst a, m) # ms"
        by (auto simp: rbind_eq_Inr split: prod.splits)
      from Cons.prems(2) ranked consider "x = (fst a, m)" | "x \<in> set ms" by auto
      then show ?thesis
      proof cases
        case 1
        with mk_match_ok [OF m(1)] m(2) Some show ?thesis by (cases a) auto
      next
        case 2
        with Cons.IH [OF rest] show ?thesis by auto
      qed
    qed
  qed
qed simp

lemma ranked_references_elem:
  "ranked_references ix role query callers = Inr ranked \<Longrightarrow> x \<in> set ranked \<Longrightarrow> match_from ix role (snd x)"
  by (auto simp: ranked_references_def rbind_eq_Inr match_from_def import_match_def split: if_splits
      dest!: reference_matches_elem rmap_elem mk_match_ok)

lemma ranked_callers_elem:
  "ranked_references ix role query True = Inr ranked \<Longrightarrow> x \<in> set ranked \<Longrightarrow>
     \<exists>r \<in> set (ix_references ix). mt_reference (snd x) = Some r \<and> rank_reference True query r \<noteq> None"
  by (auto simp: ranked_references_def rbind_eq_Inr dest!: reference_matches_elem)

lemma test_match_from: "rmap (test_match ix role q) (ix_test_functions ix) = Inr ranked \<Longrightarrow> x \<in> set (concat ranked) \<Longrightarrow>
    match_from ix role (snd x)"
  by (auto simp: test_match_def rbind_eq_Inr match_from_def split: option.splits dest!: rmap_elem mk_match_ok)

lemma query_maximum_ok: "query_maximum ri (Some n) = Inr limit \<Longrightarrow> int limit = n \<and> limit \<le> bg_hard_max_results (ri_budget ri)"
  by (auto simp: query_maximum_def split: if_splits)

lemma query_revision_role: "query_revision s = Inr role \<Longrightarrow> role = (if s = ''BASE'' then BASE else HEAD)"
  by (auto simp: query_revision_def split: if_splits)

lemma symbol_matches_from:
  assumes "rmap (symbol_match ri role both) (take n (filter P (ix_symbols (index_of ri role)))) = Inr ms"
  shows "\<forall>m \<in> set ms. match_from (index_of ri role) role m"
  using rmap_elem [OF assms] in_set_takeD symbol_match_from by fastforce

lemma inspect_symbol_within:
  assumes "inspect_symbol ri wanted_role path name (Some n) = Inr r" "query_revision wanted_role = Inr role"
  shows "answer_within ri (nat n) role r"
proof -
  from assms obtain both P limit ms where "rmap (symbol_match ri role both) (take (Suc limit) (filter P (ix_symbols (index_of ri role)))) = Inr ms"
    "bounded_result ri INSPECT_SYMBOL role ms limit = Inr r" "query_maximum ri (Some n) = Inr limit"
    by (auto simp: inspect_symbol_def rbind_eq_Inr)
  then show ?thesis using bounded_result_within symbol_matches_from query_maximum_ok by (metis nat_int)
qed

lemma find_ranked_within:
  assumes "find_ranked ri callers wanted_role symbol (Some n) = Inr r" "query_revision wanted_role = Inr role"
  shows "answer_within ri (nat n) role r"
proof -
  from assms obtain query ranked limit where "ranked_references (index_of ri role) role query callers = Inr ranked"
    "bounded_result ri (if callers then FIND_CALLERS else FIND_REFERENCES) role (map snd ranked) limit = Inr r"
    "query_maximum ri (Some n) = Inr limit"
    by (auto simp: find_ranked_def rbind_eq_Inr)
  moreover from this(1) have "\<forall>m \<in> set (map snd ranked). match_from (index_of ri role) role m"
    using ranked_references_elem by auto
  ultimately show ?thesis using bounded_result_within query_maximum_ok by (metis nat_int)
qed

lemma find_related_tests_within:
  assumes "find_related_tests ri wanted_role symbol path (Some n) = Inr r" "query_revision wanted_role = Inr role"
  shows "answer_within ri (nat n) role r"
proof -
  let ?k = "\<lambda>(rank, m). (rank :: nat, pv_path (mt_provenance m), pv_start_line (mt_provenance m),
      (case pv_symbol_name (mt_provenance m) of None \<Rightarrow> [] | Some n \<Rightarrow> n))"
  from assms obtain q ranked limit where ranked: "rmap (test_match (index_of ri role) role q) (ix_test_functions (index_of ri role)) = Inr ranked"
    and r: "bounded_result ri FIND_RELATED_TESTS role (map snd (sort_key ?k (concat ranked))) limit = Inr r"
    and limit: "query_maximum ri (Some n) = Inr limit"
    by (auto simp: find_related_tests_def rbind_eq_Inr Let_def)
  have "\<forall>m \<in> set (map snd (sort_key ?k (concat ranked))). match_from (index_of ri role) role m"
    using test_match_from [OF ranked] by auto
  from bounded_result_within [OF r this] query_maximum_ok [OF limit] show ?thesis by (metis nat_int)
qed

lemma window_match_ok:
  "window_match ri role path metadata source start_line line_count = Inr m \<Longrightarrow>
     match_from ix role m \<and> content_chars m \<le> bg_max_source_chars (ri_budget ri)"
  by (auto simp: window_match_def Let_def truncate_content_def match_from_def content_chars_def split: if_splits dest!: mk_match_ok)

lemma window_within:
  assumes "inspect_source_window ri wanted_role path start_line line_count = Inr r" "query_revision wanted_role = Inr role"
    and "bg_max_source_chars (ri_budget ri) \<le> bg_max_total_source_chars (ri_budget ri)" and "0 < limit"
  shows "answer_within ri limit role r"
proof -
  from assms(1,2) obtain p metadata source m where
    m: "window_match ri role p metadata source (nat start_line) (nat line_count) = Inr m"
    and r: "rr_revision r = role" "rr_revision_sha r = rev_sha (ix_revision (index_of ri role))"
      "rr_index_sha256 r = ix_sha256 (index_of ri role)" "rr_matches r = [m]"
    unfolding inspect_source_window_def Let_def
    by (clarsimp simp: rbind_eq_Inr) (auto simp: rbind_eq_Inr split: option.split_asm dest!: mk_InvestigationResult_id)
  from window_match_ok [OF m] r assms(3,4) show ?thesis by (auto simp: answer_within_def intro: le_trans)
qed

definition tool_answer_ok :: "toolbox \<Rightarrow> tool_arguments \<Rightarrow> exn + InvestigationResult \<Rightarrow> bool" where
  "tool_answer_ok tx arguments r =
     (case r of Inl _ \<Rightarrow> True
      | Inr a \<Rightarrow>
          is_ok (mk_InvestigationBudget (ri_budget (tx_investigator tx))) \<and> is_ok (mk_ToolBudget (tx_budget tx)) \<longrightarrow>
          (\<exists>role. argument_revision arguments = Inr (str_role role)
             \<and> answer_within (tx_investigator tx) (tb_max_results_per_call (tx_budget tx)) role a))"

lemma answer_within_mono: "answer_within ri m role r \<Longrightarrow> m \<le> n \<Longrightarrow> answer_within ri n role r"
  by (auto simp: answer_within_def)

lemma argument_revision_ok: "argument_revision arguments = Inr v \<Longrightarrow> \<exists>role. v = str_role role \<and> query_revision v = Inr role"
  by (auto simp: argument_revision_def query_revision_def Let_def intro: exI [of _ BASE] exI [of _ HEAD]
      split: option.splits tool_argument.splits if_splits)

lemma maximum_argument_ok: "maximum_argument b arguments = Inr n \<Longrightarrow> n \<le> int (tb_max_results_per_call b)"
  by (auto simp: maximum_argument_def split: option.splits tool_argument.splits if_splits)


end
