(* ===== verification/ClaimInvestigation.thy ===== *)
theory ClaimInvestigation
  imports InvestigationTools
begin

text \<open>
  \<open>src/patchproof/claim_investigation.py\<close>: the deterministic starting context of an investigation. An
  observable is identified by its path and qualified name; the planner ranks the shared observables a pull
  request plausibly affects, traces new symbols back to the shared ones that call them, and carries the
  partiality of the indexes along.
\<close>

section \<open>Observables\<close>

datatype ObservableRank = EXPORTED_SHARED | PUBLIC_SHARED | INTERNAL_SHARED | PRIVATE_SHARED

fun rank_priority :: "ObservableRank \<Rightarrow> nat" where
  "rank_priority EXPORTED_SHARED = 0"
| "rank_priority PUBLIC_SHARED = 1"
| "rank_priority INTERNAL_SHARED = 2"
| "rank_priority PRIVATE_SHARED = 3"

fun str_rank :: "ObservableRank \<Rightarrow> string" where
  "str_rank EXPORTED_SHARED = ''EXPORTED_SHARED''"
| "str_rank PUBLIC_SHARED = ''PUBLIC_SHARED''"
| "str_rank INTERNAL_SHARED = ''INTERNAL_SHARED''"
| "str_rank PRIVATE_SHARED = ''PRIVATE_SHARED''"

datatype ObservableSelectionReason =
    IMPLEMENTATION_CHANGED | REACHES_NEW_HEAD_SYMBOL | REACHES_REMOVED_BASE_SYMBOL | DISCOVERED_DURING_INVESTIGATION
  | REACHES_CHANGED_SYMBOL

definition OBSERVABLE_KINDS :: "ObservableSymbolKind set" where
  "OBSERVABLE_KINDS = {FUNCTION, ASYNC_FUNCTION, METHOD, ASYNC_METHOD, CLASS, PROPERTY, MODULE_VALUE}"

definition mk_ObservableIdentity :: "identity \<Rightarrow> exn + identity" where
  "mk_ObservableIdentity k =
     rbind (checks
       [(\<not> source_path_ok (fst k), ValidationError ''path''),
        (\<not> len_between 1 512 (snd k), ValidationError ''qualified_name'')]) (\<lambda>_. Inr k)"

text \<open>\<open>parse\<close> of the textual form, which must have exactly one separator.\<close>

fun count_text :: "nat \<Rightarrow> string \<Rightarrow> string \<Rightarrow> nat" where
  "count_text 0 sep s = 0"
| "count_text (Suc fuel) sep s =
     (if s = [] then 0
      else if startswith s sep then Suc (count_text fuel sep (drop (length sep) s)) else count_text fuel sep (drop 1 s))"

fun split_at_text :: "string \<Rightarrow> string \<Rightarrow> string \<times> string" where
  "split_at_text sep [] = ([], [])"
| "split_at_text sep (c # s) =
     (if startswith (c # s) sep then ([], drop (length sep) (c # s))
      else case split_at_text sep s of (a, b) \<Rightarrow> (c # a, b))"

definition IDENTITY_SEPARATOR :: string where
  "IDENTITY_SEPARATOR = ''::''"

definition parse_identity :: "string \<Rightarrow> exn + identity" where
  "parse_identity v =
     (if count_text (length v) IDENTITY_SEPARATOR v \<noteq> 1
      then Inl (ValueError ''observable identity must be exactly path::qualified_name'')
      else mk_ObservableIdentity (split_at_text IDENTITY_SEPARATOR v))"

record RankedObservable =
  ro_identity :: identity
  ro_kind :: ObservableSymbolKind
  ro_rank :: ObservableRank
  ro_public :: bool
  ro_exported :: "bool option"
  ro_implementation_changed :: bool
  ro_reasons :: "ObservableSelectionReason list"
  ro_reaches_new_head_symbols :: "string list"
  ro_base_start_line :: nat
  ro_base_end_line :: nat
  ro_head_start_line :: nat
  ro_head_end_line :: nat

definition mk_RankedObservable :: "RankedObservable \<Rightarrow> exn + RankedObservable" where
  "mk_RankedObservable o' =
     rbind (checks
       [(\<not> len_between 1 4 (ro_reasons o'), ValidationError ''reasons''),
        (8 < length (ro_reaches_new_head_symbols o'), ValidationError ''reaches_new_head_symbols''),
        (0 \<in> {ro_base_start_line o', ro_base_end_line o', ro_head_start_line o', ro_head_end_line o'}, ValidationError ''start_line''),
        (ro_base_end_line o' < ro_base_start_line o' \<or> ro_head_end_line o' < ro_head_start_line o',
         ValidationError ''observable line ranges must be ordered'')]) (\<lambda>_. Inr o')"

definition observable_sort_key :: "RankedObservable \<Rightarrow> nat \<times> nat \<times> string \<times> string" where
  "observable_sort_key o' =
     (rank_priority (ro_rank o'), if ro_implementation_changed o' then 0 else 1, fst (ro_identity o'), snd (ro_identity o'))"

record NewHeadSymbol =
  nh_identity :: identity
  nh_kind :: ObservableSymbolKind
  nh_public :: bool
  nh_reached_by :: "string list"

record IndexCoverage =
  iq_base_index_sha256 :: string
  iq_head_index_sha256 :: string
  iq_base_truncated :: bool
  iq_head_truncated :: bool
  iq_base_syntax_errors :: nat
  iq_head_syntax_errors :: nat
  iq_observables_truncated :: bool

definition coverage_complete :: "IndexCoverage \<Rightarrow> bool" where
  "coverage_complete c = (\<not> (iq_base_truncated c \<or> iq_head_truncated c \<or> iq_observables_truncated c))"

definition coverage_from_stats :: "CrossRevisionObservables \<Rightarrow> exn + IndexCoverage" where
  "coverage_from_stats ob =
     rbind (checks
       [(\<not> is_sha256_hex (ph2_base_index_sha256 ob), ValidationError ''base_index_sha256''),
        (\<not> is_sha256_hex (ph2_head_index_sha256 ob), ValidationError ''head_index_sha256'')]) (\<lambda>_.
     Inr \<lparr>iq_base_index_sha256 = ph2_base_index_sha256 ob, iq_head_index_sha256 = ph2_head_index_sha256 ob,
          iq_base_truncated = ss_truncated (ph2_base_index_stats ob), iq_head_truncated = ss_truncated (ph2_head_index_stats ob),
          iq_base_syntax_errors = ss_syntax_errors (ph2_base_index_stats ob),
          iq_head_syntax_errors = ss_syntax_errors (ph2_head_index_stats ob), iq_observables_truncated = ph2_truncated ob\<rparr>)"

record InvestigationStartingContext =
  ic_base_sha :: string
  ic_head_sha :: string
  ic_coverage :: IndexCoverage
  ic_shared_observables :: "RankedObservable list"
  ic_new_head_symbols :: "NewHeadSymbol list"
  ic_removed_base_symbols :: "string list"
  ic_related_tests :: "string list"
  ic_changed_symbol_names :: "string list"
  ic_notes :: "string list"

definition mk_InvestigationStartingContext :: "InvestigationStartingContext \<Rightarrow> exn + InvestigationStartingContext" where
  "mk_InvestigationStartingContext c =
     rbind (checks
       [(40 < length (ic_shared_observables c), ValidationError ''shared_observables''),
        (20 < length (ic_new_head_symbols c), ValidationError ''new_head_symbols''),
        (20 < length (ic_removed_base_symbols c), ValidationError ''removed_base_symbols''),
        (20 < length (ic_related_tests c), ValidationError ''related_tests''),
        (80 < length (ic_changed_symbol_names c), ValidationError ''changed_symbol_names''),
        (8 < length (ic_notes c), ValidationError ''notes'')]) (\<lambda>_. Inr c)"

definition context_observable :: "InvestigationStartingContext \<Rightarrow> identity \<Rightarrow> RankedObservable option" where
  "context_observable c k = find (\<lambda>o'. ro_identity o' = k) (ic_shared_observables c)"

record StartingContextBudget =
  sb_max_shared_observables :: nat
  sb_max_new_head_symbols :: nat
  sb_max_removed_symbols :: nat
  sb_max_related_tests :: nat
  sb_max_caller_traces :: nat
  sb_max_callers_per_symbol :: nat

definition default_context_budget :: StartingContextBudget where
  "default_context_budget =
     \<lparr>sb_max_shared_observables = 12, sb_max_new_head_symbols = 8, sb_max_removed_symbols = 8, sb_max_related_tests = 8,
      sb_max_caller_traces = 6, sb_max_callers_per_symbol = 10\<rparr>"

definition mk_StartingContextBudget :: "StartingContextBudget \<Rightarrow> exn + StartingContextBudget" where
  "mk_StartingContextBudget b =
     rbind (checks
       [(0 \<in> {sb_max_shared_observables b, sb_max_new_head_symbols b, sb_max_removed_symbols b, sb_max_related_tests b,
              sb_max_caller_traces b, sb_max_callers_per_symbol b}, ValueError ''starting-context budget must be positive''),
        (40 < sb_max_shared_observables b \<or> 20 < sb_max_new_head_symbols b,
         ValueError ''starting-context budget exceeds the prompt-safe schema limits'')]) (\<lambda>_. Inr b)"

definition rank_observable :: "IndexedSymbol \<Rightarrow> IndexedSymbol option \<Rightarrow> ObservableRank" where
  "rank_observable s parent =
     (if \<not> sy_public s then PRIVATE_SHARED
      else if sy_exported s = Some True then EXPORTED_SHARED
      else if sy_exported s = Some False then
        (case parent of
           Some p \<Rightarrow> if sy_public p \<and> sy_exported p \<noteq> Some False then PUBLIC_SHARED else INTERNAL_SHARED
         | None \<Rightarrow> INTERNAL_SHARED)
      else PUBLIC_SHARED)"

section \<open>The planner\<close>

record planner =
  pn2_investigator :: investigator
  pn2_budget :: StartingContextBudget

definition query_failed :: "exn \<Rightarrow> bool" where
  "query_failed e = (case e of InvestigationQueryError _ \<Rightarrow> True | _ \<Rightarrow> False)"


definition symbol_identity :: "IndexedSymbol \<Rightarrow> exn + identity" where
  "symbol_identity s = mk_ObservableIdentity (identity_of s)"

fun caller_identities :: "IndexedSymbol \<Rightarrow> InvestigationMatch list \<Rightarrow> identity list \<Rightarrow> exn + identity list" where
  "caller_identities s [] found = Inr found"
| "caller_identities s (m # ms) found =
     (case mt_reference m of
        None \<Rightarrow> caller_identities s ms found
      | Some r \<Rightarrow>
          (if ir_scope r = ''<module>'' \<or> (ir_path r, ir_scope r) = identity_of s then caller_identities s ms found
           else rbind (mk_ObservableIdentity (ir_path r, ir_scope r)) (\<lambda>k.
             caller_identities s ms (if k \<in> set found then found else found @ [k]))))"

definition callers_of :: "planner \<Rightarrow> IndexedSymbol \<Rightarrow> exn + identity list" where
  "callers_of pl s =
     (case find_callers (pn2_investigator pl) ''HEAD'' (sy_qualified_name s) (Some (int (sb_max_callers_per_symbol (pn2_budget pl)))) of
        Inl e \<Rightarrow> if query_failed e then Inr [] else Inl e
      | Inr result \<Rightarrow> caller_identities s (rr_matches result) [])"

text \<open>The callers of the traced symbols: pairs of a caller's text and a new symbol's qualified name.\<close>

definition caller_pairs :: "planner \<Rightarrow> IndexedSymbol list \<Rightarrow> exn + (string \<times> string) list" where
  "caller_pairs pl traced =
     rbind (rmap (\<lambda>s. rbind (callers_of pl s) (\<lambda>ks. Inr (map (\<lambda>k. (identity_text k, sy_qualified_name s)) ks))) traced)
       (\<lambda>ps. Inr (concat ps))"

definition reached_from :: "(string \<times> string) list \<Rightarrow> string \<Rightarrow> string list" where
  "reached_from pairs name = take 8 (sort (remdups (map fst (filter (\<lambda>(_, s). s = name) pairs))))"

definition reaches :: "(string \<times> string) list \<Rightarrow> string \<Rightarrow> string list" where
  "reaches pairs caller = take 8 (sort (remdups (map snd (filter (\<lambda>(c, _). c = caller) pairs))))"

definition parent_symbol :: "RepositoryIndex \<Rightarrow> IndexedSymbol \<Rightarrow> IndexedSymbol option" where
  "parent_symbol ix s =
     (case sy_parent_symbol s of
        None \<Rightarrow> None
      | Some p \<Rightarrow> if p = [] then None else selected_symbols None None ix (sy_path s, p))"

text \<open>Why a shared observable is offered.\<close>

definition observable_reasons :: "SymbolComparison \<Rightarrow> string list \<Rightarrow> bool \<Rightarrow> ObservableSelectionReason list" where
  "observable_reasons c reached relevant =
     (if sk_implementation_changed c = Some True then [IMPLEMENTATION_CHANGED] else [])
     @ (if reached \<noteq> [] then [REACHES_NEW_HEAD_SYMBOL] else [])
     @ (if relevant \<and> sk_implementation_changed c \<noteq> Some True then [REACHES_CHANGED_SYMBOL] else [])"

definition ranked_comparison ::
    "planner \<Rightarrow> (string \<times> string) list \<Rightarrow> string set \<Rightarrow> SymbolComparison \<Rightarrow> exn + RankedObservable list" where
  "ranked_comparison pl pairs relevant c =
     (case (sk_base c, sk_head c) of
        (Some b, Some h) \<Rightarrow>
          (if sk_presence c \<noteq> PRESENT_ON_BOTH \<or> sy_kind h \<notin> OBSERVABLE_KINDS then Inr []
           else rbind (symbol_identity h) (\<lambda>k.
             let reached = reaches pairs (identity_text k);
                 reasons = observable_reasons c reached (identity_text k \<in> relevant) in
             if reasons = [] then Inr []
             else rbind (mk_RankedObservable
               \<lparr>ro_identity = k, ro_kind = sy_kind h,
                ro_rank = rank_observable h (parent_symbol (ri_head (pn2_investigator pl)) h),
                ro_public = sy_public h, ro_exported = sy_exported h,
                ro_implementation_changed = (sk_implementation_changed c = Some True), ro_reasons = reasons,
                ro_reaches_new_head_symbols = reached,
                ro_base_start_line = sy_start_line b, ro_base_end_line = sy_end_line b,
                ro_head_start_line = sy_start_line h, ro_head_end_line = sy_end_line h\<rparr>) (\<lambda>o'. Inr [o'])))
      | _ \<Rightarrow> Inr [])"

definition rank_shared ::
    "planner \<Rightarrow> SymbolComparison list \<Rightarrow> (string \<times> string) list \<Rightarrow> string set \<Rightarrow> exn + RankedObservable list" where
  "rank_shared pl cs pairs relevant =
     rbind (rmap (ranked_comparison pl pairs relevant) cs) (\<lambda>ranked. Inr (sort_key observable_sort_key (concat ranked)))"

text \<open>The tests of one observable, added until the budget of tests is used.\<close>

fun add_tests :: "nat \<Rightarrow> InvestigationMatch list \<Rightarrow> string list \<Rightarrow> exn + string list" where
  "add_tests limit [] found = Inr found"
| "add_tests limit (m # ms) found =
     (case mt_symbol m of
        None \<Rightarrow> add_tests limit ms found
      | Some s \<Rightarrow>
          rbind (symbol_identity s) (\<lambda>k.
          let found = (if identity_text k \<in> set found then found else found @ [identity_text k]) in
          if limit \<le> length found then Inr found else add_tests limit ms found))"

fun related_tests :: "planner \<Rightarrow> RankedObservable list \<Rightarrow> string list \<Rightarrow> exn + string list" where
  "related_tests pl [] found = Inr found"
| "related_tests pl (o' # os) found =
     (let limit = sb_max_related_tests (pn2_budget pl) in
      if limit \<le> length found then Inr found
      else case find_related_tests (pn2_investigator pl) ''HEAD'' (Some (snd (ro_identity o'))) None (Some (int limit)) of
        Inl e \<Rightarrow> if query_failed e then related_tests pl os found else Inl e
      | Inr result \<Rightarrow> rbind (add_tests limit (rr_matches result) found) (related_tests pl os))"

definition context_notes :: "IndexCoverage \<Rightarrow> RankedObservable list \<Rightarrow> IndexedSymbol list \<Rightarrow> string list" where
  "context_notes coverage selected new_head =
     (if \<not> coverage_complete coverage
      then [''One or both repository indexes are partial. Absence of a symbol from this context is NOT evidence that the symbol is absent from the revision.'']
      else [])
     @ (if selected = []
        then [''No shared observable was found whose implementation changed or which reaches a symbol introduced by this pull request.'']
        else [])
     @ (if new_head \<noteq> [] \<and> \<not> list_ex (\<lambda>o'. ro_reaches_new_head_symbols o' \<noteq> []) selected
        then [''This pull request introduces HEAD-only symbols with no statically identified shared caller. A HEAD-only symbol cannot be the differential interface; investigate for a shared observable that changed behavior.'']
        else [])"

definition new_head_symbol :: "(string \<times> string) list \<Rightarrow> IndexedSymbol \<Rightarrow> exn + NewHeadSymbol" where
  "new_head_symbol pairs s =
     rbind (symbol_identity s) (\<lambda>k.
     Inr \<lparr>nh_identity = k, nh_kind = sy_kind s, nh_public = sy_public s, nh_reached_by = reached_from pairs (sy_qualified_name s)\<rparr>)"

definition removed_symbols :: "planner \<Rightarrow> IndexedSymbol list \<Rightarrow> exn + string list" where
  "removed_symbols pl symbols =
     rbind (rmap symbol_identity (filter (\<lambda>s. sy_kind s \<in> OBSERVABLE_KINDS) symbols)) (\<lambda>ks.
     Inr (take (sb_max_removed_symbols (pn2_budget pl)) (map identity_text ks)))"

definition build_context :: "planner \<Rightarrow> exn + InvestigationStartingContext" where
  "build_context pl =
     (let ri = pn2_investigator pl; b = pn2_budget pl in
      rbind (compare_observables ri None) (\<lambda>ob.
      rbind (coverage_from_stats ob) (\<lambda>coverage.
      let new_head = take (sb_max_new_head_symbols b) (filter (\<lambda>s. sy_kind s \<in> OBSERVABLE_KINDS) (ob_new_on_head ob)) in
      rbind (caller_pairs pl (take (sb_max_caller_traces b) new_head)) (\<lambda>pairs.
      rbind (removed_symbols pl (ob_removed_from_head ob)) (\<lambda>removed.
      rbind (changed_symbol_names ri) (\<lambda>changed.
      rbind (relevance_identities ri) (\<lambda>relevant.
      rbind (rank_shared pl (ob_present_on_both ob) pairs relevant) (\<lambda>ranked.
      let selected = take (sb_max_shared_observables b) ranked in
      rbind (rmap (new_head_symbol pairs) new_head) (\<lambda>new_symbols.
      rbind (related_tests pl (take (sb_max_caller_traces b) selected) []) (\<lambda>tests.
      mk_InvestigationStartingContext
        \<lparr>ic_base_sha = rev_sha (ix_revision (ri_base ri)), ic_head_sha = rev_sha (ix_revision (ri_head ri)),
         ic_coverage = coverage, ic_shared_observables = selected, ic_new_head_symbols = new_symbols,
         ic_removed_base_symbols = removed, ic_related_tests = tests,
         ic_changed_symbol_names =
           take 80 (sort (remdups (changed @ map (\<lambda>s. leaf_of (sy_qualified_name s)) new_head))),
         ic_notes = context_notes coverage selected new_head\<rparr>))))))))))"

end
