(* ===== verification/ClaimInvestigator.thy ===== *)
theory ClaimInvestigator
  imports ClaimAgent ClaimInvestigation InvestigationToolbox
begin

text \<open>
  \<open>src/patchproof/claim_investigator.py\<close>: the loop between the model and the toolbox. Each turn the model
  gives one decision; a batch of tool calls is executed and shown to it, a conclusion is grounded in the
  two indexes and becomes the claim the pipeline expects. The model and the decoding of its JSON are
  arguments; a decoded decision is checked here.
\<close>

section \<open>Decisions\<close>

datatype InvestigatorAction = INVESTIGATE | CONCLUDE

record ToolCallRequest =
  tr_tool :: string
  tr_revision :: string
  tr_path :: "string option"
  tr_qualified_name :: "string option"
  tr_symbol :: "string option"
  tr_start_line :: "int option"
  tr_line_count :: "int option"

definition tool_request_ok :: "ToolCallRequest \<Rightarrow> bool" where
  "tool_request_ok r =
     (len_between 1 64 (tr_tool r) \<and> length (tr_revision r) \<le> 8 \<and> max_len_opt 1024 (tr_path r)
      \<and> max_len_opt 512 (tr_qualified_name r) \<and> max_len_opt 512 (tr_symbol r)
      \<and> (case tr_start_line r of None \<Rightarrow> True | Some n \<Rightarrow> 1 \<le> n) \<and> (case tr_line_count r of None \<Rightarrow> True | Some n \<Rightarrow> 1 \<le> n))"

definition supplied :: "string \<Rightarrow> ('a \<Rightarrow> tool_argument) \<Rightarrow> 'a option \<Rightarrow> tool_arguments" where
  "supplied key f v = (case v of None \<Rightarrow> [] | Some a \<Rightarrow> [(key, f a)])"

definition to_arguments :: "ToolCallRequest \<Rightarrow> tool_arguments" where
  "to_arguments r =
     [(''revision'', AText (tr_revision r))]
     @ supplied ''path'' AText (tr_path r) @ supplied ''qualified_name'' AText (tr_qualified_name r)
     @ supplied ''symbol'' AText (tr_symbol r) @ supplied ''start_line'' AInt (tr_start_line r)
     @ supplied ''line_count'' AInt (tr_line_count r)"

record InvestigatorClaimDraft =
  id_summary :: string
  id_interface_path :: string
  id_interface_qualified_name :: string
  id_observable_operation :: string
  id_trigger_condition :: string
  id_expected_head_observation :: string
  id_expected_base_hypothesis :: string
  id_action :: string
  id_expected_behavior :: string
  id_preconditions :: "string list"
  id_confidence :: rat

definition investigator_draft_ok :: "InvestigatorClaimDraft \<Rightarrow> bool" where
  "investigator_draft_ok d =
     (len_between 1 220 (id_summary d) \<and> len_between 1 1024 (id_interface_path d)
      \<and> len_between 1 512 (id_interface_qualified_name d) \<and> len_between 1 220 (id_observable_operation d)
      \<and> len_between 1 220 (id_trigger_condition d) \<and> len_between 1 280 (id_expected_head_observation d)
      \<and> len_between 1 280 (id_expected_base_hypothesis d) \<and> len_between 1 350 (id_action d)
      \<and> len_between 1 450 (id_expected_behavior d) \<and> length (id_preconditions d) \<le> 4
      \<and> preconditions_ok 220 (id_preconditions d) \<and> 65 / 100 \<le> id_confidence d \<and> id_confidence d \<le> 1)"

record InvestigatorDecision =
  dc_action :: InvestigatorAction
  dc_reasoning :: string
  dc_tool_calls :: "ToolCallRequest list"
  dc_disposition :: "ClaimSelectionDisposition option"
  dc_claim :: "InvestigatorClaimDraft option"

text \<open>\<open>validate_action\<close>.\<close>

definition action_ok :: "InvestigatorDecision \<Rightarrow> bool" where
  "action_ok d =
     (if dc_action d = INVESTIGATE then dc_tool_calls d \<noteq> [] \<and> dc_claim d = None \<and> dc_disposition d = None
      else case dc_disposition d of None \<Rightarrow> False | Some p \<Rightarrow> (p = SELECTED) = (dc_claim d \<noteq> None))"

definition decision_ok :: "InvestigatorDecision \<Rightarrow> bool" where
  "decision_ok d =
     (len_between 1 700 (dc_reasoning d) \<and> length (dc_tool_calls d) \<le> 4 \<and> list_all tool_request_ok (dc_tool_calls d)
      \<and> (case dc_claim d of None \<Rightarrow> True | Some c \<Rightarrow> investigator_draft_ok c) \<and> action_ok d)"

text \<open>\<open>model_validate_json\<close>: \<open>decode\<close> gives the fields of a well-typed document.\<close>

definition decide :: "(string \<Rightarrow> InvestigatorDecision option) \<Rightarrow> string \<Rightarrow> InvestigatorDecision option" where
  "decide decode response = (case decode response of None \<Rightarrow> None | Some d \<Rightarrow> if decision_ok d then Some d else None)"

section \<open>Turns\<close>

record observation =
  on_tool :: string
  on_arguments :: tool_arguments
  on_result :: payload

record InvestigatorTurnRequest =
  tu_narrative :: PullRequestNarrative
  tu_starting_context :: InvestigationStartingContext
  tu_diff :: string
  tu_observations :: "observation list"
  tu_budget_note :: string

definition mk_InvestigatorTurnRequest :: "InvestigatorTurnRequest \<Rightarrow> exn + InvestigatorTurnRequest" where
  "mk_InvestigatorTurnRequest r =
     rbind (checks
       [(14000 < length (tu_diff r), ValidationError ''diff''),
        (16 < length (tu_observations r), ValidationError ''observations''),
        (200 < length (tu_budget_note r), ValidationError ''budget_note'')]) (\<lambda>_. Inr r)"

record RawInvestigatorResponse =
  rv_text :: string
  rv_usage :: model_usage

record InvestigationTranscript =
  it_turns :: nat
  it_tool_calls :: "ToolCallRecord list"
  it_starting_context_sha256 :: string
  it_response_sha256 :: "string list"

definition mk_InvestigationTranscript :: "InvestigationTranscript \<Rightarrow> exn + InvestigationTranscript" where
  "mk_InvestigationTranscript t =
     rbind (checks
       [(it_turns t = 0, ValidationError ''turns''), (16 < length (it_tool_calls t), ValidationError ''tool_calls''),
        (\<not> is_sha256_hex (it_starting_context_sha256 t), ValidationError ''starting_context_sha256''),
        (8 < length (it_response_sha256 t), ValidationError ''response_sha256'')]) (\<lambda>_. Inr t)"

definition successful_tool_calls :: "InvestigationTranscript \<Rightarrow> nat" where
  "successful_tool_calls t = length (filter (\<lambda>c. tc_status c = OK) (it_tool_calls t))"

record ClaimInvestigationResult =
  cv_agent_result :: ClaimAgentResult
  cv_transcript :: InvestigationTranscript
  cv_starting_context :: InvestigationStartingContext

text \<open>An exception that leaves the investigator, with the transcript an invalid output carries.\<close>

type_synonym investigation_failure = "exn \<times> InvestigationTranscript option"

record 'w claim_investigator =
  ci_model :: "InvestigatorTurnRequest \<Rightarrow> ('w, exn, RawInvestigatorResponse) prog"
  ci_decode :: "string \<Rightarrow> InvestigatorDecision option"
  ci_context_json :: "InvestigationStartingContext \<Rightarrow> string"
  ci_planner :: planner
  ci_tool_budget :: ToolBudget
  ci_max_response_chars :: nat

definition mk_claim_investigator ::
    "(InvestigatorTurnRequest \<Rightarrow> ('w, exn, RawInvestigatorResponse) prog) \<Rightarrow> (string \<Rightarrow> InvestigatorDecision option)
     \<Rightarrow> (InvestigationStartingContext \<Rightarrow> string) \<Rightarrow> planner \<Rightarrow> ToolBudget option \<Rightarrow> int \<Rightarrow> exn + 'w claim_investigator" where
  "mk_claim_investigator model decode context_json pl budget max_response_chars =
     (if max_response_chars \<le> 0 then Inl (ValueError ''investigator response budget must be positive'')
      else Inr \<lparr>ci_model = model, ci_decode = decode, ci_context_json = context_json, ci_planner = pl,
                ci_tool_budget = (case budget of None \<Rightarrow> default_tool_budget | Some b \<Rightarrow> b),
                ci_max_response_chars = nat max_response_chars\<rparr>)"

text \<open>The local variables of \<open>investigate\<close>.\<close>

record investigation =
  iv_context :: InvestigationStartingContext
  iv_context_sha :: string
  iv_toolbox :: toolbox
  iv_observations :: "observation list"
  iv_response_hashes :: "string list"
  iv_grounded_ranges :: "(string \<times> nat \<times> nat) set"
  iv_discovered :: "string set"
  iv_turns :: nat

definition transcript_of :: "investigation \<Rightarrow> InvestigationTranscript" where
  "transcript_of iv =
     \<lparr>it_turns = iv_turns iv, it_tool_calls = tx_calls (iv_toolbox iv), it_starting_context_sha256 = iv_context_sha iv,
      it_response_sha256 = take 8 (iv_response_hashes iv)\<rparr>"

text \<open>\<open>_invalid_output\<close>: building the transcript may itself fail.\<close>

definition invalid_investigation ::
    "investigation \<Rightarrow> string \<Rightarrow> model_usage option \<Rightarrow> string option \<Rightarrow> investigation_failure" where
  "invalid_investigation iv message usage raw =
     (case mk_InvestigationTranscript (transcript_of iv) of
        Inl e \<Rightarrow> (e, None) | Inr t \<Rightarrow> (InvalidClaimAgentOutput message usage raw, Some t))"

definition context_ranges :: "InvestigationStartingContext \<Rightarrow> (string \<times> nat \<times> nat) set" where
  "context_ranges c =
     (\<Union>o' \<in> set (ic_shared_observables c).
        {(fst (ro_identity o'), ro_head_start_line o', ro_head_end_line o'),
         (fst (ro_identity o'), ro_base_start_line o', ro_base_end_line o')})"

definition payload_ranges :: "payload \<Rightarrow> (string \<times> nat \<times> nat) set" where
  "payload_ranges p =
     (case p of Accepted a \<Rightarrow> set (map (\<lambda>m. (me_path m, me_start_line m, me_end_line m)) (pl2_matches a)) | Refused _ _ _ \<Rightarrow> {})"

definition payload_identities :: "payload \<Rightarrow> string set" where
  "payload_identities p =
     (case p of Accepted a \<Rightarrow> set (map fst (somes (map me_symbol (pl2_matches a)))) | Refused _ _ _ \<Rightarrow> {})"

definition start_investigation :: "'w claim_investigator \<Rightarrow> exn + investigation" where
  "start_investigation ci =
     rbind (build_context (ci_planner ci)) (\<lambda>starting_context.
     Inr \<lparr>iv_context = starting_context, iv_context_sha = sha256 (utf8 (ci_context_json ci starting_context)),
          iv_toolbox = new_toolbox (pn2_investigator (ci_planner ci)) (ci_tool_budget ci), iv_observations = [],
          iv_response_hashes = [], iv_grounded_ranges = context_ranges starting_context, iv_discovered = {}, iv_turns = 0\<rparr>)"

text \<open>One call of the model: the request, the budget of the response and its decoding.\<close>

definition last_n :: "nat \<Rightarrow> 'a list \<Rightarrow> 'a list" where
  "last_n n xs = drop (length xs - n) xs"

definition turn_request :: "investigation \<Rightarrow> PullRequestNarrative \<Rightarrow> string \<Rightarrow> string \<Rightarrow> InvestigatorTurnRequest" where
  "turn_request iv narrative diff note =
     \<lparr>tu_narrative = narrative, tu_starting_context = iv_context iv, tu_diff = take 14000 diff,
      tu_observations = last_n 16 (iv_observations iv), tu_budget_note = note\<rparr>"

definition read_decision ::
    "'w claim_investigator \<Rightarrow> investigation \<Rightarrow> RawInvestigatorResponse
     \<Rightarrow> investigation_failure + investigation \<times> model_usage \<times> InvestigatorDecision" where
  "read_decision ci iv response =
     (let h = sha256 (utf8 (rv_text response));
          iv1 = iv\<lparr>iv_response_hashes := iv_response_hashes iv @ [h]\<rparr>;
          usage = rv_usage response in
      if ci_max_response_chars ci < length (rv_text response)
      then Inl (invalid_investigation iv1 ''claim investigator response exceeds the configured budget'' (Some usage) (Some h))
      else case decide (ci_decode ci) (rv_text response) of
        None \<Rightarrow> Inl (invalid_investigation iv1 ''claim investigator returned invalid structured output'' (Some usage) (Some h))
      | Some d \<Rightarrow> Inr (iv1, usage, d))"

definition ask_model ::
    "'w claim_investigator \<Rightarrow> PullRequestNarrative \<Rightarrow> string \<Rightarrow> string \<Rightarrow> investigation
     \<Rightarrow> ('w, investigation_failure, investigation \<times> model_usage \<times> InvestigatorDecision) prog" where
  "ask_model ci narrative diff note iv = (\<lambda>w.
     let iv1 = iv\<lparr>iv_turns := iv_turns iv + 1\<rparr> in
     case mk_InvestigatorTurnRequest (turn_request iv1 narrative diff note) of
       Inl e \<Rightarrow> (Inl (e, None), w)
     | Inr request \<Rightarrow>
         (case ci_model ci request w of
            (Inl e, w') \<Rightarrow> (Inl (e, None), w')
          | (Inr response, w') \<Rightarrow> (read_decision ci iv1 response, w')))"

section \<open>Tool calls\<close>

definition observe_call :: "ToolCallRequest \<Rightarrow> investigation \<Rightarrow> exn + investigation" where
  "observe_call call iv =
     rbind (tool_call (iv_toolbox iv) (tr_tool call) (to_arguments call)) (\<lambda>(payload, tx).
     Inr (iv\<lparr>iv_toolbox := tx,
             iv_observations := iv_observations iv @ [\<lparr>on_tool = tr_tool call, on_arguments = to_arguments call, on_result = payload\<rparr>],
             iv_grounded_ranges := iv_grounded_ranges iv \<union> payload_ranges payload,
             iv_discovered := iv_discovered iv \<union> payload_identities payload\<rparr>))"

definition observe_calls :: "ToolCallRequest list \<Rightarrow> investigation \<Rightarrow> exn + investigation" where
  "observe_calls calls iv = rfold observe_call calls iv"

definition FINAL_NOTE :: string where
  "FINAL_NOTE = ''investigation budget is exhausted; you must CONCLUDE this turn with a grounded claim or an abstention''"

definition final_turn ::
    "'w claim_investigator \<Rightarrow> PullRequestNarrative \<Rightarrow> string \<Rightarrow> investigation
     \<Rightarrow> ('w, investigation_failure, investigation \<times> model_usage \<times> InvestigatorDecision) prog" where
  "final_turn ci narrative diff iv =
     pbind (ask_model ci narrative diff FINAL_NOTE iv) (\<lambda>(iv1, usage, d).
     if dc_action d \<noteq> CONCLUDE
     then praise (invalid_investigation iv1 ''claim investigator did not conclude within its turn budget'' (Some usage)
            (Some (last (iv_response_hashes iv1))))
     else preturn (iv1, usage, d))"

text \<open>The loop of \<open>investigate\<close>; \<open>None\<close> is fuel that ran out.\<close>

fun turns_loop ::
    "nat \<Rightarrow> 'w claim_investigator \<Rightarrow> PullRequestNarrative \<Rightarrow> string \<Rightarrow> investigation \<Rightarrow> 'w
     \<Rightarrow> ((investigation_failure + investigation \<times> model_usage \<times> InvestigatorDecision) \<times> 'w) option" where
  "turns_loop 0 ci narrative diff iv w = None"
| "turns_loop (Suc fuel) ci narrative diff iv w =
     (case ask_model ci narrative diff (remaining_budget_note (iv_toolbox iv)) iv w of
        (Inl e, w1) \<Rightarrow> Some (Inl e, w1)
      | (Inr (iv1, usage, d), w1) \<Rightarrow>
          (if dc_action d = CONCLUDE then Some (Inr (iv1, usage, d), w1)
           else case observe_calls (dc_tool_calls d) iv1 of
             Inl e \<Rightarrow> Some (Inl (e, None), w1)
           | Inr iv2 \<Rightarrow>
               (case begin_turn (iv_toolbox iv2) of
                  (began, tx) \<Rightarrow>
                    let iv3 = iv2\<lparr>iv_toolbox := tx\<rparr> in
                    if \<not> began \<or> exhausted tx then Some (final_turn ci narrative diff iv3 w1)
                    else turns_loop fuel ci narrative diff iv3 w1)))"

section \<open>Grounding\<close>

definition refuse_claim :: "model_usage \<Rightarrow> string \<Rightarrow> string \<Rightarrow> exn" where
  "refuse_claim usage response_sha256 message = InvalidClaimAgentOutput message (Some usage) (Some response_sha256)"

definition discovered_observable :: "identity \<Rightarrow> IndexedSymbol \<Rightarrow> IndexedSymbol \<Rightarrow> bool \<Rightarrow> exn + RankedObservable" where
  "discovered_observable k base head changed =
     mk_RankedObservable
       \<lparr>ro_identity = k, ro_kind = sy_kind head, ro_rank = rank_observable head None, ro_public = sy_public head,
        ro_exported = sy_exported head, ro_implementation_changed = changed, ro_reasons = [DISCOVERED_DURING_INVESTIGATION],
        ro_reaches_new_head_symbols = [],
        ro_base_start_line = sy_start_line base, ro_base_end_line = sy_end_line base,
        ro_head_start_line = sy_start_line head, ro_head_end_line = sy_end_line head\<rparr>"

text \<open>The verified comparison of an identity, from the indexes alone.\<close>

definition verified_comparison :: "investigator \<Rightarrow> (string \<Rightarrow> exn) \<Rightarrow> identity \<Rightarrow> exn + SymbolComparison" where
  "verified_comparison ri refuse k =
     (case compare_symbol ri (Some (fst k)) (Some (snd k)) (Some 4) of
        Inl (InvestigationQueryError m) \<Rightarrow> Inl (refuse (''claim interface could not be verified against the indexes: '' @ m))
      | Inl e \<Rightarrow> Inl e
      | Inr comparison \<Rightarrow>
          (case filter (\<lambda>c. key_of c = k) (sq_comparisons comparison) of
             [] \<Rightarrow> Inl (refuse (''claim interface does not exist in the immutable BASE/HEAD indexes: '' @ identity_text k))
           | verified # _ \<Rightarrow> Inr verified))"

definition admit_discovered ::
    "investigator \<Rightarrow> identity \<Rightarrow> InvestigationStartingContext \<Rightarrow> string set \<Rightarrow> model_usage \<Rightarrow> string \<Rightarrow> exn + RankedObservable" where
  "admit_discovered ri k context' discovered usage response_sha256 =
     (let refuse = refuse_claim usage response_sha256 in
      rbind (guard (identity_text k \<notin> set (map (\<lambda>s. identity_text (nh_identity s)) (ic_new_head_symbols context')))
        (refuse ''claim interface exists only on HEAD; a differential experiment requires an interface present on both revisions'')) (\<lambda>_.
      rbind (guard (identity_text k \<in> discovered)
        (refuse (''claim interface is neither a deterministic shared observable nor an interface discovered during investigation: ''
                 @ identity_text k))) (\<lambda>_.
      rbind (verified_comparison ri refuse k) (\<lambda>verified.
      rbind (guard (sk_presence verified = PRESENT_ON_BOTH)
        (refuse (''claim interface '' @ (if sk_presence verified = NEW_ON_HEAD then ''exists only on HEAD'' else ''was removed from HEAD'')
                 @ ''; a differential experiment requires an interface present on both revisions''))) (\<lambda>_.
      case (sk_base verified, sk_head verified) of
        (Some base, Some head) \<Rightarrow>
          rbind (guard (sy_kind head \<in> OBSERVABLE_KINDS)
            (refuse (''claim interface kind '' @ str_symbol_kind (sy_kind head) @ '' is not an admissible observable''))) (\<lambda>_.
          rbind (relevance_identities ri) (\<lambda>relevant.
          rbind (guard (sk_implementation_changed verified = Some True \<or> identity_text k \<in> relevant)
            (refuse (''claim interface exists on both revisions but is unrelated to this pull request: '' @ identity_text k
                     @ '' neither changed nor references a changed symbol''))) (\<lambda>_.
          discovered_observable k base head (sk_implementation_changed verified = Some True))))
      | _ \<Rightarrow> Inl AssertionError)))))"

definition citation_of :: "RankedObservable \<Rightarrow> SupportingContextRef" where
  "citation_of o' =
     \<lparr>sc_path = fst (ro_identity o'), sc_start_line = int (ro_head_start_line o'), sc_end_line = int (ro_head_end_line o'),
      sc_relevance = take 300 (str_rank (ro_rank o') @ '' shared observable '' @ snd (ro_identity o'))\<rparr>"

definition investigated_claim :: "InvestigatorDecision \<Rightarrow> InvestigatorClaimDraft \<Rightarrow> identity \<Rightarrow> RankedObservable \<Rightarrow> BehavioralClaim" where
  "investigated_claim d draft k o' =
     \<lparr>cl_claim_id = DETERMINISTIC_CLAIM_ID, cl_summary = id_summary draft,
      cl_observable_operation = id_observable_operation draft, cl_trigger_condition = id_trigger_condition draft,
      cl_expected_head_observation = id_expected_head_observation draft,
      cl_expected_base_hypothesis = id_expected_base_hypothesis draft, cl_shared_interface = identity_text k,
      cl_preconditions = id_preconditions draft, cl_action = id_action draft, cl_expected_behavior = id_expected_behavior draft,
      cl_affected_symbols = [\<lparr>as_path = fst k, as_qualified_name = snd k\<rparr>], cl_supporting_context = [citation_of o'],
      cl_confidence = id_confidence draft, cl_testability = TESTABLE, cl_reasoning_summary = take 600 (dc_reasoning d)\<rparr>"

definition claimed_observable ::
    "investigator \<Rightarrow> InvestigatorClaimDraft \<Rightarrow> InvestigationStartingContext \<Rightarrow> string set \<Rightarrow> model_usage \<Rightarrow> string
     \<Rightarrow> exn + identity \<times> RankedObservable" where
  "claimed_observable ri draft context' discovered usage response_sha256 =
     (case mk_ObservableIdentity (id_interface_path draft, id_interface_qualified_name draft) of
        Inl e \<Rightarrow> Inl (refuse_claim usage response_sha256
                   (''claim interface identity is not a valid repository symbol: '' @ message_of e))
      | Inr k \<Rightarrow>
          (case context_observable context' k of
             Some o' \<Rightarrow> Inr (k, o')
           | None \<Rightarrow> rbind (admit_discovered ri k context' discovered usage response_sha256) (\<lambda>o'. Inr (k, o'))))"

text \<open>\<open>_normalize\<close>; the decision concludes, so it has a disposition.\<close>

definition normalize_decision ::
    "investigator \<Rightarrow> InvestigatorDecision \<Rightarrow> InvestigationStartingContext \<Rightarrow> string set \<Rightarrow> model_usage \<Rightarrow> string
     \<Rightarrow> exn + ClaimSelection" where
  "normalize_decision ri d context' discovered usage response_sha256 =
     (case (dc_disposition d, dc_claim d) of
        (None, _) \<Rightarrow> Inl AssertionError
      | (Some disposition, None) \<Rightarrow>
          mk_ClaimSelection \<lparr>se_disposition = disposition, se_claim = None, se_explanation = take 700 (dc_reasoning d)\<rparr>
      | (Some _, Some draft) \<Rightarrow>
          rbind (claimed_observable ri draft context' discovered usage response_sha256) (\<lambda>(k, o').
          mk_ClaimSelection
            \<lparr>se_disposition = SELECTED, se_claim = Some (investigated_claim d draft k o'),
             se_explanation = take 700 (dc_reasoning d)\<rparr>))"

section \<open>The investigation\<close>

definition conclude ::
    "'w claim_investigator \<Rightarrow> investigation \<Rightarrow> model_usage \<Rightarrow> InvestigatorDecision
     \<Rightarrow> investigation_failure + ClaimInvestigationResult" where
  "conclude ci iv usage d =
     (let raw = last (iv_response_hashes iv) in
      case normalize_decision (pn2_investigator (ci_planner ci)) d (iv_context iv) (iv_discovered iv) usage raw of
        Inl (InvalidClaimAgentOutput m usage raw) \<Rightarrow> Inl (invalid_investigation iv m usage raw)
      | Inl e \<Rightarrow> Inl (e, None)
      | Inr selection \<Rightarrow>
          (case mk_InvestigationTranscript (transcript_of iv) of
             Inl e \<Rightarrow> Inl (e, None)
           | Inr t \<Rightarrow>
               Inr \<lparr>cv_agent_result = \<lparr>ca_selection = selection, ca_usage = usage, ca_raw_response_sha256 = raw\<rparr>,
                    cv_transcript = t, cv_starting_context = iv_context iv\<rparr>))"

definition investigate_with ::
    "nat \<Rightarrow> 'w claim_investigator \<Rightarrow> PullRequestNarrative \<Rightarrow> string \<Rightarrow> 'w
     \<Rightarrow> ((investigation_failure + ClaimInvestigationResult) \<times> 'w) option" where
  "investigate_with fuel ci narrative diff w =
     (case start_investigation ci of
        Inl e \<Rightarrow> Some (Inl (e, None), w)
      | Inr iv \<Rightarrow>
          map_option (\<lambda>(r, w1). (rbind r (\<lambda>(iv1, usage, d). conclude ci iv1 usage d), w1))
            (turns_loop fuel ci narrative diff iv w))"

text \<open>The fuel is more than the rounds the budget of turns allows; it is proved never to run out.\<close>

definition investigate ::
    "'w claim_investigator \<Rightarrow> PullRequestNarrative \<Rightarrow> string \<Rightarrow> ('w, investigation_failure, ClaimInvestigationResult) prog" where
  "investigate ci narrative diff w =
     (case investigate_with (Suc (tb_max_turns (ci_tool_budget ci))) ci narrative diff w of
        None \<Rightarrow> (Inl (RuntimeError ''unreachable'', None), w) | Some r \<Rightarrow> r)"

section \<open>The factory\<close>

record 'w investigator_factory =
  fa_model :: "InvestigatorTurnRequest \<Rightarrow> ('w, exn, RawInvestigatorResponse) prog"
  fa_decode :: "string \<Rightarrow> InvestigatorDecision option"
  fa_context_json :: "InvestigationStartingContext \<Rightarrow> string"
  fa_source_repository :: "git_objects option"
  fa_reader :: source_reader
  fa_excluded_paths :: "string list"
  fa_priority_paths :: "string list"
  fa_index_budget :: "RepositoryIndexBudget option"
  fa_context_budget :: "StartingContextBudget option"
  fa_tool_budget :: "ToolBudget option"

definition or_else :: "'a option \<Rightarrow> 'a \<Rightarrow> 'a" where
  "or_else v fallback = (case v of None \<Rightarrow> fallback | Some a \<Rightarrow> a)"

definition factory_index :: "'w investigator_factory \<Rightarrow> RevisionRole \<Rightarrow> string \<Rightarrow> exn + RepositoryIndex" where
  "factory_index fa role sha =
     rbind (mk_Revision role sha) (\<lambda>revision.
     from_git (fa_reader fa) (fa_source_repository fa) revision (or_else (fa_index_budget fa) default_index_budget)
       (fa_excluded_paths fa) (fa_priority_paths fa))"

definition factory_build :: "'w investigator_factory \<Rightarrow> string \<Rightarrow> string \<Rightarrow> exn + 'w claim_investigator" where
  "factory_build fa base_sha head_sha =
     rbind (factory_index fa BASE base_sha) (\<lambda>base.
     rbind (factory_index fa HEAD head_sha) (\<lambda>head.
     rbind (mk_RepositoryInvestigator base head default_investigation_budget) (\<lambda>ri.
     mk_claim_investigator (fa_model fa) (fa_decode fa) (fa_context_json fa)
       \<lparr>pn2_investigator = ri, pn2_budget = or_else (fa_context_budget fa) default_context_budget\<rparr>
       (fa_tool_budget fa) 12000)))"

text \<open>The investigator as the evidence workflow calls it: an invalid output is an exception of the workflow.\<close>

definition investigator_boundary ::
    "'w investigator_factory \<Rightarrow> string \<Rightarrow> string \<Rightarrow> PullRequestNarrative \<Rightarrow> string
     \<Rightarrow> ('w, exn, ClaimAgentResult \<times> InvestigationTranscript) prog" where
  "investigator_boundary fa base_sha head_sha narrative diff =
     pbind (plift (factory_build fa base_sha head_sha)) (\<lambda>ci w.
     case investigate ci narrative diff w of
       (Inl (e, _), w1) \<Rightarrow> (Inl e, w1)
     | (Inr result, w1) \<Rightarrow> (Inr (cv_agent_result result, cv_transcript result), w1))"

end
