(* ===== verification/InvestigatorProperties.thy ===== *)
theory InvestigatorProperties
  imports InvestigationProperties ClaimInvestigator
begin

text \<open>
  The investigator as a whole: the toolbox's budgets as an invariant of its calls, the loop's rounds as a
  measure, and the grounding of a selected claim in the two indexes.
\<close>

section \<open>The toolbox\<close>

definition ok_calls :: "ToolCallRecord list \<Rightarrow> ToolCallRecord list" where
  "ok_calls calls = filter (\<lambda>c. tc_status c = OK) calls"

definition calls_of :: "InvestigationToolName \<Rightarrow> ToolCallRecord list \<Rightarrow> nat" where
  "calls_of tool calls = length (filter (\<lambda>c. tc_tool c = tool) (ok_calls calls))"

text \<open>The records are numbered in order, and what was accepted and shown is within the budget.\<close>

definition calls_within :: "ToolBudget \<Rightarrow> ToolCallRecord list \<Rightarrow> bool" where
  "calls_within b calls =
     (map tc_sequence calls = [1..<Suc (length calls)]
      \<and> length (ok_calls calls) \<le> tb_max_total_calls b
      \<and> (\<forall>tool. calls_of tool calls \<le> tb_max_calls_per_tool b)
      \<and> sum_list (map tc_source_chars calls) \<le> tb_max_total_source_chars b)"

definition toolbox_ok :: "toolbox \<Rightarrow> bool" where
  "toolbox_ok tx =
     (calls_within (tx_budget tx) (tx_calls tx) \<and> (\<forall>tool. tx_per_tool tx tool = calls_of tool (tx_calls tx))
      \<and> tx_source_chars tx = sum_list (map tc_source_chars (tx_calls tx)))"

lemma new_toolbox_ok: "toolbox_ok (new_toolbox ri b)"
  by (simp add: toolbox_ok_def calls_within_def new_toolbox_def calls_of_def ok_calls_def)

lemma serialize_matches_used: "serialize_matches remaining used ms = (es, u, t) \<Longrightarrow> used \<le> remaining \<Longrightarrow> u \<le> remaining"
  by (induction remaining used ms arbitrary: es u t rule: serialize_matches.induct)
     (auto simp: Let_def split: option.splits if_splits prod.splits)

lemma serialize_used: "serialize tx r = (p, u, t) \<Longrightarrow> u \<le> tb_max_total_source_chars (tx_budget tx) - tx_source_chars tx"
  by (auto simp: serialize_def split: prod.splits dest!: serialize_matches_used)

lemma call_record_ok: "call_record tx tool arguments status n t chars detail = Inr r \<Longrightarrow>
    tc_sequence r = Suc (length (tx_calls tx)) \<and> tc_tool r = tool \<and> tc_status r = status \<and> tc_source_chars r = chars"
  by (auto simp: call_record_def mk_ToolCallRecord_def rbind_eq_Inr)

text \<open>Which parts of the toolbox a call leaves alone.\<close>

definition same_limits :: "toolbox \<Rightarrow> toolbox \<Rightarrow> bool" where
  "same_limits tx tx' =
     (tx_budget tx' = tx_budget tx \<and> tx_turn tx' = tx_turn tx \<and> tx_investigator tx' = tx_investigator tx
      \<and> length (tx_calls tx') \<le> Suc (length (tx_calls tx)))"

lemma refuse_call_keeps:
  assumes "refuse_call tx tool arguments status detail = Inr (p, tx')" "toolbox_ok tx" "status \<noteq> OK"
  shows "toolbox_ok tx' \<and> same_limits tx tx'"
proof (cases tool)
  case (Some name)
  with assms(1) obtain r where "call_record tx name arguments status 0 False 0 detail = Inr r"
    "tx' = tx\<lparr>tx_calls := tx_calls tx @ [r]\<rparr>"
    by (auto simp: refuse_call_def rbind_eq_Inr Let_def)
  with assms(2,3) show ?thesis
    by (auto simp: toolbox_ok_def calls_within_def calls_of_def ok_calls_def same_limits_def dest: call_record_ok)
qed (use assms in \<open>auto simp: refuse_call_def same_limits_def\<close>)

lemma accept_call_keeps:
  assumes "accept_call tx tool arguments result = Inr (p, tx')" "toolbox_ok tx"
    and "\<not> exhausted tx" "tx_per_tool tx tool < tb_max_calls_per_tool (tx_budget tx)"
  shows "toolbox_ok tx' \<and> same_limits tx tx'"
proof -
  obtain es u t where s: "serialize tx result = (es, u, t)" by (metis prod_cases3)
  with assms(1) obtain r n cut d where "call_record (tx\<lparr>tx_per_tool := (tx_per_tool tx)(tool := tx_per_tool tx tool + 1),
         tx_source_chars := tx_source_chars tx + u\<rparr>) tool arguments OK n cut u d = Inr r"
    and tx': "tx' = tx\<lparr>tx_per_tool := (tx_per_tool tx)(tool := tx_per_tool tx tool + 1),
         tx_source_chars := tx_source_chars tx + u, tx_calls := tx_calls tx @ [r]\<rparr>"
    by (auto simp: accept_call_def rbind_eq_Inr Let_def)
  then have r: "tc_sequence r = Suc (length (tx_calls tx))" "tc_tool r = tool" "tc_status r = OK" "tc_source_chars r = u"
    using call_record_ok by fastforce+
  have "length (ok_calls (tx_calls tx)) < tb_max_total_calls (tx_budget tx)"
    using assms(3) le_less_trans [OF length_filter_le] by (simp add: ok_calls_def exhausted_def not_le)
  moreover have "sum_list (map tc_source_chars (tx_calls tx)) + u \<le> tb_max_total_source_chars (tx_budget tx)"
    using serialize_used [OF s] assms(2) by (auto simp: toolbox_ok_def calls_within_def)
  ultimately show ?thesis using assms(2,4) r
    by (auto simp: tx' toolbox_ok_def calls_within_def calls_of_def ok_calls_def same_limits_def)
qed

lemma tool_call_cases:
  assumes "tool_call tx tool arguments = Inr (p, tx')"
  obtains (refused) t status detail where "refuse_call tx t arguments status detail = Inr (p, tx')" "status \<noteq> OK"
  | (accepted) name r where "accept_call tx name arguments r = Inr (p, tx')" "\<not> exhausted tx"
      "tx_per_tool tx name < tb_max_calls_per_tool (tx_budget tx)" "run_tool tx name arguments = Inr r"
proof (cases "tool_named tool")
  case None
  with assms show ?thesis by (intro refused [of None INVALID_ARGUMENTS]) (simp_all add: tool_call_def)
next
  case (Some name)
  show ?thesis
  proof (cases "exhausted tx \<or> tb_max_calls_per_tool (tx_budget tx) \<le> tx_per_tool tx name")
    case True
    with Some assms have "\<exists>detail. refuse_call tx (Some name) arguments BUDGET_EXHAUSTED detail = Inr (p, tx')"
      by (auto simp: tool_call_def split: if_splits)
    then show ?thesis using refused by (metis ToolCallStatus.distinct(3))
  next
    case False
    show ?thesis
    proof (cases "run_tool tx name arguments")
      case (Inl e)
      with Some False assms have "\<exists>detail. refuse_call tx (Some name) arguments INVALID_ARGUMENTS detail = Inr (p, tx')"
        by (cases e) (auto simp: tool_call_def simp del: append.simps split: if_splits)
      then show ?thesis using refused by (metis ToolCallStatus.distinct(1))
    next
      case (Inr r)
      with Some False assms show ?thesis by (intro accepted [of name r]) (simp_all add: tool_call_def)
    qed
  qed
qed

lemma tool_call_keeps:
  assumes "tool_call tx tool arguments = Inr (p, tx')" "toolbox_ok tx"
  shows "toolbox_ok tx' \<and> same_limits tx tx'"
  using assms by (elim tool_call_cases) (auto dest: refuse_call_keeps accept_call_keeps)

section \<open>One investigation\<close>

text \<open>What holds of the local variables at the start of a round.\<close>

definition round_ok :: "'w claim_investigator \<Rightarrow> investigation \<Rightarrow> bool" where
  "round_ok ci iv =
     (toolbox_ok (iv_toolbox iv) \<and> tx_budget (iv_toolbox iv) = ci_tool_budget ci
      \<and> 1 \<le> tx_turn (iv_toolbox iv) \<and> tx_turn (iv_toolbox iv) \<le> max 1 (tb_max_turns (ci_tool_budget ci))
      \<and> Suc (iv_turns iv) = tx_turn (iv_toolbox iv)
      \<and> length (tx_calls (iv_toolbox iv)) < max 1 (tb_max_total_calls (ci_tool_budget ci)))"

definition observed :: "investigation \<Rightarrow> investigation \<Rightarrow> bool" where
  "observed iv iv' =
     (toolbox_ok (iv_toolbox iv') \<and> tx_budget (iv_toolbox iv') = tx_budget (iv_toolbox iv)
      \<and> tx_turn (iv_toolbox iv') = tx_turn (iv_toolbox iv) \<and> iv_turns iv' = iv_turns iv \<and> iv_context iv' = iv_context iv)"

lemma observe_call_observed:
  assumes "observe_call call iv = Inr iv'" "toolbox_ok (iv_toolbox iv)"
  shows "observed iv iv' \<and> length (tx_calls (iv_toolbox iv')) \<le> Suc (length (tx_calls (iv_toolbox iv)))"
  using assms by (auto simp: observe_call_def rbind_eq_Inr observed_def same_limits_def dest!: tool_call_keeps)

lemma observe_calls_observed:
  "observe_calls calls iv = Inr iv' \<Longrightarrow> toolbox_ok (iv_toolbox iv) \<Longrightarrow>
     observed iv iv' \<and> length (tx_calls (iv_toolbox iv')) \<le> length calls + length (tx_calls (iv_toolbox iv))"
  unfolding observe_calls_def
proof (induction calls arbitrary: iv)
  case (Cons call calls)
  then obtain iv1 where "observe_call call iv = Inr iv1" "rfold observe_call calls iv1 = Inr iv'"
    by (auto simp: rbind_eq_Inr)
  with Cons.IH [of iv1] observe_call_observed [of call iv iv1] Cons.prems(2) show ?case by (auto simp: observed_def)
qed (auto simp: observed_def)

lemma begin_turn_cases: "begin_turn tx = (began, tx') \<Longrightarrow>
    tx' = (if began then tx\<lparr>tx_turn := tx_turn tx + 1\<rparr> else tx) \<and> (began \<longleftrightarrow> tx_turn tx < tb_max_turns (tx_budget tx))"
  by (auto simp: begin_turn_def split: if_splits)

lemma begin_turn_ok: "begin_turn tx = (began, tx') \<Longrightarrow> toolbox_ok tx \<Longrightarrow> toolbox_ok tx'"
  by (auto simp: begin_turn_def toolbox_ok_def split: if_splits)

text \<open>What a call of the model leaves of the investigation, whether it answers or not.\<close>

lemma ask_model_ok:
  "ask_model ci narrative diff note iv w = (Inr (iv', usage, d), w') \<Longrightarrow>
     iv_toolbox iv' = iv_toolbox iv \<and> iv_turns iv' = Suc (iv_turns iv) \<and> iv_context iv' = iv_context iv
     \<and> length (dc_tool_calls d) \<le> 4
     \<and> (\<exists>request response. ci_model ci request w = (Inr response, w'))"
  by (auto simp: ask_model_def read_decision_def Let_def decide_def decision_ok_def
      split: sum.splits prod.splits if_splits option.splits)

lemma mk_InvestigationTranscript_id: "mk_InvestigationTranscript t = Inr t' \<Longrightarrow> t' = t"
  by (auto simp: mk_InvestigationTranscript_def rbind_eq_Inr)

lemma invalid_investigation_transcript: "invalid_investigation iv m usage raw = (e, Some t) \<Longrightarrow> t = transcript_of iv"
  by (auto simp: invalid_investigation_def split: sum.splits dest: mk_InvestigationTranscript_id)

lemma ask_model_err:
  assumes "ask_model ci narrative diff note iv w = (Inl (e, Some t), w')"
  shows "it_turns t = Suc (iv_turns iv) \<and> it_tool_calls t = tx_calls (iv_toolbox iv)"
  using assms
  by (auto simp: ask_model_def read_decision_def Let_def transcript_of_def
      split: sum.splits prod.splits if_splits option.splits dest!: invalid_investigation_transcript)

section \<open>The rounds\<close>

definition transcript_within :: "ToolBudget \<Rightarrow> InvestigationTranscript \<Rightarrow> bool" where
  "transcript_within b t =
     (calls_within b (it_tool_calls t) \<and> it_turns t \<le> Suc (max 1 (tb_max_turns b))
      \<and> length (it_tool_calls t) \<le> max 1 (tb_max_total_calls b) + 3)"

text \<open>What is known when the loop is left, by an answer or by a failure.\<close>

definition left_ok :: "ToolBudget \<Rightarrow> investigation_failure + investigation \<times> model_usage \<times> InvestigatorDecision \<Rightarrow> bool" where
  "left_ok b r =
     (case r of Inl (e, None) \<Rightarrow> True | Inl (e, Some t) \<Rightarrow> transcript_within b t
      | Inr (iv, usage, d) \<Rightarrow> transcript_within b (transcript_of iv) \<and> dc_action d = CONCLUDE)"

text \<open>A measure of the world that one call of the model raises by one at most, such as the calls made so far.\<close>

definition counts_calls :: "('w \<Rightarrow> nat) \<Rightarrow> 'w claim_investigator \<Rightarrow> bool" where
  "counts_calls calls ci = (\<forall>request w. calls (snd (ci_model ci request w)) \<le> Suc (calls w))"

lemma ask_model_calls:
  "counts_calls calls ci \<Longrightarrow> calls (snd (ask_model ci narrative diff note iv w)) \<le> Suc (calls w)"
  unfolding ask_model_def Let_def counts_calls_def
  by (auto split: sum.splits prod.splits) (metis le_SucI snd_conv order_refl)+

lemma transcript_within_intro:
  "toolbox_ok (iv_toolbox iv) \<Longrightarrow> tx_budget (iv_toolbox iv) = b \<Longrightarrow> iv_turns iv \<le> Suc (max 1 (tb_max_turns b)) \<Longrightarrow>
     length (tx_calls (iv_toolbox iv)) \<le> max 1 (tb_max_total_calls b) + 3 \<Longrightarrow> transcript_within b (transcript_of iv)"
  by (auto simp: transcript_within_def transcript_of_def toolbox_ok_def)

lemma ask_left_ok:
  assumes "ask_model ci narrative diff note iv w = (Inl (e, ft), w')"
    and "toolbox_ok (iv_toolbox iv)" "tx_budget (iv_toolbox iv) = ci_tool_budget ci"
    and "iv_turns iv \<le> max 1 (tb_max_turns (ci_tool_budget ci))"
    and "length (tx_calls (iv_toolbox iv)) \<le> max 1 (tb_max_total_calls (ci_tool_budget ci)) + 3"
  shows "left_ok (ci_tool_budget ci) (Inl (e, ft))"
  using assms ask_model_err [of ci narrative diff "note" iv w e _ w']
  by (cases ft) (auto simp: left_ok_def transcript_within_def toolbox_ok_def)

lemma final_turn_left_ok:
  assumes "final_turn ci narrative diff iv w = (r, w')" "counts_calls calls ci" "calls w \<le> iv_turns iv"
    and tx: "toolbox_ok (iv_toolbox iv)" "tx_budget (iv_toolbox iv) = ci_tool_budget ci"
    and bounds: "iv_turns iv \<le> max 1 (tb_max_turns (ci_tool_budget ci))"
      "length (tx_calls (iv_toolbox iv)) \<le> max 1 (tb_max_total_calls (ci_tool_budget ci)) + 3"
  shows "left_ok (ci_tool_budget ci) r \<and> calls w' \<le> Suc (max 1 (tb_max_turns (ci_tool_budget ci)))"
proof -
  obtain a w1 where a: "ask_model ci narrative diff FINAL_NOTE iv w = (a, w1)" by fastforce
  with assms(1) have w': "w' = w1" by (auto simp: final_turn_def pbind_def split: sum.splits if_splits)
  have "calls w1 \<le> Suc (calls w)" using ask_model_calls [OF assms(2), of narrative diff FINAL_NOTE iv w] a by simp
  moreover have "left_ok (ci_tool_budget ci) r"
  proof (cases a)
    case (Inl f)
    with a assms(1) have "r = Inl f" by (simp add: final_turn_def pbind_def)
    with ask_left_ok [OF _ tx bounds] a Inl show ?thesis by (cases f) blast
  next
    case (Inr x)
    then obtain iv1 usage d where x: "a = Inr (iv1, usage, d)" by (cases x) auto
    note k = ask_model_ok [OF a [unfolded x]]
    with tx bounds have "transcript_within (ci_tool_budget ci) (transcript_of iv1)" by (intro transcript_within_intro) auto
    with a x assms(1) show ?thesis
      by (auto simp: final_turn_def pbind_def left_ok_def split: if_splits option.splits dest!: invalid_investigation_transcript)
  qed
  ultimately show ?thesis using assms(3) bounds(1) w' by simp
qed

lemma next_round:
  assumes "round_ok ci iv" "ask_model ci narrative diff note iv w = (Inr (iv1, usage, d), w1)"
    and "observe_calls (dc_tool_calls d) iv1 = Inr iv2" "begin_turn (iv_toolbox iv2) = (began, tx)"
  shows "toolbox_ok tx \<and> tx_budget tx = ci_tool_budget ci \<and> iv_turns iv2 = Suc (iv_turns iv)
      \<and> iv_turns iv2 \<le> max 1 (tb_max_turns (ci_tool_budget ci))
      \<and> length (tx_calls tx) \<le> max 1 (tb_max_total_calls (ci_tool_budget ci)) + 3
      \<and> (began \<and> \<not> exhausted tx \<longrightarrow> round_ok ci (iv2\<lparr>iv_toolbox := tx\<rparr>))"
proof -
  note k = ask_model_ok [OF assms(2)]
  have o: "observed iv1 iv2 \<and> length (tx_calls (iv_toolbox iv2)) \<le> length (dc_tool_calls d) + length (tx_calls (iv_toolbox iv1))"
    using observe_calls_observed [OF assms(3)] k assms(1) by (simp add: round_ok_def)
  have tx: "toolbox_ok tx" using begin_turn_ok [OF assms(4)] o by (simp add: observed_def)
  show ?thesis using begin_turn_cases [OF assms(4)] k o assms(1) tx
    by (auto simp: round_ok_def observed_def exhausted_def not_le)
qed

lemma turns_loop_left_ok:
  "turns_loop fuel ci narrative diff iv w = Some (r, w') \<Longrightarrow> round_ok ci iv \<Longrightarrow> counts_calls calls ci \<Longrightarrow> calls w \<le> iv_turns iv \<Longrightarrow>
     left_ok (ci_tool_budget ci) r \<and> calls w' \<le> Suc (max 1 (tb_max_turns (ci_tool_budget ci)))"
proof (induction fuel arbitrary: iv w)
  case (Suc fuel)
  obtain a w1 where a: "ask_model ci narrative diff (remaining_budget_note (iv_toolbox iv)) iv w = (a, w1)" by fastforce
  have w1: "calls w1 \<le> Suc (calls w)" using ask_model_calls [OF Suc.prems(3), of narrative diff _ iv w] a by (metis snd_conv)
  from Suc.prems(2) have start: "toolbox_ok (iv_toolbox iv)" "tx_budget (iv_toolbox iv) = ci_tool_budget ci"
    "iv_turns iv < max 1 (tb_max_turns (ci_tool_budget ci))"
    "length (tx_calls (iv_toolbox iv)) \<le> max 1 (tb_max_total_calls (ci_tool_budget ci)) + 3"
    by (auto simp: round_ok_def)
  show ?case
  proof (cases a)
    case (Inl f)
    with Suc.prems(1) a have "r = Inl f" "w' = w1" by auto
    with ask_left_ok [OF _ start(1,2) _ start(4)] a Inl start(3) w1 Suc.prems(4) show ?thesis by (cases f) auto
  next
    case (Inr x)
    then obtain iv1 usage d where x: "a = Inr (iv1, usage, d)" by (cases x) auto
    note k = ask_model_ok [OF a [unfolded x]]
    show ?thesis
    proof (cases "dc_action d = CONCLUDE")
      case True
      with Suc.prems(1) a x have "r = Inr (iv1, usage, d)" "w' = w1" by auto
      with True k start w1 Suc.prems(4) show ?thesis by (auto simp: left_ok_def intro!: transcript_within_intro)
    next
      case False
      show ?thesis
      proof (cases "observe_calls (dc_tool_calls d) iv1")
        case (Inl e)
        with False Suc.prems(1,4) a x w1 start(3) show ?thesis by (auto simp: left_ok_def)
      next
        case (Inr iv2)
        obtain began tx where b: "begin_turn (iv_toolbox iv2) = (began, tx)" by fastforce
        note n = next_round [OF Suc.prems(2) a [unfolded x] Inr b]
        have w2: "calls w1 \<le> iv_turns (iv2\<lparr>iv_toolbox := tx\<rparr>)" using n w1 Suc.prems(4) by simp
        show ?thesis
        proof (cases "\<not> began \<or> exhausted tx")
          case True
          with False Suc.prems(1) a x Inr b have "final_turn ci narrative diff (iv2\<lparr>iv_toolbox := tx\<rparr>) w1 = (r, w')"
            by (simp add: Let_def)
          with final_turn_left_ok [OF this Suc.prems(3) w2] n show ?thesis by simp
        next
          case False
          with \<open>dc_action d \<noteq> CONCLUDE\<close> Suc.prems(1) a x Inr b
          have "turns_loop fuel ci narrative diff (iv2\<lparr>iv_toolbox := tx\<rparr>) w1 = Some (r, w')" by (simp add: Let_def)
          with Suc.IH [OF this _ Suc.prems(3) w2] n False show ?thesis by simp
        qed
      qed
    qed
  qed
qed simp

section \<open>The budget of an investigation\<close>

text \<open>The investigator with a model that counts its calls in the world.\<close>

definition counting :: "'w claim_investigator \<Rightarrow> (nat \<times> 'w) claim_investigator" where
  "counting ci =
     \<lparr>ci_model = (\<lambda>request (n, w). case ci_model ci request w of (r, w') \<Rightarrow> (r, (Suc n, w'))), ci_decode = ci_decode ci,
      ci_context_json = ci_context_json ci, ci_planner = ci_planner ci, ci_tool_budget = ci_tool_budget ci,
      ci_max_response_chars = ci_max_response_chars ci\<rparr>"

lemma counting_counts: "counts_calls fst (counting ci)"
  by (auto simp: counts_calls_def counting_def split: prod.splits)

lemma counting_budget [simp]: "ci_tool_budget (counting ci) = ci_tool_budget ci"
  by (simp add: counting_def)

lemma start_round_ok: "start_investigation ci = Inr iv \<Longrightarrow> round_ok ci iv"
  by (auto simp: start_investigation_def rbind_eq_Inr round_ok_def new_toolbox_ok) (simp_all add: new_toolbox_def)

lemma start_no_calls: "start_investigation ci = Inr iv \<Longrightarrow> iv_turns iv = 0"
  by (auto simp: start_investigation_def rbind_eq_Inr)

definition result_within :: "ToolBudget \<Rightarrow> investigation_failure + ClaimInvestigationResult \<Rightarrow> bool" where
  "result_within b r =
     (case r of Inl (e, None) \<Rightarrow> True | Inl (e, Some t) \<Rightarrow> transcript_within b t
      | Inr result \<Rightarrow> transcript_within b (cv_transcript result))"

lemma conclude_within:
  assumes "transcript_within b (transcript_of iv)"
  shows "result_within b (conclude ci iv usage d)"
proof -
  have "result_within b (Inl (invalid_investigation iv m usage' raw))" for m usage' raw
    using assms by (auto simp: result_within_def split: prod.splits option.splits dest!: invalid_investigation_transcript)
  moreover have "mk_InvestigationTranscript (transcript_of iv) = Inr t \<Longrightarrow> t = transcript_of iv" for t
    by (rule mk_InvestigationTranscript_id)
  moreover have "result_within b (Inl (e, None))" "result_within b (Inr result) = transcript_within b (cv_transcript result)" for e result
    by (simp_all add: result_within_def)
  ultimately show ?thesis using assms by (auto simp: conclude_def Let_def split: sum.splits exn.splits)
qed

lemma investigate_with_within:
  assumes "investigate_with fuel ci narrative diff w = Some (r, w')" "counts_calls calls ci" "calls w = 0"
  shows "result_within (ci_tool_budget ci) r \<and> calls w' \<le> Suc (max 1 (tb_max_turns (ci_tool_budget ci)))"
proof (cases "start_investigation ci")
  case (Inl e)
  with assms show ?thesis by (auto simp: investigate_with_def result_within_def)
next
  case (Inr iv)
  with assms(1) obtain a where a: "turns_loop fuel ci narrative diff iv w = Some (a, w')"
    and r: "r = rbind a (\<lambda>(iv1, usage, d). conclude ci iv1 usage d)"
    by (auto simp: investigate_with_def)
  from turns_loop_left_ok [OF a start_round_ok [OF Inr] assms(2)] start_no_calls [OF Inr] assms(3)
  have left: "left_ok (ci_tool_budget ci) a" and w': "calls w' \<le> Suc (max 1 (tb_max_turns (ci_tool_budget ci)))" by auto
  from left have "result_within (ci_tool_budget ci) r" unfolding r
    by (cases a) (auto simp: left_ok_def result_within_def [of _ "Inl _"] split: option.splits intro: conclude_within)
  with w' show ?thesis by simp
qed

lemma turns_loop_fuel:
  "tb_max_turns (ci_tool_budget ci) < fuel + tx_turn (iv_toolbox iv) \<Longrightarrow> 0 < fuel \<Longrightarrow> round_ok ci iv \<Longrightarrow>
     (\<exists>r. turns_loop fuel ci narrative diff iv w = Some r \<and> turns_loop (Suc fuel) ci narrative diff iv w = Some r)"
proof (induction fuel arbitrary: iv w)
  case (Suc fuel)
  obtain a w1 where a: "ask_model ci narrative diff (remaining_budget_note (iv_toolbox iv)) iv w = (a, w1)" by fastforce
  show ?case
  proof (cases a)
    case (Inl f)
    with a show ?thesis by simp
  next
    case (Inr x)
    then obtain iv1 usage d where x: "a = Inr (iv1, usage, d)" by (cases x) auto
    show ?thesis
    proof (cases "dc_action d = CONCLUDE")
      case True
      with a x show ?thesis by simp
    next
      case False
      show ?thesis
      proof (cases "observe_calls (dc_tool_calls d) iv1")
        case (Inl e)
        with False a x show ?thesis by simp
      next
        case (Inr iv2)
        obtain began tx where b: "begin_turn (iv_toolbox iv2) = (began, tx)" by fastforce
        note n = next_round [OF Suc.prems(3) a [unfolded x] Inr b]
        show ?thesis
        proof (cases "\<not> began \<or> exhausted tx")
          case True
          with False a x Inr b show ?thesis by (simp add: Let_def)
        next
          case on: False
          with n have round: "round_ok ci (iv2\<lparr>iv_toolbox := tx\<rparr>)" by simp
          from n Suc.prems(3) round have turn: "tx_turn tx = Suc (tx_turn (iv_toolbox iv))" by (simp add: round_ok_def)
          have "0 < fuel"
          proof (rule ccontr)
            assume "\<not> 0 < fuel"
            with Suc.prems(1) turn have "tb_max_turns (ci_tool_budget ci) < tx_turn tx" by simp
            with round show False using Suc.prems(3) turn by (auto simp: round_ok_def max_def split: if_splits)
          qed
          with Suc.IH [of "iv2\<lparr>iv_toolbox := tx\<rparr>" w1] round turn Suc.prems(1)
          obtain r where "turns_loop fuel ci narrative diff (iv2\<lparr>iv_toolbox := tx\<rparr>) w1 = Some r"
            "turns_loop (Suc fuel) ci narrative diff (iv2\<lparr>iv_toolbox := tx\<rparr>) w1 = Some r" by auto
          with False a x Inr b on show ?thesis by (simp add: Let_def)
        qed
      qed
    qed
  qed
qed simp

lemma investigate_with_fuel:
  "investigate_with (Suc (tb_max_turns (ci_tool_budget ci)) + k) ci narrative diff w = Some (investigate ci narrative diff w)"
proof (cases "start_investigation ci")
  case (Inl e)
  then show ?thesis by (simp add: investigate_def investigate_with_def)
next
  case (Inr iv)
  let ?n = "Suc (tb_max_turns (ci_tool_budget ci))"
  have enough: "tb_max_turns (ci_tool_budget ci) < ?n + j + tx_turn (iv_toolbox iv)" for j by simp
  have "\<exists>r. turns_loop ?n ci narrative diff iv w = Some r \<and> turns_loop (?n + k) ci narrative diff iv w = Some r"
  proof (induction k)
    case 0
    then show ?case using turns_loop_fuel [OF enough [of 0] _ start_round_ok [OF Inr]] by fastforce
  next
    case (Suc k)
    then show ?case using turns_loop_fuel [OF enough [of k] _ start_round_ok [OF Inr], of narrative diff w] by fastforce
  qed
  then show ?thesis using Inr by (auto simp: investigate_def investigate_with_def)
qed

text \<open>
  C21: every investigation ends: fuel beyond the turns of the budget changes nothing and the loop returns a
  result or raises, whatever the model answers.
\<close>

theorem investigation_terminates:
  "investigate_with (Suc (tb_max_turns (ci_tool_budget ci)) + k) ci narrative diff w = Some (investigate ci narrative diff w)"
  by (rule investigate_with_fuel)

definition investigation_within :: "'w claim_investigator \<Rightarrow> PullRequestNarrative \<Rightarrow> string \<Rightarrow> 'w \<Rightarrow> bool" where
  "investigation_within ci narrative diff w =
     (case investigate (counting ci) narrative diff (0, w) of
        (r, (calls, w')) \<Rightarrow> calls \<le> Suc (max 1 (tb_max_turns (ci_tool_budget ci))) \<and> result_within (ci_tool_budget ci) r)"


section \<open>Grounding\<close>

lemma prioritized_set: "set (prioritized ri cs) = set cs"
  using prioritized_mset [of ri cs] by (metis set_mset_mset)

lemma selected_identity: "selected_symbols p q ix k = Some s \<Longrightarrow> identity_of s = k \<and> s \<in> set (ix_symbols ix)"
  by (auto simp: selected_symbols_def dest!: map_of_SomeD)

lemma map_of_filter_own:
  assumes "\<And>s. s \<in> set ss \<Longrightarrow> f s = k \<Longrightarrow> P s"
  shows "map_of (map (\<lambda>s. (f s, s)) (filter P ss)) k = map_of (map (\<lambda>s. (f s, s)) ss) k"
  using assms by (induction ss) auto

text \<open>Looking an identity up by path and name finds what looking it up among all symbols finds.\<close>

lemma selected_by_identity: "selected_symbols (Some (fst k)) (Some (snd k)) ix k = selected_symbols None None ix k"
proof -
  have "filter (wanted None None) ss = ss" for ss by (simp add: wanted_def)
  moreover have "wanted (Some (fst k)) (Some (snd k)) s" if "identity_of s = k" for s
    using that by (auto simp: wanted_def symbol_matches_def identity_of_def)
  ultimately show ?thesis
    unfolding selected_symbols_def rev_map rev_filter by (subst map_of_filter_own) auto
qed

lemma mk_SymbolComparison_id: "mk_SymbolComparison c = Inr c' \<Longrightarrow> c' = c"
  by (auto simp: mk_SymbolComparison_def rbind_eq_Inr)

lemma comparison_of:
  assumes "comparisons ri p q = Inr cs" "c \<in> set cs"
  shows "sk_base c = selected_symbols p q (ri_base ri) (key_of c)" "sk_head c = selected_symbols p q (ri_head ri) (key_of c)"
    "sk_presence c = NEW_ON_HEAD \<Longrightarrow> sk_base c = None"
    "sk_base c = Some b \<Longrightarrow> sk_head c = Some h \<Longrightarrow> sk_implementation_changed c = Some (symbols_differ b h)"
proof -
  from assms(2) rmap_elem [OF assms(1) [unfolded comparisons_def]] obtain k
    where "compare_identity (selected_symbols p q (ri_base ri)) (selected_symbols p q (ri_head ri)) k = Inr c" by blast
  then have c: "c = \<lparr>sk_path = fst k, sk_qualified_name = snd k,
      sk_presence = (if selected_symbols p q (ri_base ri) k \<noteq> None \<and> selected_symbols p q (ri_head ri) k \<noteq> None then PRESENT_ON_BOTH
                     else if selected_symbols p q (ri_head ri) k \<noteq> None then NEW_ON_HEAD else REMOVED_FROM_HEAD),
      sk_base = selected_symbols p q (ri_base ri) k, sk_head = selected_symbols p q (ri_head ri) k,
      sk_implementation_changed = (case (selected_symbols p q (ri_base ri) k, selected_symbols p q (ri_head ri) k) of
        (Some b, Some h) \<Rightarrow> Some (symbols_differ b h) | _ \<Rightarrow> None)\<rparr>"
    unfolding compare_identity_def by (rule mk_SymbolComparison_id)
  then have "key_of c = k" by (simp add: key_of_def)
  with c show "sk_base c = selected_symbols p q (ri_base ri) (key_of c)" "sk_head c = selected_symbols p q (ri_head ri) (key_of c)"
    "sk_presence c = NEW_ON_HEAD \<Longrightarrow> sk_base c = None"
    "sk_base c = Some b \<Longrightarrow> sk_head c = Some h \<Longrightarrow> sk_implementation_changed c = Some (symbols_differ b h)"
    by (auto split: if_splits)
qed

text \<open>Why a shared symbol may carry a claim: it changed, it reaches a change, or it calls a symbol new on HEAD.\<close>

definition reaches_change :: "investigator \<Rightarrow> identity \<Rightarrow> bool" where
  "reaches_change ri k = (\<exists>cs. comparisons ri None None = Inr cs \<and> identity_text k \<in> identity_text ` relevant_keys ri cs)"

definition calls_new_symbol :: "investigator \<Rightarrow> identity \<Rightarrow> bool" where
  "calls_new_symbol ri k =
     (\<exists>s r. selected_symbols None None (ri_head ri) (identity_of s) = Some s \<and> selected_symbols None None (ri_base ri) (identity_of s) = None
        \<and> r \<in> set (ix_references (ri_head ri)) \<and> rank_reference True (sy_qualified_name s) r \<noteq> None
        \<and> identity_text (ir_path r, ir_scope r) = identity_text k)"

definition supports_claim :: "investigator \<Rightarrow> identity \<Rightarrow> RankedObservable \<Rightarrow> bool" where
  "supports_claim ri k o' =
     (\<exists>b h. selected_symbols None None (ri_base ri) k = Some b \<and> selected_symbols None None (ri_head ri) k = Some h
        \<and> sy_kind h \<in> OBSERVABLE_KINDS \<and> (symbols_differ b h \<or> reaches_change ri k \<or> calls_new_symbol ri k)
        \<and> ro_identity o' = k \<and> ro_head_start_line o' = sy_start_line h \<and> ro_head_end_line o' = sy_end_line h)"

lemma supports_claimI:
  "selected_symbols None None (ri_base ri) k = Some b \<Longrightarrow> selected_symbols None None (ri_head ri) k = Some h \<Longrightarrow>
     sy_kind h \<in> OBSERVABLE_KINDS \<Longrightarrow> symbols_differ b h \<or> reaches_change ri k \<or> calls_new_symbol ri k \<Longrightarrow>
     ro_identity o' = k \<Longrightarrow> ro_head_start_line o' = sy_start_line h \<Longrightarrow> ro_head_end_line o' = sy_end_line h \<Longrightarrow> supports_claim ri k o'"
  unfolding supports_claim_def by blast

lemma mk_ObservableIdentity_id: "mk_ObservableIdentity k = Inr k' \<Longrightarrow> k' = k"
  by (auto simp: mk_ObservableIdentity_def rbind_eq_Inr)

lemma mk_RankedObservable_id: "mk_RankedObservable a = Inr b \<Longrightarrow> b = a"
  by (auto simp: mk_RankedObservable_def rbind_eq_Inr)

lemma caller_identities_from:
  "caller_identities s ms found = Inr ks \<Longrightarrow> k \<in> set ks \<Longrightarrow>
     k \<in> set found \<or> (\<exists>m \<in> set ms. \<exists>r. mt_reference m = Some r \<and> k = (ir_path r, ir_scope r))"
proof (induction ms arbitrary: found)
  case (Cons m ms)
  from Cons.prems(1) obtain found' where rest: "caller_identities s ms found' = Inr ks"
    and found': "set found' \<subseteq> set found \<union> {(ir_path r, ir_scope r) |r. mt_reference m = Some r}"
    by (cases "mt_reference m") (force simp: rbind_eq_Inr split: if_splits dest!: mk_ObservableIdentity_id)+
  from Cons.IH [OF rest Cons.prems(2)] found' show ?case by auto
qed simp

lemma found_at_reference:
  assumes "found_at ` A \<subseteq> found_at ` B"
  shows "mt_reference ` A \<subseteq> mt_reference ` B"
proof
  fix x assume "x \<in> mt_reference ` A"
  then obtain m where "m \<in> A" "x = mt_reference m" by blast
  with assms obtain m' where "m' \<in> B" "found_at m = found_at m'" by blast
  with \<open>x = mt_reference m\<close> show "x \<in> mt_reference ` B" by (auto simp: found_at_def)
qed

lemma callers_of_from:
  assumes "callers_of pl s = Inr ks" "k \<in> set ks"
  shows "\<exists>r \<in> set (ix_references (ri_head (pn2_investigator pl))).
           rank_reference True (sy_qualified_name s) r \<noteq> None \<and> k = (ir_path r, ir_scope r)"
proof -
  let ?ri = "pn2_investigator pl"
  from assms obtain result where result: "find_callers ?ri ''HEAD'' (sy_qualified_name s) (Some (int (sb_max_callers_per_symbol (pn2_budget pl)))) = Inr result"
    and "caller_identities s (rr_matches result) [] = Inr ks"
    by (auto simp: callers_of_def split: sum.splits if_splits)
  with caller_identities_from [OF this(2) assms(2)] obtain m r where m: "m \<in> set (rr_matches result)" "mt_reference m = Some r"
    "k = (ir_path r, ir_scope r)" by auto
  from result obtain ranked limit where ranked: "ranked_references (ri_head ?ri) HEAD (sy_qualified_name s) True = Inr ranked"
    and "bounded_result ?ri FIND_CALLERS HEAD (map snd ranked) limit = Inr result"
    by (auto simp: find_callers_def find_ranked_def rbind_eq_Inr query_revision_def query_symbol_def index_of_def split: if_splits)
  then have "set (map mt_reference (rr_matches result)) \<subseteq> set (map (mt_reference \<circ> snd) ranked)"
  proof -
    obtain items t where t: "take_matches (bg_max_total_source_chars (ri_budget ?ri)) (length ranked) 0 0 (take limit (map snd ranked)) = (items, t)"
      by fastforce
    then have "rr_matches result = items"
      using \<open>bounded_result ?ri FIND_CALLERS HEAD (map snd ranked) limit = Inr result\<close>
      by (auto simp: bounded_result_def dest!: mk_InvestigationResult_id)
    moreover from take_matches_bounds [OF t le0] have "found_at ` set items \<subseteq> found_at ` set (map snd ranked)"
      by (meson image_mono order_trans set_take_subset)
    ultimately show ?thesis using found_at_reference [of "set items" "set (map snd ranked)"] by (simp add: image_image comp_def)
  qed
  with m obtain x where "x \<in> set ranked" "mt_reference (snd x) = Some r" by force
  with ranked_callers_elem [OF ranked] m(3) show ?thesis by fastforce
qed

lemma caller_pairs_from:
  assumes "caller_pairs pl traced = Inr pairs" "(caller, name) \<in> set pairs"
  shows "\<exists>s \<in> set traced. \<exists>k r. caller = identity_text k \<and> name = sy_qualified_name s \<and> k = (ir_path r, ir_scope r)
           \<and> r \<in> set (ix_references (ri_head (pn2_investigator pl))) \<and> rank_reference True (sy_qualified_name s) r \<noteq> None"
proof -
  from assms obtain ps where ps: "rmap (\<lambda>s. rbind (callers_of pl s) (\<lambda>ks. Inr (map (\<lambda>k. (identity_text k, sy_qualified_name s)) ks))) traced = Inr ps"
    "(caller, name) \<in> set (concat ps)"
    by (auto simp: caller_pairs_def rbind_eq_Inr)
  then obtain p where "p \<in> set ps" "(caller, name) \<in> set p" by auto
  with rmap_elem [OF ps(1)] obtain s ks where "s \<in> set traced" "callers_of pl s = Inr ks" "p = map (\<lambda>k. (identity_text k, sy_qualified_name s)) ks"
    by (fastforce simp: rbind_eq_Inr)
  with callers_of_from [OF this(2)] \<open>(caller, name) \<in> set p\<close> show ?thesis by fastforce
qed

text \<open>The comparisons of an answer are those of the two indexes.\<close>

lemma compare_observables_from:
  assumes "compare_observables ri maximum = Inr ob"
  obtains cs where "comparisons ri None None = Inr cs" "set (ob_present_on_both ob) \<subseteq> set cs"
    "\<And>s. s \<in> set (ob_new_on_head ob) \<Longrightarrow> \<exists>c \<in> set cs. sk_presence c = NEW_ON_HEAD \<and> sk_head c = Some s"
proof -
  from assms obtain cs limit where cs: "comparisons ri None None = Inr cs"
    and ob: "ob_present_on_both ob = filter (\<lambda>c. sk_presence c = PRESENT_ON_BOTH) (take limit (prioritized ri cs))"
      "ob_new_on_head ob = somes (map sk_head (filter (\<lambda>c. sk_presence c = NEW_ON_HEAD) (take limit (prioritized ri cs))))"
    by (auto simp: compare_observables_def rbind_eq_Inr Let_def mk_CrossRevisionObservables_def pair_header.extend_def
        simp del: checks.simps)
  have sub: "set (take limit (prioritized ri cs)) \<subseteq> set cs"
    using prioritized_set [of ri cs] set_take_subset by fastforce
  show thesis
  proof (rule that [OF cs])
    show "set (ob_present_on_both ob) \<subseteq> set cs" using ob sub by auto
    fix s assume "s \<in> set (ob_new_on_head ob)"
    then show "\<exists>c \<in> set cs. sk_presence c = NEW_ON_HEAD \<and> sk_head c = Some s"
      using ob sub by (auto simp: somes_def split: option.splits)
  qed
qed

lemma observable_reasons_ne: "observable_reasons c reached relevant \<noteq> [] \<Longrightarrow>
    sk_implementation_changed c = Some True \<or> reached \<noteq> [] \<or> relevant"
  by (auto simp: observable_reasons_def split: if_splits)

lemma ranked_comparison_supports:
  assumes "ranked_comparison pl pairs relevant c = Inr os" "o' \<in> set os"
    and cs: "comparisons (pn2_investigator pl) None None = Inr cs" "c \<in> set cs"
    and relevant: "relevance_identities (pn2_investigator pl) = Inr relevant"
    and pairs: "\<And>caller name k. (caller, name) \<in> set pairs \<Longrightarrow> caller = identity_text k \<Longrightarrow> calls_new_symbol (pn2_investigator pl) k"
  shows "supports_claim (pn2_investigator pl) (ro_identity o') o'"
proof -
  let ?ri = "pn2_investigator pl"
  from assms(1,2) obtain b h where bh: "sk_base c = Some b" "sk_head c = Some h" by (auto simp: ranked_comparison_def split: option.splits)
  note c = comparison_of [OF cs]
  have h: "identity_of h = key_of c" using c(2) bh selected_identity by metis
  from assms(1,2) bh obtain k where k: "symbol_identity h = Inr k" "sy_kind h \<in> OBSERVABLE_KINDS"
    and reasons: "observable_reasons c (reaches pairs (identity_text k)) (identity_text k \<in> relevant) \<noteq> []"
    and o': "ro_identity o' = k" "ro_head_start_line o' = sy_start_line h" "ro_head_end_line o' = sy_end_line h"
    by (auto simp: ranked_comparison_def rbind_eq_Inr Let_def split: if_splits dest!: mk_RankedObservable_id)
  have key: "k = key_of c" using k(1) h by (auto simp: symbol_identity_def dest: mk_ObservableIdentity_id)
  from observable_reasons_ne [OF reasons] have "symbols_differ b h \<or> reaches_change ?ri k \<or> calls_new_symbol ?ri k"
  proof (elim disjE)
    assume "sk_implementation_changed c = Some True"
    with c(4) [OF bh] show ?thesis by simp
  next
    assume "reaches pairs (identity_text k) \<noteq> []"
    then obtain name where "name \<in> set (reaches pairs (identity_text k))"
      by (cases "reaches pairs (identity_text k)") auto
    then have "(identity_text k, name) \<in> set pairs" by (auto simp: reaches_def dest!: in_set_takeD)
    with pairs show ?thesis by blast
  next
    assume "identity_text k \<in> relevant"
    with relevant show ?thesis by (auto simp: reaches_change_def relevance_identities_def rbind_eq_Inr)
  qed
  moreover have "selected_symbols None None (ri_base ?ri) k = Some b" "selected_symbols None None (ri_head ?ri) k = Some h"
    using c(1,2) bh key by simp_all
  ultimately show ?thesis using k(2) o' by (auto intro: supports_claimI [of _ _ b h])
qed

lemma build_context_supports:
  assumes "build_context pl = Inr c" "o' \<in> set (ic_shared_observables c)"
  shows "supports_claim (pn2_investigator pl) (ro_identity o') o'"
proof -
  let ?ri = "pn2_investigator pl"
  from assms(1) obtain ob pairs ranked relevant m n where ob: "compare_observables ?ri None = Inr ob"
    and pairs: "caller_pairs pl (take m (take n (filter (\<lambda>s. sy_kind s \<in> OBSERVABLE_KINDS) (ob_new_on_head ob)))) = Inr pairs"
    and relevant: "relevance_identities ?ri = Inr relevant"
    and ranked: "rank_shared pl (ob_present_on_both ob) pairs relevant = Inr ranked"
    and c: "ic_shared_observables c = take (sb_max_shared_observables (pn2_budget pl)) ranked"
    by (auto simp: build_context_def Let_def rbind_eq_Inr mk_InvestigationStartingContext_def simp del: checks.simps)
  obtain cs where cs: "comparisons ?ri None None = Inr cs" "set (ob_present_on_both ob) \<subseteq> set cs"
    "\<And>s. s \<in> set (ob_new_on_head ob) \<Longrightarrow> \<exists>c \<in> set cs. sk_presence c = NEW_ON_HEAD \<and> sk_head c = Some s"
    using compare_observables_from [OF ob] by blast
  have callers: "calls_new_symbol ?ri k" if "(caller, name) \<in> set pairs" "caller = identity_text k" for caller name k
  proof -
    from caller_pairs_from [OF pairs that(1)] obtain s k' r where s: "s \<in> set (ob_new_on_head ob)" "caller = identity_text k'"
      "k' = (ir_path r, ir_scope r)" "r \<in> set (ix_references (ri_head ?ri))" "rank_reference True (sy_qualified_name s) r \<noteq> None"
      by (auto dest!: in_set_takeD)
    from cs(3) [OF s(1)] obtain d where d: "d \<in> set cs" "sk_presence d = NEW_ON_HEAD" "sk_head d = Some s" by blast
    note e = comparison_of [OF cs(1) d(1)]
    from e(2) d(3) have "identity_of s = key_of d" using selected_identity by metis
    with e(1,2,3) d s that(2) show ?thesis unfolding calls_new_symbol_def by (intro exI [of _ s] exI [of _ r]) auto
  qed
  from ranked obtain rs where rs: "rmap (ranked_comparison pl pairs relevant) (ob_present_on_both ob) = Inr rs"
    "ranked = sort_key observable_sort_key (concat rs)"
    by (auto simp: rank_shared_def rbind_eq_Inr)
  from assms(2) c rs(2) have "o' \<in> set (concat rs)" by (auto dest: in_set_takeD)
  then obtain os where "os \<in> set rs" "o' \<in> set os" by auto
  with rmap_elem [OF rs(1)] obtain d where d: "d \<in> set (ob_present_on_both ob)" "ranked_comparison pl pairs relevant d = Inr os" by blast
  show ?thesis
    by (rule ranked_comparison_supports [OF d(2) \<open>o' \<in> set os\<close> cs(1) _ relevant]) (use d(1) cs(2) callers in \<open>auto\<close>)
qed

lemma query_values_same: "pair_path ri v = Inr p \<Longrightarrow> p = v" "query_symbol ri v = Inr q \<Longrightarrow> q = v"
  by (auto simp: pair_path_def query_path_text_def query_symbol_def rbind_eq_Inr split: if_splits sum.splits dest: source_path_same)

lemma compare_symbol_from:
  assumes "compare_symbol ri (Some p) (Some q) maximum = Inr result" "c \<in> set (sq_comparisons result)"
  shows "\<exists>cs. comparisons ri (Some p) (Some q) = Inr cs \<and> c \<in> set cs"
proof -
  from assms(1) obtain cs limit where "comparisons ri (Some p) (Some q) = Inr cs"
    "mk_SymbolComparisonResult (pair_header.extend (pair_header_of ri COMPARE_SYMBOL (limit < length cs)) \<lparr>sq_comparisons = take limit cs\<rparr>) = Inr result"
    by (auto simp: compare_symbol_def rbind_eq_Inr optional_def dest!: query_values_same)
  moreover from this(2) have "sq_comparisons result = take limit cs"
    by (auto simp: mk_SymbolComparisonResult_def rbind_eq_Inr pair_header.extend_def simp del: checks.simps)
  ultimately show ?thesis using assms(2) by (auto dest: in_set_takeD)
qed

lemma admit_discovered_supports:
  assumes "admit_discovered ri k context' discovered usage sha = Inr o'"
  shows "supports_claim ri k o'"
proof -
  let ?refuse = "refuse_claim usage sha"
  from assms obtain c b h relevant where c: "verified_comparison ri ?refuse k = Inr c"
    and bh: "sk_base c = Some b" "sk_head c = Some h" "sy_kind h \<in> OBSERVABLE_KINDS"
    and relevant: "relevance_identities ri = Inr relevant" "sk_implementation_changed c = Some True \<or> identity_text k \<in> relevant"
    and o': "discovered_observable k b h (sk_implementation_changed c = Some True) = Inr o'"
    unfolding admit_discovered_def Let_def
    by (clarsimp simp: rbind_eq_Inr) (auto simp: rbind_eq_Inr split: option.split_asm)
  from c obtain result where result: "compare_symbol ri (Some (fst k)) (Some (snd k)) (Some 4) = Inr result"
    "c \<in> set (sq_comparisons result)" "key_of c = k"
    by (auto simp: verified_comparison_def filter_eq_Cons_iff split: sum.splits exn.splits list.splits)
  from compare_symbol_from [OF result(1,2)] obtain cs
    where cs: "comparisons ri (Some (fst k)) (Some (snd k)) = Inr cs" "c \<in> set cs" by blast
  note e = comparison_of [OF cs]
  have "symbols_differ b h \<or> reaches_change ri k"
    using relevant e(4) [OF bh(1,2)] by (auto simp: reaches_change_def relevance_identities_def rbind_eq_Inr)
  moreover have "selected_symbols None None (ri_base ri) k = Some b" "selected_symbols None None (ri_head ri) k = Some h"
    using e(1,2) bh(1,2) result(3) by (simp_all add: selected_by_identity)
  ultimately show ?thesis using bh(3) o'
    by (intro supports_claimI [of _ _ b h]) (auto simp: discovered_observable_def dest!: mk_RankedObservable_id)
qed

text \<open>The interface, the affected symbol and the citation of a claim, all of one supported symbol.\<close>

definition grounded_claim :: "investigator \<Rightarrow> BehavioralClaim \<Rightarrow> bool" where
  "grounded_claim ri c =
     (\<exists>k o'. supports_claim ri k o' \<and> cl_shared_interface c = identity_text k
        \<and> cl_affected_symbols c = [\<lparr>as_path = fst k, as_qualified_name = snd k\<rparr>] \<and> cl_supporting_context c = [citation_of o'])"

lemma claimed_observable_supports:
  assumes "claimed_observable ri draft c discovered usage sha = Inr (k, o')"
    and "\<And>o'. o' \<in> set (ic_shared_observables c) \<Longrightarrow> supports_claim ri (ro_identity o') o'"
  shows "supports_claim ri k o'"
  using assms
  by (auto simp: claimed_observable_def context_observable_def find_Some_iff rbind_eq_Inr split: sum.splits option.splits
      intro: admit_discovered_supports) (metis nth_mem)

lemma normalize_decision_grounded:
  assumes "normalize_decision ri d c discovered usage sha = Inr selection"
    and "\<And>o'. o' \<in> set (ic_shared_observables c) \<Longrightarrow> supports_claim ri (ro_identity o') o'"
  shows "case se_claim selection of None \<Rightarrow> se_disposition selection \<noteq> SELECTED | Some claim \<Rightarrow> grounded_claim ri claim"
proof (cases "dc_claim d")
  case None
  with assms(1) show ?thesis
    by (auto simp: normalize_decision_def mk_ClaimSelection_def rbind_eq_Inr simp del: checks.simps split: option.splits)
next
  case (Some draft)
  with assms(1) obtain k o' where k: "claimed_observable ri draft c discovered usage sha = Inr (k, o')"
    and claim: "se_claim selection = Some (investigated_claim d draft k o')"
    by (auto simp: normalize_decision_def mk_ClaimSelection_def rbind_eq_Inr simp del: checks.simps split: option.splits)
  from claimed_observable_supports [OF k assms(2)] claim show ?thesis
    by (auto simp: grounded_claim_def investigated_claim_def)
qed

lemma turns_loop_context:
  "turns_loop fuel ci narrative diff iv w = Some (Inr (iv', usage, d), w') \<Longrightarrow> round_ok ci iv \<Longrightarrow> iv_context iv' = iv_context iv"
proof (induction fuel arbitrary: iv w)
  case (Suc fuel)
  obtain a w1 where a: "ask_model ci narrative diff (remaining_budget_note (iv_toolbox iv)) iv w = (a, w1)" by fastforce
  with Suc.prems(1) obtain iv1 usage1 d1 where x: "a = Inr (iv1, usage1, d1)" by (cases a) auto
  note k = ask_model_ok [OF a [unfolded x]]
  show ?case
  proof (cases "dc_action d1 = CONCLUDE")
    case True
    with Suc.prems(1) a x k show ?thesis by auto
  next
    case False
    with Suc.prems(1) a x obtain iv2 where iv2: "observe_calls (dc_tool_calls d1) iv1 = Inr iv2" by (auto split: sum.splits)
    obtain began tx where b: "begin_turn (iv_toolbox iv2) = (began, tx)" by fastforce
    note n = next_round [OF Suc.prems(2) a [unfolded x] iv2 b]
    have same: "iv_context iv2 = iv_context iv"
      using observe_calls_observed [OF iv2] k Suc.prems(2) by (simp add: round_ok_def observed_def)
    show ?thesis
    proof (cases "\<not> began \<or> exhausted tx")
      case True
      with False Suc.prems(1) a x iv2 b have "final_turn ci narrative diff (iv2\<lparr>iv_toolbox := tx\<rparr>) w1 = (Inr (iv', usage, d), w')"
        by (simp add: Let_def)
      then obtain iv3 usage3 d3 w3 where "ask_model ci narrative diff FINAL_NOTE (iv2\<lparr>iv_toolbox := tx\<rparr>) w1 = (Inr (iv3, usage3, d3), w3)"
        "iv' = iv3"
        by (auto simp: final_turn_def guard_simps split: if_splits)
      with ask_model_ok [OF this(1)] same show ?thesis by simp
    next
      case on: False
      with False Suc.prems(1) a x iv2 b
      have "turns_loop fuel ci narrative diff (iv2\<lparr>iv_toolbox := tx\<rparr>) w1 = Some (Inr (iv', usage, d), w')" by (simp add: Let_def)
      from Suc.IH [OF this] n on same show ?thesis by simp
    qed
  qed
qed simp

definition investigation_grounded :: "'w claim_investigator \<Rightarrow> investigation_failure + ClaimInvestigationResult \<Rightarrow> bool" where
  "investigation_grounded ci r =
     (case r of Inl _ \<Rightarrow> True
      | Inr result \<Rightarrow>
          (case se_claim (ca_selection (cv_agent_result result)) of
             None \<Rightarrow> se_disposition (ca_selection (cv_agent_result result)) \<noteq> SELECTED
           | Some claim \<Rightarrow> grounded_claim (pn2_investigator (ci_planner ci)) claim))"

text \<open>
  C10: a claim an investigation selects is grounded, whatever the model answered: its interface is one symbol
  that the index of BASE and the index of HEAD both hold, of an admissible kind, which changed, reaches a
  changed symbol or syntactically calls a symbol new on HEAD; it names this symbol as affected and cites its
  lines on HEAD. Without a claim the disposition is an abstention.
\<close>

theorem investigated_claim_grounded: "investigation_grounded ci (fst (investigate ci narrative diff w))"
proof (cases "fst (investigate ci narrative diff w)")
  case (Inl e)
  then show ?thesis by (simp add: investigation_grounded_def)
next
  case (Inr result)
  have "investigate_with (Suc (tb_max_turns (ci_tool_budget ci))) ci narrative diff w = Some (investigate ci narrative diff w)"
    using investigate_with_fuel [of ci 0 narrative diff w] by simp
  moreover obtain w1 where "investigate ci narrative diff w = (Inr result, w1)" using Inr by (metis prod.collapse)
  ultimately obtain iv iv1 usage d w' where iv: "start_investigation ci = Inr iv"
    and loop: "turns_loop (Suc (tb_max_turns (ci_tool_budget ci))) ci narrative diff iv w = Some (Inr (iv1, usage, d), w')"
    and result: "conclude ci iv1 usage d = Inr result"
    by (auto simp: investigate_with_def rbind_eq_Inr simp del: turns_loop.simps split: sum.splits)
  from iv obtain c where c: "build_context (ci_planner ci) = Inr c" "iv_context iv = c"
    by (auto simp: start_investigation_def rbind_eq_Inr)
  have "iv_context iv1 = c" using turns_loop_context [OF loop start_round_ok [OF iv]] c(2) by simp
  with result obtain sha where "normalize_decision (pn2_investigator (ci_planner ci)) d c (iv_discovered iv1) usage sha
      = Inr (ca_selection (cv_agent_result result))"
    by (auto simp: conclude_def Let_def split: sum.splits exn.splits)
  from normalize_decision_grounded [OF this build_context_supports [OF c(1)]] Inr show ?thesis
    by (simp add: investigation_grounded_def)
qed

end
