(* ===== verification/Spec2Isabelle.thy ===== *)
theory Spec2Isabelle
  imports Evidence FirestoreRefinement ProductPreparation ControlPlane Reliability Challenge EvidenceSoundness GithubChecks CloudProcessor InvestigatorProperties
begin

text \<open>
  A model of PatchProof, the service under \<open>src/patchproof/\<close> that receives a pull request, selects one
  behavioral claim of it, has a test written for the claim, runs the unchanged test on the BASE and the
  HEAD revision, and publishes a conclusion about that scenario as a GitHub Check. The definitions follow
  the source function by function and keep its names; an exception is a value of \<open>exn\<close> (\<open>PyExn\<close>), a
  fallible call is \<open>exn + 'a\<close>, a call with effects is a \<open>prog\<close> (\<open>Prelude\<close>): a function from the state to
  the outcome and the state in which the exception or the result left it.

  The parts, in the order in which a pull request meets them.

  Control plane. \<open>ControlPlane\<close> (\<open>github_webhook.py\<close>, \<open>control_plane.py\<close>, \<open>cloud_tasks.py\<close>): the
  webhook reads a bounded body, checks its HMAC, decodes and filters the event, accepts it into the store
  and dispatches a task. \<open>Sha256\<close> is SHA-256 and HMAC on 32-bit words. \<open>PrResolution\<close>
  (\<open>pr_resolution.py\<close>) is the other entry, by URL.

  State of a run. \<open>Workflow\<close> (\<open>workflow.py\<close>): the record of a run and \<open>apply_run_transition\<close>, the only
  way it changes. \<open>RunStore\<close>, \<open>SqliteStore\<close> (\<open>storage.py\<close>) keep runs, deliveries, evidence,
  publications and failures in tables; \<open>SqliteIndex\<close>, \<open>SqliteHistory\<close> and \<open>SqliteProperties\<close> prove what
  any history of operations keeps. \<open>FirestoreStore\<close> (\<open>firestore_store.py\<close>) is the other store, and
  \<open>FirestoreRefinement\<close> shows that it simulates the first. \<open>StoreOps\<close> is the protocol
  \<open>VerificationRunStore\<close>: a record of operations, the laws of a client as the locale \<open>run_store\<close>, and its
  interpretation by both stores; the worker, the workflow and the publisher are proved in the locale.

  Reading repositories. \<open>PyPath\<close>, \<open>PyRegex\<close>, \<open>PyGroups\<close> model what is used of \<open>pathlib\<close> and \<open>re\<close>.
  \<open>GitReader\<close> (\<open>context_retrieval.py\<close>) reads objects of Git; \<open>InstallStrategy\<close> and \<open>ExecContract\<close>
  (\<open>install_strategy.py\<close>, \<open>execution_contract.py\<close>) decide what may be run; \<open>ProductPreparation\<close>
  (\<open>product_preparation.py\<close>) makes the two revisions comparable.

  Running a test. \<open>Models\<close> (\<open>models.py\<close>) are the values. \<open>ExecRuntime\<close> (\<open>execution_runtime.py\<close>) is one
  child process with its environment and bounded output; \<open>PytestParser\<close> and \<open>PytestRunner\<close>
  (\<open>pytest_runner.py\<close>) inject a file, run one node and read its report; \<open>Challenge\<close> (\<open>git_workspace.py\<close>,
  \<open>environment_introspection.py\<close>, \<open>challenge.py\<close>) runs one artifact in two worktrees, and \<open>Evidence\<close>
  (\<open>evidence.py\<close>) classifies the pair.

  Indexing and investigating. \<open>RepositoryIndex\<close> (\<open>repository_index.py\<close>) reads the Python files of one
  commit within budgets and records their symbols, imports and references by visitors over a syntax tree;
  \<open>IndexProperties\<close> shows what every index guarantees. \<open>InvestigationTools\<close> (\<open>investigation_tools.py\<close>) are
  the queries over the indexes of BASE and HEAD, with the closure of what a change reaches;
  \<open>InvestigationToolbox\<close> (\<open>investigation_toolbox.py\<close>) offers four of them under budgets, and
  \<open>InvestigationProperties\<close> bounds their answers. \<open>ClaimInvestigation\<close> (\<open>claim_investigation.py\<close>) ranks the
  shared observables of a pull request, \<open>ClaimInvestigator\<close> (\<open>claim_investigator.py\<close>) is the loop with the
  model, and \<open>InvestigatorProperties\<close> shows that it ends, keeps its budgets and selects grounded claims only.
  \<open>investigator_boundary\<close> has the type of the workflow's argument \<open>ew_investigator\<close>, the alternative to the
  claim agent.

  Models and their answers. \<open>ClaimAgent\<close> (\<open>claim_agent.py\<close>) grounds the selected claim,
  \<open>CandidateGeneration\<close> and \<open>CandidateValidator\<close> (\<open>test_generation.py\<close>) bound and check the generated
  test, \<open>RepairFeedback\<close> (\<open>evidence_workflow.py\<close>) is what a repair is told, \<open>Reliability\<close>
  (\<open>model_reliability.py\<close>, \<open>reasoning_budget.py\<close>, \<open>reliable_worker.py\<close>) retries a call once and records
  the failure of a run.

  The run itself. \<open>EvidenceReport\<close> and \<open>EvidenceWorkflow\<close> (\<open>evidence_workflow.py\<close>) compose the parts
  above into \<open>execute\<close>; \<open>EvidenceSoundness\<close> proves its guarantee with triples for programs over any
  lawful store (\<open>run_store\<close>) and any lawful challenge (\<open>lawful_challenge\<close>), joined in \<open>evidence_run\<close>.
  \<open>GithubChecks\<close> (\<open>github_checks.py\<close>) formats the stored report and publishes it.

  In the cloud. \<open>CloudExecutor\<close> (\<open>cloud_executor.py\<close>) is the private service that fetches a pull request
  and runs a challenge; \<open>CloudControl\<close> (\<open>cloud_control.py\<close>) verifies the identity of a task and runs
  challenges remotely, the second interpretation of \<open>lawful_challenge\<close>; \<open>CloudProcessor\<close> processes the
  task of one run and records its failure.

  What the lemmas show. Per component: the constructors' checks and that operations keep the invariants
  (\<open>run_ok\<close>, the indexes of a store, the attempts of a generator); the behaviour on every branch, errors
  included; and the contracts used by the next part. Across components: a conclusion other than
  insufficient evidence needs the same node and bytes executed on both revisions with the right statuses,
  whatever models, host and store do; a run ends once, is replayed afterwards, and is published once; a
  failure is recorded and never becomes a verdict.

  Arguments of the model are what is not under \<open>src/\<close>: the models, HTTP, Git, the operating system,
  clocks and UUID sources, and the JSON, YAML, TOML, XML and \<open>ast\<close> parsers, each as a function that
  gives the typed value the code reads. What is relied on is a named definition: \<open>host_law\<close> (files),
  \<open>github_law\<close> (the Checks API), the task service's law in \<open>ControlPlane\<close>.

  Conventions and bounds. Strings are lists of 8-bit characters; a UUID is a number; durations are
  rationals and timestamps whole microseconds. Texts of error messages that quote sets or representations
  are shortened. Functions with fuel get the length of their text (\<open>replace_all\<close>, the matchers of
  \<open>PyRegex\<close>, \<open>sub\<close> and \<open>finditer\<close>), and each of their steps consumes a character, so the fuel is enough;
  the investigator's loop has more fuel than its budget of turns and is proved never to run out;
  removal of a worktree is tried twenty times and a candidate three times, as in the code. The walk of a
  syntax tree terminates by the size of its queue.

  Not modelled: the retrieval of snippets and signatures (\<open>context_retrieval.py\<close>), a walk of the standard
  library's \<open>ast\<close>; the Gemini and ADK adapters, which hold prompts and calls of those libraries; the analyze
  and status routes of the hosted service; the command line, the dashboard and the benchmarks, which render
  or evaluate. The behavioral fingerprint of a candidate hashes a dump of its normalised tree and is an
  argument of the validator. The concrete syntax of a JSON payload shown to a model is not modelled, its
  fields are.
\<close>

end
